(* ===== verification/Prelude.thy ===== *)
theory Prelude
  imports Main "HOL-Library.Char_ord" "HOL-Library.List_Lexorder"
begin

text \<open>
  What every component shares: the result type of fallible code and its sequencing, Rust's
  \<open>usize\<close> arithmetic on \<open>nat\<close>, UTF-8 strings as byte lists, substring search, decimal
  rendering, and the fact collections the component proofs draw on.

  A Rust \<open>String\<close> or \<open>&str\<close> is the list of its UTF-8 bytes, a \<open>string\<close> (a \<open>char\<close> is one
  byte), so \<open>length\<close> is Rust's \<open>len()\<close> and slicing is \<open>take\<close> and \<open>drop\<close>.
\<close>

named_theorems result_simps \<open>sequencing of fallible steps\<close>
named_theorems usize_simps \<open>checked and saturating arithmetic\<close>
named_theorems step_intros \<open>what one operation preserves\<close>

section \<open>Fallible code\<close>

text \<open>\<open>Result<T, E>\<close> is \<open>'e + 'a\<close>: \<open>Inl\<close> is \<open>Err\<close>, \<open>Inr\<close> is \<open>Ok\<close>. The operator \<open>?\<close>
  is \<open>result_bind\<close>.\<close>

definition result_bind :: "'e + 'a \<Rightarrow> ('a \<Rightarrow> 'e + 'b) \<Rightarrow> 'e + 'b" where
  "result_bind m f = (case m of Inl e \<Rightarrow> Inl e | Inr x \<Rightarrow> f x)"

definition ok_or :: "'e \<Rightarrow> 'a option \<Rightarrow> 'e + 'a" where
  "ok_or e v = (case v of None \<Rightarrow> Inl e | Some x \<Rightarrow> Inr x)"

text \<open>\<open>iter().map(f).collect::<Result<Vec<_>>>()\<close>: the first error ends the iteration.\<close>

fun result_map :: "('a \<Rightarrow> 'e + 'b) \<Rightarrow> 'a list \<Rightarrow> 'e + 'b list" where
  "result_map f [] = Inr []"
| "result_map f (x # xs) =
     result_bind (f x) (\<lambda>y. result_bind (result_map f xs) (\<lambda>ys. Inr (y # ys)))"

text \<open>The same with the position, as \<open>enumerate()\<close> gives it.\<close>

fun result_map_from :: "nat \<Rightarrow> (nat \<Rightarrow> 'a \<Rightarrow> 'e + 'b) \<Rightarrow> 'a list \<Rightarrow> 'e + 'b list" where
  "result_map_from i f [] = Inr []"
| "result_map_from i f (x # xs) =
     result_bind (f i x) (\<lambda>y. result_bind (result_map_from (Suc i) f xs) (\<lambda>ys. Inr (y # ys)))"

lemma result_bind_simps [simp, result_simps]:
  "result_bind (Inl e) f = Inl e"
  "result_bind (Inr x) f = f x"
  by (simp_all add: result_bind_def)

lemma result_bind_Inr_iff [result_simps]:
  "result_bind m f = Inr y \<longleftrightarrow> (\<exists>x. m = Inr x \<and> f x = Inr y)"
  by (cases m) auto

lemma result_bind_Inl_iff [result_simps]:
  "result_bind m f = Inl e \<longleftrightarrow> m = Inl e \<or> (\<exists>x. m = Inr x \<and> f x = Inl e)"
  by (cases m) auto

lemma ok_or_simps [simp, result_simps]:
  "ok_or e None = Inl e"
  "ok_or e (Some x) = Inr x"
  by (simp_all add: ok_or_def)

lemma ok_or_Inr_iff [result_simps]: "ok_or e v = Inr x \<longleftrightarrow> v = Some x"
  by (cases v) auto

lemma ok_or_Inl_iff [result_simps]: "ok_or e v = Inl e' \<longleftrightarrow> v = None \<and> e' = e"
  by (cases v) auto

lemma result_map_Inr_iff:
  "result_map f xs = Inr ys \<longleftrightarrow> list_all2 (\<lambda>x y. f x = Inr y) xs ys"
proof (induction xs arbitrary: ys)
  case Nil
  show ?case by (auto simp: eq_commute)
next
  case (Cons x xs)
  then show ?case by (auto simp: result_simps list_all2_Cons1)
qed

lemma result_map_length: "result_map f xs = Inr ys \<Longrightarrow> length ys = length xs"
  by (auto simp: result_map_Inr_iff dest: list_all2_lengthD)

lemma result_map_Inl_iff:
  "result_map f xs = Inl e \<longleftrightarrow>
     (\<exists>us x vs. xs = us @ x # vs \<and> (\<forall>u \<in> set us. \<exists>y. f u = Inr y) \<and> f x = Inl e)"
proof (induction xs)
  case Nil
  show ?case by simp
next
  case (Cons x xs)
  show ?case
  proof (cases "f x")
    case (Inl e')
    show ?thesis
    proof
      assume "result_map f (x # xs) = Inl e"
      with Inl have "x # xs = [] @ x # xs \<and> (\<forall>u \<in> set []. \<exists>y. f u = Inr y) \<and> f x = Inl e"
        by simp
      then show "\<exists>us z vs. x # xs = us @ z # vs \<and> (\<forall>u \<in> set us. \<exists>y. f u = Inr y) \<and> f z = Inl e"
        by blast
    next
      assume "\<exists>us z vs. x # xs = us @ z # vs \<and> (\<forall>u \<in> set us. \<exists>y. f u = Inr y) \<and> f z = Inl e"
      then obtain us z vs where a: "x # xs = us @ z # vs" "\<forall>u \<in> set us. \<exists>y. f u = Inr y" "f z = Inl e"
        by blast
      with Inl show "result_map f (x # xs) = Inl e" by (cases us) auto
    qed
  next
    case (Inr y)
    have "result_map f (x # xs) = Inl e \<longleftrightarrow> result_map f xs = Inl e"
      using Inr by (simp add: result_bind_Inl_iff)
    also have "\<dots> \<longleftrightarrow> (\<exists>us z vs. xs = us @ z # vs \<and> (\<forall>u \<in> set us. \<exists>y. f u = Inr y) \<and> f z = Inl e)"
      by (rule Cons.IH)
    also have "\<dots> \<longleftrightarrow> (\<exists>us z vs. x # xs = us @ z # vs \<and> (\<forall>u \<in> set us. \<exists>y. f u = Inr y) \<and> f z = Inl e)"
    proof
      assume "\<exists>us z vs. xs = us @ z # vs \<and> (\<forall>u \<in> set us. \<exists>y. f u = Inr y) \<and> f z = Inl e"
      then obtain us z vs where "xs = us @ z # vs" "\<forall>u \<in> set us. \<exists>y. f u = Inr y" "f z = Inl e"
        by blast
      with Inr have "x # xs = (x # us) @ z # vs \<and> (\<forall>u \<in> set (x # us). \<exists>y. f u = Inr y) \<and> f z = Inl e"
        by simp
      then show "\<exists>us z vs. x # xs = us @ z # vs \<and> (\<forall>u \<in> set us. \<exists>y. f u = Inr y) \<and> f z = Inl e"
        by blast
    next
      assume "\<exists>us z vs. x # xs = us @ z # vs \<and> (\<forall>u \<in> set us. \<exists>y. f u = Inr y) \<and> f z = Inl e"
      then obtain us z vs where a: "x # xs = us @ z # vs" "\<forall>u \<in> set us. \<exists>y. f u = Inr y" "f z = Inl e"
        by blast
      with Inr obtain us' where "us = x # us'" by (cases us) auto
      with a show "\<exists>us z vs. xs = us @ z # vs \<and> (\<forall>u \<in> set us. \<exists>y. f u = Inr y) \<and> f z = Inl e"
        by auto
    qed
    finally show ?thesis .
  qed
qed

lemma result_map_from_Inr_iff:
  "result_map_from i f xs = Inr ys \<longleftrightarrow>
     length ys = length xs \<and> (\<forall>k < length xs. f (i + k) (xs ! k) = Inr (ys ! k))"
proof (induction xs arbitrary: i ys)
  case Nil
  show ?case by auto
next
  case (Cons x xs)
  show ?case
  proof (cases ys)
    case Nil
    then show ?thesis by (auto simp: result_simps)
  next
    case (Cons y ys')
    have "result_map_from i f (x # xs) = Inr ys \<longleftrightarrow>
        f i x = Inr y \<and> result_map_from (Suc i) f xs = Inr ys'"
      using Cons by (auto simp: result_simps)
    also have "\<dots> \<longleftrightarrow> f i x = Inr y \<and> length ys' = length xs \<and>
        (\<forall>k < length xs. f (Suc i + k) (xs ! k) = Inr (ys' ! k))"
      by (simp add: Cons.IH)
    also have "\<dots> \<longleftrightarrow> length ys = length (x # xs) \<and>
        (\<forall>k < length (x # xs). f (i + k) ((x # xs) ! k) = Inr (ys ! k))"
      using Cons by (auto simp: less_Suc_eq_0_disj)
    finally show ?thesis .
  qed
qed

text \<open>A loop over a list whose body may return an error.\<close>

fun result_fold :: "('a \<Rightarrow> 's \<Rightarrow> 'e + 's) \<Rightarrow> 'a list \<Rightarrow> 's \<Rightarrow> 'e + 's" where
  "result_fold f [] s = Inr s"
| "result_fold f (x # xs) s = result_bind (f x s) (result_fold f xs)"

lemma result_fold_append:
  "result_fold f (xs @ ys) s = result_bind (result_fold f xs s) (result_fold f ys)"
proof (induction xs arbitrary: s)
  case (Cons x xs)
  then show ?case by (cases "f x s") auto
qed simp

lemma result_fold_cong:
  "(\<And>x s. x \<in> set xs \<Longrightarrow> f x s = g x s) \<Longrightarrow> result_fold f xs s = result_fold g xs s"
proof (induction xs arbitrary: s)
  case (Cons x xs)
  then show ?case by (cases "g x s") auto
qed simp

lemma result_bind_cong [fundef_cong]:
  "m = n \<Longrightarrow> (\<And>x. n = Inr x \<Longrightarrow> f x = g x) \<Longrightarrow> result_bind m f = result_bind n g"
  by (cases n) auto

lemma result_map_cong [fundef_cong]:
  "xs = ys \<Longrightarrow> (\<And>x. x \<in> set ys \<Longrightarrow> f x = g x) \<Longrightarrow> result_map f xs = result_map g ys"
proof -
  have "(\<And>x. x \<in> set ys \<Longrightarrow> f x = g x) \<Longrightarrow> result_map f ys = result_map g ys" by (induction ys) auto
  then show "xs = ys \<Longrightarrow> (\<And>x. x \<in> set ys \<Longrightarrow> f x = g x) \<Longrightarrow> result_map f xs = result_map g ys" by blast
qed

section \<open>Machine sizes\<close>

text \<open>\<open>usize\<close> on the pinned 64-bit target. Additions that the source guards are written with
  their guard; the others cannot leave the range for the buffers they count.\<close>

definition usize_max :: nat where
  "usize_max = 18446744073709551615"

definition checked_add_us :: "nat \<Rightarrow> nat \<Rightarrow> nat option" where
  "checked_add_us a b = (if a + b \<le> usize_max then Some (a + b) else None)"

definition checked_sub_us :: "nat \<Rightarrow> nat \<Rightarrow> nat option" where
  "checked_sub_us a b = (if b \<le> a then Some (a - b) else None)"

definition checked_mul_us :: "nat \<Rightarrow> nat \<Rightarrow> nat option" where
  "checked_mul_us a b = (if a * b \<le> usize_max then Some (a * b) else None)"

definition sat_add_us :: "nat \<Rightarrow> nat \<Rightarrow> nat" where
  "sat_add_us a b = min usize_max (a + b)"

lemma checked_add_us_eq_Some [usize_simps]:
  "checked_add_us a b = Some c \<longleftrightarrow> c = a + b \<and> a + b \<le> usize_max"
  by (auto simp: checked_add_us_def)

lemma checked_add_us_eq_None [usize_simps]:
  "checked_add_us a b = None \<longleftrightarrow> usize_max < a + b"
  by (auto simp: checked_add_us_def)

lemma checked_sub_us_eq_Some [usize_simps]:
  "checked_sub_us a b = Some c \<longleftrightarrow> b \<le> a \<and> c = a - b"
  by (auto simp: checked_sub_us_def)

lemma checked_sub_us_eq_None [usize_simps]:
  "checked_sub_us a b = None \<longleftrightarrow> a < b"
  by (auto simp: checked_sub_us_def)

lemma checked_mul_us_eq_Some [usize_simps]:
  "checked_mul_us a b = Some c \<longleftrightarrow> c = a * b \<and> a * b \<le> usize_max"
  by (auto simp: checked_mul_us_def)

lemma sat_add_us_le_iff [usize_simps]:
  "c < usize_max \<Longrightarrow> sat_add_us a b \<le> c \<longleftrightarrow> a + b \<le> c"
  by (auto simp: sat_add_us_def)

lemma sat_add_us_le: "sat_add_us a b \<le> a + b"
  by (simp add: sat_add_us_def)

section \<open>Text\<close>

text \<open>Decimal rendering, as \<open>{}\<close> prints an unsigned or signed integer.\<close>

fun show_nat :: "nat \<Rightarrow> string" where
  "show_nat n =
     (if n < 10 then [char_of (48 + n)] else show_nat (n div 10) @ [char_of (48 + n mod 10)])"

declare show_nat.simps [simp del]

definition show_int :: "int \<Rightarrow> string" where
  "show_int i = (if i < 0 then CHR ''-'' # show_nat (nat (- i)) else show_nat (nat i))"

text \<open>A value between apostrophes, as many messages quote it.\<close>

definition quoted :: "string \<Rightarrow> string" where
  "quoted s = CHR 0x27 # s @ [CHR 0x27]"

text \<open>\<open>[String]::join(sep)\<close>.\<close>

fun join_with :: "string \<Rightarrow> string list \<Rightarrow> string" where
  "join_with sep [] = []"
| "join_with sep [x] = x"
| "join_with sep (x # y # ys) = x @ sep @ join_with sep (y # ys)"

lemma length_join_with:
  "xs \<noteq> [] \<Longrightarrow>
     length (join_with sep xs) = sum_list (map length xs) + length sep * (length xs - 1)"
  by (induction sep xs rule: join_with.induct) auto

text \<open>A byte that continues a UTF-8 sequence, and \<open>str::is_char_boundary\<close>.\<close>

definition is_continuation :: "char \<Rightarrow> bool" where
  "is_continuation c \<longleftrightarrow> 128 \<le> (of_char c :: nat) \<and> (of_char c :: nat) < 192"

definition is_char_boundary :: "string \<Rightarrow> nat \<Rightarrow> bool" where
  "is_char_boundary s i \<longleftrightarrow>
     i = 0 \<or> i = length s \<or> (i < length s \<and> \<not> is_continuation (s ! i))"

lemma is_char_boundary_0 [simp]: "is_char_boundary s 0"
  by (simp add: is_char_boundary_def)

lemma is_char_boundary_length [simp]: "is_char_boundary s (length s)"
  by (simp add: is_char_boundary_def)

text \<open>\<open>u8::is_ascii_whitespace\<close>, \<open>u8::to_ascii_lowercase\<close>, \<open>u8::is_ascii_graphic\<close>.\<close>

definition is_ascii_ws :: "char \<Rightarrow> bool" where
  "is_ascii_ws c \<longleftrightarrow> c \<in> {CHR '' '', CHR 0x09, CHR 0x0A, CHR 0x0C, CHR 0x0D}"

definition to_lower_byte :: "char \<Rightarrow> char" where
  "to_lower_byte c =
     (if 65 \<le> (of_char c :: nat) \<and> (of_char c :: nat) \<le> 90
      then char_of ((of_char c :: nat) + 32) else c)"

definition to_ascii_lowercase :: "string \<Rightarrow> string" where
  "to_ascii_lowercase s = map to_lower_byte s"

lemma length_to_ascii_lowercase [simp]: "length (to_ascii_lowercase s) = length s"
  by (simp add: to_ascii_lowercase_def)

definition is_ascii_graphic :: "char \<Rightarrow> bool" where
  "is_ascii_graphic c \<longleftrightarrow> 33 \<le> (of_char c :: nat) \<and> (of_char c :: nat) \<le> 126"

text \<open>
  \<open>char::is_whitespace\<close> read off the bytes: the length of the encoding of the white-space
  character that starts the string, 0 when it starts with something else. The characters are
  U+0009 to U+000D, U+0020, U+0085, U+00A0, U+1680, U+2000 to U+200A, U+2028, U+2029, U+202F,
  U+205F and U+3000.
\<close>

fun ws_prefix :: "string \<Rightarrow> nat" where
  "ws_prefix [] = 0"
| "ws_prefix (a # r) =
     (let x = (of_char a :: nat) in
      if x = 32 \<or> (9 \<le> x \<and> x \<le> 13) then 1
      else case r of [] \<Rightarrow> 0
      | b # r2 \<Rightarrow>
          (let y = (of_char b :: nat) in
           if x = 194 \<and> (y = 133 \<or> y = 160) then 2
           else case r2 of [] \<Rightarrow> 0
           | c # _ \<Rightarrow>
               (let z = (of_char c :: nat) in
                if x = 225 \<and> y = 154 \<and> z = 128 then 3
                else if x = 226 \<and> y = 128
                        \<and> ((128 \<le> z \<and> z \<le> 138) \<or> z = 168 \<or> z = 169 \<or> z = 175) then 3
                else if x = 226 \<and> y = 129 \<and> z = 159 then 3
                else if x = 227 \<and> y = 128 \<and> z = 128 then 3
                else 0)))"

text \<open>\<open>s.trim().is_empty()\<close>: only white space.\<close>

function is_blank :: "string \<Rightarrow> bool" where
  "is_blank s = (if s = [] then True else if ws_prefix s = 0 then False else is_blank (drop (ws_prefix s) s))"
  by pat_completeness auto
termination
  by (relation "measure length") auto

declare is_blank.simps [simp del]

lemma is_blank_Nil [simp]: "is_blank []"
  by (simp add: is_blank.simps)

lemma not_is_blank_nonempty: "\<not> is_blank s \<Longrightarrow> s \<noteq> []"
  by (auto simp: is_blank.simps)

text \<open>\<open>std::str::from_utf8\<close>: the length of the well-formed sequence that starts the bytes, 0 when
  there is none, and the check of a whole slice.\<close>

definition byte_in :: "nat \<Rightarrow> nat \<Rightarrow> string \<Rightarrow> nat \<Rightarrow> bool" where
  "byte_in lo hi s i \<longleftrightarrow> i < length s \<and> lo \<le> (of_char (s ! i) :: nat) \<and> (of_char (s ! i) :: nat) \<le> hi"

definition utf8_len :: "string \<Rightarrow> nat" where
  "utf8_len s =
     (if byte_in 0 127 s 0 then 1
      else if byte_in 194 223 s 0 \<and> byte_in 128 191 s 1 then 2
      else if (byte_in 224 224 s 0 \<and> byte_in 160 191 s 1
               \<or> (byte_in 225 236 s 0 \<or> byte_in 238 239 s 0) \<and> byte_in 128 191 s 1
               \<or> byte_in 237 237 s 0 \<and> byte_in 128 159 s 1)
              \<and> byte_in 128 191 s 2 then 3
      else if (byte_in 240 240 s 0 \<and> byte_in 144 191 s 1
               \<or> byte_in 241 243 s 0 \<and> byte_in 128 191 s 1
               \<or> byte_in 244 244 s 0 \<and> byte_in 128 143 s 1)
              \<and> byte_in 128 191 s 2 \<and> byte_in 128 191 s 3 then 4
      else 0)"

function utf8_valid :: "string \<Rightarrow> bool" where
  "utf8_valid s =
     (if s = [] then True else if utf8_len s = 0 then False else utf8_valid (drop (utf8_len s) s))"
  by pat_completeness auto
termination
  by (relation "measure length") auto

declare utf8_valid.simps [simp del]

lemma utf8_valid_Nil [simp]: "utf8_valid []"
  by (simp add: utf8_valid.simps)

lemma utf8_valid_ascii [simp]: "(of_char c :: nat) \<le> 127 \<Longrightarrow> utf8_valid (c # s) = utf8_valid s"
  by (subst utf8_valid.simps) (simp add: utf8_len_def byte_in_def)

text \<open>\<open>str::find(&str)\<close>: the first position where the needle starts.\<close>

fun starts_with :: "string \<Rightarrow> string \<Rightarrow> bool" where
  "starts_with s [] = True"
| "starts_with [] (y # ys) = False"
| "starts_with (x # xs) (y # ys) = (x = y \<and> starts_with xs ys)"

fun find_sub :: "string \<Rightarrow> string \<Rightarrow> nat option" where
  "find_sub [] needle = (if needle = [] then Some 0 else None)"
| "find_sub (x # xs) needle =
     (if starts_with (x # xs) needle then Some 0 else map_option Suc (find_sub xs needle))"

lemma starts_with_iff: "starts_with s p \<longleftrightarrow> (\<exists>t. s = p @ t)"
  by (induction s p rule: starts_with.induct) auto

lemma starts_with_append [simp]: "starts_with (p @ t) p"
  by (auto simp: starts_with_iff)

lemma find_sub_Some_bound:
  "find_sub s p = Some i \<Longrightarrow> i + length p \<le> length s \<and> starts_with (drop i s) p"
proof (induction s p arbitrary: i rule: find_sub.induct)
  case (1 needle)
  then show ?case by (auto split: if_splits)
next
  case (2 x xs needle)
  show ?case
  proof (cases "starts_with (x # xs) needle")
    case True
    then obtain t where "x # xs = needle @ t" by (auto simp: starts_with_iff)
    then have "length needle \<le> length (x # xs)" by (metis le_add1 length_append)
    with True 2 show ?thesis by auto
  next
    case False
    with 2 show ?thesis by (auto split: if_splits)
  qed
qed

lemma find_sub_None_iff: "find_sub s p = None \<longleftrightarrow> (\<forall>i \<le> length s. \<not> starts_with (drop i s) p)"
proof (induction s p rule: find_sub.induct)
  case (1 needle)
  then show ?case by (cases needle) auto
next
  case (2 x xs needle)
  show ?case
  proof (cases "starts_with (x # xs) needle")
    case True
    then show ?thesis by (auto intro!: exI [of _ 0])
  next
    case False
    have "(\<forall>i \<le> length (x # xs). \<not> starts_with (drop i (x # xs)) needle) \<longleftrightarrow>
        (\<forall>i \<le> length xs. \<not> starts_with (drop i xs) needle)"
      using False by (auto simp: drop_Cons split: nat.splits)
    with False 2 show ?thesis by auto
  qed
qed

lemma find_sub_first:
  "find_sub s p = Some i \<Longrightarrow> j < i \<Longrightarrow> \<not> starts_with (drop j s) p"
proof (induction s p arbitrary: i j rule: find_sub.induct)
  case (1 needle)
  then show ?case by (auto split: if_splits)
next
  case (2 x xs needle)
  from 2(2,3) have ns: "\<not> starts_with (x # xs) needle" by (auto split: if_splits)
  with 2(2) obtain i' where i': "find_sub xs needle = Some i'" "i = Suc i'" by auto
  show ?case
  proof (cases j)
    case 0
    with ns show ?thesis by simp
  next
    case (Suc j')
    with 2(1) [OF ns i'(1)] 2(3) i'(2) show ?thesis by simp
  qed
qed

text \<open>The first position of an element, as \<open>iter().position(p)\<close>.\<close>

fun position :: "('a \<Rightarrow> bool) \<Rightarrow> 'a list \<Rightarrow> nat option" where
  "position p [] = None"
| "position p (x # xs) = (if p x then Some 0 else map_option Suc (position p xs))"

lemma position_Some:
  "position p xs = Some i \<Longrightarrow> i < length xs \<and> p (xs ! i) \<and> (\<forall>j < i. \<not> p (xs ! j))"
proof (induction xs arbitrary: i)
  case Nil
  then show ?case by simp
next
  case (Cons x xs)
  show ?case
  proof (cases "p x")
    case True
    with Cons show ?thesis by simp
  next
    case False
    with Cons obtain i' where "position p xs = Some i'" "i = Suc i'" by auto
    with Cons.IH [of i'] False show ?thesis by (auto simp: nth_Cons split: nat.splits)
  qed
qed

lemma position_None_iff: "position p xs = None \<longleftrightarrow> (\<forall>x \<in> set xs. \<not> p x)"
  by (induction xs) auto

lemma position_append_Some: "position p xs = Some i \<Longrightarrow> position p (xs @ ys) = Some i"
  by (induction xs arbitrary: i) (auto split: if_splits)

lemma position_append_None:
  "position p xs = None \<Longrightarrow> position p (xs @ ys) = map_option (\<lambda>i. length xs + i) (position p ys)"
  by (cases "position p ys"; induction xs) (auto split: if_splits)

section \<open>Lists\<close>

lemma sum_list_map_remove_nth:
  fixes f :: "'a \<Rightarrow> nat"
  assumes "i < length xs"
  shows "sum_list (map f (xs[i := y])) + f (xs ! i) = sum_list (map f xs) + f y"
  using assms
proof (induction xs arbitrary: i)
  case Nil
  then show ?case by simp
next
  case (Cons x xs)
  then show ?case by (cases i) auto
qed

lemma member_le_sum_list_map:
  fixes f :: "'a \<Rightarrow> nat"
  shows "x \<in> set xs \<Longrightarrow> f x \<le> sum_list (map f xs)"
  by (induction xs) auto

lemma sum_list_map_le:
  fixes f :: "'a \<Rightarrow> nat"
  shows "(\<And>x. x \<in> set xs \<Longrightarrow> f x \<le> c) \<Longrightarrow> sum_list (map f xs) \<le> length xs * c"
  by (induction xs) (auto simp: add_mono)

end
