(* ===== verification/Paths.thy ===== *)
theory Paths
  imports Prelude
begin

text \<open>
  \<open>std::path\<close> on Unix as the runtime code uses it. A \<open>Path\<close> is the list of its components, which is
  what its \<open>Eq\<close>, \<open>Hash\<close>, \<open>starts_with\<close>, \<open>strip_prefix\<close>, \<open>parent\<close>, \<open>ancestors\<close> and \<open>join\<close> are defined
  on; \<open>path_of\<close> is the parse of the bytes. A path is displayed with single separators.
\<close>

datatype component = RootDir | CurDir | ParentDir | Normal string

type_synonym path = "component list"

section \<open>Parsing and printing\<close>

fun split_on :: "char \<Rightarrow> string \<Rightarrow> string list" where
  "split_on c [] = [[]]"
| "split_on c (x # xs) =
     (if x = c then [] # split_on c xs
      else case split_on c xs of [] \<Rightarrow> [[x]] | y # ys \<Rightarrow> (x # y) # ys)"

definition component_of :: "string \<Rightarrow> component" where
  "component_of s = (if s = ''..'' then ParentDir else Normal s)"

text \<open>Empty parts and a dot vanish, except a dot that starts a relative path.\<close>

definition path_of :: "string \<Rightarrow> path" where
  "path_of s =
     (let parts = split_on CHR ''/'' s;
          named = map component_of (filter (\<lambda>p. p \<noteq> [] \<and> p \<noteq> ''.'') parts)
      in if starts_with s ''/'' then RootDir # named
         else if hd parts = ''.'' then CurDir # named
         else named)"

fun component_text :: "component \<Rightarrow> string" where
  "component_text RootDir = []"
| "component_text CurDir = ''.''"
| "component_text ParentDir = ''..''"
| "component_text (Normal s) = s"

definition path_display :: "path \<Rightarrow> string" where
  "path_display p = (if p = [RootDir] then ''/'' else join_with ''/'' (map component_text p))"

section \<open>Operations\<close>

definition path_is_absolute :: "path \<Rightarrow> bool" where
  "path_is_absolute p \<longleftrightarrow> p \<noteq> [] \<and> hd p = RootDir"

text \<open>\<open>Path::join\<close>: an absolute argument replaces the path.\<close>

definition path_join :: "path \<Rightarrow> path \<Rightarrow> path" where
  "path_join p q =
     (if path_is_absolute q then q
      else if p = [] then q
      else p @ (case q of CurDir # r \<Rightarrow> r | _ \<Rightarrow> q))"

text \<open>\<open>Path::parent\<close>, which \<open>PathBuf::pop\<close> truncates to.\<close>

definition path_parent :: "path \<Rightarrow> path option" where
  "path_parent p = (if p = [] \<or> last p = RootDir then None else Some (butlast p))"

fun strip_prefix :: "path \<Rightarrow> path \<Rightarrow> path option" where
  "strip_prefix p [] = Some p"
| "strip_prefix [] (y # ys) = None"
| "strip_prefix (x # xs) (y # ys) = (if x = y then strip_prefix xs ys else None)"

definition path_starts_with :: "path \<Rightarrow> path \<Rightarrow> bool" where
  "path_starts_with p q \<longleftrightarrow> strip_prefix p q \<noteq> None"

lemma path_parent_shorter: "path_parent p = Some q \<Longrightarrow> length q < length p"
  by (auto simp: path_parent_def split: if_splits)

function path_ancestors :: "path \<Rightarrow> path list" where
  "path_ancestors p =
     p # (case path_parent p of None \<Rightarrow> [] | Some q \<Rightarrow> path_ancestors q)"
  by pat_completeness auto
termination
  by (relation "measure length") (auto dest: path_parent_shorter)

declare path_ancestors.simps [simp del]

text \<open>A component of a listing, a name that is neither empty nor special and has no separator.\<close>

definition name_ok :: "string \<Rightarrow> bool" where
  "name_ok s \<longleftrightarrow> s \<noteq> [] \<and> s \<noteq> ''.'' \<and> s \<noteq> ''..'' \<and> CHR ''/'' \<notin> set s"

fun is_normal :: "component \<Rightarrow> bool" where
  "is_normal (Normal s) = True"
| "is_normal c = False"

text \<open>A path below a directory: normal components only.\<close>

definition path_plain :: "path \<Rightarrow> bool" where
  "path_plain p \<longleftrightarrow> p \<noteq> [] \<and> list_all is_normal p"

section \<open>Lemmas\<close>

lemma strip_prefix_Some_iff: "strip_prefix p q = Some r \<longleftrightarrow> p = q @ r"
  by (induction p q rule: strip_prefix.induct) auto

lemma strip_prefix_append [simp]: "strip_prefix (p @ q) p = Some q"
  by (simp add: strip_prefix_Some_iff)

lemma path_starts_with_iff: "path_starts_with p q \<longleftrightarrow> (\<exists>r. p = q @ r)"
  by (auto simp: path_starts_with_def strip_prefix_Some_iff)

lemma split_on_nonempty [simp]: "split_on c s \<noteq> []"
  by (induction s) (auto split: list.splits)

lemma split_on_plain: "c \<notin> set s \<Longrightarrow> split_on c s = [s]"
  by (induction s) auto

lemma split_on_append: "c \<notin> set s \<Longrightarrow> split_on c (s @ c # t) = s # split_on c t"
  by (induction s) auto

lemma split_on_parts: "p \<in> set (split_on c s) \<Longrightarrow> c \<notin> set p"
proof (induction s arbitrary: p)
  case (Cons x xs)
  then show ?case by (cases "split_on c xs") (auto split: if_splits)
qed simp

lemma split_on_join:
  "list_all (\<lambda>s. c \<notin> set s) xs \<Longrightarrow> xs \<noteq> [] \<Longrightarrow> split_on c (join_with [c] xs) = xs"
proof (induction "[c]" xs rule: join_with.induct)
  case (3 x y ys)
  then show ?case using split_on_append [of c x "join_with [c] (y # ys)"] by simp
qed (simp_all add: split_on_plain)

lemma path_join_plain: "path_plain q \<Longrightarrow> path_join p q = p @ q"
  by (cases q) (auto simp: path_join_def path_is_absolute_def path_plain_def split: component.splits)

lemma path_join_name [simp]: "path_join p [Normal n] = p @ [Normal n]"
  by (simp add: path_join_plain path_plain_def)

lemma path_parent_snoc [simp]: "path_parent (p @ [Normal n]) = Some p"
  by (simp add: path_parent_def)

lemma path_parent_plain: "path_plain p \<Longrightarrow> path_parent p = Some (butlast p)"
proof -
  assume p: "path_plain p"
  then have "is_normal (last p)" by (auto simp: path_plain_def list_all_iff)
  with p show ?thesis by (auto simp: path_parent_def path_plain_def)
qed

text \<open>Printing and parsing a path of normal names is the identity.\<close>

lemma path_of_display:
  assumes "ns \<noteq> []" "list_all name_ok ns"
  shows "path_of (path_display (map Normal ns)) = map Normal ns"
proof -
  have sep: "list_all (\<lambda>s. CHR ''/'' \<notin> set s) ns"
    using assms(2) by (auto simp: list_all_iff name_ok_def)
  have shown: "path_display (map Normal ns) = join_with ''/'' ns"
    using assms(1) by (cases ns) (auto simp: path_display_def comp_def)
  have parts: "split_on CHR ''/'' (join_with ''/'' ns) = ns"
    using split_on_join [OF sep assms(1)] by simp
  obtain n ns' where ns: "ns = n # ns'" using assms(1) by (cases ns) auto
  then have n: "name_ok n" using assms(2) by simp
  have "\<not> starts_with (join_with ''/'' ns) ''/''"
    using n ns by (cases n; cases ns') (auto simp: name_ok_def)
  moreover have "filter (\<lambda>p. p \<noteq> [] \<and> p \<noteq> ''.'') ns = ns"
    using assms(2) by (auto simp: list_all_iff name_ok_def intro: filter_True)
  moreover have "map component_of ns = map Normal ns"
    using assms(2) by (auto simp: list_all_iff name_ok_def component_of_def)
  moreover have "hd ns \<noteq> ''.''" using n ns by (auto simp: name_ok_def)
  ultimately show ?thesis by (simp add: shown path_of_def parts)
qed

lemma path_of_root: "path_of ''/'' = [RootDir]"
  by (simp add: path_of_def)

end
