(* ===== verification/Errors.thy ===== *)
theory Errors
  imports Prelude
begin

text \<open>
  The error model of \<open>src/src/error.rs\<close>: the kinds, the report, its constructors, its
  rendering and the combination of an operation's failure with a cleanup failure.
  A \<open>std::time::Duration\<close> is its number of nanoseconds.
\<close>

datatype error_kind =
    InvalidInput | RuntimeVerification | Process | Protocol | Rpc | Timeout | Disconnected
  | Cancelled | OutcomeUnknown | ConsumerLagged | ResourceLimit | Authentication | Shutdown

record error =
  e_kind :: error_kind
  e_operation :: string
  e_message :: string
  e_rpc_code :: "int option"
  e_stderr_tail :: "string option"

type_synonym 'a result = "error + 'a"
type_synonym duration = nat

definition new_error :: "error_kind \<Rightarrow> string \<Rightarrow> string \<Rightarrow> error" where
  "new_error k op msg =
     \<lparr>e_kind = k, e_operation = op, e_message = msg, e_rpc_code = None, e_stderr_tail = None\<rparr>"

definition rpc_error :: "string \<Rightarrow> int \<Rightarrow> string \<Rightarrow> error" where
  "rpc_error op code msg =
     \<lparr>e_kind = Rpc, e_operation = op, e_message = msg, e_rpc_code = Some code,
      e_stderr_tail = None\<rparr>"

definition as_millis :: "duration \<Rightarrow> nat" where
  "as_millis d = d div 1000000"

definition timeout_error :: "string \<Rightarrow> duration \<Rightarrow> error" where
  "timeout_error op d =
     new_error Timeout op (''operation exceeded '' @ show_nat (as_millis d) @ '' ms'')"

text \<open>\<open>Display\<close>.\<close>

definition error_to_string :: "error \<Rightarrow> string" where
  "error_to_string e =
     e_operation e @ '': '' @ e_message e @
     (case e_rpc_code e of None \<Rightarrow> [] | Some code \<Rightarrow> '' (rpc code '' @ show_int code @ '')'')"

definition with_related_error :: "error \<Rightarrow> string \<Rightarrow> error \<Rightarrow> error" where
  "with_related_error e ctx related =
     (let e1 = e\<lparr>e_message := e_message e @ ''; '' @ ctx @ '': '' @ error_to_string related\<rparr>
      in if e_stderr_tail e1 = None then e1\<lparr>e_stderr_tail := e_stderr_tail related\<rparr> else e1)"

definition with_stderr :: "error \<Rightarrow> string option \<Rightarrow> error" where
  "with_stderr e tail_text = e\<lparr>e_stderr_tail := tail_text\<rparr>"

lemma new_error_sel [simp]:
  "e_kind (new_error k op msg) = k"
  "e_operation (new_error k op msg) = op"
  "e_message (new_error k op msg) = msg"
  "e_rpc_code (new_error k op msg) = None"
  "e_stderr_tail (new_error k op msg) = None"
  by (simp_all add: new_error_def)

lemma rpc_error_sel [simp]:
  "e_kind (rpc_error op code msg) = Rpc"
  "e_operation (rpc_error op code msg) = op"
  "e_message (rpc_error op code msg) = msg"
  "e_rpc_code (rpc_error op code msg) = Some code"
  by (simp_all add: rpc_error_def)

lemma timeout_error_kind [simp]: "e_kind (timeout_error op d) = Timeout"
  by (simp add: timeout_error_def)

lemma new_error_kind_neq: "k \<noteq> k' \<Longrightarrow> new_error k op msg \<noteq> new_error k' op' msg'"
  by (simp add: new_error_def)

lemma with_stderr_sel [simp]:
  "e_kind (with_stderr e t) = e_kind e"
  "e_operation (with_stderr e t) = e_operation e"
  "e_message (with_stderr e t) = e_message e"
  "e_rpc_code (with_stderr e t) = e_rpc_code e"
  "e_stderr_tail (with_stderr e t) = t"
  by (simp_all add: with_stderr_def)

text \<open>A cleanup failure is appended to the message and nothing else of the primary error is lost.\<close>

lemma with_related_error_sel:
  "e_kind (with_related_error e ctx r) = e_kind e"
  "e_operation (with_related_error e ctx r) = e_operation e"
  "e_rpc_code (with_related_error e ctx r) = e_rpc_code e"
  "\<exists>suffix. e_message (with_related_error e ctx r) = e_message e @ suffix"
  "e_stderr_tail e = Some t \<Longrightarrow> e_stderr_tail (with_related_error e ctx r) = Some t"
  by (simp_all add: with_related_error_def Let_def)

end
