(* ===== verification/RuntimeLock.thy ===== *)
theory RuntimeLock
  imports Paths Errors
begin

text \<open>
  The identity of the pinned runtime (\<open>src/src/runtime/lock.rs\<close>): the embedded metadata, its checks,
  and the lock and download description built from it. The \<open>serde\<close> derivation that reads the
  embedded JSON text is a parameter: it gives a \<open>metadata\<close> record or the text of its error. A
  \<open>u64\<close> is a \<open>nat\<close> below \<open>2 ^ 64\<close>.
\<close>

section \<open>Data\<close>

record runtime_artifact =
  ra_path :: path
  ra_sha256 :: string
  ra_executable :: bool
  ra_max_bytes :: nat

record runtime_lock =
  rl_version :: string
  rl_upstream_commit :: string
  rl_target :: string
  rl_variant :: string
  rl_entrypoint :: path
  rl_schema_sha256 :: string
  rl_artifacts :: "runtime_artifact list"

record runtime_download =
  rd_url :: string
  rd_bytes :: nat
  rd_sha256 :: string
  rd_archive_prefix :: path

record runtime_metadata =
  rm_version :: string
  rm_upstream_commit :: string
  rm_target :: string
  rm_variant :: string
  rm_entrypoint :: path
  rm_schema_sha256 :: string
  rm_download :: runtime_download
  rm_artifacts :: "runtime_artifact list"

record pinned_runtime =
  pr_lock :: runtime_lock
  pr_download :: runtime_download

definition u64_max :: nat where
  "u64_max = 18446744073709551615"

section \<open>Checks\<close>

definition is_lower_hex :: "char \<Rightarrow> bool" where
  "is_lower_hex c \<longleftrightarrow>
     (48 \<le> (of_char c :: nat) \<and> (of_char c :: nat) \<le> 57)
     \<or> (97 \<le> (of_char c :: nat) \<and> (of_char c :: nat) \<le> 102)"

definition is_identifier_byte :: "char \<Rightarrow> bool" where
  "is_identifier_byte c \<longleftrightarrow>
     (48 \<le> (of_char c :: nat) \<and> (of_char c :: nat) \<le> 57)
     \<or> (65 \<le> (of_char c :: nat) \<and> (of_char c :: nat) \<le> 90)
     \<or> (97 \<le> (of_char c :: nat) \<and> (of_char c :: nat) \<le> 122)
     \<or> c \<in> {CHR ''.'', CHR ''-'', CHR ''_''}"

definition validate_relative_path :: "path \<Rightarrow> unit result" where
  "validate_relative_path p =
     (if p = [] \<or> path_is_absolute p \<or> list_ex (\<lambda>c. \<not> is_normal c) p
      then Inl (new_error InvalidInput ''runtime.path''
                  ''runtime paths must contain only non-empty relative normal components'')
      else Inr ())"

definition validate_sha256 :: "string \<Rightarrow> unit result" where
  "validate_sha256 s =
     (if length s \<noteq> 64 \<or> \<not> list_all is_lower_hex s
      then Inl (new_error InvalidInput ''runtime.sha256''
                  ''SHA-256 values must contain exactly 64 lowercase hexadecimal characters'')
      else Inr ())"

definition validate_commit_sha :: "string \<Rightarrow> unit result" where
  "validate_commit_sha s =
     (if length s \<noteq> 40 \<or> \<not> list_all is_lower_hex s
      then Inl (new_error InvalidInput ''runtime.commit''
                  ''upstream commit must contain exactly 40 lowercase hexadecimal characters'')
      else Inr ())"

definition validate_runtime_identifier :: "string \<Rightarrow> string \<Rightarrow> unit result" where
  "validate_runtime_identifier s field =
     (if \<not> (1 \<le> length s \<and> length s \<le> 128) \<or> \<not> list_all is_identifier_byte s
      then Inl (new_error InvalidInput ''runtime.identifier''
                  (''runtime '' @ field @
                   '' must contain 1-128 ASCII alphanumeric, dot, dash, or underscore characters''))
      else Inr ())"

definition validate_download :: "runtime_download \<Rightarrow> unit result" where
  "validate_download d =
     (if \<not> starts_with (rd_url d) ''https://'' \<or> list_ex is_ascii_ws (rd_url d)
      then Inl (new_error InvalidInput ''runtime.download''
                  ''runtime download URL must be an absolute HTTPS URL without whitespace'')
      else if rd_bytes d = 0 \<or> rd_bytes d = u64_max
      then Inl (new_error InvalidInput ''runtime.download''
                  ''runtime download byte count must be greater than zero and leave room for the overflow sentinel'')
      else result_bind (validate_sha256 (rd_sha256 d)) (\<lambda>_.
           validate_relative_path (rd_archive_prefix d)))"

section \<open>Construction\<close>

definition artifact_with_max_bytes :: "path \<Rightarrow> string \<Rightarrow> bool \<Rightarrow> nat \<Rightarrow> runtime_artifact result" where
  "artifact_with_max_bytes p sha executable max_bytes =
     (if max_bytes = 0 \<or> max_bytes = u64_max
      then Inl (new_error InvalidInput ''RuntimeArtifact::with_max_bytes''
                  ''runtime artifact byte ceiling must be greater than zero and finite'')
      else result_bind (validate_relative_path p) (\<lambda>_.
           result_bind (validate_sha256 sha) (\<lambda>_.
           Inr \<lparr>ra_path = p, ra_sha256 = sha, ra_executable = executable, ra_max_bytes = max_bytes\<rparr>)))"

text \<open>The loop over the artifacts with the set of paths seen.\<close>

fun check_duplicates :: "path list \<Rightarrow> runtime_artifact list \<Rightarrow> unit result" where
  "check_duplicates seen [] = Inr ()"
| "check_duplicates seen (a # as) =
     (if ra_path a \<in> set seen
      then Inl (new_error InvalidInput ''RuntimeLock::new''
                  (''runtime artifact path is duplicated: '' @ path_display (ra_path a)))
      else check_duplicates (ra_path a # seen) as)"

definition runtime_lock_new ::
  "string \<Rightarrow> string \<Rightarrow> string \<Rightarrow> string \<Rightarrow> path \<Rightarrow> string \<Rightarrow> runtime_artifact list \<Rightarrow> runtime_lock result"
where
  "runtime_lock_new version commit target variant entrypoint schema_sha artifacts =
     result_bind (validate_relative_path entrypoint) (\<lambda>_.
     result_bind (validate_sha256 schema_sha) (\<lambda>_.
     result_bind (validate_commit_sha commit) (\<lambda>_.
     result_bind (validate_runtime_identifier version ''version'') (\<lambda>_.
     result_bind (validate_runtime_identifier target ''target'') (\<lambda>_.
     result_bind (validate_runtime_identifier variant ''variant'') (\<lambda>_.
     if variant \<noteq> ''codex''
     then Inl (new_error InvalidInput ''RuntimeLock::new'' ''runtime variant must be codex'')
     else if artifacts = []
     then Inl (new_error InvalidInput ''RuntimeLock::new'' ''at least one runtime artifact is required'')
     else result_bind (check_duplicates [] artifacts) (\<lambda>_.
       case find (\<lambda>a. ra_path a = entrypoint) artifacts of
         Some a \<Rightarrow>
           if ra_executable a
           then Inr \<lparr>rl_version = version, rl_upstream_commit = commit, rl_target = target,
                     rl_variant = variant, rl_entrypoint = entrypoint,
                     rl_schema_sha256 = schema_sha, rl_artifacts = artifacts\<rparr>
           else Inl (new_error InvalidInput ''RuntimeLock::new''
                       ''entrypoint artifact must be executable'')
       | None \<Rightarrow> Inl (new_error InvalidInput ''RuntimeLock::new''
                       ''entrypoint must also be present in artifacts''))))))))"

definition load_artifact :: "runtime_artifact \<Rightarrow> runtime_artifact result" where
  "load_artifact a =
     (if ra_max_bytes a = 0 \<or> ra_max_bytes a = u64_max
      then Inl (new_error RuntimeVerification ''runtime.metadata''
                  (''artifact byte ceiling '' @ show_nat (ra_max_bytes a)
                   @ '' must be greater than zero and finite''))
      else artifact_with_max_bytes (ra_path a) (ra_sha256 a) (ra_executable a) (ra_max_bytes a))"

definition pinned_runtime_load :: "string + runtime_metadata \<Rightarrow> pinned_runtime result" where
  "pinned_runtime_load parsed =
     (case parsed of
        Inl text \<Rightarrow> Inl (new_error RuntimeVerification ''runtime.metadata''
                          (''invalid embedded runtime metadata: '' @ text))
      | Inr m \<Rightarrow>
          result_bind (validate_download (rm_download m)) (\<lambda>_.
          result_bind (result_map load_artifact (rm_artifacts m)) (\<lambda>artifacts.
          result_bind (runtime_lock_new (rm_version m) (rm_upstream_commit m) (rm_target m)
                         (rm_variant m) (rm_entrypoint m) (rm_schema_sha256 m) artifacts) (\<lambda>lock.
          Inr \<lparr>pr_lock = lock, pr_download = rm_download m\<rparr>))))"

text \<open>What the file \<open>src/runtime/pinned-macos-aarch64.json\<close> holds.\<close>

definition pinned_metadata :: runtime_metadata where
  "pinned_metadata =
     \<lparr>rm_version = ''0.150.1'',
      rm_upstream_commit = ''90854393966b21e9ebfd21b122334eb09a20c93d'',
      rm_target = ''aarch64-apple-darwin'',
      rm_variant = ''codex'',
      rm_entrypoint = path_of ''bin/codex'',
      rm_schema_sha256 = ''a0aac52c9ea4bfcc02a1a323d612fb460e92b35e493695f01e2dd9b6e5072d33'',
      rm_download =
        \<lparr>rd_url = ''https://registry.npmjs.org/@openai/codex/-/codex-0.150.1-darwin-arm64.tgz'',
         rd_bytes = 117535191,
         rd_sha256 = ''e5008a5b8d7a22e2ad2922a74783de8f7202b7b886a181e6ddbec7633609c885'',
         rd_archive_prefix = path_of ''package/vendor/aarch64-apple-darwin''\<rparr>,
      rm_artifacts =
        [\<lparr>ra_path = path_of ''bin/codex'',
          ra_sha256 = ''a14f9a907c12c8812878b70e6b7d65f81c39ed795513e46a55817d7428c0ca6b'',
          ra_executable = True, ra_max_bytes = 228986048\<rparr>,
         \<lparr>ra_path = path_of ''bin/codex-code-mode-host'',
          ra_sha256 = ''b9333d84d974ad34e8263d3f0fd5282e96f6a85a79f76d7456327921a04b5459'',
          ra_executable = True, ra_max_bytes = 57150064\<rparr>,
         \<lparr>ra_path = path_of ''codex-package.json'',
          ra_sha256 = ''f1fb8f28a73bd100038949292c642b1db871b4753fe21dc8e2aef92d4f792eaf'',
          ra_executable = False, ra_max_bytes = 200\<rparr>,
         \<lparr>ra_path = path_of ''codex-path/rg'',
          ra_sha256 = ''5d24e1af7efa7811e03df5555eeaa984bc8bd98ab42a5d49ecf30f163273e6c7'',
          ra_executable = True, ra_max_bytes = 4030432\<rparr>,
         \<lparr>ra_path = path_of ''codex-resources/zsh/bin/zsh'',
          ra_sha256 = ''6eab971b2ef4a2e5e9d86a6fbd779c18f93fa6ae1f2c016b896324255034decf'',
          ra_executable = True, ra_max_bytes = 754208\<rparr>]\<rparr>"

section \<open>What a lock promises\<close>

definition digest_text :: "nat \<Rightarrow> string \<Rightarrow> bool" where
  "digest_text n s \<longleftrightarrow> length s = n \<and> list_all is_lower_hex s"

definition identifier_text :: "string \<Rightarrow> bool" where
  "identifier_text s \<longleftrightarrow> 1 \<le> length s \<and> length s \<le> 128 \<and> list_all is_identifier_byte s"

definition artifact_ok :: "runtime_artifact \<Rightarrow> bool" where
  "artifact_ok a \<longleftrightarrow> path_plain (ra_path a) \<and> digest_text 64 (ra_sha256 a)
     \<and> ra_max_bytes a \<noteq> 0 \<and> ra_max_bytes a \<noteq> u64_max"

text \<open>The checks \<open>RuntimeLock::new\<close> makes of its own, and those of \<open>PinnedRuntime::load\<close> with them.\<close>

definition lock_ok :: "runtime_lock \<Rightarrow> bool" where
  "lock_ok l \<longleftrightarrow> path_plain (rl_entrypoint l) \<and> digest_text 64 (rl_schema_sha256 l)
     \<and> digest_text 40 (rl_upstream_commit l) \<and> identifier_text (rl_version l)
     \<and> identifier_text (rl_target l) \<and> rl_variant l = ''codex''
     \<and> distinct (map ra_path (rl_artifacts l))
     \<and> (\<exists>a \<in> set (rl_artifacts l). ra_path a = rl_entrypoint l \<and> ra_executable a)"

definition download_ok :: "runtime_download \<Rightarrow> bool" where
  "download_ok d \<longleftrightarrow> starts_with (rd_url d) ''https://'' \<and> \<not> list_ex is_ascii_ws (rd_url d)
     \<and> rd_bytes d \<noteq> 0 \<and> rd_bytes d \<noteq> u64_max \<and> digest_text 64 (rd_sha256 d)
     \<and> path_plain (rd_archive_prefix d)"

definition lock_of_metadata :: "runtime_metadata \<Rightarrow> runtime_lock" where
  "lock_of_metadata m =
     \<lparr>rl_version = rm_version m, rl_upstream_commit = rm_upstream_commit m,
      rl_target = rm_target m, rl_variant = rm_variant m, rl_entrypoint = rm_entrypoint m,
      rl_schema_sha256 = rm_schema_sha256 m, rl_artifacts = rm_artifacts m\<rparr>"

end
