(* ===== verification/Os.thy ===== *)
theory Os
  imports Paths Errors "HOL-Library.Word"
begin

unbundle bit_operations_syntax

text \<open>
  The calls the runtime code makes of the operating system, of its HTTP client and of its archive
  reader, as one interface. A program step takes the environment and the log of the calls made so
  far, latest first; a reply is a function of the log with the call on top. So the environment may
  answer two equal calls differently, as a file system does that other processes change, and the
  log is what a property about the order of calls speaks of.
\<close>

section \<open>Calls and replies\<close>

datatype file_kind = Directory | RegularFile | SymbolicLink | OtherFile

datatype io_kind = NotFound | AlreadyExists | NoProcess | OtherIo

record io_error =
  io_kind :: io_kind
  io_text :: string

text \<open>\<open>fs::Metadata\<close>: the fields the code reads.\<close>

record file_metadata =
  md_kind :: file_kind
  md_mode :: "32 word"
  md_len :: nat
  md_dev :: nat
  md_ino :: nat

record dir_entry =
  de_name :: string
  de_type :: "io_error + file_kind"

text \<open>An entry of an archive: its path, whether it is a file, and its bytes as they come.\<close>

record archive_entry =
  ae_path :: "io_error + path"
  ae_is_file :: bool
  ae_copy :: "io_error + string"

datatype os_call =
    Checkpoint string
  | Lstat path | Canonicalize path | IsDir path | IsFile path | ReadDir path
  | OpenFile path | ReadFile path | ReadAll path | Fstat path
  | CreateNew path | OpenLock path | LockExclusive path
  | WriteAll path string | SyncAll path | SetMode path "32 word"
  | CreateDir path | Rename path path | RemoveFile path | RemoveDirAll path
  | HttpGet string | HttpRead | Elapsed | Clock | ProcessId | Sequence string | Remaining | WorkerStopped
  | CurrentExe | CurrentDirectory | JoinWorker
  | OpenArchive path
  | EnvVar string
  | RemoveDir path
  | Spawn path path "string list" "(string \<times> string) list" | ChildId | SendTerm nat | StartKill | WaitChild
  | TakePipe string | JoinPipe string | AbortPipe string
  | Library string

text \<open>\<open>Library\<close> is a call of the client library by one of the provider executables. What \<open>child.wait()\<close> under a timeout gives: the exit status (whether it is a success, and its
  text), an error, or nothing in time; and what the task that reads a pipe gives.\<close>

datatype wait_reply = ChildExited bool string | ChildWaitError string | ChildTimedOut

datatype pipe_reply = PipeRead "error + string \<times> bool" | PipeTaskFailed string | PipeOpen

record os_env =
  os_bool :: "os_call list \<Rightarrow> bool"
  os_meta :: "os_call list \<Rightarrow> io_error + file_metadata"
  os_path :: "os_call list \<Rightarrow> io_error + path"
  os_dir :: "os_call list \<Rightarrow> io_error + (io_error + dir_entry) list"
  os_data :: "os_call list \<Rightarrow> io_error + string"
  os_unit :: "os_call list \<Rightarrow> io_error + unit"
  os_num :: "os_call list \<Rightarrow> io_error + nat"
  os_archive :: "os_call list \<Rightarrow> io_error + (io_error + archive_entry) list"
  os_var :: "os_call list \<Rightarrow> string option"
  os_count :: "os_call list \<Rightarrow> nat"
  os_id :: "os_call list \<Rightarrow> nat option"
  os_wait :: "os_call list \<Rightarrow> wait_reply"
  os_pipe :: "os_call list \<Rightarrow> pipe_reply"

section \<open>Programs over the calls\<close>

type_synonym 'a os = "os_env \<Rightarrow> os_call list \<Rightarrow> 'a result \<times> os_call list"

definition os_return :: "'a \<Rightarrow> 'a os" where
  "os_return x = (\<lambda>v log. (Inr x, log))"

definition os_fail :: "error \<Rightarrow> 'a os" where
  "os_fail e = (\<lambda>v log. (Inl e, log))"

definition os_result :: "'a result \<Rightarrow> 'a os" where
  "os_result r = (\<lambda>v log. (r, log))"

text \<open>The operator \<open>?\<close>.\<close>

definition os_bind :: "'a os \<Rightarrow> ('a \<Rightarrow> 'b os) \<Rightarrow> 'b os" where
  "os_bind m f = (\<lambda>v log. case m v log of (Inl e, log1) \<Rightarrow> (Inl e, log1) | (Inr x, log1) \<Rightarrow> f x v log1)"

text \<open>A \<open>match\<close> on the result of a step.\<close>

definition os_attempt :: "'a os \<Rightarrow> 'a result os" where
  "os_attempt m = (\<lambda>v log. case m v log of (r, log1) \<Rightarrow> (Inr r, log1))"

definition ask :: "(os_env \<Rightarrow> os_call list \<Rightarrow> 'a) \<Rightarrow> os_call \<Rightarrow> 'a os" where
  "ask reply c = (\<lambda>v log. (Inr (reply v (c # log)), c # log))"

text \<open>\<open>map_err(f)?\<close> on an \<open>io::Result\<close>.\<close>

definition io_try :: "(string \<Rightarrow> error) \<Rightarrow> (io_error + 'a) os \<Rightarrow> 'a os" where
  "io_try f m = os_bind m (\<lambda>r. case r of Inl e \<Rightarrow> os_fail (f (io_text e)) | Inr x \<Rightarrow> os_return x)"

definition os_when :: "bool \<Rightarrow> error \<Rightarrow> unit os" where
  "os_when c e = (if c then os_fail e else os_return ())"

text \<open>A \<open>for\<close> loop over a list with the variables it changes.\<close>

fun os_each :: "('a \<Rightarrow> 's \<Rightarrow> 's os) \<Rightarrow> 'a list \<Rightarrow> 's \<Rightarrow> 's os" where
  "os_each f [] s = os_return s"
| "os_each f (x # xs) s = os_bind (f x s) (os_each f xs)"

section \<open>Inversion of successful steps\<close>

named_theorems os_simps \<open>evaluation of steps\<close>
named_theorems os_Inr \<open>what a successful step has done\<close>

lemma os_return_apply [simp, os_simps]: "os_return x v log = (Inr x, log)"
  by (simp add: os_return_def)

lemma os_fail_apply [simp, os_simps]: "os_fail e v log = (Inl e, log)"
  by (simp add: os_fail_def)

lemma os_result_apply [simp, os_simps]: "os_result r v log = (r, log)"
  by (simp add: os_result_def)

lemma ask_apply [simp, os_simps]: "ask reply c v log = (Inr (reply v (c # log)), c # log)"
  by (simp add: ask_def)

lemma os_bind_apply [os_simps]:
  "os_bind m f v log = (case m v log of (Inl e, log1) \<Rightarrow> (Inl e, log1) | (Inr x, log1) \<Rightarrow> f x v log1)"
  by (simp add: os_bind_def)

lemma os_attempt_apply [os_simps]:
  "os_attempt m v log = (case m v log of (r, log1) \<Rightarrow> (Inr r, log1))"
  by (simp add: os_attempt_def)

lemma os_bind_Inr [os_Inr]:
  "os_bind m f v log = (Inr y, log2) \<longleftrightarrow>
     (\<exists>x log1. m v log = (Inr x, log1) \<and> f x v log1 = (Inr y, log2))"
  by (auto simp: os_bind_def split: prod.splits sum.splits)

lemma os_return_Inr [os_Inr]: "os_return x v log = (Inr y, log1) \<longleftrightarrow> x = y \<and> log1 = log"
  by auto

lemma os_fail_Inr [os_Inr]: "os_fail e v log = (Inr y, log1) \<longleftrightarrow> False"
  by simp

lemma ask_Inr [os_Inr]:
  "ask reply c v log = (Inr y, log1) \<longleftrightarrow> y = reply v (c # log) \<and> log1 = c # log"
  by auto

lemma io_try_Inr [os_Inr]:
  "io_try f m v log = (Inr y, log1) \<longleftrightarrow> m v log = (Inr (Inr y), log1)"
  by (auto simp: io_try_def os_bind_def split: prod.splits sum.splits)

lemma io_try_ask [os_simps]:
  "io_try f (ask reply c) v log =
     (case reply v (c # log) of Inl e \<Rightarrow> (Inl (f (io_text e)), c # log) | Inr x \<Rightarrow> (Inr x, c # log))"
  by (simp add: io_try_def os_bind_def split: sum.splits)

lemma os_when_Inr [os_Inr]: "os_when c e v log = (Inr y, log1) \<longleftrightarrow> \<not> c \<and> log1 = log"
  by (auto simp: os_when_def)

lemma os_when_apply [os_simps]: "os_when c e v log = ((if c then Inl e else Inr ()), log)"
  by (simp add: os_when_def)

lemma os_attempt_Inr [os_Inr]:
  "os_attempt m v log = (Inr r, log1) \<longleftrightarrow> m v log = (r, log1)"
  by (auto simp: os_attempt_def split: prod.splits)

lemma os_if_Inr [os_Inr]:
  "(if c then m else n) v log = (Inr y, log1) \<longleftrightarrow>
     (c \<and> m v log = (Inr y, log1)) \<or> (\<not> c \<and> n v log = (Inr y, log1))"
  by simp

lemma os_sum_Inr [os_Inr]:
  "(case x of Inl e \<Rightarrow> f e | Inr y \<Rightarrow> g y) v log = (Inr z, log1) \<longleftrightarrow>
     (\<exists>e. x = Inl e \<and> f e v log = (Inr z, log1)) \<or> (\<exists>y. x = Inr y \<and> g y v log = (Inr z, log1))"
  by (cases x) auto

lemma os_option_Inr [os_Inr]:
  "(case x of None \<Rightarrow> m | Some y \<Rightarrow> g y) v log = (Inr z, log1) \<longleftrightarrow>
     (x = None \<and> m v log = (Inr z, log1)) \<or> (\<exists>y. x = Some y \<and> g y v log = (Inr z, log1))"
  by (cases x) auto

lemma os_wait_Inr [os_Inr]:
  "(case x of ChildExited ok status \<Rightarrow> f ok status | ChildWaitError t \<Rightarrow> g t | ChildTimedOut \<Rightarrow> h) v log
       = (Inr z, log1) \<longleftrightarrow>
     (\<exists>ok status. x = ChildExited ok status \<and> f ok status v log = (Inr z, log1))
     \<or> (\<exists>t. x = ChildWaitError t \<and> g t v log = (Inr z, log1))
     \<or> (x = ChildTimedOut \<and> h v log = (Inr z, log1))"
  by (cases x) auto

section \<open>What every step keeps of the log\<close>

text \<open>\<open>os_keeps I m\<close>: a property of the log that \<open>m\<close> keeps, whatever the environment answers and
  whether it succeeds or fails.\<close>

definition os_keeps :: "(os_env \<Rightarrow> os_call list \<Rightarrow> bool) \<Rightarrow> 'a os \<Rightarrow> bool" where
  "os_keeps I m \<longleftrightarrow> (\<forall>v log. I v log \<longrightarrow> I v (snd (m v log)))"

named_theorems os_keeps \<open>composition of steps that keep a property of the log\<close>

lemma os_keeps_return [os_keeps]: "os_keeps I (os_return x)"
  by (simp add: os_keeps_def)

lemma os_keeps_fail [os_keeps]: "os_keeps I (os_fail e)"
  by (simp add: os_keeps_def)

lemma os_keeps_result [os_keeps]: "os_keeps I (os_result r)"
  by (simp add: os_keeps_def)

lemma os_keeps_bind [os_keeps]:
  "os_keeps I m \<Longrightarrow> (\<And>x. os_keeps I (f x)) \<Longrightarrow> os_keeps I (os_bind m f)"
  by (fastforce simp: os_keeps_def os_bind_def split: prod.splits sum.splits)

lemma os_keeps_attempt [os_keeps]: "os_keeps I m \<Longrightarrow> os_keeps I (os_attempt m)"
  by (auto simp: os_keeps_def os_attempt_def split: prod.splits) (metis snd_conv)

lemma os_keeps_try [os_keeps]: "os_keeps I m \<Longrightarrow> os_keeps I (io_try f m)"
  unfolding io_try_def by (intro os_keeps_bind) (auto intro: os_keeps split: sum.split)

lemma os_keeps_when [os_keeps]: "os_keeps I (os_when c e)"
  by (simp add: os_when_def os_keeps)

lemma os_keeps_if [os_keeps]:
  "(c \<Longrightarrow> os_keeps I m) \<Longrightarrow> (\<not> c \<Longrightarrow> os_keeps I n) \<Longrightarrow> os_keeps I (if c then m else n)"
  by simp

lemma os_keeps_option [os_keeps]:
  "(x = None \<Longrightarrow> os_keeps I m) \<Longrightarrow> (\<And>y. x = Some y \<Longrightarrow> os_keeps I (f y)) \<Longrightarrow>
   os_keeps I (case x of None \<Rightarrow> m | Some y \<Rightarrow> f y)"
  by (cases x) auto

lemma os_keeps_sum [os_keeps]:
  "(\<And>e. x = Inl e \<Longrightarrow> os_keeps I (f e)) \<Longrightarrow> (\<And>y. x = Inr y \<Longrightarrow> os_keeps I (g y)) \<Longrightarrow>
   os_keeps I (case x of Inl e \<Rightarrow> f e | Inr y \<Rightarrow> g y)"
  by (cases x) auto

lemma os_keeps_each:
  "(\<And>x s. x \<in> set xs \<Longrightarrow> os_keeps I (f x s)) \<Longrightarrow> os_keeps I (os_each f xs s)"
  by (induction xs arbitrary: s) (auto intro: os_keeps)

lemma os_keeps_ask: "(\<And>v log. I v log \<Longrightarrow> I v (c # log)) \<Longrightarrow> os_keeps I (ask reply c)"
  by (simp add: os_keeps_def)

lemma os_keepsD: "os_keeps I m \<Longrightarrow> I v log \<Longrightarrow> I v (snd (m v log))"
  by (simp add: os_keeps_def)

lemma os_keepsD2: "os_keeps I m \<Longrightarrow> I v log \<Longrightarrow> m v log = (r, log1) \<Longrightarrow> I v log1"
  by (metis os_keepsD snd_conv)

text \<open>A loop that succeeds keeps an invariant of its variables.\<close>

lemma os_each_invariant:
  "os_each f xs s v log = (Inr t, log1) \<Longrightarrow> J [] s \<Longrightarrow>
   (\<And>ys x s s' l l'. J ys s \<Longrightarrow> x \<in> set xs \<Longrightarrow> f x s v l = (Inr s', l') \<Longrightarrow> J (ys @ [x]) s') \<Longrightarrow> J xs t"
proof -
  have "os_each f zs s v log = (Inr t, log1) \<Longrightarrow> J ys s \<Longrightarrow> set zs \<subseteq> set xs \<Longrightarrow> J (ys @ zs) t"
    if "\<And>ys x s s' l l'. J ys s \<Longrightarrow> x \<in> set xs \<Longrightarrow> f x s v l = (Inr s', l') \<Longrightarrow> J (ys @ [x]) s'" for zs ys
    using that
  proof (induction zs arbitrary: ys s log)
    case (Cons z zs)
    from Cons.prems(1) obtain s1 l1 where "f z s v log = (Inr s1, l1)" "os_each f zs s1 v l1 = (Inr t, log1)"
      by (auto simp: os_Inr)
    then show ?case using Cons.IH [of s1 l1 "ys @ [z]"] Cons.prems by auto
  qed simp
  from this [of xs "[]"] show "os_each f xs s v log = (Inr t, log1) \<Longrightarrow> J [] s \<Longrightarrow>
   (\<And>ys x s s' l l'. J ys s \<Longrightarrow> x \<in> set xs \<Longrightarrow> f x s v l = (Inr s', l') \<Longrightarrow> J (ys @ [x]) s') \<Longrightarrow> J xs t"
    by simp
qed

end
