(* ===== verification/RuntimePackage.thy ===== *)
theory RuntimePackage
  imports RuntimeLock Os "HOL-Library.Multiset"
begin

text \<open>
  The verification of a runtime package on disk (\<open>src/src/runtime.rs\<close>): permissions, the exact set of
  files and directories, the digest of each file, the package manifest, and the checks of the schema
  and of the host around it. The digest, the \<open>serde\<close> derivation of the manifest and the order of a
  hash set are parameters. A checkpoint asks whether the worker has been cancelled.
\<close>

record package_manifest =
  pm_layout_version :: nat
  pm_version :: string
  pm_target :: string
  pm_variant :: string
  pm_entrypoint :: string
  pm_resources_dir :: string
  pm_path_dir :: string

record runtime_params =
  rp_digest :: "string \<Rightarrow> string"
  rp_order :: "path list \<Rightarrow> path list"
  rp_manifest :: "io_error + string \<Rightarrow> string + package_manifest"

record runtime_package =
  rk_root :: path
  rk_lock :: runtime_lock

record verified_runtime =
  vr_root :: path
  vr_entrypoint :: path
  vr_lock :: runtime_lock

definition verification_error :: "string \<Rightarrow> string \<Rightarrow> error" where
  "verification_error op msg = new_error RuntimeVerification op msg"

definition VERIFICATION_READ_CHUNK_BYTES :: nat where
  "VERIFICATION_READ_CHUNK_BYTES = 131072"

section \<open>Checkpoints, permissions, digests\<close>

definition checkpoint :: "string \<Rightarrow> unit os" where
  "checkpoint op =
     os_bind (ask os_bool (Checkpoint op)) (\<lambda>cancelled. os_when cancelled (timeout_error op 0))"

definition os_lstat :: "path \<Rightarrow> (io_error + file_metadata) os" where
  "os_lstat p = ask os_meta (Lstat p)"

definition verify_secure_permissions :: "path \<Rightarrow> bool \<Rightarrow> unit os" where
  "verify_secure_permissions p executable =
     os_bind (io_try (verification_error ''runtime.permissions'') (os_lstat p)) (\<lambda>md.
     os_bind (os_when (md_mode md AND 18 \<noteq> 0)
                (verification_error ''runtime.permissions''
                   (path_display p @ '' is writable by group or others''))) (\<lambda>_.
     os_when (executable \<and> md_mode md AND 73 = 0)
       (verification_error ''runtime.permissions'' (path_display p @ '' is not executable''))))"

definition nibble_text :: "nat \<Rightarrow> char" where
  "nibble_text n = (if n < 10 then char_of (48 + n) else char_of (87 + n))"

definition format_digest :: "string \<Rightarrow> string" where
  "format_digest bytes =
     concat (map (\<lambda>c. [nibble_text ((of_char c :: nat) div 16), nibble_text ((of_char c :: nat) mod 16)]) bytes)"

text \<open>The read loop: \<open>acc\<close> is what the hasher has been fed, \<open>read_total\<close> the counter.\<close>

function hash_loop ::
  "path \<Rightarrow> nat \<Rightarrow> os_env \<Rightarrow> os_call list \<Rightarrow> nat \<Rightarrow> string \<Rightarrow> (nat \<times> string) result \<times> os_call list"
where
  "hash_loop p max_bytes v log read_total acc =
     (case checkpoint ''runtime.hash'' v log of
        (Inl e, log1) \<Rightarrow> (Inl e, log1)
      | (Inr _, log1) \<Rightarrow>
          (case os_data v (ReadFile p # log1) of
             Inl e \<Rightarrow> (Inl (verification_error ''runtime.hash''
                             (''cannot read '' @ path_display p @ '': '' @ io_text e)), ReadFile p # log1)
           | Inr data \<Rightarrow>
               (let bytes = take VERIFICATION_READ_CHUNK_BYTES data;
                    read_total1 = read_total + length bytes
                in if bytes = [] then (Inr (read_total, acc), ReadFile p # log1)
                   else if u64_max < read_total1
                   then (Inl (verification_error ''runtime.size''
                           (path_display p @ '' size counter overflowed'')), ReadFile p # log1)
                   else if max_bytes < read_total1
                   then (Inl (verification_error ''runtime.size''
                           (path_display p @ '' exceeded the locked '' @ show_nat max_bytes
                            @ '' byte ceiling while hashing'')), ReadFile p # log1)
                   else hash_loop p max_bytes v (ReadFile p # log1) read_total1 (acc @ bytes))))"
  by pat_completeness auto
termination
proof (relation "measure (\<lambda>(p, max_bytes, v, log, read_total, acc). max_bytes - read_total)", goal_cases)
  case (2 p max_bytes v log read_total acc _ e _ data bytes n)
  then have "0 < length bytes" "n = read_total + length bytes" "n \<le> max_bytes" by auto
  then show ?case by (cases bytes) auto
qed simp

declare hash_loop.simps [simp del]

definition hash_file_with_control :: "(string \<Rightarrow> string) \<Rightarrow> path \<Rightarrow> nat \<Rightarrow> string os" where
  "hash_file_with_control digest p max_bytes =
     os_bind (checkpoint ''runtime.hash'') (\<lambda>_.
     os_bind (io_try (\<lambda>t. verification_error ''runtime.hash''
                            (''cannot inspect '' @ path_display p @ '': '' @ t)) (os_lstat p)) (\<lambda>md.
     os_bind (os_when (max_bytes < md_len md)
                (verification_error ''runtime.size''
                   (path_display p @ '' is '' @ show_nat (md_len md) @ '' bytes, exceeding the locked ''
                    @ show_nat max_bytes @ '' byte ceiling''))) (\<lambda>_.
     os_bind (io_try (\<lambda>t. verification_error ''runtime.hash''
                            (''cannot open '' @ path_display p @ '': '' @ t))
                (ask os_unit (OpenFile p))) (\<lambda>_.
     os_bind (\<lambda>v log. hash_loop p max_bytes v log 0 []) (\<lambda>(read_total, bytes).
     os_bind (os_when (read_total \<noteq> md_len md)
                (verification_error ''runtime.size''
                   (path_display p @ '' changed size during hashing: expected '' @ show_nat (md_len md)
                    @ '', observed '' @ show_nat read_total))) (\<lambda>_.
     os_return (format_digest (digest bytes))))))))"

section \<open>The set of files\<close>

text \<open>The loop over the parents of a file.\<close>

function parent_directories :: "path \<Rightarrow> path list" where
  "parent_directories p =
     (case path_parent p of
        None \<Rightarrow> []
      | Some d \<Rightarrow> if d = [] then [] else d # parent_directories d)"
  by pat_completeness auto
termination
  by (relation "measure length") (auto dest: path_parent_shorter)

declare parent_directories.simps [simp del]

definition expected_directories :: "runtime_artifact list \<Rightarrow> path list" where
  "expected_directories artifacts =
     [[Normal ''bin''], [Normal ''codex-path''], [Normal ''codex-resources'']]
     @ concat (map (\<lambda>a. parent_directories (ra_path a)) artifacts)"

record walk_state =
  wk_files :: "path list"
  wk_dirs :: "path list"
  wk_pending :: "path list"

definition layout_error :: "string \<Rightarrow> error" where
  "layout_error msg = verification_error ''runtime.layout'' msg"

text \<open>One entry of a directory.\<close>

definition walk_entry ::
  "path \<Rightarrow> path list \<Rightarrow> path list \<Rightarrow> path \<Rightarrow> io_error + dir_entry \<Rightarrow> walk_state \<Rightarrow> walk_state os"
where
  "walk_entry root files dirs directory item st =
     os_bind (checkpoint ''runtime.layout'') (\<lambda>_.
     os_bind (io_try layout_error (os_return item)) (\<lambda>entry.
     os_bind (io_try layout_error (os_return (de_type entry))) (\<lambda>kind.
     let p = path_join directory [Normal (de_name entry)] in
     case strip_prefix p root of
       None \<Rightarrow> os_fail (layout_error ''prefix not found'')
     | Some relative \<Rightarrow>
         if kind = SymbolicLink
         then os_fail (layout_error (''symbolic links are not accepted: '' @ path_display relative))
         else if kind = Directory
         then os_bind (os_when (relative \<notin> set dirs)
                         (layout_error (''unexpected runtime directory: '' @ path_display relative))) (\<lambda>_.
              os_bind (verify_secure_permissions p False) (\<lambda>_.
              os_return (st\<lparr>wk_dirs := relative # wk_dirs st, wk_pending := p # wk_pending st\<rparr>)))
         else os_bind (os_when (kind \<noteq> RegularFile)
                         (layout_error (''unsupported filesystem entry: '' @ path_display relative))) (\<lambda>_.
              os_bind (os_when (relative \<notin> set files)
                         (layout_error (''unexpected runtime file: '' @ path_display relative))) (\<lambda>_.
              os_return (st\<lparr>wk_files := relative # wk_files st\<rparr>))))))"

definition walk_directory ::
  "path \<Rightarrow> path list \<Rightarrow> path list \<Rightarrow> path \<Rightarrow> walk_state \<Rightarrow> walk_state os"
where
  "walk_directory root files dirs directory st =
     os_bind (checkpoint ''runtime.layout'') (\<lambda>_.
     os_bind (io_try (\<lambda>t. layout_error (''cannot read '' @ path_display directory @ '': '' @ t))
                (ask os_dir (ReadDir directory))) (\<lambda>entries.
     os_each (walk_entry root files dirs directory) entries st))"

text \<open>A directory is one level below the one it was found in, and its relative path is an expected
  one, so the depth of what is pending is bounded.\<close>

definition walk_depth :: "path \<Rightarrow> path list \<Rightarrow> nat" where
  "walk_depth root dirs = Suc (length root + Max (insert 0 (length ` set dirs)))"

lemma walk_entry_Inr:
  assumes "walk_entry root files dirs directory item st v log = (Inr st1, log1)"
  obtains entry kind relative log2 where "item = Inr entry" "de_type entry = Inr kind"
    "directory @ [Normal (de_name entry)] = root @ relative"
    "kind = Directory \<and> relative \<in> set dirs
       \<and> verify_secure_permissions (root @ relative) False v log2 = (Inr (), log1)
       \<and> st1 = st\<lparr>wk_dirs := relative # wk_dirs st, wk_pending := (root @ relative) # wk_pending st\<rparr>
     \<or> kind = RegularFile \<and> relative \<in> set files \<and> st1 = st\<lparr>wk_files := relative # wk_files st\<rparr>"
proof -
  from assms obtain entry kind where e: "item = Inr entry" "de_type entry = Inr kind"
    by (auto simp: walk_entry_def os_Inr)
  from assms e obtain relative where r: "strip_prefix (directory @ [Normal (de_name entry)]) root = Some relative"
    by (cases "strip_prefix (directory @ [Normal (de_name entry)]) root")
       (auto simp: walk_entry_def os_Inr Let_def)
  then have eq: "directory @ [Normal (de_name entry)] = root @ relative"
    by (simp add: strip_prefix_Some_iff)
  show ?thesis
  proof (cases "kind = Directory")
    case True
    with assms e r eq that show ?thesis by (simp add: walk_entry_def os_Inr Let_def) blast
  next
    case False
    with assms e r eq that show ?thesis by (simp add: walk_entry_def os_Inr Let_def split: if_splits)
  qed
qed

lemma walk_entry_pending:
  assumes "walk_entry root files dirs directory item st v log = (Inr st1, log1)"
  shows "wk_pending st1 = wk_pending st \<or>
     (\<exists>p. wk_pending st1 = p # wk_pending st \<and> length p = Suc (length directory)
          \<and> length p < walk_depth root dirs)"
proof -
  obtain entry :: dir_entry and kind relative log2 where
    eq: "directory @ [Normal (de_name entry)] = root @ relative" and
    step: "kind = Directory \<and> relative \<in> set dirs
       \<and> verify_secure_permissions (root @ relative) False v log2 = (Inr (), log1)
       \<and> st1 = st\<lparr>wk_dirs := relative # wk_dirs st, wk_pending := (root @ relative) # wk_pending st\<rparr>
     \<or> kind = RegularFile \<and> relative \<in> set files \<and> st1 = st\<lparr>wk_files := relative # wk_files st\<rparr>"
    by (rule walk_entry_Inr [OF assms]) (rule that)
  from step have st: "relative \<in> set dirs \<and> wk_pending st1 = (root @ relative) # wk_pending st
      \<or> wk_pending st1 = wk_pending st" by auto
  have "length (root @ relative) < walk_depth root dirs" if "relative \<in> set dirs"
  proof -
    from that have "length relative \<le> Max (insert 0 (length ` set dirs))" by (intro Max_ge) auto
    then show ?thesis by (simp add: walk_depth_def)
  qed
  moreover have "length (root @ relative) = Suc (length directory)"
    using eq by (metis length_append_singleton)
  ultimately show ?thesis using st by auto
qed

lemma walk_directory_pending:
  assumes "walk_directory root files dirs directory st v log = (Inr st1, log1)"
  shows "\<exists>ps. wk_pending st1 = ps @ wk_pending st
     \<and> (\<forall>p \<in> set ps. length p = Suc (length directory) \<and> length p < walk_depth root dirs)"
proof -
  from assms obtain entries l1 l2 where
    *: "os_each (walk_entry root files dirs directory) entries st v l1 = (Inr st1, l2)"
    by (auto simp: walk_directory_def os_Inr)
  show ?thesis
  proof (rule os_each_invariant [OF *, where J = "\<lambda>_ s. \<exists>ps. wk_pending s = ps @ wk_pending st
      \<and> (\<forall>p \<in> set ps. length p = Suc (length directory) \<and> length p < walk_depth root dirs)"])
    show "\<exists>ps. wk_pending st = ps @ wk_pending st
      \<and> (\<forall>p \<in> set ps. length p = Suc (length directory) \<and> length p < walk_depth root dirs)"
      by (rule exI [of _ "[]"]) simp
  next
    fix ys x s s' l l'
    assume J: "\<exists>ps. wk_pending s = ps @ wk_pending st
      \<and> (\<forall>p \<in> set ps. length p = Suc (length directory) \<and> length p < walk_depth root dirs)"
      and f: "walk_entry root files dirs directory x s v l = (Inr s', l')"
    from J obtain ps where ps: "wk_pending s = ps @ wk_pending st"
      "\<forall>p \<in> set ps. length p = Suc (length directory) \<and> length p < walk_depth root dirs" by blast
    from walk_entry_pending [OF f] show "\<exists>ps. wk_pending s' = ps @ wk_pending st
      \<and> (\<forall>p \<in> set ps. length p = Suc (length directory) \<and> length p < walk_depth root dirs)"
    proof (elim disjE exE conjE)
      assume "wk_pending s' = wk_pending s"
      then show ?thesis using ps by auto
    next
      fix p assume "wk_pending s' = p # wk_pending s" "length p = Suc (length directory)"
        "length p < walk_depth root dirs"
      then show ?thesis using ps by (intro exI [of _ "p # ps"]) auto
    qed
  qed
qed

lemma mult_replace_head:
  assumes "\<forall>k \<in># K. k < (n :: nat)"
  shows "(K + M, add_mset n M) \<in> mult {(x, y). x < y}"
proof -
  have "(M + K, M + {#n#}) \<in> mult {(x, y). x < y}"
    by (rule one_step_implies_mult) (use assms in auto)
  then show ?thesis by (simp add: union_commute)
qed

text \<open>The loop over the pending directories, latest first.\<close>

function walk_pending ::
  "path \<Rightarrow> path list \<Rightarrow> path list \<Rightarrow> os_env \<Rightarrow> os_call list \<Rightarrow> walk_state \<Rightarrow>
   walk_state result \<times> os_call list"
where
  "walk_pending root files dirs v log st =
     (case wk_pending st of
        [] \<Rightarrow> (Inr st, log)
      | directory # rest \<Rightarrow>
          (case walk_directory root files dirs directory (st\<lparr>wk_pending := rest\<rparr>) v log of
             (Inl e, log1) \<Rightarrow> (Inl e, log1)
           | (Inr st1, log1) \<Rightarrow> walk_pending root files dirs v log1 st1))"
  by pat_completeness auto
termination
proof (relation "inv_image (mult {(x, y). x < y}) (\<lambda>(root, files, dirs, v, log, st).
         mset (map (\<lambda>p. walk_depth root dirs - length p) (wk_pending st)))", goal_cases)
  case 1
  show ?case by (intro wf_inv_image wf_mult wf_less)
next
  case (2 root files dirs v log st directory rest res log1 st1)
  then obtain ps where ps: "wk_pending st1 = ps @ rest"
    "\<forall>p \<in> set ps. length p = Suc (length directory) \<and> length p < walk_depth root dirs"
    using walk_directory_pending [of root files dirs directory "st\<lparr>wk_pending := rest\<rparr>" v log st1 log1]
    by auto
  have "\<forall>k \<in># mset (map (\<lambda>p. walk_depth root dirs - length p) ps).
      k < walk_depth root dirs - length directory"
    using ps(2) by auto
  from mult_replace_head [OF this] show ?case using 2(1) ps(1) by simp
qed

declare walk_pending.simps [simp del]

definition missing_paths :: "runtime_params \<Rightarrow> path list \<Rightarrow> path list \<Rightarrow> string" where
  "missing_paths rp expected observed =
     join_with '', '' (map path_display
       (rp_order rp (filter (\<lambda>p. p \<notin> set observed) (remdups expected))))"

definition verify_exact_file_set :: "runtime_params \<Rightarrow> path \<Rightarrow> runtime_artifact list \<Rightarrow> unit os" where
  "verify_exact_file_set rp root artifacts =
     (let files = map ra_path artifacts; dirs = expected_directories artifacts in
      os_bind (\<lambda>v log. walk_pending root files dirs v log
                         \<lparr>wk_files = [], wk_dirs = [], wk_pending = [root]\<rparr>) (\<lambda>st.
      os_bind (os_when (set (wk_files st) \<noteq> set files)
                 (layout_error (''runtime package is missing locked files: ''
                    @ missing_paths rp files (wk_files st)))) (\<lambda>_.
      os_when (set (wk_dirs st) \<noteq> set dirs)
        (layout_error (''runtime package is missing locked directories: ''
           @ missing_paths rp dirs (wk_dirs st))))))"

section \<open>The package\<close>

text \<open>One locked file.\<close>

definition verify_artifact :: "runtime_params \<Rightarrow> path \<Rightarrow> runtime_artifact \<Rightarrow> unit os" where
  "verify_artifact rp root a =
     (let name = path_display (ra_path a); joined = path_join root (ra_path a);
          fail = verification_error ''runtime.artifact'' in
      os_bind (checkpoint ''runtime.artifact'') (\<lambda>_.
      os_bind (io_try (\<lambda>t. fail (''missing '' @ name @ '': '' @ t)) (os_lstat joined)) (\<lambda>md.
      os_bind (os_when (md_kind md = SymbolicLink \<or> md_kind md \<noteq> RegularFile)
                 (fail (name @ '' must be a regular non-symlink file''))) (\<lambda>_.
      os_bind (io_try (\<lambda>t. fail (''cannot resolve '' @ name @ '': '' @ t))
                 (ask os_path (Canonicalize joined))) (\<lambda>canonical.
      os_bind (os_when (\<not> path_starts_with canonical root)
                 (fail (name @ '' resolves outside the package''))) (\<lambda>_.
      os_bind (verify_secure_permissions canonical (ra_executable a)) (\<lambda>_.
      os_bind (hash_file_with_control (rp_digest rp) canonical (ra_max_bytes a)) (\<lambda>actual.
      os_when (actual \<noteq> ra_sha256 a)
        (verification_error ''runtime.hash''
           (''SHA-256 mismatch for '' @ name @ '': expected '' @ ra_sha256 a @ '', observed '' @ actual))))))))))"

definition manifest_matches :: "runtime_lock \<Rightarrow> package_manifest \<Rightarrow> bool" where
  "manifest_matches lock m \<longleftrightarrow>
     \<not> (pm_layout_version m \<noteq> 1
        \<or> pm_version m \<noteq> rl_version lock
        \<or> pm_target m \<noteq> rl_target lock
        \<or> pm_variant m \<noteq> rl_variant lock
        \<or> path_of (pm_entrypoint m) \<noteq> rl_entrypoint lock
        \<or> pm_resources_dir m \<noteq> ''codex-resources''
        \<or> pm_path_dir m \<noteq> ''codex-path'')"

definition require_directory :: "path \<Rightarrow> string \<Rightarrow> unit os" where
  "require_directory root directory =
     os_bind (ask os_bool (IsDir (path_join root (path_of directory)))) (\<lambda>present.
     os_when (\<not> present)
       (verification_error ''runtime.manifest''
          (''required package directory '' @ quoted directory @ '' is missing'')))"

definition verify_manifest :: "runtime_params \<Rightarrow> path \<Rightarrow> runtime_lock \<Rightarrow> unit os" where
  "verify_manifest rp root lock =
     (let manifest_path = path_join root [Normal ''codex-package.json''];
          fail = verification_error ''runtime.manifest'' in
      os_bind (checkpoint ''runtime.manifest'') (\<lambda>_.
      os_bind (io_try fail (ask os_unit (OpenFile manifest_path))) (\<lambda>_.
      os_bind (ask os_data (ReadAll manifest_path)) (\<lambda>content.
      os_bind (case rp_manifest rp content of
                 Inl t \<Rightarrow> os_fail (fail (''invalid codex-package.json: '' @ t))
               | Inr m \<Rightarrow> os_return m) (\<lambda>m.
      os_bind (os_when (\<not> manifest_matches lock m)
                 (fail ''package manifest does not match the runtime lock'')) (\<lambda>_.
      os_bind (require_directory root (pm_resources_dir m)) (\<lambda>_.
      require_directory root (pm_path_dir m))))))))"

definition verify_filesystem_with_control :: "runtime_params \<Rightarrow> runtime_package \<Rightarrow> verified_runtime os" where
  "verify_filesystem_with_control rp k =
     os_bind (checkpoint ''runtime.verify'') (\<lambda>_.
     os_bind (io_try (\<lambda>t. verification_error ''runtime.canonicalize'' (''cannot inspect package root: '' @ t))
                (os_lstat (rk_root k))) (\<lambda>md.
     os_bind (os_when (md_kind md = SymbolicLink)
                (verification_error ''runtime.layout'' ''package root may not be a symbolic link'')) (\<lambda>_.
     os_bind (io_try (\<lambda>t. verification_error ''runtime.canonicalize'' (''cannot canonicalize package root: '' @ t))
                (ask os_path (Canonicalize (rk_root k)))) (\<lambda>root.
     os_bind (ask os_bool (IsDir root)) (\<lambda>is_directory.
     os_bind (os_when (\<not> is_directory)
                (verification_error ''runtime.layout'' ''package root is not a directory'')) (\<lambda>_.
     os_bind (verify_secure_permissions root False) (\<lambda>_.
     os_bind (verify_exact_file_set rp root (rl_artifacts (rk_lock k))) (\<lambda>_.
     os_bind (os_each (\<lambda>a _. verify_artifact rp root a) (rl_artifacts (rk_lock k)) ()) (\<lambda>_.
     os_bind (verify_manifest rp root (rk_lock k)) (\<lambda>_.
     os_return \<lparr>vr_root = root, vr_entrypoint = path_join root (rl_entrypoint (rk_lock k)),
                vr_lock = rk_lock k\<rparr>))))))))))"

definition verify_host_target :: "string \<Rightarrow> string \<Rightarrow> string \<Rightarrow> unit result" where
  "verify_host_target os arch target =
     (if os = ''macos'' \<and> arch = ''aarch64'' \<and> target = ''aarch64-apple-darwin'' then Inr ()
      else Inl (verification_error ''runtime.target''
                  (''runtime target '' @ quoted target @ '' is not compatible with host ''
                   @ quoted (arch @ ''-'' @ os))))"

end
