(* ===== verification/RuntimeDisk.thy ===== *)
theory RuntimeDisk
  imports RuntimePackage
begin

text \<open>
  A file system that nobody changes while a package is verified, as an environment: every reply is a
  function of the path. A read gives any positive number of the bytes that are left. On it, the
  packages that the verification accepts are described without the order of its steps.
\<close>

section \<open>A disk\<close>

record disk =
  dk_meta :: "path \<Rightarrow> io_error + file_metadata"
  dk_canonical :: "path \<Rightarrow> io_error + path"
  dk_is_dir :: "path \<Rightarrow> bool"
  dk_dir :: "path \<Rightarrow> io_error + (io_error + dir_entry) list"
  dk_content :: "path \<Rightarrow> io_error + string"
  dk_cut :: "path \<Rightarrow> nat \<Rightarrow> nat"

text \<open>The number of bytes that a read at an offset gives, and the offset after the calls of a log.\<close>

definition dk_step :: "disk \<Rightarrow> path \<Rightarrow> string \<Rightarrow> nat \<Rightarrow> nat" where
  "dk_step d p content n =
     min (min (Suc (dk_cut d p n)) VERIFICATION_READ_CHUNK_BYTES) (length content - n)"

fun dk_offset :: "disk \<Rightarrow> path \<Rightarrow> string \<Rightarrow> os_call list \<Rightarrow> nat" where
  "dk_offset d p content [] = 0"
| "dk_offset d p content (c # log) =
     (if c = OpenFile p then 0
      else if c = ReadFile p
      then dk_offset d p content log + dk_step d p content (dk_offset d p content log)
      else dk_offset d p content log)"

definition dk_read :: "disk \<Rightarrow> path \<Rightarrow> os_call list \<Rightarrow> io_error + string" where
  "dk_read d p log =
     (case dk_content d p of
        Inl e \<Rightarrow> Inl e
      | Inr content \<Rightarrow>
          let n = dk_offset d p content log in
          Inr (take (dk_step d p content n) (drop n content)))"

text \<open>The disk within an environment, which answers all calls but those that read the disk.\<close>

definition disk_env :: "disk \<Rightarrow> (os_call list \<Rightarrow> bool) \<Rightarrow> os_env \<Rightarrow> os_env" where
  "disk_env d cancelled rest = rest
     \<lparr>os_bool := (\<lambda>l. case l of Checkpoint op # log \<Rightarrow> cancelled log | IsDir p # _ \<Rightarrow> dk_is_dir d p | _ \<Rightarrow> os_bool rest l),
      os_meta := (\<lambda>l. case l of Lstat p # _ \<Rightarrow> dk_meta d p | _ \<Rightarrow> os_meta rest l),
      os_path := (\<lambda>l. case l of Canonicalize p # _ \<Rightarrow> dk_canonical d p | _ \<Rightarrow> os_path rest l),
      os_dir := (\<lambda>l. case l of ReadDir p # _ \<Rightarrow> dk_dir d p | _ \<Rightarrow> os_dir rest l),
      os_data := (\<lambda>l. case l of ReadFile p # log \<Rightarrow> dk_read d p log | ReadAll p # _ \<Rightarrow> dk_content d p
                       | _ \<Rightarrow> os_data rest l),
      os_unit := (\<lambda>l. case l of OpenFile p # _ \<Rightarrow>
                         (case dk_content d p of Inl e \<Rightarrow> Inl e | Inr _ \<Rightarrow> Inr ()) | _ \<Rightarrow> os_unit rest l)\<rparr>"

definition never_cancelled :: "os_call list \<Rightarrow> bool" where
  "never_cancelled log \<longleftrightarrow> False"

lemma disk_env_simps [simp]:
  "os_bool (disk_env d c b) (Checkpoint op # log) = c log"
  "os_bool (disk_env d c b) (IsDir p # log) = dk_is_dir d p"
  "os_meta (disk_env d c b) (Lstat p # log) = dk_meta d p"
  "os_path (disk_env d c b) (Canonicalize p # log) = dk_canonical d p"
  "os_dir (disk_env d c b) (ReadDir p # log) = dk_dir d p"
  "os_data (disk_env d c b) (ReadFile p # log) = dk_read d p log"
  "os_data (disk_env d c b) (ReadAll p # log) = dk_content d p"
  "os_unit (disk_env d c b) (OpenFile p # log) =
     (case dk_content d p of Inl e \<Rightarrow> Inl e | Inr _ \<Rightarrow> Inr ())"
  by (simp_all add: disk_env_def)

section \<open>What is on the disk\<close>

text \<open>Not writable by group or others, and executable where it must be.\<close>

definition secure_on :: "disk \<Rightarrow> path \<Rightarrow> bool \<Rightarrow> bool" where
  "secure_on d p executable \<longleftrightarrow>
     (\<exists>md. dk_meta d p = Inr md \<and> md_mode md AND 18 = 0 \<and> (executable \<longrightarrow> md_mode md AND 73 \<noteq> 0))"

definition entry_on :: "disk \<Rightarrow> path \<Rightarrow> string \<Rightarrow> file_kind \<Rightarrow> bool" where
  "entry_on d p name kind \<longleftrightarrow>
     (\<exists>items e. dk_dir d p = Inr items \<and> Inr e \<in> set items \<and> de_name e = name \<and> de_type e = Inr kind)"

text \<open>The directories at and below a directory.\<close>

inductive below :: "disk \<Rightarrow> path \<Rightarrow> path \<Rightarrow> bool" for d where
  below_refl: "below d p p"
| below_step: "entry_on d p n Directory \<Longrightarrow> below d (p @ [Normal n]) q \<Longrightarrow> below d p q"

inductive_cases below_cases: "below d p q"

definition tree_dirs :: "disk \<Rightarrow> path \<Rightarrow> path set" where
  "tree_dirs d root = {rel. rel \<noteq> [] \<and> below d root (root @ rel)}"

definition tree_files :: "disk \<Rightarrow> path \<Rightarrow> path set" where
  "tree_files d root =
     {rel @ [Normal n] | rel n. below d root (root @ rel) \<and> entry_on d (root @ rel) n RegularFile}"

text \<open>Every directory can be listed and holds only files and directories, and every directory below
  the root is secure.\<close>

definition listing_ok :: "disk \<Rightarrow> path \<Rightarrow> bool" where
  "listing_ok d p \<longleftrightarrow>
     (\<exists>items. dk_dir d p = Inr items
        \<and> (\<forall>item \<in> set items. \<exists>e. item = Inr e
             \<and> (de_type e = Inr RegularFile
                \<or> de_type e = Inr Directory \<and> secure_on d (p @ [Normal (de_name e)]) False)))"

definition tree_ok :: "disk \<Rightarrow> path \<Rightarrow> runtime_artifact list \<Rightarrow> bool" where
  "tree_ok d root artifacts \<longleftrightarrow>
     (\<forall>p. below d root p \<longrightarrow> listing_ok d p)
     \<and> tree_files d root = ra_path ` set artifacts
     \<and> tree_dirs d root = set (expected_directories artifacts)"

definition hash_on :: "(string \<Rightarrow> string) \<Rightarrow> disk \<Rightarrow> path \<Rightarrow> nat \<Rightarrow> string \<Rightarrow> bool" where
  "hash_on digest d p max_bytes h \<longleftrightarrow>
     (\<exists>md content. dk_meta d p = Inr md \<and> dk_content d p = Inr content
        \<and> length content = md_len md \<and> length content \<le> max_bytes \<and> length content \<le> u64_max
        \<and> h = format_digest (digest content))"

definition artifact_on :: "runtime_params \<Rightarrow> disk \<Rightarrow> path \<Rightarrow> runtime_artifact \<Rightarrow> bool" where
  "artifact_on rp d root a \<longleftrightarrow>
     (\<exists>md rel. dk_meta d (path_join root (ra_path a)) = Inr md \<and> md_kind md = RegularFile
        \<and> dk_canonical d (path_join root (ra_path a)) = Inr (root @ rel)
        \<and> secure_on d (root @ rel) (ra_executable a)
        \<and> hash_on (rp_digest rp) d (root @ rel) (ra_max_bytes a) (ra_sha256 a))"

definition manifest_on :: "runtime_params \<Rightarrow> disk \<Rightarrow> path \<Rightarrow> runtime_lock \<Rightarrow> bool" where
  "manifest_on rp d root lock \<longleftrightarrow>
     (\<exists>content m. dk_content d (path_join root [Normal ''codex-package.json'']) = Inr content
        \<and> rp_manifest rp (Inr content) = Inr m \<and> manifest_matches lock m
        \<and> dk_is_dir d (path_join root (path_of ''codex-resources''))
        \<and> dk_is_dir d (path_join root (path_of ''codex-path'')))"

definition package_on :: "runtime_params \<Rightarrow> disk \<Rightarrow> runtime_package \<Rightarrow> path \<Rightarrow> bool" where
  "package_on rp d k root \<longleftrightarrow>
     (\<exists>md. dk_meta d (rk_root k) = Inr md \<and> md_kind md \<noteq> SymbolicLink)
     \<and> dk_canonical d (rk_root k) = Inr root \<and> dk_is_dir d root \<and> secure_on d root False
     \<and> tree_ok d root (rl_artifacts (rk_lock k))
     \<and> list_all (artifact_on rp d root) (rl_artifacts (rk_lock k))
     \<and> manifest_on rp d root (rk_lock k)"

section \<open>The simple steps\<close>

lemma checkpoint_disk:
  "checkpoint op (disk_env d c b) log = (Inr u, log1) \<longleftrightarrow> \<not> c log \<and> log1 = Checkpoint op # log"
  by (simp add: checkpoint_def os_Inr)

lemma os_lstat_disk: "os_lstat p (disk_env d c b) log = (Inr (dk_meta d p), Lstat p # log)"
  by (simp add: os_lstat_def)

lemma secure_disk:
  "verify_secure_permissions p x (disk_env d c b) log = (Inr u, log1) \<longleftrightarrow>
     secure_on d p x \<and> log1 = Lstat p # log"
  by (auto simp: verify_secure_permissions_def secure_on_def os_Inr os_lstat_def)

lemma require_directory_disk:
  "require_directory root s (disk_env d c b) log = (Inr u, log1) \<longleftrightarrow>
     dk_is_dir d (path_join root (path_of s)) \<and> log1 = IsDir (path_join root (path_of s)) # log"
  by (auto simp: require_directory_def os_Inr)

section \<open>Hashing a file\<close>

lemma dk_step_0: "dk_step d p content n = 0 \<longleftrightarrow> length content \<le> n"
  by (auto simp: dk_step_def VERIFICATION_READ_CHUNK_BYTES_def min_def)

lemma dk_step_le: "dk_step d p content n \<le> length content - n"
  by (simp add: dk_step_def)

lemma dk_step_chunk: "dk_step d p content n \<le> VERIFICATION_READ_CHUNK_BYTES"
  by (simp add: dk_step_def)

lemma hash_loop_step:
  assumes content: "dk_content d p = Inr content"
    and offset: "dk_offset d p content log = n"
    and le: "n \<le> length content"
  shows "hash_loop p max_bytes (disk_env d c b) log n (take n content) =
    (let log1 = Checkpoint ''runtime.hash'' # log; n1 = n + dk_step d p content n in
     if c log then (Inl (timeout_error ''runtime.hash'' 0), log1)
     else if n = length content then (Inr (n, content), ReadFile p # log1)
     else if u64_max < n1
     then (Inl (verification_error ''runtime.size''
             (path_display p @ '' size counter overflowed'')), ReadFile p # log1)
     else if max_bytes < n1
     then (Inl (verification_error ''runtime.size''
             (path_display p @ '' exceeded the locked '' @ show_nat max_bytes
              @ '' byte ceiling while hashing'')), ReadFile p # log1)
     else hash_loop p max_bytes (disk_env d c b) (ReadFile p # log1) n1 (take n1 content))"
proof -
  define bs where "bs = take (dk_step d p content n) (drop n content)"
  have read: "dk_read d p (Checkpoint ''runtime.hash'' # log) = Inr bs"
    using content offset by (simp add: dk_read_def Let_def bs_def)
  have len: "length bs = dk_step d p content n" using dk_step_le [of d p content n] by (simp add: bs_def)
  then have chunk: "take VERIFICATION_READ_CHUNK_BYTES bs = bs"
    using dk_step_chunk [of d p content n] by simp
  from len have empty: "bs = [] \<longleftrightarrow> n = length content"
    using dk_step_0 [of d p content n] le by (metis le_antisym length_0_conv order_refl)
  have acc: "take n content @ bs = take (n + dk_step d p content n) content"
    by (simp add: take_add bs_def)
  show ?thesis
    by (subst hash_loop.simps)
       (simp add: checkpoint_def os_simps read chunk empty len acc Let_def)
qed

lemma hash_loop_offset:
  assumes "dk_offset d p content log = n"
  shows "dk_offset d p content (ReadFile p # Checkpoint op # log) = n + dk_step d p content n"
  using assms by simp

lemma dk_step_bound: "n \<le> length content \<Longrightarrow> n + dk_step d p content n \<le> length content"
  using dk_step_le [of d p content n] by simp

lemma dk_step_pos: "n < length content \<Longrightarrow> 0 < dk_step d p content n"
  using dk_step_0 [of d p content n] by simp

lemma hash_loop_sound:
  assumes "dk_content d p = Inr content"
  shows "hash_loop p max_bytes (disk_env d c b) log n (take n content) = (Inr (m, bytes), log1) \<Longrightarrow>
     dk_offset d p content log = n \<Longrightarrow> n \<le> length content \<Longrightarrow> n \<le> max_bytes \<Longrightarrow> n \<le> u64_max \<Longrightarrow>
     m = length content \<and> bytes = content \<and> length content \<le> max_bytes \<and> length content \<le> u64_max"
proof (induction "length content - n" arbitrary: log n rule: less_induct)
  case less
  note step = hash_loop_step [OF assms less.prems(2,3), of max_bytes c b]
  show ?case
  proof (cases "n = length content")
    case True
    with less.prems step show ?thesis by (auto simp: Let_def split: if_splits)
  next
    case False
    let ?n1 = "n + dk_step d p content n" and ?log1 = "Checkpoint ''runtime.hash'' # log"
    from less.prems(1) step False have run: "hash_loop p max_bytes (disk_env d c b) (ReadFile p # ?log1) ?n1
        (take ?n1 content) = (Inr (m, bytes), log1)" and le: "?n1 \<le> u64_max" "?n1 \<le> max_bytes"
      by (auto simp: Let_def split: if_splits)
    have "length content - ?n1 < length content - n"
      using False less.prems(3) dk_step_pos [of n content d p] by simp
    from less.hyps [OF this run hash_loop_offset [OF less.prems(2)] dk_step_bound [OF less.prems(3)] le(2,1)]
    show ?thesis .
  qed
qed

lemma hash_loop_complete:
  assumes "dk_content d p = Inr content" "length content \<le> max_bytes" "length content \<le> u64_max"
  shows "dk_offset d p content log = n \<Longrightarrow> n \<le> length content \<Longrightarrow>
     \<exists>log1. hash_loop p max_bytes (disk_env d never_cancelled b) log n (take n content)
       = (Inr (length content, content), log1)"
proof (induction "length content - n" arbitrary: log n rule: less_induct)
  case less
  note step = hash_loop_step [OF assms(1) less.prems, of max_bytes never_cancelled b]
  show ?case
  proof (cases "n = length content")
    case True
    with step show ?thesis by (simp add: Let_def never_cancelled_def)
  next
    case False
    let ?n1 = "n + dk_step d p content n"
    have "length content - ?n1 < length content - n"
      using False less.prems(2) dk_step_pos [of n content d p] by simp
    from less.hyps [OF this hash_loop_offset [OF less.prems(1)] dk_step_bound [OF less.prems(2)]]
    obtain log1 where "hash_loop p max_bytes (disk_env d never_cancelled b)
        (ReadFile p # Checkpoint ''runtime.hash'' # log) ?n1 (take ?n1 content)
      = (Inr (length content, content), log1)" by blast
    moreover have "?n1 \<le> max_bytes" "?n1 \<le> u64_max"
      using dk_step_bound [OF less.prems(2), of d p] assms by simp_all
    ultimately show ?thesis using step False by (simp add: Let_def never_cancelled_def)
  qed
qed

lemma hash_file_sound:
  assumes "hash_file_with_control digest p max_bytes (disk_env d c b) log = (Inr h, log1)"
  shows "hash_on digest d p max_bytes h"
proof -
  from assms obtain md n bytes l1 l2 where *: "dk_meta d p = Inr md" "md_len md \<le> max_bytes" "n = md_len md"
    "h = format_digest (digest bytes)" "os_unit (disk_env d c b) (OpenFile p # l1) = Inr ()"
    "hash_loop p max_bytes (disk_env d c b) (OpenFile p # l1) 0 [] = (Inr (n, bytes), l2)"
    by (fastforce simp: hash_file_with_control_def os_Inr os_lstat_def)
  then obtain content where c: "dk_content d p = Inr content" by (auto split: sum.splits)
  with hash_loop_sound [OF c, of max_bytes c b "OpenFile p # l1" 0 n bytes l2] *
  show ?thesis by (simp add: hash_on_def)
qed

lemma hash_file_complete:
  assumes "hash_on digest d p max_bytes h"
  shows "\<exists>log1. hash_file_with_control digest p max_bytes (disk_env d never_cancelled b) log = (Inr h, log1)"
proof -
  from assms obtain md content where *: "dk_meta d p = Inr md" "dk_content d p = Inr content"
    "length content = md_len md" "length content \<le> max_bytes" "length content \<le> u64_max"
    "h = format_digest (digest content)" by (auto simp: hash_on_def)
  from hash_loop_complete [OF *(2,4,5), of "OpenFile p # Lstat p # Checkpoint ''runtime.hash'' # log" 0]
  obtain log1 where "hash_loop p max_bytes (disk_env d never_cancelled b)
      (OpenFile p # Lstat p # Checkpoint ''runtime.hash'' # log) 0 [] = (Inr (length content, content), log1)"
    by auto
  with * show ?thesis
    by (simp add: hash_file_with_control_def os_Inr checkpoint_disk os_lstat_disk never_cancelled_def)
qed

end
