(* ===== verification/RuntimeTree.thy ===== *)
theory RuntimeTree
  imports RuntimeDisk
begin

text \<open>
  The walk over a package on an unchanging disk: it succeeds exactly when every directory it reaches is
  acceptable, and then has seen exactly the files and directories that can be reached from the root.
\<close>

section \<open>What one directory adds\<close>

definition subdirs :: "disk \<Rightarrow> path \<Rightarrow> path set" where
  "subdirs d p = {p @ [Normal n] | n. entry_on d p n Directory}"

definition found :: "disk \<Rightarrow> path \<Rightarrow> file_kind \<Rightarrow> path \<Rightarrow> path set" where
  "found d root kind p = {r. \<exists>n. root @ r = p @ [Normal n] \<and> entry_on d p n kind}"

definition entry_ok ::
  "disk \<Rightarrow> path \<Rightarrow> path list \<Rightarrow> path list \<Rightarrow> path \<Rightarrow> io_error + dir_entry \<Rightarrow> bool"
where
  "entry_ok d root files dirs p item \<longleftrightarrow>
     (\<exists>e r. item = Inr e \<and> root @ r = p @ [Normal (de_name e)]
        \<and> (de_type e = Inr RegularFile \<and> r \<in> set files
           \<or> de_type e = Inr Directory \<and> r \<in> set dirs \<and> secure_on d (root @ r) False))"

definition dir_ok :: "disk \<Rightarrow> path \<Rightarrow> path list \<Rightarrow> path list \<Rightarrow> path \<Rightarrow> bool" where
  "dir_ok d root files dirs p \<longleftrightarrow>
     (\<exists>items. dk_dir d p = Inr items \<and> (\<forall>item \<in> set items. entry_ok d root files dirs p item))"

definition has_entry :: "(io_error + dir_entry) list \<Rightarrow> string \<Rightarrow> file_kind \<Rightarrow> bool" where
  "has_entry items n kind \<longleftrightarrow> (\<exists>e. Inr e \<in> set items \<and> de_name e = n \<and> de_type e = Inr kind)"

text \<open>What the variables of the loop are after some entries of a directory.\<close>

definition walked ::
  "path \<Rightarrow> path \<Rightarrow> walk_state \<Rightarrow> (io_error + dir_entry) list \<Rightarrow> walk_state \<Rightarrow> bool"
where
  "walked root p st items st1 \<longleftrightarrow>
     set (wk_files st1) = set (wk_files st) \<union> {r. \<exists>n. root @ r = p @ [Normal n] \<and> has_entry items n RegularFile}
     \<and> set (wk_dirs st1) = set (wk_dirs st) \<union> {r. \<exists>n. root @ r = p @ [Normal n] \<and> has_entry items n Directory}
     \<and> (\<exists>ps. wk_pending st1 = ps @ wk_pending st \<and> set ps = {p @ [Normal n] | n. has_entry items n Directory})"

lemma has_entry_simps:
  "\<not> has_entry [] n kind"
  "has_entry (items @ [Inr e]) n kind \<longleftrightarrow> has_entry items n kind \<or> de_name e = n \<and> de_type e = Inr kind"
  by (auto simp: has_entry_def)

lemma walked_Nil: "walked root p st [] st"
  by (auto simp: walked_def has_entry_simps)

lemma walked_snoc_dir:
  assumes "walked root p st items s" "root @ r = p @ [Normal (de_name e)]" "de_type e = Inr Directory"
  shows "walked root p st (items @ [Inr e])
     (s\<lparr>wk_dirs := r # wk_dirs s, wk_pending := (root @ r) # wk_pending s\<rparr>)"
proof -
  have same: "root @ r' = p @ [Normal (de_name e)] \<longleftrightarrow> r' = r" for r' using assms(2) by (metis same_append_eq)
  from assms(1) obtain ps where ps: "wk_pending s = ps @ wk_pending st"
    "set ps = {p @ [Normal n] | n. has_entry items n Directory}" by (auto simp: walked_def)
  have "(root @ r) # wk_pending s = ((root @ r) # ps) @ wk_pending st" using ps by simp
  moreover have "set ((root @ r) # ps) = {p @ [Normal n] | n. has_entry (items @ [Inr e]) n Directory}"
    using ps(2) assms(2,3) by (auto simp: has_entry_simps)
  ultimately have "\<exists>ps. (root @ r) # wk_pending s = ps @ wk_pending st
      \<and> set ps = {p @ [Normal n] | n. has_entry (items @ [Inr e]) n Directory}" by blast
  moreover have "set (r # wk_dirs s) = set (wk_dirs st)
      \<union> {r'. \<exists>n. root @ r' = p @ [Normal n] \<and> has_entry (items @ [Inr e]) n Directory}"
    using assms(1,3) same by (auto simp: walked_def has_entry_simps)
  moreover have "set (wk_files s) = set (wk_files st)
      \<union> {r'. \<exists>n. root @ r' = p @ [Normal n] \<and> has_entry (items @ [Inr e]) n RegularFile}"
    using assms(1,3) by (simp add: walked_def has_entry_simps)
  ultimately show ?thesis by (simp add: walked_def)
qed

lemma walked_snoc_file:
  assumes "walked root p st items s" "root @ r = p @ [Normal (de_name e)]" "de_type e = Inr RegularFile"
  shows "walked root p st (items @ [Inr e]) (s\<lparr>wk_files := r # wk_files s\<rparr>)"
proof -
  have same: "root @ r' = p @ [Normal (de_name e)] \<longleftrightarrow> r' = r" for r' using assms(2) by (metis same_append_eq)
  then show ?thesis using assms by (auto simp: walked_def has_entry_simps)
qed

lemma walk_entry_sound:
  assumes "walk_entry root files dirs p item s (disk_env d c b) log = (Inr s1, log1)"
    and "walked root p st items s"
  shows "entry_ok d root files dirs p item \<and> walked root p st (items @ [item]) s1"
  using assms(1)
proof (rule walk_entry_Inr)
  fix entry kind relative log2
  assume *: "item = Inr entry" "de_type entry = Inr kind"
    "p @ [Normal (de_name entry)] = root @ relative"
    "kind = Directory \<and> relative \<in> set dirs
       \<and> verify_secure_permissions (root @ relative) False (disk_env d c b) log2 = (Inr (), log1)
       \<and> s1 = s\<lparr>wk_dirs := relative # wk_dirs s, wk_pending := (root @ relative) # wk_pending s\<rparr>
     \<or> kind = RegularFile \<and> relative \<in> set files \<and> s1 = s\<lparr>wk_files := relative # wk_files s\<rparr>"
  from *(4) show ?thesis
  proof (elim disjE conjE)
    assume "kind = Directory" "relative \<in> set dirs"
      "verify_secure_permissions (root @ relative) False (disk_env d c b) log2 = (Inr (), log1)"
      "s1 = s\<lparr>wk_dirs := relative # wk_dirs s, wk_pending := (root @ relative) # wk_pending s\<rparr>"
    with *(1-3) walked_snoc_dir [OF assms(2) *(3) [symmetric]] show ?thesis
      by (auto simp: entry_ok_def secure_disk)
  next
    assume "kind = RegularFile" "relative \<in> set files" "s1 = s\<lparr>wk_files := relative # wk_files s\<rparr>"
    with *(1-3) walked_snoc_file [OF assms(2) *(3) [symmetric]] show ?thesis
      by (auto simp: entry_ok_def)
  qed
qed

lemma walk_entry_complete:
  assumes "entry_ok d root files dirs p item"
  shows "\<exists>s1 log1. walk_entry root files dirs p item s (disk_env d never_cancelled b) log = (Inr s1, log1)"
proof -
  from assms obtain e r where *: "item = Inr e" "root @ r = p @ [Normal (de_name e)]"
    "de_type e = Inr RegularFile \<and> r \<in> set files
     \<or> de_type e = Inr Directory \<and> r \<in> set dirs \<and> secure_on d (root @ r) False"
    by (auto simp: entry_ok_def)
  have pre: "strip_prefix (p @ [Normal (de_name e)]) root = Some r"
    using *(2) by (simp add: strip_prefix_Some_iff)
  from *(3) show ?thesis
    by (rule disjE)
       (use *(1) pre *(2) in \<open>simp_all add: walk_entry_def os_Inr Let_def checkpoint_disk never_cancelled_def secure_disk\<close>)
qed

lemma walk_entries_complete:
  assumes "\<forall>item \<in> set items. entry_ok d root files dirs p item"
  shows "\<exists>s1 log1. os_each (walk_entry root files dirs p) items s (disk_env d never_cancelled b) log = (Inr s1, log1)"
  using assms
proof (induction items arbitrary: s log)
  case (Cons item items)
  then obtain s1 log1 where
    "walk_entry root files dirs p item s (disk_env d never_cancelled b) log = (Inr s1, log1)"
    using walk_entry_complete by (metis list.set_intros(1))
  with Cons show ?case by (simp add: os_Inr)
qed (simp add: os_Inr)

lemma walk_directory_sound:
  assumes "walk_directory root files dirs p st (disk_env d c b) log = (Inr st1, log1)"
  obtains items where "dk_dir d p = Inr items" "\<forall>item \<in> set items. entry_ok d root files dirs p item"
    "walked root p st items st1"
proof -
  from assms obtain items l1 where items: "dk_dir d p = Inr items"
    and each: "os_each (walk_entry root files dirs p) items st (disk_env d c b) l1 = (Inr st1, log1)"
    by (auto simp: walk_directory_def os_Inr)
  have "(\<forall>item \<in> set items. entry_ok d root files dirs p item) \<and> walked root p st items st1"
    by (rule os_each_invariant [OF each, where J = "\<lambda>ys s.
          (\<forall>item \<in> set ys. entry_ok d root files dirs p item) \<and> walked root p st ys s"])
       (auto simp: walked_Nil dest: walk_entry_sound)
  with items that show ?thesis by blast
qed

lemma walk_directory_complete:
  assumes "dir_ok d root files dirs p"
  shows "\<exists>st1 log1. walk_directory root files dirs p st (disk_env d never_cancelled b) log = (Inr st1, log1)"
proof -
  from assms obtain items where items: "dk_dir d p = Inr items"
    "\<forall>item \<in> set items. entry_ok d root files dirs p item" by (auto simp: dir_ok_def)
  from walk_entries_complete [OF items(2)] items(1) show ?thesis
    by (simp add: walk_directory_def os_Inr checkpoint_disk never_cancelled_def)
qed

section \<open>The whole walk\<close>

definition reach :: "disk \<Rightarrow> path list \<Rightarrow> path set" where
  "reach d ps = {q. \<exists>p \<in> set ps. below d p q}"

lemma below_iff: "below d p q \<longleftrightarrow> q = p \<or> (\<exists>c \<in> subdirs d p. below d c q)"
  by (auto simp: subdirs_def intro: below.intros elim: below_cases)

lemma reach_Cons:
  "set ps = subdirs d p \<Longrightarrow> reach d (p # rest) = insert p (reach d (ps @ rest))"
proof -
  assume "set ps = subdirs d p"
  then have "below d p q \<longleftrightarrow> q = p \<or> (\<exists>c \<in> set ps. below d c q)" for q
    by (subst below_iff) simp
  then show ?thesis unfolding reach_def by (simp add: bex_Un) blast
qed

lemma has_entry_on: "dk_dir d p = Inr items \<Longrightarrow> has_entry items n kind \<longleftrightarrow> entry_on d p n kind"
  by (auto simp: has_entry_def entry_on_def)

lemma walked_found:
  assumes "dk_dir d p = Inr items" "walked root p st items st1"
  obtains ps where "wk_pending st1 = ps @ wk_pending st" "set ps = subdirs d p"
    "set (wk_files st1) = set (wk_files st) \<union> found d root RegularFile p"
    "set (wk_dirs st1) = set (wk_dirs st) \<union> found d root Directory p"
  using assms by (auto simp: walked_def found_def subdirs_def has_entry_on)

lemma walk_pending_sound:
  "walk_pending root files dirs (disk_env d c b) log st = (Inr st1, log1) \<Longrightarrow>
     (\<forall>q \<in> reach d (wk_pending st). dir_ok d root files dirs q)
     \<and> set (wk_files st1) = set (wk_files st) \<union> \<Union> (found d root RegularFile ` reach d (wk_pending st))
     \<and> set (wk_dirs st1) = set (wk_dirs st) \<union> \<Union> (found d root Directory ` reach d (wk_pending st))"
proof (induction root files dirs "disk_env d c b" log st arbitrary: st1 log1 rule: walk_pending.induct)
  case (1 root files dirs log st)
  show ?case
  proof (cases "wk_pending st")
    case Nil
    with "1.prems" show ?thesis by (simp add: walk_pending.simps reach_def)
  next
    case (Cons p rest)
    from "1.prems" Cons obtain st2 log2 where
      dir: "walk_directory root files dirs p (st\<lparr>wk_pending := rest\<rparr>) (disk_env d c b) log = (Inr st2, log2)"
      and run: "walk_pending root files dirs (disk_env d c b) log2 st2 = (Inr st1, log1)"
      by (subst (asm) walk_pending.simps) (auto split: prod.splits sum.splits)
    from dir obtain items where items: "dk_dir d p = Inr items"
      "\<forall>item \<in> set items. entry_ok d root files dirs p item" "walked root p (st\<lparr>wk_pending := rest\<rparr>) items st2"
      by (rule walk_directory_sound)
    from items(1,3) obtain ps where ps: "wk_pending st2 = ps @ rest" "set ps = subdirs d p"
      "set (wk_files st2) = set (wk_files st) \<union> found d root RegularFile p"
      "set (wk_dirs st2) = set (wk_dirs st) \<union> found d root Directory p"
      by (rule walked_found) simp
    have "dir_ok d root files dirs p" using items by (auto simp: dir_ok_def)
    with "1.hyps" [OF Cons dir [symmetric] refl run] ps show ?thesis
      by (simp add: Cons reach_Cons [OF ps(2)] Un_assoc)
  qed
qed

lemma walk_pending_complete:
  "\<forall>q \<in> reach d (wk_pending st). dir_ok d root files dirs q \<Longrightarrow>
   \<exists>st1 log1. walk_pending root files dirs (disk_env d never_cancelled b) log st = (Inr st1, log1)"
proof (induction root files dirs "disk_env d never_cancelled b" log st rule: walk_pending.induct)
  case (1 root files dirs log st)
  show ?case
  proof (cases "wk_pending st")
    case Nil
    then show ?thesis by (subst walk_pending.simps) simp
  next
    case (Cons p rest)
    have "p \<in> reach d (wk_pending st)" using Cons by (auto simp: reach_def below_refl)
    with "1.prems" obtain st2 log2 where
      dir: "walk_directory root files dirs p (st\<lparr>wk_pending := rest\<rparr>) (disk_env d never_cancelled b) log = (Inr st2, log2)"
      using walk_directory_complete by blast
    from dir obtain items where items: "dk_dir d p = Inr items" "walked root p (st\<lparr>wk_pending := rest\<rparr>) items st2"
      by (rule walk_directory_sound)
    from items obtain ps where ps: "wk_pending st2 = ps @ rest" "set ps = subdirs d p"
      by (rule walked_found) simp
    have "\<forall>q \<in> reach d (wk_pending st2). dir_ok d root files dirs q"
      using "1.prems" by (simp add: Cons reach_Cons [OF ps(2)] ps(1))
    from "1.hyps" [OF Cons dir [symmetric] refl this] show ?thesis
      using dir Cons by (subst walk_pending.simps) simp
  qed
qed

end
