(* ===== verification/Json.thy ===== *)
theory Json
  imports Prelude
begin

text \<open>
  JSON values as the code sees them through \<open>serde_json::Value\<close>: the six constructors it matches
  on, and the documented readings of the accessors it calls (\<open>as_str\<close>, \<open>as_i64\<close>, \<open>as_u64\<close>,
  \<open>as_bool\<close>, \<open>as_array\<close>, \<open>as_object\<close>, \<open>get\<close>, \<open>pointer\<close>). An object is an association list in
  strictly ascending key order, which is how the crate's default map keeps it. An integer number
  is its value, a float its 64 bits. Text parsing and printing belong to the crate and are
  parameters where they occur.
\<close>

datatype jnumber = JInt int | JFloat nat

datatype json =
    JNull
  | JBool bool
  | JNumber jnumber
  | JString string
  | JArray "json list"
  | JObject "(string \<times> json) list"

type_synonym json_object = "(string \<times> json) list"

section \<open>Integer ranges\<close>

definition in_i64 :: "int \<Rightarrow> bool" where
  "in_i64 i \<longleftrightarrow> -9223372036854775808 \<le> i \<and> i \<le> 9223372036854775807"

definition in_u64 :: "int \<Rightarrow> bool" where
  "in_u64 i \<longleftrightarrow> 0 \<le> i \<and> i \<le> 18446744073709551615"

text \<open>The cast \<open>as i64\<close> of a \<open>u64\<close>: two's complement wrap-around.\<close>

definition u64_as_i64 :: "nat \<Rightarrow> int" where
  "u64_as_i64 n =
     (if n < 9223372036854775808 then int n else int n - 18446744073709551616)"

lemma u64_as_i64_range: "n < 18446744073709551616 \<Longrightarrow> in_i64 (u64_as_i64 n)"
  by (auto simp: u64_as_i64_def in_i64_def)

lemma u64_as_i64_inj:
  "m < 18446744073709551616 \<Longrightarrow> n < 18446744073709551616 \<Longrightarrow>
   u64_as_i64 m = u64_as_i64 n \<longleftrightarrow> m = n"
  by (auto simp: u64_as_i64_def split: if_splits)

section \<open>Accessors\<close>

fun as_str :: "json \<Rightarrow> string option" where
  "as_str (JString s) = Some s"
| "as_str v = None"

fun as_bool :: "json \<Rightarrow> bool option" where
  "as_bool (JBool b) = Some b"
| "as_bool v = None"

fun as_array :: "json \<Rightarrow> json list option" where
  "as_array (JArray xs) = Some xs"
| "as_array v = None"

fun as_object :: "json \<Rightarrow> json_object option" where
  "as_object (JObject m) = Some m"
| "as_object v = None"

fun as_i64 :: "json \<Rightarrow> int option" where
  "as_i64 (JNumber (JInt i)) = (if in_i64 i then Some i else None)"
| "as_i64 v = None"

fun as_u64 :: "json \<Rightarrow> nat option" where
  "as_u64 (JNumber (JInt i)) = (if in_u64 i then Some (nat i) else None)"
| "as_u64 v = None"

fun is_null :: "json \<Rightarrow> bool" where
  "is_null JNull = True"
| "is_null v = False"

fun is_object :: "json \<Rightarrow> bool" where
  "is_object (JObject m) = True"
| "is_object v = False"

text \<open>\<open>Value::get(key)\<close>: only an object has keys.\<close>

fun jget :: "string \<Rightarrow> json \<Rightarrow> json option" where
  "jget k (JObject m) = map_of m k"
| "jget k v = None"

text \<open>\<open>Value::pointer\<close> for the paths the code uses: every token is a name, so an array, which
  takes numbers, has no such entry.\<close>

fun jpointer :: "string list \<Rightarrow> json \<Rightarrow> json option" where
  "jpointer [] v = Some v"
| "jpointer (k # ks) v = (case jget k v of None \<Rightarrow> None | Some w \<Rightarrow> jpointer ks w)"

text \<open>\<open>value.get(key).and_then(Value::as_str)\<close>, and the same for a non-empty string.\<close>

definition get_str :: "string \<Rightarrow> json \<Rightarrow> string option" where
  "get_str k v = Option.bind (jget k v) as_str"

definition nonempty :: "string option \<Rightarrow> string option" where
  "nonempty s = (case s of None \<Rightarrow> None | Some t \<Rightarrow> if t = [] then None else Some t)"

definition get_nonempty_str :: "string \<Rightarrow> json \<Rightarrow> string option" where
  "get_nonempty_str k v = nonempty (get_str k v)"

lemma nonempty_Some_iff: "nonempty s = Some t \<longleftrightarrow> s = Some t \<and> t \<noteq> []"
  by (auto simp: nonempty_def split: option.splits if_splits)

lemma as_str_Some_iff: "as_str v = Some s \<longleftrightarrow> v = JString s"
  by (cases v) auto

lemma as_array_Some_iff: "as_array v = Some xs \<longleftrightarrow> v = JArray xs"
  by (cases v) auto

lemma as_object_Some_iff: "as_object v = Some m \<longleftrightarrow> v = JObject m"
  by (cases v) auto

lemma as_bool_Some_iff: "as_bool v = Some b \<longleftrightarrow> v = JBool b"
  by (cases v) auto

lemma as_i64_Some_iff: "as_i64 v = Some i \<longleftrightarrow> v = JNumber (JInt i) \<and> in_i64 i"
  by (cases v rule: as_i64.cases) auto

lemma as_u64_Some_iff: "as_u64 v = Some n \<longleftrightarrow> v = JNumber (JInt (int n)) \<and> in_u64 (int n)"
  by (cases v rule: as_u64.cases) (auto simp: in_u64_def)

lemma is_null_iff: "is_null v \<longleftrightarrow> v = JNull"
  by (cases v) auto

lemma is_object_iff: "is_object v \<longleftrightarrow> (\<exists>m. v = JObject m)"
  by (cases v) auto

lemmas accessor_iffs = as_str_Some_iff as_array_Some_iff as_object_Some_iff as_bool_Some_iff
  as_i64_Some_iff as_u64_Some_iff is_null_iff is_object_iff nonempty_Some_iff

lemma get_str_Some_iff: "get_str k v = Some s \<longleftrightarrow> jget k v = Some (JString s)"
  by (auto simp: get_str_def as_str_Some_iff Option.bind_eq_Some_conv)

lemma get_nonempty_str_Some_iff:
  "get_nonempty_str k v = Some s \<longleftrightarrow> jget k v = Some (JString s) \<and> s \<noteq> []"
  by (auto simp: get_nonempty_str_def nonempty_Some_iff get_str_Some_iff)

section \<open>Building objects\<close>

text \<open>\<open>Map::insert\<close>: replaces the value of a present key.\<close>

fun obj_insert :: "string \<Rightarrow> json \<Rightarrow> json_object \<Rightarrow> json_object" where
  "obj_insert k v [] = [(k, v)]"
| "obj_insert k v ((k', v') # m) =
     (if k < k' then (k, v) # (k', v') # m
      else if k = k' then (k, v) # m
      else (k', v') # obj_insert k v m)"

definition obj_of :: "json_object \<Rightarrow> json_object" where
  "obj_of kvs = foldl (\<lambda>m (k, v). obj_insert k v m) [] kvs"

text \<open>\<open>json!({...})\<close>.\<close>

definition jobj :: "json_object \<Rightarrow> json" where
  "jobj kvs = JObject (obj_of kvs)"

definition obj_wf :: "json_object \<Rightarrow> bool" where
  "obj_wf m \<longleftrightarrow> sorted_wrt (<) (map fst m)"

lemma map_of_obj_insert [simp]: "map_of (obj_insert k v m) = (map_of m)(k \<mapsto> v)"
  by (induction k v m rule: obj_insert.induct) (auto simp: fun_eq_iff)

lemma set_obj_insert: "fst ` set (obj_insert k v m) = insert k (fst ` set m)"
  by (induction k v m rule: obj_insert.induct) auto

lemma obj_wf_insert: "obj_wf m \<Longrightarrow> obj_wf (obj_insert k v m)"
proof (induction k v m rule: obj_insert.induct)
  case (1 k v)
  then show ?case by (simp add: obj_wf_def)
next
  case (2 k v k' v' m)
  have keys: "set (map fst (obj_insert k v m)) = insert k (set (map fst m))"
    using set_obj_insert by (metis set_map)
  show ?case
  proof (cases "k < k'")
    case True
    with 2 show ?thesis by (auto simp: obj_wf_def)
  next
    case False
    show ?thesis
    proof (cases "k = k'")
      case True
      with 2 show ?thesis by (auto simp: obj_wf_def)
    next
      case ne: False
      with False have "k' < k" by auto
      moreover have "obj_wf (obj_insert k v m)" using 2 False ne by (auto simp: obj_wf_def)
      ultimately show ?thesis using 2(2) False ne keys by (auto simp: obj_wf_def)
    qed
  qed
qed

lemma map_of_obj_of_aux:
  "map_of (foldl (\<lambda>m (k, v). obj_insert k v m) m kvs) = map_of m ++ map_of (rev kvs)"
proof (induction kvs arbitrary: m)
  case Nil
  show ?case by simp
next
  case (Cons kv kvs)
  then show ?case by (cases kv) (auto simp: fun_eq_iff map_add_def split: option.splits)
qed

lemma map_of_obj_of: "map_of (obj_of kvs) = map_of (rev kvs)"
  by (simp add: obj_of_def map_of_obj_of_aux)

lemma obj_wf_foldl:
  "obj_wf m \<Longrightarrow> obj_wf (foldl (\<lambda>m (k, v). obj_insert k v m) m kvs)"
  by (induction kvs arbitrary: m) (auto intro: obj_wf_insert)

lemma obj_wf_obj_of: "obj_wf (obj_of kvs)"
  unfolding obj_of_def by (rule obj_wf_foldl) (simp add: obj_wf_def)

lemma jget_jobj: "jget k (jobj kvs) = map_of (rev kvs) k"
  by (simp add: jobj_def map_of_obj_of)

end
