(* ===== verification/CanonicalJson.thy ===== *)
theory CanonicalJson
  imports Json RuntimePackage
begin

text \<open>
  The canonical form of a JSON value and its digest (\<open>src/src/runtime.rs\<close>): objects with sorted keys
  and no white space. Writing a scalar or a key is the crate's, and so a parameter. A map of the crate
  is visited here in any order: sorting the keys is the code's own, whatever order the map keeps.
\<close>

definition write_commas :: "string list \<Rightarrow> string" where
  "write_commas xs = join_with '','' xs"

fun write_canonical_json :: "(json \<Rightarrow> string) \<Rightarrow> json \<Rightarrow> string" where
  "write_canonical_json scalar (JArray xs) =
     ''['' @ write_commas (map (write_canonical_json scalar) xs) @ '']''"
| "write_canonical_json scalar (JObject m) =
     ''{'' @ write_commas
        (map (\<lambda>k. scalar (JString k) @ '':''
                  @ (case map_of (map (\<lambda>(k, v). (k, write_canonical_json scalar v)) m) k of
                       Some t \<Rightarrow> t | None \<Rightarrow> []))
             (sort (map fst m))) @ ''}''"
| "write_canonical_json scalar v = scalar v"

definition hash_bytes :: "(string \<Rightarrow> string) \<Rightarrow> string \<Rightarrow> string" where
  "hash_bytes digest bytes = format_digest (digest bytes)"

definition canonical_json_sha256 ::
  "(string \<Rightarrow> string) \<Rightarrow> (json \<Rightarrow> string) \<Rightarrow> string + json \<Rightarrow> string result"
where
  "canonical_json_sha256 digest scalar parsed =
     (case parsed of
        Inl t \<Rightarrow> Inl (verification_error ''runtime.schema''
                        (''embedded protocol schema is invalid JSON: '' @ t))
      | Inr v \<Rightarrow> Inr (hash_bytes digest (write_canonical_json scalar v)))"

definition verify_protocol_schema ::
  "(string \<Rightarrow> string) \<Rightarrow> (json \<Rightarrow> string) \<Rightarrow> string + json \<Rightarrow> runtime_lock \<Rightarrow> unit result"
where
  "verify_protocol_schema digest scalar schema lock =
     result_bind (canonical_json_sha256 digest scalar schema) (\<lambda>observed.
     if observed \<noteq> rl_schema_sha256 lock
     then Inl (verification_error ''runtime.schema''
                 (''embedded protocol schema canonical SHA-256 mismatch: expected ''
                  @ rl_schema_sha256 lock @ '', observed '' @ observed))
     else Inr ())"

text \<open>Two values that differ only in the order in which their objects list the keys.\<close>

inductive same_json :: "json \<Rightarrow> json \<Rightarrow> bool" where
  same_scalar: "same_json v v"
| same_array: "list_all2 same_json xs ys \<Longrightarrow> same_json (JArray xs) (JArray ys)"
| same_object:
    "list_all2 (\<lambda>x y. fst x = fst y \<and> same_json (snd x) (snd y)) m n \<Longrightarrow> mset n = mset n' \<Longrightarrow>
     distinct (map fst m) \<Longrightarrow> same_json (JObject m) (JObject n')"
monos list_all2_mono

lemma sort_keys_mset: "mset n = mset n' \<Longrightarrow> sort (map fst n) = sort (map fst n')"
  by (intro properties_for_sort) (metis mset_map mset_sort, simp)

lemma map_of_mset: "mset n = mset n' \<Longrightarrow> distinct (map fst n) \<Longrightarrow> map_of n = map_of n'"
proof -
  assume m: "mset n = mset n'" and d: "distinct (map fst n)"
  from m have "mset (map fst n) = mset (map fst n')" by simp
  with d have "distinct (map fst n')" by (metis mset_eq_imp_distinct_iff)
  moreover from m have "set n = set n'" by (rule mset_eq_setD)
  ultimately show "map_of n = map_of n'" using d by (simp add: map_of_inject_set)
qed

definition write_member :: "(json \<Rightarrow> string) \<Rightarrow> json_object \<Rightarrow> string \<Rightarrow> string" where
  "write_member scalar m k = scalar (JString k) @ '':''
     @ (case map_of (map (\<lambda>(k, v). (k, write_canonical_json scalar v)) m) k of
          Some t \<Rightarrow> t | None \<Rightarrow> [])"

lemma write_object:
  "write_canonical_json scalar (JObject m) =
     ''{'' @ write_commas (map (write_member scalar m) (sort (map fst m))) @ ''}''"
  by (simp add: write_member_def [abs_def])

lemma write_member_mset:
  assumes "mset n = mset n'" "distinct (map fst n)"
  shows "write_member scalar n = write_member scalar n'"
proof -
  let ?f = "\<lambda>(k, v). (k, write_canonical_json scalar v)"
  have keys: "map fst (map ?f n) = map fst n" by (simp add: comp_def case_prod_beta)
  have "mset (map ?f n) = mset (map ?f n')" using assms(1) by simp
  then have "map_of (map ?f n) = map_of (map ?f n')"
    by (rule map_of_mset) (simp only: keys assms(2))
  then show ?thesis by (simp add: write_member_def [abs_def])
qed

lemma same_json_written: "same_json v w \<Longrightarrow> write_canonical_json scalar v = write_canonical_json scalar w"
proof (induction rule: same_json.induct)
  case (same_scalar v)
  show ?case by simp
next
  case (same_array xs ys)
  then have "map (write_canonical_json scalar) xs = map (write_canonical_json scalar) ys"
    by (auto simp: list_all2_conv_all_nth intro: nth_equalityI)
  then show ?case by simp
next
  case (same_object m n n')
  let ?f = "\<lambda>(k, v). (k, write_canonical_json scalar v)"
  from same_object(1) have len: "length m = length n" by (rule list_all2_lengthD)
  have "map ?f m = map ?f n"
    using same_object(1) len
    by (intro nth_equalityI) (auto simp: list_all2_conv_all_nth case_prod_beta)
  then have "write_member scalar m = write_member scalar n"
    by (simp add: write_member_def [abs_def])
  moreover have fsts: "map fst m = map fst n"
    using same_object(1) len by (intro nth_equalityI) (auto simp: list_all2_conv_all_nth)
  moreover have "write_member scalar n = write_member scalar n'"
    using same_object(2,3) fsts by (intro write_member_mset) simp_all
  moreover have "sort (map fst n) = sort (map fst n')" using same_object(2) by (rule sort_keys_mset)
  ultimately show ?case by (simp add: write_object del: write_canonical_json.simps)
qed

text \<open>The digest of the protocol schema that the lock fixes does not depend on the order in which
  the objects of the schema, at any depth, list their keys: two texts that parse to values which differ
  only in that are both accepted or both refused for a lock, with the same report.\<close>

theorem schema_digest_ignores_key_order:
  assumes "same_json v w"
  shows "verify_protocol_schema digest scalar (Inr v) lock = verify_protocol_schema digest scalar (Inr w) lock"
  using same_json_written [OF assms] by (simp add: verify_protocol_schema_def canonical_json_sha256_def)

lemma schema_digest_ignores_key_order_witness:
  "verify_protocol_schema id (\<lambda>_. []) (Inr (JObject [(''b'', JArray [JNull]), (''a'', JObject [])])) (lock_of_metadata pinned_metadata) =
   verify_protocol_schema id (\<lambda>_. []) (Inr (JObject [(''a'', JObject []), (''b'', JArray [JNull])])) (lock_of_metadata pinned_metadata)"
proof -
  have "same_json (JObject [(''b'', JArray [JNull]), (''a'', JObject [])])
          (JObject [(''a'', JObject []), (''b'', JArray [JNull])])"
    by (rule same_object [of _ "[(''b'', JArray [JNull]), (''a'', JObject [])]"])
       (auto intro: same_json.intros)
  from schema_digest_ignores_key_order [OF this] show ?thesis .
qed

end
