(* ===== verification/RuntimePackageTheorems.thy ===== *)
theory RuntimePackageTheorems
  imports RuntimeTree CanonicalJson
begin

text \<open>
  What the verification of a package accepts on an unchanging disk: exactly the packages described by
  \<open>package_on\<close>; and what an accepted package can not have.
\<close>

section \<open>The tree\<close>

lemma below_prefix: "below d p q \<Longrightarrow> \<exists>r. q = p @ r"
  by (induction rule: below.induct) auto

lemma below_snoc: "below d p q \<Longrightarrow> entry_on d q n Directory \<Longrightarrow> below d p (q @ [Normal n])"
  by (induction rule: below.induct) (auto intro: below.intros)

lemma below_last:
  "below d p q \<Longrightarrow> q = p \<or> (\<exists>q' n. q = q' @ [Normal n] \<and> below d p q' \<and> entry_on d q' n Directory)"
proof (induction rule: below.induct)
  case (below_step p n q)
  then show ?case by (metis below.intros)
qed simp

lemma found_files_tree: "\<Union> (found d root RegularFile ` reach d [root]) = tree_files d root"
proof
  show "\<Union> (found d root RegularFile ` reach d [root]) \<subseteq> tree_files d root"
  proof
    fix r assume "r \<in> \<Union> (found d root RegularFile ` reach d [root])"
    then obtain q n where q: "below d root q" "root @ r = q @ [Normal n]" "entry_on d q n RegularFile"
      by (auto simp: reach_def found_def)
    from below_prefix [OF q(1)] obtain rel where "q = root @ rel" by blast
    with q show "r \<in> tree_files d root" by (auto simp: tree_files_def)
  qed
  show "tree_files d root \<subseteq> \<Union> (found d root RegularFile ` reach d [root])"
    by (auto simp: tree_files_def found_def reach_def)
qed

lemma found_dirs_tree: "\<Union> (found d root Directory ` reach d [root]) = tree_dirs d root"
proof
  show "\<Union> (found d root Directory ` reach d [root]) \<subseteq> tree_dirs d root"
  proof
    fix r assume "r \<in> \<Union> (found d root Directory ` reach d [root])"
    then obtain q n where q: "below d root q" "root @ r = q @ [Normal n]" "entry_on d q n Directory"
      by (auto simp: reach_def found_def)
    from below_prefix [OF q(1)] q(2) have "r \<noteq> []" by auto
    with q below_snoc show "r \<in> tree_dirs d root" by (auto simp: tree_dirs_def)
  qed
  show "tree_dirs d root \<subseteq> \<Union> (found d root Directory ` reach d [root])"
  proof
    fix r assume "r \<in> tree_dirs d root"
    then obtain q n where "root @ r = q @ [Normal n]" "below d root q" "entry_on d q n Directory"
      using below_last [of d root "root @ r"] by (auto simp: tree_dirs_def)
    then show "r \<in> \<Union> (found d root Directory ` reach d [root])" by (auto simp: reach_def found_def)
  qed
qed

lemma dir_ok_listing: "dir_ok d root files dirs p \<Longrightarrow> listing_ok d p"
  by (fastforce simp: dir_ok_def listing_ok_def entry_ok_def)

lemma tree_dir_ok:
  assumes "tree_ok d root artifacts" "below d root p"
  shows "dir_ok d root (map ra_path artifacts) (expected_directories artifacts) p"
proof -
  from assms obtain items where items: "dk_dir d p = Inr items" and
    all: "\<forall>item \<in> set items. \<exists>e. item = Inr e \<and> (de_type e = Inr RegularFile
       \<or> de_type e = Inr Directory \<and> secure_on d (p @ [Normal (de_name e)]) False)"
    by (auto simp: tree_ok_def listing_ok_def)
  from below_prefix [OF assms(2)] obtain rel where p: "p = root @ rel" by blast
  have "entry_ok d root (map ra_path artifacts) (expected_directories artifacts) p item"
    if i: "item \<in> set items" for item
  proof -
    from all i obtain e where e: "item = Inr e" and k: "de_type e = Inr RegularFile
       \<or> de_type e = Inr Directory \<and> secure_on d (p @ [Normal (de_name e)]) False" by blast
    let ?r = "rel @ [Normal (de_name e)]"
    have on: "de_type e = Inr k \<Longrightarrow> entry_on d p (de_name e) k" for k
      using items i e by (auto simp: entry_on_def)
    from on [of RegularFile] assms(2) p have "de_type e = Inr RegularFile \<Longrightarrow> ?r \<in> tree_files d root"
      by (auto simp: tree_files_def)
    moreover from on [of Directory] below_snoc [OF assms(2)] p
    have "de_type e = Inr Directory \<Longrightarrow> ?r \<in> tree_dirs d root" by (auto simp: tree_dirs_def)
    ultimately show ?thesis
      using k e p assms(1) by (auto simp: entry_ok_def tree_ok_def intro!: exI [of _ ?r])
  qed
  with items show ?thesis by (auto simp: dir_ok_def)
qed

lemma exact_file_set_sound:
  assumes "verify_exact_file_set rp root artifacts (disk_env d c b) log = (Inr u, log1)"
  shows "tree_ok d root artifacts"
proof -
  let ?st = "\<lparr>wk_files = [], wk_dirs = [], wk_pending = [root]\<rparr>"
  from assms obtain st l where run: "walk_pending root (map ra_path artifacts)
      (expected_directories artifacts) (disk_env d c b) log ?st = (Inr st, l)"
    and eq: "set (wk_files st) = set (map ra_path artifacts)" "set (wk_dirs st) = set (expected_directories artifacts)"
    by (auto simp: verify_exact_file_set_def Let_def os_Inr)
  from walk_pending_sound [OF run] have
    dirs: "\<forall>q \<in> reach d [root]. dir_ok d root (map ra_path artifacts) (expected_directories artifacts) q"
    and "set (wk_files st) = tree_files d root" "set (wk_dirs st) = tree_dirs d root"
    by (simp_all add: found_files_tree found_dirs_tree)
  with eq have "tree_files d root = ra_path ` set artifacts"
    "tree_dirs d root = set (expected_directories artifacts)" by simp_all
  moreover have "listing_ok d p" if "below d root p" for p
    using dirs that by (auto simp: reach_def intro: dir_ok_listing)
  ultimately show ?thesis by (simp add: tree_ok_def)
qed

lemma exact_file_set_complete:
  assumes "tree_ok d root artifacts"
  shows "\<exists>log1. verify_exact_file_set rp root artifacts (disk_env d never_cancelled b) log = (Inr (), log1)"
proof -
  let ?st = "\<lparr>wk_files = [], wk_dirs = [], wk_pending = [root]\<rparr>"
  have "\<forall>q \<in> reach d (wk_pending ?st). dir_ok d root (map ra_path artifacts) (expected_directories artifacts) q"
    using tree_dir_ok [OF assms] by (auto simp: reach_def)
  from walk_pending_complete [OF this] obtain st l where run: "walk_pending root (map ra_path artifacts)
      (expected_directories artifacts) (disk_env d never_cancelled b) log ?st = (Inr st, l)" by blast
  from walk_pending_sound [OF run] assms run show ?thesis
    by (simp add: verify_exact_file_set_def Let_def os_Inr tree_ok_def found_files_tree found_dirs_tree)
qed

section \<open>The files and the manifest\<close>

lemma artifact_sound:
  assumes "verify_artifact rp root a (disk_env d c b) log = (Inr u, log1)"
  shows "artifact_on rp d root a"
proof -
  from assms obtain md canonical l1 l2 where *: "dk_meta d (path_join root (ra_path a)) = Inr md"
    "md_kind md = RegularFile" "dk_canonical d (path_join root (ra_path a)) = Inr canonical"
    "path_starts_with canonical root" "secure_on d canonical (ra_executable a)"
    "hash_file_with_control (rp_digest rp) canonical (ra_max_bytes a) (disk_env d c b) l1 = (Inr (ra_sha256 a), l2)"
    by (auto simp: verify_artifact_def Let_def os_Inr os_lstat_disk secure_disk)
  with hash_file_sound [OF *(6)] show ?thesis by (auto simp: artifact_on_def path_starts_with_iff)
qed

lemma artifact_complete:
  assumes "artifact_on rp d root a"
  shows "\<exists>log1. verify_artifact rp root a (disk_env d never_cancelled b) log = (Inr (), log1)"
proof -
  from assms obtain md rel where *: "dk_meta d (path_join root (ra_path a)) = Inr md"
    "md_kind md = RegularFile" "dk_canonical d (path_join root (ra_path a)) = Inr (root @ rel)"
    "secure_on d (root @ rel) (ra_executable a)"
    "hash_on (rp_digest rp) d (root @ rel) (ra_max_bytes a) (ra_sha256 a)" by (auto simp: artifact_on_def)
  have "path_starts_with (root @ rel) root" by (auto simp: path_starts_with_iff)
  with * hash_file_complete [OF *(5)] show ?thesis
    by (simp add: verify_artifact_def Let_def os_Inr checkpoint_disk os_lstat_disk secure_disk never_cancelled_def)
qed

lemma artifacts_sound:
  "os_each (\<lambda>a _. verify_artifact rp root a) as () (disk_env d c b) log = (Inr u, log1) \<Longrightarrow>
   list_all (artifact_on rp d root) as"
  by (induction as arbitrary: log) (auto simp: os_Inr dest: artifact_sound)

lemma artifacts_complete:
  "list_all (artifact_on rp d root) as \<Longrightarrow>
   \<exists>log1. os_each (\<lambda>a _. verify_artifact rp root a) as () (disk_env d never_cancelled b) log = (Inr (), log1)"
proof (induction as arbitrary: log)
  case (Cons a as)
  then obtain l where "verify_artifact rp root a (disk_env d never_cancelled b) log = (Inr (), l)"
    using artifact_complete by fastforce
  with Cons show ?case by (simp add: os_Inr)
qed (simp add: os_Inr)

lemma manifest_sound:
  assumes "verify_manifest rp root lock (disk_env d c b) log = (Inr u, log1)"
  shows "manifest_on rp d root lock"
  using assms
  by (auto simp: verify_manifest_def Let_def os_Inr require_directory_disk manifest_on_def
      manifest_matches_def split: sum.splits)

lemma manifest_complete:
  assumes "manifest_on rp d root lock"
  shows "\<exists>log1. verify_manifest rp root lock (disk_env d never_cancelled b) log = (Inr (), log1)"
  using assms
  by (auto simp: verify_manifest_def Let_def os_Inr checkpoint_disk require_directory_disk manifest_on_def
      manifest_matches_def never_cancelled_def)

section \<open>The package\<close>

lemma verify_filesystem_sound:
  assumes "verify_filesystem_with_control rp k (disk_env d c b) log = (Inr v, log1)"
  shows "package_on rp d k (vr_root v)
     \<and> v = \<lparr>vr_root = vr_root v, vr_entrypoint = path_join (vr_root v) (rl_entrypoint (rk_lock k)),
            vr_lock = rk_lock k\<rparr>"
proof -
  from assms obtain md root l1 l2 l3 l4 l5 l6 where *: "dk_meta d (rk_root k) = Inr md" "md_kind md \<noteq> SymbolicLink"
    "dk_canonical d (rk_root k) = Inr root" "dk_is_dir d root" "secure_on d root False"
    "verify_exact_file_set rp root (rl_artifacts (rk_lock k)) (disk_env d c b) l1 = (Inr (), l2)"
    "os_each (\<lambda>a _. verify_artifact rp root a) (rl_artifacts (rk_lock k)) () (disk_env d c b) l3 = (Inr (), l4)"
    "verify_manifest rp root (rk_lock k) (disk_env d c b) l5 = (Inr (), l6)"
    "v = \<lparr>vr_root = root, vr_entrypoint = path_join root (rl_entrypoint (rk_lock k)), vr_lock = rk_lock k\<rparr>"
    by (auto simp: verify_filesystem_with_control_def os_Inr os_lstat_disk secure_disk)
  with exact_file_set_sound [OF *(6)] artifacts_sound [OF *(7)] manifest_sound [OF *(8)]
  show ?thesis by (auto simp: package_on_def)
qed

lemma verify_filesystem_complete:
  assumes "package_on rp d k root"
  shows "\<exists>log1. verify_filesystem_with_control rp k (disk_env d never_cancelled b) log =
     (Inr \<lparr>vr_root = root, vr_entrypoint = path_join root (rl_entrypoint (rk_lock k)), vr_lock = rk_lock k\<rparr>, log1)"
proof -
  note complete = exact_file_set_complete [of d root "rl_artifacts (rk_lock k)"]
    artifacts_complete [of rp d root "rl_artifacts (rk_lock k)"] manifest_complete [of rp d root "rk_lock k"]
  from assms obtain md where "dk_meta d (rk_root k) = Inr md" "md_kind md \<noteq> SymbolicLink"
    by (auto simp: package_on_def)
  with assms complete show ?thesis
    by (simp add: verify_filesystem_with_control_def os_Inr checkpoint_disk os_lstat_disk secure_disk
        never_cancelled_def package_on_def) metis
qed

text \<open>C12: On a disk that does not change, the verification of a package that nobody cancels accepts
  exactly the packages it describes: the root is a real directory; the files below it are the locked
  ones and the directories the expected ones, no more and no fewer, and nothing is a link or a special
  file; nothing is writable by group or others; every file has the locked digest and fits its ceiling,
  and executables can be executed; and the manifest repeats the lock. It then returns the canonical
  root and the entry point below it.\<close>

theorem package_accepted_exactly:
  "fst (verify_filesystem_with_control rp k (disk_env d never_cancelled b) log) = Inr v \<longleftrightarrow>
     package_on rp d k (vr_root v)
     \<and> v = \<lparr>vr_root = vr_root v, vr_entrypoint = path_join (vr_root v) (rl_entrypoint (rk_lock k)),
            vr_lock = rk_lock k\<rparr>"
proof
  assume "fst (verify_filesystem_with_control rp k (disk_env d never_cancelled b) log) = Inr v"
  then show "package_on rp d k (vr_root v) \<and> v = \<lparr>vr_root = vr_root v,
      vr_entrypoint = path_join (vr_root v) (rl_entrypoint (rk_lock k)), vr_lock = rk_lock k\<rparr>"
    by (metis prod.collapse verify_filesystem_sound)
next
  assume *: "package_on rp d k (vr_root v) \<and> v = \<lparr>vr_root = vr_root v,
      vr_entrypoint = path_join (vr_root v) (rl_entrypoint (rk_lock k)), vr_lock = rk_lock k\<rparr>"
  then show "fst (verify_filesystem_with_control rp k (disk_env d never_cancelled b) log) = Inr v"
    using verify_filesystem_complete [of rp d k "vr_root v" b log] by auto
qed

end
