(* ===== verification/PrivateDirs.thy ===== *)
theory PrivateDirs
  imports RuntimePackage
begin

text \<open>
  The directories and files of the managed runtime storage (\<open>src/src/runtime/manager.rs\<close>): creating and
  securing private directories, refusing symbolic links on the way, and removing what is stale.
\<close>

definition install_error :: "string \<Rightarrow> error" where
  "install_error msg = verification_error ''runtime.install'' msg"

definition remove_path :: "path \<Rightarrow> unit os" where
  "remove_path p =
     os_bind (io_try (\<lambda>t. install_error (''cannot inspect stale runtime path: '' @ t)) (os_lstat p)) (\<lambda>md.
     io_try (\<lambda>t. install_error (''cannot remove stale runtime path: '' @ t))
       (ask os_unit (if md_kind md = Directory then RemoveDirAll p else RemoveFile p)))"

text \<open>The opened file must be the one the path names: same device and same inode.\<close>

definition same_file :: "file_metadata \<Rightarrow> file_metadata \<Rightarrow> bool" where
  "same_file a b \<longleftrightarrow> md_dev a = md_dev b \<and> md_ino a = md_ino b"

definition verify_open_directory_path :: "path \<Rightarrow> string \<Rightarrow> unit os" where
  "verify_open_directory_path p op =
     os_bind (io_try (\<lambda>t. verification_error op (''cannot inspect runtime directory: '' @ t)) (os_lstat p)) (\<lambda>md.
     os_bind (os_when (md_kind md \<noteq> Directory)
                (verification_error op
                   (path_display p @ '' must remain a real, non-symlink runtime directory''))) (\<lambda>_.
     os_bind (io_try (\<lambda>t. verification_error op (''cannot inspect open runtime directory: '' @ t))
                (ask os_meta (Fstat p))) (\<lambda>opened.
     os_when (\<not> same_file md opened)
       (verification_error op ''runtime directory path changed while it was being secured''))))"

definition secure_private_directory :: "path \<Rightarrow> string \<Rightarrow> unit os" where
  "secure_private_directory p op =
     os_bind (io_try (\<lambda>t. verification_error op (''cannot inspect runtime directory: '' @ t)) (os_lstat p)) (\<lambda>md.
     os_bind (os_when (md_kind md \<noteq> Directory)
                (verification_error op
                   (path_display p @ '' must be a real, non-symlink runtime directory''))) (\<lambda>_.
     os_bind (io_try (\<lambda>t. verification_error op (''cannot open runtime directory: '' @ t))
                (ask os_unit (OpenFile p))) (\<lambda>_.
     os_bind (verify_open_directory_path p op) (\<lambda>_.
     os_bind (io_try (\<lambda>t. verification_error op (''cannot secure runtime directory: '' @ t))
                (ask os_unit (SetMode p 448))) (\<lambda>_.
     verify_open_directory_path p op)))))"

text \<open>The innermost part of the path that exists, and the parts below it, outermost first.\<close>

fun existing_ancestor :: "path list \<Rightarrow> path list \<Rightarrow> (path \<times> file_metadata \<times> path list) os" where
  "existing_ancestor [] missing = os_fail (install_error ''runtime directory has no existing parent'')"
| "existing_ancestor (current # parents) missing =
     os_bind (os_lstat current) (\<lambda>r. case r of
       Inr md \<Rightarrow> os_return (current, md, missing)
     | Inl e \<Rightarrow>
         if io_kind e = NotFound then existing_ancestor parents (current # missing)
         else os_fail (install_error (''cannot inspect runtime directory: '' @ io_text e)))"

definition create_missing_directory :: "path \<Rightarrow> unit \<Rightarrow> unit os" where
  "create_missing_directory directory _ =
     os_bind (ask os_unit (CreateDir directory)) (\<lambda>r.
     os_bind (case r of
                Inr _ \<Rightarrow> os_return ()
              | Inl e \<Rightarrow> os_when (io_kind e \<noteq> AlreadyExists)
                          (install_error (''cannot create runtime directory: '' @ io_text e))) (\<lambda>_.
     os_bind (io_try (\<lambda>t. install_error (''cannot inspect created runtime directory: '' @ t))
                (os_lstat directory)) (\<lambda>md.
     os_bind (os_when (md_kind md \<noteq> Directory)
                (install_error (path_display directory
                   @ '' became a symlink or non-directory while being created''))) (\<lambda>_.
     secure_private_directory directory ''runtime.install''))))"

definition create_private_directory :: "path \<Rightarrow> unit os" where
  "create_private_directory p =
     os_bind (os_when (ParentDir \<in> set p)
                (install_error ''runtime directory may not contain a parent component'')) (\<lambda>_.
     os_bind (existing_ancestor (path_ancestors p) []) (\<lambda>(existing, md, missing).
     os_bind (os_when (md_kind md \<noteq> Directory)
                (install_error (path_display existing
                   @ '' must be a real, non-symlink runtime directory''))) (\<lambda>_.
     os_bind (os_each create_missing_directory missing ()) (\<lambda>_.
     secure_private_directory p ''runtime.install''))))"

text \<open>From the path up to the root, nothing may be a link or anything but a directory.\<close>

fun no_symlink_loop :: "path \<Rightarrow> path list \<Rightarrow> unit os" where
  "no_symlink_loop root [] = os_fail (install_error ''runtime cache path escaped its configured root'')"
| "no_symlink_loop root (current # parents) =
     os_bind (os_lstat current) (\<lambda>r. case r of
       Inr md \<Rightarrow>
         if md_kind md = SymbolicLink
         then os_fail (install_error (''runtime cache component '' @ path_display current @ '' is a symbolic link''))
         else if md_kind md \<noteq> Directory
         then os_fail (install_error (''runtime cache component '' @ path_display current @ '' is not a directory''))
         else if current = root then os_return ()
         else no_symlink_loop root parents
     | Inl e \<Rightarrow>
         if io_kind e = NotFound
         then if current = root then os_return () else no_symlink_loop root parents
         else os_fail (install_error (''cannot inspect runtime cache component: '' @ io_text e)))"

definition ensure_no_symlink_components :: "path \<Rightarrow> path \<Rightarrow> unit os" where
  "ensure_no_symlink_components root p = no_symlink_loop root (path_ancestors p)"

section \<open>What they guarantee\<close>

text \<open>A directory is given its mode only between two checks that the open handle is the directory that
  the path names.\<close>

lemma verify_open_directory_Inr:
  "verify_open_directory_path p op v log = (Inr u, log1) \<longleftrightarrow>
     log1 = Fstat p # Lstat p # log
     \<and> (\<exists>md opened. os_meta v (Lstat p # log) = Inr md \<and> md_kind md = Directory
          \<and> os_meta v (Fstat p # Lstat p # log) = Inr opened \<and> same_file md opened)"
  by (auto simp: verify_open_directory_path_def os_Inr os_lstat_def)

lemma secure_private_directory_Inr:
  "secure_private_directory p op v log = (Inr u, log1) \<Longrightarrow>
     \<exists>l. log1 = Fstat p # Lstat p # SetMode p 448 # Fstat p # Lstat p # OpenFile p # l
       \<and> os_unit v (SetMode p 448 # Fstat p # Lstat p # OpenFile p # l) = Inr ()
       \<and> (\<exists>md opened. os_meta v (Lstat p # OpenFile p # l) = Inr md \<and> md_kind md = Directory
            \<and> os_meta v (Fstat p # Lstat p # OpenFile p # l) = Inr opened \<and> same_file md opened)
       \<and> (\<exists>md opened. os_meta v (Lstat p # SetMode p 448 # Fstat p # Lstat p # OpenFile p # l) = Inr md
            \<and> md_kind md = Directory \<and> os_meta v log1 = Inr opened \<and> same_file md opened)"
  by (auto simp: secure_private_directory_def verify_open_directory_Inr os_Inr os_lstat_def)

lemma no_symlink_loop_Inr:
  "no_symlink_loop root ps v log = (Inr u, log1) \<Longrightarrow> root \<in> set ps"
  by (induction root ps arbitrary: log rule: no_symlink_loop.induct)
     (auto simp: os_Inr split: if_splits)

lemma path_ancestors_prefix: "q \<in> set (path_ancestors p) \<Longrightarrow> \<exists>r. p = q @ r"
proof (induction p rule: path_ancestors.induct)
  case (1 p)
  show ?case
  proof (cases "q = p")
    case False
    with "1.prems" obtain p' where p': "path_parent p = Some p'" "q \<in> set (path_ancestors p')"
      by (cases "path_parent p") (auto simp: path_ancestors.simps [of p])
    with "1.IH" obtain r where "p' = q @ r" by blast
    moreover from p'(1) have "p = p' @ [last p]" by (auto simp: path_parent_def split: if_splits)
    ultimately show ?thesis by (metis append_assoc)
  qed simp
qed

lemma ensure_no_symlink_Inr:
  "ensure_no_symlink_components root p v log = (Inr u, log1) \<Longrightarrow> \<exists>r. p = root @ r"
  by (auto simp: ensure_no_symlink_components_def dest!: no_symlink_loop_Inr path_ancestors_prefix)

end
