(* ===== verification/Guardian.thy ===== *)
theory Guardian
  imports RuntimePackage
begin

text \<open>
  The guardian helper as Rust handles it (\<open>src/src/private/process_tree.rs\<close>, for macOS on aarch64): its
  private directory, its extraction, its identity and its end. What the helper itself does is the C
  program's. The embedded bytes, their build-time digest and the digest function are parameters; the
  two sequence counters are calls. A function that returns an \<open>io::Result\<close> is a step whose value is one.
\<close>

record guardian_params =
  gp_bytes :: string
  gp_sha256 :: string
  gp_digest :: "string \<Rightarrow> string"

type_synonym 'a io = "(io_error + 'a) os"

definition io_return :: "'a \<Rightarrow> 'a io" where
  "io_return x = os_return (Inr x)"

definition io_fail :: "io_kind \<Rightarrow> string \<Rightarrow> 'a io" where
  "io_fail k t = os_return (Inl \<lparr>io_kind = k, io_text = t\<rparr>)"

definition io_bind :: "'a io \<Rightarrow> ('a \<Rightarrow> 'b io) \<Rightarrow> 'b io" where
  "io_bind m f = os_bind m (\<lambda>r. case r of Inl e \<Rightarrow> os_return (Inl e) | Inr x \<Rightarrow> f x)"

definition guardian_hash :: "guardian_params \<Rightarrow> string" where
  "guardian_hash g = format_digest (gp_digest g (gp_bytes g))"

definition verify_private_directory :: "path \<Rightarrow> unit io" where
  "verify_private_directory directory =
     io_bind (os_lstat directory) (\<lambda>md.
     if md_kind md \<noteq> Directory \<or> md_mode md AND 18 \<noteq> 0
     then io_fail OtherIo ''guardian directory must be a non-symlink owner-only directory''
     else io_return ())"

definition set_private_executable_permissions :: "path \<Rightarrow> unit io" where
  "set_private_executable_permissions p =
     io_bind (ask os_unit (SetMode p 448)) (\<lambda>_.
     io_bind (os_lstat p) (\<lambda>md.
     if md_mode md AND 63 \<noteq> 0
     then io_fail OtherIo ''guardian helper is not owner-only''
     else io_return ()))"

definition extract_guardian :: "guardian_params \<Rightarrow> path \<Rightarrow> path io" where
  "extract_guardian g directory =
     io_bind (verify_private_directory directory) (\<lambda>_.
     os_bind (ask os_count (Sequence ''guardian'')) (\<lambda>n.
     os_bind (ask os_count ProcessId) (\<lambda>pid.
     let p = path_join directory [Normal (''.vergerail-guardian-'' @ show_nat pid @ ''-'' @ show_nat n)] in
     io_bind (ask os_unit (CreateNew p)) (\<lambda>_.
     io_bind (ask os_unit (WriteAll p (gp_bytes g))) (\<lambda>_.
     io_bind (ask os_unit (SyncAll p)) (\<lambda>_.
     io_bind (set_private_executable_permissions p) (\<lambda>_.
     if guardian_hash g \<noteq> gp_sha256 g
     then os_bind (ask os_unit (RemoveFile p)) (\<lambda>_.
          io_fail OtherIo ''embedded guardian bytes do not match the build-time digest'')
     else io_return p)))))))"

fun create_guardian_directory_loop :: "nat \<Rightarrow> path \<Rightarrow> string \<Rightarrow> path io" where
  "create_guardian_directory_loop 0 parent prefix =
     io_fail AlreadyExists ''could not allocate a fresh guardian directory after 128 collisions''"
| "create_guardian_directory_loop (Suc i) parent prefix =
     os_bind (ask os_count (Sequence ''directory'')) (\<lambda>n.
     os_bind (ask os_count ProcessId) (\<lambda>pid.
     let p = path_join parent [Normal (''.'' @ prefix @ ''-'' @ show_nat pid @ ''-'' @ show_nat n)] in
     os_bind (ask os_unit (CreateDir p)) (\<lambda>r.
     case r of
       Inr _ \<Rightarrow> io_return p
     | Inl e \<Rightarrow> if io_kind e = AlreadyExists then create_guardian_directory_loop i parent prefix
               else os_return (Inl e))))"

definition create_guardian_directory :: "path \<Rightarrow> string \<Rightarrow> path io" where
  "create_guardian_directory parent prefix = create_guardian_directory_loop 128 parent prefix"

definition missing_is_removed :: "io_error + unit \<Rightarrow> io_error + unit" where
  "missing_is_removed r =
     (case r of Inr _ \<Rightarrow> Inr () | Inl e \<Rightarrow> if io_kind e = NotFound then Inr () else Inl e)"

definition remove_guardian :: "path \<Rightarrow> unit io" where
  "remove_guardian p =
     (if p = [] then io_return ()
      else os_bind (ask os_unit (RemoveFile p)) (\<lambda>r. os_return (missing_is_removed r)))"

definition remove_guardian_directory :: "path \<Rightarrow> unit io" where
  "remove_guardian_directory p =
     (if p = [] then io_return ()
      else os_bind (ask os_unit (RemoveDir p)) (\<lambda>r. os_return (missing_is_removed r)))"

text \<open>\<open>command(guardian, entrypoint)\<close> with its arguments and environment, spawned.\<close>

definition spawn_guarded ::
  "path \<Rightarrow> path \<Rightarrow> string list \<Rightarrow> (string \<times> string) list \<Rightarrow> unit io"
where
  "spawn_guarded guardian entrypoint args vars = ask os_unit (Spawn guardian entrypoint args vars)"

text \<open>The identity of the directly owned child: its process id while it has not been reaped.\<close>

definition capture_identity :: "nat io" where
  "capture_identity =
     os_bind (ask os_id ChildId) (\<lambda>i. case i of
       None \<Rightarrow> io_fail OtherIo ''guardian exited before its owned process identity was captured''
     | Some pid \<Rightarrow> io_return pid)"

definition terminate_guardian :: "nat option \<Rightarrow> unit io" where
  "terminate_guardian identity =
     (case identity of
        None \<Rightarrow> io_fail OtherIo ''no owned guardian identity is available''
      | Some captured \<Rightarrow>
          os_bind (ask os_id ChildId) (\<lambda>i. case i of
            None \<Rightarrow> io_fail OtherIo ''guardian has already been reaped; no signal was sent''
          | Some current \<Rightarrow>
              if current \<noteq> captured
              then io_fail OtherIo ''owned guardian identity changed before termination''
              else if captured = 0
              then io_fail OtherIo ''owned guardian process id is invalid''
              else os_bind (ask os_unit (SendTerm captured)) (\<lambda>r. case r of
                     Inr _ \<Rightarrow> io_return ()
                   | Inl e \<Rightarrow> if io_kind e = NoProcess then io_return () else os_return (Inl e))))"

section \<open>What these steps do\<close>

lemma io_bind_apply [os_simps]:
  "io_bind m f v log = (case m v log of
      (Inl e, log1) \<Rightarrow> (Inl e, log1)
    | (Inr (Inl e), log1) \<Rightarrow> (Inr (Inl e), log1)
    | (Inr (Inr x), log1) \<Rightarrow> f x v log1)"
  by (auto simp: io_bind_def os_bind_def split: prod.splits sum.splits)

lemma io_return_apply [simp, os_simps]: "io_return x v log = (Inr (Inr x), log)"
  by (simp add: io_return_def)

lemma io_fail_apply [simp, os_simps]: "io_fail k t v log = (Inr (Inl \<lparr>io_kind = k, io_text = t\<rparr>), log)"
  by (simp add: io_fail_def)

lemma os_keeps_io_bind [os_keeps]:
  "os_keeps I m \<Longrightarrow> (\<And>x. os_keeps I (f x)) \<Longrightarrow> os_keeps I (io_bind m f)"
  unfolding io_bind_def by (intro os_keeps_bind os_keeps_sum os_keeps)

lemma os_keeps_io_return [os_keeps]: "os_keeps I (io_return x)"
  by (simp add: io_return_def os_keeps)

lemma os_keeps_io_fail [os_keeps]: "os_keeps I (io_fail k t)"
  by (simp add: io_fail_def os_keeps)

text \<open>The only signal goes to the process that was captured and is still the unreaped child.\<close>

lemma terminate_guardian_signals:
  "SendTerm n \<in> set (snd (terminate_guardian identity v log)) \<Longrightarrow> SendTerm n \<notin> set log \<Longrightarrow>
   identity = Some n \<and> os_id v (ChildId # log) = Some n"
  by (auto simp: terminate_guardian_def os_simps split: option.splits if_splits sum.splits)

text \<open>An extraction that succeeds gives a file that it created itself, that holds the embedded bytes,
  is written through, is readable by its owner only, and has the build-time digest.\<close>

lemma extract_guardian_Inr:
  "extract_guardian g directory v log = (Inr (Inr p), log1) \<Longrightarrow>
     guardian_hash g = gp_sha256 g
     \<and> (\<exists>name l. p = path_join directory [Normal name]
         \<and> log1 = Lstat p # SetMode p 448 # SyncAll p # WriteAll p (gp_bytes g) # CreateNew p # l
         \<and> os_unit v (CreateNew p # l) = Inr ()
         \<and> (\<exists>md. os_meta v log1 = Inr md \<and> md_mode md AND 63 = 0))"
  by (auto simp: extract_guardian_def Let_def os_simps set_private_executable_permissions_def os_lstat_def
      split: sum.splits if_splits prod.splits)

end
