(* ===== verification/Trim.thy ===== *)
theory Trim
  imports Prelude
begin

text \<open>\<open>str::trim\<close> and its halves on UTF-8 bytes, and \<open>trim_start_matches\<close> of one byte.\<close>

function trim_start :: "string \<Rightarrow> string" where
  "trim_start s = (if ws_prefix s = 0 then s else trim_start (drop (ws_prefix s) s))"
  by pat_completeness auto
termination
proof (relation "measure length", goal_cases)
  case (2 s)
  then show ?case by (cases s) auto
qed simp

declare trim_start.simps [simp del]

function trim_end :: "string \<Rightarrow> string" where
  "trim_end s =
     (if is_blank s then []
      else take (max 1 (utf8_len s)) s @ trim_end (drop (max 1 (utf8_len s)) s))"
  by pat_completeness auto
termination
proof (relation "measure length", goal_cases)
  case (2 s)
  then have "s \<noteq> []" by (rule not_is_blank_nonempty)
  then show ?case by (cases s) auto
qed simp

declare trim_end.simps [simp del]

definition str_trim :: "string \<Rightarrow> string" where
  "str_trim s = trim_end (trim_start s)"

definition trim_start_matches :: "char \<Rightarrow> string \<Rightarrow> string" where
  "trim_start_matches c s = dropWhile (\<lambda>x. x = c) s"

lemma trim_start_suffix: "\<exists>p. s = p @ trim_start s"
proof (induction s rule: trim_start.induct)
  case (1 s)
  show ?case
  proof (cases "ws_prefix s = 0")
    case True
    then show ?thesis by (simp add: trim_start.simps)
  next
    case False
    with 1 obtain p where p: "drop (ws_prefix s) s = p @ trim_start (drop (ws_prefix s) s)" by blast
    have "s = take (ws_prefix s) s @ drop (ws_prefix s) s" by simp
    with p have "s = (take (ws_prefix s) s @ p) @ trim_start (drop (ws_prefix s) s)"
      by (metis append_assoc)
    moreover from False have "trim_start s = trim_start (drop (ws_prefix s) s)"
      by (subst trim_start.simps) simp
    ultimately show ?thesis by metis
  qed
qed

lemma trim_start_head: "ws_prefix (trim_start s) = 0"
proof (induction s rule: trim_start.induct)
  case (1 s)
  then show ?case by (cases "ws_prefix s = 0") (simp_all add: trim_start.simps [of s])
qed

lemma trim_end_prefix: "\<exists>p. s = trim_end s @ p \<and> is_blank p"
proof (induction s rule: trim_end.induct)
  case (1 s)
  show ?case
  proof (cases "is_blank s")
    case True
    then show ?thesis by (simp add: trim_end.simps)
  next
    case False
    let ?n = "max 1 (utf8_len s)"
    from 1 [OF False] obtain p where p: "drop ?n s = trim_end (drop ?n s) @ p" "is_blank p" by blast
    from False have "trim_end s = take ?n s @ trim_end (drop ?n s)" by (subst trim_end.simps) simp
    then have "trim_end s @ p = take ?n s @ (trim_end (drop ?n s) @ p)" by simp
    also have "\<dots> = s" by (simp only: p(1) [symmetric] append_take_drop_id)
    finally show ?thesis using p(2) by metis
  qed
qed

lemma trim_end_blank: "is_blank s \<Longrightarrow> trim_end s = []"
  by (simp add: trim_end.simps)

end
