(* ===== verification/VersionProbe.thy ===== *)
theory VersionProbe
  imports Guardian Trim
begin

text \<open>
  Running the pinned entry point once with \<open>--version\<close> under a guardian, with a limit on its time and
  on what it prints (\<open>verify_version_with_timeout_supported\<close> and its helpers in \<open>src/src/runtime.rs\<close>).
  The task that reads a pipe runs \<open>read_bounded_output\<close>; what joining it gives is a reply.
\<close>

definition VERSION_OUTPUT_LIMIT :: nat where
  "VERSION_OUTPUT_LIMIT = 8192"

definition version_error :: "string \<Rightarrow> error" where
  "version_error msg = verification_error ''runtime.version'' msg"

section \<open>Bounded output\<close>

text \<open>The loop over the reads of a pipe, each of at most 4096 bytes; an empty read, or no more reads,
  is the end.\<close>

fun read_bounded_loop :: "nat \<Rightarrow> (io_error + string) list \<Rightarrow> string \<Rightarrow> (string \<times> bool) result" where
  "read_bounded_loop limit [] captured = Inr (captured, False)"
| "read_bounded_loop limit (Inl e # reads) captured =
     Inl (version_error (''cannot read version output: '' @ io_text e))"
| "read_bounded_loop limit (Inr data # reads) captured =
     (let buffer = take 4096 data in
      if buffer = [] then Inr (captured, False)
      else let remaining = limit - length captured; retained = min remaining (length buffer);
               captured1 = captured @ take retained buffer
           in if retained < length buffer then Inr (captured1, True)
              else read_bounded_loop limit reads captured1)"

definition read_bounded_output :: "nat \<Rightarrow> (io_error + string) list \<Rightarrow> (string \<times> bool) result" where
  "read_bounded_output limit reads = read_bounded_loop limit reads []"

section \<open>Cleaning up\<close>

definition removal_failure :: "string \<Rightarrow> io_error + unit \<Rightarrow> string list" where
  "removal_failure what r =
     (case r of Inl e \<Rightarrow> [''guardian '' @ what @ '' removal failed: '' @ io_text e] | Inr _ \<Rightarrow> [])"

definition cleanup_version_artifacts :: "path \<Rightarrow> path \<Rightarrow> string os" where
  "cleanup_version_artifacts helper directory =
     os_bind (remove_guardian helper) (\<lambda>r1.
     os_bind (remove_guardian_directory directory) (\<lambda>r2.
     let failures = removal_failure ''helper'' r1 @ removal_failure ''directory'' r2
     in os_return (if failures = [] then [] else ''; '' @ join_with ''; '' failures)))"

text \<open>The texts of an unsuccessful termination.\<close>

definition termination_text :: "io_error + unit \<Rightarrow> wait_reply \<Rightarrow> string" where
  "termination_text kill wait =
     (case (kill, wait) of
        (Inr _, ChildExited _ _) \<Rightarrow> []
      | (Inl e, ChildExited _ _) \<Rightarrow> ''; guardian termination failed: '' @ io_text e
      | (Inr _, ChildWaitError t) \<Rightarrow> ''; guardian reap failed: '' @ t
      | (Inl e, ChildWaitError t) \<Rightarrow>
          ''; guardian termination failed: '' @ io_text e @ ''; guardian reap failed: '' @ t
      | (Inr _, ChildTimedOut) \<Rightarrow> ''; guardian cleanup exceeded 1000 ms''
      | (Inl e, ChildTimedOut) \<Rightarrow>
          ''; guardian termination failed: '' @ io_text e @ ''; cleanup exceeded 1000 ms'')"

definition terminate_version_process :: "nat \<Rightarrow> path \<Rightarrow> path \<Rightarrow> string os" where
  "terminate_version_process identity guardian directory =
     os_bind (terminate_guardian (Some identity)) (\<lambda>kill.
     os_bind (ask os_unit (AbortPipe ''stdout'')) (\<lambda>_.
     os_bind (ask os_unit (AbortPipe ''stderr'')) (\<lambda>_.
     os_bind (ask os_wait WaitChild) (\<lambda>wait.
     os_bind (cleanup_version_artifacts guardian directory) (\<lambda>cleanup.
     os_return (termination_text kill wait @ cleanup))))))"

section \<open>The probe\<close>

text \<open>An error after the artifacts have been removed, with what the removal reports.\<close>

definition fail_cleaned :: "path \<Rightarrow> path \<Rightarrow> (string \<Rightarrow> error) \<Rightarrow> 'a os" where
  "fail_cleaned guardian directory report =
     os_bind (cleanup_version_artifacts guardian directory) (\<lambda>cleanup. os_fail (report cleanup))"

definition discard_guardian :: "path \<Rightarrow> path \<Rightarrow> unit os" where
  "discard_guardian guardian directory =
     os_bind (remove_guardian guardian) (\<lambda>_.
     os_bind (remove_guardian_directory directory) (\<lambda>_. os_return ()))"

text \<open>\<open>env::join_paths\<close> of one path refuses a separator in it.\<close>

definition join_one_path :: "path \<Rightarrow> string + string" where
  "join_one_path p =
     (if CHR '':'' \<in> set (path_display p) then Inl ''path segment contains separator `:`''
      else Inr (path_display p))"

definition probe_path :: "path \<Rightarrow> string result" where
  "probe_path entrypoint =
     result_bind
       (ok_or (version_error ''runtime entrypoint has no canonical package root'')
          (map_option (\<lambda>r. path_join r [Normal ''codex-path''])
             (Option.bind (path_parent entrypoint) path_parent)))
       (\<lambda>bundled. case join_one_path bundled of
          Inl t \<Rightarrow> Inl (version_error (''cannot construct version probe PATH: '' @ t))
        | Inr s \<Rightarrow> Inr s)"

text \<open>The two reads under one timeout: the first that is not done in time, or has failed, decides.\<close>

datatype pipes_read =
    PipesRead "string \<times> bool" "string \<times> bool"
  | PipesFailed error
  | PipesOpen

definition join_pipe :: "string \<Rightarrow> (string \<times> bool \<Rightarrow> pipes_read os) \<Rightarrow> pipes_read os" where
  "join_pipe name next_step =
     os_bind (ask os_pipe (JoinPipe name)) (\<lambda>r. case r of
       PipeOpen \<Rightarrow> os_return PipesOpen
     | PipeTaskFailed t \<Rightarrow>
         os_return (PipesFailed (version_error (''version '' @ name @ '' reader failed: '' @ t)))
     | PipeRead (Inl e) \<Rightarrow> os_return (PipesFailed e)
     | PipeRead (Inr bounded) \<Rightarrow> next_step bounded)"

definition join_pipes :: "pipes_read os" where
  "join_pipes =
     join_pipe ''stdout'' (\<lambda>out. join_pipe ''stderr'' (\<lambda>err. os_return (PipesRead out err)))"

text \<open>What the entry point printed, and with which status it ended.\<close>

definition check_version_output ::
  "path \<Rightarrow> path \<Rightarrow> string \<Rightarrow> bool \<times> string \<Rightarrow> string \<times> bool \<Rightarrow> string \<times> bool \<Rightarrow> unit os"
where
  "check_version_output guardian directory version status out err =
     (let report = (\<lambda>msg. fail_cleaned guardian directory (\<lambda>cleanup. version_error (msg @ cleanup)));
          observed = str_trim (fst out); expected = ''codex-cli '' @ version in
      if snd out \<or> snd err
      then report (''version output exceeded '' @ show_nat VERSION_OUTPUT_LIMIT @ '' bytes'')
      else if \<not> fst status then report (''entrypoint exited with '' @ snd status)
      else if \<not> utf8_valid (fst out) then report ''version output was not UTF-8''
      else if observed \<noteq> expected
      then report (''expected '' @ quoted expected @ '', observed '' @ quoted observed)
      else os_bind (cleanup_version_artifacts guardian directory) (\<lambda>cleanup.
           os_when (cleanup \<noteq> [])
             (verification_error ''runtime.guardian'' (str_trim (trim_start_matches CHR '';'' cleanup)))))"

definition report_pipes ::
  "path \<Rightarrow> path \<Rightarrow> string \<Rightarrow> bool \<times> string \<Rightarrow> pipes_read \<Rightarrow> unit os"
where
  "report_pipes guardian directory version status pipes =
     (case pipes of
        PipesFailed e \<Rightarrow>
          fail_cleaned guardian directory (\<lambda>cleanup. version_error (error_to_string e @ cleanup))
      | PipesOpen \<Rightarrow>
          os_bind (ask os_unit (AbortPipe ''stdout'')) (\<lambda>_.
          os_bind (ask os_unit (AbortPipe ''stderr'')) (\<lambda>_.
          fail_cleaned guardian directory (\<lambda>cleanup. version_error
            (''version output pipes remained open after the entrypoint exited'' @ cleanup))))
      | PipesRead out err \<Rightarrow> check_version_output guardian directory version status out err)"

definition probe_running ::
  "path \<Rightarrow> path \<Rightarrow> string \<Rightarrow> duration \<Rightarrow> nat \<Rightarrow> unit os"
where
  "probe_running guardian directory version limit identity =
     os_bind (ask os_wait WaitChild) (\<lambda>wait. case wait of
       ChildWaitError t \<Rightarrow>
         os_bind (terminate_version_process identity guardian directory) (\<lambda>_.
         os_fail (version_error (''failed waiting for pinned entrypoint: '' @ t)))
     | ChildTimedOut \<Rightarrow>
         os_bind (terminate_version_process identity guardian directory) (\<lambda>cleanup.
         os_fail (version_error (''version command exceeded '' @ show_nat (as_millis limit)
                    @ '' ms and was terminated'' @ cleanup)))
     | ChildExited ok status \<Rightarrow>
         os_bind join_pipes (report_pipes guardian directory version (ok, status)))"

text \<open>A pipe that cannot be taken ends the probe.\<close>

definition take_pipe :: "path \<Rightarrow> path \<Rightarrow> string \<Rightarrow> unit os" where
  "take_pipe guardian directory name =
     os_bind (ask os_bool (TakePipe name)) (\<lambda>piped.
     if piped then os_return ()
     else os_bind (ask os_unit StartKill) (\<lambda>_.
          os_bind (ask os_wait WaitChild) (\<lambda>_.
          fail_cleaned guardian directory (\<lambda>_. version_error (''version '' @ name @ '' was not piped'')))))"

definition probe_spawned :: "path \<Rightarrow> path \<Rightarrow> string \<Rightarrow> duration \<Rightarrow> unit os" where
  "probe_spawned guardian directory version limit =
     os_bind capture_identity (\<lambda>captured. case captured of
       Inl e \<Rightarrow>
         os_bind (ask os_unit StartKill) (\<lambda>_.
         os_bind (ask os_wait WaitChild) (\<lambda>_.
         os_bind (discard_guardian guardian directory) (\<lambda>_.
         os_fail (version_error (''cannot capture guardian process identity: '' @ io_text e)))))
     | Inr identity \<Rightarrow>
         os_bind (take_pipe guardian directory ''stdout'') (\<lambda>_.
         os_bind (take_pipe guardian directory ''stderr'') (\<lambda>_.
         probe_running guardian directory version limit identity)))"

definition probe_extracted :: "path \<Rightarrow> path \<Rightarrow> path \<Rightarrow> string \<Rightarrow> duration \<Rightarrow> unit os" where
  "probe_extracted guardian directory entrypoint version limit =
     os_bind (os_result (probe_path entrypoint)) (\<lambda>search.
     os_bind (spawn_guarded guardian entrypoint [''--version''] [(''PATH'', search)]) (\<lambda>spawned.
     case spawned of
       Inl e \<Rightarrow>
         os_bind (discard_guardian guardian directory) (\<lambda>_.
         os_fail (version_error (''failed to execute pinned entrypoint guardian: '' @ io_text e)))
     | Inr _ \<Rightarrow> probe_spawned guardian directory version limit))"

definition verify_version_with_timeout ::
  "guardian_params \<Rightarrow> path \<Rightarrow> path \<Rightarrow> string \<Rightarrow> duration \<Rightarrow> unit os"
where
  "verify_version_with_timeout g temp_dir entrypoint version limit =
     os_bind (io_try (\<lambda>t. verification_error ''runtime.guardian''
                            (''cannot create a private guardian directory: '' @ t))
                (create_guardian_directory temp_dir ''vergerail-version'')) (\<lambda>directory.
     os_bind (extract_guardian g directory) (\<lambda>extracted. case extracted of
       Inl e \<Rightarrow>
         os_bind (remove_guardian_directory directory) (\<lambda>_.
         os_fail (verification_error ''runtime.guardian''
                    (''cannot materialize the audited guardian: '' @ io_text e)))
     | Inr guardian \<Rightarrow> probe_extracted guardian directory entrypoint version limit))"

end
