(* ===== verification/Codec.thy ===== *)
theory Codec
  imports Errors Json
begin

text \<open>
  \<open>src/src/private/codec.rs\<close>: frames as lines of JSON. The byte stream under the reader is a list
  of chunks, the pieces in which the bytes arrive, and what happens after the last one; a read of
  at most \<open>n\<close> bytes takes them from the first chunk. \<open>serde_json\<close> is a pair of parameters:
  \<open>print_json\<close> (\<open>to_vec\<close>) and \<open>parse_json\<close> (\<open>from_str\<close>), whose errors are their texts.
\<close>

section \<open>Encoding and writing\<close>

definition frame_too_large :: "string \<Rightarrow> nat \<Rightarrow> error" where
  "frame_too_large op n = new_error Protocol op (''frame exceeds '' @ show_nat n @ '' bytes'')"

record encoded_frame =
  frame_bytes :: string

definition encode :: "(json \<Rightarrow> string + string) \<Rightarrow> json \<Rightarrow> nat \<Rightarrow> encoded_frame result" where
  "encode print_json v max_frame_bytes =
     (case print_json v of
        Inl text \<Rightarrow> Inl (new_error Protocol ''jsonl.write'' text)
      | Inr bytes \<Rightarrow>
          if max_frame_bytes < length bytes
          then Inl (frame_too_large ''jsonl.write'' max_frame_bytes)
          else Inr \<lparr>frame_bytes = bytes @ [CHR 0x0A]\<rparr>)"

text \<open>The writer over a sink: \<open>write_all\<close>, \<open>flush\<close> and \<open>shutdown\<close> of the sink are parameters that
  return an error text or nothing and the sink afterwards.\<close>

definition write_frame ::
  "(string \<Rightarrow> 's \<Rightarrow> string option \<times> 's) \<Rightarrow> ('s \<Rightarrow> string option \<times> 's) \<Rightarrow> encoded_frame \<Rightarrow> 's
     \<Rightarrow> unit result \<times> 's" where
  "write_frame write_all flush frame sink =
     (case write_all (frame_bytes frame) sink of
        (Some text, sink1) \<Rightarrow> (Inl (new_error Process ''jsonl.write'' text), sink1)
      | (None, sink1) \<Rightarrow>
          (case flush sink1 of
             (Some text, sink2) \<Rightarrow> (Inl (new_error Process ''jsonl.flush'' text), sink2)
           | (None, sink2) \<Rightarrow> (Inr (), sink2)))"

definition close_writer :: "('s \<Rightarrow> string option \<times> 's) \<Rightarrow> 's \<Rightarrow> unit result \<times> 's" where
  "close_writer shutdown sink =
     (case shutdown sink of
        (Some text, sink1) \<Rightarrow> (Inl (new_error Process ''jsonl.close'' text), sink1)
      | (None, sink1) \<Rightarrow> (Inr (), sink1))"

section \<open>Reading\<close>

text \<open>The stream end: \<open>None\<close> is end of file, \<open>Some text\<close> a failing read.\<close>

record source =
  src_chunks :: "string list"
  src_failure :: "string option"

fun read_chunks :: "nat \<Rightarrow> string list \<Rightarrow> (string \<times> string list) option" where
  "read_chunks n [] = None"
| "read_chunks n (c # cs) =
     (if c = [] then read_chunks n cs
      else Some (take n c, if drop n c = [] then cs else drop n c # cs))"

definition read_source :: "nat \<Rightarrow> source \<Rightarrow> (string + string) \<times> source" where
  "read_source n src =
     (case read_chunks n (src_chunks src) of
        Some (bytes, cs) \<Rightarrow> (Inr bytes, src\<lparr>src_chunks := cs\<rparr>)
      | None \<Rightarrow>
          (case src_failure src of
             Some text \<Rightarrow> (Inl text, src\<lparr>src_chunks := []\<rparr>)
           | None \<Rightarrow> (Inr [], src\<lparr>src_chunks := []\<rparr>)))"

record reader =
  jr_reader :: source
  jr_buffer :: string
  jr_start :: nat
  jr_max_frame_bytes :: nat
  jr_eof :: bool

definition new_reader :: "source \<Rightarrow> nat \<Rightarrow> reader" where
  "new_reader src n =
     \<lparr>jr_reader = src, jr_buffer = [], jr_start = 0, jr_max_frame_bytes = n, jr_eof = False\<rparr>"

definition parse_frame :: "(string \<Rightarrow> string + json) \<Rightarrow> string \<Rightarrow> json result" where
  "parse_frame parse_json frame =
     (if \<not> utf8_valid frame
      then Inl (new_error Protocol ''jsonl.read'' ''frame was not valid UTF-8'')
      else (case parse_json frame of
              Inl text \<Rightarrow> Inl (new_error Protocol ''jsonl.read'' (''invalid JSON frame: '' @ text))
            | Inr v \<Rightarrow> Inr v))"

text \<open>The unread part of the buffer, and the bytes that are still to be read at all.\<close>

definition unread :: "reader \<Rightarrow> string" where
  "unread r = drop (jr_start r) (jr_buffer r)"

definition pending :: "reader \<Rightarrow> string" where
  "pending r = unread r @ concat (src_chunks (jr_reader r))"

text \<open>The part of the loop that cuts a frame at the newline found at \<open>relative\<close>.\<close>

definition take_frame ::
  "(string \<Rightarrow> string + json) \<Rightarrow> nat \<Rightarrow> reader \<Rightarrow> json option result \<times> reader" where
  "take_frame parse_json relative r =
     (let pos = jr_start r + relative;
          fin = (if jr_start r < pos \<and> jr_buffer r ! (pos - 1) = CHR 0x0D then pos - 1 else pos);
          frame = take (fin - jr_start r) (drop (jr_start r) (jr_buffer r))
      in if jr_max_frame_bytes r < length frame
         then (Inl (frame_too_large ''jsonl.read'' (jr_max_frame_bytes r)), r)
         else if frame = []
         then (Inl (new_error Protocol ''jsonl.read'' ''empty JSONL frames are not allowed''), r)
         else (result_bind (parse_frame parse_json frame) (\<lambda>v. Inr (Some v)),
               if pos + 1 = length (jr_buffer r) then r\<lparr>jr_buffer := [], jr_start := 0\<rparr>
               else r\<lparr>jr_start := pos + 1\<rparr>))"

text \<open>The part that reads more bytes: the unread bytes are moved to the front, room for a chunk is
  appended and the read fills its front. A failing read leaves the room in place.\<close>

definition fill :: "reader \<Rightarrow> string option \<times> reader" where
  "fill r =
     (let buf = (if 0 < jr_start r then drop (jr_start r) (jr_buffer r) else jr_buffer r);
          remaining = sat_add_us (jr_max_frame_bytes r) 2 - length buf;
          chunk = min 8192 (max 1 remaining)
      in (case read_source chunk (jr_reader r) of
            (Inl text, src) \<Rightarrow>
              (Some text, r\<lparr>jr_reader := src, jr_buffer := buf @ replicate chunk (CHR 0x00),
                            jr_start := 0\<rparr>)
          | (Inr bytes, src) \<Rightarrow>
              (None, r\<lparr>jr_reader := src, jr_buffer := buf @ bytes, jr_start := 0,
                       jr_eof := (jr_eof r \<or> bytes = [])\<rparr>)))"

text \<open>Bytes left plus the pending end of file: it decreases with every read that goes on.\<close>

definition reader_measure :: "reader \<Rightarrow> nat" where
  "reader_measure r = length (concat (src_chunks (jr_reader r))) + (if jr_eof r then 0 else 1)"

lemma read_chunks_Some:
  "read_chunks n cs = Some (bytes, cs') \<Longrightarrow> 0 < n \<Longrightarrow>
     concat cs = bytes @ concat cs' \<and> bytes \<noteq> [] \<and> length bytes \<le> n"
  by (induction n cs rule: read_chunks.induct) (auto split: if_splits)

lemma read_chunks_None: "read_chunks n cs = None \<Longrightarrow> concat cs = []"
  by (induction n cs rule: read_chunks.induct) (auto split: if_splits)

lemma fill_measure:
  assumes "fill r = (None, r')" "\<not> jr_eof r"
  shows "reader_measure r' < reader_measure r"
proof (cases "read_chunks (min 8192 (max 1 (sat_add_us (jr_max_frame_bytes r) 2 -
         length (if 0 < jr_start r then drop (jr_start r) (jr_buffer r) else jr_buffer r))))
         (src_chunks (jr_reader r))")
  case None
  with assms show ?thesis
    by (auto simp: fill_def read_source_def reader_measure_def Let_def split: option.splits)
next
  case (Some p)
  obtain bytes cs where p: "p = (bytes, cs)" by (cases p)
  have "concat (src_chunks (jr_reader r)) = bytes @ concat cs" "bytes \<noteq> []"
    using read_chunks_Some [OF Some [unfolded p]] by auto
  with assms Some p show ?thesis
    by (auto simp: fill_def read_source_def reader_measure_def Let_def)
qed

text \<open>\<open>JsonLinesReader::next\<close>.\<close>

function next_frame :: "(string \<Rightarrow> string + json) \<Rightarrow> reader \<Rightarrow> json option result \<times> reader" where
  "next_frame parse_json r =
     (case position (\<lambda>b. b = CHR 0x0A) (unread r) of
        Some relative \<Rightarrow> take_frame parse_json relative r
      | None \<Rightarrow>
          if sat_add_us (jr_max_frame_bytes r) 1 < length (unread r)
          then (Inl (frame_too_large ''jsonl.read'' (jr_max_frame_bytes r)), r)
          else if jr_eof r
          then (if unread r = [] then (Inr None, r)
                else (Inl (new_error Protocol ''jsonl.read''
                             ''EOF occurred in the middle of a JSONL frame''), r))
          else (case fill r of
                  (Some text, r1) \<Rightarrow> (Inl (new_error Process ''jsonl.read'' text), r1)
                | (None, r1) \<Rightarrow> next_frame parse_json r1))"
  by pat_completeness auto
termination
  by (relation "measure (\<lambda>(_, r). reader_measure r)") (auto intro: fill_measure)

declare next_frame.simps [simp del]

text \<open>The reader task's use: frames until the end of the stream or an error. \<open>limit\<close> frames at most
  are taken.\<close>

fun read_frames ::
  "(string \<Rightarrow> string + json) \<Rightarrow> nat \<Rightarrow> reader \<Rightarrow> json list \<times> error option \<times> reader" where
  "read_frames parse_json 0 r = ([], None, r)"
| "read_frames parse_json (Suc limit) r =
     (case next_frame parse_json r of
        (Inl e, r1) \<Rightarrow> ([], Some e, r1)
      | (Inr None, r1) \<Rightarrow> ([], None, r1)
      | (Inr (Some v), r1) \<Rightarrow>
          (case read_frames parse_json limit r1 of (vs, e, r2) \<Rightarrow> (v # vs, e, r2)))"

section \<open>What the reader promises\<close>

text \<open>The next frame read off the bytes alone, with no buffer and no chunks: the line up to the first
  newline, less a carriage return.\<close>

definition strip_cr :: "string \<Rightarrow> string" where
  "strip_cr line = (if line \<noteq> [] \<and> last line = CHR 0x0D then butlast line else line)"

definition line_spec ::
  "(string \<Rightarrow> string + json) \<Rightarrow> nat \<Rightarrow> string option \<Rightarrow> string \<Rightarrow> json option result \<times> string" where
  "line_spec parse_json n failure bytes =
     (case position (\<lambda>b. b = CHR 0x0A) bytes of
        Some p \<Rightarrow>
          (let frame = strip_cr (take p bytes)
           in if n < length frame then (Inl (frame_too_large ''jsonl.read'' n), bytes)
              else if frame = []
              then (Inl (new_error Protocol ''jsonl.read'' ''empty JSONL frames are not allowed''), bytes)
              else (result_bind (parse_frame parse_json frame) (\<lambda>v. Inr (Some v)),
                    drop (p + 1) bytes))
      | None \<Rightarrow>
          if n + 1 < length bytes then (Inl (frame_too_large ''jsonl.read'' n), bytes)
          else (case failure of
                  Some text \<Rightarrow> (Inl (new_error Process ''jsonl.read'' text), bytes)
                | None \<Rightarrow>
                    if bytes = [] then (Inr None, bytes)
                    else (Inl (new_error Protocol ''jsonl.read''
                                 ''EOF occurred in the middle of a JSONL frame''), bytes)))"

definition reader_ok :: "reader \<Rightarrow> bool" where
  "reader_ok r \<longleftrightarrow>
     jr_start r \<le> length (jr_buffer r) \<and>
     length (jr_buffer r) \<le> jr_max_frame_bytes r + 2 \<and>
     jr_max_frame_bytes r + 2 \<le> usize_max \<and>
     (jr_eof r \<longrightarrow> concat (src_chunks (jr_reader r)) = [] \<and> src_failure (jr_reader r) = None)"

lemma reader_ok_new: "n + 2 \<le> usize_max \<Longrightarrow> reader_ok (new_reader src n)"
  by (simp add: reader_ok_def new_reader_def)

lemma sat_add_us_exact: "a + b \<le> usize_max \<Longrightarrow> sat_add_us a b = a + b"
  by (simp add: sat_add_us_def)

lemma position_less: "position p xs = Some i \<Longrightarrow> i < length xs"
  by (simp add: position_Some)

lemma take_frame_spec:
  assumes rel: "position (\<lambda>b. b = CHR 0x0A) (unread r) = Some p" and ok: "reader_ok r"
  shows "take_frame parse_json p r =
           (case line_spec parse_json (jr_max_frame_bytes r) f (pending r) of
              (res, rest) \<Rightarrow> (res, snd (take_frame parse_json p r)))"
    and "\<exists>v. fst (take_frame parse_json p r) = Inr v \<Longrightarrow>
           pending (snd (take_frame parse_json p r))
             = snd (line_spec parse_json (jr_max_frame_bytes r) f (pending r))"
    and "reader_ok (snd (take_frame parse_json p r))"
proof -
  let ?u = "unread r"
  have len: "p < length ?u" by (rule position_less [OF rel])
  have pos: "position (\<lambda>b. b = CHR 0x0A) (pending r) = Some p"
    unfolding pending_def by (rule position_append_Some [OF rel])
  have start: "jr_start r \<le> length (jr_buffer r)" using ok by (simp add: reader_ok_def)
  have ulen: "length ?u = length (jr_buffer r) - jr_start r" by (simp add: unread_def)
  have bound: "jr_start r + p < length (jr_buffer r)" using len ulen by simp
  have tk: "take p (pending r) = take p ?u" using len by (simp add: pending_def)
  have line: "take ((if jr_start r < jr_start r + p
                        \<and> jr_buffer r ! (jr_start r + p - 1) = CHR 0x0D
                      then jr_start r + p - 1 else jr_start r + p) - jr_start r)
                (drop (jr_start r) (jr_buffer r)) = strip_cr (take p (pending r))"
  proof (cases "p = 0")
    case True
    then show ?thesis by (simp add: strip_cr_def)
  next
    case False
    have ne: "take p ?u \<noteq> []" using False len by (cases ?u) auto
    have "last (take p ?u) = ?u ! (p - 1)"
      using ne len False by (simp add: last_conv_nth min_def)
    also have "\<dots> = jr_buffer r ! (jr_start r + p - 1)"
      using start False by (simp add: unread_def)
    finally have l: "last (take p ?u) = jr_buffer r ! (jr_start r + p - 1)" .
    have b: "butlast (take p ?u) = take (p - 1) ?u" using len by (simp add: butlast_take)
    have e: "jr_start r + p - 1 - jr_start r = p - 1" by simp
    show ?thesis
      using False ne l b e tk by (simp add: strip_cr_def unread_def)
  qed
  have rest: "drop (p + 1) (pending r) = drop (p + 1) ?u @ concat (src_chunks (jr_reader r))"
    using len by (simp add: pending_def)
  show "take_frame parse_json p r =
           (case line_spec parse_json (jr_max_frame_bytes r) f (pending r) of
              (res, rest) \<Rightarrow> (res, snd (take_frame parse_json p r)))"
    unfolding take_frame_def Let_def line line_spec_def pos option.case
    by simp
  show "\<exists>v. fst (take_frame parse_json p r) = Inr v \<Longrightarrow>
           pending (snd (take_frame parse_json p r))
             = snd (line_spec parse_json (jr_max_frame_bytes r) f (pending r))"
    unfolding take_frame_def Let_def line line_spec_def pos option.case
    using bound rest by (auto simp: pending_def unread_def add.commute)
  show "reader_ok (snd (take_frame parse_json p r))"
    unfolding take_frame_def Let_def line
    using ok bound by (auto simp: reader_ok_def)
qed

lemma fill_room:
  assumes ok: "reader_ok r" and small: "length (unread r) \<le> jr_max_frame_bytes r + 1"
  shows "(if 0 < jr_start r then drop (jr_start r) (jr_buffer r) else jr_buffer r) = unread r"
    and "min 8192 (max 1 (sat_add_us (jr_max_frame_bytes r) 2 - length (unread r)))
           \<le> jr_max_frame_bytes r + 2 - length (unread r)"
  using assms by (auto simp: reader_ok_def unread_def sat_add_us_exact)

lemma fill_spec:
  assumes ok: "reader_ok r" and small: "length (unread r) \<le> jr_max_frame_bytes r + 1"
    and eof: "\<not> jr_eof r" and run: "fill r = (res, r')"
  shows "jr_max_frame_bytes r' = jr_max_frame_bytes r"
    and "res = None \<Longrightarrow> reader_ok r' \<and> pending r' = pending r
           \<and> src_failure (jr_reader r') = src_failure (jr_reader r)"
    and "res = Some text \<Longrightarrow> src_failure (jr_reader r) = Some text \<and> pending r = unread r"
proof -
  let ?n = "min 8192 (max 1 (sat_add_us (jr_max_frame_bytes r) 2 - length (unread r)))"
  note room = fill_room [OF ok small]
  have f: "fill r = (case read_source ?n (jr_reader r) of
            (Inl text, src) \<Rightarrow>
              (Some text, r\<lparr>jr_reader := src, jr_buffer := unread r @ replicate ?n (CHR 0x00),
                            jr_start := 0\<rparr>)
          | (Inr bytes, src) \<Rightarrow>
              (None, r\<lparr>jr_reader := src, jr_buffer := unread r @ bytes, jr_start := 0,
                       jr_eof := (jr_eof r \<or> bytes = [])\<rparr>))"
    unfolding fill_def Let_def room(1) ..
  have npos: "0 < ?n" by simp
  consider (none) "read_chunks ?n (src_chunks (jr_reader r)) = None"
    | (some) bytes cs where "read_chunks ?n (src_chunks (jr_reader r)) = Some (bytes, cs)"
    by (cases "read_chunks ?n (src_chunks (jr_reader r))") auto
  note cases = this
  show "jr_max_frame_bytes r' = jr_max_frame_bytes r"
    using run unfolding f by (auto split: prod.splits sum.splits)
  show "reader_ok r' \<and> pending r' = pending r
      \<and> src_failure (jr_reader r') = src_failure (jr_reader r)" if res: "res = None"
    using cases
  proof cases
    case none
    have "concat (src_chunks (jr_reader r)) = []" by (rule read_chunks_None [OF none])
    then show ?thesis
      using run ok small none res unfolding f
      by (auto simp: read_source_def reader_ok_def pending_def unread_def split: option.splits)
  next
    case some
    note c = read_chunks_Some [OF some npos]
    have r': "r' = r\<lparr>jr_reader := (jr_reader r)\<lparr>src_chunks := cs\<rparr>, jr_buffer := unread r @ bytes,
                       jr_start := 0, jr_eof := False\<rparr>"
      using run some eof c unfolding f by (simp add: read_source_def)
    have "length (unread r) + length bytes \<le> jr_max_frame_bytes r + 2"
      using c room(2) small by linarith
    then show ?thesis using r' c ok by (auto simp: reader_ok_def pending_def unread_def)
  qed
  show "src_failure (jr_reader r) = Some text \<and> pending r = unread r" if res: "res = Some text"
    using cases
  proof cases
    case none
    have "concat (src_chunks (jr_reader r)) = []" by (rule read_chunks_None [OF none])
    then show ?thesis
      using run none res unfolding f
      by (auto simp: read_source_def pending_def split: option.splits)
  next
    case some
    then show ?thesis using run res unfolding f by (simp add: read_source_def)
  qed
qed

text \<open>The reader agrees with the line cut off the bytes, however they were chunked.\<close>

definition agrees :: "(string \<Rightarrow> string + json) \<Rightarrow> reader \<Rightarrow> json option result \<times> reader \<Rightarrow> bool" where
  "agrees parse_json r out \<longleftrightarrow>
     (let spec = line_spec parse_json (jr_max_frame_bytes r) (src_failure (jr_reader r)) (pending r)
      in fst out = fst spec \<and>
         (\<forall>v. fst out = Inr v \<longrightarrow>
            pending (snd out) = snd spec \<and> reader_ok (snd out) \<and>
            jr_max_frame_bytes (snd out) = jr_max_frame_bytes r \<and>
            src_failure (jr_reader (snd out)) = src_failure (jr_reader r)))"

lemma take_frame_frame:
  "jr_max_frame_bytes (snd (take_frame parse_json p r)) = jr_max_frame_bytes r"
  "jr_reader (snd (take_frame parse_json p r)) = jr_reader r"
  by (simp_all add: take_frame_def Let_def)

lemma agrees_take_frame:
  assumes "position (\<lambda>b. b = CHR 0x0A) (unread r) = Some p" and "reader_ok r"
  shows "agrees parse_json r (take_frame parse_json p r)"
proof -
  note t = take_frame_spec(1,2) [OF assms, of parse_json "src_failure (jr_reader r)"]
    take_frame_spec(3) [OF assms, of parse_json]
  have "fst (take_frame parse_json p r) =
      fst (line_spec parse_json (jr_max_frame_bytes r) (src_failure (jr_reader r)) (pending r))"
    using t(1) by (metis (no_types, lifting) fst_conv prod.case_eq_if)
  with t(2,3) show ?thesis by (simp add: agrees_def Let_def take_frame_frame)
qed

lemma agrees_too_large:
  assumes none: "position (\<lambda>b. b = CHR 0x0A) (unread r) = None"
    and big: "jr_max_frame_bytes r + 1 < length (unread r)"
  shows "agrees parse_json r (Inl (frame_too_large ''jsonl.read'' (jr_max_frame_bytes r)), r)"
proof (cases "position (\<lambda>b. b = CHR 0x0A) (pending r)")
  case None
  then show ?thesis using big by (simp add: agrees_def line_spec_def pending_def)
next
  case (Some p)
  have p: "length (unread r) \<le> p"
    using Some position_append_None [OF none, of "concat (src_chunks (jr_reader r))"]
    by (auto simp: pending_def)
  have "p < length (pending r)" by (rule position_less [OF Some])
  then have "jr_max_frame_bytes r < length (strip_cr (take p (pending r)))"
    using p big by (auto simp: strip_cr_def)
  with Some show ?thesis by (simp add: agrees_def line_spec_def Let_def)
qed

lemma next_frame_agrees: "reader_ok r \<Longrightarrow> agrees parse_json r (next_frame parse_json r)"
proof (induction parse_json r rule: next_frame.induct)
  case (1 parse_json r)
  have sat: "sat_add_us (jr_max_frame_bytes r) 1 = jr_max_frame_bytes r + 1"
    using 1(2) by (simp add: reader_ok_def sat_add_us_exact)
  show ?case
  proof (cases "position (\<lambda>b. b = CHR 0x0A) (unread r)")
    case (Some p)
    then show ?thesis using agrees_take_frame [OF Some 1(2)] by (simp add: next_frame.simps)
  next
    case none: None
    show ?thesis
    proof (cases "jr_max_frame_bytes r + 1 < length (unread r)")
      case True
      then show ?thesis
        using agrees_too_large [OF none True] none sat by (simp add: next_frame.simps)
    next
      case small: False
      show ?thesis
      proof (cases "jr_eof r")
        case True
        then have "pending r = unread r" "src_failure (jr_reader r) = None"
          using 1(2) by (auto simp: reader_ok_def pending_def)
        with True none small sat 1(2) show ?thesis
          by (auto simp: next_frame.simps agrees_def line_spec_def Let_def)
      next
        case eof: False
        obtain res r1 where run: "fill r = (res, r1)" by (cases "fill r")
        have small': "length (unread r) \<le> jr_max_frame_bytes r + 1" using small by simp
        note f = fill_spec [OF 1(2) small' eof run]
        show ?thesis
        proof (cases res)
          case None
          with f have "reader_ok r1" by simp
          then have "agrees parse_json r1 (next_frame parse_json r1)"
            using 1(1) none small sat eof run None by simp
          then show ?thesis
            using none small sat eof run None f
            by (subst next_frame.simps) (simp add: agrees_def)
        next
          case (Some msg)
          then show ?thesis
            using none small sat eof run f(3) [OF Some]
            by (simp add: next_frame.simps agrees_def line_spec_def Let_def)
        qed
      qed
    qed
  qed
qed

text \<open>Reading frames off the bytes alone.\<close>

fun spec_frames ::
  "(string \<Rightarrow> string + json) \<Rightarrow> nat \<Rightarrow> string option \<Rightarrow> nat \<Rightarrow> string \<Rightarrow> json list \<times> error option" where
  "spec_frames parse_json n failure 0 bytes = ([], None)"
| "spec_frames parse_json n failure (Suc limit) bytes =
     (case line_spec parse_json n failure bytes of
        (Inl e, rest) \<Rightarrow> ([], Some e)
      | (Inr None, rest) \<Rightarrow> ([], None)
      | (Inr (Some v), rest) \<Rightarrow>
          (case spec_frames parse_json n failure limit rest of (vs, e) \<Rightarrow> (v # vs, e)))"

lemma read_frames_spec:
  "reader_ok r \<Longrightarrow>
   (case read_frames parse_json limit r of (vs, e, r') \<Rightarrow> (vs, e)) =
     spec_frames parse_json (jr_max_frame_bytes r) (src_failure (jr_reader r)) limit (pending r)"
proof (induction limit arbitrary: r)
  case 0
  then show ?case by simp
next
  case (Suc limit)
  obtain res r1 where run: "next_frame parse_json r = (res, r1)"
    by (cases "next_frame parse_json r")
  obtain sres rest where spec:
    "line_spec parse_json (jr_max_frame_bytes r) (src_failure (jr_reader r)) (pending r) = (sres, rest)"
    by (cases "line_spec parse_json (jr_max_frame_bytes r) (src_failure (jr_reader r)) (pending r)")
  from next_frame_agrees [OF Suc.prems, of parse_json] run spec
  have a: "res = sres"
    and b: "\<And>v. res = Inr v \<Longrightarrow> pending r1 = rest \<and> reader_ok r1
              \<and> jr_max_frame_bytes r1 = jr_max_frame_bytes r
              \<and> src_failure (jr_reader r1) = src_failure (jr_reader r)"
    by (auto simp: agrees_def Let_def)
  show ?case
  proof (cases res)
    case (Inl e)
    then have "sres = Inl e" using a by simp
    with Inl run spec show ?thesis by simp
  next
    case (Inr v)
    show ?thesis
    proof (cases v)
      case None
      then have "sres = Inr None" using a Inr by simp
      with None Inr run spec show ?thesis by simp
    next
      case (Some w)
      then have sres: "sres = Inr (Some w)" using a Inr by simp
      from b [OF Inr] have ok: "reader_ok r1" by simp
      show ?thesis
        using Suc.IH [OF ok] Inr Some sres b [OF Inr] run spec
        by (auto split: prod.splits)
    qed
  qed
qed

lemma fill_buffer_bound:
  assumes ok: "reader_ok r" and small: "length (unread r) \<le> jr_max_frame_bytes r + 1"
    and eof: "\<not> jr_eof r"
  shows "length (jr_buffer (snd (fill r))) \<le> jr_max_frame_bytes r + 2"
proof (cases "fill r")
  case (Pair res r')
  show ?thesis
  proof (cases res)
    case None
    then show ?thesis
      using fill_spec(1,2) [OF ok small eof Pair] Pair by (simp add: reader_ok_def)
  next
    case (Some msg)
    then show ?thesis
      using Pair fill_room [OF ok small] small
      by (auto simp: fill_def Let_def split: prod.splits sum.splits)
  qed
qed

lemma next_frame_buffer_bound:
  "reader_ok r \<Longrightarrow> length (jr_buffer (snd (next_frame parse_json r))) \<le> jr_max_frame_bytes r + 2"
proof (induction parse_json r rule: next_frame.induct)
  case (1 parse_json r)
  have sat: "sat_add_us (jr_max_frame_bytes r) 1 = jr_max_frame_bytes r + 1"
    and len: "length (jr_buffer r) \<le> jr_max_frame_bytes r + 2"
    using 1(2) by (simp_all add: reader_ok_def sat_add_us_exact)
  show ?case
  proof (cases "position (\<lambda>b. b = CHR 0x0A) (unread r)")
    case (Some p)
    then show ?thesis using len by (simp add: next_frame.simps take_frame_def Let_def)
  next
    case none: None
    show ?thesis
    proof (cases "jr_max_frame_bytes r + 1 < length (unread r) \<or> jr_eof r")
      case True
      then show ?thesis using none sat len by (auto simp: next_frame.simps)
    next
      case False
      obtain res r1 where run: "fill r = (res, r1)" by (cases "fill r")
      have small: "length (unread r) \<le> jr_max_frame_bytes r + 1" using False by simp
      have eof: "\<not> jr_eof r" using False by simp
      show ?thesis
      proof (cases res)
        case None
        have "reader_ok r1" "jr_max_frame_bytes r1 = jr_max_frame_bytes r"
          using fill_spec(1,2) [OF 1(2) small eof run] None by simp_all
        with 1(1) none False sat run None show ?thesis
          by (subst next_frame.simps) simp
      next
        case (Some msg)
        then show ?thesis
          using fill_buffer_bound [OF 1(2) small eof] run none False sat
          by (simp add: next_frame.simps)
      qed
    qed
  qed
qed

lemma position_line:
  "CHR 0x0A \<notin> set line \<Longrightarrow>
     position (\<lambda>b. b = CHR 0x0A) (line @ CHR 0x0A # rest) = Some (length line)"
  by (induction line) auto

lemma line_spec_of_line:
  assumes "CHR 0x0A \<notin> set line" "line \<noteq> []" "last line \<noteq> CHR 0x0D" "length line \<le> n"
    and "utf8_valid line" "parse_json line = Inr v"
  shows "line_spec parse_json n f (line @ CHR 0x0A # rest) = (Inr (Some v), rest)"
  using assms by (simp add: line_spec_def position_line strip_cr_def parse_frame_def Let_def)

text \<open>What is relied on of \<open>serde_json\<close>: compact printing escapes control characters, gives UTF-8
  text that does not end in white space, and is read back.\<close>

definition serde_roundtrips :: "(json \<Rightarrow> string + string) \<Rightarrow> (string \<Rightarrow> string + json) \<Rightarrow> json \<Rightarrow> bool" where
  "serde_roundtrips print_json parse_json v \<longleftrightarrow>
     (case print_json v of
        Inl _ \<Rightarrow> False
      | Inr text \<Rightarrow> text \<noteq> [] \<and> CHR 0x0A \<notin> set text \<and> last text \<noteq> CHR 0x0D \<and> utf8_valid text
                 \<and> parse_json text = Inr v)"

lemma encode_serde:
  assumes "serde_roundtrips print_json parse_json v" "encode print_json v n = Inr frame"
  obtains line where "frame_bytes frame = line @ [CHR 0x0A]" "CHR 0x0A \<notin> set line" "line \<noteq> []"
    "last line \<noteq> CHR 0x0D" "length line \<le> n" "utf8_valid line" "parse_json line = Inr v"
  using assms by (auto simp: encode_def serde_roundtrips_def split: sum.splits if_splits)

lemma spec_frames_encoded:
  assumes "\<And>v. v \<in> set vs \<Longrightarrow> serde_roundtrips print_json parse_json v"
    and "result_map (\<lambda>v. encode print_json v n) vs = Inr frames"
  shows "spec_frames parse_json n None (Suc (length vs)) (concat (map frame_bytes frames)) = (vs, None)"
  using assms
proof (induction vs arbitrary: frames)
  case Nil
  then show ?case by (simp add: line_spec_def)
next
  case (Cons v vs)
  from Cons.prems(2) obtain f fs where f: "encode print_json v n = Inr f"
    and fs: "result_map (\<lambda>v. encode print_json v n) vs = Inr fs" and frames: "frames = f # fs"
    by (auto simp: result_simps)
  have "serde_roundtrips print_json parse_json v" using Cons.prems(1) by simp
  then obtain line where line: "frame_bytes f = line @ [CHR 0x0A]" "CHR 0x0A \<notin> set line"
      "line \<noteq> []" "last line \<noteq> CHR 0x0D" "length line \<le> n" "utf8_valid line" "parse_json line = Inr v"
    using f by (rule encode_serde)
  have "line_spec parse_json n None (concat (map frame_bytes frames))
      = (Inr (Some v), concat (map frame_bytes fs))"
    using line_spec_of_line [where parse_json = parse_json and v = v, OF line(2-7),
        where f = None and rest = "concat (map frame_bytes fs)"]
      frames line(1) by simp
  moreover have "spec_frames parse_json n None (Suc (length vs)) (concat (map frame_bytes fs)) = (vs, None)"
    using Cons.IH [OF _ fs] Cons.prems(1) by simp
  ultimately show ?case
    by (simp del: spec_frames.simps add: spec_frames.simps(2) [where limit = "Suc (length vs)"])
qed

section \<open>Properties\<close>

text \<open>C27: however the bytes of the stream are cut into chunks, the frames and the final error the
  reader task sees are those of cutting the bytes at their newlines.\<close>

theorem framing_independent_of_chunking:
  assumes "n + 2 \<le> usize_max"
  shows "(case read_frames parse_json limit (new_reader \<lparr>src_chunks = cs, src_failure = f\<rparr> n)
            of (vs, e, r) \<Rightarrow> (vs, e)) =
         spec_frames parse_json n f limit (concat cs)"
  using read_frames_spec [OF reader_ok_new [OF assms, of "\<lparr>src_chunks = cs, src_failure = f\<rparr>"]]
  by (simp add: new_reader_def pending_def unread_def)

text \<open>C28: the frames of a stream of encoded values, in whatever chunks it arrives, are the values,
  and the reader then reports the end of the stream.\<close>

theorem encoded_stream_read_back:
  assumes "n + 2 \<le> usize_max"
    and "\<And>v. v \<in> set vs \<Longrightarrow> serde_roundtrips print_json parse_json v"
    and "result_map (\<lambda>v. encode print_json v n) vs = Inr frames"
    and "concat cs = concat (map frame_bytes frames)"
  shows "(case read_frames parse_json (Suc (length vs))
              (new_reader \<lparr>src_chunks = cs, src_failure = None\<rparr> n)
            of (ws, e, r) \<Rightarrow> (ws, e)) = (vs, None)"
  using read_frames_spec [OF reader_ok_new [OF assms(1), of "\<lparr>src_chunks = cs, src_failure = None\<rparr>"],
      of parse_json "Suc (length vs)"] spec_frames_encoded [OF assms(2,3)] assms(4)
  by (simp add: new_reader_def pending_def unread_def)

text \<open>the reader never holds more than the frame limit and two bytes, whatever the peer sends
  and however its call ends.\<close>

theorem reader_buffer_bounded:
  assumes "reader_ok r"
  shows "length (jr_buffer (snd (next_frame parse_json r))) \<le> jr_max_frame_bytes r + 2"
  by (rule next_frame_buffer_bound [OF assms])

section \<open>Witnesses\<close>

definition demo_print :: "json \<Rightarrow> string + string" where
  "demo_print v = (case v of JNull \<Rightarrow> Inr ''null'' | JBool True \<Rightarrow> Inr ''true'' | _ \<Rightarrow> Inl ''unsupported'')"

definition demo_parse :: "string \<Rightarrow> string + json" where
  "demo_parse s =
     (if s = ''null'' then Inr JNull else if s = ''true'' then Inr (JBool True)
      else Inl ''expected value'')"

definition demo_source :: source where
  "demo_source =
     \<lparr>src_chunks = [''nu'', ''ll'' @ [CHR 0x0A] @ ''t'', ''rue'', [CHR 0x0A]], src_failure = None\<rparr>"

lemma demo_roundtrips:
  "v \<in> {JNull, JBool True} \<Longrightarrow> serde_roundtrips demo_print demo_parse v"
  by (elim insertE) (simp_all add: serde_roundtrips_def demo_print_def demo_parse_def)

lemma framing_independent_of_chunking_witness:
  "(16::nat) + 2 \<le> usize_max \<and>
   (case read_frames demo_parse 3
       (new_reader \<lparr>src_chunks = [''nu'', ''ll'' @ [CHR 0x0A]], src_failure = None\<rparr> 16)
     of (vs, e, r) \<Rightarrow> (vs, e)) = ([JNull], None)"
  using framing_independent_of_chunking [of 16 demo_parse 3 "[''nu'', ''ll'' @ [CHR 0x0A]]" None]
  by (simp add: usize_max_def line_spec_def strip_cr_def parse_frame_def demo_parse_def numeral_3_eq_3)

lemma encoded_stream_read_back_witness:
  "(case read_frames demo_parse 3 (new_reader demo_source 16) of (ws, e, r) \<Rightarrow> (ws, e))
     = ([JNull, JBool True], None)"
  using encoded_stream_read_back [of 16 "[JNull, JBool True]" demo_print demo_parse
      "[\<lparr>frame_bytes = ''null'' @ [CHR 0x0A]\<rparr>, \<lparr>frame_bytes = ''true'' @ [CHR 0x0A]\<rparr>]"
      "src_chunks demo_source"] demo_roundtrips
  by (simp add: usize_max_def demo_source_def encode_def demo_print_def numeral_3_eq_3)

lemma reader_buffer_bounded_witness:
  "reader_ok (new_reader demo_source 16) \<and>
   length (jr_buffer (snd (next_frame demo_parse (new_reader demo_source 16)))) \<le> 18"
  using reader_buffer_bounded [of "new_reader demo_source 16" demo_parse]
    reader_ok_new [of 16 demo_source]
  by (simp add: usize_max_def new_reader_def)

end
