(* ===== verification/Wire.thy ===== *)
theory Wire
  imports Errors Json
begin

text \<open>
  \<open>src/src/private/wire.rs\<close>: the JSON-RPC frames the client and the app-server exchange, the
  classification of an incoming frame and the construction of outgoing ones.
\<close>

datatype rpc_id = IdNumber int | IdString string

definition to_value :: "rpc_id \<Rightarrow> json" where
  "to_value i = (case i of IdNumber n \<Rightarrow> JNumber (JInt n) | IdString s \<Rightarrow> JString s)"

definition rpc_id_to_string :: "rpc_id \<Rightarrow> string" where
  "rpc_id_to_string i = (case i of IdNumber n \<Rightarrow> show_int n | IdString s \<Rightarrow> s)"

datatype incoming =
    Success rpc_id json
  | Failure rpc_id int string
  | Request rpc_id string json
  | Notification string json

definition wire_error :: "string \<Rightarrow> error" where
  "wire_error msg = new_error Protocol ''rpc.parse'' msg"

definition parse_id :: "json \<Rightarrow> rpc_id result" where
  "parse_id v =
     (case as_i64 v of
        Some n \<Rightarrow> Inr (IdNumber n)
      | None \<Rightarrow>
          (case as_str v of
             Some t \<Rightarrow> Inr (IdString t)
           | None \<Rightarrow> Inl (wire_error ''request id must be an integer or string'')))"

definition parse_response :: "rpc_id \<Rightarrow> json_object \<Rightarrow> incoming result" where
  "parse_response i m =
     (case (map_of m ''result'', map_of m ''error'') of
        (Some r, None) \<Rightarrow> Inr (Success i r)
      | (None, Some e) \<Rightarrow>
          result_bind (ok_or (wire_error ''response error must be an object'') (as_object e)) (\<lambda>eo.
          result_bind (ok_or (wire_error ''response error code must be an integer'')
                         (Option.bind (map_of eo ''code'') as_i64)) (\<lambda>code.
          result_bind (ok_or (wire_error ''response error message must be a string'')
                         (Option.bind (map_of eo ''message'') as_str)) (\<lambda>msg.
          Inr (Failure i code msg))))
      | _ \<Rightarrow> Inl (wire_error ''response must contain exactly one of result or error''))"

definition parse :: "json \<Rightarrow> incoming result" where
  "parse v =
     result_bind (ok_or (wire_error ''JSON-RPC frame must be an object'') (as_object v)) (\<lambda>m.
     result_bind (case map_of m ''id'' of
                    None \<Rightarrow> Inr None
                  | Some w \<Rightarrow> result_bind (parse_id w) (\<lambda>i. Inr (Some i))) (\<lambda>i.
     let meth = nonempty (Option.bind (map_of m ''method'') as_str);
         params = (case map_of m ''params'' of None \<Rightarrow> JNull | Some p \<Rightarrow> p)
     in if map_of m ''method'' \<noteq> None \<and> meth = None
        then Inl (wire_error ''request method must be a non-empty string'')
        else if meth \<noteq> None \<and> (map_of m ''result'' \<noteq> None \<or> map_of m ''error'' \<noteq> None)
        then Inl (wire_error ''request and notification frames may not contain result or error'')
        else (case (i, meth) of
                (Some j, Some name) \<Rightarrow> Inr (Request j name params)
              | (None, Some name) \<Rightarrow> Inr (Notification name params)
              | (Some j, None) \<Rightarrow> parse_response j m
              | (None, None) \<Rightarrow>
                  Inl (wire_error ''frame is neither a response, request, nor notification''))))"

definition request :: "nat \<Rightarrow> string \<Rightarrow> json \<Rightarrow> json" where
  "request i meth params =
     JObject (obj_insert ''params'' params
       (obj_insert ''method'' (JString meth)
         (obj_insert ''id'' (JNumber (JInt (int i))) [])))"

definition notification :: "string \<Rightarrow> json \<Rightarrow> json" where
  "notification meth params =
     (let m = obj_insert ''method'' (JString meth) []
      in JObject (if is_null params then m else obj_insert ''params'' params m))"

definition success :: "rpc_id \<Rightarrow> json \<Rightarrow> json" where
  "success i r = JObject (obj_insert ''result'' r (obj_insert ''id'' (to_value i) []))"

definition failure :: "rpc_id \<Rightarrow> int \<Rightarrow> string \<Rightarrow> json" where
  "failure i code msg =
     (let e = obj_insert ''message'' (JString msg) (obj_insert ''code'' (JNumber (JInt code)) [])
      in JObject (obj_insert ''error'' (JObject e) (obj_insert ''id'' (to_value i) [])))"

section \<open>Identifiers\<close>

fun rpc_id_wf :: "rpc_id \<Rightarrow> bool" where
  "rpc_id_wf (IdNumber n) = in_i64 n"
| "rpc_id_wf (IdString s) = True"

lemma parse_id_to_value: "rpc_id_wf i \<Longrightarrow> parse_id (to_value i) = Inr i"
  by (cases i) (auto simp: parse_id_def to_value_def)

lemma parse_id_Inr_iff: "parse_id v = Inr i \<longleftrightarrow> v = to_value i \<and> rpc_id_wf i"
proof
  assume "parse_id v = Inr i"
  then show "v = to_value i \<and> rpc_id_wf i"
    by (cases v rule: as_i64.cases)
       (auto simp: parse_id_def to_value_def split: option.splits if_splits)
qed (auto simp: parse_id_to_value)

lemma parse_id_Inl: "parse_id v = Inl e \<Longrightarrow> e_kind e = Protocol"
  by (auto simp: parse_id_def wire_error_def split: option.splits)

lemma wire_error_kind [simp]: "e_kind (wire_error msg) = Protocol"
  by (simp add: wire_error_def)

lemma parse_response_Inl: "parse_response i m = Inl e \<Longrightarrow> e_kind e = Protocol"
  by (auto simp: parse_response_def result_simps split: option.splits)

lemma parse_response_Inr_iff:
  "parse_response i m = Inr inc \<longleftrightarrow>
     (\<exists>r. map_of m ''result'' = Some r \<and> map_of m ''error'' = None \<and> inc = Success i r) \<or>
     (\<exists>eo code msg. map_of m ''result'' = None \<and> map_of m ''error'' = Some (JObject eo) \<and>
        map_of eo ''code'' = Some (JNumber (JInt code)) \<and> in_i64 code \<and>
        map_of eo ''message'' = Some (JString msg) \<and> inc = Failure i code msg)"
  by (auto simp: parse_response_def result_simps accessor_iffs Option.bind_eq_Some_conv
        split: option.splits)

section \<open>Classification\<close>

text \<open>What the protocol calls a frame of each kind.\<close>

fun frame_of :: "json_object \<Rightarrow> incoming \<Rightarrow> bool" where
  "frame_of m (Request i meth params) \<longleftrightarrow>
     map_of m ''id'' = Some (to_value i) \<and> rpc_id_wf i \<and>
     map_of m ''method'' = Some (JString meth) \<and> meth \<noteq> [] \<and>
     map_of m ''result'' = None \<and> map_of m ''error'' = None \<and>
     params = (case map_of m ''params'' of None \<Rightarrow> JNull | Some p \<Rightarrow> p)"
| "frame_of m (Notification meth params) \<longleftrightarrow>
     map_of m ''id'' = None \<and>
     map_of m ''method'' = Some (JString meth) \<and> meth \<noteq> [] \<and>
     map_of m ''result'' = None \<and> map_of m ''error'' = None \<and>
     params = (case map_of m ''params'' of None \<Rightarrow> JNull | Some p \<Rightarrow> p)"
| "frame_of m (Success i r) \<longleftrightarrow>
     map_of m ''id'' = Some (to_value i) \<and> rpc_id_wf i \<and> map_of m ''method'' = None \<and>
     map_of m ''result'' = Some r \<and> map_of m ''error'' = None"
| "frame_of m (Failure i code msg) \<longleftrightarrow>
     map_of m ''id'' = Some (to_value i) \<and> rpc_id_wf i \<and> map_of m ''method'' = None \<and>
     map_of m ''result'' = None \<and>
     (\<exists>eo. map_of m ''error'' = Some (JObject eo) \<and>
        map_of eo ''code'' = Some (JNumber (JInt code)) \<and> in_i64 code \<and>
        map_of eo ''message'' = Some (JString msg))"

lemma parse_error_kind: "parse v = Inl e \<Longrightarrow> e_kind e = Protocol"
  by (auto simp: parse_def result_simps Let_def split: option.splits if_splits
        dest: parse_id_Inl parse_response_Inl)

lemma nonempty_None_iff: "nonempty s = None \<longleftrightarrow> s = None \<or> s = Some []"
  by (auto simp: nonempty_def split: option.splits)

lemma parse_sound:
  assumes "parse (JObject m) = Inr inc"
  shows "frame_of m inc"
  using assms
  by (auto simp: parse_def result_simps Let_def parse_id_Inr_iff parse_response_Inr_iff
        accessor_iffs nonempty_None_iff Option.bind_eq_Some_conv
        split: option.splits if_splits)

lemma parse_complete:
  assumes "frame_of m inc"
  shows "parse (JObject m) = Inr inc"
  using assms
  by (cases inc)
     (auto simp: parse_def parse_id_to_value parse_response_Inr_iff nonempty_def)

section \<open>Properties\<close>

text \<open>a frame is accepted exactly when it is an object of one of the four kinds, and every
  rejection is a protocol error.\<close>

theorem parse_classifies:
  "(parse v = Inr inc) = (\<exists>m. v = JObject m \<and> frame_of m inc)"
  by (cases v) (auto intro: parse_complete dest: parse_sound, auto simp: parse_def)

text \<open>What the client builds with \<open>request\<close>, \<open>notification\<close>, \<open>success\<close> and \<open>failure\<close> is
  classified back into what it was built from.\<close>

theorem parse_built_frames:
  assumes "meth \<noteq> []" and "in_i64 (int n)" and "rpc_id_wf i" and "in_i64 code"
  shows "parse (request n meth params) = Inr (Request (IdNumber (int n)) meth params) \<and>
         parse (notification meth params) = Inr (Notification meth params) \<and>
         parse (success i params) = Inr (Success i params) \<and>
         parse (failure i code msg) = Inr (Failure i code msg)"
  using assms
  by (auto simp: request_def notification_def success_def failure_def Let_def is_null_iff to_value_def
        intro!: parse_complete)

lemma parse_built_frames_witness:
  "parse (request 7 ''turn/start'' (JBool True)) = Inr (Request (IdNumber 7) ''turn/start'' (JBool True))"
  using parse_built_frames [of "''turn/start''" 7 "IdString ''a''" "-32601" "JBool True" "[]"]
  by (simp add: in_i64_def)

end
