(* ===== verification/Contracts.thy ===== *)
theory Contracts
  imports Prelude
begin

text \<open>
  The interfaces the components share. Each is a locale: the operations a client calls are its
  parameters, the laws the provider promises its assumptions, and what every client may conclude
  is proved once inside. The components interpret them on their own operations.

  \<^item> \<open>machine\<close>: a mutex-protected state, whose operations are atomic steps that keep an
    invariant.
  \<^item> \<open>settling_machine\<close>: a machine in which a key's first result is final (request and login
    terminals, the causal disconnect error, the terminal result of a run).
  \<^item> \<open>bounded_buffer\<close>: a buffer of limited size whose \<open>push\<close> evicts from the front (the stderr
    ring, the diagnostics).
\<close>

section \<open>State machines\<close>

locale machine =
  fixes init :: 's
    and step :: "'op \<Rightarrow> 's \<Rightarrow> 's"
    and invar :: "'s \<Rightarrow> bool"
  assumes invar_init: "invar init"
    and invar_step: "invar s \<Longrightarrow> invar (step op s)"
begin

lemma invar_run_from: "invar s \<Longrightarrow> invar (fold step ops s)"
  by (induction ops arbitrary: s) (auto intro: invar_step)

lemma invar_run: "invar (fold step ops init)"
  by (rule invar_run_from [OF invar_init])

end

section \<open>First result wins\<close>

locale settling_machine = machine init step invar
  for init :: 's and step :: "'op \<Rightarrow> 's \<Rightarrow> 's" and invar :: "'s \<Rightarrow> bool" +
  fixes settled :: "'k \<Rightarrow> 's \<Rightarrow> 'v option"
  assumes settled_step: "invar s \<Longrightarrow> settled k s = Some v \<Longrightarrow> settled k (step op s) = Some v"
begin

lemma settled_run_from:
  "invar s \<Longrightarrow> settled k s = Some v \<Longrightarrow> settled k (fold step ops s) = Some v"
proof (induction ops arbitrary: s)
  case Nil
  then show ?case by simp
next
  case (Cons op ops)
  from Cons.prems have "invar (step op s)" and "settled k (step op s) = Some v"
    by (auto intro: invar_step settled_step)
  then show ?case by (auto intro: Cons.IH)
qed

text \<open>A result observed at any point of a run is the one observed at every later point.\<close>

lemma settled_stable:
  "settled k (fold step ops init) = Some v \<Longrightarrow> settled k (fold step (ops @ more) init) = Some v"
  by (simp add: settled_run_from invar_run)

lemma settled_unique:
  assumes "settled k (fold step ops init) = Some v"
    and "settled k (fold step (ops @ more) init) = Some w"
  shows "v = w"
  using settled_stable [OF assms(1), of more] assms(2) by simp

end

section \<open>Bounded buffers\<close>

locale bounded_buffer =
  fixes empty_buffer :: 'b
    and push :: "'a \<Rightarrow> 'b \<Rightarrow> 'b"
    and items :: "'b \<Rightarrow> 'c list"
    and weight :: "'c list \<Rightarrow> nat"
    and limit :: nat
    and wf :: "'b \<Rightarrow> bool"
    and stored :: "'a \<Rightarrow> 'c"
  assumes wf_empty: "wf empty_buffer"
    and wf_push: "wf b \<Longrightarrow> wf (push x b)"
    and wf_limit: "wf b \<Longrightarrow> weight (items b) \<le> limit"
    and push_last: "wf b \<Longrightarrow> items (push x b) \<noteq> [] \<and> last (items (push x b)) = stored x"

sublocale bounded_buffer \<subseteq> machine empty_buffer push wf
  by unfold_locales (auto intro: wf_empty wf_push)

context bounded_buffer
begin

text \<open>However many items are pushed, the buffer keeps within its limit and holds the last one.\<close>

lemma run_within_limit: "weight (items (fold push xs empty_buffer)) \<le> limit"
  by (rule wf_limit [OF invar_run])

lemma run_keeps_last:
  "xs \<noteq> [] \<Longrightarrow> items (fold push xs empty_buffer) \<noteq> []
     \<and> last (items (fold push xs empty_buffer)) = stored (last xs)"
proof (induction xs rule: rev_induct)
  case Nil
  then show ?case by simp
next
  case (snoc x xs)
  show ?case using push_last [OF invar_run [of xs], of x] by simp
qed

end

end
