(* ===== verification/Redact.thy ===== *)
theory Redact
  imports Contracts
begin

text \<open>
  \<open>src/src/private/redact.rs\<close>: the redaction of secret-valued fields in one line, and the bounded
  ring of the last stderr lines. Each pass is written over the part of the line after its cursor;
  the lower-case copy it searches is the lower-case copy of that part, byte by byte.
\<close>

section \<open>Redaction\<close>

definition REDACTED :: string where "REDACTED = ''<redacted>''"

definition SENSITIVE_KEYS :: "string list" where
  "SENSITIVE_KEYS =
     [''access_token'', ''authorization'', ''client_secret'', ''code_verifier'', ''cookie'', ''id_token'',
      ''openai_api_key'', ''password'', ''refresh_token'', ''secret'', ''set-cookie'', ''token'']"

text \<open>The end of a value: the first position where the predicate holds of the rest, or the end.\<close>

fun value_end :: "(string \<Rightarrow> bool) \<Rightarrow> string \<Rightarrow> nat" where
  "value_end p [] = 0"
| "value_end p (x # xs) = (if p (x # xs) then 0 else Suc (value_end p xs))"

definition ends_assignment :: "string \<Rightarrow> bool" where
  "ends_assignment s \<longleftrightarrow> 0 < ws_prefix s \<or> hd s = CHR ''&'' \<or> hd s = CHR '';''"

definition ends_header :: "string \<Rightarrow> bool" where
  "ends_header s \<longleftrightarrow> hd s = CHR '','' \<or> hd s = CHR 0x0D \<or> hd s = CHR 0x0A"

definition ends_bearer :: "string \<Rightarrow> bool" where
  "ends_bearer s \<longleftrightarrow> 0 < ws_prefix s \<or> hd s = CHR '','' \<or> hd s = CHR 0x22"

lemma value_end_le: "value_end p s \<le> length s"
  by (induction s) auto

lemma lower_find_bound:
  "find_sub (to_ascii_lowercase s) needle = Some i \<Longrightarrow> i + length needle \<le> length s"
  using find_sub_Some_bound [of "to_ascii_lowercase s" needle i] by simp

function redact_assignment :: "string \<Rightarrow> string \<Rightarrow> string" where
  "redact_assignment input key =
     (case find_sub (to_ascii_lowercase input) (key @ ''='') of
        None \<Rightarrow> input
      | Some relative \<Rightarrow>
          (let value_start = relative + length (key @ ''='');
               rest = drop value_start input
           in take value_start input @ REDACTED
                @ redact_assignment (drop (value_end ends_assignment rest) rest) key))"
  by pat_completeness auto
termination
proof (relation "measure (\<lambda>(input, key). length input)")
  fix input key relative value_start rest
  assume "find_sub (to_ascii_lowercase input) (key @ ''='') = Some relative"
    and "value_start = relative + length (key @ ''='')" and "rest = drop value_start input"
  then show "((drop (value_end ends_assignment rest) rest, key), (input, key))
      \<in> measure (\<lambda>(input, key). length input)"
    using lower_find_bound [of input "key @ ''=''" relative] by auto
qed simp

text \<open>The end of a JSON string that starts at the front: the first quote that is not escaped.\<close>

fun find_json_string_end :: "bool \<Rightarrow> string \<Rightarrow> nat option" where
  "find_json_string_end escaped [] = None"
| "find_json_string_end escaped (c # cs) =
     (if c = CHR 0x5C \<and> \<not> escaped then map_option Suc (find_json_string_end True cs)
      else if c = CHR 0x22 \<and> \<not> escaped then Some 0
      else map_option Suc (find_json_string_end False cs))"

lemma json_end_bound: "find_json_string_end esc s = Some i \<Longrightarrow> i < length s"
  by (induction esc s arbitrary: i rule: find_json_string_end.induct) (auto split: if_splits)

definition quoted_key :: "string \<Rightarrow> string" where
  "quoted_key key = CHR 0x22 # key @ [CHR 0x22]"

definition skip_ascii_ws :: "string \<Rightarrow> string" where
  "skip_ascii_ws s = dropWhile is_ascii_ws s"

lemma skip_ascii_ws_le: "length (skip_ascii_ws s) \<le> length s"
  by (simp add: skip_ascii_ws_def length_dropWhile_le)

text \<open>After the key, white space, the colon, white space and the opening quote: what is left, or where
  the search goes on.\<close>

definition json_value_start :: "string \<Rightarrow> string + string" where
  "json_value_start after_key =
     (case skip_ascii_ws after_key of
        [] \<Rightarrow> Inl []
      | c # r \<Rightarrow>
          if c \<noteq> CHR '':'' then Inl (c # r)
          else (case skip_ascii_ws r of
                  [] \<Rightarrow> Inl []
                | d # r2 \<Rightarrow> if d \<noteq> CHR 0x22 then Inl (d # r2) else Inr r2))"

lemma json_value_start_le:
  "json_value_start s = Inl r \<Longrightarrow> length r \<le> length s"
  "json_value_start s = Inr r \<Longrightarrow> length r \<le> length s"
proof -
  have w: "\<And>c r s. skip_ascii_ws s = c # r \<Longrightarrow> Suc (length r) \<le> length s"
    by (metis length_Cons skip_ascii_ws_le)
  show "json_value_start s = Inl r \<Longrightarrow> length r \<le> length s"
    using skip_ascii_ws_le
    by (auto simp: json_value_start_def split: list.splits if_splits dest!: w)
       (metis Suc_leD le_trans skip_ascii_ws_le)+
  show "json_value_start s = Inr r \<Longrightarrow> length r \<le> length s"
    by (auto simp: json_value_start_def split: list.splits if_splits dest!: w)
qed

function redact_json_value :: "string \<Rightarrow> string \<Rightarrow> string" where
  "redact_json_value input key =
     (case find_sub (to_ascii_lowercase input) (quoted_key key) of
        None \<Rightarrow> input
      | Some key_start \<Rightarrow>
          (let after_key = drop (key_start + length (quoted_key key)) input
           in case json_value_start after_key of
                Inl rest \<Rightarrow> take (length input - length rest) input @ redact_json_value rest key
              | Inr value \<Rightarrow>
                  (case find_json_string_end False value of
                     None \<Rightarrow> input
                   | Some n \<Rightarrow>
                       take (length input - length value) input @ REDACTED
                         @ redact_json_value (drop n value) key)))"
  by pat_completeness auto
termination
proof (relation "measure (\<lambda>(input, key). length input)")
  fix input key key_start after_key rest
  assume "find_sub (to_ascii_lowercase input) (quoted_key key) = Some key_start"
    and "after_key = drop (key_start + length (quoted_key key)) input"
    and "json_value_start after_key = Inl rest"
  then show "((rest, key), (input, key)) \<in> measure (\<lambda>(input, key). length input)"
    using lower_find_bound [of input "quoted_key key" key_start] json_value_start_le(1) [of after_key rest]
    by (auto simp: quoted_key_def)
next
  fix input key key_start after_key "value" n
  assume "find_sub (to_ascii_lowercase input) (quoted_key key) = Some key_start"
    and "after_key = drop (key_start + length (quoted_key key)) input"
    and "json_value_start after_key = Inr value"
  then show "((drop n value, key), (input, key)) \<in> measure (\<lambda>(input, key). length input)"
    using lower_find_bound [of input "quoted_key key" key_start] json_value_start_le(2) [of after_key "value"]
    by (auto simp: quoted_key_def)
qed simp

text \<open>The white space at the front: \<open>chars().take_while(is_whitespace)\<close>, in bytes.\<close>

function ws_run :: "string \<Rightarrow> nat" where
  "ws_run s = (if ws_prefix s = 0 \<or> s = [] then 0 else ws_prefix s + ws_run (drop (ws_prefix s) s))"
  by pat_completeness auto
termination by (relation "measure length") auto

declare ws_run.simps [simp del]

function redact_header_value :: "string \<Rightarrow> string \<Rightarrow> string" where
  "redact_header_value input key =
     (case find_sub (to_ascii_lowercase input) (key @ '':'') of
        None \<Rightarrow> input
      | Some relative \<Rightarrow>
          (let value_start = relative + length (key @ '':'');
               whitespace_len = ws_run (drop value_start input);
               content = drop (value_start + whitespace_len) input
           in take (value_start + whitespace_len) input @ REDACTED
                @ redact_header_value (drop (value_end ends_header content) content) key))"
  by pat_completeness auto
termination
proof (relation "measure (\<lambda>(input, key). length input)")
  fix input key relative value_start whitespace_len content
  assume "find_sub (to_ascii_lowercase input) (key @ '':'') = Some relative"
    and "value_start = relative + length (key @ '':'')"
    and "content = drop (value_start + whitespace_len) input"
  then show "((drop (value_end ends_header content) content, key), (input, key))
      \<in> measure (\<lambda>(input, key). length input)"
    using lower_find_bound [of input "key @ '':''" relative] by auto
qed simp

function redact_bearer_tokens :: "string \<Rightarrow> string" where
  "redact_bearer_tokens input =
     (case find_sub (to_ascii_lowercase input) ''bearer '' of
        None \<Rightarrow> input
      | Some relative \<Rightarrow>
          (let value_start = relative + 7; rest = drop value_start input
           in take value_start input @ REDACTED
                @ redact_bearer_tokens (drop (value_end ends_bearer rest) rest)))"
  by pat_completeness auto
termination
proof (relation "measure length")
  fix input relative value_start rest
  assume "find_sub (to_ascii_lowercase input) ''bearer '' = Some relative"
    and "value_start = relative + (7 :: nat)" and "rest = drop value_start input"
  then show "(drop (value_end ends_bearer rest) rest, input) \<in> measure length"
    using lower_find_bound [of input "''bearer ''" relative] by auto
qed simp

declare redact_assignment.simps [simp del] redact_json_value.simps [simp del]
  redact_header_value.simps [simp del] redact_bearer_tokens.simps [simp del]

definition redact_key :: "string \<Rightarrow> string \<Rightarrow> string" where
  "redact_key key s = redact_header_value (redact_json_value (redact_assignment s key) key) key"

definition redact_line :: "string \<Rightarrow> string" where
  "redact_line line = redact_bearer_tokens (fold redact_key SENSITIVE_KEYS line)"

section \<open>The stderr ring\<close>

record stderr_ring =
  sr_capacity :: nat
  sr_bytes :: nat
  sr_lines :: "string list"

definition new_ring :: "nat \<Rightarrow> stderr_ring" where
  "new_ring capacity = \<lparr>sr_capacity = capacity, sr_bytes = 0, sr_lines = []\<rparr>"

definition utf8_suffix :: "string \<Rightarrow> nat \<Rightarrow> string" where
  "utf8_suffix input max_bytes =
     (if length input \<le> max_bytes then input
      else dropWhile is_continuation (drop (length input - max_bytes) input))"

text \<open>The eviction loop, over the lines and the byte count.\<close>

fun evict_lines :: "nat \<Rightarrow> nat \<Rightarrow> string list \<Rightarrow> nat \<Rightarrow> string list \<times> nat" where
  "evict_lines capacity cost [] bytes = ([], bytes)"
| "evict_lines capacity cost (l # ls) bytes =
     (if capacity < sat_add_us bytes cost
      then evict_lines capacity cost ls (bytes - length l - (if ls = [] then 0 else 1))
      else (l # ls, bytes))"

definition ring_line :: "nat \<Rightarrow> string \<Rightarrow> string" where
  "ring_line capacity line =
     (let redacted = redact_line line
      in if capacity < length redacted then utf8_suffix redacted capacity else redacted)"

definition push_line :: "string \<Rightarrow> stderr_ring \<Rightarrow> stderr_ring" where
  "push_line line r =
     (if sr_capacity r = 0 then r
      else
        (let l = ring_line (sr_capacity r) line;
             cost = length l + (if sr_lines r = [] then 0 else 1)
         in case evict_lines (sr_capacity r) cost (sr_lines r) (sr_bytes r) of
              (ls, bytes) \<Rightarrow>
                r\<lparr>sr_lines := ls @ [l], sr_bytes := bytes + (if ls = [] then 0 else 1) + length l\<rparr>))"

definition ring_tail :: "stderr_ring \<Rightarrow> string option" where
  "ring_tail r = (if sr_lines r = [] then None else Some (join_with [CHR 0x0A] (sr_lines r)))"

text \<open>The bytes of the joined lines.\<close>

definition joined_bytes :: "string list \<Rightarrow> nat" where
  "joined_bytes ls = sum_list (map length ls) + (length ls - 1)"

definition ring_ok :: "nat \<Rightarrow> stderr_ring \<Rightarrow> bool" where
  "ring_ok capacity r \<longleftrightarrow>
     sr_capacity r = capacity \<and> sr_bytes r = joined_bytes (sr_lines r) \<and>
     joined_bytes (sr_lines r) \<le> capacity"

lemma joined_bytes_Cons:
  "joined_bytes (l # ls) = length l + (if ls = [] then 0 else 1) + joined_bytes ls"
  by (cases ls) (auto simp: joined_bytes_def)

lemma joined_bytes_snoc:
  "joined_bytes (ls @ [l]) = joined_bytes ls + (if ls = [] then 0 else 1) + length l"
  by (cases ls) (auto simp: joined_bytes_def)

lemma joined_bytes_tail: "ring_tail r = Some s \<Longrightarrow> length s = joined_bytes (sr_lines r)"
  by (auto simp: ring_tail_def joined_bytes_def length_join_with split: if_splits)

lemma evict_lines_spec:
  assumes "evict_lines capacity cost ls (joined_bytes ls) = (ls', bytes)"
  shows "bytes = joined_bytes ls' \<and> (\<exists>dropped. ls = dropped @ ls') \<and>
         (ls' = [] \<or> sat_add_us bytes cost \<le> capacity)"
  using assms
proof (induction ls)
  case Nil
  then show ?case by (simp add: joined_bytes_def)
next
  case (Cons l ls)
  show ?case
  proof (cases "capacity < sat_add_us (joined_bytes (l # ls)) cost")
    case True
    have "joined_bytes (l # ls) - length l - (if ls = [] then 0 else 1) = joined_bytes ls"
      by (simp add: joined_bytes_Cons)
    with True Cons.prems have "evict_lines capacity cost ls (joined_bytes ls) = (ls', bytes)" by simp
    from Cons.IH [OF this] show ?thesis by (metis append_Cons)
  next
    case False
    with Cons.prems show ?thesis by auto
  qed
qed

lemma length_ring_line: "length (ring_line capacity line) \<le> capacity"
proof -
  have "length (utf8_suffix s capacity) \<le> capacity" for s
    using length_dropWhile_le [of is_continuation "drop (length s - capacity) s"]
    by (auto simp: utf8_suffix_def)
  then show ?thesis by (simp add: ring_line_def Let_def)
qed

lemma push_line_ok:
  assumes ok: "ring_ok capacity r" and pos: "0 < capacity" and small: "capacity < usize_max"
  shows "ring_ok capacity (push_line line r) \<and>
         (\<exists>ls. sr_lines (push_line line r) = ls @ [ring_line capacity line])"
proof -
  let ?l = "ring_line capacity line"
  let ?cost = "length ?l + (if sr_lines r = [] then 0 else 1)"
  obtain ls bytes where e: "evict_lines capacity ?cost (sr_lines r) (sr_bytes r) = (ls, bytes)"
    by (cases "evict_lines capacity ?cost (sr_lines r) (sr_bytes r)")
  have b: "bytes = joined_bytes ls" "ls = [] \<or> sat_add_us bytes ?cost \<le> capacity"
    "\<exists>dropped. sr_lines r = dropped @ ls"
    using evict_lines_spec [of capacity ?cost "sr_lines r" ls bytes] e ok by (auto simp: ring_ok_def)
  have p: "push_line line r =
      r\<lparr>sr_lines := ls @ [?l], sr_bytes := bytes + (if ls = [] then 0 else 1) + length ?l\<rparr>"
    using ok pos e by (simp add: push_line_def ring_ok_def Let_def)
  have "joined_bytes (ls @ [?l]) \<le> capacity"
  proof (cases "ls = []")
    case True
    then show ?thesis using length_ring_line by (simp add: joined_bytes_def)
  next
    case False
    then have "sr_lines r \<noteq> []" using b(3) by auto
    with False b(1,2) small show ?thesis
      by (auto simp: joined_bytes_snoc sat_add_us_le_iff)
  qed
  then show ?thesis using ok b(1) by (simp add: p ring_ok_def joined_bytes_snoc)
qed

text \<open>Every capacity that is not zero and below the largest \<open>usize\<close>, numbered.\<close>

abbreviation (input) ring_capacity :: "nat \<Rightarrow> nat" where
  "ring_capacity n \<equiv> min (Suc n) (usize_max - 1)"

interpretation ring: bounded_buffer "new_ring (ring_capacity n)" push_line sr_lines joined_bytes
  "ring_capacity n" "ring_ok (ring_capacity n)" "ring_line (ring_capacity n)" for n
proof unfold_locales
  have c: "0 < ring_capacity n" "ring_capacity n < usize_max" by (auto simp: usize_max_def)
  show "ring_ok (ring_capacity n) (new_ring (ring_capacity n))"
    by (simp add: ring_ok_def new_ring_def joined_bytes_def)
  fix b x assume ok: "ring_ok (ring_capacity n) b"
  show "ring_ok (ring_capacity n) (push_line x b)" using push_line_ok [OF ok c] by blast
  show "joined_bytes (sr_lines b) \<le> ring_capacity n" using ok by (simp add: ring_ok_def)
  show "sr_lines (push_line x b) \<noteq> [] \<and> last (sr_lines (push_line x b)) = ring_line (ring_capacity n) x"
    using push_line_ok [OF ok c, of x] by force
qed

lemma ring_capacity_exact: "0 < capacity \<Longrightarrow> capacity < usize_max \<Longrightarrow> ring_capacity (capacity - 1) = capacity"
  by simp

section \<open>Properties\<close>

text \<open>the stderr tail kept for error reports is within its capacity, its byte count is exact, and it
  ends with the last line that was read, redacted and cut to fit.\<close>

theorem stderr_tail_bounded:
  assumes "0 < capacity" "capacity < usize_max" "lines \<noteq> []"
  shows "\<exists>s. ring_tail (fold push_line lines (new_ring capacity)) = Some s \<and> length s \<le> capacity \<and>
           length s = sr_bytes (fold push_line lines (new_ring capacity)) \<and>
           last (sr_lines (fold push_line lines (new_ring capacity))) = ring_line capacity (last lines)"
proof -
  note c = ring_capacity_exact [OF assms(1,2)]
  let ?r = "fold push_line lines (new_ring capacity)"
  have ok: "ring_ok capacity ?r" using ring.invar_run [of "capacity - 1" lines] unfolding c .
  have l: "sr_lines ?r \<noteq> []" "last (sr_lines ?r) = ring_line capacity (last lines)"
    using ring.run_keeps_last [OF assms(3), of "capacity - 1"] unfolding c by simp_all
  obtain s where s: "ring_tail ?r = Some s" using l by (simp add: ring_tail_def)
  then show ?thesis using joined_bytes_tail [OF s] ok l by (simp add: ring_ok_def)
qed

lemma stderr_tail_bounded_witness:
  "\<exists>s. ring_tail (fold push_line [''password=abc''] (new_ring 40)) = Some s \<and> length s \<le> 40"
  using stderr_tail_bounded [of 40 "[''password=abc'']"] by (auto simp: usize_max_def)

end
