(* ===== verification/Transport.thy ===== *)
theory Transport
  imports Codec Wire Redact "HOL-Library.Sublist"
begin

text \<open>
  \<open>src/src/private/process.rs\<close>: sending frames to the app-server, ending it, and the reader, writer
  and stderr tasks. The child process, its pipes and the clock are inputs: each \<open>timeout(...)\<close> has an
  outcome that says what happened first, a deadline is what remains of it (\<open>None\<close> when there is no
  deadline). Starting the child (\<open>spawn\<close>) is not modelled.
\<close>

section \<open>The owned process\<close>

text \<open>\<open>tr_frames\<close> are the frames given to the writer task, in order; \<open>tr_child\<close> tells whether the
  child is still owned, \<open>tr_helper\<close> whether the guardian file and its directory are still there.\<close>

record transport =
  tr_shutdown_started :: bool
  tr_cleanup_finished :: bool
  tr_child :: bool
  tr_helper :: bool
  tr_frames :: "json list"
  tr_send_timeout :: duration
  tr_max_frame_bytes :: nat

definition new_transport :: "duration \<Rightarrow> nat \<Rightarrow> transport" where
  "new_transport send_timeout max_frame_bytes =
     \<lparr>tr_shutdown_started = False, tr_cleanup_finished = False, tr_child = True, tr_helper = True,
      tr_frames = [], tr_send_timeout = send_timeout, tr_max_frame_bytes = max_frame_bytes\<rparr>"

definition remaining_send_timeout :: "duration option \<Rightarrow> transport \<Rightarrow> duration option" where
  "remaining_send_timeout remaining t =
     (case remaining of
        None \<Rightarrow> Some (tr_send_timeout t)
      | Some r \<Rightarrow> if r = 0 then None else Some (min r (tr_send_timeout t)))"

section \<open>Killing it\<close>

text \<open>\<open>child.wait()\<close> under a timeout: it exited (with success or with the status text), waiting failed,
  or the time is over.\<close>

datatype child_wait = Exited "string option" | WaitFailed string | WaitTimedOut

text \<open>The helper clean-up removes the file, then the directory; each may fail.\<close>

record kill_inputs =
  ki_terminate :: "string option"
  ki_wait :: child_wait
  ki_remove_guardian :: "string option"
  ki_remove_directory :: "string option"

definition kill_error :: "string \<Rightarrow> error" where
  "kill_error msg = new_error Process ''process.kill'' msg"

definition force_kill :: "kill_inputs \<Rightarrow> transport \<Rightarrow> unit result \<times> transport" where
  "force_kill k t0 =
     (let t = t0\<lparr>tr_shutdown_started := True\<rparr> in
      if \<not> tr_child t
      then (Inl (kill_error ''owned guardian child is no longer available''), t)
      else case ki_terminate k of
        Some text \<Rightarrow> (Inl (kill_error (''failed to terminate owned guardian: '' @ text)), t)
      | None \<Rightarrow>
          (case ki_wait k of
             WaitFailed text \<Rightarrow> (Inl (kill_error (''failed to reap terminated app-server: '' @ text)), t)
           | WaitTimedOut \<Rightarrow> (Inl (kill_error ''timed out reaping terminated app-server''), t)
           | Exited _ \<Rightarrow>
               (let t1 = t\<lparr>tr_child := False\<rparr> in
                case ki_remove_guardian k of
                  Some text \<Rightarrow> (Inl (kill_error (''failed to remove guardian helper: '' @ text)), t1)
                | None \<Rightarrow>
                    (case ki_remove_directory k of
                       Some text \<Rightarrow>
                         (Inl (kill_error (''failed to remove guardian directory: '' @ text)), t1)
                     | None \<Rightarrow> (Inr (), t1\<lparr>tr_helper := False\<rparr>)))))"

definition begin_force_shutdown :: "transport \<Rightarrow> transport" where
  "begin_force_shutdown t = t\<lparr>tr_shutdown_started := True\<rparr>"

section \<open>Sending a frame\<close>

datatype reservation = Reserved | WriterGone | QueueTimeout
datatype write_ack = Acknowledged "unit result" | WriterEnded | NoAcknowledgement

record send_inputs =
  si_remaining :: "duration option"
  si_reservation :: reservation
  si_shutdown_meanwhile :: bool
  si_remaining_after :: "duration option"
  si_ack :: write_ack
  si_kill :: kill_inputs

definition outcome_unknown_after_dispatch :: "kill_inputs \<Rightarrow> string \<Rightarrow> transport \<Rightarrow> error \<times> transport" where
  "outcome_unknown_after_dispatch k reason t =
     (case force_kill k t of
        (Inr _, t1) \<Rightarrow>
          (new_error OutcomeUnknown ''process.send'' (reason @ ''; runtime termination was initiated''), t1)
      | (Inl e, t1) \<Rightarrow>
          (new_error OutcomeUnknown ''process.send''
             (reason @ ''; runtime termination failed: '' @ error_to_string e), t1))"

text \<open>The wait for the writer after the frame is in its queue.\<close>

definition await_ack :: "send_inputs \<Rightarrow> transport \<Rightarrow> unit result \<times> transport" where
  "await_ack i t =
     (case remaining_send_timeout (si_remaining_after i) t of
        None \<Rightarrow> (Inl (timeout_error ''process.send'' (tr_send_timeout t)), t)
      | Some send_timeout \<Rightarrow>
          (case si_ack i of
             Acknowledged (Inr _) \<Rightarrow> (Inr (), t)
           | Acknowledged (Inl e) \<Rightarrow>
               apfst Inl (outcome_unknown_after_dispatch (si_kill i)
                 (''app-server stdin write failed: '' @ error_to_string e) t)
           | WriterEnded \<Rightarrow>
               apfst Inl (outcome_unknown_after_dispatch (si_kill i)
                 ''app-server writer ended before acknowledging the dispatched frame'' t)
           | NoAcknowledgement \<Rightarrow>
               apfst Inl (outcome_unknown_after_dispatch (si_kill i)
                 (''no write acknowledgement arrived within '' @ show_nat (as_millis send_timeout)
                    @ '' ms'') t)))"

text \<open>\<open>send_tracked\<close>: the result, the dispatch mark, and the process afterwards.\<close>

definition send_tracked ::
  "(json \<Rightarrow> string + string) \<Rightarrow> send_inputs \<Rightarrow> json \<Rightarrow> transport \<Rightarrow> unit result \<times> bool \<times> transport" where
  "send_tracked print_json i v t =
     (if tr_shutdown_started t
      then (Inl (new_error Shutdown ''process.send'' ''app-server shutdown has started''), False, t)
      else case encode print_json v (tr_max_frame_bytes t) of
        Inl e \<Rightarrow> (Inl e, False, t)
      | Inr frame \<Rightarrow>
          (case remaining_send_timeout (si_remaining i) t of
             None \<Rightarrow> (Inl (timeout_error ''process.send'' (tr_send_timeout t)), False, t)
           | Some send_timeout \<Rightarrow>
               (case si_reservation i of
                  WriterGone \<Rightarrow>
                    (Inl (new_error Disconnected ''process.send''
                            ''app-server writer task is not available''), False, t)
                | QueueTimeout \<Rightarrow> (Inl (timeout_error ''process.send.queue'' send_timeout), False, t)
                | Reserved \<Rightarrow>
                    if si_shutdown_meanwhile i
                    then (Inl (new_error Shutdown ''process.send''
                                 ''app-server shutdown started before dispatch''),
                          False, t\<lparr>tr_shutdown_started := True\<rparr>)
                    else (case await_ack i (t\<lparr>tr_frames := tr_frames t @ [v]\<rparr>) of
                            (r, t1) \<Rightarrow> (r, True, t1)))))"

definition send_frame ::
  "(json \<Rightarrow> string + string) \<Rightarrow> send_inputs \<Rightarrow> json \<Rightarrow> transport \<Rightarrow> unit result \<times> transport" where
  "send_frame print_json i v t = (case send_tracked print_json i v t of (r, _, t1) \<Rightarrow> (r, t1))"

section \<open>Shutting down\<close>

datatype close_outcome =
    CloseAcked "unit result" | CloseAckLost | CloseAckTimeout | CloseUnavailable | CloseQueueTimeout

text \<open>How a task ended: by itself, by a panic, or by the abort after the timeout.\<close>

datatype task_join = TaskDone | TaskFailed string | TaskTimedOut

record shutdown_inputs =
  sd_operation_expired :: bool
  sd_close :: close_outcome
  sd_kill :: kill_inputs
  sd_wait :: child_wait
  sd_terminate :: "string option"
  sd_second_wait :: child_wait
  sd_tasks :: "task_join list"
  sd_remove_guardian :: "string option"
  sd_remove_directory :: "string option"
  sd_stderr_tail :: "string option"

definition close_failures :: "close_outcome \<Rightarrow> string list" where
  "close_failures c =
     (case c of
        CloseAcked (Inr _) \<Rightarrow> []
      | CloseAcked (Inl e) \<Rightarrow> [error_to_string e]
      | CloseAckLost \<Rightarrow> [''writer closed before stdin shutdown acknowledgement'']
      | CloseAckTimeout \<Rightarrow> [''timed out while closing app-server stdin'']
      | CloseUnavailable \<Rightarrow> [''writer task was unavailable during shutdown'']
      | CloseQueueTimeout \<Rightarrow> [''timed out queueing app-server stdin close''])"

text \<open>The wait for the child without and with a signal; the second component tells whether it was
  reaped.\<close>

definition reap_child :: "shutdown_inputs \<Rightarrow> string list \<times> bool" where
  "reap_child d =
     (case sd_wait d of
        Exited None \<Rightarrow> ([], True)
      | Exited (Some status) \<Rightarrow>
          ([''app-server exited unsuccessfully during shutdown: '' @ status], True)
      | WaitFailed text \<Rightarrow> ([''failed waiting for app-server: '' @ text], False)
      | WaitTimedOut \<Rightarrow>
          (let f1 = [''guardian did not exit after stdin was closed; TERM was sent'']
                 @ (case sd_terminate d of
                      None \<Rightarrow> [] | Some text \<Rightarrow> [''failed to terminate owned guardian: '' @ text])
           in case sd_second_wait d of
                Exited _ \<Rightarrow> (f1, True)
              | WaitFailed text \<Rightarrow> (f1 @ [''failed to reap killed app-server: '' @ text], False)
              | WaitTimedOut \<Rightarrow> (f1 @ [''timed out reaping killed app-server''], False)))"

definition task_failures :: "task_join list \<Rightarrow> string list" where
  "task_failures js =
     concat (map (\<lambda>j. case j of
        TaskDone \<Rightarrow> []
      | TaskFailed text \<Rightarrow> [''process task failed: '' @ text]
      | TaskTimedOut \<Rightarrow> [''timed out joining process task; task was aborted'']) js)"

definition end_child :: "shutdown_inputs \<Rightarrow> transport \<Rightarrow> string list \<times> transport" where
  "end_child d t =
     (if sd_operation_expired d
      then (case force_kill (sd_kill d) t of
              (Inr _, t1) \<Rightarrow> ([], t1)
            | (Inl e, t1) \<Rightarrow> ([''failed to force and reap expired app-server: '' @ error_to_string e], t1))
      else if tr_child t
      then (case reap_child d of (fs, reaped) \<Rightarrow> (fs, if reaped then t\<lparr>tr_child := False\<rparr> else t))
      else ([], t))"

definition remove_helper :: "shutdown_inputs \<Rightarrow> transport \<Rightarrow> string list \<times> transport" where
  "remove_helper d t =
     ((case sd_remove_guardian d of
         None \<Rightarrow> [] | Some text \<Rightarrow> [''failed to remove guardian helper: '' @ text]) @
      (case sd_remove_directory d of
         None \<Rightarrow> [] | Some text \<Rightarrow> [''failed to remove guardian directory: '' @ text]),
      if sd_remove_guardian d = None \<and> sd_remove_directory d = None
      then t\<lparr>tr_helper := False\<rparr> else t)"

definition shutdown_process :: "shutdown_inputs \<Rightarrow> transport \<Rightarrow> unit result \<times> transport" where
  "shutdown_process d t0 =
     (if tr_cleanup_finished t0 then (Inr (), t0)
      else
        (let t = t0\<lparr>tr_shutdown_started := True\<rparr>
         in case end_child d t of (f2, t1) \<Rightarrow>
            case remove_helper d t1 of (f4, t2) \<Rightarrow>
              (let failures = close_failures (sd_close d) @ f2 @ task_failures (sd_tasks d) @ f4;
                   t3 = t2\<lparr>tr_cleanup_finished := True\<rparr>
               in (if failures = [] then Inr ()
                   else Inl (with_stderr
                          (new_error Shutdown ''process.shutdown'' (join_with ''; '' failures))
                          (sd_stderr_tail d)), t3))))"

section \<open>The writer and reader tasks\<close>

datatype process_event = Message incoming | Closed error

datatype outbound = OutFrame encoded_frame | OutClose

text \<open>The writer over a sink: the acknowledgements it gives, the events it sends and whether it killed
  the child. A failing write ends the task.\<close>

record writer_report =
  wr_acks :: "unit result list"
  wr_events :: "process_event list"
  wr_killed :: bool

fun writer_loop ::
  "(string \<Rightarrow> 's \<Rightarrow> string option \<times> 's) \<Rightarrow> ('s \<Rightarrow> string option \<times> 's) \<Rightarrow> ('s \<Rightarrow> string option \<times> 's)
     \<Rightarrow> outbound list \<Rightarrow> 's \<Rightarrow> writer_report \<times> 's" where
  "writer_loop write_all flush shut [] sink = (\<lparr>wr_acks = [], wr_events = [], wr_killed = False\<rparr>, sink)"
| "writer_loop write_all flush shut (OutFrame frame # cs) sink =
     (case write_frame write_all flush frame sink of
        (Inl e, sink1) \<Rightarrow>
          (\<lparr>wr_acks = [Inl e],
            wr_events = [Closed (new_error Disconnected ''process.stdin''
                           (''app-server stdin writer failed: '' @ error_to_string e))],
            wr_killed = True\<rparr>, sink1)
      | (Inr _, sink1) \<Rightarrow>
          (case writer_loop write_all flush shut cs sink1 of
             (rep, sink2) \<Rightarrow> (rep\<lparr>wr_acks := Inr () # wr_acks rep\<rparr>, sink2)))"
| "writer_loop write_all flush shut (OutClose # cs) sink =
     (case close_writer shut sink of
        (r, sink1) \<Rightarrow> (\<lparr>wr_acks = [r], wr_events = [], wr_killed = False\<rparr>, sink1))"

text \<open>The reader: events until the stream ends, fails or sends something that is no message. The
  receiver stays open. A frame takes at least one byte of what is left, which bounds the loop.\<close>

fun reader_loop ::
  "(string \<Rightarrow> string + json) \<Rightarrow> nat \<Rightarrow> reader \<Rightarrow> process_event list" where
  "reader_loop parse_json 0 r = []"
| "reader_loop parse_json (Suc fuel) r =
     (case next_frame parse_json r of
        (Inl e, r1) \<Rightarrow> [Closed e]
      | (Inr None, r1) \<Rightarrow>
          [Closed (new_error Disconnected ''process.stdout'' ''app-server stdout reached EOF'')]
      | (Inr (Some v), r1) \<Rightarrow>
          (case parse v of
             Inl e \<Rightarrow> [Closed e]
           | Inr message \<Rightarrow> Message message # reader_loop parse_json fuel r1))"

definition reader_task :: "(string \<Rightarrow> string + json) \<Rightarrow> source \<Rightarrow> nat \<Rightarrow> process_event list" where
  "reader_task parse_json src max_frame_bytes =
     reader_loop parse_json (Suc (length (concat (src_chunks src)))) (new_reader src max_frame_bytes)"

section \<open>Capturing stderr\<close>

definition MAX_STDERR_LINE_BYTES :: nat where
  "MAX_STDERR_LINE_BYTES = 65536"

definition OVERSIZED_STDERR_LINE :: string where
  "OVERSIZED_STDERR_LINE = ''<oversized stderr line omitted>''"

text \<open>\<open>String::from_utf8_lossy\<close>: an ill-formed sequence, as far as it could have been the start of a
  well-formed one, becomes U+FFFD. \<open>bad_len\<close> is the length of that part.\<close>

definition bad_len :: "string \<Rightarrow> nat" where
  "bad_len s =
     (if byte_in 224 224 s 0 \<and> byte_in 160 191 s 1
         \<or> (byte_in 225 236 s 0 \<or> byte_in 238 239 s 0) \<and> byte_in 128 191 s 1
         \<or> byte_in 237 237 s 0 \<and> byte_in 128 159 s 1 then 2
      else if byte_in 240 240 s 0 \<and> byte_in 144 191 s 1
              \<or> byte_in 241 243 s 0 \<and> byte_in 128 191 s 1
              \<or> byte_in 244 244 s 0 \<and> byte_in 128 143 s 1
      then (if byte_in 128 191 s 2 then 3 else 2)
      else 1)"

function from_utf8_lossy :: "string \<Rightarrow> string" where
  "from_utf8_lossy s =
     (if s = [] then []
      else if utf8_len s \<noteq> 0 then take (utf8_len s) s @ from_utf8_lossy (drop (utf8_len s) s)
      else [CHR 0xEF, CHR 0xBF, CHR 0xBD] @ from_utf8_lossy (drop (bad_len s) s))"
  by pat_completeness auto
termination
  by (relation "measure length") (auto simp: bad_len_def)

declare from_utf8_lossy.simps [simp del]

record stderr_capture =
  sc_ring :: stderr_ring
  sc_done :: bool

definition new_capture :: "nat \<Rightarrow> stderr_capture" where
  "new_capture capacity = \<lparr>sc_ring = new_ring capacity, sc_done = False\<rparr>"

definition capture_push :: "string \<Rightarrow> stderr_capture \<Rightarrow> stderr_capture" where
  "capture_push line c = c\<lparr>sc_ring := push_line line (sc_ring c)\<rparr>"

definition captured_line :: "string \<Rightarrow> string" where
  "captured_line line =
     (if MAX_STDERR_LINE_BYTES < length line then OVERSIZED_STDERR_LINE
      else from_utf8_lossy (strip_cr line))"

text \<open>The inner loop: the complete lines of the pending bytes, and what is left of them.\<close>

function take_lines :: "string \<Rightarrow> stderr_capture \<Rightarrow> string \<times> stderr_capture" where
  "take_lines pend c =
     (case position (\<lambda>b. b = CHR 0x0A) pend of
        None \<Rightarrow> (pend, c)
      | Some p \<Rightarrow> take_lines (drop (p + 1) pend) (capture_push (captured_line (take p pend)) c))"
  by pat_completeness auto
termination
  by (relation "measure (\<lambda>(pend, _). length pend)") (auto dest: position_Some)

declare take_lines.simps [simp del]

definition keep_or_discard :: "string \<times> stderr_capture \<Rightarrow> string \<times> bool \<times> stderr_capture" where
  "keep_or_discard pc =
     (case pc of (pend, c) \<Rightarrow>
        if MAX_STDERR_LINE_BYTES < length pend
        then ([], True, capture_push OVERSIZED_STDERR_LINE c) else (pend, False, c))"

text \<open>One read: the pending bytes, whether the rest of an oversized line is being skipped, the capture.\<close>

definition capture_chunk ::
  "string \<Rightarrow> string \<Rightarrow> bool \<Rightarrow> stderr_capture \<Rightarrow> string \<times> bool \<times> stderr_capture" where
  "capture_chunk bytes pend0 discarding c =
     (let pend = pend0 @ bytes in
      if discarding
      then (case position (\<lambda>b. b = CHR 0x0A) pend of
              None \<Rightarrow> ([], True, c)
            | Some p \<Rightarrow> keep_or_discard (take_lines (drop (p + 1) pend) c))
      else keep_or_discard (take_lines pend c))"

function capture_loop ::
  "source \<Rightarrow> string \<Rightarrow> bool \<Rightarrow> stderr_capture \<Rightarrow> stderr_capture" where
  "capture_loop src pend discarding c =
     (case read_chunks 4096 (src_chunks src) of
        None \<Rightarrow>
          (if \<not> discarding \<and> pend \<noteq> [] then capture_push (from_utf8_lossy pend) c else c)\<lparr>sc_done := True\<rparr>
      | Some (bytes, rest) \<Rightarrow>
          (case capture_chunk bytes pend discarding c of
             (pend1, discarding1, c1) \<Rightarrow> capture_loop (src\<lparr>src_chunks := rest\<rparr>) pend1 discarding1 c1))"
  by pat_completeness auto
termination
  by (relation "measure (\<lambda>(src, _). length (concat (src_chunks src)))")
     (auto dest!: read_chunks_Some simp del: length_concat)

declare capture_loop.simps [simp del]

definition capture_stderr :: "source \<Rightarrow> stderr_capture \<Rightarrow> stderr_capture" where
  "capture_stderr src c = capture_loop src [] False c"

section \<open>What the captured lines are\<close>

text \<open>The lines of the whole stream.\<close>

function stderr_lines :: "string \<Rightarrow> string list" where
  "stderr_lines bytes =
     (case position (\<lambda>b. b = CHR 0x0A) bytes of
        Some p \<Rightarrow> captured_line (take p bytes) # stderr_lines (drop (p + 1) bytes)
      | None \<Rightarrow>
          if bytes = [] then []
          else if MAX_STDERR_LINE_BYTES < length bytes then [OVERSIZED_STDERR_LINE]
          else [from_utf8_lossy bytes])"
  by pat_completeness auto
termination
  by (relation "measure length") (auto dest: position_Some)

declare stderr_lines.simps [simp del]

definition lines_after_skip :: "string \<Rightarrow> string list" where
  "lines_after_skip bytes =
     (case position (\<lambda>b. b = CHR 0x0A) bytes of
        None \<Rightarrow> [] | Some p \<Rightarrow> stderr_lines (drop (p + 1) bytes))"

text \<open>What is still to be pushed when \<open>rest\<close> is still to be read.\<close>

definition lines_to_come :: "string \<Rightarrow> bool \<Rightarrow> string \<Rightarrow> string list" where
  "lines_to_come pend discarding rest =
     (if discarding then lines_after_skip rest else stderr_lines (pend @ rest))"

lemma stderr_lines_newline:
  "position (\<lambda>b. b = CHR 0x0A) bytes = Some p \<Longrightarrow>
   stderr_lines (bytes @ rest) =
     captured_line (take p bytes) # stderr_lines (drop (p + 1) bytes @ rest)"
  using position_append_Some [of "\<lambda>b. b = CHR 0x0A" bytes p rest]
    position_less [of "\<lambda>b. b = CHR 0x0A" bytes p]
  by (subst stderr_lines.simps) simp

lemma take_lines_spec:
  assumes "take_lines pend c = (pend1, c1)"
  shows "position (\<lambda>b. b = CHR 0x0A) pend1 = None \<and>
         (\<exists>ls. sc_ring c1 = fold push_line ls (sc_ring c) \<and> sc_done c1 = sc_done c \<and>
               (\<forall>rest. stderr_lines (pend @ rest) = ls @ stderr_lines (pend1 @ rest)))"
  using assms
proof (induction pend c rule: take_lines.induct)
  case (1 pend c)
  show ?case
  proof (cases "position (\<lambda>b. b = CHR 0x0A) pend")
    case None
    then show ?thesis using 1(2) by (subst (asm) take_lines.simps) (auto intro: exI [of _ "[]"])
  next
    case (Some p)
    then have run: "take_lines (drop (p + 1) pend) (capture_push (captured_line (take p pend)) c) = (pend1, c1)"
      using 1(2) by (subst (asm) take_lines.simps) simp
    from 1(1) [OF Some run] obtain ls where
      "position (\<lambda>b. b = CHR 0x0A) pend1 = None"
      "sc_ring c1 = fold push_line ls (push_line (captured_line (take p pend)) (sc_ring c))"
      "sc_done c1 = sc_done c"
      "\<And>rest. stderr_lines (drop (p + 1) pend @ rest) = ls @ stderr_lines (pend1 @ rest)"
      by (auto simp: capture_push_def)
    then show ?thesis using stderr_lines_newline [OF Some]
      by (intro conjI exI [of _ "captured_line (take p pend) # ls"]) auto
  qed
qed

lemma oversized_lines:
  assumes "position (\<lambda>b. b = CHR 0x0A) pend = None" "MAX_STDERR_LINE_BYTES < length pend"
  shows "stderr_lines (pend @ rest) = OVERSIZED_STDERR_LINE # lines_after_skip rest"
proof (cases "position (\<lambda>b. b = CHR 0x0A) rest")
  case None
  then show ?thesis
    using assms by (subst stderr_lines.simps) (auto simp: position_append_None lines_after_skip_def)
next
  case (Some p)
  then show ?thesis
    using assms
    by (subst stderr_lines.simps)
       (auto simp: position_append_None lines_after_skip_def captured_line_def)
qed

definition capture_ok :: "string \<Rightarrow> bool \<Rightarrow> bool" where
  "capture_ok pend discarding \<longleftrightarrow>
     position (\<lambda>b. b = CHR 0x0A) pend = None \<and> length pend \<le> MAX_STDERR_LINE_BYTES \<and>
     (discarding \<longrightarrow> pend = [])"

lemma keep_or_discard_spec:
  assumes run: "keep_or_discard (take_lines pend c) = (pend1, discarding1, c1)"
  shows "capture_ok pend1 discarding1 \<and>
         (\<exists>ls. sc_ring c1 = fold push_line ls (sc_ring c) \<and> sc_done c1 = sc_done c \<and>
               (\<forall>rest. stderr_lines (pend @ rest) = ls @ lines_to_come pend1 discarding1 rest))"
proof -
  obtain pend2 c2 where t: "take_lines pend c = (pend2, c2)" by (cases "take_lines pend c")
  from take_lines_spec [OF t] obtain ls where n: "position (\<lambda>b. b = CHR 0x0A) pend2 = None"
    and r: "sc_ring c2 = fold push_line ls (sc_ring c)" "sc_done c2 = sc_done c"
    and l: "\<And>rest. stderr_lines (pend @ rest) = ls @ stderr_lines (pend2 @ rest)" by blast
  show ?thesis
  proof (cases "MAX_STDERR_LINE_BYTES < length pend2")
    case True
    then have e: "pend1 = []" "discarding1" "c1 = capture_push OVERSIZED_STDERR_LINE c2"
      using run t by (auto simp: keep_or_discard_def)
    then show ?thesis using n r l oversized_lines [OF n True]
      by (intro conjI exI [of _ "ls @ [OVERSIZED_STDERR_LINE]"])
         (auto simp: capture_ok_def lines_to_come_def capture_push_def)
  next
    case False
    then have e: "pend1 = pend2" "\<not> discarding1" "c1 = c2"
      using run t by (auto simp: keep_or_discard_def)
    then show ?thesis using n r l False
      by (intro conjI exI [of _ ls]) (auto simp: capture_ok_def lines_to_come_def)
  qed
qed

lemma capture_chunk_spec:
  assumes ok: "capture_ok pend discarding"
    and run: "capture_chunk bytes pend discarding c = (pend1, discarding1, c1)"
  shows "capture_ok pend1 discarding1 \<and>
         (\<exists>ls. sc_ring c1 = fold push_line ls (sc_ring c) \<and> sc_done c1 = sc_done c \<and>
               (\<forall>rest. lines_to_come pend discarding (bytes @ rest) =
                         ls @ lines_to_come pend1 discarding1 rest))"
proof (cases discarding)
  case False
  then show ?thesis
    using keep_or_discard_spec [of "pend @ bytes" c pend1 discarding1 c1] run
    by (auto simp: capture_chunk_def lines_to_come_def)
next
  case True
  then have pend: "pend = []" using ok by (simp add: capture_ok_def)
  show ?thesis
  proof (cases "position (\<lambda>b. b = CHR 0x0A) bytes")
    case None
    have "\<forall>rest. lines_after_skip (bytes @ rest) = lines_after_skip rest"
      using None by (auto simp: lines_after_skip_def position_append_None split: option.splits)
    then show ?thesis using run True pend None
      by (auto simp: capture_chunk_def lines_to_come_def capture_ok_def intro: exI [of _ "[]"])
  next
    case (Some p)
    have "\<forall>rest. lines_after_skip (bytes @ rest) = stderr_lines (drop (p + 1) bytes @ rest)"
      using Some position_less [OF Some] by (auto simp: lines_after_skip_def position_append_Some)
    then show ?thesis
      using keep_or_discard_spec [of "drop (p + 1) bytes" c pend1 discarding1 c1] run True pend Some
      by (auto simp: capture_chunk_def lines_to_come_def)
  qed
qed

lemma capture_loop_spec:
  "capture_ok pend discarding \<Longrightarrow>
   sc_ring (capture_loop src pend discarding c) =
     fold push_line (lines_to_come pend discarding (concat (src_chunks src))) (sc_ring c) \<and>
   sc_done (capture_loop src pend discarding c)"
proof (induction src pend discarding c rule: capture_loop.induct)
  case (1 src pend discarding c)
  show ?case
  proof (cases "read_chunks 4096 (src_chunks src)")
    case None
    have "lines_to_come pend discarding [] =
        (if \<not> discarding \<and> pend \<noteq> [] then [from_utf8_lossy pend] else [])"
      using 1(2) by (auto simp: lines_to_come_def lines_after_skip_def capture_ok_def stderr_lines.simps)
    moreover have "concat (src_chunks src) = []" by (rule read_chunks_None [OF None])
    ultimately show ?thesis using None
      by (subst (1 2) capture_loop.simps) (simp add: capture_push_def del: concat_eq_Nil_conv)
  next
    case (Some br)
    obtain bytes rest where br: "br = (bytes, rest)" by (cases br)
    note c = read_chunks_Some [OF Some [unfolded br]]
    obtain pend1 discarding1 c1 where run: "capture_chunk bytes pend discarding c = (pend1, discarding1, c1)"
      by (cases "capture_chunk bytes pend discarding c") auto
    note spec = capture_chunk_spec [OF 1(2) run]
    have ih: "sc_ring (capture_loop (src\<lparr>src_chunks := rest\<rparr>) pend1 discarding1 c1) =
        fold push_line (lines_to_come pend1 discarding1 (concat rest)) (sc_ring c1) \<and>
        sc_done (capture_loop (src\<lparr>src_chunks := rest\<rparr>) pend1 discarding1 c1)"
      using 1(1) [OF Some br [symmetric] run [symmetric] refl] spec by simp
    have "capture_loop src pend discarding c =
        capture_loop (src\<lparr>src_chunks := rest\<rparr>) pend1 discarding1 c1"
      using Some br run by (subst capture_loop.simps) simp
    then show ?thesis using ih spec c by auto
  qed
qed

section \<open>What sending, killing and reading keep\<close>

lemma force_kill_frames:
  "tr_frames (snd (force_kill k t)) = tr_frames t"
  "tr_shutdown_started (snd (force_kill k t))"
  "tr_cleanup_finished (snd (force_kill k t)) = tr_cleanup_finished t"
  by (auto simp: force_kill_def Let_def split: option.splits child_wait.splits)

lemma force_kill_Inr:
  "fst (force_kill k t) = Inr () \<Longrightarrow> \<not> tr_child (snd (force_kill k t)) \<and> \<not> tr_helper (snd (force_kill k t))"
  by (auto simp: force_kill_def Let_def split: option.splits child_wait.splits if_splits)

lemma outcome_unknown_spec:
  "e_kind (fst (outcome_unknown_after_dispatch k reason t)) = OutcomeUnknown"
  "tr_frames (snd (outcome_unknown_after_dispatch k reason t)) = tr_frames t"
  "tr_shutdown_started (snd (outcome_unknown_after_dispatch k reason t))"
  "tr_cleanup_finished (snd (outcome_unknown_after_dispatch k reason t)) = tr_cleanup_finished t"
  using force_kill_frames [of k t]
  by (auto simp: outcome_unknown_after_dispatch_def split: prod.splits sum.splits)

lemma await_ack_spec:
  "tr_frames (snd (await_ack i t)) = tr_frames t"
  "tr_cleanup_finished (snd (await_ack i t)) = tr_cleanup_finished t"
  "tr_shutdown_started t \<Longrightarrow> tr_shutdown_started (snd (await_ack i t))"
  by (auto simp: await_ack_def apfst_def map_prod_def outcome_unknown_spec
      split: option.splits write_ack.splits sum.splits prod.splits)
     (metis outcome_unknown_spec snd_conv)+

lemma await_ack_result:
  "fst (await_ack i t) = Inr () \<or>
   (\<exists>e. fst (await_ack i t) = Inl e \<and>
     (e_kind e = OutcomeUnknown \<and> tr_shutdown_started (snd (await_ack i t)) \<or>
      e = timeout_error ''process.send'' (tr_send_timeout t) \<and> si_remaining_after i = Some 0))"
  by (auto simp: await_ack_def apfst_def map_prod_def remaining_send_timeout_def
      split: option.splits write_ack.splits sum.splits prod.splits if_splits)
     (metis outcome_unknown_spec fst_conv snd_conv)+

lemma encode_kind: "encode print_json v n = Inl e \<Longrightarrow> e_kind e = Protocol"
  by (auto simp: encode_def frame_too_large_def split: sum.splits if_splits)

lemma send_tracked_cases:
  obtains (refused) e where "send_tracked print_json i v t =
      (Inl e, False, t\<lparr>tr_shutdown_started := tr_shutdown_started (snd (snd (send_tracked print_json i v t)))\<rparr>)"
      "e_kind e \<noteq> OutcomeUnknown" "tr_shutdown_started t \<longrightarrow>
        tr_shutdown_started (snd (snd (send_tracked print_json i v t)))"
  | (sent) "\<not> tr_shutdown_started t" "send_tracked print_json i v t =
      (case await_ack i (t\<lparr>tr_frames := tr_frames t @ [v]\<rparr>) of (r, t1) \<Rightarrow> (r, True, t1))"
proof (cases "tr_shutdown_started t")
  case True
  then show ?thesis by (intro refused) (simp add: send_tracked_def, simp_all add: send_tracked_def)
next
  case run: False
  show ?thesis
  proof (cases "encode print_json v (tr_max_frame_bytes t)")
    case (Inl e)
    then show ?thesis using run encode_kind [OF Inl] by (intro refused) (simp add: send_tracked_def, simp_all add: send_tracked_def)
  next
    case (Inr frame)
    show ?thesis
    proof (cases "remaining_send_timeout (si_remaining i) t")
      case None
      then show ?thesis using run Inr by (intro refused) (simp add: send_tracked_def, simp_all add: send_tracked_def)
    next
      case (Some d)
      show ?thesis
      proof (cases "si_reservation i = Reserved \<and> \<not> si_shutdown_meanwhile i")
        case True
        then show ?thesis using run Inr Some by (intro sent) (simp_all add: send_tracked_def)
      next
        case False
        show ?thesis
        proof (cases "si_reservation i")
          case Reserved
          then show ?thesis using run Inr Some False
            by (intro refused) (simp add: send_tracked_def, simp_all add: send_tracked_def)
        next
          case WriterGone
          then show ?thesis using run Inr Some
            by (intro refused) (simp add: send_tracked_def, simp_all add: send_tracked_def)
        next
          case QueueTimeout
          then show ?thesis using run Inr Some
            by (intro refused) (simp add: send_tracked_def, simp_all add: send_tracked_def)
        qed
      qed
    qed
  qed
qed

lemma shutdown_process_spec:
  "tr_frames (snd (shutdown_process d t)) = tr_frames t"
  "tr_cleanup_finished (snd (shutdown_process d t))"
  "\<not> tr_cleanup_finished t \<Longrightarrow> tr_shutdown_started (snd (shutdown_process d t))"
  "tr_shutdown_started t \<Longrightarrow> tr_shutdown_started (snd (shutdown_process d t))"
  using force_kill_frames [of "sd_kill d" "t\<lparr>tr_shutdown_started := True\<rparr>"]
  by (auto simp: shutdown_process_def end_child_def remove_helper_def Let_def
      split: prod.splits sum.splits)

text \<open>The process as a machine whose steps are the calls of its handle.\<close>

datatype transport_op =
    SendFrame send_inputs json
  | ForceKill kill_inputs
  | BeginForceShutdown
  | ShutdownProcess shutdown_inputs

definition transport_step :: "(json \<Rightarrow> string + string) \<Rightarrow> transport_op \<Rightarrow> transport \<Rightarrow> transport" where
  "transport_step print_json op t =
     (case op of
        SendFrame i v \<Rightarrow> snd (send_frame print_json i v t)
      | ForceKill k \<Rightarrow> snd (force_kill k t)
      | BeginForceShutdown \<Rightarrow> begin_force_shutdown t
      | ShutdownProcess d \<Rightarrow> snd (shutdown_process d t))"

definition transport_ok :: "transport \<Rightarrow> bool" where
  "transport_ok t \<longleftrightarrow> (tr_cleanup_finished t \<longrightarrow> tr_shutdown_started t)"

definition final_frames :: "unit \<Rightarrow> transport \<Rightarrow> json list option" where
  "final_frames k t = (if tr_shutdown_started t then Some (tr_frames t) else None)"

lemma transport_step_ok: "transport_ok t \<Longrightarrow> transport_ok (transport_step print_json op t)"
proof (cases op)
  case (SendFrame i v)
  assume ok: "transport_ok t"
  show ?thesis
  proof (cases rule: send_tracked_cases [of print_json i v t])
    case (refused e)
    have "tr_cleanup_finished (snd (snd (send_tracked print_json i v t))) = tr_cleanup_finished t"
      by (subst refused(1)) simp
    then show ?thesis using ok SendFrame refused(3)
      by (simp add: transport_step_def send_frame_def transport_ok_def case_prod_beta)
  next
    case sent
    then show ?thesis using ok SendFrame await_ack_spec [where i = i and t = "t\<lparr>tr_frames := tr_frames t @ [v]\<rparr>"]
      by (auto simp: transport_step_def send_frame_def transport_ok_def split: prod.splits)
  qed
qed (auto simp: transport_step_def transport_ok_def force_kill_frames begin_force_shutdown_def
      shutdown_process_spec)

lemma transport_step_final:
  "final_frames k t = Some fs \<Longrightarrow> final_frames k (transport_step print_json op t) = Some fs"
  by (cases op)
     (auto simp: transport_step_def final_frames_def force_kill_frames begin_force_shutdown_def
        shutdown_process_spec send_frame_def send_tracked_def split: if_splits)

interpretation transport: settling_machine "new_transport d n" "transport_step print_json" transport_ok
  final_frames for d n print_json
proof unfold_locales
  show "transport_ok (new_transport d n)" by (simp add: transport_ok_def new_transport_def)
qed (auto intro: transport_step_ok transport_step_final)

lemma next_frame_consumes:
  assumes ok: "reader_ok r" and run: "next_frame parse_json r = (Inr (Some v), r1)"
  shows "reader_ok r1 \<and> length (pending r1) < length (pending r)"
proof -
  obtain sres rest where spec:
    "line_spec parse_json (jr_max_frame_bytes r) (src_failure (jr_reader r)) (pending r) = (sres, rest)"
    by (cases "line_spec parse_json (jr_max_frame_bytes r) (src_failure (jr_reader r)) (pending r)")
  from next_frame_agrees [OF ok, of parse_json] run spec
  have a: "sres = Inr (Some v)" "pending r1 = rest" "reader_ok r1" by (auto simp: agrees_def Let_def)
  then have "length rest < length (pending r)" using spec
    by (auto simp: line_spec_def Let_def result_simps split: option.splits if_splits
        dest!: position_less [of _ "pending r"]) (metis diff_less length_drop less_nat_zero_code
        neq0_conv zero_less_Suc)
  then show ?thesis using a by simp
qed

lemma reader_loop_closes:
  assumes "reader_ok r" "length (pending r) < fuel"
  shows "\<exists>ms e. reader_loop parse_json fuel r = map Message ms @ [Closed e] \<and>
           map Inr ms = map parse (take (length ms) (fst (read_frames parse_json fuel r)))"
  using assms
proof (induction fuel arbitrary: r)
  case 0
  then show ?case by simp
next
  case (Suc fuel)
  obtain res r1 where run: "next_frame parse_json r = (res, r1)" by (cases "next_frame parse_json r")
  consider (err) e where "res = Inl e" | (eof) "res = Inr None" | (frame) v where "res = Inr (Some v)"
    by (cases res; cases "projr res") auto
  then show ?case
  proof cases
    case err
    then show ?thesis using run by (auto intro!: exI [of _ "[]"])
  next
    case eof
    then show ?thesis using run by (auto intro!: exI [of _ "[]"])
  next
    case frame
    note c = next_frame_consumes [OF Suc.prems(1) run [unfolded frame]]
    show ?thesis
    proof (cases "parse v")
      case (Inl e)
      then show ?thesis using run frame by (auto intro!: exI [of _ "[]"])
    next
      case (Inr m)
      from c Suc.prems obtain ms e where
        "reader_loop parse_json fuel r1 = map Message ms @ [Closed e]"
        "map Inr ms = map parse (take (length ms) (fst (read_frames parse_json fuel r1)))"
        using Suc.IH [of r1] by auto
      then show ?thesis using run frame Inr
        by (intro exI [of _ "m # ms"] exI [of _ e]) (simp add: case_prod_beta)
    qed
  qed
qed

section \<open>Properties\<close>

text \<open>What the caller of a send can conclude. A frame that was not dispatched left no trace in the
  writer's queue and its error is never an unknown outcome. A dispatched frame was given to the writer
  exactly once, and then the result is success, or an unknown outcome of a process that no longer
  accepts frames, or the plain timeout of an operation deadline that passed right after the dispatch.\<close>

theorem send_outcome_tells_dispatch:
  "case send_tracked print_json i v t of (r, dispatched, t1) \<Rightarrow>
     (if dispatched
      then tr_frames t1 = tr_frames t @ [v] \<and>
        (case r of
           Inr _ \<Rightarrow> True
         | Inl e \<Rightarrow> e_kind e = OutcomeUnknown \<and> tr_shutdown_started t1 \<or>
             e_kind e = Timeout \<and> si_remaining_after i = Some 0)
      else tr_frames t1 = tr_frames t \<and>
        (case r of Inr _ \<Rightarrow> False | Inl e \<Rightarrow> e_kind e \<noteq> OutcomeUnknown))"
proof (cases rule: send_tracked_cases [of print_json i v t])
  case (refused e)
  then obtain b where "send_tracked print_json i v t = (Inl e, False, t\<lparr>tr_shutdown_started := b\<rparr>)"
    by blast
  then show ?thesis using refused(2) by simp
next
  case sent
  let ?t = "t\<lparr>tr_frames := tr_frames t @ [v]\<rparr>"
  from await_ack_result [of i ?t] show ?thesis
    using sent(2) await_ack_spec(1) [where i = i and t = ?t]
    by (cases "await_ack i ?t") auto
qed

text \<open>A frame that was given to the writer can be reported as a plain timeout: when the operation
  deadline passes between the dispatch and the wait for the acknowledgement, the error says nothing
  about the dispatch and the process goes on running.\<close>

theorem dispatched_frame_reported_as_timeout:
  assumes "\<not> tr_shutdown_started t" "encode print_json v (tr_max_frame_bytes t) = Inr frame"
    and "0 < d" "si_remaining i = Some d" "si_reservation i = Reserved"
    and "\<not> si_shutdown_meanwhile i" "si_remaining_after i = Some 0"
  shows "send_tracked print_json i v t =
           (Inl (timeout_error ''process.send'' (tr_send_timeout t)), True,
            t\<lparr>tr_frames := tr_frames t @ [v]\<rparr>)"
  using assms by (simp add: send_tracked_def await_ack_def remaining_send_timeout_def)

text \<open>Once the process is being shut down, by whatever caller and in whatever order the calls come,
  no frame is given to the writer any more.\<close>

theorem no_frame_after_shutdown:
  assumes "tr_shutdown_started (fold (transport_step print_json) ops (new_transport d n))"
  shows "tr_frames (fold (transport_step print_json) (ops @ more_ops) (new_transport d n)) =
           tr_frames (fold (transport_step print_json) ops (new_transport d n))"
proof -
  let ?t = "fold (transport_step print_json) ops (new_transport d n)"
  have "final_frames () ?t = Some (tr_frames ?t)" using assms by (simp add: final_frames_def)
  from transport.settled_stable [OF this, of more_ops]
  show ?thesis by (auto simp: final_frames_def split: if_splits)
qed

text \<open>A shutdown that reports success really ended the process: unless an earlier shutdown was already
  reported, the child has been reaped, the guardian and its directory are removed, the writer has
  acknowledged the end of the input and every task has ended by itself.\<close>

theorem clean_shutdown_reaped:
  assumes "\<not> tr_cleanup_finished t" "shutdown_process d t = (Inr (), t1)"
  shows "\<not> tr_child t1 \<and> \<not> tr_helper t1 \<and> tr_cleanup_finished t1 \<and> tr_shutdown_started t1 \<and>
         sd_close d = CloseAcked (Inr ()) \<and> set (sd_tasks d) \<subseteq> {TaskDone}"
proof -
  let ?t = "t\<lparr>tr_shutdown_started := True\<rparr>"
  obtain f2 t2 where child: "end_child d ?t = (f2, t2)" by (cases "end_child d ?t")
  obtain f4 t3 where helper: "remove_helper d t2 = (f4, t3)" by (cases "remove_helper d t2")
  have none: "close_failures (sd_close d) = []" "f2 = []" "task_failures (sd_tasks d) = []" "f4 = []"
    and t1: "t1 = t3\<lparr>tr_cleanup_finished := True\<rparr>"
    using assms child helper by (auto simp: shutdown_process_def Let_def split: if_splits)
  have "\<not> tr_child t2" using child none(2) force_kill_Inr [of "sd_kill d" ?t]
    by (auto simp: end_child_def reap_child_def Let_def
        split: if_splits prod.splits sum.splits child_wait.splits option.splits)
  moreover have "\<not> tr_helper t3" "tr_child t3 = tr_child t2"
    using helper none(4) by (auto simp: remove_helper_def split: option.splits)
  moreover have "sd_close d = CloseAcked (Inr ())"
    using none(1) by (auto simp: close_failures_def split: close_outcome.splits sum.splits)
  moreover have "set (sd_tasks d) \<subseteq> {TaskDone}"
    using none(3) by (auto simp: task_failures_def split: task_join.splits) (metis task_join.exhaust)
  moreover have "tr_shutdown_started t1" using shutdown_process_spec(3) [OF assms(1), of d] assms(2) by simp
  ultimately show ?thesis using t1 by simp
qed

text \<open>The reader task of any stream ends, and what it tells the router is a list of messages followed
  by exactly one closing event; the messages are the classified frames of the stream, in order and
  from the first on.\<close>

theorem reader_closes_once:
  assumes "max_frame_bytes + 2 \<le> usize_max"
  shows "\<exists>ms e. reader_task parse_json src max_frame_bytes = map Message ms @ [Closed e] \<and>
           (\<exists>vs. prefix vs (fst (read_frames parse_json (Suc (length (concat (src_chunks src))))
                                  (new_reader src max_frame_bytes))) \<and> map Inr ms = map parse vs)"
proof -
  let ?r = "new_reader src max_frame_bytes"
  have "reader_ok ?r" by (rule reader_ok_new [OF assms])
  moreover have "length (pending ?r) < Suc (length (concat (src_chunks src)))"
    by (simp add: pending_def unread_def new_reader_def)
  ultimately show ?thesis unfolding reader_task_def
    using reader_loop_closes [of ?r _ parse_json] by (blast intro: take_is_prefix)
qed

text \<open>The lines pushed to the stderr ring are those of the whole stream, whatever the sizes of the
  reads: a line of at most 64 KiB is kept, a longer one is replaced as a whole by one marker, so that
  no piece of it, with the end of a secret in it, reaches the ring as a line of its own.\<close>

theorem stderr_capture_independent_of_chunking:
  "sc_ring (capture_stderr src (new_capture capacity)) =
     fold push_line (stderr_lines (concat (src_chunks src))) (new_ring capacity) \<and>
   sc_done (capture_stderr src (new_capture capacity))"
  using capture_loop_spec [of "[]" False src "new_capture capacity"]
  by (simp add: capture_stderr_def capture_ok_def lines_to_come_def new_capture_def)

definition demo_kill :: kill_inputs where
  "demo_kill = \<lparr>ki_terminate = None, ki_wait = Exited None, ki_remove_guardian = None,
     ki_remove_directory = None\<rparr>"

definition demo_send :: "duration option \<Rightarrow> send_inputs" where
  "demo_send after = \<lparr>si_remaining = Some 5, si_reservation = Reserved, si_shutdown_meanwhile = False,
     si_remaining_after = after, si_ack = Acknowledged (Inr ()), si_kill = demo_kill\<rparr>"

definition demo_shutdown :: shutdown_inputs where
  "demo_shutdown = \<lparr>sd_operation_expired = False, sd_close = CloseAcked (Inr ()), sd_kill = demo_kill,
     sd_wait = Exited None, sd_terminate = None, sd_second_wait = Exited None,
     sd_tasks = [TaskDone, TaskDone], sd_remove_guardian = None, sd_remove_directory = None,
     sd_stderr_tail = None\<rparr>"

lemma dispatched_frame_reported_as_timeout_witness:
  "fst (send_tracked (\<lambda>_. Inr ''null'') (demo_send (Some 0)) JNull (new_transport 30 100)) =
     Inl (timeout_error ''process.send'' 30) \<and>
   tr_frames (snd (snd (send_tracked (\<lambda>_. Inr ''null'') (demo_send (Some 0)) JNull (new_transport 30 100)))) = [JNull]"
  using dispatched_frame_reported_as_timeout [of "new_transport 30 100" "\<lambda>_. Inr ''null''" JNull _ 5
      "demo_send (Some 0)"]
  by (simp add: new_transport_def demo_send_def encode_def)

lemma no_frame_after_shutdown_witness:
  "tr_frames (fold (transport_step (\<lambda>_. Inr ''null''))
     ([SendFrame (demo_send (Some 3)) JNull, BeginForceShutdown] @ [SendFrame (demo_send (Some 3)) (JBool True)])
     (new_transport 30 100)) = [JNull]"
proof -
  have "tr_shutdown_started (fold (transport_step (\<lambda>_. Inr ''null''))
      [SendFrame (demo_send (Some 3)) JNull, BeginForceShutdown] (new_transport 30 100))"
    by code_simp
  from no_frame_after_shutdown [OF this, of "[SendFrame (demo_send (Some 3)) (JBool True)]"]
  show ?thesis by (rule trans) code_simp
qed

lemma clean_shutdown_reaped_witness:
  "\<not> tr_child (snd (shutdown_process demo_shutdown (new_transport 30 100))) \<and>
   \<not> tr_helper (snd (shutdown_process demo_shutdown (new_transport 30 100)))"
proof -
  have c: "\<not> tr_cleanup_finished (new_transport 30 100)" by (simp add: new_transport_def)
  have "fst (shutdown_process demo_shutdown (new_transport 30 100)) = Inr ()" by code_simp
  then have "shutdown_process demo_shutdown (new_transport 30 100) =
      (Inr (), snd (shutdown_process demo_shutdown (new_transport 30 100)))"
    by (metis prod.collapse)
  from clean_shutdown_reaped [OF c this] show ?thesis by simp
qed

lemma reader_closes_once_witness:
  "\<exists>ms e. reader_task (\<lambda>_. Inr (notification ''warning'' JNull))
     \<lparr>src_chunks = [''x'', [CHR 0x0A]], src_failure = None\<rparr> 70000 = map Message ms @ [Closed e]"
  using reader_closes_once [of 70000 "\<lambda>_. Inr (notification ''warning'' JNull)"
      "\<lparr>src_chunks = [''x'', [CHR 0x0A]], src_failure = None\<rparr>"]
  by (auto simp: usize_max_def)

end
