(* ===== verification/VerifyJob.thy ===== *)
theory VerifyJob
  imports VersionProbe CanonicalJson Transport
begin

text \<open>
  The verification of a package as a job with a deadline (\<open>src/src/runtime.rs\<close>, for macOS on aarch64): in
  a helper process under a guardian when there is a deadline, in a blocking worker otherwise; and the
  public operations of a package and of a verified runtime over it. A worker does its reads when it is
  joined.
\<close>

record runtime_setup =
  ru_params :: runtime_params
  ru_guardian :: guardian_params
  ru_temp_dir :: path
  ru_scalar :: "json \<Rightarrow> string"
  ru_schema :: "string + json"
  ru_os :: string
  ru_arch :: string

record verification_process =
  vp_identity :: nat
  vp_guardian :: path
  vp_directory :: path
  vp_package :: runtime_package

datatype verification_job = WorkerJob runtime_package | ProcessJob verification_process

definition VERSION_TIMEOUT :: duration where
  "VERSION_TIMEOUT = 30000000000"

definition remaining_deadline :: "string \<Rightarrow> duration os" where
  "remaining_deadline op =
     os_bind (ask os_count Remaining) (\<lambda>n. if n = 0 then os_fail (timeout_error op 0) else os_return n)"

section \<open>The helper process\<close>

text \<open>\<open>Path::file_stem\<close>: the last name without its last extension.\<close>

definition name_stem :: "string \<Rightarrow> string" where
  "name_stem s =
     (let ext = takeWhile (\<lambda>c. c \<noteq> CHR ''.'') (rev s); stem = take (length s - length ext - 1) s
      in if length ext = length s \<or> stem = [] then s else stem)"

definition file_stem :: "path \<Rightarrow> string option" where
  "file_stem p =
     (if p = [] then None else case last p of Normal s \<Rightarrow> Some (name_stem s) | _ \<Rightarrow> None)"

definition helper_error :: "string \<Rightarrow> error" where
  "helper_error msg = verification_error ''runtime.verify.helper'' msg"

definition with_verification_cleanup :: "error \<Rightarrow> string \<Rightarrow> error" where
  "with_verification_cleanup e cleanup =
     (if cleanup = [] then e else new_error (e_kind e) (e_operation e) (e_message e @ cleanup))"

text \<open>The root as the helper gets it.\<close>

definition helper_root :: "path \<Rightarrow> path io" where
  "helper_root root =
     (if path_is_absolute root then io_return root
      else io_bind (ask os_path CurrentDirectory) (\<lambda>current. io_return (path_join current root)))"

definition verification_process_spawn :: "runtime_setup \<Rightarrow> runtime_package \<Rightarrow> verification_process os" where
  "verification_process_spawn ru k =
     os_bind (io_try (\<lambda>t. helper_error (''cannot locate packaged provider verifier: '' @ t))
                (ask os_path CurrentExe)) (\<lambda>helper.
     os_bind (os_when (file_stem helper \<noteq> Some ''vergerail-upagent-provider'')
                (helper_error ''the packaged provider verifier is unavailable in the current executable'')) (\<lambda>_.
     os_bind (io_try (\<lambda>t. verification_error ''runtime.guardian''
                            (''cannot create runtime verification guardian directory: '' @ t))
                (create_guardian_directory (ru_temp_dir ru) ''vergerail-runtime-verify'')) (\<lambda>directory.
     os_bind (extract_guardian (ru_guardian ru) directory) (\<lambda>extracted. case extracted of
       Inl e \<Rightarrow>
         os_bind (remove_guardian_directory directory) (\<lambda>_.
         os_fail (verification_error ''runtime.guardian''
                    (''cannot materialize runtime verification guardian: '' @ io_text e)))
     | Inr guardian \<Rightarrow>
         os_bind (helper_root (rk_root k)) (\<lambda>found. case found of
           Inl e \<Rightarrow>
             os_bind (discard_guardian guardian directory) (\<lambda>_.
             os_fail (helper_error (''cannot resolve relative runtime package root: '' @ io_text e)))
         | Inr root \<Rightarrow>
             os_bind (spawn_guarded guardian helper [''--vergerail-runtime-verify'', path_display root] []) (\<lambda>spawned.
             case spawned of
               Inl e \<Rightarrow>
                 os_bind (discard_guardian guardian directory) (\<lambda>_.
                 os_fail (helper_error (''failed to execute runtime verification guardian: '' @ io_text e)))
             | Inr _ \<Rightarrow>
                 os_bind capture_identity (\<lambda>captured. case captured of
                   Inl e \<Rightarrow>
                     os_bind (ask os_unit StartKill) (\<lambda>_.
                     os_bind (discard_guardian guardian directory) (\<lambda>_.
                     os_fail (helper_error
                       (''cannot capture runtime verification guardian identity: '' @ io_text e))))
                 | Inr identity \<Rightarrow>
                     os_bind (ask os_bool (TakePipe ''stderr'')) (\<lambda>piped.
                     if \<not> piped
                     then os_bind (ask os_unit StartKill) (\<lambda>_.
                          os_bind (discard_guardian guardian directory) (\<lambda>_.
                          os_fail (helper_error ''runtime verification guardian stderr was not piped'')))
                     else os_return \<lparr>vp_identity = identity, vp_guardian = guardian,
                            vp_directory = directory, vp_package = k\<rparr>))))))))"

definition verification_process_terminate :: "verification_process \<Rightarrow> string os" where
  "verification_process_terminate pr =
     os_bind (terminate_guardian (Some (vp_identity pr))) (\<lambda>kill.
     os_bind (ask os_unit (AbortPipe ''stderr'')) (\<lambda>_.
     os_bind (ask os_wait WaitChild) (\<lambda>wait.
     os_bind (cleanup_version_artifacts (vp_guardian pr) (vp_directory pr)) (\<lambda>cleanup.
     os_return (termination_text kill wait @ cleanup)))))"

text \<open>What the helper wrote to its standard error.\<close>

definition helper_stderr :: "string os" where
  "helper_stderr =
     os_bind (ask os_pipe (JoinPipe ''stderr'')) (\<lambda>r. case r of
       PipeRead (Inr (bytes, overflowed)) \<Rightarrow>
         os_return (if overflowed then ''verification helper stderr exceeded its limit''
                    else str_trim (from_utf8_lossy bytes))
     | PipeRead (Inl e) \<Rightarrow> os_return (''verification helper stderr failed: '' @ error_to_string e)
     | PipeTaskFailed t \<Rightarrow> os_return (''verification helper stderr task failed: '' @ t)
     | PipeOpen \<Rightarrow>
         os_bind (ask os_unit (AbortPipe ''stderr'')) (\<lambda>_.
         os_return ''verification helper stderr remained open after exit''))"

definition finish_process_status ::
  "verification_process \<Rightarrow> bool \<times> string \<Rightarrow> string \<Rightarrow> verified_runtime os"
where
  "finish_process_status pr status op =
     os_bind helper_stderr (\<lambda>text_of.
     os_bind (cleanup_version_artifacts (vp_guardian pr) (vp_directory pr)) (\<lambda>cleanup.
     os_bind (os_when (\<not> fst status)
                (verification_error op (''verification helper exited with '' @ snd status @ '': ''
                   @ (if text_of = [] then ''no diagnostic'' else text_of) @ cleanup))) (\<lambda>_.
     os_bind (os_when (text_of \<noteq> [])
                (verification_error op (''verification helper emitted a diagnostic: '' @ text_of @ cleanup))) (\<lambda>_.
     os_bind (os_when (cleanup \<noteq> [])
                (verification_error ''runtime.guardian'' (str_trim (trim_start_matches CHR '';'' cleanup)))) (\<lambda>_.
     os_bind (io_try (\<lambda>t. verification_error op (''cannot canonicalize verified package root: '' @ t))
                (ask os_path (Canonicalize (rk_root (vp_package pr))))) (\<lambda>root.
     os_return \<lparr>vr_root = root, vr_entrypoint = path_join root (rl_entrypoint (rk_lock (vp_package pr))),
                vr_lock = rk_lock (vp_package pr)\<rparr>))))))"

definition helper_wait_failed :: "verification_process \<Rightarrow> string \<Rightarrow> string \<Rightarrow> verified_runtime os" where
  "helper_wait_failed pr op t =
     os_bind (verification_process_terminate pr) (\<lambda>cleanup.
     os_fail (verification_error op (''verification helper wait failed: '' @ t @ cleanup)))"

definition join_process_with_deadline :: "verification_process \<Rightarrow> string \<Rightarrow> verified_runtime os" where
  "join_process_with_deadline pr op =
     os_bind (os_attempt (remaining_deadline op)) (\<lambda>left_over. case left_over of
       Inl e \<Rightarrow>
         os_bind (verification_process_terminate pr) (\<lambda>cleanup. os_fail (with_verification_cleanup e cleanup))
     | Inr remaining \<Rightarrow>
         os_bind (ask os_wait WaitChild) (\<lambda>wait. case wait of
           ChildExited ok status \<Rightarrow> finish_process_status pr (ok, status) op
         | ChildWaitError t \<Rightarrow> helper_wait_failed pr op t
         | ChildTimedOut \<Rightarrow>
             os_bind (verification_process_terminate pr) (\<lambda>cleanup.
             os_fail (if cleanup = [] then timeout_error op remaining
                      else new_error Timeout op (e_message (timeout_error op remaining) @ cleanup)))))"

section \<open>The worker\<close>

definition join_verification_handle ::
  "runtime_params \<Rightarrow> runtime_package \<Rightarrow> string \<Rightarrow> wait_reply \<Rightarrow> verified_runtime os"
where
  "join_verification_handle rp k op wait =
     (case wait of
        ChildWaitError t \<Rightarrow> os_fail (verification_error op (''verification worker failed: '' @ t))
      | _ \<Rightarrow> verify_filesystem_with_control rp k)"

text \<open>The worker under a deadline, for the builds that have no helper process.\<close>

definition join_blocking_with_deadline ::
  "runtime_params \<Rightarrow> runtime_package \<Rightarrow> bool \<Rightarrow> string \<Rightarrow> verified_runtime os"
where
  "join_blocking_with_deadline rp k has_deadline op =
     (if \<not> has_deadline
      then os_bind (ask os_wait JoinWorker) (join_verification_handle rp k op)
      else os_bind (os_attempt (remaining_deadline op)) (\<lambda>left_over. case left_over of
        Inl e \<Rightarrow> os_bind (ask os_bool WorkerStopped) (\<lambda>_. os_fail e)
      | Inr remaining \<Rightarrow>
          os_bind (ask os_wait JoinWorker) (\<lambda>wait. case wait of
            ChildTimedOut \<Rightarrow>
              os_bind (ask os_bool WorkerStopped) (\<lambda>acknowledged.
              os_fail (if acknowledged then timeout_error op remaining
                       else verification_error op
                              ''verification cancellation exceeded 2000 ms before acknowledgement''))
          | _ \<Rightarrow> join_verification_handle rp k op wait)))"

section \<open>Jobs and packages\<close>

definition verification_job_spawn ::
  "runtime_setup \<Rightarrow> runtime_package \<Rightarrow> bool \<Rightarrow> string \<Rightarrow> verification_job os"
where
  "verification_job_spawn ru k has_deadline op =
     (if has_deadline
      then os_bind (remaining_deadline op) (\<lambda>_.
           os_bind (verification_process_spawn ru k) (\<lambda>pr. os_return (ProcessJob pr)))
      else os_return (WorkerJob k))"

definition join_with_deadline ::
  "runtime_setup \<Rightarrow> verification_job \<Rightarrow> bool \<Rightarrow> string \<Rightarrow> verified_runtime os"
where
  "join_with_deadline ru job has_deadline op =
     (case job of
        ProcessJob pr \<Rightarrow> join_process_with_deadline pr op
      | WorkerJob k \<Rightarrow> join_blocking_with_deadline (ru_params ru) k has_deadline op)"

definition run_verification_job ::
  "runtime_setup \<Rightarrow> runtime_package \<Rightarrow> bool \<Rightarrow> string \<Rightarrow> verified_runtime os"
where
  "run_verification_job ru k has_deadline op =
     os_bind (verification_job_spawn ru k has_deadline op) (\<lambda>job. join_with_deadline ru job has_deadline op)"

definition verify_identity :: "runtime_setup \<Rightarrow> runtime_lock \<Rightarrow> unit result" where
  "verify_identity ru lock =
     result_bind (verify_protocol_schema (rp_digest (ru_params ru)) (ru_scalar ru) (ru_schema ru) lock) (\<lambda>_.
     verify_host_target (ru_os ru) (ru_arch ru) (rl_target lock))"

text \<open>\<open>RuntimePackage::verify_filesystem\<close>, which the helper process runs.\<close>

definition package_verify_filesystem :: "runtime_setup \<Rightarrow> runtime_package \<Rightarrow> unit os" where
  "package_verify_filesystem ru k =
     os_bind (os_result (verify_identity ru (rk_lock k))) (\<lambda>_.
     os_bind (verify_filesystem_with_control (ru_params ru) k) (\<lambda>_. os_return ()))"

definition probe_version :: "runtime_setup \<Rightarrow> verified_runtime \<Rightarrow> runtime_lock \<Rightarrow> duration \<Rightarrow> unit os" where
  "probe_version ru v lock limit =
     verify_version_with_timeout (ru_guardian ru) (ru_temp_dir ru) (vr_entrypoint v) (rl_version lock) limit"

definition package_verify_with_timeout :: "runtime_setup \<Rightarrow> runtime_package \<Rightarrow> duration \<Rightarrow> verified_runtime os" where
  "package_verify_with_timeout ru k limit =
     os_bind (os_result (verify_identity ru (rk_lock k))) (\<lambda>_.
     os_bind (run_verification_job ru k False ''runtime.verify'') (\<lambda>v.
     os_bind (probe_version ru v (rk_lock k) limit) (\<lambda>_. os_return v)))"

definition package_verify :: "runtime_setup \<Rightarrow> runtime_package \<Rightarrow> verified_runtime os" where
  "package_verify ru k = package_verify_with_timeout ru k VERSION_TIMEOUT"

definition package_verify_with_deadline :: "runtime_setup \<Rightarrow> runtime_package \<Rightarrow> verified_runtime os" where
  "package_verify_with_deadline ru k =
     os_bind (os_result (verify_identity ru (rk_lock k))) (\<lambda>_.
     os_bind (run_verification_job ru k True ''runtime.verify'') (\<lambda>v.
     os_bind (ask os_count Remaining) (\<lambda>limit.
     os_bind (os_when (limit = 0) (timeout_error ''runtime.version'' 0)) (\<lambda>_.
     os_bind (probe_version ru v (rk_lock k) limit) (\<lambda>_. os_return v)))))"

definition reverify_before_spawn_with_deadline :: "runtime_setup \<Rightarrow> verified_runtime \<Rightarrow> bool \<Rightarrow> unit os" where
  "reverify_before_spawn_with_deadline ru v has_deadline =
     os_bind (run_verification_job ru \<lparr>rk_root = vr_root v, rk_lock = vr_lock v\<rparr> has_deadline ''runtime.spawn'') (\<lambda>again.
     os_bind (if has_deadline then os_bind (remaining_deadline ''runtime.spawn'') (\<lambda>_. os_return ())
              else os_return ()) (\<lambda>_.
     os_when (vr_entrypoint again \<noteq> vr_entrypoint v)
       (verification_error ''runtime.spawn'' ''runtime entrypoint changed after verification'')))"

end
