(* ===== verification/RuntimeManager.thy ===== *)
theory RuntimeManager
  imports PrivateDirs VerifyJob
begin

text \<open>
  Finding and installing the pinned runtime (\<open>src/src/runtime/manager.rs\<close>): the order in which a root is
  looked for, the download with its identity check, the extraction of exactly the locked files, and the
  installation under a lock with the removal of what it leaves. The HTTP client and the archive reader
  are calls; the digest function is the one of \<open>runtime_params\<close>.
\<close>

datatype download_policy = IfMissing | NeverDownload

datatype runtime_origin = ExplicitRoot | SystemRuntime | ManagedCache | Downloaded

record resolved_runtime =
  rr_package :: runtime_package
  rr_origin :: runtime_origin

record runtime_resolver =
  rs_explicit_root :: "path option"
  rs_cache_root :: "path option"
  rs_download_policy :: download_policy
  rs_search_system :: bool
  rs_candidates :: "path list"

definition new_resolver :: runtime_resolver where
  "new_resolver =
     \<lparr>rs_explicit_root = None, rs_cache_root = None, rs_download_policy = IfMissing,
      rs_search_system = False, rs_candidates = []\<rparr>"

definition DOWNLOAD_TOTAL_TIMEOUT :: duration where
  "DOWNLOAD_TOTAL_TIMEOUT = 900000000000"

definition managed_relative_root :: "runtime_lock \<Rightarrow> path" where
  "managed_relative_root lock =
     path_join (path_join (path_of ''codex'') (path_of (rl_version lock))) (path_of (rl_target lock))"

definition installation_lock_name :: "runtime_lock \<Rightarrow> string" where
  "installation_lock_name lock = ''.codex-'' @ rl_version lock @ ''-'' @ rl_target lock @ ''.lock''"

section \<open>Where a runtime may be\<close>

definition default_cache_root :: "path os" where
  "default_cache_root =
     os_bind (ask os_var (EnvVar ''HOME'')) (\<lambda>home. case home of
       None \<Rightarrow> os_fail (new_error InvalidInput ''runtime.cache''
                         ''HOME is not set; provide RuntimeResolver::with_cache_root'')
     | Some h \<Rightarrow> os_return (path_join (path_of h) (path_of ''Library/Application Support/vergerail/runtimes'')))"

text \<open>\<open>env::split_paths\<close>, and of the results those that are files.\<close>

definition filter_file :: "path \<Rightarrow> path list \<Rightarrow> path list os" where
  "filter_file p found = os_bind (ask os_bool (IsFile p)) (\<lambda>is_file. os_return (if is_file then found @ [p] else found))"

definition system_candidates :: "path list os" where
  "system_candidates =
     os_bind (ask os_var (EnvVar ''PATH'')) (\<lambda>search. case search of
       None \<Rightarrow> os_return []
     | Some s \<Rightarrow>
         os_each filter_file (map (\<lambda>d. path_join (path_of d) [Normal ''codex'']) (split_on CHR '':'' s)) [])"

text \<open>\<open>retain\<close> with a set of what has been seen: the first of equal paths stays.\<close>

fun retain_first :: "path list \<Rightarrow> path list \<Rightarrow> path list" where
  "retain_first seen [] = []"
| "retain_first seen (p # ps) =
     (if p \<in> set seen then retain_first seen ps else p # retain_first (p # seen) ps)"

fun candidate_root :: "path \<Rightarrow> path list \<Rightarrow> path option os" where
  "candidate_root canonical [] = os_return None"
| "candidate_root canonical (ancestor # rest) =
     os_bind (ask os_bool (IsFile (path_join ancestor (path_of ''codex-package.json'')))) (\<lambda>is_file.
     if is_file
     then os_bind (ask os_path (Canonicalize (path_join ancestor (path_of ''bin/codex'')))) (\<lambda>r.
          if r = Inr canonical then os_return (Some ancestor) else candidate_root canonical rest)
     else candidate_root canonical rest)"

definition package_for_system_candidate :: "path \<Rightarrow> runtime_lock \<Rightarrow> runtime_package option os" where
  "package_for_system_candidate candidate lock =
     os_bind (ask os_path (Canonicalize candidate)) (\<lambda>r. case r of
       Inl _ \<Rightarrow> os_return None
     | Inr canonical \<Rightarrow>
         os_bind (candidate_root canonical (take 8 (path_ancestors canonical))) (\<lambda>found.
         os_return (map_option (\<lambda>root. \<lparr>rk_root = root, rk_lock = lock\<rparr>) found)))"

section \<open>Download\<close>

text \<open>The loop over the reads of a body that is cut after one byte more than expected.\<close>

function download_loop ::
  "path \<Rightarrow> nat \<Rightarrow> os_env \<Rightarrow> os_call list \<Rightarrow> string \<Rightarrow> string result \<times> os_call list"
where
  "download_loop destination limit v log received =
     (if limit \<le> length received then (Inr received, log)
      else case os_data v (HttpRead # log) of
        Inl e \<Rightarrow> (Inl (install_error (''cannot read runtime download: '' @ io_text e)), HttpRead # log)
      | Inr data \<Rightarrow>
          (let bytes = take (min VERIFICATION_READ_CHUNK_BYTES (limit - length received)) data;
               log1 = HttpRead # log; log2 = Elapsed # log1; log3 = WriteAll destination bytes # log2
           in if bytes = [] then (Inr received, log1)
              else if DOWNLOAD_TOTAL_TIMEOUT < os_count v log2
              then (Inl (install_error ''runtime download exceeded 15 minutes''), log2)
              else case os_unit v log3 of
                Inl e \<Rightarrow> (Inl (install_error (''cannot write runtime archive: '' @ io_text e)), log3)
              | Inr _ \<Rightarrow> download_loop destination limit v log3 (received @ bytes)))"
  by pat_completeness auto
termination
proof (relation "measure (\<lambda>(destination, limit, v, log, received). limit - length received)", goal_cases)
  case (2 destination limit v log received data bytes log1 log2 log3)
  then have "bytes \<noteq> []" "length received < limit" by auto
  then show ?case by (cases bytes) auto
qed simp

declare download_loop.simps [simp del]

definition download_archive :: "(string \<Rightarrow> string) \<Rightarrow> path \<Rightarrow> runtime_download \<Rightarrow> unit os" where
  "download_archive digest destination dl =
     os_bind (io_try (\<lambda>t. install_error (''official runtime download failed: '' @ t))
                (ask os_num (HttpGet (rd_url dl)))) (\<lambda>status.
     os_bind (os_when (status \<noteq> 200)
                (install_error (''official runtime download returned HTTP '' @ show_nat status))) (\<lambda>_.
     os_bind (io_try (\<lambda>t. install_error (''cannot create runtime archive: '' @ t))
                (ask os_unit (CreateNew destination))) (\<lambda>_.
     os_bind (io_try (\<lambda>t. install_error (''cannot secure runtime archive: '' @ t))
                (ask os_unit (SetMode destination 384))) (\<lambda>_.
     os_bind (\<lambda>v log. download_loop destination (rd_bytes dl + 1) v log []) (\<lambda>received.
     os_bind (io_try (\<lambda>t. install_error (''cannot sync runtime archive: '' @ t))
                (ask os_unit (SyncAll destination))) (\<lambda>_.
     os_when (length received \<noteq> rd_bytes dl \<or> format_digest (digest received) \<noteq> rd_sha256 dl)
       (install_error (''runtime archive identity mismatch: expected '' @ show_nat (rd_bytes dl)
          @ '' bytes and '' @ rd_sha256 dl @ '', observed '' @ show_nat (length received)
          @ '' bytes and '' @ format_digest (digest received)))))))))"

section \<open>Extraction\<close>

definition extract_artifact :: "path \<Rightarrow> path \<Rightarrow> bool \<Rightarrow> io_error + string \<Rightarrow> unit os" where
  "extract_artifact staging_root relative executable content =
     (let destination = path_join staging_root relative in
      os_bind (case path_parent destination of
                 None \<Rightarrow> os_return () | Some parent \<Rightarrow> create_private_directory parent) (\<lambda>_.
      os_bind (io_try (\<lambda>t. install_error (''cannot create runtime artifact: '' @ t))
                 (ask os_unit (CreateNew destination))) (\<lambda>_.
      os_bind (io_try (\<lambda>t. install_error (''cannot extract runtime artifact: '' @ t)) (os_return content)) (\<lambda>bytes.
      os_bind (io_try (\<lambda>t. install_error (''cannot extract runtime artifact: '' @ t))
                 (ask os_unit (WriteAll destination bytes))) (\<lambda>_.
      os_bind (io_try (\<lambda>t. install_error (''cannot sync runtime artifact: '' @ t))
                 (ask os_unit (SyncAll destination))) (\<lambda>_.
      io_try (\<lambda>t. install_error (''cannot set runtime permissions: '' @ t))
        (ask os_unit (SetMode destination (if executable then 493 else 420)))))))))"

definition expected_artifacts :: "runtime_lock \<Rightarrow> (path \<times> bool) list" where
  "expected_artifacts lock = map (\<lambda>a. (ra_path a, ra_executable a)) (rl_artifacts lock)"

text \<open>One entry of the archive: outside the prefix or not a locked file, it is passed over.\<close>

definition extract_entry ::
  "pinned_runtime \<Rightarrow> path \<Rightarrow> io_error + archive_entry \<Rightarrow> path list \<Rightarrow> path list os"
where
  "extract_entry pinned staging_root item extracted =
     os_bind (io_try (\<lambda>t. install_error (''cannot read runtime archive entry: '' @ t)) (os_return item)) (\<lambda>entry.
     os_bind (io_try (\<lambda>t. install_error (''runtime archive path is invalid: '' @ t)) (os_return (ae_path entry))) (\<lambda>p.
     case strip_prefix p (rd_archive_prefix (pr_download pinned)) of
       None \<Rightarrow> os_return extracted
     | Some relative \<Rightarrow>
         (case map_of (rev (expected_artifacts (pr_lock pinned))) relative of
            None \<Rightarrow> os_return extracted
          | Some executable \<Rightarrow>
              if \<not> ae_is_file entry \<or> relative \<in> set extracted
              then os_fail (install_error (''runtime archive contains invalid or duplicate artifact ''
                              @ path_display relative))
              else os_bind (extract_artifact staging_root relative executable (ae_copy entry)) (\<lambda>_.
                   os_return (relative # extracted)))))"

definition extract_runtime :: "path \<Rightarrow> path \<Rightarrow> pinned_runtime \<Rightarrow> unit os" where
  "extract_runtime archive_path staging_root pinned =
     os_bind (create_private_directory staging_root) (\<lambda>_.
     os_bind (io_try (\<lambda>t. install_error (''cannot open runtime archive: '' @ t))
                (ask os_unit (OpenFile archive_path))) (\<lambda>_.
     os_bind (io_try (\<lambda>t. install_error (''cannot read runtime archive: '' @ t))
                (ask os_archive (OpenArchive archive_path))) (\<lambda>entries.
     os_bind (os_each (extract_entry pinned staging_root) entries []) (\<lambda>extracted.
     os_when (length extracted \<noteq> length (remdups (map ra_path (rl_artifacts (pr_lock pinned)))))
       (install_error ''runtime archive is missing required artifacts'')))))"

section \<open>Installation\<close>

definition verify_open_lock_path :: "path \<Rightarrow> unit os" where
  "verify_open_lock_path p =
     os_bind (io_try (\<lambda>t. install_error (''cannot inspect installation lock: '' @ t)) (os_lstat p)) (\<lambda>md.
     os_bind (os_when (md_kind md \<noteq> RegularFile)
                (install_error (path_display p @ '' must be a regular non-symlink installation lock''))) (\<lambda>_.
     os_bind (io_try (\<lambda>t. install_error (''cannot inspect open installation lock: '' @ t))
                (ask os_meta (Fstat p))) (\<lambda>opened.
     os_when (\<not> same_file md opened)
       (install_error ''installation lock path changed while it was being opened''))))"

definition DOWNLOAD_TEMP_PREFIX :: string where
  "DOWNLOAD_TEMP_PREFIX = ''.vergerail-download-''"

definition INSTALL_TEMP_PREFIX :: string where
  "INSTALL_TEMP_PREFIX = ''.vergerail-install-''"

definition remove_if_stale :: "path \<Rightarrow> io_error + dir_entry \<Rightarrow> unit \<Rightarrow> unit os" where
  "remove_if_stale cache_root item _ =
     os_bind (io_try (\<lambda>t. install_error (''cannot inspect runtime cache entry: '' @ t)) (os_return item)) (\<lambda>entry.
     let name = de_name entry in
     if utf8_valid name \<and> (starts_with name DOWNLOAD_TEMP_PREFIX \<or> starts_with name INSTALL_TEMP_PREFIX)
     then remove_path (path_join cache_root [Normal name])
     else os_return ())"

definition cleanup_stale_installation_artifacts :: "path \<Rightarrow> unit os" where
  "cleanup_stale_installation_artifacts cache_root =
     os_bind (io_try (\<lambda>t. install_error (''cannot inspect runtime cache: '' @ t))
                (ask os_dir (ReadDir cache_root))) (\<lambda>entries.
     os_each (remove_if_stale cache_root) entries ())"

text \<open>Both temporary paths are removed; the first failure is reported, with the second added to it.\<close>

definition remove_if_present :: "path \<Rightarrow> unit os" where
  "remove_if_present p =
     os_bind (os_lstat p) (\<lambda>r. case r of
       Inr _ \<Rightarrow> remove_path p
     | Inl e \<Rightarrow> os_when (io_kind e \<noteq> NotFound)
                 (install_error (''cannot inspect temporary runtime artifact '' @ path_display p @ '': '' @ io_text e)))"

definition collect_failure :: "path \<Rightarrow> error option \<Rightarrow> error option os" where
  "collect_failure p so_far =
     os_bind (os_attempt (remove_if_present p)) (\<lambda>r. os_return (case r of
       Inr _ \<Rightarrow> so_far
     | Inl e \<Rightarrow> Some (case so_far of
                        None \<Rightarrow> e
                      | Some primary \<Rightarrow> with_related_error primary
                          ''another temporary runtime artifact cleanup failed'' e)))"

definition cleanup_installation_attempt :: "path \<Rightarrow> path \<Rightarrow> unit os" where
  "cleanup_installation_attempt archive_path staging_root =
     os_bind (os_each collect_failure [archive_path, staging_root] None) (\<lambda>first. case first of
       Some e \<Rightarrow> os_fail e | None \<Rightarrow> os_return ())"

record install_outcome =
  io_root :: path
  io_installed :: bool

text \<open>A cached root that is a directory and verifies is taken; anything else there is removed.\<close>

definition reuse_or_clear :: "runtime_params \<Rightarrow> path \<Rightarrow> runtime_lock \<Rightarrow> bool os" where
  "reuse_or_clear rp final_root lock =
     os_bind (os_lstat final_root) (\<lambda>r. case r of
       Inr md \<Rightarrow>
         if md_kind md = Directory
         then os_bind (os_attempt (verify_filesystem_with_control rp \<lparr>rk_root = final_root, rk_lock = lock\<rparr>)) (\<lambda>ok.
              case ok of
                Inr _ \<Rightarrow> os_return True
              | Inl _ \<Rightarrow> os_bind (remove_path final_root) (\<lambda>_. os_return False))
         else os_bind (remove_path final_root) (\<lambda>_. os_return False)
     | Inl e \<Rightarrow>
         if io_kind e = NotFound then os_return False
         else os_fail (install_error (''cannot inspect managed runtime root: '' @ io_text e)))"

definition install_attempt :: "runtime_params \<Rightarrow> pinned_runtime \<Rightarrow> path \<Rightarrow> path \<Rightarrow> path \<Rightarrow> install_outcome os" where
  "install_attempt rp pinned archive_path staging_root final_root =
     os_bind (download_archive (rp_digest rp) archive_path (pr_download pinned)) (\<lambda>_.
     os_bind (extract_runtime archive_path staging_root pinned) (\<lambda>_.
     os_bind (case path_parent final_root of
                None \<Rightarrow> os_return () | Some parent \<Rightarrow> create_private_directory parent) (\<lambda>_.
     os_bind (io_try (\<lambda>t. install_error (''cannot commit installed runtime: '' @ t))
                (ask os_unit (Rename staging_root final_root))) (\<lambda>_.
     os_return \<lparr>io_root = final_root, io_installed = True\<rparr>))))"

text \<open>The outcome of the attempt and of the removal of its temporary files.\<close>

definition combine_cleanup :: "'a result \<Rightarrow> unit result \<Rightarrow> 'a result" where
  "combine_cleanup outcome cleanup =
     (case (outcome, cleanup) of
        (Inr x, Inr _) \<Rightarrow> Inr x
      | (Inr _, Inl e) \<Rightarrow> Inl e
      | (Inl e, Inr _) \<Rightarrow> Inl e
      | (Inl e, Inl c) \<Rightarrow>
          Inl (with_related_error e ''temporary installation artifact cleanup also failed'' c))"

definition install_fresh :: "runtime_params \<Rightarrow> path \<Rightarrow> pinned_runtime \<Rightarrow> path \<Rightarrow> install_outcome os" where
  "install_fresh rp cache_root pinned final_root =
     os_bind (io_try (\<lambda>t. install_error (''system clock is before Unix epoch: '' @ t))
                (ask os_num Clock)) (\<lambda>unique.
     os_bind (ask os_count ProcessId) (\<lambda>pid.
     let suffix = show_nat pid @ ''-'' @ show_nat unique;
         archive_path = path_join cache_root [Normal (DOWNLOAD_TEMP_PREFIX @ suffix @ ''.tgz'')];
         staging_root = path_join cache_root [Normal (INSTALL_TEMP_PREFIX @ suffix)]
     in os_bind (os_attempt (install_attempt rp pinned archive_path staging_root final_root)) (\<lambda>outcome.
        os_bind (os_attempt (cleanup_installation_attempt archive_path staging_root)) (\<lambda>cleanup.
        os_result (combine_cleanup outcome cleanup)))))"

definition install_managed :: "runtime_params \<Rightarrow> path \<Rightarrow> pinned_runtime \<Rightarrow> install_outcome os" where
  "install_managed rp cache_root pinned =
     (let final_root = path_join cache_root (managed_relative_root (pr_lock pinned));
          lock_path = path_join cache_root [Normal (installation_lock_name (pr_lock pinned))] in
      os_bind (create_private_directory cache_root) (\<lambda>_.
      os_bind (io_try (\<lambda>t. install_error (''cannot open installation lock: '' @ t))
                 (ask os_unit (OpenLock lock_path))) (\<lambda>_.
      os_bind (verify_open_lock_path lock_path) (\<lambda>_.
      os_bind (io_try (\<lambda>t. install_error (''cannot secure installation lock: '' @ t))
                 (ask os_unit (SetMode lock_path 384))) (\<lambda>_.
      os_bind (io_try (\<lambda>t. install_error (''cannot acquire installation lock: '' @ t))
                 (ask os_unit (LockExclusive lock_path))) (\<lambda>_.
      os_bind (verify_open_lock_path lock_path) (\<lambda>_.
      os_bind (cleanup_stale_installation_artifacts cache_root) (\<lambda>_.
      os_bind (reuse_or_clear rp final_root (pr_lock pinned)) (\<lambda>reused.
      if reused then os_return \<lparr>io_root = final_root, io_installed = False\<rparr>
      else install_fresh rp cache_root pinned final_root)))))))))"

section \<open>Resolution\<close>

definition cleanup_failed_managed_verification :: "path \<Rightarrow> error \<Rightarrow> error os" where
  "cleanup_failed_managed_verification root e =
     (if e_operation e = ''runtime.version'' then os_return e
      else os_bind (os_attempt (remove_path root)) (\<lambda>r. os_return (case r of
             Inr _ \<Rightarrow> e
           | Inl c \<Rightarrow> with_related_error e ''invalid managed runtime cleanup also failed'' c)))"

text \<open>The first candidate that is a verified package.\<close>

fun try_candidates :: "runtime_setup \<Rightarrow> runtime_lock \<Rightarrow> path list \<Rightarrow> resolved_runtime option os" where
  "try_candidates ru lock [] = os_return None"
| "try_candidates ru lock (candidate # rest) =
     os_bind (package_for_system_candidate candidate lock) (\<lambda>found. case found of
       None \<Rightarrow> try_candidates ru lock rest
     | Some k \<Rightarrow>
         os_bind (os_attempt (package_verify ru k)) (\<lambda>ok. case ok of
           Inr _ \<Rightarrow> os_return (Some \<lparr>rr_package = k, rr_origin = SystemRuntime\<rparr>)
         | Inl _ \<Rightarrow> try_candidates ru lock rest))"

definition check_cache_root :: "path \<Rightarrow> unit os" where
  "check_cache_root cache_root =
     os_bind (os_lstat cache_root) (\<lambda>r. case r of
       Inr _ \<Rightarrow> secure_private_directory cache_root ''runtime.cache''
     | Inl e \<Rightarrow> os_when (io_kind e \<noteq> NotFound)
                 (verification_error ''runtime.cache'' (''cannot inspect runtime cache root: '' @ io_text e)))"

text \<open>The managed root, when it is there and verifies; a failure of the version probe is final.\<close>

definition try_managed :: "runtime_setup \<Rightarrow> runtime_lock \<Rightarrow> path \<Rightarrow> resolved_runtime option os" where
  "try_managed ru lock managed_root =
     os_bind (os_lstat managed_root) (\<lambda>r. case r of
       Inr md \<Rightarrow>
         if md_kind md = Directory
         then os_bind (os_attempt (package_verify ru \<lparr>rk_root = managed_root, rk_lock = lock\<rparr>)) (\<lambda>ok. case ok of
                Inr _ \<Rightarrow> os_return (Some \<lparr>rr_package = \<lparr>rk_root = managed_root, rk_lock = lock\<rparr>,
                                          rr_origin = ManagedCache\<rparr>)
              | Inl e \<Rightarrow> if e_operation e = ''runtime.version'' then os_fail e else os_return None)
         else os_return None
     | Inl e \<Rightarrow>
         if io_kind e = NotFound then os_return None
         else os_fail (verification_error ''runtime.cache''
                         (''cannot inspect managed runtime root: '' @ io_text e)))"

definition install_and_verify :: "runtime_setup \<Rightarrow> pinned_runtime \<Rightarrow> path \<Rightarrow> resolved_runtime os" where
  "install_and_verify ru pinned cache_root =
     os_bind (ask os_wait JoinWorker) (\<lambda>wait. case wait of
       ChildWaitError t \<Rightarrow>
         os_fail (verification_error ''runtime.install'' (''runtime installation worker failed: '' @ t))
     | _ \<Rightarrow>
         os_bind (install_managed (ru_params ru) cache_root pinned) (\<lambda>outcome.
         let k = \<lparr>rk_root = io_root outcome, rk_lock = pr_lock pinned\<rparr> in
         os_bind (os_attempt (package_verify ru k)) (\<lambda>ok. case ok of
           Inl e \<Rightarrow> os_bind (cleanup_failed_managed_verification (rk_root k) e) os_fail
         | Inr _ \<Rightarrow> os_return \<lparr>rr_package = k,
               rr_origin = (if io_installed outcome then Downloaded else ManagedCache)\<rparr>)))"

definition resolve_managed :: "runtime_setup \<Rightarrow> pinned_runtime \<Rightarrow> runtime_resolver \<Rightarrow> resolved_runtime os" where
  "resolve_managed ru pinned rs =
     os_bind (case rs_cache_root rs of Some root \<Rightarrow> os_return root | None \<Rightarrow> default_cache_root) (\<lambda>cache_root.
     os_bind (check_cache_root cache_root) (\<lambda>_.
     let managed_root = path_join cache_root (managed_relative_root (pr_lock pinned)) in
     os_bind (ensure_no_symlink_components cache_root managed_root) (\<lambda>_.
     os_bind (try_managed ru (pr_lock pinned) managed_root) (\<lambda>cached. case cached of
       Some resolved \<Rightarrow> os_return resolved
     | None \<Rightarrow>
         if rs_download_policy rs = NeverDownload
         then os_fail (verification_error ''runtime.resolve''
                ''no audited system or managed Codex runtime is available and downloads are disabled'')
         else install_and_verify ru pinned cache_root))))"

definition resolve :: "runtime_setup \<Rightarrow> string + runtime_metadata \<Rightarrow> runtime_resolver \<Rightarrow> resolved_runtime os" where
  "resolve ru metadata rs =
     os_bind (os_result (pinned_runtime_load metadata)) (\<lambda>pinned.
     os_bind (os_result (verify_host_target (ru_os ru) (ru_arch ru) (rl_target (pr_lock pinned)))) (\<lambda>_.
     case rs_explicit_root rs of
       Some root \<Rightarrow>
         (let k = \<lparr>rk_root = root, rk_lock = pr_lock pinned\<rparr> in
          os_bind (package_verify ru k) (\<lambda>_. os_return \<lparr>rr_package = k, rr_origin = ExplicitRoot\<rparr>))
     | None \<Rightarrow>
         os_bind (if rs_search_system rs
                  then os_bind system_candidates (\<lambda>found.
                       try_candidates ru (pr_lock pinned) (retain_first [] (rs_candidates rs @ found)))
                  else os_return None) (\<lambda>system. case system of
           Some resolved \<Rightarrow> os_return resolved
         | None \<Rightarrow> resolve_managed ru pinned rs)))"

end
