(* ===== verification/OsCalls.thy ===== *)
theory OsCalls
  imports RuntimeManager
begin

text \<open>
  Which calls a step may make, whatever it is answered. \<open>os_only C m\<close>: \<open>m\<close> extends the log by calls of the
  class \<open>C\<close> only. Verification reads; a guardian and the private directories are local; only the
  download uses the network.
\<close>

definition extends :: "(os_call \<Rightarrow> bool) \<Rightarrow> os_call list \<Rightarrow> os_call list \<Rightarrow> bool" where
  "extends C log1 log \<longleftrightarrow> (\<exists>new. log1 = new @ log \<and> list_all C new)"

definition os_only :: "(os_call \<Rightarrow> bool) \<Rightarrow> 'a os \<Rightarrow> bool" where
  "os_only C m \<longleftrightarrow> (\<forall>v log. extends C (snd (m v log)) log)"

named_theorems os_only \<open>composition of steps by the calls they make\<close>

lemma extends_refl [simp]: "extends C log log"
  by (simp add: extends_def)

lemma extends_trans: "extends C l2 l1 \<Longrightarrow> extends C l1 log \<Longrightarrow> extends C l2 log"
  unfolding extends_def by (metis append_assoc list_all_append)

lemma extends_Cons [simp]: "C c \<Longrightarrow> extends C (c # log) log"
  unfolding extends_def by (intro exI [of _ "[c]"]) simp

lemma extends_after: "extends C l (c # log) \<Longrightarrow> C c \<Longrightarrow> extends C l log"
  by (rule extends_trans [OF _ extends_Cons])

lemma extends_mono: "extends C l log \<Longrightarrow> (\<And>c. C c \<Longrightarrow> D c) \<Longrightarrow> extends D l log"
  unfolding extends_def by (metis list.pred_mono_strong)

lemma extends_new: "extends C l log \<Longrightarrow> c \<in> set l \<Longrightarrow> c \<notin> set log \<Longrightarrow> C c"
  by (auto simp: extends_def list_all_iff)

lemma os_only_mono: "os_only C m \<Longrightarrow> (\<And>c. C c \<Longrightarrow> D c) \<Longrightarrow> os_only D m"
  unfolding os_only_def by (blast intro: extends_mono)

lemma os_onlyD: "os_only C m \<Longrightarrow> m v log = (r, log1) \<Longrightarrow> extends C log1 log"
  unfolding os_only_def by (metis snd_conv)

lemma os_only_return [os_only]: "os_only C (os_return x)"
  by (simp add: os_only_def)

lemma os_only_fail [os_only]: "os_only C (os_fail e)"
  by (simp add: os_only_def)

lemma os_only_result [os_only]: "os_only C (os_result r)"
  by (simp add: os_only_def)

lemma os_only_when [os_only]: "os_only C (os_when c e)"
  by (simp add: os_only_def os_when_def)

lemma os_only_ask [os_only]: "C c \<Longrightarrow> os_only C (ask reply c)"
  by (simp add: os_only_def ask_def)

lemma os_only_bind_result:
  assumes "os_only C m" "\<And>x v log log1. m v log = (Inr x, log1) \<Longrightarrow> os_only C (f x)"
  shows "os_only C (os_bind m f)"
  unfolding os_only_def
proof (intro allI)
  fix v log
  obtain r log1 where m: "m v log = (r, log1)" by fastforce
  note first = os_onlyD [OF assms(1) m]
  show "extends C (snd (os_bind m f v log)) log"
  proof (cases r)
    case (Inr x)
    have "extends C (snd (f x v log1)) log1" using assms(2) m Inr by (auto simp: os_only_def)
    with m Inr first show ?thesis by (simp add: os_bind_def extends_trans)
  qed (use m first in \<open>simp add: os_bind_def\<close>)
qed

lemma os_only_bind [os_only]: "os_only C m \<Longrightarrow> (\<And>x. os_only C (f x)) \<Longrightarrow> os_only C (os_bind m f)"
  by (rule os_only_bind_result)

lemma os_only_attempt [os_only]: "os_only C m \<Longrightarrow> os_only C (os_attempt m)"
  unfolding os_only_def os_attempt_def by (auto split: prod.split) (metis snd_conv)

lemma os_only_try [os_only]: "os_only C m \<Longrightarrow> os_only C (io_try f m)"
  unfolding io_try_def by (intro os_only_bind) (auto intro: os_only split: sum.split)

lemma os_only_if [os_only]: "(c \<Longrightarrow> os_only C m) \<Longrightarrow> (\<not> c \<Longrightarrow> os_only C n) \<Longrightarrow> os_only C (if c then m else n)"
  by simp

lemma os_only_sum [os_only]:
  "(\<And>e. x = Inl e \<Longrightarrow> os_only C (f e)) \<Longrightarrow> (\<And>y. x = Inr y \<Longrightarrow> os_only C (g y)) \<Longrightarrow>
   os_only C (case x of Inl e \<Rightarrow> f e | Inr y \<Rightarrow> g y)"
  by (cases x) auto

lemma os_only_option [os_only]:
  "(x = None \<Longrightarrow> os_only C m) \<Longrightarrow> (\<And>y. x = Some y \<Longrightarrow> os_only C (f y)) \<Longrightarrow>
   os_only C (case x of None \<Rightarrow> m | Some y \<Rightarrow> f y)"
  by (cases x) auto

lemma os_only_prod [os_only]: "(\<And>a b. os_only C (f a b)) \<Longrightarrow> os_only C (case x of (a, b) \<Rightarrow> f a b)"
  by (cases x) auto

lemma os_only_wait [os_only]:
  "(\<And>ok status. os_only C (f ok status)) \<Longrightarrow> (\<And>t. os_only C (g t)) \<Longrightarrow> os_only C h \<Longrightarrow>
   os_only C (case x of ChildExited ok status \<Rightarrow> f ok status | ChildWaitError t \<Rightarrow> g t | ChildTimedOut \<Rightarrow> h)"
  by (cases x) auto

lemma os_only_job [os_only]:
  "(\<And>k. os_only C (f k)) \<Longrightarrow> (\<And>pr. os_only C (g pr)) \<Longrightarrow>
   os_only C (case x of WorkerJob k \<Rightarrow> f k | ProcessJob pr \<Rightarrow> g pr)"
  by (cases x) auto

lemma os_only_pipe [os_only]:
  "(\<And>r. os_only C (f r)) \<Longrightarrow> (\<And>t. os_only C (g t)) \<Longrightarrow> os_only C h \<Longrightarrow>
   os_only C (case x of PipeRead r \<Rightarrow> f r | PipeTaskFailed t \<Rightarrow> g t | PipeOpen \<Rightarrow> h)"
  by (cases x) auto

lemma os_only_each [os_only]:
  "(\<And>x s. x \<in> set xs \<Longrightarrow> os_only C (f x s)) \<Longrightarrow> os_only C (os_each f xs s)"
  by (induction xs arbitrary: s) (auto intro: os_only)

lemma os_only_io_bind [os_only]: "os_only C m \<Longrightarrow> (\<And>x. os_only C (f x)) \<Longrightarrow> os_only C (io_bind m f)"
  unfolding io_bind_def by (intro os_only)

lemma os_only_io_return [os_only]: "os_only C (io_return x)"
  by (simp add: io_return_def os_only)

lemma os_only_io_fail [os_only]: "os_only C (io_fail k t)"
  by (simp add: io_fail_def os_only)

section \<open>Reading\<close>

fun is_read :: "os_call \<Rightarrow> bool" where
  "is_read (Checkpoint op) = True"
| "is_read (Lstat p) = True"
| "is_read (Canonicalize p) = True"
| "is_read (IsDir p) = True"
| "is_read (IsFile p) = True"
| "is_read (ReadDir p) = True"
| "is_read (OpenFile p) = True"
| "is_read (ReadFile p) = True"
| "is_read (ReadAll p) = True"
| "is_read c = False"

lemma os_only_checkpoint [os_only]: "os_only is_read (checkpoint op)"
  unfolding checkpoint_def by (intro os_only) simp

lemma os_only_lstat [os_only]: "C (Lstat p) \<Longrightarrow> os_only C (os_lstat p)"
  unfolding os_lstat_def by (intro os_only)

lemma os_only_secure [os_only]: "os_only is_read (verify_secure_permissions p x)"
  unfolding verify_secure_permissions_def by (intro os_only) simp

lemma checkpoint_log: "snd (checkpoint op v log) = Checkpoint op # log"
  by (simp add: checkpoint_def os_simps)

lemma hash_loop_reads: "extends is_read (snd (hash_loop p n v log m acc)) log"
proof (induction p n v log m acc rule: hash_loop.induct)
  case (1 p n v log m acc)
  obtain r log1 where c: "checkpoint ''runtime.hash'' v log = (r, log1)" by fastforce
  with checkpoint_log [of "''runtime.hash''" v log] have log1: "log1 = Checkpoint ''runtime.hash'' # log" by simp
  have two: "extends is_read l log" if "extends is_read l (ReadFile p # log1)" for l
    by (rule extends_after [OF extends_after [OF that [unfolded log1]]]) simp_all
  have "extends is_read (Checkpoint ''runtime.hash'' # log) log" "extends is_read (ReadFile p # log1) log"
    using two [of "ReadFile p # log1"] by simp_all
  with c log1 two 1 show ?case
    by (subst hash_loop.simps) (auto simp: Let_def split: sum.splits)
qed

lemma os_only_hash_loop [os_only]: "os_only is_read (\<lambda>v log. hash_loop p n v log m acc)"
  by (simp add: os_only_def hash_loop_reads)

lemma os_only_hash_file [os_only]: "os_only is_read (hash_file_with_control digest p n)"
  unfolding hash_file_with_control_def by (intro os_only) simp_all

lemma os_only_walk_entry [os_only]: "os_only is_read (walk_entry root files dirs directory item st)"
  unfolding walk_entry_def Let_def by (intro os_only)

lemma os_only_walk_directory [os_only]: "os_only is_read (walk_directory root files dirs directory st)"
  unfolding walk_directory_def by (intro os_only) simp

lemma walk_pending_reads: "extends is_read (snd (walk_pending root files dirs v log st)) log"
proof (induction root files dirs v log st rule: walk_pending.induct)
  case (1 root files dirs v log st)
  show ?case
  proof (cases "wk_pending st")
    case Nil
    then show ?thesis by (subst walk_pending.simps) simp
  next
    case (Cons d rest)
    obtain r log1 where run: "walk_directory root files dirs d (st\<lparr>wk_pending := rest\<rparr>) v log = (r, log1)"
      by fastforce
    note first = os_onlyD [OF os_only_walk_directory run]
    show ?thesis
    proof (cases r)
      case (Inl e)
      with run first Cons show ?thesis by (subst walk_pending.simps) simp
    next
      case (Inr st1)
      from 1 [OF Cons run [symmetric] Inr] extends_trans [OF _ first] run Inr Cons show ?thesis
        by (subst walk_pending.simps) simp
    qed
  qed
qed

lemma os_only_walk [os_only]: "os_only is_read (\<lambda>v log. walk_pending root files dirs v log st)"
  by (simp add: os_only_def walk_pending_reads)

lemma os_only_file_set [os_only]: "os_only is_read (verify_exact_file_set rp root artifacts)"
  unfolding verify_exact_file_set_def Let_def by (intro os_only)

lemma os_only_artifact [os_only]: "os_only is_read (verify_artifact rp root a)"
  unfolding verify_artifact_def Let_def by (intro os_only) simp_all

lemma os_only_require_directory [os_only]: "os_only is_read (require_directory root s)"
  unfolding require_directory_def by (intro os_only) simp

lemma os_only_manifest [os_only]: "os_only is_read (verify_manifest rp root lock)"
  unfolding verify_manifest_def Let_def by (intro os_only) simp_all

lemma os_only_verify_filesystem: "os_only is_read (verify_filesystem_with_control rp k)"
  unfolding verify_filesystem_with_control_def by (intro os_only) simp_all

end
