(* ===== verification/RuntimeLockTheorems.thy ===== *)
theory RuntimeLockTheorems
  imports RuntimeLock
begin

text \<open>
  What \<open>PinnedRuntime::load\<close> accepts: exactly the metadata with a well-formed download, well-formed
  artifacts and a well-formed lock, unchanged; and the metadata in the repository is accepted.
\<close>

lemma validate_relative_path_iff: "validate_relative_path p = Inr () \<longleftrightarrow> path_plain p"
  by (cases p) (auto simp: validate_relative_path_def path_plain_def path_is_absolute_def list_ex_iff
      list_all_iff)

lemma validate_sha256_iff: "validate_sha256 s = Inr () \<longleftrightarrow> digest_text 64 s"
  by (simp add: validate_sha256_def digest_text_def)

lemma validate_commit_sha_iff: "validate_commit_sha s = Inr () \<longleftrightarrow> digest_text 40 s"
  by (simp add: validate_commit_sha_def digest_text_def)

lemma validate_runtime_identifier_iff: "validate_runtime_identifier s f = Inr () \<longleftrightarrow> identifier_text s"
  by (auto simp: validate_runtime_identifier_def identifier_text_def)

lemma validate_download_iff: "validate_download d = Inr () \<longleftrightarrow> download_ok d"
  by (simp add: validate_download_def download_ok_def result_simps validate_sha256_iff
      validate_relative_path_iff)

lemmas check_iffs = validate_relative_path_iff validate_sha256_iff validate_commit_sha_iff
  validate_runtime_identifier_iff validate_download_iff

lemma artifact_with_max_bytes_Inr:
  "artifact_with_max_bytes p s x n = Inr a \<longleftrightarrow>
     a = \<lparr>ra_path = p, ra_sha256 = s, ra_executable = x, ra_max_bytes = n\<rparr> \<and> artifact_ok a"
  by (auto simp: artifact_with_max_bytes_def artifact_ok_def result_simps check_iffs)

lemma load_artifact_Inr: "load_artifact a = Inr b \<longleftrightarrow> b = a \<and> artifact_ok a"
  by (auto simp: load_artifact_def artifact_with_max_bytes_Inr artifact_ok_def)

lemma load_artifacts_Inr: "result_map load_artifact as = Inr bs \<longleftrightarrow> bs = as \<and> list_all artifact_ok as"
  by (auto simp: result_map_Inr_iff load_artifact_Inr list_all2_conv_all_nth list_all_length
      intro: nth_equalityI)

lemma check_duplicates_Inr:
  "check_duplicates seen as = Inr () \<longleftrightarrow>
     distinct (map ra_path as) \<and> set seen \<inter> ra_path ` set as = {}"
  by (induction seen as rule: check_duplicates.induct) auto

lemma find_entrypoint:
  assumes "distinct (map ra_path as)"
  shows "(\<exists>a. find (\<lambda>a. ra_path a = e) as = Some a \<and> ra_executable a) \<longleftrightarrow>
     (\<exists>a \<in> set as. ra_path a = e \<and> ra_executable a)"
  using assms
proof (induction as)
  case (Cons b as)
  show ?case
  proof (cases "ra_path b = e")
    case True
    with Cons.prems have "a \<in> set as \<Longrightarrow> ra_path a \<noteq> e" for a by (auto simp: image_iff)
    with True show ?thesis by auto
  next
    case False
    with Cons show ?thesis by simp
  qed
qed simp

lemma codex_identifier: "identifier_text ''codex''"
  by (simp add: identifier_text_def is_identifier_byte_def)

lemma runtime_lock_new_Inr:
  "runtime_lock_new v c t w e s as = Inr l \<longleftrightarrow>
     l = \<lparr>rl_version = v, rl_upstream_commit = c, rl_target = t, rl_variant = w,
          rl_entrypoint = e, rl_schema_sha256 = s, rl_artifacts = as\<rparr> \<and> lock_ok l"
  (is "?new \<longleftrightarrow> ?ok")
proof
  assume ?new
  then obtain a where "find (\<lambda>a. ra_path a = e) as = Some a" "ra_executable a"
    "distinct (map ra_path as)" "w = ''codex''"
    and l: "l = \<lparr>rl_version = v, rl_upstream_commit = c, rl_target = t, rl_variant = w,
          rl_entrypoint = e, rl_schema_sha256 = s, rl_artifacts = as\<rparr>"
    and ok: "path_plain e" "digest_text 64 s" "digest_text 40 c" "identifier_text v" "identifier_text t"
    by (auto simp: runtime_lock_new_def result_simps check_iffs check_duplicates_Inr
        split: if_splits option.splits)
  then show ?ok using find_entrypoint [of as e] by (auto simp: lock_ok_def)
next
  assume ok: ?ok
  then have "distinct (map ra_path as)" "as \<noteq> []" by (auto simp: lock_ok_def)
  moreover from ok this obtain a where "find (\<lambda>a. ra_path a = e) as = Some a" "ra_executable a"
    using find_entrypoint [of as e] by (auto simp: lock_ok_def)
  ultimately show ?new
    using conjunct1 [OF ok] conjunct2 [OF ok] codex_identifier
    by (simp add: runtime_lock_new_def lock_ok_def result_simps check_iffs check_duplicates_Inr)
qed

lemma pinned_load_Inr:
  "pinned_runtime_load (Inr m) = Inr p \<longleftrightarrow>
     p = \<lparr>pr_lock = lock_of_metadata m, pr_download = rm_download m\<rparr>
     \<and> download_ok (rm_download m) \<and> list_all artifact_ok (rm_artifacts m) \<and> lock_ok (lock_of_metadata m)"
  by (auto simp: pinned_runtime_load_def result_simps check_iffs load_artifacts_Inr
      runtime_lock_new_Inr lock_of_metadata_def)

lemma pinned_paths:
  "path_of ''bin/codex'' = [Normal ''bin'', Normal ''codex'']"
  "path_of ''bin/codex-code-mode-host'' = [Normal ''bin'', Normal ''codex-code-mode-host'']"
  "path_of ''codex-package.json'' = [Normal ''codex-package.json'']"
  "path_of ''codex-path/rg'' = [Normal ''codex-path'', Normal ''rg'']"
  "path_of ''codex-resources/zsh/bin/zsh'' =
     [Normal ''codex-resources'', Normal ''zsh'', Normal ''bin'', Normal ''zsh'']"
  "path_of ''package/vendor/aarch64-apple-darwin'' =
     [Normal ''package'', Normal ''vendor'', Normal ''aarch64-apple-darwin'']"
  by code_simp+

lemma pinned_metadata_loads:
  "pinned_runtime_load (Inr pinned_metadata) =
     Inr \<lparr>pr_lock = lock_of_metadata pinned_metadata, pr_download = rm_download pinned_metadata\<rparr>"
proof -
  have "download_ok (rm_download pinned_metadata)"
    by (simp add: download_ok_def pinned_metadata_def pinned_paths digest_text_def path_plain_def
        is_lower_hex_def is_ascii_ws_def u64_max_def)
  moreover have "list_all artifact_ok (rm_artifacts pinned_metadata)"
    by (simp add: artifact_ok_def pinned_metadata_def pinned_paths digest_text_def path_plain_def
        is_lower_hex_def u64_max_def)
  moreover have "lock_ok (lock_of_metadata pinned_metadata)"
    by (simp add: lock_ok_def lock_of_metadata_def pinned_metadata_def pinned_paths digest_text_def
        path_plain_def is_lower_hex_def identifier_text_def is_identifier_byte_def)
  ultimately show ?thesis by (simp add: pinned_load_Inr)
qed

text \<open>C37: Loading the embedded metadata succeeds for exactly the metadata whose download is an HTTPS
  address with a finite size and a digest, whose artifacts are relative paths without special
  components, each once, with a digest and a finite ceiling, and whose entry point is an executable
  artifact; the lock then is the metadata unchanged. The metadata in the repository is accepted.\<close>

theorem pinned_metadata_accepted_exactly:
  "(pinned_runtime_load parsed = Inr p \<longleftrightarrow>
     (\<exists>m. parsed = Inr m \<and> p = \<lparr>pr_lock = lock_of_metadata m, pr_download = rm_download m\<rparr>
        \<and> download_ok (rm_download m) \<and> list_all artifact_ok (rm_artifacts m)
        \<and> lock_ok (lock_of_metadata m)))
   \<and> (\<exists>q. pinned_runtime_load (Inr pinned_metadata) = Inr q)"
proof (cases parsed)
  case (Inl t)
  then show ?thesis by (simp add: pinned_metadata_loads) (simp add: pinned_runtime_load_def)
next
  case (Inr m)
  then show ?thesis by (simp add: pinned_metadata_loads pinned_load_Inr)
qed

end
