(* ===== verification/VersionTheorems.thy ===== *)
theory VersionTheorems
  imports VersionProbe
begin

text \<open>
  What the version probe guarantees: what it captures is bounded, a version is accepted only from an
  entry point that printed it and ended well, and however the probe ends, the last thing it does is to
  remove the guardian and its directory, unless the search path could not be built.
\<close>

section \<open>Bounded output\<close>

lemma read_bounded_loop_bound:
  "read_bounded_loop limit reads captured = Inr (bytes, over) \<Longrightarrow> length captured \<le> limit \<Longrightarrow>
   length bytes \<le> limit \<and> (over \<longrightarrow> length bytes = limit)"
  by (induction limit reads captured rule: read_bounded_loop.induct) (auto simp: Let_def split: if_splits)

lemma read_bounded_loop_exact:
  "read_bounded_loop limit (map Inr datas) captured = Inr (bytes, over) \<Longrightarrow> length captured \<le> limit \<Longrightarrow>
   \<forall>d \<in> set datas. d \<noteq> [] \<and> length d \<le> 4096 \<Longrightarrow>
   bytes = take limit (captured @ concat datas) \<and> (over \<longleftrightarrow> limit < length (captured @ concat datas))"
proof (induction datas arbitrary: captured)
  case (Cons d datas)
  then have d: "take 4096 d = d" "d \<noteq> []" by auto
  show ?case
  proof (cases "length d \<le> limit - length captured")
    case True
    with Cons.prems d have "read_bounded_loop limit (map Inr datas) (captured @ d) = Inr (bytes, over)"
      by (simp add: Let_def)
    with Cons.IH [of "captured @ d"] Cons.prems True show ?thesis by simp
  next
    case False
    with Cons.prems d have "bytes = captured @ take (limit - length captured) d" "over"
      by (auto simp: Let_def min_def split: if_splits)
    with False Cons.prems(2) show ?thesis by simp
  qed
qed simp

section \<open>How the probe ends\<close>

definition os_ends :: "os_call list \<Rightarrow> 'a os \<Rightarrow> bool" where
  "os_ends calls m \<longleftrightarrow> (\<forall>v log. \<exists>l. snd (m v log) = calls @ l)"

definition os_fails_with :: "os_call list \<Rightarrow> 'a os \<Rightarrow> bool" where
  "os_fails_with calls m \<longleftrightarrow> (\<forall>v log e log1. m v log = (Inl e, log1) \<longrightarrow> (\<exists>l. log1 = calls @ l))"

definition os_silent :: "'a os \<Rightarrow> bool" where
  "os_silent m \<longleftrightarrow> (\<forall>v log. snd (m v log) = log)"

named_theorems os_endings \<open>the calls a step ends with\<close>

lemma os_ends_bind [os_endings]:
  "os_fails_with E m \<Longrightarrow> (\<And>x. os_ends E (f x)) \<Longrightarrow> os_ends E (os_bind m f)"
  unfolding os_ends_def os_fails_with_def os_bind_def
  by (fastforce split: prod.split sum.split)

lemma os_ends_then: "os_ends E m \<Longrightarrow> (\<And>x. os_silent (f x)) \<Longrightarrow> os_ends E (os_bind m f)"
  unfolding os_ends_def os_silent_def os_bind_def
  by (simp split: prod.split sum.split) (metis snd_conv)

lemma os_fails_with_bind [os_endings]:
  "os_fails_with E m \<Longrightarrow> (\<And>x. os_fails_with E (f x)) \<Longrightarrow> os_fails_with E (os_bind m f)"
  unfolding os_fails_with_def os_bind_def by (auto split: prod.splits sum.splits)

lemma os_ends_fails [intro]: "os_ends E m \<Longrightarrow> os_fails_with E m"
  unfolding os_ends_def os_fails_with_def by (metis snd_conv)

lemma os_fails_with_ask [os_endings]: "os_fails_with E (ask reply c)"
  by (simp add: os_fails_with_def)

lemma os_fails_with_return [os_endings]: "os_fails_with E (os_return x)"
  by (simp add: os_fails_with_def)

lemma os_silent_simps [os_endings]: "os_silent (os_return x)" "os_silent (os_fail e)" "os_silent (os_when c e)"
  by (simp_all add: os_silent_def os_when_def)

lemma os_ends_sum [os_endings]:
  "(\<And>e. os_ends E (f e)) \<Longrightarrow> (\<And>y. os_ends E (g y)) \<Longrightarrow>
   os_ends E (case x of Inl e \<Rightarrow> f e | Inr y \<Rightarrow> g y)"
  by (cases x) auto

lemma os_ends_wait [os_endings]:
  "(\<And>ok status. os_ends E (f ok status)) \<Longrightarrow> (\<And>t. os_ends E (g t)) \<Longrightarrow> os_ends E h \<Longrightarrow>
   os_ends E (case x of ChildExited ok status \<Rightarrow> f ok status | ChildWaitError t \<Rightarrow> g t | ChildTimedOut \<Rightarrow> h)"
  by (cases x) auto

lemma os_fails_with_if [os_endings]:
  "os_fails_with E m \<Longrightarrow> os_fails_with E n \<Longrightarrow> os_fails_with E (if c then m else n)"
  by simp

lemmas os_ends_steps = os_ends_sum os_ends_wait os_ends_bind [OF os_fails_with_ask]

text \<open>Removing the guardian and then its directory.\<close>

definition removal :: "path \<Rightarrow> path \<Rightarrow> os_call list" where
  "removal guardian directory = [RemoveDir directory, RemoveFile guardian]"

lemma cleanup_log:
  "guardian \<noteq> [] \<Longrightarrow> directory \<noteq> [] \<Longrightarrow>
   snd (cleanup_version_artifacts guardian directory v log) = removal guardian directory @ log"
  by (simp add: cleanup_version_artifacts_def remove_guardian_def remove_guardian_directory_def os_simps
      removal_def Let_def)

lemma os_ends_cleanup [os_endings]:
  "guardian \<noteq> [] \<Longrightarrow> directory \<noteq> [] \<Longrightarrow>
   os_ends (removal guardian directory) (cleanup_version_artifacts guardian directory)"
  by (auto simp: os_ends_def cleanup_log)

lemma os_ends_discard [os_endings]:
  "guardian \<noteq> [] \<Longrightarrow> directory \<noteq> [] \<Longrightarrow> os_ends (removal guardian directory) (discard_guardian guardian directory)"
  by (simp add: os_ends_def discard_guardian_def remove_guardian_def remove_guardian_directory_def os_simps
      removal_def)

lemma os_ends_fail_cleaned [os_endings]:
  "guardian \<noteq> [] \<Longrightarrow> directory \<noteq> [] \<Longrightarrow>
   os_ends (removal guardian directory) (fail_cleaned guardian directory report)"
  unfolding fail_cleaned_def by (intro os_ends_then os_endings)

lemma os_fails_with_terminate [os_endings]: "os_fails_with E (terminate_guardian identity)"
  unfolding os_fails_with_def terminate_guardian_def
  by (auto simp: os_simps split: option.splits if_splits sum.splits)

lemma os_ends_terminate_version [os_endings]:
  "guardian \<noteq> [] \<Longrightarrow> directory \<noteq> [] \<Longrightarrow>
   os_ends (removal guardian directory) (terminate_version_process identity guardian directory)"
  unfolding terminate_version_process_def
  by (intro os_ends_bind os_fails_with_terminate os_fails_with_ask os_ends_then os_ends_cleanup os_silent_simps)

lemma os_fails_with_join [os_endings]: "os_fails_with E join_pipes"
  unfolding os_fails_with_def join_pipes_def join_pipe_def
  by (auto simp: os_simps split: pipe_reply.splits sum.splits)

lemma os_ends_check [os_endings]:
  assumes "guardian \<noteq> []" "directory \<noteq> []"
  shows "os_ends (removal guardian directory) (check_version_output guardian directory version status out err)"
proof -
  note cleaned = os_ends_fail_cleaned [OF assms]
  have "os_ends (removal guardian directory)
      (os_bind (cleanup_version_artifacts guardian directory) (\<lambda>cleanup.
         os_when (cleanup \<noteq> []) (verification_error ''runtime.guardian'' (str_trim (trim_start_matches CHR '';'' cleanup)))))"
    by (intro os_ends_then os_ends_cleanup [OF assms] os_silent_simps)
  with cleaned show ?thesis unfolding check_version_output_def Let_def by (auto split: if_split)
qed

lemma os_ends_report [os_endings]:
  "guardian \<noteq> [] \<Longrightarrow> directory \<noteq> [] \<Longrightarrow>
   os_ends (removal guardian directory) (report_pipes guardian directory version status pipes)"
  unfolding report_pipes_def
  by (cases pipes) (simp_all add: os_ends_check os_ends_fail_cleaned os_ends_bind [OF os_fails_with_ask])

lemma os_ends_running [os_endings]:
  assumes "guardian \<noteq> []" "directory \<noteq> []"
  shows "os_ends (removal guardian directory) (probe_running guardian directory version limit identity)"
  unfolding probe_running_def
  by (intro os_ends_steps os_ends_bind [OF os_fails_with_join] os_ends_report assms)
     (intro os_ends_then os_ends_terminate_version os_silent_simps assms)+

lemma os_fails_with_take_pipe [os_endings]:
  assumes "guardian \<noteq> []" "directory \<noteq> []"
  shows "os_fails_with (removal guardian directory) (take_pipe guardian directory name)"
  unfolding take_pipe_def
  by (intro os_fails_with_bind os_fails_with_ask os_fails_with_if os_fails_with_return os_ends_fails
        os_ends_fail_cleaned assms)

lemma os_fails_with_capture [os_endings]: "os_fails_with E capture_identity"
  unfolding capture_identity_def os_fails_with_def by (auto simp: os_simps split: option.splits)

lemma os_ends_spawned [os_endings]:
  assumes "guardian \<noteq> []" "directory \<noteq> []"
  shows "os_ends (removal guardian directory) (probe_spawned guardian directory version limit)"
  unfolding probe_spawned_def
  by (intro os_ends_bind [OF os_fails_with_capture] os_ends_sum os_ends_bind [OF os_fails_with_take_pipe]
        os_ends_running assms)
     (intro os_ends_bind [OF os_fails_with_ask] os_ends_then os_ends_discard os_silent_simps assms)

lemma probe_extracted_ends:
  assumes "guardian \<noteq> []" "directory \<noteq> []" "probe_path entrypoint = Inr search"
  shows "\<exists>l. snd (probe_extracted guardian directory entrypoint version limit v log) = removal guardian directory @ l"
proof -
  have failed: "os_ends (removal guardian directory)
      (os_bind (discard_guardian guardian directory) (\<lambda>_. os_fail e))" for e :: error
    by (intro os_ends_then os_ends_discard os_silent_simps assms)
  have spawned: "os_ends (removal guardian directory)
      (case r of
         Inl e \<Rightarrow>
           os_bind (discard_guardian guardian directory) (\<lambda>_.
           os_fail (version_error (''failed to execute pinned entrypoint guardian: '' @ io_text e)))
       | Inr _ \<Rightarrow> probe_spawned guardian directory version limit)" for r :: "io_error + unit"
    by (intro os_ends_sum failed os_ends_spawned assms)
  have "os_ends (removal guardian directory)
      (os_bind (spawn_guarded guardian entrypoint [''--version''] [(''PATH'', search)]) (\<lambda>spawned.
         case spawned of
           Inl e \<Rightarrow>
             os_bind (discard_guardian guardian directory) (\<lambda>_.
             os_fail (version_error (''failed to execute pinned entrypoint guardian: '' @ io_text e)))
         | Inr _ \<Rightarrow> probe_spawned guardian directory version limit))"
    unfolding spawn_guarded_def by (rule os_ends_bind [OF os_fails_with_ask spawned])
  then show ?thesis
    unfolding os_ends_def probe_extracted_def os_bind_apply [of "os_result _"] assms(3) by simp
qed

section \<open>Properties\<close>

lemma create_directory_loop_Inr:
  "create_guardian_directory_loop n parent prefix v log = (Inr (Inr p), log1) \<Longrightarrow> p \<noteq> []"
  by (induction n arbitrary: log) (auto simp: os_simps Let_def split: sum.splits if_splits)

text \<open>C36: Once the guardian of the version probe has been extracted, the probe ends, whatever the
  operating system answers, by removing the guardian and then its directory; the one exception is an
  entry point whose bundled search path can not be put into \<open>PATH\<close> (it contains a colon): then it makes
  no call at all after the extraction, and both stay behind.\<close>

theorem version_probe_removes_guardian:
  assumes "create_guardian_directory temp_dir ''vergerail-version'' v log = (Inr (Inr directory), log1)"
    and "extract_guardian g directory v log1 = (Inr (Inr guardian), log2)"
  shows "case probe_path entrypoint of
      Inr search \<Rightarrow> \<exists>l. snd (verify_version_with_timeout g temp_dir entrypoint version limit v log)
                      = RemoveDir directory # RemoveFile guardian # l
    | Inl e \<Rightarrow> verify_version_with_timeout g temp_dir entrypoint version limit v log = (Inl e, log2)"
proof -
  have run: "verify_version_with_timeout g temp_dir entrypoint version limit v log
      = probe_extracted guardian directory entrypoint version limit v log2"
    using assms by (simp add: verify_version_with_timeout_def os_simps io_try_def)
  have "guardian \<noteq> []" using extract_guardian_Inr [OF assms(2)] by auto
  moreover have "directory \<noteq> []"
    using create_directory_loop_Inr assms(1) by (auto simp: create_guardian_directory_def)
  ultimately show ?thesis
    using probe_extracted_ends [of guardian directory entrypoint _ version limit v log2]
    by (auto simp: run removal_def probe_extracted_def os_simps split: sum.split)
qed

lemma check_version_output_Inr:
  "check_version_output guardian directory version status out err v log = (Inr u, log1) \<Longrightarrow>
     \<not> snd out \<and> \<not> snd err \<and> fst status \<and> str_trim (fst out) = ''codex-cli '' @ version"
  by (auto simp: check_version_output_def Let_def fail_cleaned_def os_Inr split: if_splits)

lemma join_pipe_read:
  "join_pipe name k v log = (Inr (PipesRead out err), log1) \<longleftrightarrow>
     (\<exists>x. os_pipe v (JoinPipe name # log) = PipeRead (Inr x)
        \<and> k x v (JoinPipe name # log) = (Inr (PipesRead out err), log1))"
  by (cases "os_pipe v (JoinPipe name # log)") (auto simp: join_pipe_def os_Inr)

text \<open>C35: The version probe succeeds only if the entry point ended successfully in time, neither of its
  outputs exceeded the limit, and what it printed is, up to surrounding white space, the name of the
  program and exactly the locked version.\<close>

theorem version_accepted_only_if_printed:
  assumes "verify_version_with_timeout g temp_dir entrypoint version limit v log = (Inr (), log1)"
  shows "\<exists>l l1 l2 status out err. os_wait v (WaitChild # l) = ChildExited True status
     \<and> os_pipe v (JoinPipe ''stdout'' # l1) = PipeRead (Inr (out, False))
     \<and> os_pipe v (JoinPipe ''stderr'' # l2) = PipeRead (Inr (err, False))
     \<and> str_trim out = ''codex-cli '' @ version"
proof -
  from assms obtain guardian directory identity l l2 where
    "probe_running guardian directory version limit identity v l = (Inr (), l2)"
    by (auto simp: verify_version_with_timeout_def probe_extracted_def probe_spawned_def os_Inr)
  then obtain ok status pipes l3 where wait: "os_wait v (WaitChild # l) = ChildExited ok status"
    and pipes: "join_pipes v (WaitChild # l) = (Inr pipes, l3)"
    and rep: "report_pipes guardian directory version (ok, status) pipes v l3 = (Inr (), l2)"
    by (auto simp: probe_running_def os_Inr split: wait_reply.splits)
  from rep obtain out err where p: "pipes = PipesRead out err"
    and c: "check_version_output guardian directory version (ok, status) out err v l3 = (Inr (), l2)"
    by (auto simp: report_pipes_def fail_cleaned_def os_Inr split: pipes_read.splits)
  from pipes p have "os_pipe v (JoinPipe ''stdout'' # WaitChild # l) = PipeRead (Inr out)"
    "os_pipe v (JoinPipe ''stderr'' # JoinPipe ''stdout'' # WaitChild # l) = PipeRead (Inr err)"
    by (auto simp: join_pipes_def join_pipe_read)
  with wait check_version_output_Inr [OF c] show ?thesis
    by (cases out; cases err; intro exI conjI) auto
qed

end
