(* ===== verification/ManagerTheorems.thy ===== *)
theory ManagerTheorems
  imports OsCalls RuntimeLockTheorems VersionTheorems
begin

text \<open>
  What the discovery and installation of a runtime guarantee: without permission to download nothing
  uses the network; the extraction of an archive touches only the locked paths below its own directory;
  an installation is committed only after the archive had the locked identity; and whatever is resolved
  has been verified and has run.
\<close>

section \<open>Local calls\<close>

text \<open>Neither the network nor the move of a directory to its final place.\<close>

fun is_local :: "os_call \<Rightarrow> bool" where
  "is_local (HttpGet url) = False"
| "is_local HttpRead = False"
| "is_local (Rename p q) = False"
| "is_local c = True"

lemma is_read_local: "is_read c \<Longrightarrow> is_local c"
  by (cases c) auto

lemma os_only_read_local: "os_only is_read m \<Longrightarrow> os_only is_local m"
  by (erule os_only_mono) (rule is_read_local)

lemmas [os_only] = os_only_verify_filesystem [THEN os_only_read_local]

lemma local_remove [os_only]: "os_only is_local (remove_guardian p)" "os_only is_local (remove_guardian_directory p)"
  unfolding remove_guardian_def remove_guardian_directory_def by (intro os_only; simp)+

lemma local_cleanup [os_only]: "os_only is_local (cleanup_version_artifacts g d)"
  unfolding cleanup_version_artifacts_def Let_def by (intro os_only)

lemma local_discard [os_only]: "os_only is_local (discard_guardian g d)"
  unfolding discard_guardian_def by (intro os_only)

lemma local_fail_cleaned [os_only]: "os_only is_local (fail_cleaned g d report)"
  unfolding fail_cleaned_def by (intro os_only)

lemma local_terminate_guardian [os_only]: "os_only is_local (terminate_guardian i)"
  unfolding terminate_guardian_def by (intro os_only) simp_all

lemma local_terminate_version [os_only]: "os_only is_local (terminate_version_process i g d)"
  unfolding terminate_version_process_def by (intro os_only) simp_all

lemma local_create_guardian_loop [os_only]: "os_only is_local (create_guardian_directory_loop n parent name)"
proof (induction n)
  case 0
  show ?case unfolding create_guardian_directory_loop.simps by (intro os_only)
next
  case (Suc n)
  then show ?case unfolding create_guardian_directory_loop.simps Let_def by (intro os_only) simp_all
qed

lemma local_create_guardian [os_only]: "os_only is_local (create_guardian_directory parent name)"
  unfolding create_guardian_directory_def by (intro os_only)

lemma local_extract_guardian [os_only]: "os_only is_local (extract_guardian g d)"
  unfolding extract_guardian_def verify_private_directory_def set_private_executable_permissions_def Let_def
  by (intro os_only) simp_all

lemma local_check_version [os_only]: "os_only is_local (check_version_output g d version status out err)"
  unfolding check_version_output_def Let_def by (intro os_only)

lemma local_join_pipes [os_only]: "os_only is_local join_pipes"
  unfolding join_pipes_def join_pipe_def by (intro os_only; auto intro!: os_only split: sum.split)

lemma local_report_pipes [os_only]: "os_only is_local (report_pipes g d version status pipes)"
  unfolding report_pipes_def by (cases pipes) (auto intro!: os_only)

lemma local_running [os_only]: "os_only is_local (probe_running g d version limit i)"
  unfolding probe_running_def by (intro os_only) simp_all

lemma local_take_pipe [os_only]: "os_only is_local (take_pipe g d name)"
  unfolding take_pipe_def by (intro os_only) simp_all

lemma local_capture [os_only]: "os_only is_local capture_identity"
  unfolding capture_identity_def by (intro os_only) simp_all

lemma local_spawn [os_only]: "os_only is_local (spawn_guarded g e args vars)"
  unfolding spawn_guarded_def by (intro os_only) simp_all

lemma local_probe [os_only]: "os_only is_local (verify_version_with_timeout g temp entrypoint version limit)"
  unfolding verify_version_with_timeout_def probe_extracted_def probe_spawned_def
  by (intro os_only) simp_all

lemma local_join_handle [os_only]: "os_only is_local (join_verification_handle rp k op wait)"
  unfolding join_verification_handle_def by (intro os_only)

lemma local_remaining [os_only]: "os_only is_local (remaining_deadline op)"
  unfolding remaining_deadline_def by (intro os_only) simp_all

lemma local_join_blocking [os_only]: "os_only is_local (join_blocking_with_deadline rp k d op)"
  unfolding join_blocking_with_deadline_def by (intro os_only) simp_all

lemma local_process_spawn [os_only]: "os_only is_local (verification_process_spawn ru k)"
  unfolding verification_process_spawn_def helper_root_def by (intro os_only) simp_all

lemma local_process_terminate [os_only]: "os_only is_local (verification_process_terminate pr)"
  unfolding verification_process_terminate_def by (intro os_only) simp_all

lemma local_helper_stderr [os_only]: "os_only is_local helper_stderr"
  unfolding helper_stderr_def by (intro os_only) simp_all

lemma local_finish_process [os_only]: "os_only is_local (finish_process_status pr status op)"
  unfolding finish_process_status_def by (intro os_only) simp_all

lemma local_join_process [os_only]: "os_only is_local (join_process_with_deadline pr op)"
  unfolding join_process_with_deadline_def helper_wait_failed_def by (intro os_only) simp_all

lemma local_job [os_only]: "os_only is_local (run_verification_job ru k d op)"
  unfolding run_verification_job_def verification_job_spawn_def join_with_deadline_def by (intro os_only)

lemma local_package_verify [os_only]: "os_only is_local (package_verify ru k)"
  unfolding package_verify_def package_verify_with_timeout_def probe_version_def by (intro os_only)

section \<open>Private directories\<close>

text \<open>Creating a directory makes and secures only parts of its path.\<close>

lemma only_verify_open [os_only]:
  "C (Lstat p) \<Longrightarrow> C (Fstat p) \<Longrightarrow> os_only C (verify_open_directory_path p op)"
  unfolding verify_open_directory_path_def by (intro os_only)

lemma only_secure_directory:
  "C (Lstat p) \<Longrightarrow> C (Fstat p) \<Longrightarrow> C (OpenFile p) \<Longrightarrow> C (SetMode p 448) \<Longrightarrow>
   os_only C (secure_private_directory p op)"
  unfolding secure_private_directory_def by (intro os_only)

lemma only_existing_ancestor:
  "(\<And>p. p \<in> set ps \<Longrightarrow> C (Lstat p)) \<Longrightarrow> os_only C (existing_ancestor ps missing)"
  by (induction ps missing rule: existing_ancestor.induct) (auto intro!: os_only)

lemma existing_ancestor_missing:
  "existing_ancestor ps missing v log = (Inr (p, md, dirs), log1) \<Longrightarrow> set dirs \<subseteq> set ps \<union> set missing"
proof (induction ps missing arbitrary: log rule: existing_ancestor.induct)
  case (2 current parents missing)
  then show ?case by (fastforce simp: os_Inr os_lstat_def split: if_splits)
qed simp

definition part_of :: "path \<Rightarrow> path \<Rightarrow> bool" where
  "part_of q p \<longleftrightarrow> (\<exists>r. p = q @ r)"

lemma part_of_refl [simp]: "part_of p p"
  by (simp add: part_of_def)

lemma part_of_ancestor: "q \<in> set (path_ancestors p) \<Longrightarrow> part_of q p"
  unfolding part_of_def by (rule path_ancestors_prefix)

lemma only_create_private_directory:
  assumes "\<And>q. part_of q p \<Longrightarrow> C (CreateDir q) \<and> C (SetMode q 448) \<and> C (Lstat q) \<and> C (Fstat q) \<and> C (OpenFile q)"
  shows "os_only C (create_private_directory p)"
proof -
  have each: "os_only C (os_each create_missing_directory dirs ())" if "\<forall>q \<in> set dirs. part_of q p" for dirs
    unfolding create_missing_directory_def
    by (intro os_only only_secure_directory) (use assms that in auto)
  have rest: "os_only C (case x of (existing, md, missing) \<Rightarrow>
      os_bind (os_when (md_kind md \<noteq> Directory)
                (install_error (path_display existing @ '' must be a real, non-symlink runtime directory''))) (\<lambda>_.
      os_bind (os_each create_missing_directory missing ()) (\<lambda>_.
      secure_private_directory p ''runtime.install'')))"
    if "existing_ancestor (path_ancestors p) [] v log = (Inr x, log1)" for v log log1 x
  proof -
    obtain existing md missing where x: "x = (existing, md, missing)" by (cases x) auto
    have "\<forall>q \<in> set missing. part_of q p"
      using existing_ancestor_missing [OF that [unfolded x]] part_of_ancestor by auto
    then show ?thesis using assms by (auto simp: x intro!: os_only each only_secure_directory)
  qed
  show ?thesis
    unfolding create_private_directory_def
    by (intro os_only_bind os_only_when os_only_bind_result [OF _ rest] only_existing_ancestor)
       (use assms part_of_ancestor in blast)
qed

section \<open>Extraction\<close>

text \<open>What an extraction may call: files are created and written only at the locked paths below the
  staging directory, and directories only on the way to them.\<close>

definition extraction_targets :: "path \<Rightarrow> runtime_lock \<Rightarrow> path set" where
  "extraction_targets staging lock = (\<lambda>a. staging @ ra_path a) ` set (rl_artifacts lock)"

definition on_the_way :: "path \<Rightarrow> runtime_lock \<Rightarrow> path \<Rightarrow> bool" where
  "on_the_way staging lock q \<longleftrightarrow> part_of q staging \<or> (\<exists>p \<in> extraction_targets staging lock. part_of q p)"

fun extraction_call :: "path \<Rightarrow> runtime_lock \<Rightarrow> os_call \<Rightarrow> bool" where
  "extraction_call staging lock (CreateNew p) = (p \<in> extraction_targets staging lock)"
| "extraction_call staging lock (WriteAll p bytes) = (p \<in> extraction_targets staging lock)"
| "extraction_call staging lock (SyncAll p) = (p \<in> extraction_targets staging lock)"
| "extraction_call staging lock (SetMode p m) = on_the_way staging lock p"
| "extraction_call staging lock (CreateDir p) = on_the_way staging lock p"
| "extraction_call staging lock (OpenArchive p) = True"
| "extraction_call staging lock (Fstat p) = True"
| "extraction_call staging lock c = is_read c"

lemma on_the_way_target: "p \<in> extraction_targets staging lock \<Longrightarrow> part_of q p \<Longrightarrow> on_the_way staging lock q"
  by (auto simp: on_the_way_def)

lemma only_extract_artifact:
  assumes "path_join staging relative \<in> extraction_targets staging lock"
  shows "os_only (extraction_call staging lock) (extract_artifact staging relative executable content)"
proof -
  let ?p = "path_join staging relative"
  have parents: "os_only (extraction_call staging lock) (create_private_directory q)"
    if "path_parent ?p = Some q" for q
  proof (rule only_create_private_directory)
    fix r assume "part_of r q"
    moreover from that have "?p = q @ [last ?p]" by (auto simp: path_parent_def split: if_splits)
    ultimately have "part_of r ?p" unfolding part_of_def by (metis append_assoc)
    from on_the_way_target [OF assms this]
    show "extraction_call staging lock (CreateDir r) \<and> extraction_call staging lock (SetMode r 448)
      \<and> extraction_call staging lock (Lstat r) \<and> extraction_call staging lock (Fstat r)
      \<and> extraction_call staging lock (OpenFile r)" by simp
  qed
  moreover have "on_the_way staging lock ?p" using on_the_way_target [OF assms] by simp
  ultimately show ?thesis
    unfolding extract_artifact_def Let_def by (intro os_only) (use assms in simp_all)
qed

lemma expected_artifact_path:
  "map_of (rev (expected_artifacts lock)) relative = Some x \<Longrightarrow> \<exists>a \<in> set (rl_artifacts lock). ra_path a = relative"
  by (auto simp: expected_artifacts_def dest!: map_of_SomeD)

lemma only_extract_entry:
  assumes plain: "\<forall>a \<in> set (rl_artifacts (pr_lock pinned)). path_plain (ra_path a)"
  shows "os_only (extraction_call staging (pr_lock pinned)) (extract_entry pinned staging item extracted)"
proof -
  have target: "path_join staging relative \<in> extraction_targets staging (pr_lock pinned)"
    if "map_of (rev (expected_artifacts (pr_lock pinned))) relative = Some x" for relative x
    using expected_artifact_path [OF that] plain path_join_plain by (auto simp: extraction_targets_def)
  show ?thesis
    unfolding extract_entry_def by (intro os_only only_extract_artifact) (rule target)
qed

lemma only_extract_runtime:
  assumes "\<forall>a \<in> set (rl_artifacts (pr_lock pinned)). path_plain (ra_path a)"
  shows "os_only (extraction_call staging (pr_lock pinned)) (extract_runtime archive staging pinned)"
proof -
  have "os_only (extraction_call staging (pr_lock pinned)) (create_private_directory staging)"
    by (rule only_create_private_directory) (auto simp: on_the_way_def)
  then show ?thesis
    unfolding extract_runtime_def by (intro os_only only_extract_entry assms) simp_all
qed

end
