(* ===== verification/InstallTheorems.thy ===== *)
theory InstallTheorems
  imports ManagerTheorems
begin

text \<open>
  The properties of the installation and the resolution of a runtime: the network, the extraction, the
  committed archive and the verification of what is resolved.
\<close>

section \<open>The network\<close>

lemma local_create_private [os_only]: "os_only is_local (create_private_directory p)"
  by (rule only_create_private_directory) simp

lemma local_secure_directory [os_only]: "os_only is_local (secure_private_directory p op)"
  by (rule only_secure_directory) simp_all

lemma local_remove_path [os_only]: "os_only is_local (remove_path p)"
  unfolding remove_path_def by (intro os_only) simp_all

lemma local_no_symlink: "os_only is_local (no_symlink_loop root ps)"
proof (induction ps)
  case Nil
  show ?case unfolding no_symlink_loop.simps by (intro os_only)
next
  case (Cons p ps)
  then show ?case unfolding no_symlink_loop.simps by (intro os_only) simp_all
qed

lemma local_system_candidates [os_only]: "os_only is_local system_candidates"
  unfolding system_candidates_def filter_file_def by (intro os_only) simp_all

lemma local_candidate_root [os_only]: "os_only is_local (candidate_root canonical ps)"
proof (induction ps)
  case Nil
  show ?case unfolding candidate_root.simps by (intro os_only)
next
  case (Cons p ps)
  then show ?case unfolding candidate_root.simps by (intro os_only) simp_all
qed

lemma local_system_candidate [os_only]: "os_only is_local (package_for_system_candidate c lock)"
  unfolding package_for_system_candidate_def by (intro os_only) simp_all

lemma local_try_candidates [os_only]: "os_only is_local (try_candidates ru lock cs)"
proof (induction cs)
  case Nil
  show ?case unfolding try_candidates.simps by (intro os_only)
next
  case (Cons c cs)
  then show ?case unfolding try_candidates.simps by (intro os_only)
qed

lemma local_resolve_managed:
  assumes "rs_download_policy rs = NeverDownload"
  shows "os_only is_local (resolve_managed ru pinned rs)"
  unfolding resolve_managed_def default_cache_root_def check_cache_root_def ensure_no_symlink_components_def
    try_managed_def Let_def
  by (intro os_only local_no_symlink) (simp_all add: assms)

lemma local_resolve:
  assumes "rs_download_policy rs = NeverDownload \<or> rs_explicit_root rs \<noteq> None"
  shows "os_only is_local (resolve ru metadata rs)"
  unfolding resolve_def Let_def
  by (intro os_only) (use assms local_resolve_managed in auto)

text \<open>C21: With downloads disabled, or with a root given by the caller, the resolution of a runtime never
  uses the network, however it ends.\<close>

theorem resolve_stays_local:
  assumes "rs_download_policy rs = NeverDownload \<or> rs_explicit_root rs \<noteq> None"
    and "c \<in> set (snd (resolve ru metadata rs v []))"
  shows "c \<noteq> HttpRead \<and> c \<noteq> HttpGet url"
proof -
  have "extends is_local (snd (resolve ru metadata rs v [])) []"
    using local_resolve [OF assms(1)] by (simp add: os_only_def)
  from extends_new [OF this assms(2)] show ?thesis by (cases c) simp_all
qed

section \<open>The extraction\<close>

lemma extract_entry_extracted:
  assumes "extract_entry pinned staging item s v log = (Inr t, log1)"
  shows "t = s \<or> (\<exists>relative. t = relative # s \<and> relative \<notin> set s
     \<and> relative \<in> ra_path ` set (rl_artifacts (pr_lock pinned)))"
proof -
  from assms obtain entry p where "item = Inr entry" "ae_path entry = Inr p"
    by (auto simp: extract_entry_def os_Inr)
  with assms show ?thesis
    by (auto simp: extract_entry_def os_Inr dest!: expected_artifact_path)
qed

lemma extract_runtime_complete:
  assumes "extract_runtime archive staging pinned v log = (Inr (), log1)"
  obtains entries extracted l l1 where
    "os_each (extract_entry pinned staging) entries [] v l = (Inr extracted, l1)"
    "distinct extracted" "set extracted = ra_path ` set (rl_artifacts (pr_lock pinned))"
proof -
  let ?paths = "map ra_path (rl_artifacts (pr_lock pinned))"
  from assms obtain entries extracted l l1 where
    each: "os_each (extract_entry pinned staging) entries [] v l = (Inr extracted, l1)"
    and len: "length extracted = length (remdups ?paths)"
    by (auto simp: extract_runtime_def os_Inr)
  have inv: "distinct extracted \<and> set extracted \<subseteq> set ?paths"
    by (rule os_each_invariant [OF each, where J = "\<lambda>_ s. distinct s \<and> set s \<subseteq> set ?paths"])
       (auto dest!: extract_entry_extracted)
  have "card (set extracted) = card (set ?paths)"
    using inv len by (metis distinct_card length_remdups_card_conv)
  with inv have "set extracted = set ?paths" by (intro card_subset_eq) auto
  with each inv that show ?thesis by simp
qed

text \<open>C20: Whatever an archive holds, its extraction creates and writes files only at the locked paths
  below the staging directory, makes and changes the mode of directories only on the way to them, and
  removes, renames and starts nothing.\<close>

theorem extraction_confined:
  assumes "list_all artifact_ok (rl_artifacts (pr_lock pinned))"
    and "c \<in> set (snd (extract_runtime archive staging pinned v []))"
  shows "extraction_call staging (pr_lock pinned) c"
proof -
  have "\<forall>a \<in> set (rl_artifacts (pr_lock pinned)). path_plain (ra_path a)"
    using assms(1) by (auto simp: list_all_iff artifact_ok_def)
  from only_extract_runtime [OF this, of staging archive]
  have "extends (extraction_call staging (pr_lock pinned)) (snd (extract_runtime archive staging pinned v [])) []"
    by (simp add: os_only_def)
  from extends_new [OF this assms(2)] show ?thesis by simp
qed

section \<open>The committed archive\<close>

text \<open>The content of a file that the calls of a log have created and written.\<close>

fun file_bytes :: "path \<Rightarrow> os_call list \<Rightarrow> string" where
  "file_bytes p [] = []"
| "file_bytes p (c # log) =
     (case c of
        CreateNew q \<Rightarrow> if q = p then [] else file_bytes p log
      | WriteAll q bytes \<Rightarrow> if q = p then file_bytes p log @ bytes else file_bytes p log
      | _ \<Rightarrow> file_bytes p log)"

lemma download_loop_bytes:
  "download_loop destination limit v log received = (Inr all, log1) \<Longrightarrow>
   file_bytes destination log = received \<Longrightarrow> file_bytes destination log1 = all"
proof (induction destination limit v log received rule: download_loop.induct)
  case (1 destination limit v log received)
  show ?case
  proof (cases "limit \<le> length received")
    case True
    with 1 show ?thesis by (simp add: download_loop.simps)
  next
    case False
    show ?thesis
    proof (cases "os_data v (HttpRead # log)")
      case (Inl e)
      with 1(2) False show ?thesis by (simp add: download_loop.simps)
    next
      case (Inr data)
      let ?bytes = "take (min VERIFICATION_READ_CHUNK_BYTES (limit - length received)) data"
      let ?log3 = "WriteAll destination ?bytes # Elapsed # HttpRead # log"
      show ?thesis
      proof (cases "?bytes = []")
        case True
        with 1(2,3) False Inr show ?thesis
          by (auto simp: download_loop.simps [of destination limit v log received] Let_def)
      next
        case nonempty: False
        with 1(2) False Inr have late: "\<not> DOWNLOAD_TOTAL_TIMEOUT < os_count v (Elapsed # HttpRead # log)"
          and ok: "os_unit v ?log3 = Inr ()"
          and run: "download_loop destination limit v ?log3 (received @ ?bytes) = (Inr all, log1)"
          by (subst (asm) download_loop.simps; auto simp: Let_def split: if_splits sum.splits)+
        from 1(1) [OF False Inr refl refl refl refl nonempty late ok run] 1(3) show ?thesis by simp
      qed
    qed
  qed
qed

definition archive_identified :: "runtime_params \<Rightarrow> runtime_download \<Rightarrow> os_call list \<Rightarrow> bool" where
  "archive_identified rp dl log \<longleftrightarrow>
     (\<exists>archive l. extends (\<lambda>_. True) log l \<and> length (file_bytes archive l) = rd_bytes dl
        \<and> format_digest (rp_digest rp (file_bytes archive l)) = rd_sha256 dl)"

definition commits_identified :: "runtime_params \<Rightarrow> runtime_download \<Rightarrow> path \<Rightarrow> os_env \<Rightarrow> os_call list \<Rightarrow> bool" where
  "commits_identified rp dl final v log \<longleftrightarrow>
     (\<forall>a b. Rename a b \<in> set log \<longrightarrow> b = final \<and> archive_identified rp dl log)"

fun no_commit :: "os_call \<Rightarrow> bool" where
  "no_commit (Rename p q) = False"
| "no_commit c = True"

lemma local_no_commit: "is_local c \<Longrightarrow> no_commit c"
  by (cases c) auto

lemma extraction_no_commit: "extraction_call staging lock c \<Longrightarrow> no_commit c"
  by (cases c) auto

lemma archive_identified_later:
  assumes "archive_identified rp dl l" "extends C log l"
  shows "archive_identified rp dl log"
proof -
  from assms(1) obtain archive l0 where *: "extends (\<lambda>_. True) l l0"
    "length (file_bytes archive l0) = rd_bytes dl"
    "format_digest (rp_digest rp (file_bytes archive l0)) = rd_sha256 dl"
    by (auto simp: archive_identified_def)
  have "extends (\<lambda>_. True) log l0"
    by (rule extends_trans [OF extends_mono [OF assms(2)] *(1)]) simp
  with *(2,3) show ?thesis by (auto simp: archive_identified_def)
qed

lemma keeps_no_commit: "os_only no_commit m \<Longrightarrow> os_keeps (commits_identified rp dl final) m"
  unfolding os_keeps_def commits_identified_def
proof (intro allI impI)
  fix v log a b
  assume m: "os_only no_commit m"
    and all: "\<forall>a b. Rename a b \<in> set log \<longrightarrow> b = final \<and> archive_identified rp dl log"
    and new: "Rename a b \<in> set (snd (m v log))"
  from m have ext: "extends no_commit (snd (m v log)) log" by (simp add: os_only_def)
  have "Rename a b \<in> set log" using extends_new [OF ext new] by auto
  with all archive_identified_later [OF _ ext] show "b = final \<and> archive_identified rp dl (snd (m v log))"
    by blast
qed

lemma keeps_local [os_keeps]: "os_only is_local m \<Longrightarrow> os_keeps (commits_identified rp dl final) m"
  by (rule keeps_no_commit) (erule os_only_mono, rule local_no_commit)

lemma download_loop_calls: "extends no_commit (snd (download_loop destination limit v log received)) log"
proof (induction destination limit v log received rule: download_loop.induct)
  case (1 destination limit v log received)
  have three: "extends no_commit l log"
    if "extends no_commit l (WriteAll destination bytes # Elapsed # HttpRead # log)" for l bytes
    by (rule extends_after [OF extends_after [OF extends_after [OF that]]]) simp_all
  have "extends no_commit (HttpRead # log) log" "extends no_commit (Elapsed # HttpRead # log) log"
    by (simp_all add: extends_after [OF extends_Cons])
  moreover have "extends no_commit (WriteAll destination bytes # Elapsed # HttpRead # log) log" for bytes
    by (rule three [OF extends_refl])
  moreover have "extends no_commit (snd (download_loop destination limit v
        (WriteAll destination bytes # Elapsed # HttpRead # log) (received @ bytes))) log"
    if "\<not> limit \<le> length received" "os_data v (HttpRead # log) = Inr data" "bytes \<noteq> []"
      "\<not> DOWNLOAD_TOTAL_TIMEOUT < os_count v (Elapsed # HttpRead # log)"
      "os_unit v (WriteAll destination bytes # Elapsed # HttpRead # log) = Inr ()"
      "bytes = take (min VERIFICATION_READ_CHUNK_BYTES (limit - length received)) data" for data bytes
    by (rule three) (rule 1 [OF that(1,2,6) refl refl refl that(3,4,5)])
  ultimately show ?case
    by (subst download_loop.simps) (simp add: Let_def split: sum.split)
qed

lemma only_download: "os_only no_commit (download_archive digest destination dl)"
proof -
  have "os_only no_commit (\<lambda>v log. download_loop destination limit v log [])" for limit
    by (simp add: os_only_def download_loop_calls)
  then show ?thesis unfolding download_archive_def by (intro os_only) simp_all
qed

lemma download_archive_Inr:
  assumes "download_archive (rp_digest rp) destination dl v log = (Inr (), log1)"
  shows "archive_identified rp dl log1"
proof -
  from assms obtain received l l1 where
    run: "download_loop destination (rd_bytes dl + 1) v (SetMode destination 384 # CreateNew destination # l) []
      = (Inr received, l1)"
    and *: "log1 = SyncAll destination # l1" "length received = rd_bytes dl"
      "format_digest (rp_digest rp received) = rd_sha256 dl"
    by (auto simp: download_archive_def os_Inr)
  from download_loop_bytes [OF run] have "file_bytes destination log1 = received" by (simp add: *(1))
  with * show ?thesis unfolding archive_identified_def by (metis extends_refl)
qed

lemma keeps_install_attempt:
  assumes "list_all artifact_ok (rl_artifacts (pr_lock pinned))"
  shows "os_keeps (commits_identified rp (pr_download pinned) final) (install_attempt rp pinned archive staging final)"
  unfolding os_keeps_def
proof (intro allI impI)
  fix v log
  let ?I = "commits_identified rp (pr_download pinned) final"
  let ?rest = "os_bind (extract_runtime archive staging pinned) (\<lambda>_.
     os_bind (case path_parent final of
                None \<Rightarrow> os_return () | Some parent \<Rightarrow> create_private_directory parent) (\<lambda>_.
     os_bind (io_try (\<lambda>t. install_error (''cannot commit installed runtime: '' @ t))
                (ask os_unit (Rename staging final))) (\<lambda>_.
     os_return \<lparr>io_root = final, io_installed = True\<rparr>)))"
  assume I: "?I v log"
  have "\<forall>a \<in> set (rl_artifacts (pr_lock pinned)). path_plain (ra_path a)"
    using assms by (auto simp: list_all_iff artifact_ok_def)
  from only_extract_runtime [OF this] have ex: "os_only no_commit (extract_runtime archive staging pinned)"
    by (rule os_only_mono) (rule extraction_no_commit)
  obtain r log1 where run: "download_archive (rp_digest rp) archive (pr_download pinned) v log = (r, log1)"
    by fastforce
  have I1: "?I v log1" by (rule os_keepsD2 [OF keeps_no_commit [OF only_download] I run])
  show "?I v (snd (install_attempt rp pinned archive staging final v log))"
  proof (cases r)
    case (Inl e)
    with run I1 show ?thesis by (simp add: install_attempt_def os_bind_apply)
  next
    case (Inr u)
    then have id: "archive_identified rp (pr_download pinned) log1"
      using download_archive_Inr [of rp archive "pr_download pinned" v log log1] run by simp
    let ?J = "\<lambda>v log. ?I v log \<and> archive_identified rp (pr_download pinned) log"
    have keep: "os_keeps ?J m" if "os_only no_commit m" for m :: "'x os"
      using keeps_no_commit [OF that] that archive_identified_later
      unfolding os_keeps_def os_only_def by blast
    have commit: "os_keeps ?J (io_try (\<lambda>t. install_error (''cannot commit installed runtime: '' @ t))
                (ask os_unit (Rename staging final)))"
      by (intro os_keeps_try os_keeps_ask)
         (auto simp: commits_identified_def intro: archive_identified_later [OF _ extends_Cons [of "\<lambda>_. True"]])
    have parents: "os_only no_commit (case path_parent final of
        None \<Rightarrow> os_return () | Some parent \<Rightarrow> create_private_directory parent)"
      by (intro os_only os_only_mono [OF local_create_private local_no_commit])
    have "os_keeps ?J ?rest"
      by (rule os_keeps_bind [OF keep [OF ex]], rule os_keeps_bind [OF keep [OF parents]],
          rule os_keeps_bind [OF commit], rule os_keeps_return)
    then have "?J v (snd (?rest v log1))" using I1 id unfolding os_keeps_def by blast
    then show ?thesis using run Inr by (simp add: install_attempt_def os_bind_apply [of "download_archive _ _ _"])
  qed
qed

lemma keeps_install_managed:
  assumes "list_all artifact_ok (rl_artifacts (pr_lock pinned))"
  shows "os_keeps (commits_identified rp (pr_download pinned) (path_join root (managed_relative_root (pr_lock pinned))))
           (install_managed rp root pinned)"
proof -
  let ?I = "commits_identified rp (pr_download pinned) (path_join root (managed_relative_root (pr_lock pinned)))"
  have stale: "os_only is_local (cleanup_stale_installation_artifacts root)"
    unfolding cleanup_stale_installation_artifacts_def remove_if_stale_def Let_def by (intro os_only) simp_all
  have lock: "os_only is_local (verify_open_lock_path p)" for p
    unfolding verify_open_lock_path_def by (intro os_only) simp_all
  have reuse: "os_only is_local (reuse_or_clear rp p l)" for p l
    unfolding reuse_or_clear_def by (intro os_only) simp_all
  have clean: "os_only is_local (cleanup_installation_attempt p q)" for p q
    unfolding cleanup_installation_attempt_def collect_failure_def remove_if_present_def
    by (intro os_only) simp_all
  have ask_local: "is_local c \<Longrightarrow> os_keeps ?I (ask reply c)" for c and reply :: "os_env \<Rightarrow> os_call list \<Rightarrow> 'x"
    by (intro keeps_local os_only_ask)
  have "os_keeps ?I (install_fresh rp root pinned (path_join root (managed_relative_root (pr_lock pinned))))"
    unfolding install_fresh_def Let_def
    by (intro os_keeps_bind os_keeps_try os_keeps_attempt os_keeps_result keeps_install_attempt [OF assms]
        keeps_local [OF clean] keeps_local [OF os_only_ask]) simp_all
  then show ?thesis
    unfolding install_managed_def Let_def
    by (intro os_keeps_bind os_keeps_try os_keeps_if os_keeps_return keeps_local [OF stale] keeps_local [OF lock]
        keeps_local [OF reuse] keeps_local [OF local_create_private] keeps_local [OF os_only_ask]) simp_all
qed

text \<open>C13: Nothing is moved to the place of a managed runtime before an archive of exactly the locked size
  and digest has been written, whatever the download, the archive and the file system do; and nothing is
  moved anywhere else.\<close>

theorem committed_archive_identified:
  assumes "list_all artifact_ok (rl_artifacts (pr_lock pinned))"
    and "Rename a b \<in> set (snd (install_managed rp root pinned v []))"
  shows "b = path_join root (managed_relative_root (pr_lock pinned))
     \<and> archive_identified rp (pr_download pinned) (snd (install_managed rp root pinned v []))"
proof -
  have "commits_identified rp (pr_download pinned) (path_join root (managed_relative_root (pr_lock pinned))) v
      (snd (install_managed rp root pinned v []))"
    by (rule os_keepsD [OF keeps_install_managed [OF assms(1)]]) (simp add: commits_identified_def)
  with assms(2) show ?thesis by (simp add: commits_identified_def)
qed

section \<open>What is resolved\<close>

definition package_verified :: "runtime_setup \<Rightarrow> runtime_package \<Rightarrow> os_env \<Rightarrow> bool" where
  "package_verified ru k v \<longleftrightarrow>
     verify_identity ru (rk_lock k) = Inr ()
     \<and> (\<exists>w l l1 l2 l3. verify_filesystem_with_control (ru_params ru) k v l = (Inr w, l1)
          \<and> probe_version ru w (rk_lock k) VERSION_TIMEOUT v l2 = (Inr (), l3))"

lemma package_verify_Inr: "package_verify ru k v log = (Inr w, log1) \<Longrightarrow> package_verified ru k v"
  by (cases "os_wait v (JoinWorker # log)")
     (auto simp: package_verify_def package_verify_with_timeout_def run_verification_job_def
       verification_job_spawn_def join_with_deadline_def join_blocking_with_deadline_def
       join_verification_handle_def package_verified_def os_Inr)

lemma try_candidates_Inr:
  "try_candidates ru lock cs v log = (Inr (Some r), log1) \<Longrightarrow>
   rk_lock (rr_package r) = lock \<and> package_verified ru (rr_package r) v"
proof (induction cs arbitrary: log)
  case (Cons c cs)
  then show ?case
    by (auto simp: os_Inr package_for_system_candidate_def dest: package_verify_Inr)
qed simp

lemma resolve_managed_Inr:
  "resolve_managed ru pinned rs v log = (Inr r, log1) \<Longrightarrow>
   rk_lock (rr_package r) = pr_lock pinned \<and> package_verified ru (rr_package r) v"
  by (auto simp: resolve_managed_def try_managed_def install_and_verify_def Let_def os_Inr
      dest: package_verify_Inr split: if_splits wait_reply.splits)

text \<open>C11: A runtime is handed out, from whichever origin, only with the pinned lock and only after its
  schema and host fit, its files have been verified and its entry point has printed its version; a root
  that the caller gives is the one that is returned.\<close>

theorem resolved_runtime_verified:
  assumes "resolve ru metadata rs v log = (Inr r, log1)"
  shows "\<exists>p. pinned_runtime_load metadata = Inr p \<and> rk_lock (rr_package r) = pr_lock p
     \<and> package_verified ru (rr_package r) v
     \<and> (\<forall>root. rs_explicit_root rs = Some root \<longrightarrow>
          rk_root (rr_package r) = root \<and> rr_origin r = ExplicitRoot)"
  using assms
  by (auto simp: resolve_def Let_def os_Inr dest: package_verify_Inr try_candidates_Inr resolve_managed_Inr
      split: option.splits if_splits)

end
