(* ===== verification/RuntimeWitnesses.thy ===== *)
theory RuntimeWitnesses
  imports RuntimePackageTheorems InstallTheorems
begin

text \<open>
  A concrete world: a package with one executable and its manifest on a disk, an operating system that
  does what it is asked, and an entry point that prints its version. The properties of the runtime are
  applied to it.
\<close>

section \<open>The world\<close>

definition demo_guardian :: guardian_params where
  "demo_guardian = \<lparr>gp_bytes = ''g'', gp_sha256 = ''67'', gp_digest = (\<lambda>s. s)\<rparr>"

definition demo_meta :: "file_kind \<Rightarrow> file_metadata" where
  "demo_meta kind = \<lparr>md_kind = kind, md_mode = 448, md_len = 0, md_dev = 0, md_ino = 0\<rparr>"

definition demo_os :: os_env where
  "demo_os =
     \<lparr>os_bool = (\<lambda>_. True), os_meta = (\<lambda>_. Inr (demo_meta Directory)),
      os_path = (\<lambda>_. Inl \<lparr>io_kind = OtherIo, io_text = []\<rparr>),
      os_dir = (\<lambda>_. Inr []), os_data = (\<lambda>_. Inr []), os_unit = (\<lambda>_. Inr ()),
      os_num = (\<lambda>_. Inr 0), os_archive = (\<lambda>_. Inr []), os_var = (\<lambda>_. None),
      os_count = (\<lambda>_. 1), os_id = (\<lambda>_. Some 7), os_wait = (\<lambda>_. ChildExited True ''exit status: 0''),
      os_pipe = (\<lambda>l. case l of JoinPipe name # _ \<Rightarrow>
                   (if name = ''stdout'' then PipeRead (Inr (''codex-cli 1'' @ [CHR 0x0A], False))
                    else PipeRead (Inr ([], False))) | _ \<Rightarrow> PipeOpen)\<rparr>"

definition demo_root :: path where
  "demo_root = [RootDir, Normal ''r'']"

definition demo_bin :: path where
  "demo_bin = demo_root @ [Normal ''bin'']"

definition demo_files :: "path list" where
  "demo_files = [demo_bin @ [Normal ''codex''], demo_root @ [Normal ''codex-package.json'']]"

definition demo_entry :: "file_kind \<Rightarrow> string \<Rightarrow> io_error + dir_entry" where
  "demo_entry kind name = Inr \<lparr>de_name = name, de_type = Inr kind\<rparr>"

definition demo_disk :: disk where
  "demo_disk =
     \<lparr>dk_meta = (\<lambda>p. Inr (demo_meta (if p \<in> set demo_files then RegularFile else Directory))),
      dk_canonical = (\<lambda>p. Inr p), dk_is_dir = (\<lambda>p. True),
      dk_dir = (\<lambda>p. Inr (
         if p = demo_root
         then map (demo_entry Directory) [''bin'', ''codex-path'', ''codex-resources'']
              @ [demo_entry RegularFile ''codex-package.json'']
         else if p = demo_bin then [demo_entry RegularFile ''codex'']
         else [])),
      dk_content = (\<lambda>p. Inr []), dk_cut = (\<lambda>p n. 0)\<rparr>"

definition demo_world :: os_env where
  "demo_world = disk_env demo_disk never_cancelled demo_os"

lemma demo_world_simps [simp]:
  "os_bool demo_world (TakePipe name # l) = True"
  "os_meta demo_world (Lstat p # l) = Inr (demo_meta (if p \<in> set demo_files then RegularFile else Directory))"
  "os_meta demo_world (Fstat p # l) = Inr (demo_meta Directory)"
  "os_unit demo_world l = Inr ()"
  "os_count demo_world l = 1"
  "os_id demo_world l = Some 7"
  "os_wait demo_world l = ChildExited True ''exit status: 0''"
  "os_var demo_world l = None"
  "os_pipe demo_world (JoinPipe name # l) =
     (if name = ''stdout'' then PipeRead (Inr (''codex-cli 1'' @ [CHR 0x0A], False))
      else PipeRead (Inr ([], False)))"
  by (simp_all add: demo_world_def disk_env_def demo_disk_def demo_os_def split: list.split os_call.split)

lemma demo_meta_simps [simp]: "md_kind (demo_meta k) = k" "md_mode (demo_meta k) = 448" "md_len (demo_meta k) = 0"
  by (simp_all add: demo_meta_def)

section \<open>The version probe\<close>

definition demo_temp :: path where
  "demo_temp = [RootDir, Normal ''t'']"

definition demo_directory :: path where
  "demo_directory = demo_temp @ [Normal ''.vergerail-version-1-1'']"

definition demo_created :: "os_call list" where
  "demo_created = [CreateDir demo_directory, ProcessId, Sequence ''directory'']"

definition demo_helper :: path where
  "demo_helper = demo_directory @ [Normal ''.vergerail-guardian-1-1'']"

definition demo_extracted :: "os_call list" where
  "demo_extracted =
     [Lstat demo_helper, SetMode demo_helper 448, SyncAll demo_helper, WriteAll demo_helper ''g'',
      CreateNew demo_helper, ProcessId, Sequence ''guardian'', Lstat demo_directory]"

lemma demo_guardian_simps:
  "guardian_hash demo_guardian = gp_sha256 demo_guardian" "gp_bytes demo_guardian = ''g''"
  "show_nat (Suc 0) = ''1''" "show_nat 1 = ''1''"
  by code_simp+

lemma demo_directory_created:
  "create_guardian_directory demo_temp ''vergerail-version'' demo_world l
     = (Inr (Inr demo_directory), demo_created @ l)"
proof -
  have "create_guardian_directory_loop (Suc n) demo_temp ''vergerail-version'' demo_world l
     = (Inr (Inr demo_directory), demo_created @ l)" for n
    by (simp add: os_simps Let_def demo_guardian_simps demo_directory_def demo_created_def)
  from this [of 127] show ?thesis by (simp add: create_guardian_directory_def del: create_guardian_directory_loop.simps)
qed

lemma demo_guardian_extracted:
  "extract_guardian demo_guardian demo_directory demo_world l = (Inr (Inr demo_helper), demo_extracted @ l)"
proof -
  have "demo_directory \<notin> set demo_files"
    by (simp add: demo_directory_def demo_temp_def demo_files_def demo_root_def demo_bin_def)
  then show ?thesis
    by (simp add: extract_guardian_def verify_private_directory_def set_private_executable_permissions_def
        os_simps os_lstat_def demo_helper_def demo_extracted_def Let_def demo_guardian_simps)
qed

lemma demo_colon_path:
  "probe_path (path_of ''/a:b/bin/codex'') =
     Inl (version_error ''cannot construct version probe PATH: path segment contains separator `:`'')"
  by code_simp

lemma version_probe_removes_guardian_witness:
  "verify_version_with_timeout demo_guardian demo_temp (path_of ''/a:b/bin/codex'') ''1'' 0 demo_world []
     = (Inl (version_error ''cannot construct version probe PATH: path segment contains separator `:`''),
        demo_extracted @ demo_created)"
  using version_probe_removes_guardian [OF demo_directory_created [of "[]"] demo_guardian_extracted,
      where entrypoint = "path_of ''/a:b/bin/codex''" and version = "''1''" and limit = 0]
  by (simp add: demo_colon_path)

lemma demo_paths: "demo_helper \<noteq> []" "demo_directory \<noteq> []"
  by (simp_all add: demo_helper_def demo_directory_def)

lemma demo_cleanup:
  "cleanup_version_artifacts demo_helper demo_directory demo_world l = (Inr [], removal demo_helper demo_directory @ l)"
  by (simp add: cleanup_version_artifacts_def remove_guardian_def remove_guardian_directory_def os_simps
      demo_paths missing_is_removed_def removal_failure_def removal_def)

lemma demo_output:
  "str_trim (''codex-cli 1'' @ [CHR 0x0A]) = ''codex-cli 1''" "utf8_valid (''codex-cli 1'' @ [CHR 0x0A])"
  by code_simp+

lemma demo_probe:
  assumes "probe_path entrypoint = Inr search"
  shows "fst (verify_version_with_timeout demo_guardian demo_temp entrypoint ''1'' limit demo_world l) = Inr ()"
proof -
  have out: "fst (check_version_output demo_helper demo_directory ''1'' (True, ''exit status: 0'')
      (''codex-cli 1'' @ [CHR 0x0A], False) ([], False) demo_world l) = Inr ()" for l
    using demo_output by (simp add: check_version_output_def Let_def os_simps demo_cleanup)
  have running: "fst (probe_running demo_helper demo_directory ''1'' limit 7 demo_world l) = Inr ()" for l
    using out by (simp add: probe_running_def report_pipes_def join_pipes_def join_pipe_def os_simps)
  have "fst (probe_extracted demo_helper demo_directory entrypoint ''1'' limit demo_world l) = Inr ()" for l
    using running
    by (simp add: probe_extracted_def probe_spawned_def spawn_guarded_def capture_identity_def take_pipe_def
        os_simps assms)
  then show ?thesis
    by (simp add: verify_version_with_timeout_def os_simps io_try_def demo_directory_created
        demo_guardian_extracted)
qed

lemma version_accepted_only_if_printed_witness:
  "\<exists>l. os_wait demo_world (WaitChild # l) = ChildExited True ''exit status: 0''
     \<and> str_trim (''codex-cli 1'' @ [CHR 0x0A]) = ''codex-cli '' @ ''1''"
proof -
  have "probe_path (path_of ''/a/bin/codex'') = Inr ''/a/codex-path''" by code_simp
  then obtain log1 where "verify_version_with_timeout demo_guardian demo_temp
      (path_of ''/a/bin/codex'') ''1'' 0 demo_world [] = (Inr (), log1)"
    using demo_probe by (metis prod.collapse)
  from version_accepted_only_if_printed [OF this] show ?thesis by auto
qed

section \<open>The package\<close>

definition demo_digest :: string where
  "demo_digest = replicate 64 CHR ''0''"

definition demo_metadata :: runtime_metadata where
  "demo_metadata =
     \<lparr>rm_version = ''1'', rm_upstream_commit = replicate 40 CHR ''0'', rm_target = ''aarch64-apple-darwin'',
      rm_variant = ''codex'', rm_entrypoint = path_of ''bin/codex'', rm_schema_sha256 = demo_digest,
      rm_download = \<lparr>rd_url = ''https://x'', rd_bytes = 1, rd_sha256 = demo_digest,
                     rd_archive_prefix = path_of ''package''\<rparr>,
      rm_artifacts =
        [\<lparr>ra_path = path_of ''bin/codex'', ra_sha256 = demo_digest, ra_executable = True, ra_max_bytes = 9\<rparr>,
         \<lparr>ra_path = path_of ''codex-package.json'', ra_sha256 = demo_digest, ra_executable = False,
          ra_max_bytes = 9\<rparr>]\<rparr>"

definition demo_pinned :: pinned_runtime where
  "demo_pinned = \<lparr>pr_lock = lock_of_metadata demo_metadata, pr_download = rm_download demo_metadata\<rparr>"

definition demo_manifest :: package_manifest where
  "demo_manifest =
     \<lparr>pm_layout_version = 1, pm_version = ''1'', pm_target = ''aarch64-apple-darwin'', pm_variant = ''codex'',
      pm_entrypoint = ''bin/codex'', pm_resources_dir = ''codex-resources'', pm_path_dir = ''codex-path''\<rparr>"

definition demo_setup :: runtime_setup where
  "demo_setup =
     \<lparr>ru_params = \<lparr>rp_digest = (\<lambda>_. replicate 32 (char_of (0 :: nat))), rp_order = (\<lambda>ps. ps),
                   rp_manifest = (\<lambda>_. Inr demo_manifest)\<rparr>,
      ru_guardian = demo_guardian, ru_temp_dir = demo_temp, ru_scalar = (\<lambda>_. []), ru_schema = Inr JNull,
      ru_os = ''macos'', ru_arch = ''aarch64''\<rparr>"

definition demo_package :: runtime_package where
  "demo_package = \<lparr>rk_root = demo_root, rk_lock = pr_lock demo_pinned\<rparr>"

lemma demo_package_paths:
  "path_of ''bin/codex'' = [Normal ''bin'', Normal ''codex'']"
  "path_of ''codex-package.json'' = [Normal ''codex-package.json'']"
  "path_of ''package'' = [Normal ''package'']"
  "path_of ''codex-resources'' = [Normal ''codex-resources'']" "path_of ''codex-path'' = [Normal ''codex-path'']"
  by code_simp+

lemma demo_digest_ok: "digest_text 64 demo_digest" "digest_text 40 (replicate 40 CHR ''0'')"
  by (simp_all add: digest_text_def demo_digest_def is_lower_hex_def list_all_iff)

lemma demo_loads: "pinned_runtime_load (Inr demo_metadata) = Inr demo_pinned"
proof -
  have "download_ok (rm_download demo_metadata)"
    by (simp add: download_ok_def demo_metadata_def demo_package_paths demo_digest_ok path_plain_def
        is_ascii_ws_def u64_max_def)
  moreover have "list_all artifact_ok (rm_artifacts demo_metadata)"
    by (simp add: artifact_ok_def demo_metadata_def demo_package_paths demo_digest_ok path_plain_def u64_max_def)
  moreover have "lock_ok (lock_of_metadata demo_metadata)"
    by (simp add: lock_ok_def lock_of_metadata_def demo_metadata_def demo_package_paths demo_digest_ok
        path_plain_def identifier_text_def is_identifier_byte_def)
  ultimately show ?thesis by (simp add: pinned_load_Inr demo_pinned_def)
qed

lemma demo_artifacts:
  "rl_artifacts (pr_lock demo_pinned) =
     [\<lparr>ra_path = [Normal ''bin'', Normal ''codex''], ra_sha256 = demo_digest, ra_executable = True, ra_max_bytes = 9\<rparr>,
      \<lparr>ra_path = [Normal ''codex-package.json''], ra_sha256 = demo_digest, ra_executable = False, ra_max_bytes = 9\<rparr>]"
  by (simp add: demo_pinned_def lock_of_metadata_def demo_metadata_def demo_package_paths)

lemma demo_expected:
  "set (expected_directories (rl_artifacts (pr_lock demo_pinned))) =
     {[Normal ''bin''], [Normal ''codex-path''], [Normal ''codex-resources'']}"
proof -
  have "parent_directories [Normal ''bin'', Normal ''codex''] = [[Normal ''bin'']]"
    "parent_directories [Normal ''codex-package.json''] = []"
    by code_simp+
  then show ?thesis by (simp add: demo_artifacts expected_directories_def insert_commute)
qed

lemma demo_dir_root: "dk_dir demo_disk demo_root = Inr (map (demo_entry Directory) [''bin'', ''codex-path'', ''codex-resources'']
              @ [demo_entry RegularFile ''codex-package.json''])"
  by (simp add: demo_disk_def)

lemma demo_dir_bin: "dk_dir demo_disk demo_bin = Inr [demo_entry RegularFile ''codex'']"
  by (simp add: demo_disk_def demo_bin_def)

lemma demo_dir_other: "p \<noteq> demo_root \<Longrightarrow> p \<noteq> demo_bin \<Longrightarrow> dk_dir demo_disk p = Inr []"
  by (simp add: demo_disk_def)

lemma has_demo: "has_entry (demo_entry k n # es) m k' \<longleftrightarrow> n = m \<and> k = k' \<or> has_entry es m k'"
  by (auto simp: has_entry_def demo_entry_def)

lemma has_none: "\<not> has_entry [] m k'"
  by (simp add: has_entry_def)

lemma demo_entries:
  "entry_on demo_disk p n k \<longleftrightarrow>
     p = demo_root \<and> (k = Directory \<and> n \<in> {''bin'', ''codex-path'', ''codex-resources''}
                     \<or> k = RegularFile \<and> n = ''codex-package.json'')
     \<or> p = demo_bin \<and> k = RegularFile \<and> n = ''codex''"
proof -
  have ne: "demo_bin \<noteq> demo_root" by (simp add: demo_bin_def)
  consider "p = demo_root" | "p = demo_bin" | "p \<noteq> demo_root" "p \<noteq> demo_bin" by blast
  then show ?thesis
  proof cases
    case 1
    then show ?thesis using ne ne [symmetric]
      by (simp add: has_entry_on [symmetric, OF demo_dir_root] has_demo has_none) blast
  next
    case 2
    then show ?thesis using ne ne [symmetric]
      by (simp add: has_entry_on [symmetric, OF demo_dir_bin] has_demo has_none) blast
  next
    case 3
    then show ?thesis 
      by (simp add: has_entry_on [symmetric, OF demo_dir_other] has_demo has_none)
  qed
qed

definition demo_dirs :: "path set" where
  "demo_dirs = {demo_root, demo_bin, demo_root @ [Normal ''codex-path''], demo_root @ [Normal ''codex-resources'']}"

lemma demo_below: "below demo_disk demo_root p \<longleftrightarrow> p \<in> demo_dirs"
proof
  have "below demo_disk q p \<Longrightarrow> q \<in> demo_dirs \<Longrightarrow> p \<in> demo_dirs" for q
    by (induction rule: below.induct) (auto simp: demo_entries demo_dirs_def demo_bin_def)
  then show "below demo_disk demo_root p \<Longrightarrow> p \<in> demo_dirs" by (simp add: demo_dirs_def)
next
  have sub: "entry_on demo_disk demo_root n Directory \<Longrightarrow> below demo_disk demo_root (demo_root @ [Normal n])" for n
    by (blast intro: below.intros)
  have "below demo_disk demo_root demo_root" by (rule below_refl)
  moreover have "below demo_disk demo_root demo_bin"
    unfolding demo_bin_def by (rule sub) (simp add: demo_entries)
  moreover have "below demo_disk demo_root (demo_root @ [Normal ''codex-path''])"
    "below demo_disk demo_root (demo_root @ [Normal ''codex-resources''])"
    by (rule sub, simp add: demo_entries)+
  ultimately show "p \<in> demo_dirs \<Longrightarrow> below demo_disk demo_root p"
    unfolding demo_dirs_def by blast
qed

lemma tree_filesI:
  "below d root (root @ rel) \<Longrightarrow> entry_on d (root @ rel) n RegularFile \<Longrightarrow> rel @ [Normal n] \<in> tree_files d root"
  by (auto simp: tree_files_def)

lemma demo_tree_ok: "tree_ok demo_disk demo_root (rl_artifacts (pr_lock demo_pinned))"
proof -
  have "tree_dirs demo_disk demo_root = {[Normal ''bin''], [Normal ''codex-path''], [Normal ''codex-resources'']}"
    by (auto simp: tree_dirs_def demo_below demo_dirs_def demo_bin_def)
  moreover have "tree_files demo_disk demo_root = {[Normal ''bin'', Normal ''codex''], [Normal ''codex-package.json'']}"
  proof
    show "tree_files demo_disk demo_root \<subseteq> {[Normal ''bin'', Normal ''codex''], [Normal ''codex-package.json'']}"
      by (auto simp: tree_files_def demo_entries demo_bin_def)
    have "below demo_disk demo_root (demo_root @ [Normal ''bin''])"
      by (simp add: demo_below demo_dirs_def demo_bin_def)
    moreover have "entry_on demo_disk (demo_root @ [Normal ''bin'']) ''codex'' RegularFile"
      by (simp add: demo_entries demo_bin_def)
    ultimately have "[Normal ''bin''] @ [Normal ''codex''] \<in> tree_files demo_disk demo_root"
      by (rule tree_filesI)
    moreover have "[] @ [Normal ''codex-package.json''] \<in> tree_files demo_disk demo_root"
      by (rule tree_filesI) (simp_all add: demo_below demo_dirs_def demo_entries)
    ultimately show "{[Normal ''bin'', Normal ''codex''], [Normal ''codex-package.json'']} \<subseteq> tree_files demo_disk demo_root"
      by simp
  qed
  moreover have "listing_ok demo_disk p" for p
    by (auto simp: listing_ok_def demo_disk_def demo_entry_def secure_on_def demo_files_def demo_bin_def)
  ultimately show ?thesis unfolding tree_ok_def demo_expected by (simp add: demo_artifacts)
qed

lemma demo_package_on: "package_on (ru_params demo_setup) demo_disk demo_package demo_root"
proof -
  have digest: "format_digest (replicate 32 (char_of (0 :: nat))) = demo_digest" by code_simp
  have secure: "secure_on demo_disk p x" for p x
    by (simp add: secure_on_def demo_disk_def)
  have "artifact_on (ru_params demo_setup) demo_disk demo_root a" if "a \<in> set (rl_artifacts (pr_lock demo_pinned))" for a
    using that secure digest
    by (auto simp: artifact_on_def demo_artifacts hash_on_def demo_setup_def path_join_plain path_plain_def
        u64_max_def demo_disk_def demo_files_def demo_bin_def)
  moreover have "manifest_on (ru_params demo_setup) demo_disk demo_root (pr_lock demo_pinned)"
    by (simp add: manifest_on_def demo_setup_def demo_disk_def manifest_matches_def demo_manifest_def
        demo_pinned_def lock_of_metadata_def demo_metadata_def)
  moreover have "demo_root \<notin> set demo_files" by (simp add: demo_files_def demo_bin_def)
  ultimately show ?thesis
    using demo_tree_ok secure
    by (simp add: package_on_def demo_package_def list_all_iff) (simp add: demo_disk_def)
qed

lemma demo_verified:
  "\<exists>log1. verify_filesystem_with_control (ru_params demo_setup) demo_package demo_world log =
     (Inr \<lparr>vr_root = demo_root, vr_entrypoint = demo_bin @ [Normal ''codex''], vr_lock = pr_lock demo_pinned\<rparr>, log1)"
  using verify_filesystem_complete [OF demo_package_on, of demo_os log]
  by (simp add: demo_world_def demo_package_def demo_pinned_def lock_of_metadata_def demo_metadata_def
      demo_package_paths path_join_plain path_plain_def demo_bin_def)

section \<open>Resolution and installation\<close>

definition demo_resolver :: runtime_resolver where
  "demo_resolver = new_resolver\<lparr>rs_explicit_root := Some demo_root\<rparr>"

lemma demo_identity:
  "verify_identity demo_setup (pr_lock demo_pinned) = Inr ()"
  "verify_host_target ''macos'' ''aarch64'' (rl_target (pr_lock demo_pinned)) = Inr ()"
  by code_simp+

lemma demo_resolved:
  "fst (resolve demo_setup (Inr demo_metadata) demo_resolver demo_world []) =
     Inr \<lparr>rr_package = demo_package, rr_origin = ExplicitRoot\<rparr>"
proof -
  have "probe_path (demo_bin @ [Normal ''codex'']) = Inr ''/r/codex-path''" by code_simp
  note probe = demo_probe [OF this]
  have verify: "fst (package_verify demo_setup demo_package demo_world l) =
      Inr \<lparr>vr_root = demo_root, vr_entrypoint = demo_bin @ [Normal ''codex''], vr_lock = pr_lock demo_pinned\<rparr>" for l
  proof -
    obtain l1 where "verify_filesystem_with_control (ru_params demo_setup) demo_package demo_world (JoinWorker # l) =
     (Inr \<lparr>vr_root = demo_root, vr_entrypoint = demo_bin @ [Normal ''codex''], vr_lock = pr_lock demo_pinned\<rparr>, l1)"
      using demo_verified by blast
    moreover obtain l2 where "verify_version_with_timeout demo_guardian demo_temp (demo_bin @ [Normal ''codex'']) ''1''
        VERSION_TIMEOUT demo_world l1 = (Inr (), l2)"
      using probe [of VERSION_TIMEOUT l1] by (metis prod.collapse)
    moreover have "rl_version (pr_lock demo_pinned) = ''1''" "ru_guardian demo_setup = demo_guardian"
      "ru_temp_dir demo_setup = demo_temp" "rk_lock demo_package = pr_lock demo_pinned"
      by (simp_all add: demo_pinned_def lock_of_metadata_def demo_metadata_def demo_setup_def demo_package_def)
    ultimately show ?thesis
      using demo_identity
      by (simp add: package_verify_def package_verify_with_timeout_def run_verification_job_def
          verification_job_spawn_def join_with_deadline_def join_blocking_with_deadline_def
          join_verification_handle_def probe_version_def os_simps)
  qed
  have "ru_os demo_setup = ''macos''" "ru_arch demo_setup = ''aarch64''" by (simp_all add: demo_setup_def)
  moreover obtain l1 where "package_verify demo_setup \<lparr>rk_root = demo_root, rk_lock = pr_lock demo_pinned\<rparr>
      demo_world [] = (Inr \<lparr>vr_root = demo_root, vr_entrypoint = demo_bin @ [Normal ''codex''],
        vr_lock = pr_lock demo_pinned\<rparr>, l1)"
    using verify [of "[]"] by (metis demo_package_def prod.collapse)
  ultimately show ?thesis
    using demo_identity
    by (simp add: resolve_def os_simps demo_loads demo_resolver_def Let_def demo_package_def)
qed

lemma resolved_runtime_verified_witness:
  "package_verified demo_setup demo_package demo_world"
proof -
  obtain log1 where "resolve demo_setup (Inr demo_metadata) demo_resolver demo_world [] =
      (Inr \<lparr>rr_package = demo_package, rr_origin = ExplicitRoot\<rparr>, log1)"
    using demo_resolved by (metis prod.collapse)
  from resolved_runtime_verified [OF this] show ?thesis by auto
qed

lemma resolve_stays_local_witness:
  "EnvVar ''HOME'' \<in> set (snd (resolve demo_setup (Inr demo_metadata)
     (new_resolver\<lparr>rs_download_policy := NeverDownload\<rparr>) demo_world []))
   \<and> EnvVar ''HOME'' \<noteq> HttpRead \<and> EnvVar ''HOME'' \<noteq> HttpGet ''https://x''"
proof -
  let ?rs = "new_resolver\<lparr>rs_download_policy := NeverDownload\<rparr>"
  have called: "EnvVar ''HOME'' \<in> set (snd (resolve demo_setup (Inr demo_metadata) ?rs demo_world []))"
    using demo_identity
    by (simp add: resolve_def resolve_managed_def default_cache_root_def os_simps demo_loads new_resolver_def
        demo_setup_def)
  have "rs_download_policy ?rs = NeverDownload \<or> rs_explicit_root ?rs \<noteq> None" by simp
  from resolve_stays_local [OF this called] called show ?thesis by blast
qed

section \<open>An installation\<close>

definition demo_lock_path :: path where
  "demo_lock_path = demo_root @ [Normal ''.codex-1-aarch64-apple-darwin.lock'']"

definition demo_archive_entry :: "string list \<Rightarrow> io_error + archive_entry" where
  "demo_archive_entry names =
     Inr \<lparr>ae_path = Inr (Normal ''package'' # map Normal names), ae_is_file = True, ae_copy = Inr []\<rparr>"

text \<open>An operating system on which the managed root is a directory that does not verify, and the download
  gives one byte.\<close>

definition demo_net :: os_env where
  "demo_net = demo_os
     \<lparr>os_meta := (\<lambda>l. case l of
          Lstat p # _ \<Rightarrow> Inr (demo_meta (if p = demo_lock_path then RegularFile else Directory))
        | _ \<Rightarrow> Inr (demo_meta Directory)),
      os_num := (\<lambda>l. case l of HttpGet url # _ \<Rightarrow> Inr 200 | _ \<Rightarrow> Inr 0),
      os_data := (\<lambda>l. case l of HttpRead # log \<Rightarrow> Inr (if HttpRead \<in> set log then [] else ''x'') | _ \<Rightarrow> Inr []),
      os_archive := (\<lambda>_. Inr [demo_archive_entry [''bin'', ''codex''], demo_archive_entry [''codex-package.json'']])\<rparr>"

lemma demo_net_simps [simp]:
  "os_bool demo_net l = True"
  "os_meta demo_net (Lstat p # l) = Inr (demo_meta (if p = demo_lock_path then RegularFile else Directory))"
  "os_meta demo_net (Fstat p # l) = Inr (demo_meta Directory)"
  "os_unit demo_net l = Inr ()"
  "os_dir demo_net l = Inr []"
  "os_count demo_net l = 1"
  "os_num demo_net (HttpGet url # l) = Inr 200"
  "os_num demo_net (Clock # l) = Inr 0"
  "os_data demo_net (HttpRead # l) = Inr (if HttpRead \<in> set l then [] else ''x'')"
  "os_archive demo_net l = Inr [demo_archive_entry [''bin'', ''codex''], demo_archive_entry [''codex-package.json'']]"
  by (simp_all add: demo_net_def demo_os_def)

lemma demo_same [simp]: "same_file (demo_meta k) (demo_meta k')"
  by (simp add: same_file_def demo_meta_def)

lemma demo_secured:
  "p \<noteq> demo_lock_path \<Longrightarrow> secure_private_directory p op demo_net l
     = (Inr (), [Fstat p, Lstat p, SetMode p 448, Fstat p, Lstat p, OpenFile p, Lstat p] @ l)"
  by (simp add: secure_private_directory_def verify_open_directory_path_def os_simps os_lstat_def)

lemma demo_private:
  assumes "p \<noteq> demo_lock_path" "ParentDir \<notin> set p"
  shows "create_private_directory p demo_net l
     = (Inr (), [Fstat p, Lstat p, SetMode p 448, Fstat p, Lstat p, OpenFile p, Lstat p, Lstat p] @ l)"
proof -
  obtain ps where ps: "path_ancestors p = p # ps" using path_ancestors.simps by blast
  show ?thesis
    using assms by (simp add: create_private_directory_def ps os_simps os_lstat_def demo_secured)
qed

lemma demo_removed: "remove_path p demo_net l = (Inr (), [if p = demo_lock_path then RemoveFile p else RemoveDirAll p, Lstat p] @ l)"
  by (simp add: remove_path_def os_simps os_lstat_def)

lemma demo_download:
  assumes "HttpRead \<notin> set l"
  shows "\<exists>l1. download_archive (rp_digest (ru_params demo_setup)) p (pr_download demo_pinned) demo_net l = (Inr (), l1)"
proof -
  have d: "rd_bytes (pr_download demo_pinned) = 1" "rd_sha256 (pr_download demo_pinned) = demo_digest"
    by (simp_all add: demo_pinned_def demo_metadata_def)
  have digest: "format_digest (rp_digest (ru_params demo_setup) x) = demo_digest" for x
    by (simp add: demo_setup_def) code_simp
  have loop: "\<exists>l1. download_loop p 2 demo_net log [] = (Inr ''x'', l1)" if "HttpRead \<notin> set log" for log
    using that
    by (simp add: download_loop.simps [of _ _ _ _ "[]"] download_loop.simps [of _ _ _ _ "''x''"] Let_def
        VERIFICATION_READ_CHUNK_BYTES_def DOWNLOAD_TOTAL_TIMEOUT_def)
  have "HttpRead \<notin> set (SetMode p 384 # CreateNew p # HttpGet url # l)" for url using assms by simp
  from loop [OF this] obtain l1 where
    "download_loop p 2 demo_net (SetMode p 384 # CreateNew p # HttpGet (rd_url (pr_download demo_pinned)) # l) []
      = (Inr ''x'', l1)" by blast
  then show ?thesis by (simp add: download_archive_def os_simps d digest numeral_2_eq_2)
qed

lemma demo_extract_one:
  assumes "staging = demo_root @ [Normal s]" "s \<noteq> ''.codex-1-aarch64-apple-darwin.lock''"
    "relative \<in> {[Normal ''bin'', Normal ''codex''], [Normal ''codex-package.json'']}"
  shows "\<exists>l1. extract_artifact staging relative x (Inr []) demo_net l = (Inr (), l1)"
proof -
  have plain: "path_plain relative" using assms(3) by (auto simp: path_plain_def)
  have parent: "path_parent (staging @ relative) = Some (staging @ butlast relative)"
    using assms(3) by (auto simp: path_parent_def butlast_append)
  have "staging @ butlast relative \<noteq> demo_lock_path" "ParentDir \<notin> set (staging @ butlast relative)"
    using assms by (auto simp: demo_lock_path_def demo_root_def)
  from demo_private [OF this] show ?thesis
    by (simp add: extract_artifact_def Let_def os_simps path_join_plain [OF plain] parent io_try_def)
qed

lemma demo_expected_artifacts:
  "map_of (rev (expected_artifacts (pr_lock demo_pinned))) [Normal ''bin'', Normal ''codex''] = Some True"
  "map_of (rev (expected_artifacts (pr_lock demo_pinned))) [Normal ''codex-package.json''] = Some False"
  "rd_archive_prefix (pr_download demo_pinned) = [Normal ''package'']"
  by (simp_all add: expected_artifacts_def demo_artifacts) (simp add: demo_pinned_def demo_metadata_def demo_package_paths)

lemma demo_extracted_all:
  assumes "staging = demo_root @ [Normal s]" "s \<noteq> ''.codex-1-aarch64-apple-darwin.lock''"
  shows "\<exists>l1. extract_runtime archive staging demo_pinned demo_net l = (Inr (), l1)"
proof -
  have "staging \<noteq> demo_lock_path" "ParentDir \<notin> set staging"
    using assms by (auto simp: demo_lock_path_def demo_root_def)
  note private_dir = demo_private [OF this]
  have one: "\<exists>l1. extract_artifact staging [Normal ''bin'', Normal ''codex''] True (Inr []) demo_net log = (Inr (), l1)"
    "\<exists>l1. extract_artifact staging [Normal ''codex-package.json''] False (Inr []) demo_net log = (Inr (), l1)" for log
    using demo_extract_one [OF assms] by simp_all
  have first: "\<exists>l1. extract_entry demo_pinned staging (demo_archive_entry [''bin'', ''codex'']) [] demo_net log
      = (Inr [[Normal ''bin'', Normal ''codex'']], l1)" for log
    using one(1) [of log]
    by (auto simp: extract_entry_def demo_archive_entry_def os_simps io_try_def demo_expected_artifacts)
  have second: "\<exists>l1. extract_entry demo_pinned staging (demo_archive_entry [''codex-package.json'']) xs demo_net log
      = (Inr ([Normal ''codex-package.json''] # xs), l1)" if "[Normal ''codex-package.json''] \<notin> set xs" for log xs
    using one(2) [of log] that
    by (auto simp: extract_entry_def demo_archive_entry_def os_simps io_try_def demo_expected_artifacts)
  obtain l1 where l1: "extract_entry demo_pinned staging (demo_archive_entry [''bin'', ''codex'']) [] demo_net
      (OpenArchive archive # OpenFile archive # [Fstat staging, Lstat staging, SetMode staging 448, Fstat staging,
         Lstat staging, OpenFile staging, Lstat staging, Lstat staging] @ l)
      = (Inr [[Normal ''bin'', Normal ''codex'']], l1)" using first by blast
  obtain l2 where l2: "extract_entry demo_pinned staging (demo_archive_entry [''codex-package.json''])
      [[Normal ''bin'', Normal ''codex'']] demo_net l1
      = (Inr [[Normal ''codex-package.json''], [Normal ''bin'', Normal ''codex'']], l2)"
    using second [of "[[Normal ''bin'', Normal ''codex'']]" l1] by auto
  have "os_each (extract_entry demo_pinned staging)
      [demo_archive_entry [''bin'', ''codex''], demo_archive_entry [''codex-package.json'']] [] demo_net
      (OpenArchive archive # OpenFile archive # [Fstat staging, Lstat staging, SetMode staging 448, Fstat staging,
         Lstat staging, OpenFile staging, Lstat staging, Lstat staging] @ l)
      = (Inr [[Normal ''codex-package.json''], [Normal ''bin'', Normal ''codex'']], l2)"
    using l1 l2 by (simp add: os_bind_apply)
  then show ?thesis
    by (simp add: extract_runtime_def os_simps private_dir io_try_def demo_artifacts)
qed

definition demo_final :: path where
  "demo_final = demo_root @ [Normal ''codex'', Normal ''1'', Normal ''aarch64-apple-darwin'']"

definition demo_staging :: path where
  "demo_staging = demo_root @ [Normal ''.vergerail-install-1-0'']"

lemma demo_attempt:
  assumes "HttpRead \<notin> set l"
  shows "Rename demo_staging demo_final \<in>
     set (snd (install_attempt (ru_params demo_setup) demo_pinned archive demo_staging demo_final demo_net l))"
proof -
  obtain l1 where l1: "download_archive (rp_digest (ru_params demo_setup)) archive (pr_download demo_pinned) demo_net l
      = (Inr (), l1)" using demo_download [OF assms] by blast
  obtain l2 where l2: "extract_runtime archive demo_staging demo_pinned demo_net l1 = (Inr (), l2)"
    using demo_extracted_all [OF demo_staging_def] by auto
  have parent: "path_parent demo_final = Some (demo_root @ [Normal ''codex'', Normal ''1''])"
    by (simp add: demo_final_def path_parent_def butlast_append)
  have "demo_root @ [Normal ''codex'', Normal ''1''] \<noteq> demo_lock_path"
    "ParentDir \<notin> set (demo_root @ [Normal ''codex'', Normal ''1''])"
    by (auto simp: demo_lock_path_def demo_root_def)
  from demo_private [OF this] show ?thesis
    by (simp add: install_attempt_def os_bind_apply [of "download_archive _ _ _"] l1
        os_bind_apply [of "extract_runtime _ _ _"] l2 parent os_simps io_try_def)
qed

lemma demo_final_path:
  "path_join demo_root (managed_relative_root (pr_lock demo_pinned)) = demo_final"
  "installation_lock_name (pr_lock demo_pinned) = ''.codex-1-aarch64-apple-darwin.lock''"
proof -
  have "managed_relative_root (pr_lock demo_pinned) = [Normal ''codex'', Normal ''1'', Normal ''aarch64-apple-darwin'']"
    by code_simp
  then show "path_join demo_root (managed_relative_root (pr_lock demo_pinned)) = demo_final"
    by (simp add: path_join_plain path_plain_def demo_final_def)
  show "installation_lock_name (pr_lock demo_pinned) = ''.codex-1-aarch64-apple-darwin.lock''" by code_simp
qed

lemma demo_fresh:
  assumes "HttpRead \<notin> set l"
  shows "Rename demo_staging demo_final \<in>
     set (snd (install_fresh (ru_params demo_setup) demo_root demo_pinned demo_final demo_net l))"
proof -
  have suffix: "show_nat (Suc 0) = ''1''" "show_nat 0 = ''0''" by code_simp+
  let ?archive = "demo_root @ [Normal ''.vergerail-download-1-0.tgz'']"
  let ?l = "ProcessId # Clock # l"
  obtain r l1 where attempt: "install_attempt (ru_params demo_setup) demo_pinned ?archive demo_staging demo_final demo_net ?l
      = (r, l1)" by fastforce
  have "HttpRead \<notin> set ?l" using assms by simp
  from demo_attempt [OF this, of ?archive] attempt have "Rename demo_staging demo_final \<in> set l1" by simp
  moreover obtain r2 l2 where clean: "cleanup_installation_attempt ?archive demo_staging demo_net l1 = (r2, l2)"
    by fastforce
  moreover have "os_only (\<lambda>_. True) (cleanup_installation_attempt ?archive demo_staging)"
    unfolding cleanup_installation_attempt_def collect_failure_def remove_if_present_def remove_path_def
    by (intro os_only) simp_all
  then have "extends (\<lambda>_. True) l2 l1" using clean unfolding os_only_def by (metis snd_conv)
  ultimately have "Rename demo_staging demo_final \<in> set l2" by (auto simp: extends_def)
  with attempt clean suffix show ?thesis
    by (simp add: install_fresh_def Let_def os_simps io_try_def demo_staging_def DOWNLOAD_TEMP_PREFIX_def
        INSTALL_TEMP_PREFIX_def)
qed

lemma demo_installed:
  "Rename demo_staging demo_final \<in>
     set (snd (install_managed (ru_params demo_setup) demo_root demo_pinned demo_net []))"
proof -
  have "demo_root \<noteq> demo_lock_path" "ParentDir \<notin> set demo_root" "demo_final \<noteq> demo_lock_path"
    by (simp_all add: demo_lock_path_def demo_root_def demo_final_def)
  note paths = this demo_private [OF this(1,2)]
  have reuse: "reuse_or_clear (ru_params demo_setup) demo_final (pr_lock demo_pinned) demo_net l
      = (Inr False, [RemoveDirAll demo_final, Lstat demo_final, Checkpoint ''runtime.verify'', Lstat demo_final] @ l)" for l
    using paths(3)
    by (simp add: reuse_or_clear_def os_simps os_lstat_def verify_filesystem_with_control_def checkpoint_def demo_removed)
  have lock: "verify_open_lock_path demo_lock_path demo_net l = (Inr (), [Fstat demo_lock_path, Lstat demo_lock_path] @ l)" for l
    by (simp add: verify_open_lock_path_def os_simps os_lstat_def)
  have join: "path_join demo_root [Normal ''.codex-1-aarch64-apple-darwin.lock''] = demo_lock_path"
    by (simp add: demo_lock_path_def)
  show ?thesis
    unfolding install_managed_def Let_def demo_final_path join
    by (simp add: os_simps paths(4) io_try_def lock cleanup_stale_installation_artifacts_def reuse demo_fresh)
qed

lemma demo_artifacts_ok: "list_all artifact_ok (rl_artifacts (pr_lock demo_pinned))"
  using pinned_load_Inr [of demo_metadata demo_pinned] demo_loads
  by (simp add: demo_pinned_def lock_of_metadata_def)

lemma committed_archive_identified_witness:
  "archive_identified (ru_params demo_setup) (pr_download demo_pinned)
     (snd (install_managed (ru_params demo_setup) demo_root demo_pinned demo_net []))"
  using committed_archive_identified [OF demo_artifacts_ok demo_installed] by blast

lemma demo_empty_archive:
  "Lstat demo_staging \<in> set (snd (extract_runtime demo_lock_path demo_staging demo_pinned demo_world []))"
proof -
  have p: "demo_staging \<notin> set demo_files" "ParentDir \<notin> set demo_staging"
    by (simp_all add: demo_staging_def demo_files_def demo_bin_def demo_root_def)
  obtain ps where ps: "path_ancestors demo_staging = demo_staging # ps" using path_ancestors.simps by blast
  have "os_archive demo_world l = Inr []" for l by (simp add: demo_world_def disk_env_def demo_os_def)
  then show ?thesis
    using p
    by (simp add: extract_runtime_def create_private_directory_def ps secure_private_directory_def
        verify_open_directory_path_def os_simps os_lstat_def)
qed

lemma extraction_confined_witness:
  "extraction_call demo_staging (pr_lock demo_pinned) (Lstat demo_staging)"
  using extraction_confined [OF demo_artifacts_ok demo_empty_archive] .

end
