(* ===== verification/Approval.thy ===== *)
theory Approval
  imports Wire
begin

text \<open>
  \<open>src/src/approval.rs\<close>, \<open>src/src/approval/protocol.rs\<close> and \<open>src/src/approval/respond.rs\<close>: the
  reverse requests the app-server sends, how they are decoded, what a decision or an answer sends
  back, and the response task that answers fail-closed when the caller does not. A \<open>PathBuf\<close> is
  its bytes.
\<close>

section \<open>Data\<close>

datatype command_decision = CdAccept | CdAcceptForSession | CdDecline | CdCancel
datatype file_change_decision = FdAccept | FdAcceptForSession | FdDecline | FdCancel
datatype network_protocol = Http | Https | Socks5Tcp | Socks5Udp

record network_approval_context =
  nac_host :: string
  nac_protocol :: network_protocol

datatype network_policy_action = NpAllow | NpDeny

record network_policy_amendment =
  npa_host :: string
  npa_action :: network_policy_action

datatype command_action =
    ActRead string string string
  | ActListFiles string "string option"
  | ActSearch string "string option" "string option"
  | ActUnknown string

datatype file_system_access = FsRead | FsWrite | FsDeny

datatype file_system_special_path =
    SpRoot
  | SpMinimal
  | SpProjectRoots "string option"
  | SpTempDir
  | SpSlashTmp
  | SpUnknown string "string option"

datatype file_system_permission_path =
    FspPath string
  | FspGlobPattern string
  | FspSpecial file_system_special_path

record file_system_permission =
  fsp_access :: file_system_access
  fsp_path :: file_system_permission_path

record user_input_answer =
  uia_question_id :: string
  uia_answers :: "string list"

record user_input_option =
  uio_label :: string
  uio_description :: string

record user_input_question =
  uiq_id :: string
  uiq_header :: string
  uiq_question :: string
  uiq_allows_other :: bool
  uiq_is_secret :: bool
  uiq_options :: "user_input_option list"

record permission_grant =
  pg_network :: "bool option"
  pg_entries :: "file_system_permission list"
  pg_glob_scan_max_depth :: "nat option"

text \<open>What a responder is created with: the request it answers and its fail-closed answer.\<close>

record approval_responder =
  ar_id :: rpc_id
  ar_fallback :: json

record command_approval =
  ca_thread_id :: string
  ca_turn_id :: string
  ca_item_id :: string
  ca_approval_id :: "string option"
  ca_environment_id :: "string option"
  ca_started_at_ms :: int
  ca_command :: "string option"
  ca_actions :: "command_action list"
  ca_cwd :: "string option"
  ca_reason :: "string option"
  ca_network_context :: "network_approval_context option"
  ca_proposed_exec_policy_amendment :: "string list"
  ca_proposed_network_policy_amendments :: "network_policy_amendment list"
  ca_responder :: approval_responder

record file_change_approval =
  fa_thread_id :: string
  fa_turn_id :: string
  fa_item_id :: string
  fa_started_at_ms :: int
  fa_reason :: "string option"
  fa_grant_root :: "string option"
  fa_responder :: approval_responder

record permission_approval =
  pa_thread_id :: string
  pa_turn_id :: string
  pa_item_id :: string
  pa_environment_id :: "string option"
  pa_started_at_ms :: int
  pa_cwd :: string
  pa_reason :: "string option"
  pa_requested :: permission_grant
  pa_responder :: approval_responder

record user_input_request =
  ui_thread_id :: string
  ui_turn_id :: string
  ui_item_id :: string
  ui_auto_resolution_ms :: "nat option"
  ui_is_blocking :: bool
  ui_questions :: "user_input_question list"
  ui_responder :: approval_responder

datatype approval_event =
    ApCommand command_approval
  | ApFileChange file_change_approval
  | ApPermissions permission_approval
  | ApUserInput user_input_request

section \<open>Field readers\<close>

definition approval_field :: "string \<Rightarrow> error" where
  "approval_field field =
     new_error Protocol ''approval.parse'' (''missing or invalid field '' @ quoted field)"

definition approval_unknown :: "string \<Rightarrow> string \<Rightarrow> error" where
  "approval_unknown what other = new_error Protocol ''approval.parse'' (what @ quoted other)"

definition ap_required_string :: "json \<Rightarrow> string \<Rightarrow> string result" where
  "ap_required_string v field = ok_or (approval_field field) (get_str field v)"

definition ap_required_non_empty_string :: "json \<Rightarrow> string \<Rightarrow> string result" where
  "ap_required_non_empty_string v field = ok_or (approval_field field) (get_nonempty_str field v)"

definition ap_required_i64 :: "json \<Rightarrow> string \<Rightarrow> int result" where
  "ap_required_i64 v field = ok_or (approval_field field) (Option.bind (jget field v) as_i64)"

definition ap_required_bool :: "json \<Rightarrow> string \<Rightarrow> bool result" where
  "ap_required_bool v field = ok_or (approval_field field) (Option.bind (jget field v) as_bool)"

definition ap_nullable_string :: "json \<Rightarrow> string \<Rightarrow> string option result" where
  "ap_nullable_string v field =
     (case jget field v of
        None \<Rightarrow> Inr None
      | Some JNull \<Rightarrow> Inr None
      | Some (JString s) \<Rightarrow> Inr (Some s)
      | Some _ \<Rightarrow> Inl (approval_field field))"

definition ap_nullable_u64 :: "json \<Rightarrow> string \<Rightarrow> nat option result" where
  "ap_nullable_u64 v field =
     (case jget field v of
        None \<Rightarrow> Inr None
      | Some JNull \<Rightarrow> Inr None
      | Some (JNumber n) \<Rightarrow>
          result_bind (ok_or (approval_field field) (as_u64 (JNumber n))) (\<lambda>k. Inr (Some k))
      | Some _ \<Rightarrow> Inl (approval_field field))"

definition ap_optional_bool_with_default :: "json \<Rightarrow> string \<Rightarrow> bool \<Rightarrow> bool result" where
  "ap_optional_bool_with_default v field dflt =
     (case jget field v of
        None \<Rightarrow> Inr dflt
      | Some (JBool b) \<Rightarrow> Inr b
      | Some _ \<Rightarrow> Inl (approval_field field))"

definition ap_strings :: "string \<Rightarrow> json list \<Rightarrow> string list result" where
  "ap_strings field vs = result_map (\<lambda>v. ok_or (approval_field field) (as_str v)) vs"

definition ap_nullable_string_array :: "json \<Rightarrow> string \<Rightarrow> string list result" where
  "ap_nullable_string_array v field =
     (case jget field v of
        None \<Rightarrow> Inr []
      | Some JNull \<Rightarrow> Inr []
      | Some (JArray vs) \<Rightarrow> ap_strings field vs
      | Some _ \<Rightarrow> Inl (approval_field field))"

section \<open>Decoding\<close>

definition parse_question :: "json \<Rightarrow> user_input_question result" where
  "parse_question v =
     result_bind
       (case jget ''options'' v of
          None \<Rightarrow> Inr []
        | Some JNull \<Rightarrow> Inr []
        | Some (JArray vs) \<Rightarrow>
            result_map (\<lambda>opt.
              result_bind (ap_required_string opt ''label'') (\<lambda>label.
              result_bind (ap_required_string opt ''description'') (\<lambda>description.
              Inr \<lparr>uio_label = label, uio_description = description\<rparr>))) vs
        | Some _ \<Rightarrow> Inl (approval_field ''questions[].options'')) (\<lambda>options.
     result_bind (ap_required_non_empty_string v ''id'') (\<lambda>qid.
     result_bind (ap_required_string v ''header'') (\<lambda>header.
     result_bind (ap_required_string v ''question'') (\<lambda>question.
     result_bind (ap_optional_bool_with_default v ''isOther'' False) (\<lambda>other.
     result_bind (ap_optional_bool_with_default v ''isSecret'' False) (\<lambda>secret.
     Inr \<lparr>uiq_id = qid, uiq_header = header, uiq_question = question, uiq_allows_other = other,
          uiq_is_secret = secret, uiq_options = options\<rparr>))))))"

definition parse_command_action :: "json \<Rightarrow> command_action result" where
  "parse_command_action action =
     result_bind (ap_required_string action ''command'') (\<lambda>command.
     (case get_str ''type'' action of
        None \<Rightarrow> Inl (approval_field ''commandActions[].type'')
      | Some kind \<Rightarrow>
          if kind = ''read'' then
            result_bind (ap_required_string action ''name'') (\<lambda>name.
            result_bind (ap_required_string action ''path'') (\<lambda>path.
            Inr (ActRead command name path)))
          else if kind = ''listFiles'' then
            result_bind (ap_nullable_string action ''path'') (\<lambda>path.
            Inr (ActListFiles command path))
          else if kind = ''search'' then
            result_bind (ap_nullable_string action ''path'') (\<lambda>path.
            result_bind (ap_nullable_string action ''query'') (\<lambda>query.
            Inr (ActSearch command path query)))
          else if kind = ''unknown'' then Inr (ActUnknown command)
          else Inl (approval_unknown ''unknown command action type '' kind)))"

definition parse_command_actions :: "json option \<Rightarrow> command_action list result" where
  "parse_command_actions v =
     (case v of
        None \<Rightarrow> Inr []
      | Some JNull \<Rightarrow> Inr []
      | Some (JArray vs) \<Rightarrow> result_map parse_command_action vs
      | Some _ \<Rightarrow> Inl (approval_field ''commandActions''))"

definition parse_network_protocol :: "json \<Rightarrow> network_protocol result" where
  "parse_network_protocol v =
     (case get_str ''protocol'' v of
        None \<Rightarrow> Inl (approval_field ''networkApprovalContext.protocol'')
      | Some p \<Rightarrow>
          if p = ''http'' then Inr Http
          else if p = ''https'' then Inr Https
          else if p = ''socks5Tcp'' then Inr Socks5Tcp
          else if p = ''socks5Udp'' then Inr Socks5Udp
          else Inl (approval_unknown ''unknown network approval protocol '' p))"

definition parse_network_context :: "json option \<Rightarrow> network_approval_context option result" where
  "parse_network_context v =
     (case v of
        None \<Rightarrow> Inr None
      | Some JNull \<Rightarrow> Inr None
      | Some (JObject m) \<Rightarrow>
          result_bind (parse_network_protocol (JObject m)) (\<lambda>p.
          result_bind (ap_required_non_empty_string (JObject m) ''host'') (\<lambda>host.
          Inr (Some \<lparr>nac_host = host, nac_protocol = p\<rparr>)))
      | Some _ \<Rightarrow> Inl (approval_field ''networkApprovalContext''))"

definition parse_network_amendment :: "json \<Rightarrow> network_policy_amendment result" where
  "parse_network_amendment v =
     result_bind
       (case get_str ''action'' v of
          None \<Rightarrow> Inl (approval_field ''proposedNetworkPolicyAmendments[].action'')
        | Some a \<Rightarrow>
            if a = ''allow'' then Inr NpAllow
            else if a = ''deny'' then Inr NpDeny
            else Inl (approval_unknown ''unknown network policy action '' a)) (\<lambda>action.
     result_bind (ap_required_non_empty_string v ''host'') (\<lambda>host.
     Inr \<lparr>npa_host = host, npa_action = action\<rparr>))"

definition parse_network_amendments :: "json option \<Rightarrow> network_policy_amendment list result" where
  "parse_network_amendments v =
     (case v of
        None \<Rightarrow> Inr []
      | Some JNull \<Rightarrow> Inr []
      | Some (JArray vs) \<Rightarrow> result_map parse_network_amendment vs
      | Some _ \<Rightarrow> Inl (approval_field ''proposedNetworkPolicyAmendments''))"

definition parse_special_path :: "json \<Rightarrow> file_system_special_path result" where
  "parse_special_path v =
     (case get_str ''kind'' v of
        None \<Rightarrow> Inl (approval_field ''permissions.fileSystem.entries[].path.value.kind'')
      | Some kind \<Rightarrow>
          if kind = ''root'' then Inr SpRoot
          else if kind = ''minimal'' then Inr SpMinimal
          else if kind = ''project_roots'' then
            result_bind (ap_nullable_string v ''subpath'') (\<lambda>sub. Inr (SpProjectRoots sub))
          else if kind = ''tmpdir'' then Inr SpTempDir
          else if kind = ''slash_tmp'' then Inr SpSlashTmp
          else if kind = ''unknown'' then
            result_bind (ap_required_string v ''path'') (\<lambda>path.
            result_bind (ap_nullable_string v ''subpath'') (\<lambda>sub. Inr (SpUnknown path sub)))
          else Inl (approval_unknown ''unknown filesystem special path kind '' kind))"

definition parse_file_system_access :: "json \<Rightarrow> file_system_access result" where
  "parse_file_system_access v =
     (case get_str ''access'' v of
        None \<Rightarrow> Inl (approval_field ''permissions.fileSystem.entries[].access'')
      | Some a \<Rightarrow>
          if a = ''read'' then Inr FsRead
          else if a = ''write'' then Inr FsWrite
          else if a = ''deny'' then Inr FsDeny
          else Inl (approval_unknown ''unknown filesystem access mode '' a))"

definition parse_file_system_permission :: "json \<Rightarrow> file_system_permission result" where
  "parse_file_system_permission v =
     result_bind (parse_file_system_access v) (\<lambda>access.
     result_bind (ok_or (approval_field ''permissions.fileSystem.entries[].path'') (jget ''path'' v)) (\<lambda>path.
     result_bind
       (case get_str ''type'' path of
          None \<Rightarrow> Inl (approval_field ''permissions.fileSystem.entries[].path.type'')
        | Some kind \<Rightarrow>
            if kind = ''path'' then
              result_bind (ap_required_string path ''path'') (\<lambda>p. Inr (FspPath p))
            else if kind = ''glob_pattern'' then
              result_bind (ap_required_string path ''pattern'') (\<lambda>p. Inr (FspGlobPattern p))
            else if kind = ''special'' then
              result_bind (ok_or (approval_field ''permissions.fileSystem.entries[].path.value'')
                             (jget ''value'' path)) (\<lambda>w.
              result_bind (parse_special_path w) (\<lambda>sp. Inr (FspSpecial sp)))
            else Inl (approval_unknown ''unknown filesystem path type '' kind)) (\<lambda>p.
     Inr \<lparr>fsp_access = access, fsp_path = p\<rparr>)))"

definition parse_path_permissions ::
  "json option \<Rightarrow> string \<Rightarrow> file_system_access \<Rightarrow> file_system_permission list result" where
  "parse_path_permissions v field access =
     (case v of
        None \<Rightarrow> Inr []
      | Some JNull \<Rightarrow> Inr []
      | Some (JArray vs) \<Rightarrow>
          result_bind (ap_strings field vs) (\<lambda>paths.
          Inr (map (\<lambda>p. \<lparr>fsp_access = access, fsp_path = FspPath p\<rparr>) paths))
      | Some _ \<Rightarrow> Inl (approval_field field))"

definition parse_permission_network :: "json_object \<Rightarrow> bool option result" where
  "parse_permission_network source =
     (case map_of source ''network'' of
        None \<Rightarrow> Inr None
      | Some JNull \<Rightarrow> Inr None
      | Some (JObject network) \<Rightarrow>
          (case map_of network ''enabled'' of
             None \<Rightarrow> Inr None
           | Some JNull \<Rightarrow> Inr None
           | Some (JBool enabled) \<Rightarrow> Inr (Some enabled)
           | Some _ \<Rightarrow> Inl (approval_field ''permissions.network.enabled''))
      | Some _ \<Rightarrow> Inl (approval_field ''permissions.network''))"

definition parse_glob_depth :: "json_object \<Rightarrow> nat option result" where
  "parse_glob_depth fs =
     (case map_of fs ''globScanMaxDepth'' of
        None \<Rightarrow> Inr None
      | Some JNull \<Rightarrow> Inr None
      | Some (JNumber n) \<Rightarrow>
          (case as_u64 (JNumber n) of
             Some depth \<Rightarrow>
               if 0 < depth then Inr (Some depth)
               else Inl (approval_field ''permissions.fileSystem.globScanMaxDepth'')
           | None \<Rightarrow> Inl (approval_field ''permissions.fileSystem.globScanMaxDepth''))
      | Some _ \<Rightarrow> Inl (approval_field ''permissions.fileSystem.globScanMaxDepth''))"

definition parse_permission_entries :: "json_object \<Rightarrow> file_system_permission list result" where
  "parse_permission_entries fs =
     (case map_of fs ''entries'' of
        None \<Rightarrow> Inr []
      | Some JNull \<Rightarrow> Inr []
      | Some (JArray entries) \<Rightarrow> result_map parse_file_system_permission entries
      | Some _ \<Rightarrow> Inl (approval_field ''permissions.fileSystem.entries''))"

definition parse_permissions :: "json \<Rightarrow> permission_grant result" where
  "parse_permissions v =
     result_bind (ok_or (approval_field ''permissions'') (as_object v)) (\<lambda>source.
     result_bind (parse_permission_network source) (\<lambda>network.
     (case map_of source ''fileSystem'' of
        None \<Rightarrow> Inr \<lparr>pg_network = network, pg_entries = [], pg_glob_scan_max_depth = None\<rparr>
      | Some JNull \<Rightarrow> Inr \<lparr>pg_network = network, pg_entries = [], pg_glob_scan_max_depth = None\<rparr>
      | Some (JObject fs) \<Rightarrow>
          result_bind (parse_path_permissions (map_of fs ''read'')
                         ''permissions.fileSystem.read'' FsRead) (\<lambda>reads.
          result_bind (parse_path_permissions (map_of fs ''write'')
                         ''permissions.fileSystem.write'' FsWrite) (\<lambda>writes.
          result_bind (parse_glob_depth fs) (\<lambda>depth.
          result_bind (parse_permission_entries fs) (\<lambda>entries.
          Inr \<lparr>pg_network = network, pg_entries = reads @ writes @ entries,
               pg_glob_scan_max_depth = depth\<rparr>))))
      | Some _ \<Rightarrow> Inl (approval_field ''permissions.fileSystem''))))"

definition decline_response :: json where
  "decline_response = jobj [(''decision'', JString ''decline'')]"

definition no_permissions_response :: json where
  "no_permissions_response = jobj [(''permissions'', jobj []), (''scope'', JString ''turn'')]"

definition no_answers_response :: json where
  "no_answers_response = jobj [(''answers'', jobj [])]"

text \<open>The four decoders. A request that does not decode has no responder.\<close>

definition parse_command_approval :: "rpc_id \<Rightarrow> json \<Rightarrow> command_approval result" where
  "parse_command_approval i params =
     result_bind (ap_required_non_empty_string params ''threadId'') (\<lambda>thread_id.
     result_bind (ap_required_non_empty_string params ''turnId'') (\<lambda>turn_id.
     result_bind (ap_required_non_empty_string params ''itemId'') (\<lambda>item_id.
     result_bind (ap_nullable_string params ''approvalId'') (\<lambda>approval_id.
     result_bind (ap_nullable_string params ''environmentId'') (\<lambda>environment_id.
     result_bind (ap_required_i64 params ''startedAtMs'') (\<lambda>started_at_ms.
     result_bind (ap_nullable_string params ''command'') (\<lambda>command.
     result_bind (parse_command_actions (jget ''commandActions'' params)) (\<lambda>actions.
     result_bind (ap_nullable_string params ''cwd'') (\<lambda>cwd.
     result_bind (ap_nullable_string params ''reason'') (\<lambda>reason.
     result_bind (parse_network_context (jget ''networkApprovalContext'' params)) (\<lambda>context.
     result_bind (ap_nullable_string_array params ''proposedExecpolicyAmendment'') (\<lambda>exec.
     result_bind (parse_network_amendments (jget ''proposedNetworkPolicyAmendments'' params)) (\<lambda>net.
     Inr \<lparr>ca_thread_id = thread_id, ca_turn_id = turn_id, ca_item_id = item_id,
          ca_approval_id = approval_id, ca_environment_id = environment_id,
          ca_started_at_ms = started_at_ms, ca_command = command, ca_actions = actions,
          ca_cwd = cwd, ca_reason = reason, ca_network_context = context,
          ca_proposed_exec_policy_amendment = exec, ca_proposed_network_policy_amendments = net,
          ca_responder = \<lparr>ar_id = i, ar_fallback = decline_response\<rparr>\<rparr>)))))))))))))"

definition parse_file_approval :: "rpc_id \<Rightarrow> json \<Rightarrow> file_change_approval result" where
  "parse_file_approval i params =
     result_bind (ap_required_non_empty_string params ''threadId'') (\<lambda>thread_id.
     result_bind (ap_required_non_empty_string params ''turnId'') (\<lambda>turn_id.
     result_bind (ap_required_non_empty_string params ''itemId'') (\<lambda>item_id.
     result_bind (ap_required_i64 params ''startedAtMs'') (\<lambda>started_at_ms.
     result_bind (ap_nullable_string params ''reason'') (\<lambda>reason.
     result_bind (ap_nullable_string params ''grantRoot'') (\<lambda>grant_root.
     Inr \<lparr>fa_thread_id = thread_id, fa_turn_id = turn_id, fa_item_id = item_id,
          fa_started_at_ms = started_at_ms, fa_reason = reason, fa_grant_root = grant_root,
          fa_responder = \<lparr>ar_id = i, ar_fallback = decline_response\<rparr>\<rparr>))))))"

definition parse_permission_approval :: "rpc_id \<Rightarrow> json \<Rightarrow> permission_approval result" where
  "parse_permission_approval i params =
     result_bind (ok_or (approval_field ''permissions'') (jget ''permissions'' params)) (\<lambda>permissions.
     result_bind (parse_permissions permissions) (\<lambda>requested.
     result_bind (ap_required_non_empty_string params ''threadId'') (\<lambda>thread_id.
     result_bind (ap_required_non_empty_string params ''turnId'') (\<lambda>turn_id.
     result_bind (ap_required_non_empty_string params ''itemId'') (\<lambda>item_id.
     result_bind (ap_nullable_string params ''environmentId'') (\<lambda>environment_id.
     result_bind (ap_required_i64 params ''startedAtMs'') (\<lambda>started_at_ms.
     result_bind (ap_required_string params ''cwd'') (\<lambda>cwd.
     result_bind (ap_nullable_string params ''reason'') (\<lambda>reason.
     Inr \<lparr>pa_thread_id = thread_id, pa_turn_id = turn_id, pa_item_id = item_id,
          pa_environment_id = environment_id, pa_started_at_ms = started_at_ms, pa_cwd = cwd,
          pa_reason = reason, pa_requested = requested,
          pa_responder = \<lparr>ar_id = i, ar_fallback = no_permissions_response\<rparr>\<rparr>)))))))))"

definition parse_user_input_request :: "rpc_id \<Rightarrow> json \<Rightarrow> user_input_request result" where
  "parse_user_input_request i params =
     result_bind (ok_or (approval_field ''questions'')
                    (Option.bind (jget ''questions'' params) as_array)) (\<lambda>vs.
     result_bind (result_map parse_question vs) (\<lambda>questions.
     result_bind (ap_nullable_u64 params ''autoResolutionMs'') (\<lambda>auto_ms.
     result_bind (ap_required_bool params ''isBlocking'') (\<lambda>blocking.
     result_bind (ap_required_non_empty_string params ''threadId'') (\<lambda>thread_id.
     result_bind (ap_required_non_empty_string params ''turnId'') (\<lambda>turn_id.
     result_bind (ap_required_non_empty_string params ''itemId'') (\<lambda>item_id.
     Inr \<lparr>ui_thread_id = thread_id, ui_turn_id = turn_id, ui_item_id = item_id,
          ui_auto_resolution_ms = auto_ms, ui_is_blocking = blocking, ui_questions = questions,
          ui_responder = \<lparr>ar_id = i, ar_fallback = no_answers_response\<rparr>\<rparr>)))))))"

section \<open>Answers\<close>

definition command_response :: "command_decision \<Rightarrow> json" where
  "command_response d =
     jobj [(''decision'', JString (case d of
        CdAccept \<Rightarrow> ''accept'' | CdAcceptForSession \<Rightarrow> ''acceptForSession''
      | CdDecline \<Rightarrow> ''decline'' | CdCancel \<Rightarrow> ''cancel''))]"

definition file_change_response :: "file_change_decision \<Rightarrow> json" where
  "file_change_response d =
     jobj [(''decision'', JString (case d of
        FdAccept \<Rightarrow> ''accept'' | FdAcceptForSession \<Rightarrow> ''acceptForSession''
      | FdDecline \<Rightarrow> ''decline'' | FdCancel \<Rightarrow> ''cancel''))]"

definition answer_error :: "string \<Rightarrow> error" where
  "answer_error msg = new_error InvalidInput ''user_input.answer'' msg"

text \<open>The loop over the answers: \<open>seen\<close> holds the question identifiers met, \<open>output\<close> the map built.\<close>

fun collect_answers ::
  "string set \<Rightarrow> string list \<Rightarrow> json_object \<Rightarrow> user_input_answer list \<Rightarrow> json_object result" where
  "collect_answers allowed seen output [] = Inr output"
| "collect_answers allowed seen output (a # as) =
     (let q = uia_question_id a
      in if q = [] then Inl (answer_error ''question id must be non-empty'')
         else if q \<notin> allowed then Inl (answer_error (''unknown question id '' @ quoted q))
         else if q \<in> set seen
         then Inl (answer_error (''duplicate answer for question '' @ quoted q))
         else collect_answers allowed (seen @ [q])
                (obj_insert q (jobj [(''answers'', JArray (map JString (uia_answers a)))]) output) as)"

definition answer_response :: "user_input_request \<Rightarrow> user_input_answer list \<Rightarrow> json result" where
  "answer_response req answers =
     result_bind (collect_answers (set (map uiq_id (ui_questions req))) [] [] answers)
       (\<lambda>output. Inr (jobj [(''answers'', JObject output)]))"

text \<open>\<open>ApprovalEvent::deny\<close>: the answer it sends.\<close>

definition deny_response :: "approval_event \<Rightarrow> json result" where
  "deny_response ev =
     (case ev of
        ApCommand _ \<Rightarrow> Inr (command_response CdDecline)
      | ApFileChange _ \<Rightarrow> Inr (file_change_response FdDecline)
      | ApPermissions _ \<Rightarrow> Inr no_permissions_response
      | ApUserInput req \<Rightarrow> answer_response req [])"

definition event_responder :: "approval_event \<Rightarrow> approval_responder" where
  "event_responder ev =
     (case ev of ApCommand r \<Rightarrow> ca_responder r | ApFileChange r \<Rightarrow> fa_responder r
      | ApPermissions r \<Rightarrow> pa_responder r | ApUserInput r \<Rightarrow> ui_responder r)"

end
