(* ===== verification/Respond.thy ===== *)
theory Respond
  imports Approval Transport
begin

text \<open>
  \<open>src/src/approval/respond.rs\<close>: the handle a caller holds on a reverse request and the task that
  answers it, as one machine over the process the answer goes to. The caller either responds or drops
  the handle, the task takes the command it was sent or falls back at its deadline, and others use the
  process; each is an atomic step and the steps come in any order. What becomes of a frame, and of a
  kill, are inputs of the step.
\<close>

datatype response_command = Explicit json | Fallback

record respond_state =
  rs_handle :: bool                       \<comment> \<open>\<open>commands\<close> is still \<open>Some\<close>\<close>
  rs_command :: "response_command option" \<comment> \<open>what the channel holds\<close>
  rs_running :: bool                      \<comment> \<open>the task still waits\<close>
  rs_process :: transport
  rs_answers :: "json list"               \<comment> \<open>frames the task gave to \<open>process.send\<close>\<close>
  rs_sent :: "json list"                  \<comment> \<open>those of them that the writer was given\<close>
  rs_delivery :: "unit result option"     \<comment> \<open>what \<open>process.send\<close> returned\<close>
  rs_outcome :: "unit result option"      \<comment> \<open>what \<open>respond\<close> returned\<close>

definition new_responder :: "transport \<Rightarrow> respond_state" where
  "new_responder process =
     \<lparr>rs_handle = True, rs_command = None, rs_running = True, rs_process = process, rs_answers = [],
      rs_sent = [], rs_delivery = None, rs_outcome = None\<rparr>"

definition respond_error :: "string \<Rightarrow> error" where
  "respond_error msg = new_error Disconnected ''approval.respond'' msg"

text \<open>\<open>respond\<close> up to its await, and \<open>Drop\<close>.\<close>

definition respond_call :: "json \<Rightarrow> respond_state \<Rightarrow> respond_state" where
  "respond_call result s =
     (if \<not> rs_handle s then s
      else if rs_running s
      then s\<lparr>rs_handle := False, rs_command := Some (Explicit result)\<rparr>
      else s\<lparr>rs_handle := False,
             rs_outcome := Some (Inl (respond_error
               ''approval response task ended before accepting the decision''))\<rparr>)"

definition drop_responder :: "respond_state \<Rightarrow> respond_state" where
  "drop_responder s =
     (if \<not> rs_handle s then s
      else if rs_running s then s\<lparr>rs_handle := False, rs_command := Some Fallback\<rparr>
      else s\<lparr>rs_handle := False\<rparr>)"

text \<open>The answer of the task: it is sent, and when it could not be, the process is killed.\<close>

definition deliver_answer ::
  "(json \<Rightarrow> string + string) \<Rightarrow> send_inputs \<Rightarrow> kill_inputs \<Rightarrow> json \<Rightarrow> respond_state \<Rightarrow>
   unit result \<times> respond_state" where
  "deliver_answer print_json i k frame s =
     (case send_tracked print_json i frame (rs_process s) of
        (delivery, dispatched, process) \<Rightarrow>
          (delivery,
           s\<lparr>rs_process := (case delivery of Inl _ \<Rightarrow> snd (force_kill k process) | Inr _ \<Rightarrow> process),
             rs_answers := rs_answers s @ [frame],
             rs_sent := (if dispatched then rs_sent s @ [frame] else rs_sent s),
             rs_delivery := Some delivery\<rparr>))"

text \<open>The task after its \<open>select!\<close> chose a command: it answers once and ends. At the deadline the
  command in the channel, if any, is lost with the receiver.\<close>

definition finish_task ::
  "(json \<Rightarrow> string + string) \<Rightarrow> approval_responder \<Rightarrow> send_inputs \<Rightarrow> kill_inputs \<Rightarrow> response_command \<Rightarrow>
   respond_state \<Rightarrow> respond_state" where
  "finish_task print_json ar i k command s =
     (let result = (case command of Explicit r \<Rightarrow> r | Fallback \<Rightarrow> ar_fallback ar)
      in case deliver_answer print_json i k (success (ar_id ar) result)
                (s\<lparr>rs_running := False, rs_command := None\<rparr>) of
        (delivery, s1) \<Rightarrow>
          (case command of
             Explicit _ \<Rightarrow> s1\<lparr>rs_outcome := Some delivery\<rparr>
           | Fallback \<Rightarrow>
               (case rs_command s of
                  Some (Explicit _) \<Rightarrow>
                    s1\<lparr>rs_outcome := Some (Inl (respond_error
                         ''approval response task ended before reporting delivery''))\<rparr>
                | _ \<Rightarrow> s1)))"

datatype respond_op =
    RespondCall json
  | DropHandle
  | TakeCommand send_inputs kill_inputs
  | Deadline send_inputs kill_inputs
  | OtherUse transport_op

definition respond_step ::
  "(json \<Rightarrow> string + string) \<Rightarrow> approval_responder \<Rightarrow> respond_op \<Rightarrow> respond_state \<Rightarrow> respond_state" where
  "respond_step print_json ar op s =
     (case op of
        RespondCall r \<Rightarrow> respond_call r s
      | DropHandle \<Rightarrow> drop_responder s
      | TakeCommand i k \<Rightarrow>
          (case (rs_running s, rs_command s) of
             (True, Some command) \<Rightarrow> finish_task print_json ar i k command s
           | _ \<Rightarrow> s)
      | Deadline i k \<Rightarrow> if rs_running s then finish_task print_json ar i k Fallback s else s
      | OtherUse op \<Rightarrow> s\<lparr>rs_process := transport_step print_json op (rs_process s)\<rparr>)"

section \<open>What the task leaves\<close>

text \<open>How one answer went: the writer has it and acknowledged it, or the process is being ended.\<close>

definition answer_settled :: "json \<Rightarrow> respond_state \<Rightarrow> bool" where
  "answer_settled frame s \<longleftrightarrow>
     rs_answers s = [frame] \<and> set (rs_sent s) \<subseteq> set (tr_frames (rs_process s)) \<and>
     (rs_delivery s = Some (Inr ()) \<and> rs_sent s = [frame] \<or>
      (\<exists>e. rs_delivery s = Some (Inl e)) \<and> (rs_sent s = [] \<or> rs_sent s = [frame]) \<and>
        tr_shutdown_started (rs_process s))"

definition respond_inv :: "approval_responder \<Rightarrow> respond_state \<Rightarrow> bool" where
  "respond_inv ar s \<longleftrightarrow>
     (rs_running s \<longrightarrow> rs_answers s = [] \<and> rs_sent s = [] \<and> rs_delivery s = None \<and> rs_outcome s = None \<and>
        (rs_handle s \<longleftrightarrow> rs_command s = None)) \<and>
     (\<not> rs_running s \<longrightarrow> (\<exists>r. answer_settled (success (ar_id ar) r) s) \<and> rs_command s = None)"

lemma send_tracked_frames:
  assumes "send_tracked print_json i v t = (r, dispatched, t1)"
  shows "set (tr_frames t) \<subseteq> set (tr_frames t1) \<and> (dispatched \<longrightarrow> v \<in> set (tr_frames t1)) \<and>
         (r = Inr () \<longrightarrow> dispatched)"
proof (cases rule: send_tracked_cases [of print_json i v t])
  case (refused e)
  obtain b where "t1 = t\<lparr>tr_shutdown_started := b\<rparr>" "\<not> dispatched" "r = Inl e"
    using refused(1) assms by auto
  then show ?thesis by simp
next
  case sent
  let ?t = "t\<lparr>tr_frames := tr_frames t @ [v]\<rparr>"
  have "t1 = snd (await_ack i ?t)" "dispatched"
    using sent(2) assms by (simp_all add: case_prod_beta)
  then show ?thesis using await_ack_spec(1) [of i ?t] by auto
qed

lemma transport_step_grows:
  "set (tr_frames t) \<subseteq> set (tr_frames (transport_step print_json op t))"
  "tr_shutdown_started t \<Longrightarrow> tr_shutdown_started (transport_step print_json op t)"
proof -
  have "set (tr_frames t) \<subseteq> set (tr_frames (snd (snd (send_tracked print_json i v t))))" for i v
    using send_tracked_frames [of print_json i v t] by (metis prod.collapse)
  then show "set (tr_frames t) \<subseteq> set (tr_frames (transport_step print_json op t))"
    by (cases op) (auto simp: transport_step_def force_kill_frames begin_force_shutdown_def
        shutdown_process_spec send_frame_def case_prod_beta)
  show "tr_shutdown_started t \<Longrightarrow> tr_shutdown_started (transport_step print_json op t)"
    by (cases op) (auto simp: transport_step_def force_kill_frames begin_force_shutdown_def
        shutdown_process_spec send_frame_def send_tracked_def split: if_splits)
qed

lemma answer_settled_other:
  "answer_settled frame s \<Longrightarrow> answer_settled frame (s\<lparr>rs_process := transport_step print_json op (rs_process s)\<rparr>)"
  using transport_step_grows [of "rs_process s" print_json op]
  by (auto simp: answer_settled_def)

lemma deliver_answer_settles:
  assumes "rs_answers s = []" "rs_sent s = []" "deliver_answer print_json i k frame s = (delivery, s1)"
  shows "answer_settled frame s1" and "rs_delivery s1 = Some delivery"
    and "rs_running s1 = rs_running s" "rs_command s1 = rs_command s" "rs_handle s1 = rs_handle s"
    "rs_outcome s1 = rs_outcome s" "rs_answers s1 = [frame]"
proof -
  obtain dispatched process where send: "send_tracked print_json i frame (rs_process s) = (delivery, dispatched, process)"
    using assms(3) by (auto simp: deliver_answer_def split: prod.splits)
  from send_tracked_frames [OF send]
  have "dispatched \<longrightarrow> frame \<in> set (tr_frames process)" "delivery = Inr () \<longrightarrow> dispatched" by simp_all
  moreover have "s1 = s\<lparr>rs_process := (case delivery of Inl _ \<Rightarrow> snd (force_kill k process) | Inr _ \<Rightarrow> process),
      rs_answers := [frame], rs_sent := (if dispatched then [frame] else []), rs_delivery := Some delivery\<rparr>"
    using arg_cong [OF assms(3), of snd, symmetric] by (simp add: deliver_answer_def send assms(1,2))
  ultimately show "answer_settled frame s1" and "rs_delivery s1 = Some delivery"
    and "rs_running s1 = rs_running s" "rs_command s1 = rs_command s" "rs_handle s1 = rs_handle s"
    "rs_outcome s1 = rs_outcome s" "rs_answers s1 = [frame]"
    by (cases delivery; simp add: answer_settled_def force_kill_frames)+
qed

text \<open>The end of the task: what it was given, what it answered and what the caller is told.\<close>

lemma finish_task_ends:
  fixes print_json ar i k command s
  assumes "respond_inv ar s" "rs_running s"
  defines "s1 \<equiv> finish_task print_json ar i k command s"
    and "frame \<equiv> success (ar_id ar) (case command of Explicit r \<Rightarrow> r | Fallback \<Rightarrow> ar_fallback ar)"
  shows "\<not> rs_running s1" "rs_command s1 = None" "answer_settled frame s1"
    and "rs_outcome s1 = Some (Inr ()) \<Longrightarrow> (\<exists>r. command = Explicit r) \<and> rs_delivery s1 = Some (Inr ())"
proof -
  let ?s = "s\<lparr>rs_running := False, rs_command := None\<rparr>"
  obtain delivery s2 where deliver: "deliver_answer print_json i k frame ?s = (delivery, s2)" by fastforce
  have "rs_answers ?s = []" "rs_sent ?s = []" using assms(1,2) by (simp_all add: respond_inv_def)
  note D = deliver_answer_settles [OF this deliver]
  have s1: "s1 = s2 \<or> (\<exists>x. s1 = s2\<lparr>rs_outcome := x\<rparr> \<and> (x = Some (Inr ()) \<longrightarrow> (\<exists>r. command = Explicit r) \<and> delivery = Inr ()))"
    using deliver
    by (auto simp: s1_def frame_def finish_task_def Let_def split: response_command.splits option.splits)
  have "rs_outcome s2 = None" using D(6) assms(1,2) by (simp add: respond_inv_def)
  with s1 D show "\<not> rs_running s1" "rs_command s1 = None" "answer_settled frame s1"
    and "rs_outcome s1 = Some (Inr ()) \<Longrightarrow> (\<exists>r. command = Explicit r) \<and> rs_delivery s1 = Some (Inr ())"
    by (auto simp: answer_settled_def)
qed

lemma respond_step_inv: "respond_inv ar s \<Longrightarrow> respond_inv ar (respond_step print_json ar op s)"
proof (cases op)
  case (TakeCommand i k)
  assume inv: "respond_inv ar s"
  show ?thesis
  proof (cases "rs_running s \<and> rs_command s \<noteq> None")
    case True
    then obtain command where "rs_running s" "rs_command s = Some command" by auto
    with finish_task_ends [OF inv] TakeCommand show ?thesis
      by (simp add: respond_step_def respond_inv_def) blast
  qed (use inv TakeCommand in \<open>auto simp: respond_step_def split: bool.splits option.splits\<close>)
next
  case (Deadline i k)
  assume inv: "respond_inv ar s"
  show ?thesis
  proof (cases "rs_running s")
    case True
    with finish_task_ends [OF inv] Deadline show ?thesis by (simp add: respond_step_def respond_inv_def) blast
  qed (use inv Deadline in \<open>simp add: respond_step_def\<close>)
next
  case (OtherUse p)
  assume "respond_inv ar s"
  with OtherUse show ?thesis
    by (auto simp: respond_step_def respond_inv_def intro: answer_settled_other)
qed (auto simp: respond_step_def respond_call_def drop_responder_def respond_inv_def answer_settled_def)

interpretation rsp: machine "new_responder process" "respond_step print_json ar" "respond_inv ar"
  for process print_json ar
  by unfold_locales (simp add: respond_inv_def new_responder_def, rule respond_step_inv)

text \<open>The caller's own answers, and what the task may answer and acknowledge.\<close>

definition respond_calls :: "respond_op list \<Rightarrow> json set" where
  "respond_calls ops = {r. RespondCall r \<in> set ops}"

definition respond_source :: "approval_responder \<Rightarrow> json set \<Rightarrow> respond_state \<Rightarrow> bool" where
  "respond_source ar R s \<longleftrightarrow>
     (\<forall>r. rs_command s = Some (Explicit r) \<longrightarrow> r \<in> R) \<and>
     set (rs_answers s) \<subseteq> success (ar_id ar) ` insert (ar_fallback ar) R \<and>
     (rs_outcome s = Some (Inr ()) \<longrightarrow>
        (\<exists>r \<in> R. rs_answers s = [success (ar_id ar) r] \<and> rs_delivery s = Some (Inr ())))"

lemma finish_task_source:
  assumes "respond_source ar R s" "respond_inv ar s" "rs_running s"
    and "\<And>r. command = Explicit r \<Longrightarrow> r \<in> R"
  shows "respond_source ar R (finish_task print_json ar i k command s)"
  using assms finish_task_ends [OF assms(2,3), where print_json = print_json and i = i and k = k and command = command]
  by (auto simp: respond_source_def answer_settled_def split: response_command.splits)

lemma respond_step_source:
  assumes "respond_source ar R s" "respond_inv ar s" "\<And>r. op = RespondCall r \<Longrightarrow> r \<in> R"
  shows "respond_source ar R (respond_step print_json ar op s)"
proof (cases op)
  case (TakeCommand i k)
  then show ?thesis using assms(1,2)
    by (auto simp: respond_step_def intro!: finish_task_source split: bool.splits option.splits)
       (auto simp: respond_source_def)
next
  case (Deadline i k)
  then show ?thesis using assms(1,2) by (auto simp: respond_step_def intro!: finish_task_source)
qed (use assms in \<open>auto simp: respond_step_def respond_call_def drop_responder_def respond_source_def\<close>)

lemma respond_run_source:
  "respond_source ar R s \<Longrightarrow> respond_inv ar s \<Longrightarrow> (\<And>r. RespondCall r \<in> set ops \<Longrightarrow> r \<in> R) \<Longrightarrow>
   respond_source ar R (fold (respond_step print_json ar) ops s)"
proof (induction ops arbitrary: s)
  case (Cons op ops)
  from Cons.prems have "respond_source ar R (respond_step print_json ar op s)"
    "respond_inv ar (respond_step print_json ar op s)"
    by (auto intro: respond_step_source respond_step_inv)
  then show ?case using Cons.prems(3) by (auto intro: Cons.IH)
qed simp

text \<open>Once the task has ended it stays ended, and it ends at its deadline.\<close>

lemma respond_step_ended: "\<not> rs_running s \<Longrightarrow> \<not> rs_running (respond_step print_json ar op s)"
  by (cases op)
     (auto simp: respond_step_def respond_call_def drop_responder_def split: option.splits bool.splits)

lemma respond_run_ended: "\<not> rs_running s \<Longrightarrow> \<not> rs_running (fold (respond_step print_json ar) ops s)"
  by (induction ops arbitrary: s) (simp_all add: respond_step_ended)

lemma respond_deadline_ends:
  "respond_inv ar s \<Longrightarrow> \<not> rs_running (respond_step print_json ar (Deadline i k) s)"
  by (auto simp: respond_step_def finish_task_ends)

section \<open>Decoded requests\<close>

text \<open>The facts of a decoder: what each field reader accepted.\<close>

lemmas approval_decoders = parse_command_approval_def parse_file_approval_def
  parse_permission_approval_def parse_user_input_request_def

lemma list_all2_map_eq: "list_all2 (\<lambda>x y. x = f y) xs ys \<longleftrightarrow> xs = map f ys"
  by (auto simp: list_all2_conv_all_nth list_eq_iff_nth_eq)

lemma strings_Inr: "ap_strings field vs = Inr ss \<longleftrightarrow> vs = map JString ss"
  unfolding ap_strings_def result_map_Inr_iff ok_or_Inr_iff as_str_Some_iff list_all2_map_eq ..

text \<open>The listed paths of a permission request: an absent or null list lists nothing.\<close>

definition listed_paths :: "json option \<Rightarrow> string list \<Rightarrow> bool" where
  "listed_paths v ps \<longleftrightarrow> (v \<in> {None, Some JNull} \<and> ps = []) \<or> v = Some (JArray (map JString ps))"

lemma path_permissions_Inr:
  "parse_path_permissions v field access = Inr es \<longleftrightarrow>
     (\<exists>ps. listed_paths v ps \<and> es = map (\<lambda>p. \<lparr>fsp_access = access, fsp_path = FspPath p\<rparr>) ps)"
  by (cases v; cases "the v")
     (auto simp: parse_path_permissions_def listed_paths_def result_simps strings_Inr)

definition listed_entries :: "json option \<Rightarrow> json list \<Rightarrow> bool" where
  "listed_entries v es \<longleftrightarrow> (v \<in> {None, Some JNull} \<and> es = []) \<or> v = Some (JArray es)"

lemma permission_entries_Inr:
  "parse_permission_entries fs = Inr es \<longleftrightarrow>
     (\<exists>vs. listed_entries (map_of fs ''entries'') vs \<and> result_map parse_file_system_permission vs = Inr es)"
  by (cases "map_of fs ''entries''"; cases "the (map_of fs ''entries'')")
     (auto simp: parse_permission_entries_def listed_entries_def)

text \<open>The answer one caller answer becomes.\<close>

definition answer_entry :: "user_input_answer \<Rightarrow> string \<times> json" where
  "answer_entry a =
     (uia_question_id a, jobj [(''answers'', JArray (map JString (uia_answers a)))])"

lemma collect_answers_Inr:
  "collect_answers allowed seen out0 xs = Inr m \<longleftrightarrow>
     (\<forall>a \<in> set xs. uia_question_id a \<noteq> [] \<and> uia_question_id a \<in> allowed
                   \<and> uia_question_id a \<notin> set seen) \<and>
     distinct (map uia_question_id xs) \<and>
     m = foldl (\<lambda>m (k, v). obj_insert k v m) out0 (map answer_entry xs)"
proof (induction xs arbitrary: seen out0)
  case Nil
  show ?case by auto
next
  case (Cons a xs)
  show ?case
  proof (cases "uia_question_id a = [] \<or> uia_question_id a \<notin> allowed \<or> uia_question_id a \<in> set seen")
    case True
    then show ?thesis by (auto simp: Let_def)
  next
    case False
    then have "collect_answers allowed seen out0 (a # xs) =
        collect_answers allowed (seen @ [uia_question_id a])
          (case_prod (\<lambda>k v. obj_insert k v out0) (answer_entry a)) xs"
      by (simp add: Let_def answer_entry_def)
    then show ?thesis
      using False by (simp add: Cons.IH) (auto simp: image_iff)
  qed
qed

definition approval_decoded :: "rpc_id \<Rightarrow> json \<Rightarrow> approval_event \<Rightarrow> bool" where
  "approval_decoded i params ev \<longleftrightarrow>
     (case ev of
        ApCommand r \<Rightarrow> parse_command_approval i params = Inr r
      | ApFileChange r \<Rightarrow> parse_file_approval i params = Inr r
      | ApPermissions r \<Rightarrow> parse_permission_approval i params = Inr r
      | ApUserInput r \<Rightarrow> parse_user_input_request i params = Inr r)"

lemma decoded_responder:
  "parse_command_approval i params = Inr c \<Longrightarrow> ca_responder c = \<lparr>ar_id = i, ar_fallback = decline_response\<rparr>"
  "parse_file_approval i params = Inr f \<Longrightarrow> fa_responder f = \<lparr>ar_id = i, ar_fallback = decline_response\<rparr>"
  "parse_permission_approval i params = Inr p \<Longrightarrow>
     pa_responder p = \<lparr>ar_id = i, ar_fallback = no_permissions_response\<rparr>"
  "parse_user_input_request i params = Inr u \<Longrightarrow>
     ui_responder u = \<lparr>ar_id = i, ar_fallback = no_answers_response\<rparr>"
  by (auto simp: approval_decoders result_bind_Inr_iff)

section \<open>Properties\<close>

text \<open>C25: a reverse request is answered at most once whatever the caller, the deadline, the transport and
  the other users of the process do and in whatever order: one frame at most is given to the process, and
  that frame at most to its writer; the answer is the caller's own or the fail-closed one; and a caller
  told that its answer was delivered is told so about the answer that the writer was given.\<close>

theorem one_answer_per_request:
  fixes print_json ar ops process
  defines "s \<equiv> fold (respond_step print_json ar) ops (new_responder process)"
  shows "length (rs_answers s) \<le> 1 \<and> (rs_sent s = [] \<or> rs_sent s = rs_answers s) \<and>
    set (rs_answers s) \<subseteq> success (ar_id ar) ` insert (ar_fallback ar) (respond_calls ops) \<and>
    (rs_outcome s = Some (Inr ()) \<longrightarrow>
       (\<exists>r \<in> respond_calls ops. rs_sent s = [success (ar_id ar) r] \<and>
          success (ar_id ar) r \<in> set (tr_frames (rs_process s))))"
proof -
  have inv: "respond_inv ar s" unfolding s_def by (rule rsp.invar_run)
  have source: "respond_source ar (respond_calls ops) s"
    unfolding s_def by (rule respond_run_source [OF _ rsp.invar_init])
      (auto simp: respond_source_def respond_calls_def new_responder_def)
  have acked: "\<exists>r \<in> respond_calls ops. rs_sent s = [success (ar_id ar) r] \<and>
      success (ar_id ar) r \<in> set (tr_frames (rs_process s))" if "rs_outcome s = Some (Inr ())"
  proof -
    from source that obtain r where r: "r \<in> respond_calls ops" "rs_answers s = [success (ar_id ar) r]"
      "rs_delivery s = Some (Inr ())"
      by (auto simp: respond_source_def)
    with inv have "rs_sent s = [success (ar_id ar) r]" "success (ar_id ar) r \<in> set (tr_frames (rs_process s))"
      by (auto simp: respond_inv_def answer_settled_def)
    with r(1) show ?thesis by blast
  qed
  have "length (rs_answers s) \<le> 1 \<and> (rs_sent s = [] \<or> rs_sent s = rs_answers s)"
    using inv by (cases "rs_running s") (auto simp: respond_inv_def answer_settled_def)
  with acked source show ?thesis by (auto simp: respond_source_def)
qed

lemma one_answer_per_request_witness:
  "rs_sent (fold (respond_step (\<lambda>_. Inr ''null'') \<lparr>ar_id = IdNumber 7, ar_fallback = decline_response\<rparr>)
     [RespondCall JNull, TakeCommand (demo_send (Some 3)) demo_kill, Deadline (demo_send (Some 3)) demo_kill]
     (new_responder (new_transport 30 100))) = [success (IdNumber 7) JNull]"
  using one_answer_per_request [of "\<lambda>_. Inr ''null''" "\<lparr>ar_id = IdNumber 7, ar_fallback = decline_response\<rparr>"
      "[RespondCall JNull, TakeCommand (demo_send (Some 3)) demo_kill, Deadline (demo_send (Some 3)) demo_kill]"
      "new_transport 30 100"]
  by (simp add: respond_calls_def respond_step_def respond_call_def finish_task_def new_responder_def
      deliver_answer_def send_tracked_def encode_def demo_send_def new_transport_def remaining_send_timeout_def
      await_ack_def)

text \<open>C26: once the deadline of a reverse request has passed its task has given its one answer to the
  process, and at every later point either that answer has been delivered, the writer has it and
  acknowledged it, or the delivery failed and the process is being ended: no request stays open with a
  process that goes on.\<close>

theorem answered_by_deadline:
  fixes print_json ar ops i k later process
  defines "s \<equiv> fold (respond_step print_json ar) (ops @ Deadline i k # later) (new_responder process)"
  shows "\<exists>r. rs_answers s = [success (ar_id ar) r] \<and>
    ((rs_delivery s = Some (Inr ()) \<and> rs_sent s = [success (ar_id ar) r] \<and>
        success (ar_id ar) r \<in> set (tr_frames (rs_process s))) \<or>
     ((\<exists>e. rs_delivery s = Some (Inl e)) \<and> tr_shutdown_started (rs_process s)))"
proof -
  let ?t = "fold (respond_step print_json ar) ops (new_responder process)"
  have "\<not> rs_running (fold (respond_step print_json ar) later (respond_step print_json ar (Deadline i k) ?t))"
    by (rule respond_run_ended [OF respond_deadline_ends [OF rsp.invar_run]])
  then have "\<not> rs_running s" by (simp add: s_def)
  moreover have "respond_inv ar s" unfolding s_def by (rule rsp.invar_run)
  ultimately obtain r where "answer_settled (success (ar_id ar) r) s" by (auto simp: respond_inv_def)
  then show ?thesis
    by (intro exI [of _ r]) (auto simp: answer_settled_def)
qed

text \<open>denying any decoded reverse request sends what its own response task would have sent as
  the fail-closed answer.\<close>

theorem deny_sends_fallback:
  assumes "approval_decoded i params ev"
  shows "deny_response ev = Inr (ar_fallback (event_responder ev)) \<and> ar_id (event_responder ev) = i"
  using assms
  by (cases ev)
     (auto simp: approval_decoded_def deny_response_def event_responder_def decoded_responder
        command_response_def file_change_response_def decline_response_def answer_response_def
        no_answers_response_def jobj_def obj_of_def)

definition demo_file_request :: json where
  "demo_file_request =
     JObject [(''itemId'', JString ''i''), (''startedAtMs'', JNumber (JInt 5)),
              (''threadId'', JString ''t''), (''turnId'', JString ''u'')]"

lemma deny_sends_fallback_witness:
  "deny_response (ApFileChange
     \<lparr>fa_thread_id = ''t'', fa_turn_id = ''u'', fa_item_id = ''i'', fa_started_at_ms = 5,
      fa_reason = None, fa_grant_root = None,
      fa_responder = \<lparr>ar_id = IdNumber 3, ar_fallback = decline_response\<rparr>\<rparr>) = Inr decline_response"
  using deny_sends_fallback [of "IdNumber 3" demo_file_request "ApFileChange
     \<lparr>fa_thread_id = ''t'', fa_turn_id = ''u'', fa_item_id = ''i'', fa_started_at_ms = 5,
      fa_reason = None, fa_grant_root = None,
      fa_responder = \<lparr>ar_id = IdNumber 3, ar_fallback = decline_response\<rparr>\<rparr>"]
  by (simp add: approval_decoded_def parse_file_approval_def demo_file_request_def event_responder_def
      ap_required_non_empty_string_def ap_required_i64_def ap_nullable_string_def
      get_nonempty_str_def nonempty_def get_str_def in_i64_def)

text \<open>the permissions shown to the caller are exactly the requested ones: the read paths, the
  write paths and the structured entries, in that order and none dropped.\<close>

theorem permissions_shown_exactly:
  assumes "parse_permissions (JObject source) = Inr g"
    and "map_of source ''fileSystem'' = Some (JObject fs)"
  shows "\<exists>rs ws vs es.
      listed_paths (map_of fs ''read'') rs \<and> listed_paths (map_of fs ''write'') ws \<and>
      listed_entries (map_of fs ''entries'') vs \<and>
      list_all2 (\<lambda>v e. parse_file_system_permission v = Inr e) vs es \<and>
      pg_entries g = map (\<lambda>p. \<lparr>fsp_access = FsRead, fsp_path = FspPath p\<rparr>) rs
                   @ map (\<lambda>p. \<lparr>fsp_access = FsWrite, fsp_path = FspPath p\<rparr>) ws @ es"
proof -
  from assms obtain reads writes entries where
    "parse_path_permissions (map_of fs ''read'') ''permissions.fileSystem.read'' FsRead = Inr reads"
    "parse_path_permissions (map_of fs ''write'') ''permissions.fileSystem.write'' FsWrite = Inr writes"
    "parse_permission_entries fs = Inr entries" "pg_entries g = reads @ writes @ entries"
    by (auto simp: parse_permissions_def result_bind_Inr_iff)
  then show ?thesis
    unfolding path_permissions_Inr permission_entries_Inr result_map_Inr_iff by blast
qed

definition demo_permissions :: json_object where
  "demo_permissions =
     [(''fileSystem'', JObject [(''read'', JArray [JString ''/a'']), (''write'', JNull)])]"

lemma permissions_shown_exactly_witness:
  "\<exists>rs ws vs es.
      listed_paths (Some (JArray [JString ''/a''])) rs \<and> listed_paths (Some JNull) ws \<and>
      listed_entries None vs \<and> list_all2 (\<lambda>v e. parse_file_system_permission v = Inr e) vs es \<and>
      [\<lparr>fsp_access = FsRead, fsp_path = FspPath ''/a''\<rparr>]
        = map (\<lambda>p. \<lparr>fsp_access = FsRead, fsp_path = FspPath p\<rparr>) rs
        @ map (\<lambda>p. \<lparr>fsp_access = FsWrite, fsp_path = FspPath p\<rparr>) ws @ es"
  using permissions_shown_exactly [of demo_permissions
      "\<lparr>pg_network = None, pg_entries = [\<lparr>fsp_access = FsRead, fsp_path = FspPath ''/a''\<rparr>],
        pg_glob_scan_max_depth = None\<rparr>"
      "[(''read'', JArray [JString ''/a'']), (''write'', JNull)]"]
  by (simp add: demo_permissions_def parse_permissions_def parse_permission_network_def
      parse_path_permissions_def parse_glob_depth_def parse_permission_entries_def ap_strings_def)

text \<open>a user-input answer is sent exactly when every answer names a question of the request and
  no question is answered twice; what is sent then holds each answer under its question.\<close>

theorem answers_accepted_exactly:
  "(answer_response req xs = Inr v) =
     ((\<forall>a \<in> set xs. uia_question_id a \<noteq> [] \<and>
         uia_question_id a \<in> set (map uiq_id (ui_questions req))) \<and>
      distinct (map uia_question_id xs) \<and>
      v = jobj [(''answers'', jobj (map answer_entry xs))])"
  by (auto simp: answer_response_def result_bind_Inr_iff collect_answers_Inr jobj_def obj_of_def)

lemma answers_accepted_exactly_witness:
  "answer_response
     \<lparr>ui_thread_id = ''t'', ui_turn_id = ''u'', ui_item_id = ''i'', ui_auto_resolution_ms = None,
      ui_is_blocking = True,
      ui_questions = [\<lparr>uiq_id = ''q'', uiq_header = [], uiq_question = [], uiq_allows_other = True,
                       uiq_is_secret = False, uiq_options = []\<rparr>],
      ui_responder = \<lparr>ar_id = IdNumber 1, ar_fallback = no_answers_response\<rparr>\<rparr>
     [\<lparr>uia_question_id = ''q'', uia_answers = [''yes'']\<rparr>]
   = Inr (jobj [(''answers'', jobj [(''q'', jobj [(''answers'', JArray [JString ''yes''])])])])"
  by (simp add: answers_accepted_exactly answer_entry_def)

end
