(* ===== verification/Events.thy ===== *)
theory Events
  imports Approval Contracts
begin

text \<open>
  \<open>src/src/event.rs\<close> and the image item of \<open>src/src/image.rs\<close>: the values a run emits, the
  conversion of a turn's completion into its result, and the bounded buffer of diagnostics. The
  buffer's items and its byte count are two mutexes, so \<open>take\<close> is two steps between which a
  \<open>push\<close> may run.
\<close>

section \<open>Image items\<close>

datatype image_generation_failure = UsageLimitExceeded string "int option"

definition failure_retained_bytes :: "image_generation_failure \<Rightarrow> nat" where
  "failure_retained_bytes f = (case f of UsageLimitExceeded limit_id _ \<Rightarrow> length limit_id)"

record image_generation =
  ig_id :: string
  ig_status :: string
  ig_revised_prompt :: "string option"
  ig_result_base64 :: string
  ig_transparent_background :: "bool option"
  ig_failure :: "image_generation_failure option"
  ig_saved_path :: "string option"

definition checked_add_opt :: "nat option \<Rightarrow> nat option \<Rightarrow> nat option" where
  "checked_add_opt a n =
     (case n of None \<Rightarrow> a | Some k \<Rightarrow> Option.bind a (\<lambda>b. checked_add_us b k))"

definition retained_bytes :: "image_generation \<Rightarrow> nat option" where
  "retained_bytes img =
     (let b0 = checked_add_us (length (ig_id img)) (length (ig_status img));
          b1 = checked_add_opt b0 (Some (length (ig_result_base64 img)));
          b2 = checked_add_opt b1 (map_option length (ig_revised_prompt img));
          b3 = checked_add_opt b2 (map_option length (ig_saved_path img))
      in checked_add_opt b3 (map_option failure_retained_bytes (ig_failure img)))"

section \<open>Turn results\<close>

datatype turn_status = TsCompleted | TsInterrupted

record usage =
  us_input_tokens :: nat
  us_cached_input_tokens :: nat
  us_output_tokens :: nat
  us_reasoning_output_tokens :: nat
  us_total_tokens :: nat
  us_model_context_window :: "nat option"

datatype turn_outcome = OutCompleted | OutInterrupted | OutFailed string

record turn_completion =
  tc_turn_id :: string
  tc_outcome :: "turn_outcome result"

record run_result =
  rr_thread_id :: string
  rr_turn_id :: string
  rr_text :: string
  rr_status :: turn_status
  rr_usage :: "usage option"
  rr_image_generations :: "image_generation list"

definition into_result ::
  "turn_completion \<Rightarrow> string \<Rightarrow> string \<Rightarrow> usage option \<Rightarrow> image_generation list \<Rightarrow> run_result result" where
  "into_result c thread_id txt use images =
     result_bind (tc_outcome c) (\<lambda>outcome.
     result_bind (case outcome of
                    OutCompleted \<Rightarrow> Inr TsCompleted
                  | OutInterrupted \<Rightarrow> Inr TsInterrupted
                  | OutFailed msg \<Rightarrow> Inl (new_error Rpc ''turn.completed'' msg)) (\<lambda>status.
     Inr \<lparr>rr_thread_id = thread_id, rr_turn_id = tc_turn_id c, rr_text = txt, rr_status = status,
          rr_usage = use, rr_image_generations = images\<rparr>))"

record command_summary =
  cs_item_id :: string
  cs_command :: string
  cs_cwd :: "string option"
  cs_status :: string

record file_change_summary =
  fc_item_id :: string
  fc_paths :: "string list"
  fc_status :: string

record turn_audit =
  ta_turn_id :: string
  ta_commands :: "command_summary list"
  ta_file_changes :: "file_change_summary list"
  ta_image_generations :: "image_generation list"
  ta_other_item_types :: "string list"

datatype event =
    Started
  | TextDelta string
  | Command command_summary
  | CommandOutput string
  | FileChange file_change_summary
  | ImageGeneration image_generation
  | ApprovalRequested approval_event
  | UsageUpdated usage
  | Warning string
  | Unknown string
  | Completed run_result
  | Failed error

section \<open>Diagnostics\<close>

record diagnostic =
  dg_method :: string
  dg_message :: string

record diagnostic_buffer =
  db_items :: "diagnostic list"
  db_bytes :: nat

definition DIAGNOSTIC_CAPACITY :: nat where "DIAGNOSTIC_CAPACITY = 128"
definition DIAGNOSTIC_ITEM_BYTES :: nat where "DIAGNOSTIC_ITEM_BYTES = 8192"
definition DIAGNOSTIC_TOTAL_BYTES :: nat where "DIAGNOSTIC_TOTAL_BYTES = 1048576"

definition new_diagnostics :: diagnostic_buffer where
  "new_diagnostics = \<lparr>db_items = [], db_bytes = 0\<rparr>"

definition diagnostic_bytes :: "diagnostic \<Rightarrow> nat" where
  "diagnostic_bytes d = sat_add_us (length (dg_method d)) (length (dg_message d))"

definition has_overflow :: "diagnostic list \<Rightarrow> bool" where
  "has_overflow items \<longleftrightarrow> list_ex (\<lambda>d. dg_method d = ''vergerail/diagnosticsOverflow'') items"

definition overflow_marker :: diagnostic where
  "overflow_marker =
     \<lparr>dg_method = ''vergerail/diagnosticsOverflow'',
      dg_message =
        ''older diagnostics were discarded after reaching a bounded count or byte limit''\<rparr>"

text \<open>The largest character boundary not above a position.\<close>

fun floor_boundary :: "string \<Rightarrow> nat \<Rightarrow> nat" where
  "floor_boundary s 0 = 0"
| "floor_boundary s (Suc n) = (if is_char_boundary s (Suc n) then Suc n else floor_boundary s n)"

definition bound_diagnostic :: "diagnostic \<Rightarrow> diagnostic" where
  "bound_diagnostic d =
     (let meth = take (floor_boundary (dg_method d)
                        (min (length (dg_method d)) DIAGNOSTIC_ITEM_BYTES)) (dg_method d);
          limit = DIAGNOSTIC_ITEM_BYTES - length meth;
          msg = (if limit < length (dg_message d)
                 then take (floor_boundary (dg_message d) limit) (dg_message d)
                 else dg_message d)
      in \<lparr>dg_method = meth, dg_message = msg\<rparr>)"

text \<open>The two eviction loops of \<open>push\<close>: the first also makes room for the marker.\<close>

fun evict_for_marker :: "nat \<Rightarrow> diagnostic list \<Rightarrow> nat \<Rightarrow> diagnostic list \<times> nat" where
  "evict_for_marker sz [] bytes = ([], bytes)"
| "evict_for_marker sz (d # ds) bytes =
     (if DIAGNOSTIC_CAPACITY - 1 \<le> length (d # ds)
         \<or> DIAGNOSTIC_TOTAL_BYTES
             < sat_add_us (sat_add_us bytes sz)
                 (if has_overflow (d # ds) then 0 else diagnostic_bytes overflow_marker)
      then evict_for_marker sz ds (bytes - diagnostic_bytes d)
      else (d # ds, bytes))"

fun evict_for_item :: "nat \<Rightarrow> diagnostic list \<Rightarrow> nat \<Rightarrow> diagnostic list \<times> nat" where
  "evict_for_item sz [] bytes = ([], bytes)"
| "evict_for_item sz (d # ds) bytes =
     (if DIAGNOSTIC_CAPACITY \<le> length (d # ds) \<or> DIAGNOSTIC_TOTAL_BYTES < sat_add_us bytes sz
      then evict_for_item sz ds (bytes - diagnostic_bytes d)
      else (d # ds, bytes))"

definition make_marker_room :: "nat \<Rightarrow> diagnostic list \<Rightarrow> nat \<Rightarrow> diagnostic list \<times> nat" where
  "make_marker_room sz items bytes =
     (if DIAGNOSTIC_CAPACITY \<le> length items \<or> DIAGNOSTIC_TOTAL_BYTES < sat_add_us bytes sz
      then (case evict_for_marker sz items bytes of (items1, bytes1) \<Rightarrow>
              if \<not> has_overflow items1 \<and> length items1 < DIAGNOSTIC_CAPACITY
              then (items1 @ [overflow_marker], sat_add_us bytes1 (diagnostic_bytes overflow_marker))
              else (items1, bytes1))
      else (items, bytes))"

definition push_diagnostic :: "diagnostic \<Rightarrow> diagnostic_buffer \<Rightarrow> diagnostic_buffer" where
  "push_diagnostic d0 b =
     (let d = bound_diagnostic d0; sz = diagnostic_bytes d
      in case make_marker_room sz (db_items b) (db_bytes b) of (items1, bytes1) \<Rightarrow>
         case evict_for_item sz items1 bytes1 of (items2, bytes2) \<Rightarrow>
           \<lparr>db_items = items2 @ [d], db_bytes = sat_add_us bytes2 sz\<rparr>)"

text \<open>\<open>take\<close>: the items are drained under their lock, then the count is reset under its own.\<close>

definition drain_diagnostics :: "diagnostic_buffer \<Rightarrow> diagnostic list \<times> diagnostic_buffer" where
  "drain_diagnostics b = (db_items b, b\<lparr>db_items := []\<rparr>)"

definition reset_diagnostic_bytes :: "diagnostic_buffer \<Rightarrow> diagnostic_buffer" where
  "reset_diagnostic_bytes b = b\<lparr>db_bytes := 0\<rparr>"

definition take_diagnostics :: "diagnostic_buffer \<Rightarrow> diagnostic list \<times> diagnostic_buffer" where
  "take_diagnostics b =
     (case drain_diagnostics b of (items, b1) \<Rightarrow> (items, reset_diagnostic_bytes b1))"

datatype diagnostic_op = PushDiagnostic diagnostic | DrainItems | ResetBytes

definition diagnostic_step :: "diagnostic_op \<Rightarrow> diagnostic_buffer \<Rightarrow> diagnostic_buffer" where
  "diagnostic_step op b =
     (case op of
        PushDiagnostic d \<Rightarrow> push_diagnostic d b
      | DrainItems \<Rightarrow> snd (drain_diagnostics b)
      | ResetBytes \<Rightarrow> reset_diagnostic_bytes b)"

section \<open>Bounds\<close>

lemma floor_boundary_le: "floor_boundary s n \<le> n"
  by (induction n) auto

lemma floor_boundary_is_boundary: "is_char_boundary s (floor_boundary s n)"
  by (induction n) auto

lemma diagnostic_limits [simp]:
  "DIAGNOSTIC_CAPACITY = 128" "DIAGNOSTIC_ITEM_BYTES = 8192" "DIAGNOSTIC_TOTAL_BYTES = 1048576"
  by (simp_all add: DIAGNOSTIC_CAPACITY_def DIAGNOSTIC_ITEM_BYTES_def DIAGNOSTIC_TOTAL_BYTES_def)

lemma sat_add_small: "a + b \<le> 18446744073709551615 \<Longrightarrow> sat_add_us a b = a + b"
  by (simp add: sat_add_us_def usize_max_def)

lemma diagnostic_bytes_le: "diagnostic_bytes d \<le> length (dg_method d) + length (dg_message d)"
  by (simp add: diagnostic_bytes_def sat_add_us_le)

lemma bound_diagnostic_bytes: "diagnostic_bytes (bound_diagnostic d) \<le> 8192"
proof -
  let ?m = "take (floor_boundary (dg_method d) (min (length (dg_method d)) 8192)) (dg_method d)"
  have m: "length ?m \<le> 8192"
    using floor_boundary_le [of "dg_method d" "min (length (dg_method d)) 8192"] by simp
  have "length (dg_message (bound_diagnostic d)) \<le> 8192 - length ?m"
    using floor_boundary_le [of "dg_message d" "8192 - length ?m"]
    by (auto simp: bound_diagnostic_def Let_def)
  moreover have "dg_method (bound_diagnostic d) = ?m" by (simp add: bound_diagnostic_def Let_def)
  ultimately show ?thesis
    using m diagnostic_bytes_le [of "bound_diagnostic d"] by simp
qed

lemma overflow_marker_bytes: "diagnostic_bytes overflow_marker = 106"
  by (simp add: diagnostic_bytes_def overflow_marker_def sat_add_us_def usize_max_def)

abbreviation (input) total_bytes :: "diagnostic list \<Rightarrow> nat" where
  "total_bytes items \<equiv> sum_list (map diagnostic_bytes items)"

text \<open>What an eviction loop leaves: a suffix, with the count of its bytes, that is empty or fits.\<close>

lemma evict_for_marker_spec:
  assumes "evict_for_marker sz items bytes = (items1, bytes1)"
  shows "\<exists>dropped. items = dropped @ items1 \<and>
           (bytes = total_bytes items \<longrightarrow> bytes1 = total_bytes items1) \<and>
           (items1 = [] \<or> length items1 < 127 \<and>
              sat_add_us (sat_add_us bytes1 sz)
                (if has_overflow items1 then 0 else diagnostic_bytes overflow_marker) \<le> 1048576)"
  using assms
proof (induction sz items bytes rule: evict_for_marker.induct)
  case (1 sz bytes)
  then show ?case by simp
next
  case (2 sz d ds bytes)
  show ?case
  proof (cases "DIAGNOSTIC_CAPACITY - 1 \<le> length (d # ds)
         \<or> DIAGNOSTIC_TOTAL_BYTES
             < sat_add_us (sat_add_us bytes sz)
                 (if has_overflow (d # ds) then 0 else diagnostic_bytes overflow_marker)")
    case True
    then have "evict_for_marker sz ds (bytes - diagnostic_bytes d) = (items1, bytes1)"
      using 2(2) by (simp del: diagnostic_limits)
    from 2(1) [OF True this] obtain dropped where "ds = dropped @ items1"
      "bytes - diagnostic_bytes d = total_bytes ds \<longrightarrow> bytes1 = total_bytes items1"
      "items1 = [] \<or> length items1 < 127 \<and>
              sat_add_us (sat_add_us bytes1 sz)
                (if has_overflow items1 then 0 else diagnostic_bytes overflow_marker) \<le> 1048576"
      by blast
    then show ?thesis by (intro exI [of _ "d # dropped"]) auto
  next
    case False
    with 2(2) have e: "items1 = d # ds" "bytes1 = bytes" by (auto simp del: diagnostic_limits)
    show ?thesis
      using False unfolding e by (intro exI [of _ "[]"]) (auto simp: not_less not_le)
  qed
qed

lemma evict_for_item_spec:
  assumes "evict_for_item sz items bytes = (items1, bytes1)"
  shows "\<exists>dropped. items = dropped @ items1 \<and>
           (bytes = total_bytes items \<longrightarrow> bytes1 = total_bytes items1) \<and>
           (items1 = [] \<or> length items1 < 128 \<and> sat_add_us bytes1 sz \<le> 1048576)"
  using assms
proof (induction sz items bytes rule: evict_for_item.induct)
  case (1 sz bytes)
  then show ?case by simp
next
  case (2 sz d ds bytes)
  show ?case
  proof (cases "DIAGNOSTIC_CAPACITY \<le> length (d # ds) \<or> DIAGNOSTIC_TOTAL_BYTES < sat_add_us bytes sz")
    case True
    then have "evict_for_item sz ds (bytes - diagnostic_bytes d) = (items1, bytes1)"
      using 2(2) by (simp del: diagnostic_limits)
    from 2(1) [OF True this] obtain dropped where "ds = dropped @ items1"
      "bytes - diagnostic_bytes d = total_bytes ds \<longrightarrow> bytes1 = total_bytes items1"
      "items1 = [] \<or> length items1 < 128 \<and> sat_add_us bytes1 sz \<le> 1048576"
      by blast
    then show ?thesis by (intro exI [of _ "d # dropped"]) auto
  next
    case False
    with 2(2) have e: "items1 = d # ds" "bytes1 = bytes" by (auto simp del: diagnostic_limits)
    show ?thesis
      using False unfolding e by (intro exI [of _ "[]"]) (auto simp: not_less not_le)
  qed
qed

definition diagnostics_ok :: "diagnostic_buffer \<Rightarrow> bool" where
  "diagnostics_ok b \<longleftrightarrow>
     db_bytes b = total_bytes (db_items b) \<and> length (db_items b) \<le> 128 \<and> db_bytes b \<le> 1048576 \<and>
     (\<forall>d \<in> set (db_items b). diagnostic_bytes d \<le> 8192)"

lemma has_overflow_append: "has_overflow (xs @ ys) = (has_overflow xs \<or> has_overflow ys)"
  by (simp add: has_overflow_def)

lemma has_overflow_marker: "has_overflow [overflow_marker]"
  by (simp add: has_overflow_def overflow_marker_def)

lemma make_marker_room_spec:
  assumes m: "make_marker_room sz items bytes = (items1, bytes1)"
    and b: "bytes = total_bytes items" "bytes \<le> 1048576" and sz: "sz \<le> 8192"
  shows "\<exists>dropped kept. items = dropped @ kept \<and> (items1 = kept \<or> items1 = kept @ [overflow_marker]) \<and>
           bytes1 = total_bytes items1 \<and> (dropped \<noteq> [] \<longrightarrow> has_overflow items1) \<and>
           (items1 = [] \<or> length items1 < 128 \<and> bytes1 + sz \<le> 1048576)"
proof (cases "DIAGNOSTIC_CAPACITY \<le> length items \<or> DIAGNOSTIC_TOTAL_BYTES < sat_add_us bytes sz")
  case False
  with m have "items1 = items" "bytes1 = bytes" by (simp_all add: make_marker_room_def del: diagnostic_limits)
  moreover have "sat_add_us bytes sz = bytes + sz" using b sz by (simp add: sat_add_small)
  ultimately show ?thesis using False b by (intro exI [of _ "[]"] exI [of _ items]) simp
next
  case True
  obtain kept bytes2 where e: "evict_for_marker sz items bytes = (kept, bytes2)"
    by (cases "evict_for_marker sz items bytes")
  from evict_for_marker_spec [OF e] b obtain dropped where d: "items = dropped @ kept"
    "bytes2 = total_bytes kept"
    and fits: "kept = [] \<or> length kept < 127 \<and>
              sat_add_us (sat_add_us bytes2 sz)
                (if has_overflow kept then 0 else diagnostic_bytes overflow_marker) \<le> 1048576"
    by blast
  have le: "bytes2 \<le> 1048576" using d b by simp
  have sums: "sat_add_us bytes2 sz = bytes2 + sz"
    "sat_add_us (bytes2 + sz) 106 = bytes2 + sz + 106" "sat_add_us bytes2 106 = bytes2 + 106"
    "sat_add_us (bytes2 + sz) 0 = bytes2 + sz"
    using le sz by (simp_all add: sat_add_small)
  show ?thesis
  proof (cases "has_overflow kept")
    case h: True
    with m True e have "items1 = kept" "bytes1 = bytes2"
      by (simp_all add: make_marker_room_def del: diagnostic_limits)
    then show ?thesis
      using d fits h sums by (intro exI [of _ dropped] exI [of _ kept]) (auto simp: has_overflow_def)
  next
    case h: False
    have "length kept < 128" using fits by auto
    with m True e h have i: "items1 = kept @ [overflow_marker]" "bytes1 = bytes2 + 106"
      using sums by (auto simp: make_marker_room_def overflow_marker_bytes)
    have "has_overflow items1" using has_overflow_marker by (simp add: i has_overflow_append)
    moreover have "length items1 < 128 \<and> bytes1 + sz \<le> 1048576"
      using fits h sums sz d by (auto simp: i overflow_marker_bytes)
    ultimately show ?thesis
      using d i by (intro exI [of _ dropped] exI [of _ kept]) (simp add: overflow_marker_bytes)
  qed
qed

text \<open>One push: the oldest items go, and when any goes the marker is in the buffer.\<close>

lemma push_diagnostic_spec:
  assumes ok: "diagnostics_ok b"
  shows "\<exists>dropped kept marker. db_items b = dropped @ kept \<and> marker \<in> {[], [overflow_marker]} \<and>
           db_items (push_diagnostic d b) = kept @ marker @ [bound_diagnostic d] \<and>
           (dropped \<noteq> [] \<longrightarrow> has_overflow (db_items (push_diagnostic d b)))"
    and "diagnostics_ok (push_diagnostic d b)"
proof -
  let ?d = "bound_diagnostic d"
  have sz: "diagnostic_bytes ?d \<le> 8192" by (rule bound_diagnostic_bytes)
  obtain items1 bytes1 where m: "make_marker_room (diagnostic_bytes ?d) (db_items b) (db_bytes b) = (items1, bytes1)"
    by (cases "make_marker_room (diagnostic_bytes ?d) (db_items b) (db_bytes b)")
  from make_marker_room_spec [OF m _ _ sz] ok obtain dropped kept where
    k: "db_items b = dropped @ kept" "items1 = kept \<or> items1 = kept @ [overflow_marker]"
      "bytes1 = total_bytes items1" "dropped \<noteq> [] \<longrightarrow> has_overflow items1"
      "items1 = [] \<or> length items1 < 128 \<and> bytes1 + diagnostic_bytes ?d \<le> 1048576"
    by (auto simp: diagnostics_ok_def)
  have sat: "items1 \<noteq> [] \<Longrightarrow> sat_add_us bytes1 (diagnostic_bytes ?d) = bytes1 + diagnostic_bytes ?d"
    using k(5) by (simp add: sat_add_small)
  have e: "evict_for_item (diagnostic_bytes ?d) items1 bytes1 = (items1, bytes1)"
    using k(5) sat by (cases items1) auto
  have p: "push_diagnostic d b =
      \<lparr>db_items = items1 @ [?d], db_bytes = sat_add_us bytes1 (diagnostic_bytes ?d)\<rparr>"
    using m e by (simp add: push_diagnostic_def Let_def)
  have total: "sat_add_us bytes1 (diagnostic_bytes ?d) = total_bytes (items1 @ [?d])"
    using k(3,5) sat sz by (cases "items1 = []") (auto simp: sat_add_small)
  show "\<exists>dropped kept marker. db_items b = dropped @ kept \<and> marker \<in> {[], [overflow_marker]} \<and>
           db_items (push_diagnostic d b) = kept @ marker @ [bound_diagnostic d] \<and>
           (dropped \<noteq> [] \<longrightarrow> has_overflow (db_items (push_diagnostic d b)))"
    using k(1,2,4) p by (auto simp: has_overflow_append)
  have "\<forall>x \<in> set items1. diagnostic_bytes x \<le> 8192"
    using k(1,2) ok overflow_marker_bytes by (auto simp: diagnostics_ok_def)
  then show "diagnostics_ok (push_diagnostic d b)"
    using p total k(3,5) sz by (auto simp: diagnostics_ok_def)
qed

interpretation diag_bytes: bounded_buffer new_diagnostics push_diagnostic db_items
  "\<lambda>items. total_bytes items" 1048576 diagnostics_ok bound_diagnostic
proof unfold_locales
  show "diagnostics_ok new_diagnostics" by (simp add: diagnostics_ok_def new_diagnostics_def)
next
  fix b x assume ok: "diagnostics_ok b"
  show "diagnostics_ok (push_diagnostic x b)" by (rule push_diagnostic_spec(2) [OF ok])
  show "db_items (push_diagnostic x b) \<noteq> [] \<and> last (db_items (push_diagnostic x b)) = bound_diagnostic x"
    using push_diagnostic_spec(1) [OF ok, of x] by auto
  show "total_bytes (db_items b) \<le> 1048576" using ok by (simp add: diagnostics_ok_def)
qed

text \<open>Any interleaving of pushes with the two halves of \<open>take\<close>.\<close>

definition diagnostics_few :: "diagnostic_buffer \<Rightarrow> bool" where
  "diagnostics_few b \<longleftrightarrow>
     length (db_items b) \<le> 128 \<and> (\<forall>d \<in> set (db_items b). diagnostic_bytes d \<le> 8192)"

lemma diagnostic_step_few:
  assumes few: "diagnostics_few b" shows "diagnostics_few (diagnostic_step op b)"
proof (cases op)
  case (PushDiagnostic d)
  let ?d = "bound_diagnostic d"
  obtain items1 bytes1 where m: "make_marker_room (diagnostic_bytes ?d) (db_items b) (db_bytes b) = (items1, bytes1)"
    by (cases "make_marker_room (diagnostic_bytes ?d) (db_items b) (db_bytes b)")
  obtain items2 bytes2 where e: "evict_for_item (diagnostic_bytes ?d) items1 bytes1 = (items2, bytes2)"
    by (cases "evict_for_item (diagnostic_bytes ?d) items1 bytes1")
  have p: "db_items (push_diagnostic d b) = items2 @ [?d]"
    using m e by (simp add: push_diagnostic_def Let_def)
  have "\<exists>dropped kept. db_items b = dropped @ kept \<and> set items1 \<subseteq> insert overflow_marker (set kept)"
    using m evict_for_marker_spec [of "diagnostic_bytes ?d" "db_items b" "db_bytes b"]
    by (fastforce simp: make_marker_room_def split: if_splits prod.splits)
  then have "set items1 \<subseteq> insert overflow_marker (set (db_items b))" by auto
  moreover obtain dropped where "items1 = dropped @ items2" "items2 = [] \<or> length items2 < 128"
    using evict_for_item_spec [OF e] by blast
  ultimately show ?thesis
    using few p PushDiagnostic overflow_marker_bytes bound_diagnostic_bytes [of d]
    by (auto simp: diagnostics_few_def diagnostic_step_def)
qed (use few in \<open>auto simp: diagnostics_few_def diagnostic_step_def drain_diagnostics_def
       reset_diagnostic_bytes_def\<close>)

interpretation diag_any: machine new_diagnostics diagnostic_step diagnostics_few
  by unfold_locales (simp add: diagnostics_few_def new_diagnostics_def, rule diagnostic_step_few)

lemma total_bytes_few: "diagnostics_few b \<Longrightarrow> total_bytes (db_items b) \<le> 1048576"
proof -
  assume few: "diagnostics_few b"
  have "total_bytes (db_items b) \<le> length (db_items b) * 8192"
    using few by (intro sum_list_map_le) (simp add: diagnostics_few_def)
  also have "\<dots> \<le> 1048576" using few by (simp add: diagnostics_few_def)
  finally show ?thesis .
qed

section \<open>Properties\<close>

text \<open>however pushes and the two halves of \<open>take\<close> interleave, the buffer holds at most 128
  diagnostics and one mebibyte of them.\<close>

theorem diagnostics_bounded_under_interleaving:
  "length (db_items (fold diagnostic_step ops new_diagnostics)) \<le> 128 \<and>
   sum_list (map diagnostic_bytes (db_items (fold diagnostic_step ops new_diagnostics))) \<le> 1048576"
  using total_bytes_few [OF diag_any.invar_run [of ops]] diag_any.invar_run [of ops]
  by (simp add: diagnostics_few_def)

text \<open>no diagnostic is lost silently: after any pushes the buffer holds all of them in order, each
  cut to its size limit, or it holds the overflow marker.\<close>

theorem discarded_diagnostics_reported:
  "has_overflow (db_items (fold push_diagnostic ds new_diagnostics)) \<or>
   db_items (fold push_diagnostic ds new_diagnostics) = map bound_diagnostic ds"
proof (induction ds rule: rev_induct)
  case Nil
  show ?case by (simp add: new_diagnostics_def)
next
  case (snoc d ds)
  let ?b = "fold push_diagnostic ds new_diagnostics"
  have ok: "diagnostics_ok ?b" by (rule diag_bytes.invar_run)
  obtain dropped kept marker where p: "db_items ?b = dropped @ kept" "marker \<in> {[], [overflow_marker]}"
    "db_items (push_diagnostic d ?b) = kept @ marker @ [bound_diagnostic d]"
    "dropped \<noteq> [] \<longrightarrow> has_overflow (db_items (push_diagnostic d ?b))"
    using push_diagnostic_spec(1) [OF ok, of d] by blast
  show ?case
  proof (cases "dropped = [] \<and> marker = []")
    case True
    with p snoc show ?thesis by (auto simp: has_overflow_append)
  next
    case False
    then have "has_overflow (db_items (push_diagnostic d ?b))"
      using p has_overflow_marker by (auto simp: has_overflow_append)
    then show ?thesis by simp
  qed
qed

end
