(* ===== verification/RunState.thy ===== *)
theory RunState
  imports Events "HOL-Library.AList"
begin

text \<open>
  \<open>src/src/session/run_state.rs\<close>: the ownership of active turns. A registration creates the cells
  a run handle shares with its route (event queue, terminal result, abandoned flag, control), here
  a \<open>run_cell\<close> under a fresh run number; two handles are the same \<open>Arc\<close> when their numbers are
  equal. The session's \<open>active\<close> flag is shared by its runs and has a number of its own. The
  registry's map is an association list. Every operation runs under the registry's mutex and is one
  step. Dropping an event value is implicit where an outcome does not keep it; what it does to a
  reverse request is the \<open>DropHandle\<close> step of \<open>Respond\<close>.
\<close>

section \<open>State\<close>

record run_control =
  ct_interrupt_started :: bool
  ct_provider_terminal :: bool
  ct_interrupt_result :: "unit result option"

record run_cell =
  rc_queue :: "event list"
  rc_capacity :: nat
  rc_events_open :: bool
  rc_terminal :: "run_result result option"
  rc_terminal_open :: bool
  rc_abandoned :: bool
  rc_control :: run_control

datatype deferred_run_notification =
    DeferredEvent string string event
  | DeferredTerminal json

datatype run_phase =
    Starting "deferred_run_notification list"
  | Replaying string "deferred_run_notification list"
  | Active string
  | TerminalBeforeStart "string option"

record run_route =
  ro_run :: nat
  ro_active :: nat
  ro_phase :: run_phase
  ro_pending_failure :: "error option"
  ro_text :: string
  ro_maximum_output_bytes :: nat
  ro_usage :: "usage option"
  ro_image_generations :: "image_generation list"
  ro_image_generation_bytes :: nat
  ro_deferred_image_bytes :: nat
  ro_deferred_image_bytes_by_id :: "string \<rightharpoonup> nat"

record run_world =
  rw_routes :: "(string \<times> run_route) list"
  rw_cells :: "nat \<Rightarrow> run_cell"
  rw_next :: nat
  rw_active :: "nat \<Rightarrow> bool"

fun phase_turn_id :: "run_phase \<Rightarrow> string option" where
  "phase_turn_id (Starting _) = None"
| "phase_turn_id (Replaying t _) = Some t"
| "phase_turn_id (Active t) = Some t"
| "phase_turn_id (TerminalBeforeStart t) = t"

fun is_terminal :: "run_phase \<Rightarrow> bool" where
  "is_terminal (TerminalBeforeStart _) = True"
| "is_terminal _ = False"

datatype pre_start_failure_transition = PreApplied | PreIgnored | ProviderTurnOwned

datatype start_turn_transition =
    Replay "deferred_run_notification list"
  | CompletedBeforeAcknowledgement
  | MissingRoute
  | TerminalTurnMismatch string
  | AlreadyAcknowledged

datatype replay_outcome = ReplayNext "deferred_run_notification list" | ReplayActive | ReplayStopped

datatype terminal_route_outcome =
    TrDeferred
  | TrCompleted
  | TrUnregistered
  | TrDuplicate string
  | TrTurnMismatch string string

datatype run_event_outcome =
    ReUnregistered
  | ReDelivered
  | ReDeferred
  | ReIgnoredBeforeTurn
  | ReIgnoredAfterAbandon
  | ReIgnoredAfterFailure
  | ReTurnMismatch string string
  | ReAfterTerminal
  | ReRouteFailure string nat

section \<open>Run control\<close>

definition new_control :: run_control where
  "new_control =
     \<lparr>ct_interrupt_started = False, ct_provider_terminal = False, ct_interrupt_result = None\<rparr>"

definition try_start_interrupt :: "run_control \<Rightarrow> bool \<times> run_control" where
  "try_start_interrupt c =
     (if ct_interrupt_started c \<or> ct_provider_terminal c then (False, c)
      else (True, c\<lparr>ct_interrupt_started := True\<rparr>))"

definition mark_provider_terminal :: "run_control \<Rightarrow> run_control" where
  "mark_provider_terminal c = c\<lparr>ct_provider_terminal := True\<rparr>"

text \<open>The guard of a started interrupt: \<open>complete\<close> publishes its result, \<open>drop\<close> of a guard that was
  not completed publishes the loss of the task.\<close>

definition complete_interrupt :: "unit result \<Rightarrow> run_control \<Rightarrow> run_control" where
  "complete_interrupt res c = c\<lparr>ct_interrupt_result := Some res\<rparr>"

definition drop_interrupt_guard :: "run_control \<Rightarrow> run_control" where
  "drop_interrupt_guard c =
     c\<lparr>ct_interrupt_result := Some (Inl (new_error Disconnected ''turn.interrupt''
         ''interrupt request task ended before producing a result''))\<rparr>"

section \<open>Routing one event\<close>

definition new_cell :: "nat \<Rightarrow> run_cell" where
  "new_cell capacity =
     \<lparr>rc_queue = [], rc_capacity = capacity, rc_events_open = True, rc_terminal = None,
      rc_terminal_open = True, rc_abandoned = False, rc_control = new_control\<rparr>"

definition resource_limit :: "string \<Rightarrow> string \<Rightarrow> error" where
  "resource_limit op msg = new_error ResourceLimit op msg"

definition clear_deferred :: "run_phase \<Rightarrow> run_phase" where
  "clear_deferred p =
     (case p of Starting _ \<Rightarrow> Starting [] | Replaying t _ \<Rightarrow> Replaying t [] | _ \<Rightarrow> p)"

definition clear_deferred_image_bytes :: "run_route \<Rightarrow> run_route" where
  "clear_deferred_image_bytes r =
     r\<lparr>ro_deferred_image_bytes := 0, ro_deferred_image_bytes_by_id := Map.empty\<rparr>"

definition record_failure :: "string \<Rightarrow> error \<Rightarrow> run_route \<Rightarrow> run_event_outcome \<times> run_route" where
  "record_failure turn_id e r =
     (if ro_pending_failure r \<noteq> None then (ReIgnoredAfterFailure, r)
      else (ReRouteFailure turn_id (ro_run r),
            (clear_deferred_image_bytes (r\<lparr>ro_phase := clear_deferred (ro_phase r)\<rparr>))
              \<lparr>ro_pending_failure := Some e\<rparr>))"

text \<open>\<open>let Some(turn_id) = self.phase.turn_id().or(observed) else \<dots>; self.record_failure(\<dots>)\<close>.\<close>

definition fail_route :: "string option \<Rightarrow> error \<Rightarrow> run_route \<Rightarrow> run_event_outcome \<times> run_route" where
  "fail_route observed e r =
     (case (case phase_turn_id (ro_phase r) of Some t \<Rightarrow> Some t | None \<Rightarrow> observed) of
        None \<Rightarrow> (ReAfterTerminal, r)
      | Some t \<Rightarrow> record_failure t e r)"

text \<open>\<open>events.try_send\<close>: \<open>None\<close> when the event was queued.\<close>

datatype try_send_error = SendFull | SendClosed

definition try_send :: "event \<Rightarrow> run_cell \<Rightarrow> try_send_error option \<times> run_cell" where
  "try_send ev c =
     (if \<not> rc_events_open c then (Some SendClosed, c)
      else if rc_capacity c \<le> length (rc_queue c) then (Some SendFull, c)
      else (None, c\<lparr>rc_queue := rc_queue c @ [ev]\<rparr>))"

text \<open>What an event adds to the retained output, or why it cannot.\<close>

definition accept_text :: "string \<Rightarrow> run_route \<Rightarrow> error + run_route" where
  "accept_text delta r =
     (case Option.bind (checked_add_us (length (ro_text r)) (length delta))
             (\<lambda>b. checked_add_us b (ro_image_generation_bytes r)) of
        None \<Rightarrow> Inl (resource_limit ''run.output''
                  ''assistant output size overflowed the platform limit'')
      | Some output_bytes \<Rightarrow>
          if ro_maximum_output_bytes r < output_bytes
          then Inl (resource_limit ''run.output'' (''assistant output exceeded ''
                 @ show_nat (ro_maximum_output_bytes r) @ '' bytes; the turn will be interrupted''))
          else Inr (r\<lparr>ro_text := ro_text r @ delta\<rparr>))"

definition accept_image :: "image_generation \<Rightarrow> nat \<Rightarrow> run_route \<Rightarrow> error + run_route" where
  "accept_image img event_capacity r =
     (case retained_bytes img of
        None \<Rightarrow> Inl (resource_limit ''run.images''
                  ''generated image metadata overflowed the platform limit'')
      | Some image_bytes \<Rightarrow>
          (let existing = position (\<lambda>c. ig_id c = ig_id img) (ro_image_generations r)
           in if existing = None \<and> event_capacity \<le> length (ro_image_generations r)
              then Inl (resource_limit ''run.images''
                     ''generated image item count exceeded the bounded event capacity'')
              else
                (let previous = (case existing of
                       None \<Rightarrow> 0
                     | Some i \<Rightarrow> (case retained_bytes (ro_image_generations r ! i) of
                                   None \<Rightarrow> 0 | Some b \<Rightarrow> b))
                 in case Option.bind (checked_sub_us (ro_image_generation_bytes r) previous)
                           (\<lambda>b. checked_add_us b image_bytes) of
                      None \<Rightarrow> Inl (resource_limit ''run.images''
                                ''generated image output size overflowed the platform limit'')
                    | Some retained \<Rightarrow>
                        if (case checked_add_us (length (ro_text r)) retained of
                              None \<Rightarrow> True | Some b \<Rightarrow> ro_maximum_output_bytes r < b)
                        then Inl (resource_limit ''run.images'' (''generated image output exceeded ''
                               @ show_nat (ro_maximum_output_bytes r)
                               @ '' retained bytes; the turn will be interrupted''))
                        else Inr (r\<lparr>ro_image_generations :=
                                      (case existing of
                                         Some i \<Rightarrow> (ro_image_generations r)[i := img]
                                       | None \<Rightarrow> ro_image_generations r @ [img]),
                                    ro_image_generation_bytes := retained\<rparr>))))"

definition accept_event :: "event \<Rightarrow> nat \<Rightarrow> run_route \<Rightarrow> error + run_route" where
  "accept_event ev event_capacity r =
     (case ev of
        TextDelta delta \<Rightarrow> accept_text delta r
      | UsageUpdated u \<Rightarrow> Inr (r\<lparr>ro_usage := Some u\<rparr>)
      | ImageGeneration img \<Rightarrow> accept_image img event_capacity r
      | _ \<Rightarrow> Inr r)"

definition turn_mismatch :: "string option \<Rightarrow> run_phase \<Rightarrow> (string \<times> string) option" where
  "turn_mismatch observed_turn_id p =
     (case (observed_turn_id, phase_turn_id p) of
        (Some observed, Some expected) \<Rightarrow>
          if expected \<noteq> observed then Some (expected, observed) else None
      | _ \<Rightarrow> None)"

definition lagged :: "string \<Rightarrow> error" where
  "lagged msg = new_error ConsumerLagged ''run.events'' msg"

definition route_event_after_start ::
  "string option \<Rightarrow> event \<Rightarrow> nat \<Rightarrow> run_route \<Rightarrow> run_cell
     \<Rightarrow> run_event_outcome \<times> run_route \<times> run_cell" where
  "route_event_after_start observed ev event_capacity r c =
     (case turn_mismatch observed (ro_phase r) of
        Some (expected, seen) \<Rightarrow> (ReTurnMismatch expected seen, r, c)
      | None \<Rightarrow>
          if is_terminal (ro_phase r) then (ReAfterTerminal, r, c)
          else if ro_pending_failure r \<noteq> None then (ReIgnoredAfterFailure, r, c)
          else if rc_abandoned c then (ReIgnoredAfterAbandon, r, c)
          else (case accept_event ev event_capacity r of
                  Inl e \<Rightarrow> (case fail_route observed e r of (out, r1) \<Rightarrow> (out, r1, c))
                | Inr r1 \<Rightarrow>
                    (case try_send ev c of
                       (None, c1) \<Rightarrow> (ReDelivered, r1, c1)
                     | (Some SendFull, c1) \<Rightarrow>
                         (case fail_route observed (lagged
                            ''bounded run event queue is full; the turn will be interrupted'') r1
                          of (out, r2) \<Rightarrow> (out, r2, c1))
                     | (Some SendClosed, c1) \<Rightarrow>
                         (case fail_route observed (new_error Disconnected ''run.events''
                            ''run event consumer was dropped'') r1
                          of (out, r2) \<Rightarrow> (out, r2, c1)))))"

text \<open>The queue of the phases that defer.\<close>

fun phase_deferred :: "run_phase \<Rightarrow> deferred_run_notification list option" where
  "phase_deferred (Starting ds) = Some ds"
| "phase_deferred (Replaying t ds) = Some ds"
| "phase_deferred (Active t) = None"
| "phase_deferred (TerminalBeforeStart t) = None"

fun set_phase_deferred :: "deferred_run_notification list \<Rightarrow> run_phase \<Rightarrow> run_phase" where
  "set_phase_deferred ds (Starting _) = Starting ds"
| "set_phase_deferred ds (Replaying t _) = Replaying t ds"
| "set_phase_deferred ds (Active t) = Active t"
| "set_phase_deferred ds (TerminalBeforeStart t) = TerminalBeforeStart t"

definition event_image :: "event \<Rightarrow> image_generation option" where
  "event_image ev = (case ev of ImageGeneration img \<Rightarrow> Some img | _ \<Rightarrow> None)"

definition is_deferred_image :: "string \<Rightarrow> deferred_run_notification \<Rightarrow> bool" where
  "is_deferred_image i n =
     (case n of
        DeferredEvent _ _ ev \<Rightarrow> (case event_image ev of Some img \<Rightarrow> ig_id img = i | None \<Rightarrow> False)
      | DeferredTerminal _ \<Rightarrow> False)"

definition reserve_deferred_image :: "event \<Rightarrow> run_route \<Rightarrow> error + run_route" where
  "reserve_deferred_image ev r =
     (case event_image ev of
        None \<Rightarrow> Inr r
      | Some img \<Rightarrow>
          (case retained_bytes img of
             None \<Rightarrow> Inl (resource_limit ''run.images''
                       ''pre-acknowledgement image payload overflowed the platform limit'')
           | Some image_bytes \<Rightarrow>
               (let previous = (case ro_deferred_image_bytes_by_id r (ig_id img) of
                                  None \<Rightarrow> 0 | Some b \<Rightarrow> b)
                in case Option.bind (checked_sub_us (ro_deferred_image_bytes r) previous)
                          (\<lambda>b. checked_add_us b image_bytes) of
                     None \<Rightarrow> Inl (resource_limit ''run.images''
                       ''pre-acknowledgement image payload size overflowed the platform limit'')
                   | Some deferred_bytes \<Rightarrow>
                       if ro_maximum_output_bytes r < deferred_bytes
                       then Inl (resource_limit ''run.images''
                              (''pre-acknowledgement image payloads exceeded ''
                               @ show_nat (ro_maximum_output_bytes r)
                               @ '' bytes; the turn will be interrupted''))
                       else Inr (r\<lparr>ro_deferred_image_bytes := deferred_bytes,
                                   ro_deferred_image_bytes_by_id :=
                                     (ro_deferred_image_bytes_by_id r)(ig_id img \<mapsto> image_bytes)\<rparr>))))"

definition route_event ::
  "string option \<Rightarrow> string \<Rightarrow> event \<Rightarrow> bool \<Rightarrow> nat \<Rightarrow> run_route \<Rightarrow> run_cell
     \<Rightarrow> run_event_outcome \<times> run_route \<times> run_cell" where
  "route_event observed source_method ev defer_while_starting event_capacity r c =
     (if ro_pending_failure r \<noteq> None then (ReIgnoredAfterFailure, r, c)
      else (case (if defer_while_starting then phase_deferred (ro_phase r) else None) of
              None \<Rightarrow> route_event_after_start observed ev event_capacity r c
            | Some deferred \<Rightarrow>
                (case observed of
                   None \<Rightarrow> (ReIgnoredBeforeTurn, r, c)
                 | Some turn_id \<Rightarrow>
                     (case reserve_deferred_image ev r of
                        Inl e \<Rightarrow> (case record_failure turn_id e r of (out, r1) \<Rightarrow> (out, r1, c))
                      | Inr r1 \<Rightarrow>
                          (let kept = (case event_image ev of
                                         None \<Rightarrow> deferred
                                       | Some img \<Rightarrow> filter (\<lambda>n. \<not> is_deferred_image (ig_id img) n) deferred)
                           in if event_capacity \<le> length kept
                              then (case record_failure turn_id (lagged
                                      ''bounded pre-acknowledgement event queue is full; the turn will be interrupted'')
                                      (r1\<lparr>ro_phase := set_phase_deferred kept (ro_phase r1)\<rparr>)
                                    of (out, r2) \<Rightarrow> (out, r2, c))
                              else (ReDeferred,
                                    r1\<lparr>ro_phase := set_phase_deferred
                                         (kept @ [DeferredEvent turn_id source_method ev])
                                         (ro_phase r1)\<rparr>, c))))))"

section \<open>The registry\<close>

definition new_world :: run_world where
  "new_world = \<lparr>rw_routes = [], rw_cells = (\<lambda>_. new_cell 0), rw_next = 0, rw_active = (\<lambda>_. False)\<rparr>"

abbreviation route_of :: "run_world \<Rightarrow> string \<Rightarrow> run_route option" where
  "route_of w thread_id \<equiv> map_of (rw_routes w) thread_id"

definition put_route :: "string \<Rightarrow> run_route \<Rightarrow> run_world \<Rightarrow> run_world" where
  "put_route thread_id r w = w\<lparr>rw_routes := AList.update thread_id r (rw_routes w)\<rparr>"

definition remove_route :: "string \<Rightarrow> run_world \<Rightarrow> run_world" where
  "remove_route thread_id w = w\<lparr>rw_routes := AList.delete thread_id (rw_routes w)\<rparr>"

definition update_cell :: "nat \<Rightarrow> (run_cell \<Rightarrow> run_cell) \<Rightarrow> run_world \<Rightarrow> run_world" where
  "update_cell i f w = w\<lparr>rw_cells := (rw_cells w)(i := f (rw_cells w i))\<rparr>"

definition clear_active :: "nat \<Rightarrow> run_world \<Rightarrow> run_world" where
  "clear_active i w = w\<lparr>rw_active := (rw_active w)(i := False)\<rparr>"

text \<open>\<open>terminal.send\<close>: without a receiver the value is not stored.\<close>

definition send_terminal :: "run_result result \<Rightarrow> run_cell \<Rightarrow> run_cell" where
  "send_terminal res c = (if rc_terminal_open c then c\<lparr>rc_terminal := Some res\<rparr> else c)"

definition mark_cell_terminal :: "run_cell \<Rightarrow> run_cell" where
  "mark_cell_terminal c = c\<lparr>rc_control := mark_provider_terminal (rc_control c)\<rparr>"

text \<open>\<open>control.mark_provider_terminal(); active.store(false)\<close>.\<close>

definition end_run :: "run_route \<Rightarrow> run_world \<Rightarrow> run_world" where
  "end_run r w = clear_active (ro_active r) (update_cell (ro_run r) mark_cell_terminal w)"

definition contains :: "string \<Rightarrow> run_world \<Rightarrow> bool" where
  "contains thread_id w \<longleftrightarrow> route_of w thread_id \<noteq> None"

definition active_turn :: "string \<Rightarrow> run_world \<Rightarrow> (string \<times> nat) option" where
  "active_turn thread_id w =
     Option.bind (route_of w thread_id) (\<lambda>r.
       map_option (\<lambda>t. (t, ro_run r)) (phase_turn_id (ro_phase r)))"

definition tracks_abandoned_turn :: "string \<Rightarrow> string \<Rightarrow> nat \<Rightarrow> run_world \<Rightarrow> bool" where
  "tracks_abandoned_turn thread_id turn_id control w =
     (case route_of w thread_id of
        None \<Rightarrow> False
      | Some r \<Rightarrow>
          ro_run r = control \<and> rc_abandoned (rw_cells w (ro_run r)) \<and>
          (case phase_turn_id (ro_phase r) of None \<Rightarrow> True | Some t \<Rightarrow> t = turn_id))"

definition fail_before_start ::
  "string \<Rightarrow> error \<Rightarrow> run_world \<Rightarrow> pre_start_failure_transition \<times> run_world" where
  "fail_before_start thread_id e w =
     (case route_of w thread_id of
        None \<Rightarrow> (PreIgnored, w)
      | Some r \<Rightarrow>
          (case ro_phase r of
             Starting _ \<Rightarrow>
               (PreApplied,
                put_route thread_id (r\<lparr>ro_phase := TerminalBeforeStart None\<rparr>)
                  (update_cell (ro_run r) (send_terminal (Inl e)) (end_run r w)))
           | TerminalBeforeStart _ \<Rightarrow> (PreIgnored, w)
           | _ \<Rightarrow> (ProviderTurnOwned, w)))"

definition cancel_registered :: "string \<Rightarrow> run_world \<Rightarrow> (string \<times> nat) option \<times> run_world" where
  "cancel_registered thread_id w =
     (case route_of w thread_id of
        None \<Rightarrow> (None, w)
      | Some r \<Rightarrow>
          if is_terminal (ro_phase r) then (None, remove_route thread_id (end_run r w))
          else
            (let w1 = update_cell (ro_run r) (\<lambda>c. c\<lparr>rc_abandoned := True\<rparr>) w
             in case phase_turn_id (ro_phase r) of
                  Some t \<Rightarrow> (Some (t, ro_run r), w1)
                | None \<Rightarrow> (None, remove_route thread_id (end_run r w1))))"

definition acknowledge_start :: "string \<Rightarrow> string \<Rightarrow> run_world \<Rightarrow> start_turn_transition \<times> run_world" where
  "acknowledge_start thread_id turn_id w =
     (case route_of w thread_id of
        None \<Rightarrow> (MissingRoute, w)
      | Some r \<Rightarrow>
          (case ro_phase r of
             Starting deferred \<Rightarrow>
               (Replay deferred,
                put_route thread_id
                  ((clear_deferred_image_bytes r)\<lparr>ro_phase := Replaying turn_id []\<rparr>) w)
           | TerminalBeforeStart terminal_turn_id \<Rightarrow>
               (case terminal_turn_id of
                  Some expected \<Rightarrow>
                    if expected \<noteq> turn_id then (TerminalTurnMismatch expected, w)
                    else (CompletedBeforeAcknowledgement, remove_route thread_id w)
                | None \<Rightarrow> (CompletedBeforeAcknowledgement, remove_route thread_id w))
           | _ \<Rightarrow> (AlreadyAcknowledged, w)))"

definition replay_transition :: "string \<Rightarrow> string \<Rightarrow> run_world \<Rightarrow> replay_outcome \<times> run_world" where
  "replay_transition thread_id turn_id w =
     (case route_of w thread_id of
        None \<Rightarrow> (ReplayStopped, w)
      | Some r \<Rightarrow>
          (case ro_phase r of
             Replaying active_turn_id deferred \<Rightarrow>
               if active_turn_id \<noteq> turn_id then (ReplayStopped, w)
               else if deferred = []
               then (ReplayActive, put_route thread_id (r\<lparr>ro_phase := Active turn_id\<rparr>) w)
               else (ReplayNext deferred,
                     put_route thread_id
                       (clear_deferred_image_bytes (r\<lparr>ro_phase := Replaying turn_id []\<rparr>)) w)
           | _ \<Rightarrow> (ReplayStopped, w)))"

definition registry_route_event ::
  "string \<Rightarrow> string option \<Rightarrow> string \<Rightarrow> event \<Rightarrow> bool \<Rightarrow> nat \<Rightarrow> run_world
     \<Rightarrow> run_event_outcome \<times> run_world" where
  "registry_route_event thread_id observed source_method ev defer_while_starting event_capacity w =
     (case route_of w thread_id of
        None \<Rightarrow> (ReUnregistered, w)
      | Some r \<Rightarrow>
          (case route_event observed source_method ev defer_while_starting event_capacity r
                  (rw_cells w (ro_run r)) of
             (out, r1, c1) \<Rightarrow>
               (out, put_route thread_id r1 (update_cell (ro_run r) (\<lambda>_. c1) w))))"

definition queue_full_at_terminal :: error where
  "queue_full_at_terminal =
     lagged ''bounded pre-acknowledgement event queue was full when the provider terminal state arrived''"

text \<open>The first part of \<open>route_terminal\<close>: \<open>Inl\<close> when the notification was deferred, otherwise the
  route, its queue emptied when it had no room, and the failure that stands for it.\<close>

definition defer_terminal ::
  "json \<Rightarrow> bool \<Rightarrow> nat \<Rightarrow> run_route \<Rightarrow> run_route + run_route \<times> error option" where
  "defer_terminal params defer_while_starting event_capacity r =
     (case (if defer_while_starting \<and> ro_pending_failure r = None
            then phase_deferred (ro_phase r) else None) of
        None \<Rightarrow> Inr (r, None)
      | Some deferred \<Rightarrow>
          if length deferred < event_capacity
          then Inl (r\<lparr>ro_phase := set_phase_deferred (deferred @ [DeferredTerminal params]) (ro_phase r)\<rparr>)
          else Inr (r\<lparr>ro_phase := set_phase_deferred [] (ro_phase r)\<rparr>, Some queue_full_at_terminal))"

text \<open>The result that ends the run, and the end itself.\<close>

definition terminal_result ::
  "string \<Rightarrow> turn_completion \<Rightarrow> run_route \<Rightarrow> error option \<Rightarrow> run_result result" where
  "terminal_result thread_id completion r queue_failure =
     (case (case ro_pending_failure r of Some e \<Rightarrow> Some e | None \<Rightarrow> queue_failure) of
        Some e \<Rightarrow> Inl e
      | None \<Rightarrow> into_result completion thread_id (ro_text r) (ro_usage r) (ro_image_generations r))"

definition settle_route ::
  "string \<Rightarrow> turn_completion \<Rightarrow> run_route \<Rightarrow> error option \<Rightarrow> run_world \<Rightarrow> run_world" where
  "settle_route thread_id completion r queue_failure w =
     (let w1 = update_cell (ro_run r)
                 (send_terminal (terminal_result thread_id completion r queue_failure)) (end_run r w);
          r1 = r\<lparr>ro_pending_failure := None\<rparr>
      in case ro_phase r of
           Starting _ \<Rightarrow>
             put_route thread_id
               (r1\<lparr>ro_phase := TerminalBeforeStart (Some (tc_turn_id completion))\<rparr>) w1
         | Replaying _ _ \<Rightarrow> remove_route thread_id w1
         | Active _ \<Rightarrow> remove_route thread_id w1
         | TerminalBeforeStart _ \<Rightarrow> put_route thread_id r1 w1)"

definition route_terminal ::
  "string \<Rightarrow> turn_completion \<Rightarrow> json \<Rightarrow> bool \<Rightarrow> nat \<Rightarrow> run_world
     \<Rightarrow> terminal_route_outcome \<times> run_world" where
  "route_terminal thread_id completion params defer_while_starting event_capacity w =
     (case route_of w thread_id of
        None \<Rightarrow> (TrUnregistered, w)
      | Some r0 \<Rightarrow>
          (case defer_terminal params defer_while_starting event_capacity r0 of
             Inl r \<Rightarrow> (TrDeferred, put_route thread_id r w)
           | Inr (r, queue_failure) \<Rightarrow>
               if is_terminal (ro_phase r)
               then (TrDuplicate (tc_turn_id completion), put_route thread_id r w)
               else (case turn_mismatch (Some (tc_turn_id completion)) (ro_phase r) of
                       Some (expected, observed) \<Rightarrow>
                         (TrTurnMismatch expected observed, put_route thread_id r w)
                     | None \<Rightarrow> (TrCompleted, settle_route thread_id completion r queue_failure w))))"

definition fail_active :: "string \<Rightarrow> string \<Rightarrow> nat \<Rightarrow> error \<Rightarrow> run_world \<Rightarrow> bool \<times> run_world" where
  "fail_active thread_id turn_id control e w =
     (case route_of w thread_id of
        None \<Rightarrow> (False, w)
      | Some r \<Rightarrow>
          if is_terminal (ro_phase r) \<or> phase_turn_id (ro_phase r) \<noteq> Some turn_id
             \<or> ro_run r \<noteq> control \<or> ro_pending_failure r \<noteq> None
          then (False, w)
          else (True, put_route thread_id (r\<lparr>ro_pending_failure := Some e\<rparr>) w))"

text \<open>One route of \<open>fail_all\<close>.\<close>

definition fail_taken_route :: "error \<Rightarrow> run_route \<Rightarrow> run_world \<Rightarrow> run_world" where
  "fail_taken_route e r w =
     (let w1 = end_run r w
      in if rc_terminal (rw_cells w1 (ro_run r)) = None
         then update_cell (ro_run r)
                (send_terminal (Inl (case ro_pending_failure r of
                   None \<Rightarrow> e
                 | Some primary \<Rightarrow>
                     with_related_error primary ''provider turn cleanup also failed'' e))) w1
         else w1)"

definition fail_all :: "error \<Rightarrow> run_world \<Rightarrow> run_world" where
  "fail_all e w = fold (fail_taken_route e) (map snd (rw_routes w)) (w\<lparr>rw_routes := []\<rparr>)"

text \<open>\<open>register\<close> returns the number of the cells it made.\<close>

definition register_run ::
  "string \<Rightarrow> nat \<Rightarrow> nat \<Rightarrow> nat \<Rightarrow> run_world \<Rightarrow> nat result \<times> run_world" where
  "register_run thread_id active event_capacity maximum_output_bytes w =
     (let i = rw_next w;
          w1 = w\<lparr>rw_next := Suc i, rw_cells := (rw_cells w)(i := new_cell event_capacity)\<rparr>
      in if contains thread_id w
         then (Inl (new_error InvalidInput ''turn.start'' ''session already has an active run''), w1)
         else (Inr i,
               put_route thread_id
                 \<lparr>ro_run = i, ro_active = active, ro_phase = Starting [], ro_pending_failure = None,
                  ro_text = [], ro_maximum_output_bytes = maximum_output_bytes, ro_usage = None,
                  ro_image_generations = [], ro_image_generation_bytes = 0,
                  ro_deferred_image_bytes = 0, ro_deferred_image_bytes_by_id = Map.empty\<rparr> w1))"

section \<open>The consumer's side\<close>

text \<open>What a run handle does to its cells: it takes events, gives up, and closes its receivers when
  it is dropped. An interrupt passes through the control.\<close>

definition recv_event :: "nat \<Rightarrow> run_world \<Rightarrow> event option \<times> run_world" where
  "recv_event i w =
     (case rc_queue (rw_cells w i) of
        [] \<Rightarrow> (None, w)
      | ev # evs \<Rightarrow> (Some ev, update_cell i (\<lambda>c. c\<lparr>rc_queue := evs\<rparr>) w))"

definition abandon_cell :: "nat \<Rightarrow> run_world \<Rightarrow> run_world" where
  "abandon_cell i w = update_cell i (\<lambda>c. c\<lparr>rc_abandoned := True\<rparr>) w"

definition drop_channels :: "nat \<Rightarrow> run_world \<Rightarrow> run_world" where
  "drop_channels i w =
     update_cell i (\<lambda>c. c\<lparr>rc_queue := [], rc_events_open := False, rc_terminal_open := False\<rparr>) w"

definition start_interrupt :: "nat \<Rightarrow> run_world \<Rightarrow> bool \<times> run_world" where
  "start_interrupt i w =
     (case try_start_interrupt (rc_control (rw_cells w i)) of
        (started, ct) \<Rightarrow> (started, update_cell i (\<lambda>c. c\<lparr>rc_control := ct\<rparr>) w))"

definition finish_interrupt :: "nat \<Rightarrow> unit result \<Rightarrow> run_world \<Rightarrow> run_world" where
  "finish_interrupt i res w =
     update_cell i (\<lambda>c. c\<lparr>rc_control := complete_interrupt res (rc_control c)\<rparr>) w"

definition set_active :: "nat \<Rightarrow> bool \<Rightarrow> run_world \<Rightarrow> run_world" where
  "set_active i v w = w\<lparr>rw_active := (rw_active w)(i := v)\<rparr>"

section \<open>The machine\<close>

text \<open>The event capacity is one number of the client's configuration, passed to every operation.\<close>

datatype run_op =
    OpRegister string nat nat
  | OpFailBeforeStart string error
  | OpCancelRegistered string
  | OpAcknowledge string string
  | OpReplay string string
  | OpEvent string "string option" string event bool
  | OpTerminal string turn_completion json bool
  | OpFailActive string string nat error
  | OpFailAll error
  | OpRecv nat
  | OpAbandon nat
  | OpDropChannels nat
  | OpStartInterrupt nat
  | OpFinishInterrupt nat "unit result"
  | OpSetActive nat bool

definition run_step :: "nat \<Rightarrow> run_op \<Rightarrow> run_world \<Rightarrow> run_world" where
  "run_step cap op w =
     (case op of
        OpRegister t a m \<Rightarrow> snd (register_run t a cap m w)
      | OpFailBeforeStart t e \<Rightarrow> snd (fail_before_start t e w)
      | OpCancelRegistered t \<Rightarrow> snd (cancel_registered t w)
      | OpAcknowledge t u \<Rightarrow> snd (acknowledge_start t u w)
      | OpReplay t u \<Rightarrow> snd (replay_transition t u w)
      | OpEvent t u m ev d \<Rightarrow> snd (registry_route_event t u m ev d cap w)
      | OpTerminal t c p d \<Rightarrow> snd (route_terminal t c p d cap w)
      | OpFailActive t u i e \<Rightarrow> snd (fail_active t u i e w)
      | OpFailAll e \<Rightarrow> fail_all e w
      | OpRecv i \<Rightarrow> snd (recv_event i w)
      | OpAbandon i \<Rightarrow> abandon_cell i w
      | OpDropChannels i \<Rightarrow> drop_channels i w
      | OpStartInterrupt i \<Rightarrow> snd (start_interrupt i w)
      | OpFinishInterrupt i res \<Rightarrow> finish_interrupt i res w
      | OpSetActive i v \<Rightarrow> set_active i v w)"

end
