(* ===== verification/RunBounds.thy ===== *)
theory RunBounds
  imports RunState Contracts
begin

text \<open>
  What an active turn may hold in memory. The retained output of a route is its text and the latest
  state of each image; before the acknowledgement it also holds deferred notifications. Both are
  within the limits of the session and of the client's event capacity after any sequence of
  registry and consumer operations.
\<close>

section \<open>Invariant of a route\<close>

definition image_size :: "image_generation \<Rightarrow> nat" where
  "image_size img = (case retained_bytes img of None \<Rightarrow> 0 | Some b \<Rightarrow> b)"

definition images_ok :: "nat \<Rightarrow> run_route \<Rightarrow> bool" where
  "images_ok cap r \<longleftrightarrow>
     distinct (map ig_id (ro_image_generations r)) \<and>
     ro_image_generation_bytes r = sum_list (map image_size (ro_image_generations r)) \<and>
     length (ro_text r) + ro_image_generation_bytes r \<le> ro_maximum_output_bytes r \<and>
     length (ro_image_generations r) \<le> cap"

definition phase_queue :: "run_phase \<Rightarrow> deferred_run_notification list" where
  "phase_queue p = (case phase_deferred p of None \<Rightarrow> [] | Some ds \<Rightarrow> ds)"

fun notification_images :: "deferred_run_notification \<Rightarrow> image_generation list" where
  "notification_images (DeferredEvent t m ev) =
     (case event_image ev of None \<Rightarrow> [] | Some img \<Rightarrow> [img])"
| "notification_images (DeferredTerminal p) = []"

definition deferred_images :: "deferred_run_notification list \<Rightarrow> image_generation list" where
  "deferred_images ds = concat (map notification_images ds)"

definition deferred_ok :: "nat \<Rightarrow> run_route \<Rightarrow> bool" where
  "deferred_ok cap r \<longleftrightarrow>
     length (phase_queue (ro_phase r)) \<le> cap \<and>
     distinct (map ig_id (deferred_images (phase_queue (ro_phase r)))) \<and>
     (\<forall>img \<in> set (deferred_images (phase_queue (ro_phase r))).
        ro_deferred_image_bytes_by_id r (ig_id img) = Some (image_size img)) \<and>
     finite (dom (ro_deferred_image_bytes_by_id r)) \<and>
     ro_deferred_image_bytes r =
       (\<Sum>i \<in> dom (ro_deferred_image_bytes_by_id r). the (ro_deferred_image_bytes_by_id r i)) \<and>
     ro_deferred_image_bytes r \<le> ro_maximum_output_bytes r"

definition route_ok :: "nat \<Rightarrow> run_route \<Rightarrow> bool" where
  "route_ok cap r \<longleftrightarrow> images_ok cap r \<and> deferred_ok cap r"

lemma phase_queue_simps [simp]:
  "phase_queue (Starting ds) = ds"
  "phase_queue (Replaying t ds) = ds"
  "phase_queue (Active t) = []"
  "phase_queue (TerminalBeforeStart u) = []"
  by (simp_all add: phase_queue_def)

lemma phase_queue_set:
  "phase_deferred p = Some ds \<Longrightarrow> phase_queue (set_phase_deferred ds' p) = ds'"
  by (cases p) auto

lemma phase_queue_clear [simp]: "phase_queue (clear_deferred p) = []"
  by (cases p) (auto simp: clear_deferred_def)

lemma deferred_images_simps [simp]:
  "deferred_images [] = []"
  "deferred_images (n # ds) = notification_images n @ deferred_images ds"
  "deferred_images (ds @ es) = deferred_images ds @ deferred_images es"
  by (simp_all add: deferred_images_def)

section \<open>Preservation by a route\<close>

lemma deferred_ok_cleared:
  "phase_queue (ro_phase r) = [] \<Longrightarrow> ro_deferred_image_bytes_by_id r = Map.empty \<Longrightarrow>
   ro_deferred_image_bytes r = 0 \<Longrightarrow> deferred_ok cap r"
  by (simp add: deferred_ok_def)

lemma record_failure_ok:
  "route_ok cap r \<Longrightarrow> route_ok cap (snd (record_failure t e r))"
  by (auto simp: record_failure_def route_ok_def images_ok_def clear_deferred_image_bytes_def
        intro: deferred_ok_cleared)

lemma fail_route_ok: "route_ok cap r \<Longrightarrow> route_ok cap (snd (fail_route observed e r))"
  by (auto simp: fail_route_def record_failure_ok split: option.splits)

lemma accept_text_ok:
  "accept_text delta r = Inr r1 \<Longrightarrow> route_ok cap r \<Longrightarrow> route_ok cap r1"
  by (auto simp: accept_text_def route_ok_def images_ok_def deferred_ok_def usize_simps
        Option.bind_eq_Some_conv split: option.splits if_splits)

lemma images_replaced:
  assumes "position (\<lambda>c. ig_id c = ig_id img) imgs = Some i"
  shows "map ig_id (imgs[i := img]) = map ig_id imgs"
    and "sum_list (map image_size (imgs[i := img])) + image_size (imgs ! i)
           = sum_list (map image_size imgs) + image_size img"
    and "image_size (imgs ! i) \<le> sum_list (map image_size imgs)"
proof -
  note p = position_Some [OF assms]
  show "map ig_id (imgs[i := img]) = map ig_id imgs"
    using p by (metis (mono_tags, lifting) list_update_id map_update nth_map)
  show "sum_list (map image_size (imgs[i := img])) + image_size (imgs ! i)
           = sum_list (map image_size imgs) + image_size img"
    using p by (intro sum_list_map_remove_nth) simp
  show "image_size (imgs ! i) \<le> sum_list (map image_size imgs)"
    using p by (intro member_le_sum_list_map) simp
qed

text \<open>An accepted image replaces the one of its identifier or is a new one, and fits.\<close>

lemma accept_image_cases:
  assumes "accept_image img cap r = Inr r1"
  obtains (replace) i where
      "position (\<lambda>c. ig_id c = ig_id img) (ro_image_generations r) = Some i"
      "r1 = r\<lparr>ro_image_generations := (ro_image_generations r)[i := img],
              ro_image_generation_bytes :=
                ro_image_generation_bytes r - image_size (ro_image_generations r ! i) + image_size img\<rparr>"
      "image_size (ro_image_generations r ! i) \<le> ro_image_generation_bytes r"
      "length (ro_text r) + ro_image_generation_bytes r1 \<le> ro_maximum_output_bytes r"
    | (new) "position (\<lambda>c. ig_id c = ig_id img) (ro_image_generations r) = None"
      "r1 = r\<lparr>ro_image_generations := ro_image_generations r @ [img],
              ro_image_generation_bytes := ro_image_generation_bytes r + image_size img\<rparr>"
      "length (ro_image_generations r) < cap"
      "length (ro_text r) + ro_image_generation_bytes r1 \<le> ro_maximum_output_bytes r"
  using assms
  by (cases "position (\<lambda>c. ig_id c = ig_id img) (ro_image_generations r)")
     (auto simp: accept_image_def Let_def usize_simps image_size_def Option.bind_eq_Some_conv not_le not_less
        split: option.splits if_splits)

lemma accept_image_ok:
  assumes a: "accept_image img cap r = Inr r1" and ok: "route_ok cap r"
  shows "route_ok cap r1"
  using a
proof (cases rule: accept_image_cases)
  case (replace i)
  note im = images_replaced [OF replace(1)]
  have "images_ok cap r1"
    using replace im ok by (auto simp: route_ok_def images_ok_def)
  then show ?thesis using replace ok by (simp add: route_ok_def deferred_ok_def)
next
  case new
  have "images_ok cap r1"
    using new ok position_None_iff [of "\<lambda>c. ig_id c = ig_id img" "ro_image_generations r"]
    by (auto simp: route_ok_def images_ok_def)
  then show ?thesis using new ok by (simp add: route_ok_def deferred_ok_def)
qed

lemma accept_event_ok:
  "accept_event ev cap r = Inr r1 \<Longrightarrow> route_ok cap r \<Longrightarrow> route_ok cap r1"
  by (cases ev)
     (auto simp: accept_event_def accept_text_ok accept_image_ok route_ok_def images_ok_def deferred_ok_def
        dest: accept_text_ok [unfolded route_ok_def images_ok_def deferred_ok_def]
              accept_image_ok [unfolded route_ok_def images_ok_def deferred_ok_def])

lemma route_event_after_start_ok:
  "route_ok cap r \<Longrightarrow> route_ok cap (fst (snd (route_event_after_start observed ev cap r c)))"
  using fail_route_ok [of cap r] fail_route_ok accept_event_ok [of ev cap r]
  by (auto simp: route_event_after_start_def
        split: option.splits prod.splits sum.splits try_send_error.splits)
     (metis snd_conv)+

text \<open>A reserved image has its size entered under its identifier and within the limit.\<close>

lemma sum_dom_update:
  fixes m :: "'a \<rightharpoonup> nat"
  assumes "finite (dom m)"
  shows "(\<Sum>i \<in> dom (m(k \<mapsto> b)). the ((m(k \<mapsto> b)) i)) + (case m k of None \<Rightarrow> 0 | Some a \<Rightarrow> a)
           = (\<Sum>i \<in> dom m. the (m i)) + b"
proof -
  have "(\<Sum>i \<in> dom m - {k}. the ((m(k \<mapsto> b)) i)) = (\<Sum>i \<in> dom m - {k}. the (m i))"
    by (rule sum.cong) auto
  moreover have "(\<Sum>i \<in> dom (m(k \<mapsto> b)). the ((m(k \<mapsto> b)) i))
      = b + (\<Sum>i \<in> dom m - {k}. the ((m(k \<mapsto> b)) i))"
    using assms by (simp add: sum.insert_remove)
  moreover have "(\<Sum>i \<in> dom m. the (m i)) =
      (case m k of None \<Rightarrow> 0 | Some a \<Rightarrow> a) + (\<Sum>i \<in> dom m - {k}. the (m i))"
    using assms by (cases "m k") (auto simp: sum.remove [of "dom m" k] domI domIff Diff_triv)
  ultimately show ?thesis by simp
qed

lemma deferred_bytes_prev:
  assumes "finite (dom m)" shows "(case m k of None \<Rightarrow> 0 | Some a \<Rightarrow> a) \<le> (\<Sum>i \<in> dom m. the (m i) :: nat)"
  using assms by (cases "m k") (auto simp: sum.remove [of "dom m" k] domI)

lemma reserve_frame:
  assumes "reserve_deferred_image ev r = Inr r1"
  shows "ro_phase r1 = ro_phase r" "ro_run r1 = ro_run r" "ro_text r1 = ro_text r"
    "ro_maximum_output_bytes r1 = ro_maximum_output_bytes r"
    "ro_image_generations r1 = ro_image_generations r"
    "ro_image_generation_bytes r1 = ro_image_generation_bytes r"
    "ro_pending_failure r1 = ro_pending_failure r" "ro_active r1 = ro_active r"
  using assms
  by (auto simp: reserve_deferred_image_def Let_def split: option.splits if_splits)

lemma reserve_cases:
  assumes "reserve_deferred_image ev r = Inr r1"
  obtains (none) "event_image ev = None" "r1 = r"
    | (image) img where "event_image ev = Some img"
      "ro_deferred_image_bytes_by_id r1 = (ro_deferred_image_bytes_by_id r)(ig_id img \<mapsto> image_size img)"
      "ro_deferred_image_bytes r1 + (case ro_deferred_image_bytes_by_id r (ig_id img) of
         None \<Rightarrow> 0 | Some b \<Rightarrow> b) = ro_deferred_image_bytes r + image_size img"
      "ro_deferred_image_bytes r1 \<le> ro_maximum_output_bytes r"
proof (cases "event_image ev")
  case None
  with assms none show ?thesis by (simp add: reserve_deferred_image_def)
next
  case (Some img)
  then obtain b where "retained_bytes img = Some b"
    using assms by (auto simp: reserve_deferred_image_def split: option.splits)
  then show ?thesis
    using assms Some image [OF Some]
    by (cases "ro_deferred_image_bytes_by_id r (ig_id img)")
       (auto simp: reserve_deferred_image_def Let_def usize_simps image_size_def
          Option.bind_eq_Some_conv not_less split: option.splits if_splits)
qed

text \<open>Dropping the deferred states of an image leaves those of the others.\<close>

lemma deferred_images_filter:
  "deferred_images (filter (\<lambda>n. \<not> is_deferred_image i n) ds)
     = filter (\<lambda>img. ig_id img \<noteq> i) (deferred_images ds)"
proof (induction ds)
  case Nil
  show ?case by simp
next
  case (Cons n ds)
  then show ?case by (cases n) (auto simp: is_deferred_image_def split: option.splits)
qed

definition without_image :: "event \<Rightarrow> deferred_run_notification list \<Rightarrow> deferred_run_notification list" where
  "without_image ev ds =
     (case event_image ev of
        None \<Rightarrow> ds
      | Some img \<Rightarrow> filter (\<lambda>n. \<not> is_deferred_image (ig_id img) n) ds)"

lemma deferred_append_ok:
  assumes res: "reserve_deferred_image ev r = Inr r1" and ok: "deferred_ok cap r"
    and p: "phase_deferred (ro_phase r) = Some ds"
    and room: "length (without_image ev ds) < cap"
  shows "deferred_ok cap
    (r1\<lparr>ro_phase := set_phase_deferred (without_image ev ds @ [DeferredEvent t m ev]) (ro_phase r1)\<rparr>)"
  using res
proof (cases rule: reserve_cases)
  case none
  have q: "phase_queue (ro_phase r) = ds" using p by (simp add: phase_queue_def)
  show ?thesis
    using none ok room q by (simp add: deferred_ok_def phase_queue_set [OF p] without_image_def)
next
  case (image img)
  note fr = reserve_frame [OF res]
  have q: "phase_queue (ro_phase r) = ds" using p by (simp add: phase_queue_def)
  have p1: "phase_deferred (ro_phase r1) = Some ds" using p fr by simp
  have imgs: "deferred_images (without_image ev ds @ [DeferredEvent t m ev])
      = filter (\<lambda>g. ig_id g \<noteq> ig_id img) (deferred_images ds) @ [img]"
    using image(1) by (simp add: deferred_images_filter without_image_def)
  have fin: "finite (dom (ro_deferred_image_bytes_by_id r))"
    and sum: "ro_deferred_image_bytes r =
       (\<Sum>i \<in> dom (ro_deferred_image_bytes_by_id r). the (ro_deferred_image_bytes_by_id r i))"
    using ok by (simp_all add: deferred_ok_def)
  have "ro_deferred_image_bytes r1 =
       (\<Sum>i \<in> dom (ro_deferred_image_bytes_by_id r1). the (ro_deferred_image_bytes_by_id r1 i))"
    using sum_dom_update [OF fin, of "ig_id img" "image_size img"] image(3) sum
    unfolding image(2) by linarith
  note sum1 = this
  let ?new = "filter (\<lambda>g. ig_id g \<noteq> ig_id img) (deferred_images ds) @ [img]"
  have "distinct (map ig_id (deferred_images ds))" using ok q by (simp add: deferred_ok_def)
  then have dist: "distinct (map ig_id ?new)" by (auto simp: distinct_map_filter)
  have "\<forall>g \<in> set (deferred_images ds). ro_deferred_image_bytes_by_id r (ig_id g) = Some (image_size g)"
    using ok q by (simp add: deferred_ok_def)
  then have sizes: "\<forall>g \<in> set ?new. ro_deferred_image_bytes_by_id r1 (ig_id g) = Some (image_size g)"
    using image(2) by simp
  have fin1: "finite (dom (ro_deferred_image_bytes_by_id r1))" using fin image(2) by simp
  let ?q = "without_image ev ds @ [DeferredEvent t m ev]"
  let ?r2 = "r1\<lparr>ro_phase := set_phase_deferred ?q (ro_phase r1)\<rparr>"
  have "phase_queue (ro_phase ?r2) = ?q" by (simp add: phase_queue_set [OF p1])
  moreover have "length ?q \<le> cap" using room by simp
  moreover have "ro_deferred_image_bytes_by_id ?r2 = ro_deferred_image_bytes_by_id r1"
    "ro_deferred_image_bytes ?r2 = ro_deferred_image_bytes r1"
    "ro_maximum_output_bytes ?r2 = ro_maximum_output_bytes r" using fr(4) by simp_all
  ultimately show ?thesis
    unfolding deferred_ok_def using dist sizes fin1 sum1 image(4) imgs by metis
qed

lemma route_event_deferring:
  assumes "ro_pending_failure r = None" and "phase_deferred (ro_phase r) = Some ds"
  shows "route_event observed m ev True cap r c =
     (case observed of
        None \<Rightarrow> (ReIgnoredBeforeTurn, r, c)
      | Some turn_id \<Rightarrow>
          (case reserve_deferred_image ev r of
             Inl e \<Rightarrow> (fst (record_failure turn_id e r), snd (record_failure turn_id e r), c)
           | Inr r1 \<Rightarrow>
               if cap \<le> length (without_image ev ds)
               then (let e = lagged ''bounded pre-acknowledgement event queue is full; the turn will be interrupted'';
                         r2 = r1\<lparr>ro_phase := set_phase_deferred (without_image ev ds) (ro_phase r1)\<rparr>
                     in (fst (record_failure turn_id e r2), snd (record_failure turn_id e r2), c))
               else (ReDeferred,
                     r1\<lparr>ro_phase := set_phase_deferred (without_image ev ds @ [DeferredEvent turn_id m ev])
                         (ro_phase r1)\<rparr>, c)))"
  using assms
  by (simp add: route_event_def without_image_def Let_def prod.case_eq_if split: option.splits sum.splits)

lemma record_failure_clears:
  "images_ok cap r \<Longrightarrow> ro_pending_failure r = None \<Longrightarrow> route_ok cap (snd (record_failure t e r))"
  by (auto simp: record_failure_def route_ok_def images_ok_def clear_deferred_image_bytes_def
        intro: deferred_ok_cleared)

lemma route_event_ok:
  assumes ok: "route_ok cap r"
  shows "route_ok cap (fst (snd (route_event observed m ev d cap r c)))"
proof (cases "ro_pending_failure r = None \<and> d \<and> phase_deferred (ro_phase r) \<noteq> None")
  case False
  then show ?thesis
    using ok route_event_after_start_ok [OF ok] by (auto simp: route_event_def)
next
  case True
  then obtain ds where p: "phase_deferred (ro_phase r) = Some ds" and pf: "ro_pending_failure r = None"
    and d: "d" by auto
  show ?thesis
  proof (cases observed)
    case None
    then show ?thesis using ok d by (simp add: route_event_deferring [OF pf p])
  next
    case (Some turn_id)
    show ?thesis
    proof (cases "reserve_deferred_image ev r")
      case (Inl e)
      then show ?thesis
        using ok Some d by (simp add: route_event_deferring [OF pf p] record_failure_ok)
    next
      case (Inr r1)
      note fr = reserve_frame [OF Inr]
      have im: "images_ok cap (r1\<lparr>ro_phase := ph\<rparr>)" for ph
        using ok fr by (simp add: route_ok_def images_ok_def)
      show ?thesis
      proof (cases "cap \<le> length (without_image ev ds)")
        case True
        then show ?thesis
          using Some Inr d fr pf im by (simp add: route_event_deferring [OF pf p] Let_def record_failure_clears)
      next
        case False
        have "deferred_ok cap r" using ok by (simp add: route_ok_def)
        from deferred_append_ok [OF Inr this p] False im show ?thesis
          using Some Inr d by (simp add: route_event_deferring [OF pf p] route_ok_def)
      qed
    qed
  qed
qed

section \<open>Invariant of the registry\<close>

text \<open>Runs have cells of their own, a run that is not over has no result yet, and everything held is
  within its limit.\<close>

definition cell_ok :: "nat \<Rightarrow> run_cell \<Rightarrow> bool" where
  "cell_ok cap c \<longleftrightarrow> length (rc_queue c) \<le> cap \<and> rc_capacity c \<le> cap"

definition entry_ok :: "nat \<Rightarrow> run_world \<Rightarrow> run_route \<Rightarrow> bool" where
  "entry_ok cap w r \<longleftrightarrow>
     route_ok cap r \<and> ro_run r < rw_next w \<and>
     (\<not> is_terminal (ro_phase r) \<longrightarrow> rc_terminal (rw_cells w (ro_run r)) = None)"

definition world_ok :: "nat \<Rightarrow> run_world \<Rightarrow> bool" where
  "world_ok cap w \<longleftrightarrow>
     distinct (map fst (rw_routes w)) \<and>
     (\<forall>t r. route_of w t = Some r \<longrightarrow> entry_ok cap w r) \<and>
     (\<forall>t t' r r'. route_of w t = Some r \<longrightarrow> route_of w t' = Some r' \<longrightarrow> ro_run r = ro_run r' \<longrightarrow> t = t') \<and>
     (\<forall>n \<ge> rw_next w. rc_terminal (rw_cells w n) = None) \<and>
     (\<forall>n. cell_ok cap (rw_cells w n))"

lemma world_okD:
  assumes "world_ok cap w"
  shows "distinct (map fst (rw_routes w))"
    and "route_of w t = Some r \<Longrightarrow> entry_ok cap w r"
    and "route_of w t = Some r \<Longrightarrow> route_of w t' = Some r' \<Longrightarrow> ro_run r = ro_run r' \<Longrightarrow> t = t'"
    and "rw_next w \<le> n \<Longrightarrow> rc_terminal (rw_cells w n) = None"
    and "cell_ok cap (rw_cells w n)"
  using assms unfolding world_ok_def by blast+

lemma world_simps [simp]:
  "rw_routes (put_route t r w) = AList.update t r (rw_routes w)"
  "rw_cells (put_route t r w) = rw_cells w"
  "rw_next (put_route t r w) = rw_next w"
  "rw_active (put_route t r w) = rw_active w"
  "rw_routes (remove_route t w) = AList.delete t (rw_routes w)"
  "rw_cells (remove_route t w) = rw_cells w"
  "rw_next (remove_route t w) = rw_next w"
  "rw_active (remove_route t w) = rw_active w"
  "rw_routes (update_cell i f w) = rw_routes w"
  "rw_cells (update_cell i f w) = (rw_cells w)(i := f (rw_cells w i))"
  "rw_next (update_cell i f w) = rw_next w"
  "rw_active (update_cell i f w) = rw_active w"
  "rw_routes (clear_active i w) = rw_routes w"
  "rw_cells (clear_active i w) = rw_cells w"
  "rw_next (clear_active i w) = rw_next w"
  "rw_active (clear_active i w) = (rw_active w)(i := False)"
  by (simp_all add: put_route_def remove_route_def update_cell_def clear_active_def)

lemma cell_simps [simp]:
  "rc_queue (mark_cell_terminal c) = rc_queue c"
  "rc_capacity (mark_cell_terminal c) = rc_capacity c"
  "rc_terminal (mark_cell_terminal c) = rc_terminal c"
  "rc_terminal_open (mark_cell_terminal c) = rc_terminal_open c"
  "rc_queue (send_terminal res c) = rc_queue c"
  "rc_capacity (send_terminal res c) = rc_capacity c"
  "rc_control (send_terminal res c) = rc_control c"
  by (simp_all add: mark_cell_terminal_def send_terminal_def)

lemma map_of_routes [simp]:
  "map_of (AList.update t r rs) = (map_of rs)(t \<mapsto> r)"
  "map_of (AList.delete t rs) = (map_of rs)(t := None)"
  by (simp_all add: update_conv' delete_conv')

text \<open>A step that touches cells without ending a run.\<close>

lemma world_ok_cell:
  assumes ok: "world_ok cap w"
    and t: "rc_terminal (f (rw_cells w i)) = rc_terminal (rw_cells w i)"
    and c: "cell_ok cap (rw_cells w i) \<Longrightarrow> cell_ok cap (f (rw_cells w i))"
  shows "world_ok cap (update_cell i f w)"
  using ok t c by (auto simp: world_ok_def entry_ok_def)

lemma world_ok_active:
  "world_ok cap w \<Longrightarrow> world_ok cap (w\<lparr>rw_active := a\<rparr>)"
  by (auto simp: world_ok_def entry_ok_def)

lemma world_ok_clear_active: "world_ok cap w \<Longrightarrow> world_ok cap (clear_active i w)"
  by (simp add: clear_active_def world_ok_active)

lemma world_ok_end_run: "world_ok cap w \<Longrightarrow> world_ok cap (end_run r w)"
  unfolding end_run_def
  by (intro world_ok_clear_active world_ok_cell) (auto simp: cell_ok_def)

lemma end_run_simps [simp]:
  "rw_routes (end_run r w) = rw_routes w"
  "rw_next (end_run r w) = rw_next w"
  "rc_terminal (rw_cells (end_run r w) n) = rc_terminal (rw_cells w n)"
  by (simp_all add: end_run_def)

text \<open>A step that replaces a route by a later state of the same run.\<close>

lemma world_ok_put:
  assumes ok: "world_ok cap w" and r: "route_of w t = Some r" and run: "ro_run r' = ro_run r"
    and rok: "route_ok cap r'"
    and live: "is_terminal (ro_phase r) \<Longrightarrow> is_terminal (ro_phase r')"
  shows "world_ok cap (put_route t r' w)"
proof -
  have e: "entry_ok cap w r'"
    using world_okD(2) [OF ok r] rok run live by (auto simp: entry_ok_def)
  have inj: "\<And>u x. route_of w u = Some x \<Longrightarrow> ro_run x = ro_run r' \<Longrightarrow> u = t"
    using world_okD(3) [OF ok _ r] run by simp
  show ?thesis
    unfolding world_ok_def
    using world_okD [OF ok] e inj by (auto simp: entry_ok_def distinct_update split: if_splits)
qed

lemma world_ok_remove: "world_ok cap w \<Longrightarrow> world_ok cap (remove_route t w)"
  unfolding world_ok_def
  by (auto simp: entry_ok_def distinct_delete split: if_splits)

text \<open>A step that ends a run: its route is over or gone.\<close>

lemma world_ok_settle_put:
  assumes ok: "world_ok cap w" and r: "route_of w t = Some r" and run: "ro_run r' = ro_run r"
    and rok: "route_ok cap r'" and over: "is_terminal (ro_phase r')"
  shows "world_ok cap (put_route t r' (update_cell (ro_run r) (send_terminal res) w))"
proof -
  have i: "ro_run r < rw_next w" using world_okD(2) [OF ok r] by (simp add: entry_ok_def)
  have others: "\<And>u x. route_of w u = Some x \<Longrightarrow> u \<noteq> t \<Longrightarrow> ro_run x \<noteq> ro_run r"
    using world_okD(3) [OF ok _ r] by blast
  show ?thesis
    unfolding world_ok_def
    using world_okD [OF ok] others i rok run over
    by (auto simp: entry_ok_def distinct_update cell_ok_def split: if_splits)
       (metis others map_of_is_SomeI)
qed

lemma world_ok_settle_remove:
  assumes ok: "world_ok cap w" and r: "route_of w t = Some r"
  shows "world_ok cap (remove_route t (update_cell (ro_run r) (send_terminal res) w))"
proof -
  have i: "ro_run r < rw_next w" using world_okD(2) [OF ok r] by (simp add: entry_ok_def)
  have others: "\<And>u x. route_of w u = Some x \<Longrightarrow> u \<noteq> t \<Longrightarrow> ro_run x \<noteq> ro_run r"
    using world_okD(3) [OF ok _ r] by blast
  show ?thesis
    unfolding world_ok_def
    using world_okD [OF ok] others i
    by (auto simp: entry_ok_def distinct_delete cell_ok_def split: if_splits)
qed

section \<open>Every operation\<close>

lemma route_ok_phase_cleared:
  assumes "route_ok cap r" "phase_queue p = []"
  shows "route_ok cap (clear_deferred_image_bytes r\<lparr>ro_phase := p\<rparr>)"
    and "route_ok cap (clear_deferred_image_bytes (r\<lparr>ro_phase := p\<rparr>))"
  using assms by (auto simp: route_ok_def images_ok_def clear_deferred_image_bytes_def deferred_ok_def)

text \<open>A phase without a queue asks nothing of the reservation but its own sum.\<close>

lemma route_ok_phase_queue:
  assumes "route_ok cap r" "phase_queue p = []"
  shows "route_ok cap (r\<lparr>ro_phase := p\<rparr>)"
  using assms by (auto simp: route_ok_def images_ok_def deferred_ok_def)

lemma route_ok_pending [simp]: "route_ok cap (r\<lparr>ro_pending_failure := e\<rparr>) = route_ok cap r"
  by (simp add: route_ok_def images_ok_def deferred_ok_def)

lemma fail_before_start_ok:
  assumes ok: "world_ok cap w" shows "world_ok cap (snd (fail_before_start t e w))"
proof (cases "route_of w t")
  case None
  then show ?thesis using ok by (simp add: fail_before_start_def)
next
  case (Some r)
  show ?thesis
  proof (cases "ro_phase r")
    case (Starting ds)
    have r: "route_of (end_run r w) t = Some r" using Some by simp
    have "route_ok cap r" using world_okD(2) [OF ok Some] by (simp add: entry_ok_def)
    then have "route_ok cap (r\<lparr>ro_phase := TerminalBeforeStart None\<rparr>)"
      by (rule route_ok_phase_queue) simp
    then show ?thesis
      using world_ok_settle_put [OF world_ok_end_run [OF ok] r] Some Starting
      by (simp add: fail_before_start_def)
  qed (use ok Some in \<open>simp_all add: fail_before_start_def\<close>)
qed

lemma cancel_registered_ok:
  "world_ok cap w \<Longrightarrow> world_ok cap (snd (cancel_registered t w))"
  by (auto simp: cancel_registered_def Let_def cell_ok_def split: option.splits
        intro!: world_ok_remove world_ok_end_run world_ok_cell)

lemma route_ok_entry: "world_ok cap w \<Longrightarrow> route_of w t = Some r \<Longrightarrow> route_ok cap r"
  using world_okD(2) by (auto simp: entry_ok_def)

lemma acknowledge_start_ok:
  assumes ok: "world_ok cap w" shows "world_ok cap (snd (acknowledge_start t u w))"
proof (cases "route_of w t")
  case None
  then show ?thesis using ok by (simp add: acknowledge_start_def)
next
  case (Some r)
  show ?thesis
  proof (cases "ro_phase r")
    case (Starting ds)
    have "route_ok cap (clear_deferred_image_bytes r\<lparr>ro_phase := Replaying u []\<rparr>)"
      by (rule route_ok_phase_cleared [OF route_ok_entry [OF ok Some]]) simp
    then show ?thesis
      using world_ok_put [OF ok Some] Some Starting
      by (simp add: acknowledge_start_def clear_deferred_image_bytes_def)
  next
    case (TerminalBeforeStart x)
    then show ?thesis
      using ok Some by (auto simp: acknowledge_start_def intro: world_ok_remove split: option.splits)
  qed (use ok Some in \<open>simp_all add: acknowledge_start_def\<close>)
qed

lemma replay_transition_ok:
  assumes ok: "world_ok cap w" shows "world_ok cap (snd (replay_transition t u w))"
proof (cases "route_of w t")
  case None
  then show ?thesis using ok by (simp add: replay_transition_def)
next
  case (Some r)
  show ?thesis
  proof (cases "ro_phase r")
    case (Replaying v ds)
    have "route_ok cap (clear_deferred_image_bytes (r\<lparr>ro_phase := Replaying u []\<rparr>))"
      by (rule route_ok_phase_cleared [OF route_ok_entry [OF ok Some]]) simp
    moreover have "route_ok cap (r\<lparr>ro_phase := Active u\<rparr>)"
      by (rule route_ok_phase_queue [OF route_ok_entry [OF ok Some]]) simp
    ultimately show ?thesis
      using world_ok_put [OF ok Some] Some Replaying ok
      by (simp add: replay_transition_def clear_deferred_image_bytes_def)
  qed (use ok Some in \<open>simp_all add: replay_transition_def\<close>)
qed

text \<open>Routing an event keeps the run of the route, whether it is over, and the cell's result.\<close>

lemma record_failure_frame:
  "ro_run (snd (record_failure t e r)) = ro_run r"
  "is_terminal (ro_phase (snd (record_failure t e r))) = is_terminal (ro_phase r)"
  by (cases "ro_phase r"; simp add: record_failure_def clear_deferred_image_bytes_def clear_deferred_def)+

lemma fail_route_frame:
  "ro_run (snd (fail_route t e r)) = ro_run r"
  "is_terminal (ro_phase (snd (fail_route t e r))) = is_terminal (ro_phase r)"
  by (simp_all add: fail_route_def record_failure_frame split: option.splits)

lemma accept_event_frame:
  assumes "accept_event ev cap r = Inr r1"
  shows "ro_run r1 = ro_run r" "ro_phase r1 = ro_phase r" "ro_pending_failure r1 = ro_pending_failure r"
    "ro_active r1 = ro_active r" "ro_maximum_output_bytes r1 = ro_maximum_output_bytes r"
  using assms
  by (auto simp: accept_event_def accept_text_def accept_image_def Let_def
        split: event.splits option.splits if_splits)

lemma try_send_frame:
  assumes "try_send ev c = (res, c1)"
  shows "rc_terminal c1 = rc_terminal c" "cell_ok cap c \<Longrightarrow> cell_ok cap c1"
    "rc_control c1 = rc_control c" "rc_abandoned c1 = rc_abandoned c"
  using assms by (auto simp: try_send_def cell_ok_def split: if_splits)

definition event_frame :: "run_route \<Rightarrow> run_cell \<Rightarrow> run_route \<times> run_cell \<Rightarrow> bool" where
  "event_frame r c out \<longleftrightarrow>
     ro_run (fst out) = ro_run r \<and> is_terminal (ro_phase (fst out)) = is_terminal (ro_phase r) \<and>
     rc_terminal (snd out) = rc_terminal c \<and> (\<forall>cap. cell_ok cap c \<longrightarrow> cell_ok cap (snd out)) \<and>
     rc_control (snd out) = rc_control c"

lemma route_event_after_start_frame:
  "event_frame r c (snd (route_event_after_start observed ev cap r c))"
proof (cases "turn_mismatch observed (ro_phase r) \<noteq> None \<or> is_terminal (ro_phase r)
    \<or> ro_pending_failure r \<noteq> None \<or> rc_abandoned c")
  case True
  then show ?thesis
    by (auto simp: route_event_after_start_def event_frame_def split: option.splits)
next
  case False
  then have tm: "turn_mismatch observed (ro_phase r) = None" by blast
  show ?thesis
  proof (cases "accept_event ev cap r")
    case (Inl e)
    then show ?thesis
      using False tm by (simp add: route_event_after_start_def event_frame_def fail_route_frame prod.case_eq_if)
  next
    case (Inr r1)
    note af = accept_event_frame [OF Inr]
    obtain res c1 where s: "try_send ev c = (res, c1)" by (cases "try_send ev c")
    show ?thesis
      using False tm Inr s af try_send_frame [OF s]
      by (auto simp: route_event_after_start_def event_frame_def fail_route_frame prod.case_eq_if
            split: option.splits try_send_error.splits)
  qed
qed

lemma route_event_frame: "event_frame r c (snd (route_event observed m ev d cap r c))"
proof (cases "ro_pending_failure r = None \<and> d \<and> phase_deferred (ro_phase r) \<noteq> None")
  case False
  then show ?thesis
    using route_event_after_start_frame
    by (auto simp: route_event_def event_frame_def)
next
  case True
  then obtain ds where p: "phase_deferred (ro_phase r) = Some ds" and pf: "ro_pending_failure r = None"
    and d: "d" by auto
  have keeps: "is_terminal (set_phase_deferred q ph) = is_terminal ph" for q ph by (cases ph) auto
  show ?thesis
  proof (cases observed)
    case None
    then show ?thesis using d by (simp add: route_event_deferring [OF pf p] event_frame_def)
  next
    case (Some turn_id)
    show ?thesis
    proof (cases "reserve_deferred_image ev r")
      case (Inl e)
      then show ?thesis
        using d Some by (simp add: route_event_deferring [OF pf p] event_frame_def record_failure_frame)
    next
      case (Inr r1)
      note fr = reserve_frame [OF Inr]
      show ?thesis
        using d Some Inr fr
        by (simp add: route_event_deferring [OF pf p] event_frame_def record_failure_frame keeps Let_def)
    qed
  qed
qed

lemma registry_route_event_ok:
  assumes ok: "world_ok cap w"
  shows "world_ok cap (snd (registry_route_event t observed m ev d cap w))"
proof (cases "route_of w t")
  case None
  then show ?thesis using ok by (simp add: registry_route_event_def)
next
  case (Some r)
  let ?c = "rw_cells w (ro_run r)"
  obtain out r1 c1 where e: "route_event observed m ev d cap r ?c = (out, r1, c1)"
    by (cases "route_event observed m ev d cap r ?c")
  have f: "ro_run r1 = ro_run r" "is_terminal (ro_phase r1) = is_terminal (ro_phase r)"
    "rc_terminal c1 = rc_terminal ?c" "cell_ok cap ?c \<longrightarrow> cell_ok cap c1"
    using route_event_frame [of r ?c observed m ev d cap] e by (simp_all add: event_frame_def)
  have "route_ok cap r1"
    using route_event_ok [OF route_ok_entry [OF ok Some], of observed m ev d ?c] e by simp
  moreover have "world_ok cap (update_cell (ro_run r) (\<lambda>_. c1) w)"
    using f by (intro world_ok_cell [OF ok]) auto
  ultimately show ?thesis
    using e f Some by (simp add: registry_route_event_def world_ok_put)
qed

lemma route_ok_queue:
  assumes ok: "route_ok cap r" and p: "phase_deferred (ro_phase r) = Some ds" and len: "length q \<le> cap"
    and imgs: "deferred_images q = deferred_images ds \<or> deferred_images q = []"
  shows "route_ok cap (r\<lparr>ro_phase := set_phase_deferred q (ro_phase r)\<rparr>)"
proof -
  have "phase_queue (ro_phase r) = ds" using p by (simp add: phase_queue_def)
  then show ?thesis
    using ok len imgs phase_queue_set [OF p, of q]
    by (auto simp: route_ok_def images_ok_def deferred_ok_def)
qed

lemma set_phase_deferred_frame [simp]:
  "is_terminal (set_phase_deferred q ph) = is_terminal ph"
  "phase_turn_id (set_phase_deferred q ph) = phase_turn_id ph"
  by (cases ph; simp)+

lemma defer_terminal_cases:
  assumes ok: "route_ok cap r0"
  shows "defer_terminal params d cap r0 = Inl r \<Longrightarrow>
           route_ok cap r \<and> ro_run r = ro_run r0 \<and> is_terminal (ro_phase r) = is_terminal (ro_phase r0)"
    and "defer_terminal params d cap r0 = Inr (r, qf) \<Longrightarrow>
           route_ok cap r \<and> ro_run r = ro_run r0 \<and> is_terminal (ro_phase r) = is_terminal (ro_phase r0)
           \<and> ro_active r = ro_active r0 \<and> ro_pending_failure r = ro_pending_failure r0
           \<and> phase_turn_id (ro_phase r) = phase_turn_id (ro_phase r0)"
  using ok by (auto simp: defer_terminal_def route_ok_queue split: option.splits if_splits)

lemma settle_route_ok:
  assumes ok: "world_ok cap w" and r0: "route_of w t = Some r0"
    and r: "route_ok cap r" "ro_run r = ro_run r0" and live: "\<not> is_terminal (ro_phase r)"
  shows "world_ok cap (settle_route t c r qf w)"
proof -
  have e: "route_of (end_run r w) t = Some r0" using r0 by simp
  have tr: "route_ok cap (r\<lparr>ro_pending_failure := None, ro_phase := TerminalBeforeStart u\<rparr>)" for u
    using route_ok_phase_queue [of cap "r\<lparr>ro_pending_failure := None\<rparr>" "TerminalBeforeStart u"] r
    by simp
  note put = world_ok_settle_put [OF world_ok_end_run [OF ok] e _ tr]
    and rem = world_ok_settle_remove [OF world_ok_end_run [OF ok] e]
  show ?thesis
    using put rem r(2) live
    by (cases "ro_phase r") (simp_all add: settle_route_def Let_def)
qed

lemma route_terminal_ok:
  assumes ok: "world_ok cap w" shows "world_ok cap (snd (route_terminal t c p d cap w))"
proof (cases "route_of w t")
  case None
  then show ?thesis using ok by (simp add: route_terminal_def)
next
  case (Some r0)
  note rok = route_ok_entry [OF ok Some]
  show ?thesis
  proof (cases "defer_terminal p d cap r0")
    case (Inl r)
    then show ?thesis
      using world_ok_put [OF ok Some, of r] defer_terminal_cases(1) [OF rok Inl] Some
      by (simp add: route_terminal_def)
  next
    case (Inr x)
    obtain r qf where x: "x = (r, qf)" by (cases x)
    note dt = defer_terminal_cases(2) [OF rok Inr [unfolded x]]
    have "world_ok cap (put_route t r w)" using world_ok_put [OF ok Some, of r] dt by simp
    then show ?thesis
      using settle_route_ok [OF ok Some, of r c qf] dt Some Inr x
      by (auto simp: route_terminal_def split: option.splits)
  qed
qed

lemma fail_active_ok: "world_ok cap w \<Longrightarrow> world_ok cap (snd (fail_active t u i e w))"
  by (auto simp: fail_active_def route_ok_entry split: option.splits intro!: world_ok_put)

lemma fail_taken_route_ok:
  assumes "world_ok cap w" "rw_routes w = []" "ro_run r < rw_next w"
  shows "world_ok cap (fail_taken_route e r w)" "rw_routes (fail_taken_route e r w) = []"
    "rw_next (fail_taken_route e r w) = rw_next w"
  using world_ok_end_run [OF assms(1), of r] assms(2,3)
  by (auto simp: fail_taken_route_def Let_def world_ok_def cell_ok_def)

lemma fail_taken_routes_ok:
  assumes "world_ok cap w" "rw_routes w = []" "\<forall>r \<in> set rs. ro_run r < rw_next w"
  shows "world_ok cap (fold (fail_taken_route e) rs w)"
  using assms
proof (induction rs arbitrary: w)
  case Nil
  then show ?case by simp
next
  case (Cons r rs)
  note f = fail_taken_route_ok [OF Cons.prems(1,2), of r e]
  show ?case using Cons.IH [of "fail_taken_route e r w"] f Cons.prems by simp
qed

lemma routes_below_next:
  assumes ok: "world_ok cap w" and r: "r \<in> set (map snd (rw_routes w))" shows "ro_run r < rw_next w"
proof -
  from r obtain t where "(t, r) \<in> set (rw_routes w)" by auto
  then have "route_of w t = Some r" using world_okD(1) [OF ok] by simp
  then show ?thesis using world_okD(2) [OF ok] by (simp add: entry_ok_def)
qed

lemma world_ok_no_routes: "world_ok cap w \<Longrightarrow> world_ok cap (w\<lparr>rw_routes := []\<rparr>)"
  by (simp add: world_ok_def)

lemma fail_all_ok:
  assumes ok: "world_ok cap w" shows "world_ok cap (fail_all e w)"
  unfolding fail_all_def
  by (rule fail_taken_routes_ok [OF world_ok_no_routes [OF ok]])
     (use routes_below_next [OF ok] in auto)

lemma register_run_ok:
  assumes ok: "world_ok cap w" shows "world_ok cap (snd (register_run t a cap m w))"
proof -
  let ?w1 = "w\<lparr>rw_next := Suc (rw_next w), rw_cells := (rw_cells w)(rw_next w := new_cell cap)\<rparr>"
  have fresh: "world_ok cap ?w1"
    using ok by (auto simp: world_ok_def entry_ok_def cell_ok_def new_cell_def less_Suc_eq)
  let ?r = "\<lparr>ro_run = rw_next w, ro_active = a, ro_phase = Starting [], ro_pending_failure = None,
              ro_text = [], ro_maximum_output_bytes = m, ro_usage = None, ro_image_generations = [],
              ro_image_generation_bytes = 0, ro_deferred_image_bytes = 0,
              ro_deferred_image_bytes_by_id = Map.empty\<rparr>"
  have e: "entry_ok cap ?w1 ?r"
    by (simp add: entry_ok_def route_ok_def images_ok_def deferred_ok_def new_cell_def)
  have other: "\<And>u x. route_of w u = Some x \<Longrightarrow> ro_run x \<noteq> rw_next w"
    using world_okD(2) [OF ok] by (fastforce simp: entry_ok_def)
  have "world_ok cap (put_route t ?r ?w1)" if "route_of w t = None"
    unfolding world_ok_def
    using world_okD [OF fresh] e other
    by (auto simp: entry_ok_def distinct_update split: if_splits)
       (metis other map_of_is_SomeI)+
  then show ?thesis using fresh by (simp add: register_run_def contains_def Let_def)
qed

lemma consumer_ok:
  assumes ok: "world_ok cap w"
  shows "world_ok cap (snd (recv_event i w))" "world_ok cap (abandon_cell i w)"
    "world_ok cap (drop_channels i w)" "world_ok cap (snd (start_interrupt i w))"
    "world_ok cap (finish_interrupt i res w)" "world_ok cap (set_active i v w)"
  using ok
  by (auto simp: recv_event_def abandon_cell_def drop_channels_def start_interrupt_def
        finish_interrupt_def set_active_def cell_ok_def world_ok_active
        split: list.splits prod.splits intro!: world_ok_cell)

lemmas run_ops_ok = fail_before_start_ok cancel_registered_ok acknowledge_start_ok replay_transition_ok
  registry_route_event_ok route_terminal_ok fail_active_ok fail_all_ok register_run_ok consumer_ok

lemma run_step_ok: "world_ok cap w \<Longrightarrow> world_ok cap (run_step cap op w)"
  by (cases op) (simp_all add: run_step_def run_ops_ok)

lemma new_world_ok: "world_ok cap new_world"
  by (simp add: world_ok_def new_world_def new_cell_def cell_ok_def)

section \<open>The first result of a run is final\<close>

lemma live_entry_unset:
  "world_ok cap w \<Longrightarrow> route_of w t = Some r \<Longrightarrow> \<not> is_terminal (ro_phase r) \<Longrightarrow>
   rc_terminal (rw_cells w (ro_run r)) = None"
  using world_okD(2) by (auto simp: entry_ok_def)

definition result_of :: "nat \<Rightarrow> run_world \<Rightarrow> run_result result option" where
  "result_of k w = rc_terminal (rw_cells w k)"

lemma result_of_simps [simp]:
  "result_of k (put_route t r w) = result_of k w"
  "result_of k (remove_route t w) = result_of k w"
  "result_of k (end_run r w) = result_of k w"
  "result_of k (w\<lparr>rw_routes := rs\<rparr>) = result_of k w"
  "result_of k (w\<lparr>rw_active := as1\<rparr>) = result_of k w"
  by (simp_all add: result_of_def)

lemma result_of_update:
  "rc_terminal (f (rw_cells w i)) = rc_terminal (rw_cells w i) \<Longrightarrow>
   result_of k (update_cell i f w) = result_of k w"
  by (simp add: result_of_def)

lemma result_of_settle:
  "result_of i w = None \<Longrightarrow> result_of k w = Some v \<Longrightarrow>
   result_of k (update_cell i (send_terminal res) w) = Some v"
  by (auto simp: result_of_def)

lemma settle_route_result:
  assumes "world_ok cap w" "route_of w t = Some r0" "\<not> is_terminal (ro_phase r0)" "ro_run r = ro_run r0"
    and "result_of k w = Some v"
  shows "result_of k (settle_route t c r qf w) = Some v"
proof -
  have "result_of (ro_run r) (end_run r w) = None"
    using live_entry_unset [OF assms(1-3)] assms(4) by (simp add: result_of_def)
  then have "result_of k (update_cell (ro_run r) (send_terminal (terminal_result t c r qf)) (end_run r w)) = Some v"
    using assms(5) by (intro result_of_settle) simp_all
  then show ?thesis by (simp add: settle_route_def Let_def split: run_phase.split)
qed

lemma fail_taken_route_result:
  "result_of k w = Some v \<Longrightarrow> result_of k (fail_taken_route e r w) = Some v"
  by (auto simp: fail_taken_route_def Let_def result_of_def)

lemma fail_taken_routes_result:
  "result_of k w = Some v \<Longrightarrow> result_of k (fold (fail_taken_route e) rs w) = Some v"
  by (induction rs arbitrary: w) (auto intro: fail_taken_route_result)

lemma run_step_result:
  assumes ok: "world_ok cap w" and v: "result_of k w = Some v"
  shows "result_of k (run_step cap op w) = Some v"
proof (cases op)
  case (OpRegister t a m)
  have "k \<noteq> rw_next w" using world_okD(4) [OF ok order_refl] v by (auto simp: result_of_def)
  then show ?thesis
    using v OpRegister by (auto simp: run_step_def register_run_def Let_def result_of_def)
next
  case (OpFailBeforeStart t e)
  show ?thesis
    using v OpFailBeforeStart live_entry_unset [OF ok]
    by (auto simp: run_step_def fail_before_start_def result_of_def
          split: option.splits run_phase.splits)
next
  case (OpCancelRegistered t)
  show ?thesis
    using v OpCancelRegistered
    by (auto simp: run_step_def cancel_registered_def Let_def result_of_update split: option.splits)
next
  case (OpAcknowledge t u)
  show ?thesis
    using v OpAcknowledge
    by (auto simp: run_step_def acknowledge_start_def split: option.splits run_phase.splits)
next
  case (OpReplay t u)
  show ?thesis
    using v OpReplay
    by (auto simp: run_step_def replay_transition_def split: option.splits run_phase.splits)
next
  case (OpEvent t u m ev d)
  show ?thesis
  proof (cases "route_of w t")
    case None
    then show ?thesis using v OpEvent by (simp add: run_step_def registry_route_event_def)
  next
    case (Some r)
    let ?c = "rw_cells w (ro_run r)"
    obtain out r1 c1 where e: "route_event u m ev d cap r ?c = (out, r1, c1)"
      by (cases "route_event u m ev d cap r ?c")
    have "rc_terminal c1 = rc_terminal ?c"
      using route_event_frame [of r ?c u m ev d cap] e by (simp add: event_frame_def)
    then show ?thesis
      using v OpEvent Some e by (simp add: run_step_def registry_route_event_def result_of_update)
  qed
next
  case (OpTerminal t c p d)
  show ?thesis
  proof (cases "route_of w t")
    case None
    then show ?thesis using v OpTerminal by (simp add: run_step_def route_terminal_def)
  next
    case (Some r0)
    note rok = route_ok_entry [OF ok Some]
    show ?thesis
    proof (cases "defer_terminal p d cap r0")
      case (Inl r)
      then show ?thesis using v OpTerminal Some by (simp add: run_step_def route_terminal_def)
    next
      case (Inr x)
      obtain r qf where x: "x = (r, qf)" by (cases x)
      note dt = defer_terminal_cases(2) [OF rok Inr [unfolded x]]
      show ?thesis
        using v OpTerminal Some Inr x dt settle_route_result [OF ok Some, of r k v c qf]
        by (auto simp: run_step_def route_terminal_def split: option.splits)
    qed
  qed
next
  case (OpFailActive t u i e)
  then show ?thesis using v by (auto simp: run_step_def fail_active_def split: option.splits)
next
  case (OpFailAll e)
  then show ?thesis using v by (simp add: run_step_def fail_all_def fail_taken_routes_result)
next
  case (OpStartInterrupt i)
  then show ?thesis
    using v by (simp add: run_step_def start_interrupt_def result_of_update prod.case_eq_if)
qed (use v in \<open>simp_all add: run_step_def recv_event_def abandon_cell_def drop_channels_def
       finish_interrupt_def set_active_def result_of_update split: list.split\<close>)

interpretation runs: settling_machine new_world "run_step cap" "world_ok cap" result_of for cap
  by unfold_locales (auto intro: new_world_ok run_step_ok run_step_result)

section \<open>Held bytes\<close>

lemma deferred_images_bytes:
  assumes "deferred_ok cap r"
  shows "sum_list (map image_size (deferred_images (phase_queue (ro_phase r)))) \<le> ro_deferred_image_bytes r"
proof -
  let ?gs = "deferred_images (phase_queue (ro_phase r))" and ?m = "ro_deferred_image_bytes_by_id r"
  have d: "distinct (map ig_id ?gs)" and s: "\<forall>g \<in> set ?gs. ?m (ig_id g) = Some (image_size g)"
    and fin: "finite (dom ?m)" and sum: "ro_deferred_image_bytes r = (\<Sum>i \<in> dom ?m. the (?m i))"
    using assms by (simp_all add: deferred_ok_def)
  have "map image_size ?gs = map (\<lambda>i. the (?m i)) (map ig_id ?gs)" using s by simp
  then have "sum_list (map image_size ?gs) = (\<Sum>i \<in> set (map ig_id ?gs). the (?m i))"
    using d by (metis sum_list_distinct_conv_sum_set)
  also have "\<dots> \<le> (\<Sum>i \<in> dom ?m. the (?m i))"
    using s by (intro sum_mono2 [OF fin]) auto
  finally show ?thesis using sum by simp
qed

end
