(* ===== verification/RunTerminal.thy ===== *)
theory RunTerminal
  imports RunBounds
begin

text \<open>
  How runs end: a run whose failure was recorded never reports a completed turn, an interrupt is
  issued at most once and never after the provider's terminal state, and what happens to the
  deferred notifications of a turn when a terminal notification of another turn arrives.
\<close>

section \<open>Recorded failures\<close>

text \<open>The run \<open>k\<close> can only end with an error: it has, or it has no result and its route, if it is
  still there and not over, holds a failure.\<close>

definition doomed :: "nat \<Rightarrow> run_world \<Rightarrow> bool" where
  "doomed k w \<longleftrightarrow>
     (\<exists>e. result_of k w = Some (Inl e)) \<or>
     (result_of k w = None \<and> k < rw_next w \<and>
      (\<forall>t r. route_of w t = Some r \<longrightarrow> ro_run r = k \<longrightarrow>
         ro_pending_failure r \<noteq> None \<or> is_terminal (ro_phase r)))"

lemma doomed_result: "result_of k w = Some (Inl e) \<Longrightarrow> doomed k w"
  by (simp add: doomed_def)

text \<open>An operation that ends no run and keeps the failures and ends of its route.\<close>

lemma doomed_put:
  assumes "doomed k w" and "route_of w t = Some r" and "ro_run r' = ro_run r"
    and "ro_run r = k \<Longrightarrow> ro_pending_failure r \<noteq> None \<or> is_terminal (ro_phase r) \<Longrightarrow>
           ro_pending_failure r' \<noteq> None \<or> is_terminal (ro_phase r')"
  shows "doomed k (put_route t r' w)"
  using assms by (auto simp: doomed_def split: if_splits)

lemma doomed_remove: "doomed k w \<Longrightarrow> doomed k (remove_route t w)"
  by (auto simp: doomed_def split: if_splits)

lemma doomed_cell:
  "doomed k w \<Longrightarrow> rc_terminal (f (rw_cells w i)) = rc_terminal (rw_cells w i) \<Longrightarrow>
   doomed k (update_cell i f w)"
  by (simp add: doomed_def result_of_update)

lemma doomed_active: "doomed k (w\<lparr>rw_active := a\<rparr>) = doomed k w"
  by (simp add: doomed_def)

lemma doomed_end_run: "doomed k w \<Longrightarrow> doomed k (end_run r w)"
  unfolding end_run_def clear_active_def doomed_active by (rule doomed_cell) simp_all

lemma doomed_send_error:
  "doomed k w \<Longrightarrow> doomed k (update_cell i (send_terminal (Inl e)) w)"
  by (auto simp: doomed_def result_of_def send_terminal_def)

lemma doomed_send_other:
  "doomed k w \<Longrightarrow> i \<noteq> k \<Longrightarrow> doomed k (update_cell i (send_terminal res) w)"
  by (auto simp: doomed_def result_of_def)

lemma fail_taken_routes_doomed:
  "doomed k w \<Longrightarrow> doomed k (fold (fail_taken_route e) rs w)"
proof (induction rs arbitrary: w)
  case Nil
  then show ?case by simp
next
  case (Cons r rs)
  have "doomed k (fail_taken_route e r w)"
    using doomed_end_run [OF Cons.prems, of r]
    by (auto simp: fail_taken_route_def Let_def intro: doomed_send_error)
  then show ?case by (simp add: Cons.IH)
qed

lemma route_event_pending:
  "ro_pending_failure r \<noteq> None \<Longrightarrow> route_event u m ev d cap r c = (ReIgnoredAfterFailure, r, c)"
  by (simp add: route_event_def)

lemma defer_terminal_pending:
  "ro_pending_failure r \<noteq> None \<Longrightarrow> defer_terminal p d cap r = Inr (r, None)"
  by (auto simp: defer_terminal_def)

lemma settle_route_doomed:
  assumes "doomed k w" "route_of w t = Some r0" "ro_run r = ro_run r0"
    and "ro_run r = k \<Longrightarrow> ro_pending_failure r \<noteq> None"
  shows "doomed k (settle_route t c r qf w)"
proof -
  let ?w1 = "update_cell (ro_run r) (send_terminal (terminal_result t c r qf)) (end_run r w)"
  have "doomed k ?w1"
  proof (cases "ro_run r = k")
    case True
    then obtain e where "terminal_result t c r qf = Inl e"
      using assms(4) by (auto simp: terminal_result_def)
    then show ?thesis using doomed_send_error doomed_end_run [OF assms(1)] by simp
  next
    case False
    then show ?thesis using doomed_send_other doomed_end_run [OF assms(1)] by simp
  qed
  note w1 = this
  have r1: "route_of ?w1 t = Some r0" using assms(2) by simp
  show ?thesis
  proof (cases "ro_phase r")
    case (Starting ds)
    then show ?thesis
      using doomed_put [OF w1 r1, of "r\<lparr>ro_pending_failure := None,
          ro_phase := TerminalBeforeStart (Some (tc_turn_id c))\<rparr>"] assms(3)
      by (simp add: settle_route_def Let_def)
  next
    case (TerminalBeforeStart u)
    then show ?thesis
      using doomed_put [OF w1 r1, of "r\<lparr>ro_pending_failure := None\<rparr>"] assms(3)
      by (simp add: settle_route_def Let_def)
  qed (simp_all add: settle_route_def Let_def doomed_remove [OF w1])
qed

lemma run_step_doomed:
  assumes ok: "world_ok cap w" and dm: "doomed k w"
  shows "doomed k (run_step cap op w)"
proof (cases op)
  case (OpRegister t a m)
  let ?w1 = "w\<lparr>rw_next := Suc (rw_next w), rw_cells := (rw_cells w)(rw_next w := new_cell cap)\<rparr>"
  have k: "k \<noteq> rw_next w"
    using dm world_okD(4) [OF ok order_refl] by (auto simp: doomed_def result_of_def)
  then have w1: "doomed k ?w1" using dm by (auto simp: doomed_def result_of_def)
  have "doomed k (put_route t r ?w1)" if "ro_run r = rw_next w" for r
    using w1 k that by (auto simp: doomed_def split: if_splits)
  then show ?thesis using w1 OpRegister by (simp add: run_step_def register_run_def Let_def)
next
  case (OpFailBeforeStart t e)
  show ?thesis
  proof (cases "route_of w t")
    case None
    then show ?thesis using dm OpFailBeforeStart by (simp add: run_step_def fail_before_start_def)
  next
    case (Some r)
    have "doomed k (update_cell (ro_run r) (send_terminal (Inl e)) (end_run r w))"
      by (rule doomed_send_error [OF doomed_end_run [OF dm]])
    from doomed_put [OF this, of t r "r\<lparr>ro_phase := TerminalBeforeStart None\<rparr>"] show ?thesis
      using dm OpFailBeforeStart Some
      by (cases "ro_phase r") (simp_all add: run_step_def fail_before_start_def)
  qed
next
  case (OpCancelRegistered t)
  then show ?thesis
    using dm by (auto simp: run_step_def cancel_registered_def Let_def split: option.splits
        intro!: doomed_remove doomed_end_run doomed_cell)
next
  case (OpAcknowledge t u)
  then show ?thesis
    using dm
    by (auto simp: run_step_def acknowledge_start_def clear_deferred_image_bytes_def
        split: option.splits run_phase.splits intro!: doomed_remove doomed_put)
next
  case (OpReplay t u)
  then show ?thesis
    using dm
    by (auto simp: run_step_def replay_transition_def clear_deferred_image_bytes_def
        split: option.splits run_phase.splits intro!: doomed_put)
next
  case (OpEvent t u m ev d)
  show ?thesis
  proof (cases "route_of w t")
    case None
    then show ?thesis using dm OpEvent by (simp add: run_step_def registry_route_event_def)
  next
    case (Some r)
    let ?c = "rw_cells w (ro_run r)"
    obtain out r1 c1 where e: "route_event u m ev d cap r ?c = (out, r1, c1)"
      by (cases "route_event u m ev d cap r ?c")
    have f: "ro_run r1 = ro_run r" "is_terminal (ro_phase r1) = is_terminal (ro_phase r)"
      "rc_terminal c1 = rc_terminal ?c"
      using route_event_frame [of r ?c u m ev d cap] e by (simp_all add: event_frame_def)
    have "doomed k (update_cell (ro_run r) (\<lambda>_. c1) w)"
      using f by (intro doomed_cell [OF dm]) simp
    then have "doomed k (put_route t r1 (update_cell (ro_run r) (\<lambda>_. c1) w))"
      by (rule doomed_put [of _ _ _ r]) (use Some f e route_event_pending [of r u m ev d cap ?c] in auto)
    then show ?thesis using OpEvent Some e by (simp add: run_step_def registry_route_event_def)
  qed
next
  case (OpTerminal t c p d)
  show ?thesis
  proof (cases "route_of w t")
    case None
    then show ?thesis using dm OpTerminal by (simp add: run_step_def route_terminal_def)
  next
    case (Some r0)
    note rok = route_ok_entry [OF ok Some]
    show ?thesis
    proof (cases "defer_terminal p d cap r0")
      case (Inl r)
      then have "ro_pending_failure r0 = None" using defer_terminal_pending [of r0] by force
      then show ?thesis
        using doomed_put [OF dm Some, of r] defer_terminal_cases(1) [OF rok Inl] OpTerminal Some Inl
        by (simp add: run_step_def route_terminal_def)
    next
      case (Inr x)
      obtain r qf where x: "x = (r, qf)" by (cases x)
      note dt = defer_terminal_cases(2) [OF rok Inr [unfolded x]]
      have put: "doomed k (put_route t r w)" using doomed_put [OF dm Some, of r] dt by simp
      show ?thesis
      proof (cases "is_terminal (ro_phase r)")
        case True
        then show ?thesis using put OpTerminal Some Inr x by (simp add: run_step_def route_terminal_def)
      next
        case live: False
        have "result_of (ro_run r0) w = None"
          using live_entry_unset [OF ok Some] live dt by (simp add: result_of_def)
        then have "ro_run r = k \<Longrightarrow> ro_pending_failure r \<noteq> None"
          using dm Some live dt by (auto simp: doomed_def)
        then have "doomed k (settle_route t c r qf w)"
          using settle_route_doomed [OF dm Some, of r] dt by simp
        then show ?thesis
          using put live OpTerminal Some Inr x
          by (auto simp: run_step_def route_terminal_def split: option.splits)
      qed
    qed
  qed
next
  case (OpFailActive t u i e)
  then show ?thesis
    using dm by (auto simp: run_step_def fail_active_def split: option.splits intro!: doomed_put)
next
  case (OpFailAll e)
  have "doomed k (w\<lparr>rw_routes := []\<rparr>)" using dm by (auto simp: doomed_def)
  then show ?thesis using OpFailAll by (simp add: run_step_def fail_all_def fail_taken_routes_doomed)
next
  case (OpStartInterrupt i)
  then show ?thesis
    using dm by (simp add: run_step_def start_interrupt_def doomed_cell prod.case_eq_if)
qed (use dm in \<open>simp_all add: run_step_def recv_event_def abandon_cell_def drop_channels_def
       finish_interrupt_def set_active_def doomed_cell doomed_active split: list.split\<close>)

lemma run_doomed:
  "world_ok cap w \<Longrightarrow> doomed k w \<Longrightarrow> doomed k (fold (run_step cap) ops w)"
proof (induction ops arbitrary: w)
  case Nil
  then show ?case by simp
next
  case (Cons op ops)
  then show ?case by (simp add: run_step_ok run_step_doomed)
qed

section \<open>Interrupts\<close>

text \<open>No interrupt can start any more: one has started or the provider's terminal state was seen.\<close>

definition interrupt_spent :: "nat \<Rightarrow> run_world \<Rightarrow> unit option" where
  "interrupt_spent k w =
     (if k < rw_next w \<and> (ct_interrupt_started (rc_control (rw_cells w k))
                          \<or> ct_provider_terminal (rc_control (rw_cells w k)))
      then Some () else None)"

lemma spent_put [simp]:
  "interrupt_spent k (put_route t r w) = interrupt_spent k w"
  "interrupt_spent k (remove_route t w) = interrupt_spent k w"
  "interrupt_spent k (w\<lparr>rw_routes := rs\<rparr>) = interrupt_spent k w"
  "interrupt_spent k (w\<lparr>rw_active := a\<rparr>) = interrupt_spent k w"
  by (simp_all add: interrupt_spent_def)

definition control_grows :: "run_cell \<Rightarrow> run_cell \<Rightarrow> bool" where
  "control_grows c c' \<longleftrightarrow>
     (ct_interrupt_started (rc_control c) \<longrightarrow> ct_interrupt_started (rc_control c')) \<and>
     (ct_provider_terminal (rc_control c) \<longrightarrow> ct_provider_terminal (rc_control c'))"

lemma control_grows_cells [simp]:
  "control_grows c (mark_cell_terminal c)"
  "control_grows c (send_terminal res c)"
  "control_grows c (c\<lparr>rc_abandoned := b\<rparr>)"
  "control_grows c (c\<lparr>rc_queue := q\<rparr>)"
  "control_grows c (c\<lparr>rc_queue := q, rc_events_open := b1, rc_terminal_open := b2\<rparr>)"
  "control_grows c (c\<lparr>rc_control := complete_interrupt ires (rc_control c)\<rparr>)"
  "control_grows c (c\<lparr>rc_control := snd (try_start_interrupt (rc_control c))\<rparr>)"
  by (simp_all add: control_grows_def mark_cell_terminal_def mark_provider_terminal_def
      send_terminal_def complete_interrupt_def try_start_interrupt_def)

lemma spent_cell:
  "interrupt_spent k w = Some () \<Longrightarrow> control_grows (rw_cells w i) (f (rw_cells w i)) \<Longrightarrow>
   interrupt_spent k (update_cell i f w) = Some ()"
  by (auto simp: interrupt_spent_def control_grows_def split: if_splits)

lemma spent_end_run: "interrupt_spent k w = Some () \<Longrightarrow> interrupt_spent k (end_run r w) = Some ()"
  unfolding end_run_def clear_active_def by (simp add: spent_cell)

lemma fail_taken_routes_spent:
  "interrupt_spent k w = Some () \<Longrightarrow> interrupt_spent k (fold (fail_taken_route e) rs w) = Some ()"
proof (induction rs arbitrary: w)
  case Nil
  then show ?case by simp
next
  case (Cons r rs)
  have "interrupt_spent k (fail_taken_route e r w) = Some ()"
    using spent_end_run [OF Cons.prems] by (simp add: fail_taken_route_def Let_def spent_cell)
  then show ?case by (simp add: Cons.IH)
qed

lemma run_step_spent:
  assumes v: "interrupt_spent k w = Some ()"
  shows "interrupt_spent k (run_step cap op w) = Some ()"
proof (cases op)
  case (OpRegister t a m)
  then show ?thesis
    using v by (auto simp: run_step_def register_run_def Let_def interrupt_spent_def split: if_splits)
next
  case (OpEvent t u m ev d)
  show ?thesis
  proof (cases "route_of w t")
    case None
    then show ?thesis using v OpEvent by (simp add: run_step_def registry_route_event_def)
  next
    case (Some r)
    let ?c = "rw_cells w (ro_run r)"
    obtain out r1 c1 where e: "route_event u m ev d cap r ?c = (out, r1, c1)"
      by (cases "route_event u m ev d cap r ?c")
    have "control_grows ?c c1"
      using route_event_frame [of r ?c u m ev d cap] e by (simp add: event_frame_def control_grows_def)
    then show ?thesis
      using v OpEvent Some e by (simp add: run_step_def registry_route_event_def spent_cell)
  qed
next
  case (OpTerminal t c p d)
  then show ?thesis
    using v by (auto simp: run_step_def route_terminal_def settle_route_def Let_def
        split: option.splits sum.splits prod.splits run_phase.splits intro!: spent_cell spent_end_run)
next
  case (OpFailAll e)
  then show ?thesis using v by (simp add: run_step_def fail_all_def fail_taken_routes_spent)
next
  case (OpStartInterrupt i)
  have "update_cell i (\<lambda>c. c\<lparr>rc_control := snd (try_start_interrupt (rc_control (rw_cells w i)))\<rparr>) w
      = update_cell i (\<lambda>c. c\<lparr>rc_control := snd (try_start_interrupt (rc_control c))\<rparr>) w"
    by (simp add: update_cell_def)
  then show ?thesis
    using v OpStartInterrupt by (simp add: run_step_def start_interrupt_def spent_cell prod.case_eq_if)
qed (use v in \<open>auto simp: run_step_def fail_before_start_def cancel_registered_def Let_def
       acknowledge_start_def replay_transition_def fail_active_def recv_event_def abandon_cell_def
       drop_channels_def finish_interrupt_def set_active_def spent_cell spent_end_run
       split: option.splits run_phase.splits list.splits\<close>)

interpretation interrupts: settling_machine new_world "run_step cap" "world_ok cap" interrupt_spent for cap
  by unfold_locales (simp add: run_step_spent)

section \<open>Delivered text\<close>

text \<open>Events of one turn, each meeting the cell in some state.\<close>

fun route_each ::
  "string option \<Rightarrow> nat \<Rightarrow> run_route \<Rightarrow> (event \<times> run_cell) list \<Rightarrow> run_event_outcome list \<times> run_route" where
  "route_each observed cap r [] = ([], r)"
| "route_each observed cap r ((ev, c) # xs) =
     (case route_event_after_start observed ev cap r c of
        (out, r1, c1) \<Rightarrow> (case route_each observed cap r1 xs of (outs, r2) \<Rightarrow> (out # outs, r2)))"

definition text_delta :: "event \<Rightarrow> string" where
  "text_delta ev = (case ev of TextDelta d \<Rightarrow> d | _ \<Rightarrow> [])"

definition usage_update :: "event \<Rightarrow> usage option \<Rightarrow> usage option" where
  "usage_update ev u = (case ev of UsageUpdated v \<Rightarrow> Some v | _ \<Rightarrow> u)"

lemma accept_event_text:
  assumes "accept_event ev cap r = Inr r1"
  shows "ro_text r1 = ro_text r @ text_delta ev" "ro_usage r1 = usage_update ev (ro_usage r)"
  using assms
  by (auto simp: accept_event_def accept_text_def accept_image_def text_delta_def usage_update_def Let_def
        split: event.splits option.splits if_splits)

lemma fail_route_not_delivered: "fst (fail_route observed e r) \<noteq> ReDelivered"
  by (auto simp: fail_route_def record_failure_def split: option.splits)

lemma delivered_accepts:
  assumes "route_event_after_start observed ev cap r c = (ReDelivered, r1, c1)"
  shows "accept_event ev cap r = Inr r1 \<and> try_send ev c = (None, c1)"
proof (cases "turn_mismatch observed (ro_phase r) \<noteq> None \<or> is_terminal (ro_phase r)
    \<or> ro_pending_failure r \<noteq> None \<or> rc_abandoned c")
  case True
  then show ?thesis
    using assms by (cases "turn_mismatch observed (ro_phase r)")
      (auto simp: route_event_after_start_def split: if_splits)
next
  case False
  then have tm: "turn_mismatch observed (ro_phase r) = None" by blast
  obtain res c2 where s: "try_send ev c = (res, c2)" by (cases "try_send ev c")
  note nd = fail_route_not_delivered
  show ?thesis
  proof (cases "accept_event ev cap r")
    case (Inl e)
    then show ?thesis
      using assms False tm nd [of observed e r]
      by (simp add: route_event_after_start_def prod.case_eq_if)
  next
    case (Inr r2)
    show ?thesis
      using assms False tm Inr s nd
      by (cases res) (auto simp: route_event_after_start_def prod.case_eq_if split: try_send_error.splits)
  qed
qed

lemma route_each_delivered:
  assumes "route_each observed cap r xs = (outs, r')" and "set outs \<subseteq> {ReDelivered}"
  shows "ro_text r' = ro_text r @ concat (map (text_delta \<circ> fst) xs)
     \<and> ro_usage r' = fold (usage_update \<circ> fst) xs (ro_usage r)"
  using assms
proof (induction observed cap r xs arbitrary: outs rule: route_each.induct)
  case (1 observed cap r)
  then show ?case by simp
next
  case (2 observed cap r ev c xs)
  obtain out r1 c1 where e: "route_event_after_start observed ev cap r c = (out, r1, c1)"
    by (cases "route_event_after_start observed ev cap r c")
  obtain outs1 r2 where x: "route_each observed cap r1 xs = (outs1, r2)"
    by (cases "route_each observed cap r1 xs")
  have outs: "outs = out # outs1" "r' = r2" using 2(2) e x by simp_all
  then have "out = ReDelivered" "set outs1 \<subseteq> {ReDelivered}" using 2(3) by auto
  then have "accept_event ev cap r = Inr r1" using delivered_accepts e by blast
  from accept_event_text [OF this] 2(1) [OF e [symmetric] refl] x outs \<open>set outs1 \<subseteq> {ReDelivered}\<close>
  show ?case by simp
qed

section \<open>Properties\<close>

text \<open>C22: whatever the order of registry and consumer operations, a turn holds no more text and image
  data than its session allows, no more images and deferred notifications than the event capacity,
  and no more deferred image data than the session's limit.\<close>

theorem held_output_bounded:
  assumes "map_of (rw_routes (fold (run_step cap) ops new_world)) t = Some r"
  shows "length (ro_text r) + sum_list (map image_size (ro_image_generations r))
           \<le> ro_maximum_output_bytes r \<and>
         length (ro_image_generations r) \<le> cap \<and>
         length (phase_queue (ro_phase r)) \<le> cap \<and>
         sum_list (map image_size (deferred_images (phase_queue (ro_phase r))))
           \<le> ro_maximum_output_bytes r \<and>
         length (rc_queue (rw_cells (fold (run_step cap) ops new_world) (ro_run r))) \<le> cap"
proof -
  have ok: "world_ok cap (fold (run_step cap) ops new_world)" by (rule runs.invar_run)
  from route_ok_entry [OF ok assms] have im: "images_ok cap r" and df: "deferred_ok cap r"
    by (simp_all add: route_ok_def)
  from deferred_images_bytes [OF df] df
  have "sum_list (map image_size (deferred_images (phase_queue (ro_phase r)))) \<le> ro_maximum_output_bytes r"
    by (simp add: deferred_ok_def)
  with im df world_okD(5) [OF ok, of "ro_run r"] show ?thesis
    by (simp add: images_ok_def deferred_ok_def cell_ok_def)
qed

text \<open>C23: the first terminal result of a run is the only one: nothing that happens later changes it.\<close>

theorem run_result_is_final:
  assumes "result_of k (fold (run_step cap) ops new_world) = Some v"
  shows "result_of k (fold (run_step cap) (ops @ later) new_world) = Some v"
  by (rule runs.settled_stable [OF assms])

text \<open>once a run's failure is recorded (output over its limit, a lagging or lost consumer, a
  deadline), whatever result it ever gets is an error: the provider's successful completion of the
  same turn cannot hide it.\<close>

theorem failed_run_never_completes:
  assumes "map_of (rw_routes (fold (run_step cap) ops new_world)) t = Some r"
    and "ro_pending_failure r = Some e" and "\<not> is_terminal (ro_phase r)"
    and "result_of (ro_run r) (fold (run_step cap) (ops @ later) new_world) = Some v"
  shows "\<exists>e'. v = Inl e'"
proof -
  let ?w = "fold (run_step cap) ops new_world"
  have ok: "world_ok cap ?w" by (rule runs.invar_run)
  have "result_of (ro_run r) ?w = None"
    using live_entry_unset [OF ok assms(1,3)] by (simp add: result_of_def)
  moreover have "ro_run r < rw_next ?w" using world_okD(2) [OF ok assms(1)] by (simp add: entry_ok_def)
  moreover have "\<And>u x. map_of (rw_routes ?w) u = Some x \<Longrightarrow> ro_run x = ro_run r \<Longrightarrow> x = r"
    using world_okD(3) [OF ok assms(1)] assms(1) by force
  ultimately have "doomed (ro_run r) ?w" using assms(2) by (auto simp: doomed_def)
  from run_doomed [OF ok this, of later] assms(4) show ?thesis by (auto simp: doomed_def)
qed

text \<open>at most one interrupt is issued for a run and none after the provider's terminal state: after
  one attempt, whatever happens, no later attempt starts another.\<close>

theorem interrupt_issued_at_most_once:
  assumes "k < rw_next (fold (run_step cap) ops new_world)"
  shows "\<not> fst (start_interrupt k
            (fold (run_step cap) (ops @ OpStartInterrupt k # later) new_world))"
proof -
  let ?w = "fold (run_step cap) ops new_world"
  let ?v = "fold (run_step cap) (ops @ [OpStartInterrupt k]) new_world"
  have "interrupt_spent k ?v = Some ()"
    using assms by (simp add: run_step_def start_interrupt_def try_start_interrupt_def interrupt_spent_def)
  from interrupts.settled_stable [OF this, of later]
  have "interrupt_spent k (fold (run_step cap) (ops @ OpStartInterrupt k # later) new_world) = Some ()"
    by simp
  then show ?thesis
    by (auto simp: start_interrupt_def try_start_interrupt_def interrupt_spent_def split: if_splits)
qed

text \<open>C24: the provider's terminal notification of the active turn ends the run: the handle gets the
  turn's result with the text and images delivered, or the recorded failure, the session is free
  again, the control is marked and the route is gone.\<close>

theorem terminal_ends_active_run:
  assumes "map_of (rw_routes w) t = Some r" and "ro_phase r = Active (tc_turn_id c)"
    and "rc_terminal_open (rw_cells w (ro_run r))"
  shows "route_terminal t c p d cap w = (TrCompleted, snd (route_terminal t c p d cap w)) \<and>
         result_of (ro_run r) (snd (route_terminal t c p d cap w)) =
           Some (case ro_pending_failure r of
                   Some e \<Rightarrow> Inl e
                 | None \<Rightarrow> into_result c t (ro_text r) (ro_usage r) (ro_image_generations r)) \<and>
         \<not> rw_active (snd (route_terminal t c p d cap w)) (ro_active r) \<and>
         ct_provider_terminal (rc_control (rw_cells (snd (route_terminal t c p d cap w)) (ro_run r))) \<and>
         map_of (rw_routes (snd (route_terminal t c p d cap w))) t = None"
  using assms
  by (simp add: route_terminal_def defer_terminal_def turn_mismatch_def settle_route_def Let_def
      result_of_def end_run_def send_terminal_def mark_cell_terminal_def mark_provider_terminal_def
      terminal_result_def split: option.split)

text \<open>when every event of a batch is delivered, the route's text is the text it had followed by the
  text deltas in order, and its usage is the last one reported.\<close>

theorem delivered_text_is_result_text:
  assumes "fst (route_each observed cap r xs) = replicate (length xs) ReDelivered"
  shows "ro_text (snd (route_each observed cap r xs))
           = ro_text r @ concat (map (\<lambda>x. text_delta (fst x)) xs) \<and>
         ro_usage (snd (route_each observed cap r xs))
           = fold (\<lambda>x. usage_update (fst x)) xs (ro_usage r)"
proof -
  obtain outs r' where x: "route_each observed cap r xs = (outs, r')"
    by (cases "route_each observed cap r xs")
  have "set outs \<subseteq> {ReDelivered}" using assms x by (auto simp: set_replicate_conv_if)
  from route_each_delivered [OF x this] x show ?thesis by (simp add: comp_def)
qed

text \<open>a terminal notification of another turn that arrives while the deferred notifications of the
  acknowledged turn fill their queue empties that queue: the events are dropped, the caller is told
  of a mismatch only, and no failure is recorded for the turn.\<close>

theorem mismatched_terminal_drops_deferred:
  assumes "map_of (rw_routes w) t = Some r" and "ro_phase r = Replaying u ds"
    and "ro_pending_failure r = None" and "cap \<le> length ds" and "tc_turn_id c \<noteq> u"
  shows "fst (route_terminal t c p True cap w) = TrTurnMismatch u (tc_turn_id c) \<and>
         map_of (rw_routes (snd (route_terminal t c p True cap w))) t
           = Some (r\<lparr>ro_phase := Replaying u []\<rparr>)"
  using assms
  by (auto simp: route_terminal_def defer_terminal_def turn_mismatch_def)

section \<open>Witnesses\<close>

definition demo_ops :: "run_op list" where
  "demo_ops =
     [OpSetActive 0 True, OpRegister ''t'' 0 4, OpAcknowledge ''t'' ''u'', OpReplay ''t'' ''u'',
      OpEvent ''t'' (Some ''u'') ''m'' (TextDelta ''abc'') False]"

definition demo_route :: run_route where
  "demo_route =
     \<lparr>ro_run = 0, ro_active = 0, ro_phase = Active ''u'', ro_pending_failure = None, ro_text = ''abc'',
      ro_maximum_output_bytes = 4, ro_usage = None, ro_image_generations = [],
      ro_image_generation_bytes = 0, ro_deferred_image_bytes = 0,
      ro_deferred_image_bytes_by_id = Map.empty\<rparr>"

lemmas run_evals = run_step_def register_run_def acknowledge_start_def replay_transition_def
  registry_route_event_def route_event_def route_event_after_start_def turn_mismatch_def
  accept_event_def accept_text_def try_send_def set_active_def contains_def new_world_def new_cell_def
  clear_deferred_image_bytes_def put_route_def update_cell_def Let_def

lemma demo_run:
  "rw_routes (fold (run_step 2) demo_ops new_world) = [(''t'', demo_route)] \<and>
   rw_next (fold (run_step 2) demo_ops new_world) = 1 \<and>
   rc_terminal_open (rw_cells (fold (run_step 2) demo_ops new_world) 0)"
  by (simp add: demo_ops_def run_evals demo_route_def checked_add_us_def usize_max_def)

lemma held_output_bounded_witness:
  "length (ro_text demo_route) + sum_list (map image_size (ro_image_generations demo_route)) \<le> 4"
  using held_output_bounded [of 2 demo_ops "''t''" demo_route] demo_run
  by (simp add: demo_route_def)

lemma run_result_is_final_witness:
  "result_of 0 (fold (run_step 2) ([OpRegister ''t'' 0 4, OpFailBeforeStart ''t'' (new_error Timeout [] [])]
      @ [OpFailAll (new_error Disconnected [] [])]) new_world) = Some (Inl (new_error Timeout [] []))"
  by (rule run_result_is_final)
     (simp add: run_evals fail_before_start_def end_run_def clear_active_def send_terminal_def
       mark_cell_terminal_def result_of_def)

lemma failed_run_never_completes_witness:
  "\<exists>e'. Some (Inl (new_error Timeout [] [])) = Some (Inl e' :: run_result result) \<and>
     result_of 0 (fold (run_step 2) ((demo_ops @ [OpFailActive ''t'' ''u'' 0 (new_error Timeout [] [])])
       @ [OpTerminal ''t'' \<lparr>tc_turn_id = ''u'', tc_outcome = Inr OutCompleted\<rparr> JNull False]) new_world)
     = Some (Inl e')"
proof -
  let ?e = "new_error Timeout [] []"
  let ?r = "demo_route\<lparr>ro_pending_failure := Some ?e\<rparr>"
  let ?ops = "demo_ops @ [OpFailActive ''t'' ''u'' 0 ?e]"
  let ?c = "\<lparr>tc_turn_id = ''u'', tc_outcome = Inr OutCompleted\<rparr>"
  have r: "map_of (rw_routes (fold (run_step 2) ?ops new_world)) ''t'' = Some ?r"
    using demo_run by (simp add: run_step_def fail_active_def demo_route_def)
  have v: "result_of 0 (fold (run_step 2) (?ops @ [OpTerminal ''t'' ?c JNull False]) new_world)
      = Some (Inl ?e)"
    using demo_run
    by (simp add: run_step_def fail_active_def demo_route_def route_terminal_def defer_terminal_def
        turn_mismatch_def settle_route_def terminal_result_def result_of_def end_run_def
        send_terminal_def mark_cell_terminal_def Let_def)
  have "\<exists>e'. (Inl ?e :: run_result result) = Inl e'"
    using failed_run_never_completes [OF r, of ?e "[OpTerminal ''t'' ?c JNull False]" "Inl ?e"] v
    by (simp add: demo_route_def)
  then show ?thesis using v by simp
qed

lemma interrupt_issued_at_most_once_witness:
  "\<not> fst (start_interrupt 0 (fold (run_step 2) (demo_ops @ OpStartInterrupt 0 # []) new_world))"
  using interrupt_issued_at_most_once [of 0 2 demo_ops "[]"] demo_run by simp

lemma terminal_ends_active_run_witness:
  "\<exists>w r. result_of 0 w = Some (into_result \<lparr>tc_turn_id = ''u'', tc_outcome = Inr OutCompleted\<rparr>
      ''t'' ''abc'' None []) \<and> r = demo_route \<and> map_of (rw_routes w) ''t'' = None"
  using terminal_ends_active_run [of "fold (run_step 2) demo_ops new_world" "''t''" demo_route
      "\<lparr>tc_turn_id = ''u'', tc_outcome = Inr OutCompleted\<rparr>" JNull False 2] demo_run
  by (intro exI [of _ "snd (route_terminal ''t'' \<lparr>tc_turn_id = ''u'', tc_outcome = Inr OutCompleted\<rparr>
        JNull False 2 (fold (run_step 2) demo_ops new_world))"] exI [of _ demo_route])
     (simp add: demo_route_def)

lemma delivered_text_is_result_text_witness:
  "ro_text (snd (route_each None 2 demo_route [(TextDelta ''d'', new_cell 2)])) = ''abcd''"
  using delivered_text_is_result_text [of None 2 demo_route "[(TextDelta ''d'', new_cell 2)]"]
  by (simp add: run_evals demo_route_def checked_add_us_def usize_max_def text_delta_def)

lemma mismatched_terminal_drops_deferred_witness:
  "fst (route_terminal ''t'' \<lparr>tc_turn_id = ''v'', tc_outcome = Inr OutCompleted\<rparr> JNull True 1
      (put_route ''t'' (demo_route\<lparr>ro_phase := Replaying ''u'' [DeferredEvent ''u'' ''m'' Started]\<rparr>) new_world))
    = TrTurnMismatch ''u'' ''v''"
  using mismatched_terminal_drops_deferred [of
      "put_route ''t'' (demo_route\<lparr>ro_phase := Replaying ''u'' [DeferredEvent ''u'' ''m'' Started]\<rparr>) new_world"
      "''t''" "demo_route\<lparr>ro_phase := Replaying ''u'' [DeferredEvent ''u'' ''m'' Started]\<rparr>" "''u''"
      "[DeferredEvent ''u'' ''m'' Started]" 1 "\<lparr>tc_turn_id = ''v'', tc_outcome = Inr OutCompleted\<rparr>" JNull]
  by (simp add: demo_route_def new_world_def)

end
