(* ===== verification/RunEnds.thy ===== *)
theory RunEnds
  imports RunTerminal
begin

text \<open>
  The end of a run: a route leaves the registry only after its control was told that the turn is over,
  and ending all runs gives every open one a result. What waits for a run therefore never waits for a
  run that nothing will end.
\<close>

section \<open>A run that was routed is routed or over\<close>

definition run_over :: "nat \<Rightarrow> run_world \<Rightarrow> bool" where
  "run_over k w \<longleftrightarrow> k < rw_next w \<and> ct_provider_terminal (rc_control (rw_cells w k))"

definition run_owned :: "string \<times> nat \<Rightarrow> run_world \<Rightarrow> unit option" where
  "run_owned tk w =
     (case tk of (t, k) \<Rightarrow>
        if run_over k w \<or>
           (k < rw_next w \<and> (\<exists>r. route_of w t = Some r \<and> ro_run r = k \<and> \<not> is_terminal (ro_phase r)))
        then Some () else None)"

lemma run_over_simps [simp]:
  "run_over k (put_route t r w) = run_over k w"
  "run_over k (remove_route t w) = run_over k w"
  "run_over k (w\<lparr>rw_routes := rs\<rparr>) = run_over k w"
  "run_over k (w\<lparr>rw_active := a\<rparr>) = run_over k w"
  by (simp_all add: run_over_def)

lemma run_over_cell:
  "run_over k w \<Longrightarrow> control_grows (rw_cells w i) (f (rw_cells w i)) \<Longrightarrow> run_over k (update_cell i f w)"
  by (auto simp: run_over_def control_grows_def)

lemma run_over_end_run [simp]:
  "run_over k (end_run r w) \<longleftrightarrow> run_over k w \<or> k < rw_next w \<and> ro_run r = k"
  by (auto simp: run_over_def end_run_def mark_cell_terminal_def mark_provider_terminal_def)

lemma run_owned_over: "run_over k w \<Longrightarrow> run_owned (t, k) w = Some ()"
  by (simp add: run_owned_def)

lemma run_owned_live:
  "route_of w t = Some r \<Longrightarrow> \<not> is_terminal (ro_phase r) \<Longrightarrow> ro_run r < rw_next w \<Longrightarrow>
   run_owned (t, ro_run r) w = Some ()"
  by (auto simp: run_owned_def)

lemma run_owned_cases:
  assumes "run_owned (t, k) w = Some ()"
  obtains "run_over k w"
  | r where "k < rw_next w" "route_of w t = Some r" "ro_run r = k" "\<not> is_terminal (ro_phase r)"
  using assms by (auto simp: run_owned_def split: if_splits)

text \<open>A step that keeps the live route, or ends it.\<close>

lemma run_owned_frame:
  assumes "run_owned (t, k) w = Some ()"
    and "run_over k w \<Longrightarrow> run_over k w'"
    and "\<And>r. route_of w t = Some r \<Longrightarrow> ro_run r = k \<Longrightarrow> \<not> is_terminal (ro_phase r) \<Longrightarrow> k < rw_next w \<Longrightarrow>
           run_over k w' \<or> k < rw_next w' \<and> (\<exists>r'. route_of w' t = Some r' \<and> ro_run r' = k \<and> \<not> is_terminal (ro_phase r'))"
  shows "run_owned (t, k) w' = Some ()"
  using assms(1)
proof (cases rule: run_owned_cases)
  case 1
  then show ?thesis using assms(2) by (simp add: run_owned_over)
next
  case (2 r)
  then show ?thesis using assms(3) [of r] by (auto simp: run_owned_def)
qed

lemma fail_taken_route_over:
  "run_over k w \<Longrightarrow> run_over k (fail_taken_route e r w)"
  "ro_run r < rw_next w \<Longrightarrow> run_over (ro_run r) (fail_taken_route e r w)"
  "rw_next (fail_taken_route e r w) = rw_next w"
  by (simp_all add: fail_taken_route_def Let_def run_over_cell)

lemma fail_taken_routes_over:
  "run_over k w \<or> k < rw_next w \<and> k \<in> ro_run ` set rs \<Longrightarrow> run_over k (fold (fail_taken_route e) rs w)"
proof (induction rs arbitrary: w)
  case Nil
  then show ?case by simp
next
  case (Cons r rs)
  have "run_over k (fail_taken_route e r w) \<or>
        k < rw_next (fail_taken_route e r w) \<and> k \<in> ro_run ` set rs"
    using Cons.prems by (auto simp: fail_taken_route_over)
  then show ?case using Cons.IH by simp
qed

lemma defer_terminal_frame:
  "defer_terminal params d cap r0 = Inl r \<Longrightarrow>
     ro_run r = ro_run r0 \<and> is_terminal (ro_phase r) = is_terminal (ro_phase r0)"
  "defer_terminal params d cap r0 = Inr (r, qf) \<Longrightarrow>
     ro_run r = ro_run r0 \<and> is_terminal (ro_phase r) = is_terminal (ro_phase r0)"
  by (auto simp: defer_terminal_def split: option.splits if_splits)

lemma settle_route_over:
  "run_over k w \<Longrightarrow> run_over k (settle_route t c r qf w)"
  "ro_run r < rw_next w \<Longrightarrow> run_over (ro_run r) (settle_route t c r qf w)"
  "ro_run r = k \<Longrightarrow> k < rw_next w \<Longrightarrow> run_over k (settle_route t c r qf w)"
  "rw_next (settle_route t c r qf w) = rw_next w"
  "t' \<noteq> t \<Longrightarrow> route_of (settle_route t c r qf w) t' = route_of w t'"
  by (simp_all add: settle_route_def Let_def run_over_cell split: run_phase.split)

lemma run_step_owned:
  assumes v: "run_owned (t, k) w = Some ()"
  shows "run_owned (t, k) (run_step cap op w) = Some ()"
proof (cases op)
  case (OpRegister t' a m)
  then show ?thesis using v
    by (auto intro!: run_owned_frame [OF v]
        simp: run_step_def register_run_def Let_def run_over_def contains_def split: if_splits)
next
  case (OpEvent t' u m ev d)
  show ?thesis
  proof (cases "route_of w t'")
    case None
    then show ?thesis using v OpEvent by (simp add: run_step_def registry_route_event_def)
  next
    case (Some r)
    let ?c = "rw_cells w (ro_run r)"
    obtain out r1 c1 where e: "route_event u m ev d cap r ?c = (out, r1, c1)"
      by (cases "route_event u m ev d cap r ?c")
    have f: "event_frame r ?c (r1, c1)" using route_event_frame [of r ?c u m ev d cap] e by simp
    then have grows: "control_grows ?c c1" by (simp add: event_frame_def control_grows_def)
    show ?thesis
    proof (rule run_owned_frame [OF v])
      show "run_over k w \<Longrightarrow> run_over k (run_step cap op w)"
        using OpEvent Some e grows by (simp add: run_step_def registry_route_event_def run_over_cell)
    qed (use OpEvent Some e f in \<open>auto simp: run_step_def registry_route_event_def event_frame_def\<close>)
  qed
next
  case (OpFailAll e)
  show ?thesis
  proof (rule run_owned_frame [OF v])
    fix r assume r: "route_of w t = Some r" "ro_run r = k" "k < rw_next w"
    then have "k \<in> ro_run ` set (map snd (rw_routes w))" by (force dest: map_of_SomeD)
    then show "run_over k (run_step cap op w) \<or> k < rw_next (run_step cap op w) \<and>
        (\<exists>r'. route_of (run_step cap op w) t = Some r' \<and> ro_run r' = k \<and> \<not> is_terminal (ro_phase r'))"
      using r OpFailAll by (simp add: run_step_def fail_all_def fail_taken_routes_over)
  qed (use OpFailAll in \<open>simp add: run_step_def fail_all_def fail_taken_routes_over\<close>)
next
  case (OpTerminal t' c p d)
  show ?thesis
  proof (cases "route_of w t'")
    case None
    then show ?thesis using v OpTerminal by (simp add: run_step_def route_terminal_def)
  next
    case (Some r0)
    note frame = defer_terminal_frame [of p d cap r0]
    show ?thesis
      by (rule run_owned_frame [OF v])
         (use OpTerminal Some in \<open>auto simp: run_step_def route_terminal_def settle_route_over
           split: option.splits sum.splits prod.splits dest!: frame\<close>)
  qed
next
  case (OpStartInterrupt i)
  have "update_cell i (\<lambda>c. c\<lparr>rc_control := snd (try_start_interrupt (rc_control (rw_cells w i)))\<rparr>) w
      = update_cell i (\<lambda>c. c\<lparr>rc_control := snd (try_start_interrupt (rc_control c))\<rparr>) w"
    by (simp add: update_cell_def)
  then show ?thesis
    using OpStartInterrupt
    by (auto intro!: run_owned_frame [OF v] run_over_cell
        simp: run_step_def start_interrupt_def prod.case_eq_if)
qed (auto intro!: run_owned_frame [OF v] run_over_cell
       simp: clear_deferred_image_bytes_def run_step_def fail_before_start_def cancel_registered_def Let_def
       acknowledge_start_def replay_transition_def fail_active_def recv_event_def abandon_cell_def
       drop_channels_def finish_interrupt_def set_active_def 
       split: option.splits run_phase.splits list.splits)

interpretation run_ends: settling_machine new_world "run_step cap" "world_ok cap" run_owned for cap
  by unfold_locales (auto intro: run_step_owned)

section \<open>Ending all runs\<close>

text \<open>A cell that has a result, or whose result nobody can receive any more.\<close>

definition cell_told :: "nat \<Rightarrow> run_world \<Rightarrow> bool" where
  "cell_told k w \<longleftrightarrow> rc_terminal (rw_cells w k) \<noteq> None \<or> \<not> rc_terminal_open (rw_cells w k)"

lemma fail_taken_route_told:
  "cell_told k w \<Longrightarrow> cell_told k (fail_taken_route e r w)"
  "cell_told (ro_run r) (fail_taken_route e r w)"
  "\<not> rw_active w a \<Longrightarrow> \<not> rw_active (fail_taken_route e r w) a"
  "\<not> rw_active (fail_taken_route e r w) (ro_active r)"
  by (auto simp: cell_told_def fail_taken_route_def Let_def send_terminal_def end_run_def
      mark_cell_terminal_def)

lemma fail_taken_routes_told:
  "cell_told k w \<or> k \<in> ro_run ` set rs \<Longrightarrow> cell_told k (fold (fail_taken_route e) rs w)"
  "\<not> rw_active w a \<or> a \<in> ro_active ` set rs \<Longrightarrow> \<not> rw_active (fold (fail_taken_route e) rs w) a"
  by (induction rs arbitrary: w) (auto simp: fail_taken_route_told)

lemma fail_taken_routes_routes [simp]: "rw_routes (fold (fail_taken_route e) rs w) = rw_routes w"
  by (induction rs arbitrary: w) (simp_all add: fail_taken_route_def Let_def)

lemma fail_all_settles:
  "rw_routes (fail_all e w) = []"
  "(t, r) \<in> set (rw_routes w) \<Longrightarrow> cell_told (ro_run r) (fail_all e w)"
  "(t, r) \<in> set (rw_routes w) \<Longrightarrow> \<not> rw_active (fail_all e w) (ro_active r)"
  "(t, r) \<in> set (rw_routes w) \<Longrightarrow> ro_run r < rw_next w \<Longrightarrow> run_over (ro_run r) (fail_all e w)"
proof -
  have member: "f r \<in> f ` set (map snd (rw_routes w))" if "(t, r) \<in> set (rw_routes w)" for f :: "run_route \<Rightarrow> nat"
    using that by force
  show "rw_routes (fail_all e w) = []" by (simp add: fail_all_def)
  show "(t, r) \<in> set (rw_routes w) \<Longrightarrow> cell_told (ro_run r) (fail_all e w)"
    unfolding fail_all_def by (rule fail_taken_routes_told(1) [OF disjI2 [OF member]])
  show "(t, r) \<in> set (rw_routes w) \<Longrightarrow> \<not> rw_active (fail_all e w) (ro_active r)"
    unfolding fail_all_def by (rule fail_taken_routes_told(2) [OF disjI2 [OF member]])
  show "(t, r) \<in> set (rw_routes w) \<Longrightarrow> ro_run r < rw_next w \<Longrightarrow> run_over (ro_run r) (fail_all e w)"
    unfolding fail_all_def by (rule fail_taken_routes_over [OF disjI2]) (simp add: member [simplified])
qed

section \<open>Properties\<close>

text \<open>C18: No waiter is left behind. Whatever happens to a run that was registered for a thread and had not
  ended, by the provider, the caller, a failure of its route or a disconnect, at every later point it is
  still the thread's live run or its control has been told that the turn is over, which is what a
  deadline, an interrupt and a cleanup wait for.\<close>

theorem live_run_stays_or_ends:
  fixes cap ops more_ops
  defines "w \<equiv> fold (run_step cap) ops new_world" and "w' \<equiv> fold (run_step cap) (ops @ more_ops) new_world"
  assumes "route_of w t = Some r" "\<not> is_terminal (ro_phase r)"
  shows "(\<exists>r'. route_of w' t = Some r' \<and> ro_run r' = ro_run r \<and> \<not> is_terminal (ro_phase r')) \<or>
         ct_provider_terminal (rc_control (rw_cells w' (ro_run r)))"
proof -
  have "ro_run r < rw_next w"
    using world_okD(2) [OF runs.invar_run assms(3) [unfolded w_def]] by (simp add: entry_ok_def w_def)
  then have "run_owned (t, ro_run r) w = Some ()" by (rule run_owned_live [OF assms(3,4)])
  then have "run_owned (t, ro_run r) w' = Some ()"
    unfolding w_def w'_def by (rule run_ends.settled_stable)
  then show ?thesis by (cases rule: run_owned_cases) (auto simp: run_over_def)
qed

lemma live_run_stays_or_ends_witness:
  "ct_provider_terminal (rc_control (rw_cells
     (fold (run_step 4) ([OpRegister ''t'' 0 10] @ [OpCancelRegistered ''t'']) new_world) 0))"
proof -
  let ?w = "fold (run_step 4) [OpRegister ''t'' 0 10] new_world"
  obtain r where r: "route_of ?w ''t'' = Some r" "\<not> is_terminal (ro_phase r)" "ro_run r = 0"
    by (simp add: run_step_def register_run_def contains_def new_world_def)
  have "route_of (fold (run_step 4) ([OpRegister ''t'' 0 10] @ [OpCancelRegistered ''t'']) new_world) ''t'' = None"
    by (simp add: run_step_def register_run_def contains_def new_world_def cancel_registered_def Let_def)
  then show ?thesis
    using live_run_stays_or_ends [of 4 "[OpRegister ''t'' 0 10]" "''t''" r "[OpCancelRegistered ''t'']"] r
    by auto
qed

end
