(* ===== verification/Requests.thy ===== *)
theory Requests
  imports Wire Contracts "HOL-Library.AList"
begin

text \<open>
  \<open>src/src/private/request.rs\<close>: the ownership of pending requests. What a registration shares with
  its pending entry, its cancellation handle and the writer (the three flags and the oneshot
  channel) is a \<open>request_cell\<close> under the request's number. \<open>complete\<close> takes the entry under the
  registry's mutex and hands the response over after releasing it; the two halves are two steps,
  so a timeout or a cancellation can come between them.
\<close>

section \<open>State\<close>

record request_cell =
  rq_operation :: string
  rq_non_idempotent :: bool
  rq_dispatched :: bool
  rq_cancelled :: bool
  rq_successful_response :: bool
  rq_receiver_open :: bool
  rq_value :: "json result option"

record request_registry =
  rg_next_id :: nat
  rg_pending :: "(rpc_id \<times> nat) list"
  rg_cells :: "nat \<Rightarrow> request_cell"

datatype response_completion = CompDelivered | CompMissing | OrphanedSuccess string
datatype timeout_disposition = TimedOut | TimeoutOutcomeUnknown

definition fresh_request :: "string \<Rightarrow> bool \<Rightarrow> request_cell" where
  "fresh_request operation non_idempotent =
     \<lparr>rq_operation = operation, rq_non_idempotent = non_idempotent, rq_dispatched = False,
      rq_cancelled = False, rq_successful_response = False, rq_receiver_open = True, rq_value = None\<rparr>"

definition new_requests :: request_registry where
  "new_requests = \<lparr>rg_next_id = 1, rg_pending = [], rg_cells = (\<lambda>_. fresh_request [] False)\<rparr>"

section \<open>Operations\<close>

definition put_cell :: "nat \<Rightarrow> (request_cell \<Rightarrow> request_cell) \<Rightarrow> request_registry \<Rightarrow> request_registry" where
  "put_cell n f g = g\<lparr>rg_cells := (rg_cells g)(n := f (rg_cells g n))\<rparr>"

definition register_request ::
  "string \<Rightarrow> bool \<Rightarrow> request_registry \<Rightarrow> nat result \<times> request_registry" where
  "register_request operation non_idempotent g =
     (let n = rg_next_id g
      in if n \<le> 9223372036854775807
         then (Inr n,
               g\<lparr>rg_next_id := n + 1,
                 rg_cells := (rg_cells g)(n := fresh_request operation non_idempotent),
                 rg_pending := AList.update (IdNumber (u64_as_i64 n)) n (rg_pending g)\<rparr>)
         else (Inl (new_error Protocol operation ''request id space exhausted''), g))"

definition request_operation :: "rpc_id \<Rightarrow> request_registry \<Rightarrow> string option" where
  "request_operation i g = map_option (\<lambda>n. rq_operation (rg_cells g n)) (map_of (rg_pending g) i)"

definition remove_request :: "rpc_id \<Rightarrow> request_registry \<Rightarrow> request_registry" where
  "remove_request i g = g\<lparr>rg_pending := AList.delete i (rg_pending g)\<rparr>"

definition outcome_may_be_orphaned :: "bool \<Rightarrow> bool \<Rightarrow> bool \<Rightarrow> bool \<Rightarrow> bool \<Rightarrow> bool" where
  "outcome_may_be_orphaned non_idempotent dispatched pending_at_cancellation successful_response
       response_handoff_failed \<longleftrightarrow>
     non_idempotent \<and> dispatched
       \<and> (pending_at_cancellation \<or> (successful_response \<and> response_handoff_failed))"

text \<open>A cancellation handle names its request by number.\<close>

definition request_id :: "nat \<Rightarrow> rpc_id" where
  "request_id n = IdNumber (u64_as_i64 n)"

definition cancel_request :: "nat \<Rightarrow> request_registry \<Rightarrow> bool \<times> request_registry" where
  "cancel_request n g =
     (let c = rg_cells g n
      in (outcome_may_be_orphaned (rq_non_idempotent c) (rq_dispatched c)
            (map_of (rg_pending g) (request_id n) \<noteq> None) (rq_successful_response c) True,
          remove_request (request_id n) g))"

definition timeout_request :: "nat \<Rightarrow> request_registry \<Rightarrow> timeout_disposition \<times> request_registry" where
  "timeout_request n g =
     (let c = rg_cells g n;
          remote_outcome_unknown =
            (case map_of (rg_pending g) (request_id n) of
               None \<Rightarrow> False
             | Some k \<Rightarrow> rq_non_idempotent (rg_cells g k) \<and> rq_dispatched (rg_cells g k)) \<or>
            (rq_non_idempotent c \<and> rq_dispatched c \<and> rq_successful_response c)
      in (if remote_outcome_unknown then TimeoutOutcomeUnknown else TimedOut,
          remove_request (request_id n) g))"

text \<open>The first half of \<open>complete\<close>: the entry taken, with the success published before it goes.\<close>

definition take_for_completion ::
  "rpc_id \<Rightarrow> bool \<Rightarrow> request_registry \<Rightarrow> nat option \<times> request_registry" where
  "take_for_completion i response_succeeded g =
     (case map_of (rg_pending g) i of
        None \<Rightarrow> (None, g)
      | Some n \<Rightarrow>
          (Some n, remove_request i
             (if response_succeeded then put_cell n (\<lambda>c. c\<lparr>rq_successful_response := True\<rparr>) g else g)))"

text \<open>\<open>sender.send\<close>: it fails when the receiver is gone.\<close>

definition send_response :: "json result \<Rightarrow> request_cell \<Rightarrow> bool \<times> request_cell" where
  "send_response res c =
     (if rq_receiver_open c then (True, c\<lparr>rq_value := Some res\<rparr>) else (False, c))"

text \<open>The second half, on the taken entry.\<close>

definition hand_over :: "nat \<Rightarrow> json result \<Rightarrow> request_registry \<Rightarrow> response_completion \<times> request_registry" where
  "hand_over n res g =
     (let c = rg_cells g n;
          response_succeeded = (case res of Inl _ \<Rightarrow> False | Inr _ \<Rightarrow> True);
          sent = send_response res c;
          response_handoff_failed = (\<not> fst sent \<or> rq_cancelled c)
      in (if outcome_may_be_orphaned (rq_non_idempotent c) (rq_dispatched c) False
               response_succeeded response_handoff_failed
          then OrphanedSuccess (rq_operation c) else CompDelivered,
          put_cell n (\<lambda>_. snd sent) g))"

definition complete_request ::
  "rpc_id \<Rightarrow> json result \<Rightarrow> request_registry \<Rightarrow> response_completion \<times> request_registry" where
  "complete_request i res g =
     (case take_for_completion i (case res of Inl _ \<Rightarrow> False | Inr _ \<Rightarrow> True) g of
        (None, g1) \<Rightarrow> (CompMissing, g1)
      | (Some n, g1) \<Rightarrow> hand_over n res g1)"

definition request_failure :: "error \<Rightarrow> request_cell \<Rightarrow> error" where
  "request_failure e c =
     with_stderr
       (if rq_non_idempotent c \<and> rq_dispatched c
        then new_error OutcomeUnknown (rq_operation c)
               ''app-server disconnected after the request was written; outcome is unknown and was not retried''
        else new_error Disconnected (rq_operation c) (e_message e))
       (e_stderr_tail e)"

definition fail_request :: "error \<Rightarrow> nat \<Rightarrow> request_registry \<Rightarrow> request_registry" where
  "fail_request e n g =
     put_cell n (\<lambda>c. snd (send_response (Inl (request_failure e c)) c)) g"

definition fail_all_requests :: "error \<Rightarrow> request_registry \<Rightarrow> request_registry" where
  "fail_all_requests e g =
     fold (fail_request e) (map snd (rg_pending g)) (g\<lparr>rg_pending := []\<rparr>)"

text \<open>The owner's side: the cancellation mark, the dispatch mark of the writer, a receiver dropped.\<close>

definition mark_cancelled :: "nat \<Rightarrow> request_registry \<Rightarrow> request_registry" where
  "mark_cancelled n g = put_cell n (\<lambda>c. c\<lparr>rq_cancelled := True\<rparr>) g"

definition mark_dispatched :: "nat \<Rightarrow> request_registry \<Rightarrow> request_registry" where
  "mark_dispatched n g = put_cell n (\<lambda>c. c\<lparr>rq_dispatched := True\<rparr>) g"

definition drop_receiver :: "nat \<Rightarrow> request_registry \<Rightarrow> request_registry" where
  "drop_receiver n g = put_cell n (\<lambda>c. c\<lparr>rq_receiver_open := False\<rparr>) g"

section \<open>The machine\<close>

text \<open>The taken entries that are still to be handed over are part of the machine's state: a response
  is handed over once, by the task that took it.\<close>

record request_machine =
  rm_registry :: request_registry
  rm_taken :: "(nat \<times> json result) list"

datatype request_op =
    RqRegister string bool
  | RqRemove rpc_id
  | RqCancel nat
  | RqTimeout nat
  | RqTake rpc_id "json result"
  | RqHandOver
  | RqFailAll error
  | RqMarkCancelled nat
  | RqMarkDispatched nat
  | RqDropReceiver nat

definition new_request_machine :: request_machine where
  "new_request_machine = \<lparr>rm_registry = new_requests, rm_taken = []\<rparr>"

definition on_registry :: "(request_registry \<Rightarrow> request_registry) \<Rightarrow> request_machine \<Rightarrow> request_machine" where
  "on_registry f m = m\<lparr>rm_registry := f (rm_registry m)\<rparr>"

definition request_step :: "request_op \<Rightarrow> request_machine \<Rightarrow> request_machine" where
  "request_step op m =
     (case op of
        RqRegister operation ni \<Rightarrow> on_registry (\<lambda>g. snd (register_request operation ni g)) m
      | RqRemove i \<Rightarrow> on_registry (remove_request i) m
      | RqCancel n \<Rightarrow> on_registry (\<lambda>g. snd (cancel_request n g)) m
      | RqTimeout n \<Rightarrow> on_registry (\<lambda>g. snd (timeout_request n g)) m
      | RqTake i res \<Rightarrow>
          (case take_for_completion i (case res of Inl _ \<Rightarrow> False | Inr _ \<Rightarrow> True) (rm_registry m) of
             (None, g) \<Rightarrow> m\<lparr>rm_registry := g\<rparr>
           | (Some n, g) \<Rightarrow> m\<lparr>rm_registry := g, rm_taken := rm_taken m @ [(n, res)]\<rparr>)
      | RqHandOver \<Rightarrow>
          (case rm_taken m of
             [] \<Rightarrow> m
           | (n, res) # rest \<Rightarrow>
               m\<lparr>rm_registry := snd (hand_over n res (rm_registry m)), rm_taken := rest\<rparr>)
      | RqFailAll e \<Rightarrow> on_registry (fail_all_requests e) m
      | RqMarkCancelled n \<Rightarrow> on_registry (mark_cancelled n) m
      | RqMarkDispatched n \<Rightarrow> on_registry (mark_dispatched n) m
      | RqDropReceiver n \<Rightarrow> on_registry (drop_receiver n) m)"

section \<open>Invariant\<close>

definition id_limit :: nat where "id_limit = 9223372036854775808"

definition cell_settled :: "request_registry \<Rightarrow> nat \<Rightarrow> bool" where
  "cell_settled g n \<longleftrightarrow> rq_value (rg_cells g n) \<noteq> None"

text \<open>A pending or taken request has no value yet, a pending one no success, and every successful
  response, handed over or not, has been published.\<close>

definition requests_ok :: "request_machine \<Rightarrow> bool" where
  "requests_ok m \<longleftrightarrow>
     (let g = rm_registry m in
      rg_next_id g \<le> id_limit \<and>
      (\<forall>i n. map_of (rg_pending g) i = Some n \<longrightarrow>
         i = request_id n \<and> n < rg_next_id g \<and> rq_value (rg_cells g n) = None) \<and>
      (\<forall>n res. (n, res) \<in> set (rm_taken m) \<longrightarrow>
         n < rg_next_id g \<and> map_of (rg_pending g) (request_id n) = None \<and>
         rq_value (rg_cells g n) = None \<and>
         (\<forall>v. res = Inr v \<longrightarrow> rq_successful_response (rg_cells g n))) \<and>
      distinct (map fst (rm_taken m)) \<and>
      distinct (map fst (rg_pending g)) \<and>
      (\<forall>n v. rq_value (rg_cells g n) = Some (Inr v) \<longrightarrow> rq_successful_response (rg_cells g n)) \<and>
      (\<forall>n. rg_next_id g \<le> n \<longrightarrow> rq_value (rg_cells g n) = None))"

lemma requests_okD:
  assumes "requests_ok m"
  shows "rg_next_id (rm_registry m) \<le> id_limit"
    and "map_of (rg_pending (rm_registry m)) i = Some n \<Longrightarrow>
           i = request_id n \<and> n < rg_next_id (rm_registry m) \<and> rq_value (rg_cells (rm_registry m) n) = None"
    and "(n, res) \<in> set (rm_taken m) \<Longrightarrow>
           n < rg_next_id (rm_registry m) \<and> map_of (rg_pending (rm_registry m)) (request_id n) = None \<and>
           rq_value (rg_cells (rm_registry m) n) = None \<and>
           (\<forall>v. res = Inr v \<longrightarrow> rq_successful_response (rg_cells (rm_registry m) n))"
    and "distinct (map fst (rm_taken m))"
    and "distinct (map fst (rg_pending (rm_registry m)))"
    and "rq_value (rg_cells (rm_registry m) n) = Some (Inr v) \<Longrightarrow>
           rq_successful_response (rg_cells (rm_registry m) n)"
    and "rg_next_id (rm_registry m) \<le> n \<Longrightarrow> rq_value (rg_cells (rm_registry m) n) = None"
  using assms unfolding requests_ok_def Let_def by blast+

lemma request_id_inj: "m < id_limit \<Longrightarrow> n < id_limit \<Longrightarrow> request_id m = request_id n \<longleftrightarrow> m = n"
  by (auto simp: request_id_def u64_as_i64_def id_limit_def)

lemma registry_simps [simp]:
  "rg_next_id (put_cell n f g) = rg_next_id g"
  "rg_pending (put_cell n f g) = rg_pending g"
  "rg_cells (put_cell n f g) = (rg_cells g)(n := f (rg_cells g n))"
  "rg_next_id (remove_request i g) = rg_next_id g"
  "rg_pending (remove_request i g) = AList.delete i (rg_pending g)"
  "rg_cells (remove_request i g) = rg_cells g"
  "rm_registry (on_registry h m) = h (rm_registry m)"
  "rm_taken (on_registry h m) = rm_taken m"
  by (simp_all add: put_cell_def remove_request_def on_registry_def)

lemma requests_ok_cell:
  assumes ok: "requests_ok m"
    and v: "rq_value (f (rg_cells (rm_registry m) n)) = rq_value (rg_cells (rm_registry m) n)"
    and s: "rq_successful_response (rg_cells (rm_registry m) n) \<Longrightarrow>
              rq_successful_response (f (rg_cells (rm_registry m) n))"
  shows "requests_ok (on_registry (put_cell n f) m)"
  unfolding requests_ok_def Let_def
  using requests_okD [OF ok] v s by (auto simp del: map_of_eq_Some_iff)

lemma requests_ok_remove: "requests_ok m \<Longrightarrow> requests_ok (on_registry (remove_request i) m)"
  unfolding requests_ok_def Let_def
  by (auto simp: delete_conv' distinct_delete simp del: map_of_eq_Some_iff split: if_splits)

lemma register_request_ok:
  assumes ok: "requests_ok m"
  shows "requests_ok (on_registry (\<lambda>g. snd (register_request operation ni g)) m)"
proof (cases "rg_next_id (rm_registry m) \<le> 9223372036854775807")
  case False
  have "on_registry (\<lambda>g. snd (register_request operation ni g)) m = m"
    using False by (simp add: on_registry_def register_request_def Let_def)
  then show ?thesis using ok by simp
next
  case True
  let ?n = "rg_next_id (rm_registry m)"
  have lim: "?n < id_limit" using True by (simp add: id_limit_def)
  have other: "request_id k \<noteq> request_id ?n" if "k < ?n" for k
    using that lim by (simp add: request_id_inj)
  show ?thesis
    unfolding requests_ok_def Let_def
    using requests_okD [OF ok] True lim other
    by (auto simp: register_request_def Let_def update_conv' distinct_update fresh_request_def
          request_id_def [symmetric] id_limit_def less_Suc_eq
          simp del: map_of_eq_Some_iff split: if_splits)
qed

lemma take_ok:
  assumes ok: "requests_ok m" and t: "map_of (rg_pending (rm_registry m)) i = Some n"
  shows "requests_ok (m\<lparr>rm_registry := remove_request i
            (if s then put_cell n (\<lambda>c. c\<lparr>rq_successful_response := True\<rparr>) (rm_registry m)
             else rm_registry m),
          rm_taken := rm_taken m @ [(n, if s then Inr v else Inl e)]\<rparr>)"
proof -
  note D = requests_okD [OF ok]
  have i: "i = request_id n" "n < rg_next_id (rm_registry m)"
    "rq_value (rg_cells (rm_registry m) n) = None" using D(2) [OF t] by auto
  have "n \<notin> fst ` set (rm_taken m)" using D(3) t i by force
  then show ?thesis
    unfolding requests_ok_def Let_def
    using D i
    by (cases s) (auto simp: delete_conv' distinct_delete simp del: map_of_eq_Some_iff split: if_splits)
qed

text \<open>A value sent to a request that is neither pending nor waiting to be handed over.\<close>

lemma requests_ok_send:
  assumes ok: "requests_ok m" and n: "n < rg_next_id (rm_registry m)"
    and np: "map_of (rg_pending (rm_registry m)) (request_id n) = None"
    and nt: "n \<notin> fst ` set (rm_taken m)"
    and s: "\<And>v. res = Inr v \<Longrightarrow> rq_successful_response (rg_cells (rm_registry m) n)"
  shows "requests_ok (on_registry (put_cell n (\<lambda>c. snd (send_response res c))) m)"
proof -
  note D = requests_okD [OF ok]
  have p: "\<And>i k. map_of (rg_pending (rm_registry m)) i = Some k \<Longrightarrow> k \<noteq> n"
    using D(2) np by (metis option.simps(3))
  have t: "\<And>k r. (k, r) \<in> set (rm_taken m) \<Longrightarrow> k \<noteq> n" using nt by force
  show ?thesis
    unfolding requests_ok_def Let_def registry_simps
  proof (intro conjI allI impI)
    fix k v assume "rq_value (((rg_cells (rm_registry m))
        (n := snd (send_response res (rg_cells (rm_registry m) n)))) k) = Some (Inr v)"
    then show "rq_successful_response (((rg_cells (rm_registry m))
        (n := snd (send_response res (rg_cells (rm_registry m) n)))) k)"
      using D(6) s by (auto simp: send_response_def split: if_splits)
  next
    fix k assume "rg_next_id (rm_registry m) \<le> k"
    then show "rq_value (((rg_cells (rm_registry m))
        (n := snd (send_response res (rg_cells (rm_registry m) n)))) k) = None"
      using D(7) n by simp
  qed (use D(1-5) p t in \<open>auto simp del: map_of_eq_Some_iff\<close>)
qed

lemma requests_ok_taken: "requests_ok m \<Longrightarrow> rm_taken m = x # rest \<Longrightarrow> requests_ok (m\<lparr>rm_taken := rest\<rparr>)"
  unfolding requests_ok_def Let_def by (auto simp del: map_of_eq_Some_iff)

lemma hand_over_ok:
  assumes ok: "requests_ok m" and t: "rm_taken m = (n, res) # rest"
  shows "requests_ok (m\<lparr>rm_registry := snd (hand_over n res (rm_registry m)), rm_taken := rest\<rparr>)"
proof -
  note D = requests_okD [OF ok]
  have m1: "requests_ok (m\<lparr>rm_taken := rest\<rparr>)" by (rule requests_ok_taken [OF ok t])
  have n: "n < rg_next_id (rm_registry m)" "map_of (rg_pending (rm_registry m)) (request_id n) = None"
    "\<forall>v. res = Inr v \<longrightarrow> rq_successful_response (rg_cells (rm_registry m) n)"
    using D(3) [of n res] t by auto
  have nt: "n \<notin> fst ` set rest" using D(4) t by simp
  have e: "m\<lparr>rm_registry := snd (hand_over n res (rm_registry m)), rm_taken := rest\<rparr>
      = on_registry (put_cell n (\<lambda>c. snd (send_response res c))) (m\<lparr>rm_taken := rest\<rparr>)"
    by (simp add: hand_over_def Let_def on_registry_def put_cell_def)
  show ?thesis
    unfolding e by (rule requests_ok_send [OF m1]) (use n nt in auto)
qed

lemma fail_requests_ok:
  assumes "requests_ok m" and "rg_pending (rm_registry m) = []"
    and "\<forall>n \<in> set ns. n < rg_next_id (rm_registry m) \<and> n \<notin> fst ` set (rm_taken m)"
  shows "requests_ok (on_registry (fold (fail_request e) ns) m)"
  using assms
proof (induction ns arbitrary: m)
  case Nil
  then show ?case by (simp add: on_registry_def)
next
  case (Cons n ns)
  let ?m1 = "on_registry (put_cell n (\<lambda>c. snd (send_response (Inl (request_failure e (rg_cells (rm_registry m) n))) c))) m"
  have m1: "requests_ok ?m1"
    using Cons.prems by (intro requests_ok_send) auto
  have "on_registry (fold (fail_request e) (n # ns)) m = on_registry (fold (fail_request e) ns) ?m1"
    by (simp add: on_registry_def fail_request_def put_cell_def)
  moreover have "requests_ok (on_registry (fold (fail_request e) ns) ?m1)"
    using Cons.prems by (intro Cons.IH [OF m1]) simp_all
  ultimately show ?case by (simp only:)
qed

lemma requests_ok_no_pending:
  "requests_ok m \<Longrightarrow> requests_ok (on_registry (\<lambda>g. g\<lparr>rg_pending := []\<rparr>) m)"
  unfolding requests_ok_def Let_def by (auto simp: on_registry_def)

lemma pending_numbers:
  assumes ok: "requests_ok m" and n: "n \<in> set (map snd (rg_pending (rm_registry m)))"
  shows "map_of (rg_pending (rm_registry m)) (request_id n) = Some n" "n < rg_next_id (rm_registry m)"
    "n \<notin> fst ` set (rm_taken m)" "rq_value (rg_cells (rm_registry m) n) = None"
proof -
  note D = requests_okD [OF ok]
  from n obtain i where "(i, n) \<in> set (rg_pending (rm_registry m))" by auto
  then have i: "map_of (rg_pending (rm_registry m)) i = Some n" using D(5) by simp
  then show "map_of (rg_pending (rm_registry m)) (request_id n) = Some n" using D(2) by metis
  show "n < rg_next_id (rm_registry m)" "rq_value (rg_cells (rm_registry m) n) = None"
    using D(2) [OF i] by auto
  show "n \<notin> fst ` set (rm_taken m)"
    using D(3) \<open>map_of (rg_pending (rm_registry m)) (request_id n) = Some n\<close> by force
qed

lemma fail_all_requests_ok:
  assumes ok: "requests_ok m" shows "requests_ok (on_registry (fail_all_requests e) m)"
proof -
  let ?m1 = "on_registry (\<lambda>g. g\<lparr>rg_pending := []\<rparr>) m"
  let ?ns = "map snd (rg_pending (rm_registry m))"
  have e: "on_registry (fail_all_requests e) m = on_registry (fold (fail_request e) ?ns) ?m1"
    by (simp add: on_registry_def fail_all_requests_def)
  show ?thesis
    unfolding e
    by (rule fail_requests_ok [OF requests_ok_no_pending [OF ok]])
       (use pending_numbers [OF ok] in \<open>auto simp: on_registry_def\<close>)
qed

lemma marks_put_cell:
  "mark_cancelled n = put_cell n (\<lambda>c. c\<lparr>rq_cancelled := True\<rparr>)"
  "mark_dispatched n = put_cell n (\<lambda>c. c\<lparr>rq_dispatched := True\<rparr>)"
  "drop_receiver n = put_cell n (\<lambda>c. c\<lparr>rq_receiver_open := False\<rparr>)"
  by (simp_all add: fun_eq_iff mark_cancelled_def mark_dispatched_def drop_receiver_def)

lemma request_step_ok:
  assumes ok: "requests_ok m" shows "requests_ok (request_step op m)"
proof (cases op)
  case (RqTake i res)
  show ?thesis
  proof (cases "map_of (rg_pending (rm_registry m)) i")
    case None
    then show ?thesis using ok RqTake by (simp add: request_step_def take_for_completion_def)
  next
    case (Some n)
    show ?thesis
    proof (cases res)
      case (Inl e)
      then show ?thesis
        using take_ok [OF ok Some, of False undefined e] RqTake Some
        by (simp add: request_step_def take_for_completion_def)
    next
      case (Inr v)
      then show ?thesis
        using take_ok [OF ok Some, of True v undefined] RqTake Some
        by (simp add: request_step_def take_for_completion_def)
    qed
  qed
next
  case RqHandOver
  then show ?thesis
    using ok hand_over_ok [OF ok] by (auto simp: request_step_def split: list.splits prod.splits)
next
  case (RqCancel n)
  then show ?thesis using requests_ok_remove [OF ok] by (simp add: request_step_def cancel_request_def Let_def)
next
  case (RqTimeout n)
  then show ?thesis using requests_ok_remove [OF ok] by (simp add: request_step_def timeout_request_def Let_def)
qed (use ok in \<open>simp_all add: request_step_def register_request_ok requests_ok_remove fail_all_requests_ok
       marks_put_cell requests_ok_cell\<close>)

lemma new_request_machine_ok: "requests_ok new_request_machine"
  by (simp add: requests_ok_def new_request_machine_def new_requests_def fresh_request_def id_limit_def Let_def)

section \<open>The first answer is final\<close>

definition request_value :: "nat \<Rightarrow> request_machine \<Rightarrow> json result option" where
  "request_value n m = rq_value (rg_cells (rm_registry m) n)"

lemma send_response_value:
  "rq_value (snd (send_response res c)) = (if rq_receiver_open c then Some res else rq_value c)"
  by (simp add: send_response_def)

lemma request_value_cell:
  "(k = n \<Longrightarrow> rq_value (f (rg_cells (rm_registry m) n)) = Some v) \<Longrightarrow> request_value k m = Some v \<Longrightarrow>
   request_value k (on_registry (put_cell n f) m) = Some v"
  by (auto simp: request_value_def)

lemma fail_requests_cells:
  "n \<notin> set ns \<Longrightarrow> rg_cells (fold (fail_request e) ns g) n = rg_cells g n"
  by (induction ns arbitrary: g) (auto simp: fail_request_def)

lemma fail_request_cell:
  "rg_cells (fail_request e n g) =
     (rg_cells g)(n := snd (send_response (Inl (request_failure e (rg_cells g n))) (rg_cells g n)))"
  by (simp add: fail_request_def)

lemma fail_requests_member:
  assumes "distinct ns" "n \<in> set ns"
  shows "rg_cells (fold (fail_request e) ns g) n =
           snd (send_response (Inl (request_failure e (rg_cells g n))) (rg_cells g n))"
  using assms
proof (induction ns arbitrary: g)
  case Nil
  then show ?case by simp
next
  case (Cons k ns)
  then show ?case
    by (cases "k = n") (auto simp: fail_requests_cells fail_request_cell)
qed

lemma fail_requests_pending [simp]:
  "rg_pending (fold (fail_request e) ns g) = rg_pending g"
  by (induction ns arbitrary: g) (auto simp: fail_request_def)

lemma pending_numbers_distinct:
  assumes ok: "requests_ok m" shows "distinct (map snd (rg_pending (rm_registry m)))"
proof -
  note D = requests_okD [OF ok]
  have "inj_on snd (set (rg_pending (rm_registry m)))"
  proof (rule inj_onI)
    fix x y assume x: "x \<in> set (rg_pending (rm_registry m))" and y: "y \<in> set (rg_pending (rm_registry m))"
      and e: "snd x = snd y"
    have "map_of (rg_pending (rm_registry m)) (fst x) = Some (snd x)"
      "map_of (rg_pending (rm_registry m)) (fst y) = Some (snd y)"
      using D(5) x y by simp_all
    then have "fst x = fst y" using D(2) e by metis
    with e show "x = y" by (simp add: prod_eq_iff)
  qed
  moreover have "distinct (rg_pending (rm_registry m))" using D(5) by (simp add: distinct_map)
  ultimately show ?thesis by (simp add: distinct_map)
qed

lemma request_step_value:
  assumes ok: "requests_ok m" and v: "request_value k m = Some v"
  shows "request_value k (request_step op m) = Some v"
proof (cases op)
  case (RqRegister operation ni)
  have "k \<noteq> rg_next_id (rm_registry m)"
    using requests_okD(7) [OF ok, of k] v by (auto simp: request_value_def)
  then show ?thesis
    using v RqRegister by (auto simp: request_step_def request_value_def register_request_def Let_def)
next
  case (RqTake i res)
  then show ?thesis
    using v by (auto simp: request_step_def take_for_completion_def request_value_def split: option.splits)
next
  case RqHandOver
  have "k \<noteq> n" if "rm_taken m = (n, res) # rest" for n res rest
    using requests_okD(3) [OF ok, of n res] that v by (auto simp: request_value_def)
  then show ?thesis
    using v RqHandOver
    by (auto simp: request_step_def request_value_def hand_over_def Let_def split: list.splits)
next
  case (RqFailAll e)
  have "k \<notin> set (map snd (rg_pending (rm_registry m)))"
    using pending_numbers(4) [OF ok, of k] v by (auto simp: request_value_def)
  then show ?thesis
    using v RqFailAll
    by (simp add: request_step_def request_value_def fail_all_requests_def fail_requests_cells)
next
  case (RqCancel n)
  then show ?thesis using v by (simp add: request_step_def request_value_def cancel_request_def Let_def)
next
  case (RqTimeout n)
  then show ?thesis using v by (simp add: request_step_def request_value_def timeout_request_def Let_def)
qed (use v in \<open>auto simp: request_step_def request_value_def marks_put_cell\<close>)

interpretation requests: settling_machine new_request_machine request_step requests_ok request_value
  by unfold_locales (auto intro: new_request_machine_ok request_step_ok request_step_value)

section \<open>Properties\<close>

text \<open>C29: a request's owner gets one answer: a value delivered to it is never replaced, whatever
  responses, timeouts, cancellations and disconnects follow.\<close>

theorem request_answered_once:
  assumes "request_value n (fold request_step ops new_request_machine) = Some v"
  shows "request_value n (fold request_step (ops @ later) new_request_machine) = Some v"
  by (rule requests.settled_stable [OF assms])

text \<open>when a non-idempotent request that was written is reported as merely timed out, or its
  cancellation as harmless, then no successful response to it was received: none is delivered, none
  is on its way, and it no longer waits for one. Every interleaving of the response's two halves
  with timeouts and cancellations is covered.\<close>

theorem timed_out_request_did_not_succeed:
  fixes ops defines "m \<equiv> fold request_step ops new_request_machine"
  assumes "rq_non_idempotent (rg_cells (rm_registry m) n)" "rq_dispatched (rg_cells (rm_registry m) n)"
    and "n < rg_next_id (rm_registry m)"
    and "fst (timeout_request n (rm_registry m)) = TimedOut \<or> \<not> fst (cancel_request n (rm_registry m))"
  shows "map_of (rg_pending (rm_registry m)) (request_id n) = None \<and>
         (\<forall>v. request_value n m \<noteq> Some (Inr v)) \<and> (\<forall>v. (n, Inr v) \<notin> set (rm_taken m))"
proof -
  have ok: "requests_ok m" unfolding m_def by (rule requests.invar_run)
  note D = requests_okD [OF ok]
  have lim: "n < id_limit" using D(1) assms(4) by simp
  have p: "\<And>k. map_of (rg_pending (rm_registry m)) (request_id n) = Some k \<Longrightarrow> k = n"
    using D(1,2) lim by (metis order_less_le_trans request_id_inj)
  have np: "map_of (rg_pending (rm_registry m)) (request_id n) = None"
    and ns: "\<not> rq_successful_response (rg_cells (rm_registry m) n)"
    using assms(2,3,5) p
    by (auto simp: timeout_request_def cancel_request_def outcome_may_be_orphaned_def Let_def
          simp del: map_of_eq_Some_iff split: if_splits option.splits)
  show ?thesis using np ns D(3,6) by (auto simp: request_value_def)
qed

text \<open>A disconnect answers every pending request at once: as of unknown outcome when it was written
  and is not idempotent, as disconnected otherwise; nothing stays pending.\<close>

theorem disconnect_answers_pending:
  fixes ops defines "m \<equiv> fold request_step ops new_request_machine"
  assumes "map_of (rg_pending (rm_registry m)) i = Some n" and "rq_receiver_open (rg_cells (rm_registry m) n)"
  shows "rg_pending (rm_registry (request_step (RqFailAll e) m)) = [] \<and>
         (\<exists>e'. request_value n (request_step (RqFailAll e) m) = Some (Inl e') \<and>
            e_kind e' = (if rq_non_idempotent (rg_cells (rm_registry m) n)
                            \<and> rq_dispatched (rg_cells (rm_registry m) n)
                         then OutcomeUnknown else Disconnected) \<and>
            e_operation e' = rq_operation (rg_cells (rm_registry m) n) \<and>
            e_stderr_tail e' = e_stderr_tail e)"
proof -
  have ok: "requests_ok m" unfolding m_def by (rule requests.invar_run)
  have n: "n \<in> set (map snd (rg_pending (rm_registry m)))"
    using map_of_SomeD [OF assms(2)] by force
  have "rg_cells (rm_registry (request_step (RqFailAll e) m)) n =
      snd (send_response (Inl (request_failure e (rg_cells (rm_registry m) n))) (rg_cells (rm_registry m) n))"
    using fail_requests_member [OF pending_numbers_distinct [OF ok] n]
    by (simp add: request_step_def fail_all_requests_def)
  then have "request_value n (request_step (RqFailAll e) m)
      = Some (Inl (request_failure e (rg_cells (rm_registry m) n)))"
    using assms(3) by (simp add: request_value_def send_response_value)
  then show ?thesis
    by (simp add: request_step_def fail_all_requests_def request_failure_def)
qed

section \<open>Witnesses\<close>

definition demo_requests :: "request_op list" where
  "demo_requests = [RqRegister ''turn.start'' True, RqMarkDispatched 1]"

lemmas request_evals = request_step_def register_request_def on_registry_def new_request_machine_def
  new_requests_def fresh_request_def mark_dispatched_def put_cell_def Let_def demo_requests_def

lemma request_answered_once_witness:
  "request_value 1 (fold request_step ((demo_requests @ [RqTake (request_id 1) (Inr JNull), RqHandOver])
     @ [RqTimeout 1, RqFailAll (new_error Disconnected [] [])]) new_request_machine) = Some (Inr JNull)"
  by (rule request_answered_once)
     (simp add: request_evals take_for_completion_def hand_over_def send_response_def request_id_def
       u64_as_i64_def remove_request_def request_value_def)

lemma timed_out_request_did_not_succeed_witness:
  "map_of (rg_pending (rm_registry (fold request_step (demo_requests
      @ [RqTake (request_id 1) (Inl (new_error Rpc [] []))]) new_request_machine))) (request_id 1) = None"
  using timed_out_request_did_not_succeed [of
      "demo_requests @ [RqTake (request_id 1) (Inl (new_error Rpc [] []))]" 1]
  by (simp add: request_evals take_for_completion_def request_id_def u64_as_i64_def remove_request_def
      timeout_request_def)

lemma disconnect_answers_pending_witness:
  "\<exists>e'. request_value 1 (request_step (RqFailAll (new_error Disconnected [] []))
      (fold request_step demo_requests new_request_machine)) = Some (Inl e') \<and> e_kind e' = OutcomeUnknown"
  using disconnect_answers_pending [of demo_requests "request_id 1" 1 "new_error Disconnected [] []"]
  by (auto simp: request_evals request_id_def u64_as_i64_def)

end
