(* ===== verification/Connection.thy ===== *)
theory Connection
  imports Errors Contracts
begin

text \<open>
  \<open>src/src/private/connection.rs\<close>: shutdown admission and the causal disconnect error. The failure
  is under a mutex and stored before the flag, so a reader that sees the flag finds the error.
\<close>

record connection =
  cn_disconnected :: bool
  cn_closing :: bool
  cn_failure :: "error option"

definition new_connection :: connection where
  "new_connection = \<lparr>cn_disconnected = False, cn_closing = False, cn_failure = None\<rparr>"

definition begin_closing :: "connection \<Rightarrow> bool \<times> connection" where
  "begin_closing c = (\<not> cn_closing c, c\<lparr>cn_closing := True\<rparr>)"

definition begin_disconnect :: "error \<Rightarrow> connection \<Rightarrow> bool \<times> connection" where
  "begin_disconnect e c =
     (if cn_disconnected c then (False, c)
      else (True, c\<lparr>cn_failure := Some e, cn_disconnected := True\<rparr>))"

definition replace_failure :: "error \<Rightarrow> connection \<Rightarrow> connection" where
  "replace_failure e c = c\<lparr>cn_failure := Some e\<rparr>"

datatype connection_op = BeginClosing | BeginDisconnect error | ReplaceFailure error

text \<open>The owner of the disconnect is the only one that replaces the failure.\<close>

definition connection_step :: "connection_op \<Rightarrow> connection \<Rightarrow> connection" where
  "connection_step op c =
     (case op of
        BeginClosing \<Rightarrow> snd (begin_closing c)
      | BeginDisconnect e \<Rightarrow> snd (begin_disconnect e c)
      | ReplaceFailure e \<Rightarrow> if cn_disconnected c then replace_failure e c else c)"

definition connection_ok :: "connection \<Rightarrow> bool" where
  "connection_ok c \<longleftrightarrow> (cn_disconnected c \<longleftrightarrow> cn_failure c \<noteq> None)"

definition disconnect_seen :: "unit \<Rightarrow> connection \<Rightarrow> unit option" where
  "disconnect_seen u c = (if cn_disconnected c then Some () else None)"

definition closing_seen :: "unit \<Rightarrow> connection \<Rightarrow> unit option" where
  "closing_seen u c = (if cn_closing c then Some () else None)"

lemma connection_step_ok: "connection_ok c \<Longrightarrow> connection_ok (connection_step op c)"
  by (cases op)
     (auto simp: connection_step_def begin_closing_def begin_disconnect_def replace_failure_def connection_ok_def)

lemma connection_step_seen:
  "disconnect_seen u c = Some v \<Longrightarrow> disconnect_seen u (connection_step op c) = Some v"
  "closing_seen u c = Some v \<Longrightarrow> closing_seen u (connection_step op c) = Some v"
  by (cases op; auto simp: connection_step_def begin_closing_def begin_disconnect_def replace_failure_def
        disconnect_seen_def closing_seen_def split: if_splits)+

interpretation disc: settling_machine new_connection connection_step connection_ok disconnect_seen
  by unfold_locales (simp add: connection_ok_def new_connection_def, rule connection_step_ok,
      assumption, simp add: connection_step_seen)

interpretation clos: settling_machine new_connection connection_step connection_ok closing_seen
  by unfold_locales (simp add: connection_step_seen)

section \<open>Properties\<close>

text \<open>Of all callers that report a disconnect, exactly the first owns the cleanup, and from then on
  every reader that sees the connection down finds an error; graceful shutdown likewise starts once.\<close>

theorem one_owner_of_disconnect:
  "\<not> fst (begin_disconnect e' (fold connection_step (ops @ BeginDisconnect e # later) new_connection)) \<and>
   cn_failure (fold connection_step (ops @ BeginDisconnect e # later) new_connection) \<noteq> None \<and>
   \<not> fst (begin_closing (fold connection_step (ops1 @ BeginClosing # later1) new_connection))"
proof -
  let ?c = "fold connection_step (ops @ BeginDisconnect e # later) new_connection"
  let ?d = "fold connection_step (ops1 @ BeginClosing # later1) new_connection"
  have "disconnect_seen () (fold connection_step (ops @ [BeginDisconnect e]) new_connection) = Some ()"
    by (simp add: connection_step_def begin_disconnect_def disconnect_seen_def)
  from disc.settled_stable [OF this, of later] have c: "disconnect_seen () ?c = Some ()" by simp
  have "closing_seen () (fold connection_step (ops1 @ [BeginClosing]) new_connection) = Some ()"
    by (simp add: connection_step_def begin_closing_def closing_seen_def)
  from clos.settled_stable [OF this, of later1] have d: "closing_seen () ?d = Some ()" by simp
  have "connection_ok ?c" by (rule disc.invar_run)
  with c d show ?thesis
    by (auto simp: disconnect_seen_def closing_seen_def begin_disconnect_def begin_closing_def
        connection_ok_def split: if_splits)
qed

end
