(* ===== verification/Logins.thy ===== *)
theory Logins
  imports Errors Contracts "HOL-Library.AList"
begin

text \<open>
  The login registry of \<open>src/src/account.rs\<close>: managed logins with their waiters, and the bounded
  cache of completions that arrive before their handle is registered. A waiter's oneshot channel is
  the value delivered under its number; sending it to a dropped receiver is the same as sending it
  to one that never looks.
\<close>

section \<open>State and operations\<close>

record login_entry =
  le_terminal :: "unit result option"
  le_waiters :: "nat list"

record login_state =
  lg_next_waiter_id :: nat
  lg_active :: "(string \<times> login_entry) list"
  lg_early_completed :: "(string \<times> unit result) list"
  lg_early_order :: "string list"
  lg_delivered :: "nat \<Rightarrow> unit result option"

definition EARLY_LOGIN_COMPLETION_CAPACITY :: nat where
  "EARLY_LOGIN_COMPLETION_CAPACITY = 32"

definition new_logins :: login_state where
  "new_logins = \<lparr>lg_next_waiter_id = 1, lg_active = [], lg_early_completed = [], lg_early_order = [],
                 lg_delivered = (\<lambda>_. None)\<rparr>"

datatype login_wait = LoginCompleted "unit result" | LoginPending nat

definition register_login_id :: "string \<Rightarrow> login_state \<Rightarrow> bool \<times> login_state" where
  "register_login_id i s =
     (if map_of (lg_active s) i \<noteq> None then (False, s)
      else
        (let t = map_of (lg_early_completed s) i
         in (True,
             s\<lparr>lg_active := AList.update i \<lparr>le_terminal = t, le_waiters = []\<rparr> (lg_active s),
               lg_early_completed := AList.delete i (lg_early_completed s),
               lg_early_order :=
                 (if t \<noteq> None then filter (\<lambda>c. c \<noteq> i) (lg_early_order s) else lg_early_order s)\<rparr>)))"

definition wait_login_id :: "string \<Rightarrow> login_state \<Rightarrow> login_wait result \<times> login_state" where
  "wait_login_id i s =
     (case map_of (lg_active s) i of
        None \<Rightarrow> (Inl (new_error InvalidInput ''account.login.wait'' ''login handle is no longer active''), s)
      | Some entry \<Rightarrow>
          (case le_terminal entry of
             Some res \<Rightarrow> (Inr (LoginCompleted res), s)
           | None \<Rightarrow>
               (let n = lg_next_waiter_id s
                in if n + 1 \<le> 18446744073709551615
                   then (Inr (LoginPending n),
                         s\<lparr>lg_next_waiter_id := n + 1,
                           lg_active := AList.update i
                             (entry\<lparr>le_waiters := le_waiters entry @ [n]\<rparr>) (lg_active s)\<rparr>)
                   else (Inl (new_error Protocol ''account.login.wait''
                                ''login waiter id space exhausted''), s))))"

definition remove_waiter :: "string \<Rightarrow> nat \<Rightarrow> login_state \<Rightarrow> login_state" where
  "remove_waiter i n s =
     (case map_of (lg_active s) i of
        None \<Rightarrow> s
      | Some entry \<Rightarrow>
          s\<lparr>lg_active := AList.update i
              (entry\<lparr>le_waiters := filter (\<lambda>k. k \<noteq> n) (le_waiters entry)\<rparr>) (lg_active s)\<rparr>)"

definition release_login_id :: "string \<Rightarrow> login_state \<Rightarrow> login_state" where
  "release_login_id i s =
     s\<lparr>lg_active := AList.delete i (lg_active s),
       lg_early_completed := AList.delete i (lg_early_completed s),
       lg_early_order := filter (\<lambda>c. c \<noteq> i) (lg_early_order s)\<rparr>"

definition cache_early_login_result :: "string \<Rightarrow> unit result \<Rightarrow> login_state \<Rightarrow> login_state" where
  "cache_early_login_result i res s =
     (if map_of (lg_early_completed s) i \<noteq> None then s
      else
        (let s1 = (case lg_early_order s of
                     expired # rest \<Rightarrow>
                       if EARLY_LOGIN_COMPLETION_CAPACITY \<le> length (lg_early_completed s)
                       then s\<lparr>lg_early_order := rest,
                              lg_early_completed := AList.delete expired (lg_early_completed s)\<rparr>
                       else s
                   | [] \<Rightarrow> s)
         in s1\<lparr>lg_early_order := lg_early_order s1 @ [i],
               lg_early_completed := AList.update i res (lg_early_completed s1)\<rparr>))"

text \<open>\<open>waiter.send\<close> for every waiter taken.\<close>

definition deliver_login :: "nat list \<Rightarrow> unit result \<Rightarrow> login_state \<Rightarrow> login_state" where
  "deliver_login ns res s =
     s\<lparr>lg_delivered := (\<lambda>n. if n \<in> set ns then Some res else lg_delivered s n)\<rparr>"

definition complete_login_id :: "string \<Rightarrow> unit result \<Rightarrow> login_state \<Rightarrow> login_state" where
  "complete_login_id i res s =
     (case map_of (lg_active s) i of
        None \<Rightarrow> cache_early_login_result i res s
      | Some entry \<Rightarrow>
          if le_terminal entry \<noteq> None then s
          else deliver_login (le_waiters entry) res
                 (s\<lparr>lg_active := AList.update i \<lparr>le_terminal = Some res, le_waiters = []\<rparr>
                      (lg_active s)\<rparr>))"

definition fail_entry :: "error \<Rightarrow> login_entry \<Rightarrow> login_entry" where
  "fail_entry e entry =
     \<lparr>le_terminal = (case le_terminal entry of None \<Rightarrow> Some (Inl e) | Some res \<Rightarrow> Some res),
      le_waiters = []\<rparr>"

definition fail_active_logins :: "error \<Rightarrow> login_state \<Rightarrow> login_state" where
  "fail_active_logins e s =
     deliver_login (concat (map (\<lambda>(i, entry). le_waiters entry) (lg_active s))) (Inl e)
       (s\<lparr>lg_active := map (\<lambda>(i, entry). (i, fail_entry e entry)) (lg_active s)\<rparr>)"

datatype login_op =
    LgRegister string
  | LgWait string
  | LgRemoveWaiter string nat
  | LgRelease string
  | LgComplete string "unit result"
  | LgFailActive error

definition login_step :: "login_op \<Rightarrow> login_state \<Rightarrow> login_state" where
  "login_step op s =
     (case op of
        LgRegister i \<Rightarrow> snd (register_login_id i s)
      | LgWait i \<Rightarrow> snd (wait_login_id i s)
      | LgRemoveWaiter i n \<Rightarrow> remove_waiter i n s
      | LgRelease i \<Rightarrow> release_login_id i s
      | LgComplete i res \<Rightarrow> complete_login_id i res s
      | LgFailActive e \<Rightarrow> fail_active_logins e s)"

section \<open>Invariant\<close>

text \<open>The order list is the cache's keys, oldest first; a finished login has no waiter; a waiter of a
  login has a number of its own, already given out and not served.\<close>

definition early_ok :: "login_state \<Rightarrow> bool" where
  "early_ok s \<longleftrightarrow>
     lg_early_order s = map fst (lg_early_completed s) \<and>
     distinct (map fst (lg_early_completed s)) \<and> length (lg_early_completed s) \<le> 32"

definition waiters_ok :: "login_state \<Rightarrow> bool" where
  "waiters_ok s \<longleftrightarrow>
     distinct (map fst (lg_active s)) \<and>
     (\<forall>i entry. map_of (lg_active s) i = Some entry \<longrightarrow>
        (le_terminal entry \<noteq> None \<longrightarrow> le_waiters entry = []) \<and>
        (\<forall>n \<in> set (le_waiters entry). n < lg_next_waiter_id s \<and> lg_delivered s n = None)) \<and>
     (\<forall>i j x y n. map_of (lg_active s) i = Some x \<longrightarrow> map_of (lg_active s) j = Some y \<longrightarrow>
        n \<in> set (le_waiters x) \<longrightarrow> n \<in> set (le_waiters y) \<longrightarrow> i = j) \<and>
     (\<forall>n \<ge> lg_next_waiter_id s. lg_delivered s n = None)"

definition logins_ok :: "login_state \<Rightarrow> bool" where
  "logins_ok s \<longleftrightarrow> early_ok s \<and> waiters_ok s"

text \<open>The cache as a list in arrival order.\<close>

lemma update_new_key: "i \<notin> fst ` set xs \<Longrightarrow> AList.update i v xs = xs @ [(i, v)]"
  by (induction xs) auto

lemma map_fst_delete: "map fst (AList.delete i xs) = filter (\<lambda>c. c \<noteq> i) (map fst xs)"
  by (induction xs) (auto simp: AList.delete_eq)

lemma delete_absent: "i \<notin> fst ` set xs \<Longrightarrow> AList.delete i xs = xs"
  by (induction xs) (auto simp: AList.delete_eq)

lemma map_of_None_fst: "map_of xs i = None \<longleftrightarrow> i \<notin> fst ` set xs"
  by (rule map_of_eq_None_iff)

lemma early_ok_remove:
  "early_ok s \<Longrightarrow> early_ok (s\<lparr>lg_early_completed := AList.delete i (lg_early_completed s),
     lg_early_order := filter (\<lambda>c. c \<noteq> i) (lg_early_order s)\<rparr>)"
  unfolding early_ok_def
  by (auto simp: map_fst_delete intro: le_trans [OF length_delete_le])

lemma early_ok_cache:
  assumes ok: "early_ok s" shows "early_ok (cache_early_login_result i res s)"
proof (cases "map_of (lg_early_completed s) i")
  case (Some x)
  then show ?thesis using ok by (simp add: cache_early_login_result_def)
next
  case None
  then have i: "i \<notin> set (map fst (lg_early_completed s))" by (simp add: map_of_eq_None_iff)
  note o = ok [unfolded early_ok_def]
  show ?thesis
  proof (cases "lg_early_completed s")
    case Nil
    then show ?thesis using o None by (simp add: cache_early_login_result_def early_ok_def)
  next
    case (Cons kv rest)
    obtain k v where kv: "kv = (k, v)" by (cases kv)
    have k: "k \<notin> fst ` set rest" using o Cons kv by simp
    have del: "AList.delete k (lg_early_completed s) = rest"
      using Cons kv k by (simp add: delete_absent)
    show ?thesis
      using o i None Cons kv k del
      by (auto simp: cache_early_login_result_def early_ok_def EARLY_LOGIN_COMPLETION_CAPACITY_def
            update_new_key Let_def)
  qed
qed

lemma waiters_ok_early:
  "waiters_ok s \<Longrightarrow> waiters_ok (s\<lparr>lg_early_completed := c, lg_early_order := q\<rparr>)"
  by (simp add: waiters_ok_def)

lemma cache_waiters_ok: "waiters_ok s \<Longrightarrow> waiters_ok (cache_early_login_result i res s)"
  by (simp add: waiters_ok_def cache_early_login_result_def Let_def split: list.split)

lemma waiters_okD:
  assumes "waiters_ok s"
  shows "distinct (map fst (lg_active s))"
    and "map_of (lg_active s) i = Some entry \<Longrightarrow> le_terminal entry \<noteq> None \<Longrightarrow> le_waiters entry = []"
    and "map_of (lg_active s) i = Some entry \<Longrightarrow> n \<in> set (le_waiters entry) \<Longrightarrow>
           n < lg_next_waiter_id s \<and> lg_delivered s n = None"
    and "map_of (lg_active s) i = Some x \<Longrightarrow> map_of (lg_active s) j = Some y \<Longrightarrow>
           n \<in> set (le_waiters x) \<Longrightarrow> n \<in> set (le_waiters y) \<Longrightarrow> i = j"
    and "lg_next_waiter_id s \<le> n \<Longrightarrow> lg_delivered s n = None"
  using assms unfolding waiters_ok_def by blast+

text \<open>An active entry replaced by one with no more waiters.\<close>

lemma waiters_ok_put:
  assumes ok: "waiters_ok s" and old: "map_of (lg_active s) i = Some x \<or> le_waiters y = []"
    and sub: "\<And>x. map_of (lg_active s) i = Some x \<Longrightarrow> set (le_waiters y) \<subseteq> set (le_waiters x)"
    and t: "le_terminal y \<noteq> None \<Longrightarrow> le_waiters y = []"
  shows "waiters_ok (s\<lparr>lg_active := AList.update i y (lg_active s)\<rparr>)"
proof -
  note D = waiters_okD [OF ok]
  have m: "map_of (AList.update i y (lg_active s)) = (map_of (lg_active s))(i \<mapsto> y)"
    by (rule update_conv')
  have w: "n < lg_next_waiter_id s \<and> lg_delivered s n = None" if n: "n \<in> set (le_waiters y)" for n
  proof -
    obtain x where x: "map_of (lg_active s) i = Some x" using old n by auto
    then show ?thesis using sub [OF x] D(3) [OF x] n by blast
  qed
  have u: "j = i" if j: "map_of (lg_active s) j = Some z" "n \<in> set (le_waiters z)" and n: "n \<in> set (le_waiters y)"
    for j z n
  proof -
    obtain x where x: "map_of (lg_active s) i = Some x" using old n by auto
    then show ?thesis using sub [OF x] D(4) [OF j(1) x j(2)] n by blast
  qed
  let ?s1 = "s\<lparr>lg_active := AList.update i y (lg_active s)\<rparr>"
  have a: "map_of (lg_active ?s1) j = Some z \<longleftrightarrow> (if j = i then z = y else map_of (lg_active s) j = Some z)" for j z
    by (auto simp: m simp del: map_of_eq_Some_iff)
  show ?thesis
    unfolding waiters_ok_def a
  proof (intro conjI allI impI ballI)
    show "distinct (map fst (lg_active ?s1))" using D(1) by (simp add: distinct_update)
  next
    fix j z assume "if j = i then z = y else map_of (lg_active s) j = Some z" "le_terminal z \<noteq> None"
    then show "le_waiters z = []" using t D(2) by (metis (full_types))
  next
    fix j z n assume z: "if j = i then z = y else map_of (lg_active s) j = Some z" "n \<in> set (le_waiters z)"
    then have "n < lg_next_waiter_id s \<and> lg_delivered s n = None" using w D(3) by (metis (full_types))
    then show "n < lg_next_waiter_id ?s1" "lg_delivered ?s1 n = None" by simp_all
  next
    fix j k z z' n
    assume "if j = i then z = y else map_of (lg_active s) j = Some z"
      "if k = i then z' = y else map_of (lg_active s) k = Some z'"
      "n \<in> set (le_waiters z)" "n \<in> set (le_waiters z')"
    then show "j = k" using u D(4) by (metis (full_types))
  next
    fix n assume "lg_next_waiter_id ?s1 \<le> n"
    then show "lg_delivered ?s1 n = None" using D(5) by simp
  qed
qed

lemma waiters_ok_delete:
  "waiters_ok s \<Longrightarrow> waiters_ok (s\<lparr>lg_active := AList.delete i (lg_active s)\<rparr>)"
  unfolding waiters_ok_def
  by (auto simp: delete_conv' distinct_delete simp del: map_of_eq_Some_iff split: if_splits)

text \<open>Waiters no entry holds any more may be served.\<close>

lemma waiters_ok_deliver:
  assumes ok: "waiters_ok s"
    and free: "\<And>i x n. map_of (lg_active s) i = Some x \<Longrightarrow> n \<in> set (le_waiters x) \<Longrightarrow> n \<notin> set ns"
    and known: "\<And>n. n \<in> set ns \<Longrightarrow> n < lg_next_waiter_id s"
  shows "waiters_ok (deliver_login ns res s)"
proof -
  note D = waiters_okD [OF ok]
  show ?thesis
    unfolding waiters_ok_def deliver_login_def
    using D free known by (fastforce simp del: map_of_eq_Some_iff)
qed

lemma complete_active_ok:
  assumes ok: "waiters_ok s" and x: "map_of (lg_active s) i = Some x"
  shows "waiters_ok (deliver_login (le_waiters x) res
           (s\<lparr>lg_active := AList.update i \<lparr>le_terminal = Some res, le_waiters = []\<rparr> (lg_active s)\<rparr>))"
proof -
  note D = waiters_okD [OF ok]
  have put: "waiters_ok (s\<lparr>lg_active := AList.update i \<lparr>le_terminal = Some res, le_waiters = []\<rparr> (lg_active s)\<rparr>)"
    by (rule waiters_ok_put [OF ok]) simp_all
  show ?thesis
  proof (rule waiters_ok_deliver [OF put])
    fix j y n
    assume j: "map_of (lg_active (s\<lparr>lg_active := AList.update i
        \<lparr>le_terminal = Some res, le_waiters = []\<rparr> (lg_active s)\<rparr>)) j = Some y" and n: "n \<in> set (le_waiters y)"
    then have "j \<noteq> i" "map_of (lg_active s) j = Some y"
      by (auto simp: update_conv' simp del: map_of_eq_Some_iff split: if_splits)
    then show "n \<notin> set (le_waiters x)" using D(4) x n by blast
  qed (use D(3) x in auto)
qed

lemma wait_login_ok:
  assumes ok: "waiters_ok s" and x: "map_of (lg_active s) i = Some x" and t: "le_terminal x = None"
  shows "waiters_ok (s\<lparr>lg_next_waiter_id := lg_next_waiter_id s + 1,
      lg_active := AList.update i (x\<lparr>le_waiters := le_waiters x @ [lg_next_waiter_id s]\<rparr>) (lg_active s)\<rparr>)"
proof -
  note D = waiters_okD [OF ok]
  have m: "map_of (AList.update i y (lg_active s)) = (map_of (lg_active s))(i \<mapsto> y)" for y
    by (rule update_conv')
  have fresh: "n \<noteq> lg_next_waiter_id s" if "map_of (lg_active s) j = Some z" "n \<in> set (le_waiters z)" for j z n
    using D(3) that by fastforce
  show ?thesis
    unfolding waiters_ok_def
    using D x t fresh
    by (fastforce simp: m distinct_update less_Suc_eq simp del: map_of_eq_Some_iff split: if_splits)
qed

lemma map_of_fail:
  "map_of (map (\<lambda>(i, entry). (i, fail_entry e entry)) xs) i = map_option (fail_entry e) (map_of xs i)"
  by (induction xs) auto

lemma fail_logins_ok:
  assumes ok: "waiters_ok s" shows "waiters_ok (fail_active_logins e s)"
proof -
  note D = waiters_okD [OF ok]
  let ?s1 = "s\<lparr>lg_active := map (\<lambda>(i, entry). (i, fail_entry e entry)) (lg_active s)\<rparr>"
  have fst: "map fst (map (\<lambda>(i, entry). (i, fail_entry e entry)) xs) = map fst xs" for xs
    by (induction xs) auto
  have none: "le_waiters (fail_entry e x) = []" for x by (simp add: fail_entry_def)
  have s1: "waiters_ok ?s1"
    unfolding waiters_ok_def
  proof (intro conjI allI impI ballI)
    show "distinct (map fst (lg_active ?s1))" using D(1) by (simp add: fst del: map_map)
  next
    fix i x assume "map_of (lg_active ?s1) i = Some x"
    then obtain y where x: "x = fail_entry e y" by (auto simp: map_of_fail simp del: map_of_eq_Some_iff)
    show "le_terminal x \<noteq> None \<Longrightarrow> le_waiters x = []" by (simp add: x none)
    show "n < lg_next_waiter_id ?s1" "lg_delivered ?s1 n = None" if "n \<in> set (le_waiters x)" for n
      using that by (simp_all add: x none)
  next
    fix i j x y n assume "map_of (lg_active ?s1) i = Some x" "n \<in> set (le_waiters x)"
    then show "i = j" by (auto simp: map_of_fail none simp del: map_of_eq_Some_iff)
  next
    fix n assume "lg_next_waiter_id ?s1 \<le> n"
    then show "lg_delivered ?s1 n = None" using D(5) by simp
  qed
  show ?thesis
    unfolding fail_active_logins_def
  proof (rule waiters_ok_deliver [OF s1])
    fix n assume "n \<in> set (concat (map (\<lambda>(i, entry). le_waiters entry) (lg_active s)))"
    then obtain i x where "(i, x) \<in> set (lg_active s)" "n \<in> set (le_waiters x)" by auto
    then show "n < lg_next_waiter_id ?s1" using D(1,3) by auto
  next
    fix i x n assume "map_of (lg_active ?s1) i = Some x" "n \<in> set (le_waiters x)"
    then show "n \<notin> set (concat (map (\<lambda>(i, entry). le_waiters entry) (lg_active s)))"
      by (auto simp: map_of_fail none simp del: map_of_eq_Some_iff)
  qed
qed

lemma login_step_ok: "logins_ok s \<Longrightarrow> logins_ok (login_step op s)"
proof -
  assume "logins_ok s"
  then have e: "early_ok s" and w: "waiters_ok s" by (simp_all add: logins_ok_def)
  have frame: "early_ok (s\<lparr>lg_active := a\<rparr>)" "early_ok (s\<lparr>lg_next_waiter_id := n, lg_active := a\<rparr>)"
    "early_ok (deliver_login ns res (s\<lparr>lg_active := a\<rparr>))" for a n ns res
    using e by (simp_all add: early_ok_def deliver_login_def)
  show ?thesis
  proof (cases op)
    case (LgRegister i)
    have "waiters_ok (s\<lparr>lg_active := AList.update i \<lparr>le_terminal = t, le_waiters = []\<rparr> (lg_active s)\<rparr>)" for t
      by (rule waiters_ok_put [OF w]) simp_all
    then have w1: "waiters_ok (s\<lparr>lg_active := AList.update i \<lparr>le_terminal = t, le_waiters = []\<rparr> (lg_active s),
        lg_early_completed := c, lg_early_order := q\<rparr>)" for t c q
      by (simp add: waiters_ok_def)
    have e1: "early_ok (s\<lparr>lg_active := a, lg_early_completed := AList.delete i (lg_early_completed s),
        lg_early_order := (if map_of (lg_early_completed s) i \<noteq> None
          then filter (\<lambda>c. c \<noteq> i) (lg_early_order s) else lg_early_order s)\<rparr>)" for a
    proof (cases "map_of (lg_early_completed s) i")
      case None
      then show ?thesis
        using e by (simp add: early_ok_def delete_absent map_of_None_fst)
    next
      case (Some x)
      then show ?thesis using early_ok_remove [OF e, of i] by (simp add: early_ok_def)
    qed
    show ?thesis
    proof (cases "map_of (lg_active s) i")
      case None
      then show ?thesis
        unfolding LgRegister login_step_def login_op.case register_login_id_def Let_def logins_ok_def
        using w1 e1 by simp
    next
      case (Some x)
      then show ?thesis
        using LgRegister \<open>logins_ok s\<close> by (simp add: login_step_def register_login_id_def)
    qed
  next
    case (LgWait i)
    show ?thesis
    proof (cases "map_of (lg_active s) i")
      case None
      then show ?thesis using LgWait \<open>logins_ok s\<close> by (simp add: login_step_def wait_login_id_def)
    next
      case (Some x)
      show ?thesis
        using LgWait Some \<open>logins_ok s\<close> wait_login_ok [OF w Some] frame(2)
        by (cases "le_terminal x") (simp_all add: login_step_def wait_login_id_def Let_def logins_ok_def)
    qed
  next
    case (LgRemoveWaiter i n)
    show ?thesis
    proof (cases "map_of (lg_active s) i")
      case None
      then show ?thesis using LgRemoveWaiter \<open>logins_ok s\<close> by (simp add: login_step_def remove_waiter_def)
    next
      case (Some x)
      have "waiters_ok (s\<lparr>lg_active := AList.update i (x\<lparr>le_waiters := filter (\<lambda>k. k \<noteq> n) (le_waiters x)\<rparr>)
          (lg_active s)\<rparr>)"
        using waiters_okD(2) [OF w Some] Some by (intro waiters_ok_put [OF w, of _ x]) auto
      then show ?thesis
        using LgRemoveWaiter Some frame(1) by (simp add: login_step_def remove_waiter_def logins_ok_def)
    qed
  next
    case (LgRelease i)
    have "early_ok (release_login_id i s)"
      using early_ok_remove [OF e, of i] by (simp add: release_login_id_def early_ok_def)
    moreover have "waiters_ok (release_login_id i s)"
      using waiters_ok_early [OF waiters_ok_delete [OF w, of i]] by (simp add: release_login_id_def)
    ultimately show ?thesis using LgRelease by (simp add: login_step_def logins_ok_def)
  next
    case (LgComplete i res)
    show ?thesis
    proof (cases "map_of (lg_active s) i")
      case None
      then show ?thesis
        using LgComplete early_ok_cache [OF e] cache_waiters_ok [OF w]
        by (simp add: login_step_def complete_login_id_def logins_ok_def)
    next
      case (Some x)
      then show ?thesis
        using LgComplete \<open>logins_ok s\<close> complete_active_ok [OF w Some] frame(3)
        by (simp add: login_step_def complete_login_id_def logins_ok_def)
    qed
  next
    case (LgFailActive x)
    then show ?thesis
      using fail_logins_ok [OF w] frame
      by (simp add: login_step_def logins_ok_def fail_active_logins_def)
  qed
qed

interpretation logins: machine new_logins login_step logins_ok
  by unfold_locales
     (simp add: logins_ok_def early_ok_def waiters_ok_def new_logins_def, rule login_step_ok)

section \<open>Delivered results are final\<close>

definition login_delivered :: "nat \<Rightarrow> login_state \<Rightarrow> unit result option" where
  "login_delivered n s = lg_delivered s n"

lemma cache_delivered [simp]: "lg_delivered (cache_early_login_result i res s) = lg_delivered s"
  by (simp add: cache_early_login_result_def Let_def split: list.split)

lemma login_step_delivered:
  assumes ok: "logins_ok s" and v: "login_delivered n s = Some v"
  shows "login_delivered n (login_step op s) = Some v"
proof -
  have w: "waiters_ok s" using ok by (simp add: logins_ok_def)
  note D = waiters_okD [OF w]
  have nw: "n \<notin> set (le_waiters x)" if "map_of (lg_active s) i = Some x" for i x
    using D(3) [OF that] v by (auto simp: login_delivered_def)
  show ?thesis
  proof (cases op)
    case (LgComplete i res)
    then show ?thesis
      using v nw by (auto simp: login_step_def complete_login_id_def login_delivered_def deliver_login_def
          simp del: map_of_eq_Some_iff split: option.splits)
  next
    case (LgFailActive e)
    have "n \<notin> set (concat (map (\<lambda>(i, entry). le_waiters entry) (lg_active s)))"
      using nw D(1) by auto
    then show ?thesis
      using v LgFailActive
      by (auto simp: login_step_def fail_active_logins_def login_delivered_def deliver_login_def)
  qed (use v in \<open>auto simp: login_step_def register_login_id_def wait_login_id_def remove_waiter_def
         release_login_id_def login_delivered_def Let_def split: option.splits\<close>)
qed

interpretation login_results: settling_machine new_logins login_step logins_ok login_delivered
  by unfold_locales (rule login_step_delivered)

section \<open>Early completions\<close>

lemma early_kept_step:
  assumes e: "early_ok s" and inact: "map_of (lg_active s) i = None"
    and order: "lg_early_order s = xs @ i # ys" and k: "length ys < 31"
    and v: "map_of (lg_early_completed s) i = Some v"
  shows "\<exists>xs' ys'. lg_early_order (complete_login_id j res s) = xs' @ i # ys' \<and> length ys' \<le> Suc (length ys) \<and>
           map_of (lg_early_completed (complete_login_id j res s)) i = Some v \<and>
           map_of (lg_active (complete_login_id j res s)) i = None \<and>
           early_ok (complete_login_id j res s)"
proof (cases "map_of (lg_active s) j")
  case (Some x)
  have "j \<noteq> i" using Some inact by auto
  then show ?thesis
    using Some order v inact e
    by (intro exI [of _ xs] exI [of _ ys])
       (auto simp: complete_login_id_def deliver_login_def update_conv' early_ok_def simp del: map_of_eq_Some_iff)
next
  case None
  have e1: "early_ok (complete_login_id j res s)"
    using early_ok_cache [OF e] None by (simp add: complete_login_id_def)
  show ?thesis
  proof (cases "map_of (lg_early_completed s) j")
    case (Some y)
    then show ?thesis
      using None order v inact e1
      by (intro exI [of _ xs] exI [of _ ys]) (simp add: complete_login_id_def cache_early_login_result_def)
  next
    case jn: None
    have ji: "j \<noteq> i" using jn v by auto
    show ?thesis
    proof (cases "32 \<le> length (lg_early_completed s)")
      case False
      then have "cache_early_login_result j res s =
          s\<lparr>lg_early_order := lg_early_order s @ [j],
            lg_early_completed := AList.update j res (lg_early_completed s)\<rparr>"
        using jn by (simp add: cache_early_login_result_def EARLY_LOGIN_COMPLETION_CAPACITY_def Let_def split: list.split)
      then show ?thesis
        using None order v inact ji e1
        by (intro exI [of _ xs] exI [of _ "ys @ [j]"]) (simp add: complete_login_id_def update_conv')
    next
      case True
      have "length (lg_early_order s) = length (lg_early_completed s)" using e by (simp add: early_ok_def)
      then have "xs \<noteq> []" using True order k by auto
      then obtain h xs' where xs: "xs = h # xs'" by (cases xs) auto
      have hi: "h \<noteq> i" using e order xs by (metis append_Cons distinct.simps(2) early_ok_def in_set_conv_decomp)
      have "cache_early_login_result j res s =
          s\<lparr>lg_early_order := (xs' @ i # ys) @ [j],
            lg_early_completed := AList.update j res (AList.delete h (lg_early_completed s))\<rparr>"
        using jn True order xs by (simp add: cache_early_login_result_def EARLY_LOGIN_COMPLETION_CAPACITY_def Let_def)
      then show ?thesis
        using None v inact ji hi e1
        by (intro exI [of _ xs'] exI [of _ "ys @ [j]"]) (simp add: complete_login_id_def update_conv' delete_conv')
    qed
  qed
qed

lemma early_kept:
  assumes "early_ok s" "map_of (lg_active s) i = None" "lg_early_order s = xs @ i # ys"
    and "length ys + length later \<le> 31" "map_of (lg_early_completed s) i = Some v"
  shows "map_of (lg_early_completed (fold (\<lambda>(j, r). complete_login_id j r) later s)) i = Some v \<and>
         map_of (lg_active (fold (\<lambda>(j, r). complete_login_id j r) later s)) i = None"
  using assms
proof (induction later arbitrary: s xs ys)
  case Nil
  then show ?case by simp
next
  case (Cons jr later)
  obtain j r where jr: "jr = (j, r)" by (cases jr)
  have "length ys < 31" using Cons.prems(4) by simp
  from early_kept_step [OF Cons.prems(1-3) this Cons.prems(5), of j r] obtain xs' ys' where
    a: "lg_early_order (complete_login_id j r s) = xs' @ i # ys'" "length ys' \<le> Suc (length ys)"
      "map_of (lg_early_completed (complete_login_id j r s)) i = Some v"
      "map_of (lg_active (complete_login_id j r s)) i = None" "early_ok (complete_login_id j r s)"
    by blast
  have "length ys' + length later \<le> 31" using a(2) Cons.prems(4) by simp
  from Cons.IH [OF a(5,4,1) this a(3)] show ?case by (simp add: jr)
qed

section \<open>Properties\<close>

text \<open>a login that completes before its handle is registered is not lost: after up to 31 further
  completions the handle, once registered, gets the first result at its first wait.\<close>

theorem early_login_result_kept:
  fixes ops defines "s \<equiv> fold login_step ops new_logins"
  assumes "map_of (lg_active s) i = None" and "map_of (lg_early_completed s) i = None"
    and "length later \<le> 31"
  shows "fst (wait_login_id i (snd (register_login_id i
           (fold (\<lambda>(j, r). complete_login_id j r) later (complete_login_id i res s)))))
         = Inr (LoginCompleted res)"
proof -
  let ?c = "complete_login_id i res s"
  have ok: "early_ok s" unfolding s_def using logins.invar_run by (simp add: logins_ok_def)
  have c: "?c = cache_early_login_result i res s" using assms(2) by (simp add: complete_login_id_def)
  have e: "early_ok ?c" using early_ok_cache [OF ok] c by simp
  have m: "map_of (lg_early_completed ?c) i = Some res"
    using assms(3) unfolding c by (simp add: cache_early_login_result_def Let_def update_conv' split: list.split)
  have a: "map_of (lg_active ?c) i = None"
    using assms(2,3) unfolding c by (simp add: cache_early_login_result_def Let_def split: list.split)
  obtain xs where x: "lg_early_order ?c = xs @ i # []"
    using assms(3) unfolding c
    by (cases "lg_early_order s") (auto simp: cache_early_login_result_def Let_def)
  from early_kept [OF e a x _ m] assms(4) show ?thesis
    by (simp add: register_login_id_def wait_login_id_def Let_def update_conv')
qed

text \<open>the completion of a registered login reaches every waiter and every later one, and what a
  waiter was given is never replaced.\<close>

theorem login_completion_reaches_waiters:
  fixes ops defines "s \<equiv> fold login_step ops new_logins"
  assumes "map_of (lg_active s) i = Some x" and "le_terminal x = None" and "n \<in> set (le_waiters x)"
  shows "login_delivered n (fold login_step (ops @ LgComplete i res # later) new_logins) = Some res \<and>
         fst (wait_login_id i (login_step (LgComplete i res) s)) = Inr (LoginCompleted res)"
proof -
  have "login_delivered n (fold login_step (ops @ [LgComplete i res]) new_logins) = Some res"
    using assms(2-4) s_def
    by (simp add: login_step_def complete_login_id_def deliver_login_def login_delivered_def)
  from login_results.settled_stable [OF this, of later] show ?thesis
    using assms(2,3)
    by (simp add: login_step_def complete_login_id_def deliver_login_def wait_login_id_def update_conv')
qed

text \<open>A disconnect ends every login wait: each waiter of an active login is told, no login stays
  without a result, and a login that had completed keeps its result.\<close>

theorem disconnect_ends_login_waits:
  fixes ops defines "s \<equiv> fold login_step ops new_logins"
  assumes "map_of (lg_active s) i = Some x"
  shows "map_of (lg_active (login_step (LgFailActive e) s)) i =
           Some \<lparr>le_terminal = (case le_terminal x of None \<Rightarrow> Some (Inl e) | Some r \<Rightarrow> Some r), le_waiters = []\<rparr> \<and>
         (\<forall>n \<in> set (le_waiters x). login_delivered n (login_step (LgFailActive e) s) = Some (Inl e))"
proof -
  have "(i, x) \<in> set (lg_active s)" by (rule map_of_SomeD [OF assms(2)])
  then have "n \<in> set (concat (map (\<lambda>(i, entry). le_waiters entry) (lg_active s)))" if "n \<in> set (le_waiters x)" for n
    using that by auto
  then show ?thesis
    using assms(2) fail_entry_def [of e x]
    by (simp add: login_step_def fail_active_logins_def deliver_login_def login_delivered_def map_of_fail)
qed

section \<open>Witnesses\<close>

lemma early_login_result_kept_witness:
  "fst (wait_login_id ''a'' (snd (register_login_id ''a''
     (fold (\<lambda>(j, r). complete_login_id j r) [(''b'', Inr ())] (complete_login_id ''a'' (Inr ()) new_logins)))))
   = Inr (LoginCompleted (Inr ()))"
  using early_login_result_kept [of "[]" "''a''" "[(''b'', Inr ())]" "Inr ()"]
  by (simp add: new_logins_def)

lemma login_completion_reaches_waiters_witness:
  "login_delivered 1 (fold login_step ([LgRegister ''a'', LgWait ''a''] @ LgComplete ''a'' (Inr ())
      # [LgFailActive (new_error Disconnected [] [])]) new_logins) = Some (Inr ())"
  using login_completion_reaches_waiters [of "[LgRegister ''a'', LgWait ''a'']" "''a''"
      "\<lparr>le_terminal = None, le_waiters = [1]\<rparr>" 1 "Inr ()" "[LgFailActive (new_error Disconnected [] [])]"]
  by (simp add: login_step_def register_login_id_def wait_login_id_def new_logins_def Let_def)

lemma disconnect_ends_login_waits_witness:
  "login_delivered 1 (login_step (LgFailActive (new_error Disconnected [] []))
      (fold login_step [LgRegister ''a'', LgWait ''a''] new_logins)) = Some (Inl (new_error Disconnected [] []))"
  using disconnect_ends_login_waits [of "[LgRegister ''a'', LgWait ''a'']" "''a''"
      "\<lparr>le_terminal = None, le_waiters = [1]\<rparr>" "new_error Disconnected [] []"]
  by (simp add: login_step_def register_login_id_def wait_login_id_def new_logins_def Let_def)

end
