(* ===== verification/Protocol.thy ===== *)
theory Protocol
  imports Events Redact
begin

text \<open>
  \<open>src/src/private/protocol.rs\<close>: the interpretation of the app-server's JSON as the values of
  \<open>Events\<close>.
\<close>

section \<open>Fields\<close>

definition protocol_field :: "string \<Rightarrow> string \<Rightarrow> error" where
  "protocol_field operation field =
     new_error Protocol operation (''missing or invalid field '' @ quoted field)"

definition required_string :: "json \<Rightarrow> string \<Rightarrow> string \<Rightarrow> string result" where
  "required_string v field operation = ok_or (protocol_field operation field) (get_str field v)"

definition required_non_empty_string :: "json \<Rightarrow> string \<Rightarrow> string \<Rightarrow> string result" where
  "required_non_empty_string v field operation =
     ok_or (protocol_field operation field) (get_nonempty_str field v)"

definition optional_string :: "json \<Rightarrow> string \<Rightarrow> string \<Rightarrow> string option result" where
  "optional_string v field operation =
     (case jget field v of
        None \<Rightarrow> Inr None
      | Some JNull \<Rightarrow> Inr None
      | Some (JString s) \<Rightarrow> Inr (Some s)
      | Some _ \<Rightarrow> Inl (protocol_field operation field))"

definition optional_bool :: "json \<Rightarrow> string \<Rightarrow> string \<Rightarrow> bool option result" where
  "optional_bool v field operation =
     (case jget field v of
        None \<Rightarrow> Inr None
      | Some JNull \<Rightarrow> Inr None
      | Some (JBool b) \<Rightarrow> Inr (Some b)
      | Some _ \<Rightarrow> Inl (protocol_field operation field))"

section \<open>Turns\<close>

definition parse_turn_completion :: "json \<Rightarrow> turn_completion result" where
  "parse_turn_completion params =
     result_bind (ok_or (protocol_field ''turn.completed'' ''turn'') (jget ''turn'' params)) (\<lambda>turn.
     result_bind (ok_or (protocol_field ''turn.completed'' ''turn.id'')
                    (get_nonempty_str ''id'' turn)) (\<lambda>turn_id.
     Inr \<lparr>tc_turn_id = turn_id,
          tc_outcome =
            (case get_str ''status'' turn of
               None \<Rightarrow> Inl (protocol_field ''turn.completed'' ''turn.status'')
             | Some status \<Rightarrow>
                 if status = ''completed'' then Inr OutCompleted
                 else if status = ''interrupted'' then Inr OutInterrupted
                 else if status = ''failed''
                 then Inr (OutFailed
                        (case Option.bind (jpointer [''error'', ''message''] turn) as_str of
                           Some msg \<Rightarrow> redact_line msg
                         | None \<Rightarrow> ''Codex turn failed''))
                 else Inl (new_error Protocol ''turn.completed''
                             (''unexpected terminal status '' @ quoted status)))\<rparr>))"

definition config_warning_message :: "json \<Rightarrow> string result" where
  "config_warning_message params =
     result_bind (ok_or (protocol_field ''config.warning'' ''summary'') (get_str ''summary'' params)) (\<lambda>summary.
     result_bind (optional_string params ''details'' ''config.warning'') (\<lambda>details.
     result_bind (optional_string params ''path'' ''config.warning'') (\<lambda>path.
     Inr (redact_line
       (summary @ (case nonempty details of Some d \<Rightarrow> '': '' @ d | None \<Rightarrow> [])
                @ (case nonempty path of Some p \<Rightarrow> '' ['' @ p @ '']'' | None \<Rightarrow> []))))))"

definition validate_unsubscribe_response :: "json \<Rightarrow> unit result" where
  "validate_unsubscribe_response response =
     (case get_str ''status'' response of
        None \<Rightarrow> Inl (protocol_field ''thread.unsubscribe'' ''status'')
      | Some s \<Rightarrow>
          if s \<in> {''notLoaded'', ''notSubscribed'', ''unsubscribed''} then Inr ()
          else Inl (new_error Protocol ''thread.unsubscribe''
                      (''unexpected unsubscribe status '' @ quoted s)))"

definition compact_notification :: "json \<Rightarrow> string" where
  "compact_notification params =
     (case get_str ''message'' params of
        Some msg \<Rightarrow> redact_line msg
      | None \<Rightarrow> ''notification captured without exposing raw provider payload'')"

definition usage_from_notification :: "json \<Rightarrow> usage result" where
  "usage_from_notification params =
     (let op = ''token_usage.updated'';
          u64 = (\<lambda>v field. ok_or (protocol_field op field) (Option.bind (jget field v) as_u64))
      in result_bind (ok_or (protocol_field op ''tokenUsage'') (jget ''tokenUsage'' params)) (\<lambda>use.
         result_bind (ok_or (protocol_field op ''tokenUsage.last'') (jget ''last'' use)) (\<lambda>last_use.
         result_bind
           (case jget ''modelContextWindow'' use of
              None \<Rightarrow> Inr None
            | Some JNull \<Rightarrow> Inr None
            | Some v \<Rightarrow>
                result_bind (ok_or (protocol_field op ''tokenUsage.modelContextWindow'') (as_u64 v))
                  (\<lambda>n. Inr (Some n))) (\<lambda>window.
         result_bind (u64 last_use ''inputTokens'') (\<lambda>input_tokens.
         result_bind (u64 last_use ''cachedInputTokens'') (\<lambda>cached.
         result_bind (u64 last_use ''outputTokens'') (\<lambda>output_tokens.
         result_bind (u64 last_use ''reasoningOutputTokens'') (\<lambda>reasoning.
         result_bind (u64 last_use ''totalTokens'') (\<lambda>total.
         Inr \<lparr>us_input_tokens = input_tokens, us_cached_input_tokens = cached,
              us_output_tokens = output_tokens, us_reasoning_output_tokens = reasoning,
              us_total_tokens = total, us_model_context_window = window\<rparr>)))))))))"

section \<open>Items\<close>

definition command_from_item :: "json \<Rightarrow> command_summary result" where
  "command_from_item item =
     result_bind (required_non_empty_string item ''id'' ''item.commandExecution'') (\<lambda>item_id.
     result_bind (required_non_empty_string item ''command'' ''item.commandExecution'') (\<lambda>command.
     result_bind (required_non_empty_string item ''cwd'' ''item.commandExecution'') (\<lambda>cwd.
     result_bind (required_non_empty_string item ''status'' ''item.commandExecution'') (\<lambda>status.
     Inr \<lparr>cs_item_id = item_id, cs_command = command, cs_cwd = Some cwd, cs_status = status\<rparr>))))"

definition file_change_paths :: "json \<Rightarrow> string \<Rightarrow> string list result" where
  "file_change_paths v operation =
     result_bind (ok_or (protocol_field operation ''changes'')
                    (Option.bind (jget ''changes'' v) as_array)) (\<lambda>changes.
     result_map_from 0 (\<lambda>index change.
       ok_or (protocol_field operation (''changes['' @ show_nat index @ ''].path''))
         (get_nonempty_str ''path'' change)) changes)"

definition file_change_from_item :: "json \<Rightarrow> file_change_summary result" where
  "file_change_from_item item =
     result_bind (required_non_empty_string item ''id'' ''item.fileChange'') (\<lambda>item_id.
     result_bind (file_change_paths item ''item.fileChange'') (\<lambda>paths.
     result_bind (required_non_empty_string item ''status'' ''item.fileChange'') (\<lambda>status.
     Inr \<lparr>fc_item_id = item_id, fc_paths = paths, fc_status = status\<rparr>)))"

definition file_change_from_patch :: "json \<Rightarrow> file_change_summary result" where
  "file_change_from_patch params =
     result_bind (required_non_empty_string params ''itemId'' ''item.fileChange.patchUpdated'') (\<lambda>item_id.
     result_bind (file_change_paths params ''item.fileChange.patchUpdated'') (\<lambda>paths.
     Inr \<lparr>fc_item_id = item_id, fc_paths = paths, fc_status = ''inProgress''\<rparr>))"

definition is_absolute :: "string \<Rightarrow> bool" where
  "is_absolute path \<longleftrightarrow> starts_with path ''/''"

definition parse_image_generation_failure :: "json option \<Rightarrow> image_generation_failure option result" where
  "parse_image_generation_failure v0 =
     (case (case v0 of Some v \<Rightarrow> if is_null v then None else Some v | None \<Rightarrow> None) of
        None \<Rightarrow> Inr None
      | Some v \<Rightarrow>
          (case get_str ''type'' v of
             None \<Rightarrow> Inl (protocol_field ''item.imageGeneration'' ''failure.type'')
           | Some kind \<Rightarrow>
               if kind = ''usageLimitExceeded'' then
                 result_bind (required_non_empty_string v ''limitId'' ''item.imageGeneration'') (\<lambda>limit_id.
                 result_bind
                   (case jget ''resetsAt'' v of
                      None \<Rightarrow> Inr None
                    | Some JNull \<Rightarrow> Inr None
                    | Some w \<Rightarrow>
                        result_bind (ok_or (protocol_field ''item.imageGeneration'' ''failure.resetsAt'')
                                       (as_i64 w)) (\<lambda>n. Inr (Some n))) (\<lambda>resets_at.
                 Inr (Some (UsageLimitExceeded limit_id resets_at))))
               else Inl (new_error Protocol ''item.imageGeneration''
                           (''unexpected image-generation failure type '' @ quoted kind))))"

definition image_generation_with_status :: "json \<Rightarrow> bool \<Rightarrow> image_generation result" where
  "image_generation_with_status item allow_empty_status =
     (let op = ''item.imageGeneration''
      in result_bind (optional_string item ''savedPath'' op) (\<lambda>saved_path.
         if (case saved_path of None \<Rightarrow> False | Some p \<Rightarrow> \<not> is_absolute p)
         then Inl (protocol_field op ''savedPath'')
         else
           result_bind (if allow_empty_status then required_string item ''status'' op
                        else required_non_empty_string item ''status'' op) (\<lambda>status.
           result_bind (required_non_empty_string item ''id'' op) (\<lambda>item_id.
           result_bind (optional_string item ''revisedPrompt'' op) (\<lambda>revised.
           result_bind (required_string item ''result'' op) (\<lambda>res.
           result_bind (optional_bool item ''transparentBackground'' op) (\<lambda>transparent.
           result_bind (parse_image_generation_failure (jget ''failure'' item)) (\<lambda>fl.
           Inr \<lparr>ig_id = item_id, ig_status = status, ig_revised_prompt = revised,
                ig_result_base64 = res, ig_transparent_background = transparent,
                ig_failure = fl, ig_saved_path = saved_path\<rparr>))))))))"

definition image_generation_from_item :: "json \<Rightarrow> image_generation result" where
  "image_generation_from_item item = image_generation_with_status item False"

definition image_generation_from_started_item :: "json \<Rightarrow> image_generation result" where
  "image_generation_from_started_item item = image_generation_with_status item True"

section \<open>Audit of a persisted turn\<close>

definition audit_error :: "string \<Rightarrow> error" where
  "audit_error msg = new_error Protocol ''thread.read'' msg"

definition turn_field :: "nat \<Rightarrow> string \<Rightarrow> error" where
  "turn_field index field =
     protocol_field ''thread.read'' (''thread.turns['' @ show_nat index @ ''].'' @ field)"

text \<open>The search for the one turn of an identifier.\<close>

fun find_turn :: "string \<Rightarrow> nat \<Rightarrow> (nat \<times> json) option \<Rightarrow> json list \<Rightarrow> (nat \<times> json) option result" where
  "find_turn target_id index target [] = Inr target"
| "find_turn target_id index target (turn # turns) =
     result_bind (ok_or (turn_field index ''id'') (get_nonempty_str ''id'' turn)) (\<lambda>turn_id.
       if turn_id = target_id
       then (if target \<noteq> None
             then Inl (audit_error (''thread history contains duplicate target turn '' @ quoted target_id))
             else find_turn target_id (Suc index) (Some (index, turn)) turns)
       else find_turn target_id (Suc index) target turns)"

definition item_field :: "nat \<Rightarrow> nat \<Rightarrow> string \<Rightarrow> error" where
  "item_field turn_index item_index field =
     turn_field turn_index (''items['' @ show_nat item_index @ ''].'' @ field)"

definition add_item :: "string \<Rightarrow> json \<Rightarrow> turn_audit \<Rightarrow> turn_audit result" where
  "add_item item_type item audit =
     (if item_type = ''commandExecution''
      then result_bind (command_from_item item) (\<lambda>c. Inr (audit\<lparr>ta_commands := ta_commands audit @ [c]\<rparr>))
      else if item_type = ''fileChange''
      then result_bind (file_change_from_item item) (\<lambda>f.
             Inr (audit\<lparr>ta_file_changes := ta_file_changes audit @ [f]\<rparr>))
      else if item_type = ''imageGeneration''
      then result_bind (image_generation_from_item item) (\<lambda>g.
             Inr (audit\<lparr>ta_image_generations := ta_image_generations audit @ [g]\<rparr>))
      else Inr (audit\<lparr>ta_other_item_types := ta_other_item_types audit @ [item_type]\<rparr>))"

fun audit_items :: "string \<Rightarrow> nat \<Rightarrow> nat \<Rightarrow> string list \<Rightarrow> turn_audit \<Rightarrow> json list \<Rightarrow> turn_audit result" where
  "audit_items target_id turn_index item_index seen audit [] = Inr audit"
| "audit_items target_id turn_index item_index seen audit (item # items) =
     result_bind (ok_or (item_field turn_index item_index ''type'') (get_nonempty_str ''type'' item)) (\<lambda>item_type.
     result_bind (ok_or (item_field turn_index item_index ''id'') (get_nonempty_str ''id'' item)) (\<lambda>item_id.
       if item_id \<in> set seen
       then Inl (audit_error (''target turn '' @ quoted target_id @ '' contains duplicate item id ''
                   @ quoted item_id))
       else result_bind (add_item item_type item audit) (\<lambda>audit1.
              audit_items target_id turn_index (Suc item_index) (item_id # seen) audit1 items)))"

definition check_turn_status :: "string \<Rightarrow> nat \<Rightarrow> json \<Rightarrow> unit result" where
  "check_turn_status target_id turn_index turn =
     (case get_str ''status'' turn of
        None \<Rightarrow> Inl (turn_field turn_index ''status'')
      | Some status \<Rightarrow>
          if status = ''completed'' then Inr ()
          else Inl (audit_error (''target turn '' @ quoted target_id @ '' is not completed (status ''
                      @ quoted status @ '')'')))"

definition check_items_view :: "string \<Rightarrow> nat \<Rightarrow> json \<Rightarrow> unit result" where
  "check_items_view target_id turn_index turn =
     (case jget ''itemsView'' turn of
        None \<Rightarrow> Inr ()
      | Some (JString v) \<Rightarrow>
          if v = ''full'' then Inr ()
          else Inl (audit_error (''target turn '' @ quoted target_id @ '' returned partial items view ''
                      @ quoted v))
      | Some _ \<Rightarrow> Inl (turn_field turn_index ''itemsView''))"

definition parse_turn_audit :: "json \<Rightarrow> string \<Rightarrow> string \<Rightarrow> turn_audit result" where
  "parse_turn_audit response expected_thread_id target_id =
     result_bind (ok_or (protocol_field ''thread.read'' ''thread'') (jget ''thread'' response)) (\<lambda>thread.
     result_bind (required_non_empty_string thread ''id'' ''thread.read'') (\<lambda>observed.
     if observed \<noteq> expected_thread_id
     then Inl (audit_error (''app-server returned thread '' @ quoted observed
                 @ '' instead of requested thread '' @ quoted expected_thread_id))
     else
       result_bind (ok_or (protocol_field ''thread.read'' ''thread.turns'')
                      (Option.bind (jget ''turns'' thread) as_array)) (\<lambda>turns.
       result_bind (find_turn target_id 0 None turns) (\<lambda>target.
       (case target of
          None \<Rightarrow> Inl (audit_error (''thread history does not contain target turn '' @ quoted target_id))
        | Some (turn_index, turn) \<Rightarrow>
            result_bind (check_turn_status target_id turn_index turn) (\<lambda>_.
            result_bind (check_items_view target_id turn_index turn) (\<lambda>_.
            result_bind (ok_or (turn_field turn_index ''items'')
                           (Option.bind (jget ''items'' turn) as_array)) (\<lambda>items.
            audit_items target_id turn_index 0 []
              \<lparr>ta_turn_id = target_id, ta_commands = [], ta_file_changes = [], ta_image_generations = [],
               ta_other_item_types = []\<rparr> items))))))))"

section \<open>What an audit shows\<close>

definition items_of_type :: "string \<Rightarrow> json list \<Rightarrow> json list" where
  "items_of_type kind items = filter (\<lambda>i. get_nonempty_str ''type'' i = Some kind) items"

definition typed_kinds :: "string list" where
  "typed_kinds = [''commandExecution'', ''fileChange'', ''imageGeneration'']"

definition other_types :: "json list \<Rightarrow> string list" where
  "other_types items =
     filter (\<lambda>t. t \<notin> set typed_kinds) (map (\<lambda>i. the (get_nonempty_str ''type'' i)) items)"

lemma find_turn_later:
  assumes "find_turn target_id index (Some (k, turn)) turns = Inr (Some (m, u))"
  shows "(m, u) = (k, turn) \<and> (\<forall>t \<in> set turns. get_nonempty_str ''id'' t \<noteq> Some target_id)"
  using assms
proof (induction turns arbitrary: index)
  case Nil
  then show ?case by simp
next
  case (Cons t turns)
  obtain tid where tid: "get_nonempty_str ''id'' t = Some tid"
    using Cons.prems by (cases "get_nonempty_str ''id'' t") (simp_all add: result_simps)
  with Cons.prems have ne: "tid \<noteq> target_id" by (auto simp: result_simps split: if_splits)
  then have "find_turn target_id (Suc index) (Some (k, turn)) turns = Inr (Some (m, u))"
    using Cons.prems tid by (simp add: result_simps)
  from Cons.IH [OF this] show ?case using ne tid by simp
qed

lemma find_turn_unique:
  assumes "find_turn target_id index None turns = Inr (Some (k, turn))"
  shows "\<exists>before after. turns = before @ turn # after \<and> k = index + length before \<and>
           get_nonempty_str ''id'' turn = Some target_id \<and>
           (\<forall>t \<in> set (before @ after). get_nonempty_str ''id'' t \<noteq> Some target_id)"
  using assms
proof (induction turns arbitrary: index)
  case Nil
  then show ?case by simp
next
  case (Cons t turns)
  obtain tid where tid: "get_nonempty_str ''id'' t = Some tid"
    using Cons.prems by (cases "get_nonempty_str ''id'' t") (simp_all add: result_simps)
  show ?case
  proof (cases "tid = target_id")
    case True
    then have "find_turn target_id (Suc index) (Some (index, t)) turns = Inr (Some (k, turn))"
      using Cons.prems tid by (simp add: result_simps)
    from find_turn_later [OF this] show ?thesis
      using True tid by (intro exI [of _ "[]"] exI [of _ turns]) simp
  next
    case False
    then have "find_turn target_id (Suc index) None turns = Inr (Some (k, turn))"
      using Cons.prems tid by (simp add: result_simps)
    from Cons.IH [OF this] obtain before after where
      "turns = before @ turn # after" "k = Suc index + length before"
      "get_nonempty_str ''id'' turn = Some target_id"
      "\<forall>t \<in> set (before @ after). get_nonempty_str ''id'' t \<noteq> Some target_id" by blast
    then show ?thesis using False tid by (intro exI [of _ "t # before"] exI [of _ after]) simp
  qed
qed

text \<open>Converting a list of items one by one, in order, the first failure deciding.\<close>

definition item_ids :: "json list \<Rightarrow> string option list" where
  "item_ids items = map (get_nonempty_str ''id'') items"

definition audit_of :: "turn_audit \<Rightarrow> json list \<Rightarrow> turn_audit \<Rightarrow> bool" where
  "audit_of start items audit \<longleftrightarrow>
     ta_turn_id audit = ta_turn_id start \<and>
     map Inr (ta_commands audit) =
       map Inr (ta_commands start) @ map command_from_item (items_of_type ''commandExecution'' items) \<and>
     map Inr (ta_file_changes audit) =
       map Inr (ta_file_changes start) @ map file_change_from_item (items_of_type ''fileChange'' items) \<and>
     map Inr (ta_image_generations audit) =
       map Inr (ta_image_generations start) @
         map image_generation_from_item (items_of_type ''imageGeneration'' items) \<and>
     ta_other_item_types audit = ta_other_item_types start @ other_types items"

lemma add_item_audit_of:
  assumes "get_nonempty_str ''type'' item = Some item_type" "add_item item_type item audit = Inr audit1"
  shows "audit_of audit [item] audit1"
  using assms
  by (auto simp: add_item_def audit_of_def items_of_type_def other_types_def typed_kinds_def result_simps
      split: if_splits)

lemma audit_of_trans:
  assumes "audit_of a xs b" "audit_of b ys c"
  shows "audit_of a (xs @ ys) c"
  using assms by (simp add: audit_of_def items_of_type_def other_types_def)

lemma audit_items_Inr:
  assumes "audit_items target_id turn_index item_index seen audit items = Inr result_audit"
  shows "audit_of audit items result_audit \<and>
         (\<forall>i \<in> set (item_ids items). i \<noteq> None \<and> i \<notin> Some ` set seen) \<and> distinct (item_ids items)"
  using assms
proof (induction items arbitrary: item_index seen audit)
  case Nil
  then show ?case by (simp add: audit_of_def items_of_type_def other_types_def item_ids_def)
next
  case (Cons item items)
  obtain ty where ty: "get_nonempty_str ''type'' item = Some ty"
    using Cons.prems by (cases "get_nonempty_str ''type'' item") (simp_all add: result_simps)
  obtain i where i: "get_nonempty_str ''id'' item = Some i"
    using Cons.prems ty by (cases "get_nonempty_str ''id'' item") (simp_all add: result_simps)
  have fresh: "i \<notin> set seen" using Cons.prems ty i by (auto simp: result_simps split: if_splits)
  obtain audit1 where a: "add_item ty item audit = Inr audit1"
    using Cons.prems ty i fresh by (cases "add_item ty item audit") (simp_all add: result_simps)
  have "audit_items target_id turn_index (Suc item_index) (i # seen) audit1 items = Inr result_audit"
    using Cons.prems ty i fresh a by (simp add: result_simps)
  note ih = Cons.IH [OF this]
  have "audit_of audit ([item] @ items) result_audit"
    by (rule audit_of_trans [OF add_item_audit_of [OF ty a]]) (use ih in blast)
  then show ?case using ih i fresh by (auto simp: item_ids_def)
qed

text \<open>C30: An accepted audit is about the requested thread and about its one turn with the requested
  identifier, which is completed and fully shown: the history splits at that turn and no other turn
  carries the identifier. Every item of the turn has an identifier of its own, and the audit is the
  conversion of all its items: the commands, the file changes and the image generations are the
  items of these types in the order of the turn, every one of them valid, and the remaining types
  are listed in order, so that no item of a turn is left out of its audit.\<close>

theorem audit_is_complete:
  assumes "parse_turn_audit response thread_id turn_id = Inr audit"
  shows "\<exists>thread before turn after items.
           jget ''thread'' response = Some thread \<and> jget ''id'' thread = Some (JString thread_id) \<and>
           jget ''turns'' thread = Some (JArray (before @ turn # after)) \<and>
           get_nonempty_str ''id'' turn = Some turn_id \<and>
           Some turn_id \<notin> set (item_ids (before @ after)) \<and>
           jget ''status'' turn = Some (JString ''completed'') \<and>
           (jget ''itemsView'' turn = None \<or> jget ''itemsView'' turn = Some (JString ''full'')) \<and>
           jget ''items'' turn = Some (JArray items) \<and> None \<notin> set (item_ids items) \<and>
           distinct (item_ids items) \<and> ta_turn_id audit = turn_id \<and>
           map Inr (ta_commands audit) =
             map command_from_item (items_of_type ''commandExecution'' items) \<and>
           map Inr (ta_file_changes audit) =
             map file_change_from_item (items_of_type ''fileChange'' items) \<and>
           map Inr (ta_image_generations audit) =
             map image_generation_from_item (items_of_type ''imageGeneration'' items) \<and>
           ta_other_item_types audit = other_types items"
proof -
  let ?start = "\<lparr>ta_turn_id = turn_id, ta_commands = [], ta_file_changes = [],
    ta_image_generations = [], ta_other_item_types = []\<rparr>"
  obtain thread where thread: "jget ''thread'' response = Some thread"
    and id: "required_non_empty_string thread ''id'' ''thread.read'' = Inr thread_id"
    using assms by (auto simp: parse_turn_audit_def result_simps split: if_splits)
  obtain turns k turn items where turns: "jget ''turns'' thread = Some (JArray turns)"
    and found: "find_turn turn_id 0 None turns = Inr (Some (k, turn))"
    and status: "check_turn_status turn_id k turn = Inr ()"
    and view: "check_items_view turn_id k turn = Inr ()"
    and items: "jget ''items'' turn = Some (JArray items)"
    and run: "audit_items turn_id k 0 [] ?start items = Inr audit"
    using assms thread id
    by (auto simp: parse_turn_audit_def result_simps accessor_iffs Option.bind_eq_Some_conv
        split: if_splits option.splits)
  have "jget ''id'' thread = Some (JString thread_id)"
    using id by (auto simp: required_non_empty_string_def required_string_def result_simps
        get_nonempty_str_Some_iff get_str_Some_iff split: if_splits)
  moreover obtain before after where "turns = before @ turn # after"
    "get_nonempty_str ''id'' turn = Some turn_id"
    "\<forall>t \<in> set (before @ after). get_nonempty_str ''id'' t \<noteq> Some turn_id"
    using find_turn_unique [OF found] by blast
  moreover have "jget ''status'' turn = Some (JString ''completed'')"
    using status by (auto simp: check_turn_status_def get_str_Some_iff split: option.splits if_splits)
  moreover have "jget ''itemsView'' turn = None \<or> jget ''itemsView'' turn = Some (JString ''full'')"
    using view by (auto simp: check_items_view_def split: option.splits json.splits if_splits)
  moreover have "audit_of ?start items audit" "None \<notin> set (item_ids items)" "distinct (item_ids items)"
    using audit_items_Inr [OF run] by auto
  moreover have "Some turn_id \<notin> set (item_ids (before @ after))"
    if "\<forall>t \<in> set (before @ after). get_nonempty_str ''id'' t \<noteq> Some turn_id" for before after
    using that by (auto simp: item_ids_def)
  ultimately show ?thesis
    using thread turns items
    by (intro exI [of _ thread] exI [of _ before] exI [of _ turn] exI [of _ after] exI [of _ items])
       (simp add: audit_of_def del: map_eq_append_conv append_eq_map_conv)
qed

definition sample_item :: "string \<Rightarrow> string \<Rightarrow> json" where
  "sample_item kind i = jobj [(''type'', JString kind), (''id'', JString i)]"

definition sample_history :: json where
  "sample_history = jobj [(''thread'', jobj [(''id'', JString ''t''), (''turns'', JArray
     [jobj [(''id'', JString ''u'')],
      jobj [(''id'', JString ''v''), (''status'', JString ''completed''), (''items'', JArray
        [sample_item ''agentMessage'' ''a'',
         jobj [(''type'', JString ''commandExecution''), (''id'', JString ''b''),
               (''command'', JString ''pwd''), (''cwd'', JString ''/''), (''status'', JString ''completed'')],
         sample_item ''reasoning'' ''c''])]])])]"

lemma audit_is_complete_witness:
  "\<exists>audit. parse_turn_audit sample_history ''t'' ''v'' = Inr audit \<and>
     length (ta_commands audit) = 1 \<and> ta_turn_id audit = ''v'' \<and>
     ta_other_item_types audit = [''agentMessage'', ''reasoning'']"
proof -
  have run: "parse_turn_audit sample_history ''t'' ''v'' = Inr \<lparr>ta_turn_id = ''v'',
      ta_commands = [\<lparr>cs_item_id = ''b'', cs_command = ''pwd'', cs_cwd = Some ''/'', cs_status = ''completed''\<rparr>],
      ta_file_changes = [], ta_image_generations = [], ta_other_item_types = [''agentMessage'', ''reasoning'']\<rparr>"
    by code_simp
  from audit_is_complete [OF run] show ?thesis using run by auto
qed

end
