(* ===== verification/Sessions.thy ===== *)
theory Sessions
  imports Protocol
begin

text \<open>
  The values of \<open>src/src/session.rs\<close>: the registry of loaded threads, sandbox, reasoning effort, the
  inputs of a turn and the options of a session with their checks. A path is the string of its
  bytes. The file system is a pair of parameters: \<open>stat\<close> (the error text of \<open>metadata\<close>, or
  whether the path names a regular file) and \<open>open_file\<close> (the error text of \<open>File::open\<close>);
  \<open>print_json\<close> is \<open>serde_json::to_vec\<close>.
\<close>

section \<open>Loaded threads\<close>

text \<open>The set of identifiers, in the order of their insertion.\<close>

type_synonym session_registry = "string list"

definition new_sessions :: session_registry where
  "new_sessions = []"

definition contains_session :: "string \<Rightarrow> session_registry \<Rightarrow> bool" where
  "contains_session thread_id ids \<longleftrightarrow> thread_id \<in> set ids"

definition insert_session :: "string \<Rightarrow> session_registry \<Rightarrow> bool \<times> session_registry" where
  "insert_session thread_id ids =
     (if thread_id \<in> set ids then (False, ids) else (True, ids @ [thread_id]))"

definition remove_session :: "string \<Rightarrow> session_registry \<Rightarrow> session_registry" where
  "remove_session thread_id ids = filter (\<lambda>i. i \<noteq> thread_id) ids"

definition clear_sessions :: "session_registry \<Rightarrow> session_registry" where
  "clear_sessions ids = []"

lemma insert_session_distinct: "distinct ids \<Longrightarrow> distinct (snd (insert_session i ids))"
  by (simp add: insert_session_def)

lemma remove_session_distinct: "distinct ids \<Longrightarrow> distinct (remove_session i ids)"
  by (simp add: remove_session_def)

section \<open>Sandbox, effort, image detail\<close>

datatype sandbox = ReadOnly | WorkspaceWrite

definition sandbox_mode :: "sandbox \<Rightarrow> string" where
  "sandbox_mode s = (case s of ReadOnly \<Rightarrow> ''read-only'' | WorkspaceWrite \<Rightarrow> ''workspace-write'')"

definition approval_policy :: "sandbox \<Rightarrow> string" where
  "approval_policy s = (case s of ReadOnly \<Rightarrow> ''never'' | WorkspaceWrite \<Rightarrow> ''on-request'')"

datatype reasoning_effort =
    EffortNone | EffortLow | EffortMedium | EffortHigh | EffortXHigh | EffortMax

definition effort_value :: "reasoning_effort \<Rightarrow> string" where
  "effort_value e =
     (case e of EffortNone \<Rightarrow> ''none'' | EffortLow \<Rightarrow> ''low'' | EffortMedium \<Rightarrow> ''medium''
      | EffortHigh \<Rightarrow> ''high'' | EffortXHigh \<Rightarrow> ''xhigh'' | EffortMax \<Rightarrow> ''max'')"

datatype image_detail = DetailAuto | DetailLow | DetailHigh | DetailOriginal

definition detail_value :: "image_detail \<Rightarrow> string" where
  "detail_value d =
     (case d of DetailAuto \<Rightarrow> ''auto'' | DetailLow \<Rightarrow> ''low'' | DetailHigh \<Rightarrow> ''high''
      | DetailOriginal \<Rightarrow> ''original'')"

section \<open>Turn inputs\<close>

datatype turn_input = InputText string | LocalImage string "image_detail option"

text \<open>The components of a path that the check looks for: the parts between slashes.\<close>

fun path_parts :: "string \<Rightarrow> string list" where
  "path_parts [] = [[]]"
| "path_parts (c # cs) =
     (if c = CHR ''/'' then [] # path_parts cs
      else (case path_parts cs of [] \<Rightarrow> [[c]] | p # ps \<Rightarrow> (c # p) # ps))"

definition has_parent_dir :: "string \<Rightarrow> bool" where
  "has_parent_dir path \<longleftrightarrow> ''..'' \<in> set (path_parts path)"

definition has_nul :: "string \<Rightarrow> bool" where
  "has_nul s \<longleftrightarrow> CHR 0x00 \<in> set s"

definition start_error :: "string \<Rightarrow> error" where
  "start_error msg = new_error InvalidInput ''Session::start'' msg"

definition validate_input ::
  "(string \<Rightarrow> string + bool) \<Rightarrow> (string \<Rightarrow> string option) \<Rightarrow> turn_input \<Rightarrow> unit result" where
  "validate_input stat open_file inp =
     (case inp of
        InputText s \<Rightarrow>
          if is_blank s \<or> 8388608 < length s \<or> has_nul s
          then Inl (start_error ''text input must be a bounded non-empty UTF-8 value'')
          else Inr ()
      | LocalImage path _ \<Rightarrow>
          if \<not> is_absolute path \<or> path = [] \<or> has_nul path \<or> has_parent_dir path
          then Inl (start_error ''local image path must be absolute and free of parent traversal'')
          else case stat path of
            Inl text \<Rightarrow> Inl (start_error (''local image path is not readable: '' @ text))
          | Inr is_file \<Rightarrow>
              if \<not> is_file then Inl (start_error ''local image path must name a regular file'')
              else case open_file path of
                Some text \<Rightarrow> Inl (start_error (''local image path is not readable: '' @ text))
              | None \<Rightarrow> Inr ())"

definition input_to_native :: "turn_input \<Rightarrow> json" where
  "input_to_native inp =
     (case inp of
        InputText s \<Rightarrow>
          jobj [(''type'', JString ''text''), (''text'', JString s), (''text_elements'', JArray [])]
      | LocalImage path detail \<Rightarrow>
          (let kvs = [(''type'', JString ''localImage''), (''path'', JString path)]
           in case detail of
                None \<Rightarrow> jobj kvs
              | Some d \<Rightarrow> jobj (kvs @ [(''detail'', JString (detail_value d))])))"

text \<open>Every input is checked in order, the first failure ends the batch.\<close>

fun validate_inputs ::
  "(string \<Rightarrow> string + bool) \<Rightarrow> (string \<Rightarrow> string option) \<Rightarrow> turn_input list \<Rightarrow> unit result" where
  "validate_inputs stat open_file [] = Inr ()"
| "validate_inputs stat open_file (i # is) =
     result_bind (validate_input stat open_file i) (\<lambda>_. validate_inputs stat open_file is)"

lemma validate_inputs_Inr:
  "validate_inputs stat open_file is = Inr () \<longleftrightarrow> (\<forall>i \<in> set is. validate_input stat open_file i = Inr ())"
  by (induction "is") (auto simp: result_simps)

section \<open>Session options\<close>

record session_options =
  so_cwd :: string
  so_sandbox :: sandbox
  so_ephemeral :: bool
  so_model :: "string option"
  so_reasoning :: reasoning_effort
  so_base_instructions :: "string option"
  so_developer_instructions :: "string option"
  so_text_only :: bool
  so_image_only :: bool
  so_output_schema :: "json option"
  so_turn_timeout :: duration
  so_maximum_output_bytes :: nat

definition DEFAULT_TURN_TIMEOUT :: duration where
  "DEFAULT_TURN_TIMEOUT = 1800000000000"

definition DEFAULT_MAXIMUM_OUTPUT_BYTES :: nat where
  "DEFAULT_MAXIMUM_OUTPUT_BYTES = 8388608"

definition MAXIMUM_OUTPUT_BYTES :: nat where
  "MAXIMUM_OUTPUT_BYTES = 67108864"

definition read_only_options :: "string \<Rightarrow> session_options" where
  "read_only_options cwd =
     \<lparr>so_cwd = cwd, so_sandbox = ReadOnly, so_ephemeral = False, so_model = None,
      so_reasoning = EffortMedium, so_base_instructions = None, so_developer_instructions = None,
      so_text_only = False, so_image_only = False, so_output_schema = None,
      so_turn_timeout = DEFAULT_TURN_TIMEOUT,
      so_maximum_output_bytes = DEFAULT_MAXIMUM_OUTPUT_BYTES\<rparr>"

definition workspace_write_options :: "string \<Rightarrow> session_options" where
  "workspace_write_options cwd =
     \<lparr>so_cwd = cwd, so_sandbox = WorkspaceWrite, so_ephemeral = False, so_model = None,
      so_reasoning = EffortMedium, so_base_instructions = None, so_developer_instructions = None,
      so_text_only = False, so_image_only = False, so_output_schema = None,
      so_turn_timeout = DEFAULT_TURN_TIMEOUT,
      so_maximum_output_bytes = DEFAULT_MAXIMUM_OUTPUT_BYTES\<rparr>"

definition ephemeral_options :: "session_options \<Rightarrow> session_options" where
  "ephemeral_options o1 = o1\<lparr>so_ephemeral := True\<rparr>"

definition options_error :: "string \<Rightarrow> error" where
  "options_error msg = new_error InvalidInput ''SessionOptions::validate'' msg"

definition validate_instructions :: "string \<Rightarrow> string option \<Rightarrow> unit result" where
  "validate_instructions name instructions =
     (case instructions of
        None \<Rightarrow> Inr ()
      | Some s \<Rightarrow>
          if is_blank s \<or> 1048576 < length s
          then Inl (options_error (name @ '' must contain 1..=1048576 bytes when supplied''))
          else Inr ())"

definition validate_schema :: "(json \<Rightarrow> string + string) \<Rightarrow> json option \<Rightarrow> unit result" where
  "validate_schema print_json schema =
     (case schema of
        None \<Rightarrow> Inr ()
      | Some v \<Rightarrow>
          if \<not> is_object v then Inl (options_error ''output schema must be a JSON object'')
          else case print_json v of
            Inl text \<Rightarrow> Inl (options_error (''output schema is not serializable: '' @ text))
          | Inr bytes \<Rightarrow>
              if 65536 < length bytes then Inl (options_error ''output schema exceeds the 64 KiB bound'')
              else Inr ())"

definition validate_options :: "(json \<Rightarrow> string + string) \<Rightarrow> session_options \<Rightarrow> session_options result" where
  "validate_options print_json opts =
     (if so_cwd opts = [] then Inl (options_error ''working directory must be non-empty'')
      else if so_text_only opts \<and> so_image_only opts
      then Inl (options_error ''text-only and image-only modes are mutually exclusive'')
      else if (case so_model opts of None \<Rightarrow> False | Some m \<Rightarrow> is_blank m)
      then Inl (options_error ''model must be non-empty when supplied'')
      else
        result_bind (validate_instructions ''base instructions'' (so_base_instructions opts)) (\<lambda>_.
        result_bind (validate_instructions ''developer instructions'' (so_developer_instructions opts)) (\<lambda>_.
        if so_turn_timeout opts = 0 then Inl (options_error ''turn timeout must be greater than zero'')
        else result_bind (validate_schema print_json (so_output_schema opts)) (\<lambda>_.
        if so_maximum_output_bytes opts < 1 \<or> MAXIMUM_OUTPUT_BYTES < so_maximum_output_bytes opts
        then Inl (options_error (''maximum output must contain 1..='' @ show_nat MAXIMUM_OUTPUT_BYTES
                    @ '' bytes''))
        else Inr opts))))"

lemma validate_options_Inr:
  "validate_options print_json opts = Inr opts' \<Longrightarrow>
     opts' = opts \<and> so_cwd opts \<noteq> [] \<and> \<not> (so_text_only opts \<and> so_image_only opts) \<and>
     0 < so_turn_timeout opts \<and> 1 \<le> so_maximum_output_bytes opts \<and>
     so_maximum_output_bytes opts \<le> MAXIMUM_OUTPUT_BYTES"
  by (auto simp: validate_options_def result_simps split: if_splits)

lemma validate_options_kind:
  "validate_options print_json opts = Inl e \<Longrightarrow> e_kind e = InvalidInput"
  by (auto simp: validate_options_def validate_instructions_def validate_schema_def options_error_def
      result_simps split: if_splits option.splits sum.splits)

end
