(* ===== verification/ClientBase.thy ===== *)
theory ClientBase
  imports Sessions Transport Requests Connection Logins RunTerminal Approval
begin

text \<open>
  The state of a client (\<open>ClientInner\<close> of \<open>src/src/client.rs\<close>), its configuration
  (\<open>src/src/config.rs\<close>), and what the router and the client's operations share: the disconnect, the
  diagnostics and the deadlines. Everything outside the program that an operation meets is an
  \<open>environment\<close>, a family of inputs numbered by a tick that every interaction advances: two
  interactions never see the same input twice unless the environment wants it.
\<close>

section \<open>Configuration\<close>

record codex_config =
  cf_client_name :: string
  cf_client_title :: string
  cf_request_timeout :: duration
  cf_approval_timeout :: duration
  cf_login_timeout :: duration
  cf_shutdown_timeout :: duration
  cf_max_frame_bytes :: nat
  cf_outbound_capacity :: nat
  cf_event_capacity :: nat
  cf_stderr_capacity :: nat
  cf_image_generation :: bool

definition MIN_FRAME_BYTES :: nat where "MIN_FRAME_BYTES = 65536"
definition MAX_FRAME_BYTES :: nat where "MAX_FRAME_BYTES = 67108864"

definition new_config :: codex_config where
  "new_config =
     \<lparr>cf_client_name = ''vergerail'', cf_client_title = ''Vergerail'',
      cf_request_timeout = 30000000000, cf_approval_timeout = 300000000000,
      cf_login_timeout = 600000000000, cf_shutdown_timeout = 10000000000,
      cf_max_frame_bytes = 16777216, cf_outbound_capacity = 128, cf_event_capacity = 256,
      cf_stderr_capacity = 65536, cf_image_generation = False\<rparr>"

definition config_error :: "string \<Rightarrow> error" where
  "config_error msg = new_error InvalidInput ''CodexConfig::validate'' msg"

definition with_max_frame_bytes :: "nat \<Rightarrow> codex_config \<Rightarrow> codex_config result" where
  "with_max_frame_bytes n c =
     (if n < MIN_FRAME_BYTES \<or> MAX_FRAME_BYTES < n
      then Inl (new_error InvalidInput ''CodexConfig::with_max_frame_bytes''
                  ''frame limit must be between 64 KiB and 64 MiB'')
      else Inr (c\<lparr>cf_max_frame_bytes := n\<rparr>))"

fun positive_values :: "(string \<times> nat) list \<Rightarrow> unit result" where
  "positive_values [] = Inr ()"
| "positive_values ((name, v) # vs) =
     (if v = 0 then Inl (config_error (name @ '' must be greater than zero'')) else positive_values vs)"

definition validate_config :: "codex_config \<Rightarrow> unit result" where
  "validate_config c =
     (if is_blank (cf_client_name c) \<or> is_blank (cf_client_title c)
      then Inl (config_error ''client name and title must be non-empty'')
      else
        result_bind (positive_values
          [(''request_timeout'', cf_request_timeout c), (''approval_timeout'', cf_approval_timeout c),
           (''login_timeout'', cf_login_timeout c), (''shutdown_timeout'', cf_shutdown_timeout c)]) (\<lambda>_.
        if cf_max_frame_bytes c < MIN_FRAME_BYTES \<or> MAX_FRAME_BYTES < cf_max_frame_bytes c
        then Inl (config_error ''frame limit must be between 64 KiB and 64 MiB'')
        else positive_values
          [(''outbound_capacity'', cf_outbound_capacity c), (''event_capacity'', cf_event_capacity c),
           (''stderr_capacity'', cf_stderr_capacity c)]))"

lemma positive_values_Inr: "positive_values vs = Inr () \<longleftrightarrow> (\<forall>(name, v) \<in> set vs. 0 < v)"
  by (induction vs rule: positive_values.induct) auto

lemma validate_config_Inr:
  "validate_config c = Inr () \<Longrightarrow>
     0 < cf_request_timeout c \<and> 0 < cf_shutdown_timeout c \<and> MIN_FRAME_BYTES \<le> cf_max_frame_bytes c \<and>
     cf_max_frame_bytes c \<le> MAX_FRAME_BYTES \<and> 0 < cf_event_capacity c \<and> 0 < cf_stderr_capacity c"
  by (auto simp: validate_config_def result_simps split: if_splits)

section \<open>The environment\<close>

text \<open>
  The printer of JSON, what is left of the absolute deadline, the fate of a send, the events the
  router handles while an operation waits, the fate of a kill and of a shutdown of the process, the
  captured stderr, the events that arrive
  while deferred notifications are replayed, how the router task was joined, and the file
  system: \<open>metadata\<close> (is it a file?), \<open>File::open\<close>, \<open>symlink_metadata\<close> (is it a symbolic link? a
  directory?) and \<open>canonicalize\<close>.
\<close>

record environment =
  en_print :: "json \<Rightarrow> string + string"
  en_remaining :: "nat \<Rightarrow> duration option"
  en_send :: "nat \<Rightarrow> send_inputs"
  en_events :: "nat \<Rightarrow> process_event list"
  en_kill :: "nat \<Rightarrow> kill_inputs"
  en_stderr :: "nat \<Rightarrow> string option"
  en_shutdown :: "nat \<Rightarrow> shutdown_inputs"
  en_rounds :: "nat \<Rightarrow> process_event list list"
  en_router_join :: "nat \<Rightarrow> task_join"
  en_stat :: "string \<Rightarrow> string + bool"
  en_open_file :: "string \<Rightarrow> string option"
  en_inspect :: "string \<Rightarrow> string + bool \<times> bool"
  en_canonical :: "string \<Rightarrow> string + string"

section \<open>The client\<close>

text \<open>A task the client has spawned and that has not run yet.\<close>

datatype client_task =
    InterruptFailedRun string string nat
  | CancelAborted nat
  | CancelRegisteredRun string
  | DisconnectWith error

record client =
  cl_config :: codex_config
  cl_process :: transport
  cl_requests :: request_registry
  cl_runs :: run_world
  cl_sessions :: session_registry
  cl_logins :: login_state
  cl_diagnostics :: diagnostic_buffer
  cl_connection :: connection
  cl_router_running :: bool
  cl_spawned :: "client_task list"
  cl_dropped :: "approval_responder list"
  cl_next_active :: nat
  cl_tick :: nat

definition new_client :: "codex_config \<Rightarrow> client" where
  "new_client cfg =
     \<lparr>cl_config = cfg, cl_process = new_transport (cf_request_timeout cfg) (cf_max_frame_bytes cfg),
      cl_requests = new_requests, cl_runs = new_world, cl_sessions = new_sessions,
      cl_logins = new_logins, cl_diagnostics = new_diagnostics, cl_connection = new_connection,
      cl_router_running = True, cl_spawned = [], cl_dropped = [],
      cl_next_active = 0, cl_tick = 0\<rparr>"

definition next_tick :: "client \<Rightarrow> client" where
  "next_tick c = c\<lparr>cl_tick := Suc (cl_tick c)\<rparr>"

definition spawn_task :: "client_task \<Rightarrow> client \<Rightarrow> client" where
  "spawn_task task c = c\<lparr>cl_spawned := cl_spawned c @ [task]\<rparr>"

section \<open>Deadlines\<close>

text \<open>\<open>remaining_timeout\<close>: what is left of the absolute deadline bounds a requested timeout.\<close>

definition remaining_timeout :: "duration option \<Rightarrow> duration \<Rightarrow> string \<Rightarrow> duration result" where
  "remaining_timeout remaining requested operation =
     (case remaining of
        None \<Rightarrow> Inr requested
      | Some r \<Rightarrow> if r = 0 then Inl (timeout_error operation requested) else Inr (min r requested))"

definition remaining_shutdown_timeout :: "duration option \<Rightarrow> codex_config \<Rightarrow> duration" where
  "remaining_shutdown_timeout remaining cfg =
     (case remaining of
        None \<Rightarrow> cf_shutdown_timeout cfg
      | Some r \<Rightarrow> min r (cf_shutdown_timeout cfg))"

definition operation_deadline_expired :: "duration option \<Rightarrow> bool" where
  "operation_deadline_expired remaining \<longleftrightarrow> (case remaining of None \<Rightarrow> False | Some r \<Rightarrow> r = 0)"

text \<open>The budget of a cleanup, counted from now.\<close>

definition cleanup_budget :: "duration option \<Rightarrow> codex_config \<Rightarrow> duration" where
  "cleanup_budget remaining cfg =
     (case remaining of
        None \<Rightarrow> cf_shutdown_timeout cfg
      | Some r \<Rightarrow> if 0 < r then min r (cf_shutdown_timeout cfg) else cf_shutdown_timeout cfg)"

lemma remaining_timeout_Inr:
  "remaining_timeout remaining requested operation = Inr d \<Longrightarrow>
     d \<le> requested \<and> (0 < requested \<longrightarrow> 0 < d) \<and> (\<forall>r. remaining = Some r \<longrightarrow> d \<le> r)"
  by (auto simp: remaining_timeout_def split: option.splits if_splits)

section \<open>Diagnostics and the end of a connection\<close>

definition push_client_diagnostic :: "string \<Rightarrow> string \<Rightarrow> client \<Rightarrow> client" where
  "push_client_diagnostic meth msg c =
     c\<lparr>cl_diagnostics :=
         push_diagnostic \<lparr>dg_method = meth, dg_message = redact_line msg\<rparr> (cl_diagnostics c)\<rparr>"

definition complete_login :: "string \<Rightarrow> unit result \<Rightarrow> client \<Rightarrow> client" where
  "complete_login login_id res c = c\<lparr>cl_logins := complete_login_id login_id res (cl_logins c)\<rparr>"

text \<open>The error that is published once the process has been killed.\<close>

definition disconnect_error :: "error \<Rightarrow> unit result \<Rightarrow> string option \<Rightarrow> error" where
  "disconnect_error e killed stderr_tail =
     with_stderr
       (case killed of
          Inr _ \<Rightarrow> e
        | Inl termination \<Rightarrow>
            new_error (e_kind e) (e_operation e)
              (e_message e @ ''; runtime termination failed: '' @ error_to_string termination))
       stderr_tail"

definition disconnect :: "environment \<Rightarrow> error \<Rightarrow> client \<Rightarrow> client" where
  "disconnect env e c0 =
     (case begin_disconnect e (cl_connection c0) of
        (False, _) \<Rightarrow> c0
      | (True, conn) \<Rightarrow>
          (let t = cl_tick c0;
               c = next_tick (c0\<lparr>cl_connection := conn\<rparr>)
           in case force_kill (en_kill env t) (cl_process c) of
                (killed, process) \<Rightarrow>
                  (let e1 = disconnect_error e killed (en_stderr env t)
                   in c\<lparr>cl_process := process,
                        cl_connection := replace_failure e1 conn,
                        cl_requests := fail_all_requests e1 (cl_requests c),
                        cl_runs := fail_all e1 (cl_runs c),
                        cl_logins := fail_active_logins e1 (cl_logins c)\<rparr>)))"

text \<open>\<open>process.send\<close> from the client.\<close>

definition client_send :: "environment \<Rightarrow> json \<Rightarrow> client \<Rightarrow> unit result \<times> bool \<times> client" where
  "client_send env v c =
     (case send_tracked (en_print env) (en_send env (cl_tick c)) v (cl_process c) of
        (r, dispatched, process) \<Rightarrow> (r, dispatched, next_tick (c\<lparr>cl_process := process\<rparr>)))"

lemma disconnect_again: "cn_disconnected (cl_connection c) \<Longrightarrow> disconnect env e c = c"
  by (simp add: disconnect_def begin_disconnect_def)

lemma disconnect_disconnects: "cn_disconnected (cl_connection (disconnect env e c))"
  by (cases "cn_disconnected (cl_connection c)")
     (auto simp: disconnect_def begin_disconnect_def replace_failure_def Let_def split: prod.splits)

lemma disconnect_frames: "tr_frames (cl_process (disconnect env e c)) = tr_frames (cl_process c)"
  by (auto simp: disconnect_def Let_def next_tick_def dest: arg_cong [of _ _ "\<lambda>x. tr_frames (snd x)"]
      split: prod.splits bool.splits) (metis force_kill_frames(1) snd_conv)

lemma disconnect_sessions [simp]:
  "cl_sessions (disconnect env e c) = cl_sessions c"
  "cl_config (disconnect env e c) = cl_config c"
  "cl_spawned (disconnect env e c) = cl_spawned c"
  "cl_diagnostics (disconnect env e c) = cl_diagnostics c"
  by (simp_all add: disconnect_def Let_def next_tick_def split: prod.splits bool.splits)

end
