(* ===== verification/Router.thy ===== *)
theory Router
  imports ClientBase Protocol
begin

text \<open>
  \<open>src/src/client/router.rs\<close>: what a client does with each event of its process. The decoding of a
  notification into a run event is separate from the routing of the event; both follow the order of
  the checks in the code. A responder whose event no run keeps is dropped, and its task then sends
  the fail-closed answer (\<open>DropHandle\<close> of \<open>Respond\<close>): it is added to \<open>cl_dropped\<close>. Interrupting a
  failed run is a spawned task.
\<close>

section \<open>Responses\<close>

definition complete_pending :: "environment \<Rightarrow> rpc_id \<Rightarrow> json result \<Rightarrow> client \<Rightarrow> client" where
  "complete_pending env i res c =
     (case complete_request i res (cl_requests c) of
        (CompDelivered, g) \<Rightarrow> c\<lparr>cl_requests := g\<rparr>
      | (CompMissing, g) \<Rightarrow>
          push_client_diagnostic ''rpc/lateResponse''
            (''response for unknown or expired request id '' @ rpc_id_to_string i) (c\<lparr>cl_requests := g\<rparr>)
      | (OrphanedSuccess operation, g) \<Rightarrow>
          disconnect env (new_error OutcomeUnknown operation
            ''a successful non-idempotent response could not be committed to its caller; the runtime was terminated and the request was not retried'')
            (c\<lparr>cl_requests := g\<rparr>))"

section \<open>Routing a run event\<close>

definition dropped_responder :: "event \<Rightarrow> approval_responder list" where
  "dropped_responder ev = (case ev of ApprovalRequested a \<Rightarrow> [event_responder a] | _ \<Rightarrow> [])"

definition drop_event :: "event \<Rightarrow> client \<Rightarrow> client" where
  "drop_event ev c = c\<lparr>cl_dropped := cl_dropped c @ dropped_responder ev\<rparr>"

definition route_run_event ::
  "string \<Rightarrow> string option \<Rightarrow> string \<Rightarrow> event \<Rightarrow> bool \<Rightarrow> client \<Rightarrow> client" where
  "route_run_event thread_id observed source_method ev defer_while_starting c =
     (case registry_route_event thread_id observed source_method ev defer_while_starting
             (cf_event_capacity (cl_config c)) (cl_runs c) of
        (out, w) \<Rightarrow>
          (let c1 = c\<lparr>cl_runs := w\<rparr> in
           case out of
             ReDelivered \<Rightarrow> c1
           | ReDeferred \<Rightarrow> c1
           | ReIgnoredBeforeTurn \<Rightarrow> drop_event ev c1
           | ReIgnoredAfterAbandon \<Rightarrow> drop_event ev c1
           | ReIgnoredAfterFailure \<Rightarrow> drop_event ev c1
           | ReUnregistered \<Rightarrow>
               push_client_diagnostic ''rpc/unroutedNotification''
                 (quoted source_method @ '' targeted inactive thread '' @ quoted thread_id)
                 (drop_event ev c1)
           | ReAfterTerminal \<Rightarrow>
               push_client_diagnostic ''rpc/lateTurnNotification''
                 (''discarded '' @ quoted source_method
                    @ '' after the active turn reached a terminal state'')
                 (drop_event ev c1)
           | ReTurnMismatch expected seen \<Rightarrow>
               push_client_diagnostic ''rpc/staleTurnNotification''
                 (''discarded '' @ quoted source_method @ '' for turn '' @ quoted seen
                    @ '' while active turn is '' @ quoted expected)
                 (drop_event ev c1)
           | ReRouteFailure turn_id control \<Rightarrow>
               spawn_task (InterruptFailedRun thread_id turn_id control) (drop_event ev c1)))"

definition send_run_event :: "string \<Rightarrow> string option \<Rightarrow> string \<Rightarrow> event \<Rightarrow> client \<Rightarrow> client" where
  "send_run_event thread_id observed source_method ev c =
     route_run_event thread_id observed source_method ev True c"

section \<open>Terminal notifications\<close>

definition route_terminal_notification ::
  "environment \<Rightarrow> json \<Rightarrow> bool \<Rightarrow> client \<Rightarrow> client" where
  "route_terminal_notification env params defer_while_starting c =
     (case get_nonempty_str ''threadId'' params of
        None \<Rightarrow> disconnect env (protocol_field ''turn.completed'' ''threadId'') c
      | Some thread_id \<Rightarrow>
          (case parse_turn_completion params of
             Inl e \<Rightarrow> disconnect env e c
           | Inr completion \<Rightarrow>
               (case route_terminal thread_id completion params defer_while_starting
                       (cf_event_capacity (cl_config c)) (cl_runs c) of
                  (out, w) \<Rightarrow>
                    (let c1 = c\<lparr>cl_runs := w\<rparr> in
                     case out of
                       TrDeferred \<Rightarrow> c1
                     | TrCompleted \<Rightarrow> c1
                     | TrUnregistered \<Rightarrow>
                         push_client_diagnostic ''turn/completed''
                           (''terminal event for unregistered thread '' @ quoted thread_id) c1
                     | TrDuplicate turn_id \<Rightarrow>
                         disconnect env (new_error Protocol ''turn.completed''
                           (''duplicate terminal event for thread '' @ quoted thread_id @ '' and turn ''
                              @ quoted turn_id)) c1
                     | TrTurnMismatch expected seen \<Rightarrow>
                         push_client_diagnostic ''rpc/staleTurnNotification''
                           (''discarded terminal event for turn '' @ quoted seen
                              @ '' while active turn is '' @ quoted expected) c1))))"

section \<open>Login completions\<close>

definition handle_login_completed :: "environment \<Rightarrow> json \<Rightarrow> client \<Rightarrow> client" where
  "handle_login_completed env params c =
     (case get_nonempty_str ''loginId'' params of
        None \<Rightarrow> disconnect env (protocol_field ''account.login.completed'' ''loginId'') c
      | Some login_id \<Rightarrow>
          (case Option.bind (jget ''success'' params) as_bool of
             None \<Rightarrow> disconnect env (protocol_field ''account.login.completed'' ''success'') c
           | Some ok \<Rightarrow>
               complete_login login_id
                 (if ok then Inr ()
                  else Inl (new_error Authentication ''account.login.wait''
                         (case get_str ''error'' params of
                            Some msg \<Rightarrow> redact_line msg | None \<Rightarrow> ''managed ChatGPT login failed'')))
                 c))"

section \<open>Notifications\<close>

definition known_run_notifications :: "string list" where
  "known_run_notifications =
     [''turn/started'', ''item/agentMessage/delta'', ''item/commandExecution/outputDelta'',
      ''item/fileChange/patchUpdated'', ''item/started'', ''item/completed'',
      ''thread/tokenUsage/updated'', ''error'']"

definition observed_turn_id :: "string \<Rightarrow> json \<Rightarrow> string option" where
  "observed_turn_id meth params =
     (if meth = ''turn/started'' then nonempty (Option.bind (jpointer [''turn'', ''id''] params) as_str)
      else get_nonempty_str ''turnId'' params)"

definition item_event :: "string \<Rightarrow> json \<Rightarrow> event result" where
  "item_event meth params =
     result_bind (ok_or (protocol_field ''item.lifecycle'' ''item'') (jget ''item'' params)) (\<lambda>item.
     result_bind (ok_or (protocol_field ''item.lifecycle'' ''item.type'') (get_str ''type'' item)) (\<lambda>item_type.
     if item_type = ''commandExecution'' then result_bind (command_from_item item) (\<lambda>s. Inr (Command s))
     else if item_type = ''fileChange'' then result_bind (file_change_from_item item) (\<lambda>s. Inr (FileChange s))
     else if item_type = ''imageGeneration''
     then result_bind (if meth = ''item/started'' then image_generation_from_started_item item
                       else image_generation_from_item item) (\<lambda>img. Inr (ImageGeneration img))
     else Inr (Unknown meth)))"

text \<open>The event a run notification stands for; an error ends the connection.\<close>

definition run_notification_event :: "string \<Rightarrow> json \<Rightarrow> event result" where
  "run_notification_event meth params =
     (if meth = ''turn/started'' then Inr Started
      else if meth = ''item/agentMessage/delta''
      then result_bind (required_non_empty_string params ''itemId'' ''item.agentMessage.delta'') (\<lambda>_.
           result_bind (required_string params ''delta'' ''item.agentMessage.delta'') (\<lambda>d. Inr (TextDelta d)))
      else if meth = ''item/commandExecution/outputDelta''
      then result_bind (required_non_empty_string params ''itemId'' ''item.commandExecution.outputDelta'') (\<lambda>_.
           result_bind (required_string params ''delta'' ''item.commandExecution.outputDelta'')
             (\<lambda>d. Inr (CommandOutput d)))
      else if meth = ''item/fileChange/patchUpdated''
      then result_bind (file_change_from_patch params) (\<lambda>s. Inr (FileChange s))
      else if meth \<in> {''item/started'', ''item/completed''} then item_event meth params
      else if meth = ''thread/tokenUsage/updated''
      then result_bind (usage_from_notification params) (\<lambda>u. Inr (UsageUpdated u))
      else if meth = ''error''
      then (case Option.bind (jget ''willRetry'' params) as_bool of
              None \<Rightarrow> Inl (protocol_field ''run.error'' ''willRetry'')
            | Some _ \<Rightarrow>
                (case Option.bind (jpointer [''error'', ''message''] params) as_str of
                   None \<Rightarrow> Inl (protocol_field ''run.error'' ''error.message'')
                 | Some msg \<Rightarrow> Inr (Warning (redact_line msg))))
      else Inr (Unknown meth))"

definition handle_warning :: "string \<Rightarrow> json \<Rightarrow> client \<Rightarrow> client" where
  "handle_warning meth params c =
     (case get_str ''message'' params of
        None \<Rightarrow>
          push_client_diagnostic ''rpc/malformedNotification''
            (''warning notification is missing string field '' @ quoted ''message'') c
      | Some msg \<Rightarrow>
          (case get_str ''threadId'' params of
             Some thread_id \<Rightarrow> send_run_event thread_id None meth (Warning (redact_line msg)) c
           | None \<Rightarrow> push_client_diagnostic meth (redact_line msg) c))"

definition handle_config_warning :: "string \<Rightarrow> json \<Rightarrow> client \<Rightarrow> client" where
  "handle_config_warning meth params c =
     (case config_warning_message params of
        Inr msg \<Rightarrow> push_client_diagnostic meth msg c
      | Inl e \<Rightarrow> push_client_diagnostic ''rpc/malformedNotification'' (error_to_string e) c)"

definition handle_notification :: "environment \<Rightarrow> string \<Rightarrow> json \<Rightarrow> client \<Rightarrow> client" where
  "handle_notification env meth params c =
     (if meth = ''account/login/completed'' then handle_login_completed env params c
      else if meth = ''warning'' then handle_warning meth params c
      else if meth = ''configWarning'' then handle_config_warning meth params c
      else if meth = ''turn/completed'' then route_terminal_notification env params True c
      else case get_nonempty_str ''threadId'' params of
        None \<Rightarrow>
          if meth \<in> set known_run_notifications
          then disconnect env (protocol_field ''run.notification'' ''threadId'') c
          else push_client_diagnostic meth (compact_notification params) c
      | Some thread_id \<Rightarrow>
          if meth \<in> set known_run_notifications \<and> observed_turn_id meth params = None
          then disconnect env (protocol_field ''run.notification'' ''turnId'') c
          else case run_notification_event meth params of
            Inl e \<Rightarrow> disconnect env e c
          | Inr ev \<Rightarrow> send_run_event thread_id (observed_turn_id meth params) meth ev c)"

section \<open>Reverse requests\<close>

definition send_reverse_response :: "environment \<Rightarrow> json \<Rightarrow> string \<Rightarrow> client \<Rightarrow> bool \<times> client" where
  "send_reverse_response env response operation c =
     (case client_send env response c of
        (Inr _, _, c1) \<Rightarrow> (True, c1)
      | (Inl e, _, c1) \<Rightarrow>
          (False,
           disconnect env
             (new_error (if e_kind e = OutcomeUnknown then OutcomeUnknown else Disconnected) operation
                (''failed to deliver a mandatory reverse-RPC response: '' @ error_to_string e)) c1))"

text \<open>The reverse requests the client knows, \<open>None\<close> for another method.\<close>

definition decode_server_request :: "rpc_id \<Rightarrow> string \<Rightarrow> json \<Rightarrow> approval_event result option" where
  "decode_server_request i meth params =
     (if meth = ''item/commandExecution/requestApproval''
      then Some (result_bind (parse_command_approval i params) (\<lambda>a. Inr (ApCommand a)))
      else if meth = ''item/fileChange/requestApproval''
      then Some (result_bind (parse_file_approval i params) (\<lambda>a. Inr (ApFileChange a)))
      else if meth = ''item/permissions/requestApproval''
      then Some (result_bind (parse_permission_approval i params) (\<lambda>a. Inr (ApPermissions a)))
      else if meth = ''item/tool/requestUserInput''
      then Some (result_bind (parse_user_input_request i params) (\<lambda>a. Inr (ApUserInput a)))
      else None)"

definition handle_server_request ::
  "environment \<Rightarrow> rpc_id \<Rightarrow> string \<Rightarrow> json \<Rightarrow> client \<Rightarrow> client" where
  "handle_server_request env i meth params c =
     (case decode_server_request i meth params of
        None \<Rightarrow>
          (case send_reverse_response env
                  (failure i (- 32601) ''Vergerail does not enable this app-server capability'')
                  ''rpc.unsupportedServerRequest'' c of
             (False, c1) \<Rightarrow> c1
           | (True, c1) \<Rightarrow>
               push_client_diagnostic ''rpc/unsupportedServerRequest''
                 (''rejected reverse request '' @ quoted meth) c1)
      | Some (Inl e) \<Rightarrow>
          (case send_reverse_response env (failure i (- 32602) (e_message e))
                  ''rpc.invalidServerRequest'' c of
             (False, c1) \<Rightarrow> c1
           | (True, c1) \<Rightarrow> push_client_diagnostic ''rpc/invalidServerRequest'' (error_to_string e) c1)
      | Some (Inr a) \<Rightarrow>
          (case get_str ''threadId'' params of
             Some thread_id \<Rightarrow>
               send_run_event thread_id (get_str ''turnId'' params) meth (ApprovalRequested a) c
           | None \<Rightarrow> drop_event (ApprovalRequested a) c))"

section \<open>The loop\<close>

definition route_process_event :: "environment \<Rightarrow> process_event \<Rightarrow> client \<Rightarrow> client" where
  "route_process_event env ev c =
     (if \<not> cl_router_running c then c
      else case ev of
        Message (Success i v) \<Rightarrow> complete_pending env i (Inr v) c
      | Message (Failure i code msg) \<Rightarrow>
          complete_pending env i
            (Inl (rpc_error
               (case request_operation i (cl_requests c) of Some op \<Rightarrow> op | None \<Rightarrow> ''rpc.response'')
               code (redact_line msg))) c
      | Message (Notification meth params) \<Rightarrow> handle_notification env meth params c
      | Message (Request i meth params) \<Rightarrow> handle_server_request env i meth params c
      | Closed e \<Rightarrow> (disconnect env e c)\<lparr>cl_router_running := False\<rparr>)"

definition router_loop :: "environment \<Rightarrow> process_event list \<Rightarrow> client \<Rightarrow> client" where
  "router_loop env evs c = fold (route_process_event env) evs c"

end
