(* ===== verification/ClientCalls.thy ===== *)
theory ClientCalls
  imports Router
begin

text \<open>
  Requests of the client (\<open>request_internal_with_timeout\<close> of \<open>src/src/client.rs\<close>) and the tasks it
  spawns to interrupt and abandon runs. While a request waits, the router handles the events the
  environment has for this wait; the request then finds its response, or times out. A request that
  leaves its guard armed marks its cancellation and spawns the task that settles it.
\<close>

section \<open>One request\<close>

definition on_requests :: "(request_registry \<Rightarrow> request_registry) \<Rightarrow> client \<Rightarrow> client" where
  "on_requests f c = c\<lparr>cl_requests := f (cl_requests c)\<rparr>"

text \<open>\<open>PendingCancellationGuard::drop\<close>.\<close>

definition drop_pending_guard :: "bool \<Rightarrow> nat \<Rightarrow> client \<Rightarrow> client" where
  "drop_pending_guard armed n c =
     (if armed then spawn_task (CancelAborted n) (on_requests (mark_cancelled n) c) else c)"

definition unknown_write_outcome :: "string \<Rightarrow> error" where
  "unknown_write_outcome operation =
     new_error OutcomeUnknown operation
       ''request was dispatched but its write outcome could not be observed; runtime termination was initiated and the request was not retried''"

definition unknown_response_outcome :: "string \<Rightarrow> duration \<Rightarrow> error" where
  "unknown_response_outcome operation limit =
     new_error OutcomeUnknown operation
       (''request was written but no response arrived within '' @ show_nat (as_millis limit)
          @ '' ms; the runtime was killed and the request was not retried'')"

text \<open>The send failed: the entry goes, an unknown outcome ends the connection, any other error is
  reported under the request's operation. The guard stays armed unless nothing was dispatched.\<close>

definition send_failed ::
  "environment \<Rightarrow> string \<Rightarrow> nat \<Rightarrow> error \<Rightarrow> bool \<Rightarrow> client \<Rightarrow> json result \<times> client" where
  "send_failed env operation n e dispatched c0 =
     (let c = on_requests (remove_request (request_id n)) c0 in
      if e_kind e = OutcomeUnknown
      then (Inl (unknown_write_outcome operation),
            drop_pending_guard True n (disconnect env (unknown_write_outcome operation) c))
      else (Inl (with_stderr (new_error (e_kind e) operation (e_message e)) (e_stderr_tail e)),
            drop_pending_guard dispatched n c))"

text \<open>The wait for the response ended without a value.\<close>

definition no_response ::
  "environment \<Rightarrow> string \<Rightarrow> nat \<Rightarrow> duration \<Rightarrow> client \<Rightarrow> json result \<times> client" where
  "no_response env operation n limit c =
     (if map_of (rg_pending (cl_requests c)) (request_id n) = None
         \<and> \<not> rq_successful_response (rg_cells (cl_requests c) n)
      then (Inl (new_error Disconnected operation ''response waiter closed before a response arrived''),
            drop_pending_guard True n c)
      else (case timeout_request n (cl_requests c) of
              (TimeoutOutcomeUnknown, g) \<Rightarrow>
                (Inl (unknown_response_outcome operation limit),
                 drop_pending_guard True n
                   (disconnect env (unknown_response_outcome operation limit) (c\<lparr>cl_requests := g\<rparr>)))
            | (TimedOut, g) \<Rightarrow>
                (Inl (timeout_error operation limit),
                 drop_pending_guard True n (c\<lparr>cl_requests := g\<rparr>))))"

definition await_response ::
  "environment \<Rightarrow> string \<Rightarrow> nat \<Rightarrow> duration \<Rightarrow> client \<Rightarrow> json result \<times> client" where
  "await_response env operation n limit c0 =
     (let c = router_loop env (en_events env (cl_tick c0)) (next_tick c0) in
      case (case rq_value (rg_cells (cl_requests c) n) of
              Some res \<Rightarrow> (res, c)
            | None \<Rightarrow> no_response env operation n limit c) of
        (res, c1) \<Rightarrow> (res, on_requests (drop_receiver n) c1))"

definition request_internal_with_timeout ::
  "environment \<Rightarrow> string \<Rightarrow> json \<Rightarrow> bool \<Rightarrow> string \<Rightarrow> bool \<Rightarrow> duration \<Rightarrow> client
     \<Rightarrow> json result \<times> client" where
  "request_internal_with_timeout env meth params non_idempotent operation allow_closing requested c0 =
     (let c = next_tick c0 in
      case remaining_timeout (en_remaining env (cl_tick c0)) requested operation of
        Inl e \<Rightarrow> (Inl e, c)
      | Inr limit \<Rightarrow>
          if cn_closing (cl_connection c) \<and> \<not> allow_closing
          then (Inl (new_error Shutdown operation ''client shutdown has started''), c)
          else if cn_disconnected (cl_connection c)
          then (Inl (case cn_failure (cl_connection c) of
                       Some e \<Rightarrow> e
                     | None \<Rightarrow> new_error Disconnected operation ''app-server is disconnected''), c)
          else (case register_request operation non_idempotent (cl_requests c) of
                  (Inl e, g) \<Rightarrow> (Inl e, c\<lparr>cl_requests := g\<rparr>)
                | (Inr n, g) \<Rightarrow>
                    (case client_send env (request n meth params) (c\<lparr>cl_requests := g\<rparr>) of
                       (r, dispatched, c1) \<Rightarrow>
                         (let c2 = (if dispatched then on_requests (mark_dispatched n) c1 else c1) in
                          case r of
                            Inl e \<Rightarrow>
                              apsnd (on_requests (drop_receiver n))
                                (send_failed env operation n e dispatched c2)
                          | Inr _ \<Rightarrow> await_response env operation n limit c2))))"

definition request_internal ::
  "environment \<Rightarrow> string \<Rightarrow> json \<Rightarrow> bool \<Rightarrow> string \<Rightarrow> bool \<Rightarrow> client \<Rightarrow> json result \<times> client" where
  "request_internal env meth params non_idempotent operation allow_closing c =
     request_internal_with_timeout env meth params non_idempotent operation allow_closing
       (cf_request_timeout (cl_config c)) c"

definition client_request ::
  "environment \<Rightarrow> string \<Rightarrow> json \<Rightarrow> bool \<Rightarrow> string \<Rightarrow> client \<Rightarrow> json result \<times> client" where
  "client_request env meth params non_idempotent operation c =
     request_internal env meth params non_idempotent operation False c"

definition notify :: "environment \<Rightarrow> string \<Rightarrow> json \<Rightarrow> client \<Rightarrow> unit result \<times> client" where
  "notify env meth params c =
     (case client_send env (notification meth params) c of (r, _, c1) \<Rightarrow> (r, c1))"

section \<open>Interrupting a turn\<close>

definition interrupt_turn_internal ::
  "environment \<Rightarrow> string \<Rightarrow> string \<Rightarrow> bool \<Rightarrow> client \<Rightarrow> unit result \<times> client" where
  "interrupt_turn_internal env thread_id turn_id allow_closing c =
     (case request_internal env ''turn/interrupt''
             (jobj [(''threadId'', JString thread_id), (''turnId'', JString turn_id)])
             False ''turn.interrupt'' allow_closing c of
        (Inl e, c1) \<Rightarrow> (Inl e, c1)
      | (Inr response, c1) \<Rightarrow>
          (if is_object response then Inr ()
           else Inl (new_error Protocol ''turn.interrupt'' ''interrupt result must be an object''), c1))"

definition control_of :: "nat \<Rightarrow> client \<Rightarrow> run_control" where
  "control_of i c = rc_control (rw_cells (cl_runs c) i)"

text \<open>The first caller owns the request; its result is published to every later caller. \<open>None\<close> is a
  call that still waits for the owner's result.\<close>

definition interrupt_run ::
  "environment \<Rightarrow> string \<Rightarrow> string \<Rightarrow> nat \<Rightarrow> client \<Rightarrow> unit result option \<times> client" where
  "interrupt_run env thread_id turn_id control c =
     (case start_interrupt control (cl_runs c) of
        (True, w) \<Rightarrow>
          (case interrupt_turn_internal env thread_id turn_id True (c\<lparr>cl_runs := w\<rparr>) of
             (r, c1) \<Rightarrow>
               (let res = (if ct_provider_terminal (control_of control c1) then Inr () else r)
                in (Some res, c1\<lparr>cl_runs := finish_interrupt control res (cl_runs c1)\<rparr>)))
      | (False, w) \<Rightarrow>
          if ct_provider_terminal (control_of control c) \<and> \<not> ct_interrupt_started (control_of control c)
          then (Some (Inr ()), c\<lparr>cl_runs := w\<rparr>)
          else (ct_interrupt_result (control_of control c), c\<lparr>cl_runs := w\<rparr>))"

definition provider_terminal_timeout ::
  "environment \<Rightarrow> string \<Rightarrow> string \<Rightarrow> client \<Rightarrow> error" where
  "provider_terminal_timeout env thread_id turn_id c =
     new_error Timeout ''turn.completed''
       (''turn '' @ quoted turn_id @ '' for thread '' @ quoted thread_id
          @ '' did not reach a provider terminal state within ''
          @ show_nat (as_millis (remaining_shutdown_timeout (en_remaining env (cl_tick c)) (cl_config c)))
          @ '' ms after interruption'')"

definition wait_for_provider_terminal ::
  "environment \<Rightarrow> string \<Rightarrow> string \<Rightarrow> nat \<Rightarrow> client \<Rightarrow> unit result \<times> client" where
  "wait_for_provider_terminal env thread_id turn_id control c =
     (if ct_provider_terminal (control_of control c) then (Inr (), c)
      else
        (let c1 = router_loop env (en_events env (cl_tick c)) (next_tick c)
         in (if ct_provider_terminal (control_of control c1) then Inr ()
             else Inl (provider_terminal_timeout env thread_id turn_id c), c1)))"

definition interrupt_and_wait ::
  "environment \<Rightarrow> string \<Rightarrow> string \<Rightarrow> nat \<Rightarrow> client \<Rightarrow> unit result \<times> client" where
  "interrupt_and_wait env thread_id turn_id control c =
     (case interrupt_run env thread_id turn_id control c of
        (interrupted, c1) \<Rightarrow>
          (case wait_for_provider_terminal env thread_id turn_id control c1 of
             (Inr _, c2) \<Rightarrow> (Inr (), c2)
           | (Inl terminal_error, c2) \<Rightarrow>
               (case interrupted of
                  Some (Inl interrupt_error) \<Rightarrow>
                    (Inl (with_related_error interrupt_error ''provider terminal wait also failed''
                            terminal_error), c2)
                | _ \<Rightarrow> (Inl terminal_error, c2))))"

section \<open>Spawned tasks\<close>

definition interrupt_failed_run ::
  "environment \<Rightarrow> string \<Rightarrow> string \<Rightarrow> nat \<Rightarrow> client \<Rightarrow> client" where
  "interrupt_failed_run env thread_id turn_id control c =
     (if cn_disconnected (cl_connection c) then c
      else case interrupt_and_wait env thread_id turn_id control c of
        (Inr _, c1) \<Rightarrow> c1
      | (Inl e, c1) \<Rightarrow>
          if cn_disconnected (cl_connection c1) then c1
          else disconnect env (new_error Disconnected ''run.events''
                 (''failed to terminate turn '' @ quoted turn_id @ '' for thread '' @ quoted thread_id
                    @ '' after the run route failed: '' @ error_to_string e)) c1)"

definition abandon_run ::
  "environment \<Rightarrow> string \<Rightarrow> string \<Rightarrow> nat \<Rightarrow> client \<Rightarrow> client" where
  "abandon_run env thread_id turn_id control c =
     (if cn_disconnected (cl_connection c) then c
      else if \<not> tracks_abandoned_turn thread_id turn_id control (cl_runs c) then c
      else case interrupt_and_wait env thread_id turn_id control c of
        (Inr _, c1) \<Rightarrow> c1
      | (Inl e, c1) \<Rightarrow>
          if cn_disconnected (cl_connection c1) then c1
          else disconnect env (new_error Disconnected ''run.drop''
                 (''failed to terminate an abandoned run: '' @ error_to_string e)) c1)"

definition cancel_registered_run :: "environment \<Rightarrow> string \<Rightarrow> client \<Rightarrow> client" where
  "cancel_registered_run env thread_id c =
     (case cancel_registered thread_id (cl_runs c) of
        (None, w) \<Rightarrow> c\<lparr>cl_runs := w\<rparr>
      | (Some (turn_id, control), w) \<Rightarrow> abandon_run env thread_id turn_id control (c\<lparr>cl_runs := w\<rparr>))"

definition cancel_aborted_request :: "environment \<Rightarrow> nat \<Rightarrow> client \<Rightarrow> client" where
  "cancel_aborted_request env n c =
     (case cancel_request n (cl_requests c) of
        (False, g) \<Rightarrow> c\<lparr>cl_requests := g\<rparr>
      | (True, g) \<Rightarrow>
          disconnect env (new_error OutcomeUnknown (rq_operation (rg_cells (cl_requests c) n))
            ''the caller cancelled before Vergerail could commit a dispatched non-idempotent response; the runtime was terminated and the request was not retried'')
            (c\<lparr>cl_requests := g\<rparr>))"

definition run_task :: "environment \<Rightarrow> client_task \<Rightarrow> client \<Rightarrow> client" where
  "run_task env task c =
     (case task of
        InterruptFailedRun thread_id turn_id control \<Rightarrow> interrupt_failed_run env thread_id turn_id control c
      | CancelAborted n \<Rightarrow> cancel_aborted_request env n c
      | CancelRegisteredRun thread_id \<Rightarrow> cancel_registered_run env thread_id c
      | DisconnectWith e \<Rightarrow> disconnect env e c)"

text \<open>The runtime takes the spawned tasks in order.\<close>

definition run_next_task :: "environment \<Rightarrow> client \<Rightarrow> client" where
  "run_next_task env c =
     (case cl_spawned c of
        [] \<Rightarrow> c
      | task # tasks \<Rightarrow> run_task env task (c\<lparr>cl_spawned := tasks\<rparr>))"

end
