(* ===== verification/ClientSessions.thy ===== *)
theory ClientSessions
  imports ClientCalls
begin

text \<open>
  Threads and turns of a client: creating, resuming, auditing and closing a session, starting a turn
  with the replay of what arrived before its acknowledgement, the handle of a run, and the one-shot
  \<open>Codex::run\<close> (\<open>src/src/client.rs\<close>, \<open>src/src/session.rs\<close>). The locks of the code, the lifecycle lock
  of a session and the one of the registry, make each of these operations one call after the other.
\<close>

section \<open>Parameters of requests\<close>

definition jopt :: "string option \<Rightarrow> json" where
  "jopt s = (case s of None \<Rightarrow> JNull | Some t \<Rightarrow> JString t)"

definition disabled_features :: "bool \<Rightarrow> json" where
  "disabled_features image_only =
     jobj [(''apps'', JBool False), (''goals'', JBool False), (''hooks'', JBool False),
           (''image_generation'', JBool image_only), (''memories'', JBool False),
           (''multi_agent'', JBool False), (''plugins'', JBool False), (''remote_plugin'', JBool False),
           (''shell_tool'', JBool False), (''skill_mcp_dependency_install'', JBool False),
           (''unified_exec'', JBool False)]"

definition thread_config :: "bool \<Rightarrow> bool \<Rightarrow> json" where
  "thread_config text_only image_only =
     (if \<not> text_only \<and> \<not> image_only then JNull
      else jobj
        [(''web_search'', JString ''disabled''),
         (''features'', disabled_features image_only),
         (''apps'', jobj [(''_default'', jobj [(''enabled'', JBool False)])]),
         (''history'', jobj [(''persistence'', JString ''none'')]),
         (''memories'', jobj [(''generate_memories'', JBool False), (''use_memories'', JBool False)])])"

definition canonical_project :: "environment \<Rightarrow> string \<Rightarrow> string result" where
  "canonical_project env cwd =
     (case en_inspect env cwd of
        Inl text \<Rightarrow> Inl (new_error InvalidInput ''session.cwd''
                      (''cannot inspect '' @ from_utf8_lossy cwd @ '': '' @ text))
      | Inr (is_symlink, is_dir) \<Rightarrow>
          if is_symlink \<or> \<not> is_dir
          then Inl (new_error InvalidInput ''session.cwd''
                      ''working directory must be a real, non-symlink directory'')
          else (case en_canonical env cwd of
                  Inl text \<Rightarrow> Inl (new_error InvalidInput ''session.cwd''
                                (''cannot canonicalize '' @ from_utf8_lossy cwd @ '': '' @ text))
                | Inr canonical \<Rightarrow>
                    if \<not> utf8_valid canonical
                    then Inl (new_error InvalidInput ''session.cwd''
                                ''working directory must be valid UTF-8 for the protocol boundary'')
                    else Inr canonical))"

text \<open>What \<open>thread/start\<close> and \<open>thread/resume\<close> have in common.\<close>

definition thread_params :: "string \<Rightarrow> session_options \<Rightarrow> json_object" where
  "thread_params cwd opts =
     [(''cwd'', JString cwd),
      (''approvalPolicy'', JString (approval_policy (so_sandbox opts))),
      (''approvalsReviewer'', JString ''user''),
      (''sandbox'', JString (sandbox_mode (so_sandbox opts))),
      (''model'', jopt (so_model opts)),
      (''baseInstructions'', jopt (so_base_instructions opts)),
      (''developerInstructions'', jopt (so_developer_instructions opts)),
      (''config'', thread_config (so_text_only opts) (so_image_only opts))]"

definition start_params :: "string \<Rightarrow> session_options \<Rightarrow> json" where
  "start_params cwd opts =
     jobj (thread_params cwd opts @ [(''ephemeral'', JBool (so_ephemeral opts))])"

definition resume_params :: "string \<Rightarrow> string \<Rightarrow> session_options \<Rightarrow> json" where
  "resume_params thread_id cwd opts =
     jobj (thread_params cwd opts @ [(''threadId'', JString thread_id)])"

definition sandbox_policy :: "string \<Rightarrow> sandbox \<Rightarrow> json" where
  "sandbox_policy cwd s =
     (case s of
        ReadOnly \<Rightarrow> jobj [(''type'', JString ''readOnly''), (''networkAccess'', JBool False)]
      | WorkspaceWrite \<Rightarrow>
          jobj [(''type'', JString ''workspaceWrite''), (''writableRoots'', JArray [JString cwd]),
                (''networkAccess'', JBool False), (''excludeTmpdirEnvVar'', JBool True),
                (''excludeSlashTmp'', JBool True)])"

definition turn_params ::
  "string \<Rightarrow> string \<Rightarrow> sandbox \<Rightarrow> reasoning_effort \<Rightarrow> turn_input list \<Rightarrow> json option \<Rightarrow> json" where
  "turn_params thread_id cwd s effort inputs output_schema =
     jobj ([(''threadId'', JString thread_id),
            (''input'', JArray (map input_to_native inputs)),
            (''cwd'', JString cwd),
            (''effort'', JString (effort_value effort)),
            (''approvalPolicy'', JString (approval_policy s)),
            (''approvalsReviewer'', JString ''user''),
            (''sandboxPolicy'', sandbox_policy cwd s)]
           @ (case output_schema of None \<Rightarrow> [] | Some schema \<Rightarrow> [(''outputSchema'', schema)]))"

section \<open>Sessions\<close>

record session =
  se_thread_id :: string
  se_cwd :: string
  se_sandbox :: sandbox
  se_reasoning :: reasoning_effort
  se_ephemeral :: bool
  se_turn_timeout :: duration
  se_maximum_output_bytes :: nat
  se_output_schema :: "json option"
  se_active :: nat
  se_closed :: bool

text \<open>A new session has an \<open>active\<close> flag of its own, initially clear.\<close>

definition new_session :: "string \<Rightarrow> string \<Rightarrow> session_options \<Rightarrow> client \<Rightarrow> session \<times> client" where
  "new_session thread_id cwd opts c =
     (\<lparr>se_thread_id = thread_id, se_cwd = cwd, se_sandbox = so_sandbox opts,
       se_reasoning = so_reasoning opts, se_ephemeral = so_ephemeral opts,
       se_turn_timeout = so_turn_timeout opts,
       se_maximum_output_bytes = so_maximum_output_bytes opts,
       se_output_schema = so_output_schema opts, se_active = cl_next_active c, se_closed = False\<rparr>,
      c\<lparr>cl_next_active := Suc (cl_next_active c),
        cl_runs := set_active (cl_next_active c) False (cl_runs c)\<rparr>)"

definition session_active :: "session \<Rightarrow> client \<Rightarrow> bool" where
  "session_active s c = rw_active (cl_runs c) (se_active s)"

text \<open>The thread id of a response.\<close>

definition response_thread_id :: "json \<Rightarrow> string option" where
  "response_thread_id response = nonempty (Option.bind (jpointer [''thread'', ''id''] response) as_str)"

definition fail_protocol :: "environment \<Rightarrow> error \<Rightarrow> client \<Rightarrow> 'a result \<times> client" where
  "fail_protocol env e c = (Inl e, disconnect env e c)"

definition adopt_thread ::
  "environment \<Rightarrow> error \<Rightarrow> string \<Rightarrow> string \<Rightarrow> session_options \<Rightarrow> client \<Rightarrow> session result \<times> client" where
  "adopt_thread env loaded_error thread_id cwd opts c =
     (case insert_session thread_id (cl_sessions c) of
        (False, _) \<Rightarrow> fail_protocol env loaded_error c
      | (True, ids) \<Rightarrow> apfst Inr (new_session thread_id cwd opts (c\<lparr>cl_sessions := ids\<rparr>)))"

definition create_session :: "environment \<Rightarrow> session_options \<Rightarrow> client \<Rightarrow> session result \<times> client" where
  "create_session env opts0 c =
     (case validate_options (en_print env) opts0 of
        Inl e \<Rightarrow> (Inl e, c)
      | Inr opts \<Rightarrow>
          if so_image_only opts \<and> \<not> cf_image_generation (cl_config c)
          then (Inl (new_error InvalidInput ''thread.start''
                  ''image-only sessions require CodexConfig::with_image_generation(true)''), c)
          else (case canonical_project env (so_cwd opts) of
                  Inl e \<Rightarrow> (Inl e, c)
                | Inr cwd \<Rightarrow>
                    (case client_request env ''thread/start'' (start_params cwd opts) True
                            ''thread.start'' c of
                       (Inl e, c1) \<Rightarrow> (Inl e, c1)
                     | (Inr response, c1) \<Rightarrow>
                         (case response_thread_id response of
                            None \<Rightarrow> fail_protocol env (protocol_field ''thread.start'' ''thread.id'') c1
                          | Some thread_id \<Rightarrow>
                              adopt_thread env (new_error Protocol ''thread.start''
                                ''app-server returned a thread id that is already loaded'')
                                thread_id cwd opts c1))))"

definition resume_error :: "string \<Rightarrow> error" where
  "resume_error msg = new_error InvalidInput ''thread.resume'' msg"

definition resume_session ::
  "environment \<Rightarrow> string \<Rightarrow> session_options \<Rightarrow> client \<Rightarrow> session result \<times> client" where
  "resume_session env thread_id opts0 c =
     (if is_blank thread_id then (Inl (resume_error ''thread id must be non-empty''), c)
      else case validate_options (en_print env) opts0 of
        Inl e \<Rightarrow> (Inl e, c)
      | Inr opts \<Rightarrow>
          if so_image_only opts \<and> \<not> cf_image_generation (cl_config c)
          then (Inl (resume_error
                  ''image-only sessions require CodexConfig::with_image_generation(true)''), c)
          else if so_ephemeral opts
          then (Inl (resume_error ''a persisted thread cannot be resumed as ephemeral''), c)
          else if contains_session thread_id (cl_sessions c)
          then (Inl (resume_error ''thread is already loaded by this client''), c)
          else (case canonical_project env (so_cwd opts) of
                  Inl e \<Rightarrow> (Inl e, c)
                | Inr cwd \<Rightarrow>
                    (case client_request env ''thread/resume'' (resume_params thread_id cwd opts) True
                            ''thread.resume'' c of
                       (Inl e, c1) \<Rightarrow> (Inl e, c1)
                     | (Inr response, c1) \<Rightarrow>
                         (case response_thread_id response of
                            None \<Rightarrow> fail_protocol env (protocol_field ''thread.resume'' ''thread.id'') c1
                          | Some seen \<Rightarrow>
                              if seen \<noteq> thread_id
                              then fail_protocol env (new_error Protocol ''thread.resume''
                                     (''app-server resumed thread '' @ quoted seen
                                        @ '' instead of requested thread '' @ quoted thread_id)) c1
                              else adopt_thread env (new_error Protocol ''thread.resume''
                                     ''app-server resumed a thread that is already loaded by this client'')
                                     seen cwd opts c1))))"

definition client_audit_turn ::
  "environment \<Rightarrow> string \<Rightarrow> string \<Rightarrow> client \<Rightarrow> turn_audit result \<times> client" where
  "client_audit_turn env thread_id turn_id c =
     (case client_request env ''thread/read''
             (jobj [(''threadId'', JString thread_id), (''includeTurns'', JBool True)])
             False ''thread.read'' c of
        (Inl e, c1) \<Rightarrow> (Inl e, c1)
      | (Inr response, c1) \<Rightarrow> (parse_turn_audit response thread_id turn_id, c1))"

definition unsubscribe ::
  "environment \<Rightarrow> string \<Rightarrow> bool \<Rightarrow> client \<Rightarrow> unit result \<times> client" where
  "unsubscribe env thread_id allow_closing c =
     (case request_internal env ''thread/unsubscribe'' (jobj [(''threadId'', JString thread_id)])
             False ''thread.unsubscribe'' allow_closing c of
        (Inl e, c1) \<Rightarrow> (Inl e, c1)
      | (Inr response, c1) \<Rightarrow>
          (case validate_unsubscribe_response response of
             Inl e \<Rightarrow> (Inl e, c1)
           | Inr _ \<Rightarrow> (Inr (), c1\<lparr>cl_sessions := remove_session thread_id (cl_sessions c1)\<rparr>)))"

definition client_close_session :: "environment \<Rightarrow> string \<Rightarrow> client \<Rightarrow> unit result \<times> client" where
  "client_close_session env thread_id c =
     (if contains thread_id (cl_runs c)
      then (Inl (new_error InvalidInput ''thread.unsubscribe''
              ''cannot unsubscribe a thread with an active run''), c)
      else unsubscribe env thread_id False c)"

definition session_error :: "string \<Rightarrow> string \<Rightarrow> error" where
  "session_error op msg = new_error InvalidInput op msg"

definition session_audit_turn ::
  "environment \<Rightarrow> string \<Rightarrow> session \<Rightarrow> client \<Rightarrow> turn_audit result \<times> client" where
  "session_audit_turn env turn_id s c =
     (if is_blank turn_id then (Inl (session_error ''Session::audit_turn'' ''turn id must be non-empty''), c)
      else if se_closed s then (Inl (session_error ''Session::audit_turn'' ''session is closed''), c)
      else if se_ephemeral s
      then (Inl (session_error ''Session::audit_turn''
              ''ephemeral sessions do not have persisted turn history''), c)
      else if session_active s c
      then (Inl (session_error ''Session::audit_turn'' ''cannot audit a session with an active run''), c)
      else client_audit_turn env (se_thread_id s) turn_id c)"

definition session_close :: "environment \<Rightarrow> session \<Rightarrow> client \<Rightarrow> unit result \<times> session \<times> client" where
  "session_close env s c =
     (if se_closed s then (Inr (), s, c)
      else if session_active s c
      then (Inl (session_error ''Session::close'' ''cannot close a session with an active run''), s, c)
      else (case client_close_session env (se_thread_id s) c of
              (Inl e, c1) \<Rightarrow> (Inl e, s, c1)
            | (Inr _, c1) \<Rightarrow> (Inr (), s\<lparr>se_closed := True\<rparr>, c1)))"

section \<open>Starting a turn\<close>

definition replay_notification ::
  "environment \<Rightarrow> string \<Rightarrow> deferred_run_notification \<Rightarrow> client \<Rightarrow> client" where
  "replay_notification env thread_id n c =
     (case n of
        DeferredEvent observed source_method ev \<Rightarrow>
          route_run_event thread_id (Some observed) source_method ev False c
      | DeferredTerminal params \<Rightarrow> route_terminal_notification env params False c)"

text \<open>The replay loop. The router works on while a batch is replayed: each round is what it handles
  in that time. After the last round nothing arrives, the queue is empty and the loop ends.\<close>

fun replay_deferred ::
  "environment \<Rightarrow> string \<Rightarrow> string \<Rightarrow> process_event list list \<Rightarrow> deferred_run_notification list
     \<Rightarrow> client \<Rightarrow> client" where
  "replay_deferred env thread_id turn_id [] deferred c =
     (let c1 = fold (replay_notification env thread_id) deferred c
      in c1\<lparr>cl_runs := snd (replay_transition thread_id turn_id (cl_runs c1))\<rparr>)"
| "replay_deferred env thread_id turn_id (round # rounds) deferred c =
     (let c1 = router_loop env round (fold (replay_notification env thread_id) deferred c)
      in case replay_transition thread_id turn_id (cl_runs c1) of
           (ReplayNext queued, w) \<Rightarrow>
             replay_deferred env thread_id turn_id rounds queued (c1\<lparr>cl_runs := w\<rparr>)
         | (_, w) \<Rightarrow> c1\<lparr>cl_runs := w\<rparr>)"

definition fail_registered_run_before_turn :: "environment \<Rightarrow> string \<Rightarrow> error \<Rightarrow> client \<Rightarrow> client" where
  "fail_registered_run_before_turn env thread_id e c =
     (case fail_before_start thread_id e (cl_runs c) of
        (ProviderTurnOwned, w) \<Rightarrow>
          disconnect env (new_error Protocol ''turn.start''
            ''turn/start failed before ownership was established, but the run route already owned a provider turn'')
            (c\<lparr>cl_runs := w\<rparr>)
      | (_, w) \<Rightarrow> c\<lparr>cl_runs := w\<rparr>)"

text \<open>\<open>KnownTurnGuard::drop\<close>, armed.\<close>

definition known_turn_lost :: "string \<Rightarrow> string \<Rightarrow> error" where
  "known_turn_lost thread_id turn_id =
     new_error OutcomeUnknown ''turn.start''
       (''turn '' @ quoted turn_id @ '' for thread '' @ quoted thread_id
          @ '' was created, but the caller cancelled before Vergerail could commit the run handle; the runtime was terminated and the turn was not retried'')"

definition commit_turn ::
  "environment \<Rightarrow> string \<Rightarrow> string \<Rightarrow> client \<Rightarrow> string result \<times> client" where
  "commit_turn env thread_id turn_id c =
     (case acknowledge_start thread_id turn_id (cl_runs c) of
        (out, w) \<Rightarrow>
          (let c1 = c\<lparr>cl_runs := w\<rparr>;
               lost = spawn_task (DisconnectWith (known_turn_lost thread_id turn_id))
           in case out of
             Replay deferred \<Rightarrow>
               (Inr turn_id,
                replay_deferred env thread_id turn_id (en_rounds env (cl_tick c1)) deferred (next_tick c1))
           | CompletedBeforeAcknowledgement \<Rightarrow> (Inr turn_id, c1)
           | MissingRoute \<Rightarrow>
               (Inl (new_error Disconnected ''turn.start''
                  ''run route disappeared before turn/start completed''), lost c1)
           | TerminalTurnMismatch expected \<Rightarrow>
               apsnd lost (fail_protocol env (new_error Protocol ''turn.start''
                  (''turn/start acknowledged turn '' @ quoted turn_id
                     @ '' after a terminal notification for turn '' @ quoted expected)) c1)
           | AlreadyAcknowledged \<Rightarrow>
               (Inl (new_error Protocol ''turn.start''
                  ''run route acknowledged turn/start more than once''), lost c1)))"

definition start_turn ::
  "environment \<Rightarrow> session \<Rightarrow> turn_input list \<Rightarrow> client \<Rightarrow> string result \<times> client" where
  "start_turn env s inputs c =
     (case client_request env ''turn/start''
             (turn_params (se_thread_id s) (se_cwd s) (se_sandbox s) (se_reasoning s) inputs
                (se_output_schema s)) True ''turn.start'' c of
        (Inl e, c1) \<Rightarrow> (Inl e, fail_registered_run_before_turn env (se_thread_id s) e c1)
      | (Inr response, c1) \<Rightarrow>
          (case nonempty (Option.bind (jpointer [''turn'', ''id''] response) as_str) of
             None \<Rightarrow> fail_protocol env (protocol_field ''turn.start'' ''turn.id'') c1
           | Some turn_id \<Rightarrow> commit_turn env (se_thread_id s) turn_id c1))"

section \<open>Runs\<close>

record run_handle =
  rh_thread_id :: string
  rh_turn_id :: string
  rh_run :: nat
  rh_active :: nat
  rh_turn_timeout :: duration
  rh_terminal_delivered :: bool

text \<open>\<open>Session::start\<close>. Its guard is armed while the turn is being started.\<close>

definition session_start ::
  "environment \<Rightarrow> session \<Rightarrow> turn_input list \<Rightarrow> client \<Rightarrow> run_handle result \<times> client" where
  "session_start env s inputs c =
     (if inputs = []
      then (Inl (start_error ''turn input batch must be non-empty''), c)
      else case validate_inputs (en_stat env) (en_open_file env) inputs of
        Inl e \<Rightarrow> (Inl e, c)
      | Inr _ \<Rightarrow>
          if se_closed s then (Inl (start_error ''session is closed''), c)
          else if session_active s c
          then (Inl (start_error ''session already has an active run''), c)
          else
            (let c1 = c\<lparr>cl_runs := set_active (se_active s) True (cl_runs c)\<rparr> in
             case register_run (se_thread_id s) (se_active s) (cf_event_capacity (cl_config c1))
                    (se_maximum_output_bytes s) (cl_runs c1) of
               (Inl e, w) \<Rightarrow> (Inl e, c1\<lparr>cl_runs := set_active (se_active s) False w\<rparr>)
             | (Inr run, w) \<Rightarrow>
                 (case start_turn env s inputs (c1\<lparr>cl_runs := w\<rparr>) of
                    (Inl e, c2) \<Rightarrow>
                      (Inl e, spawn_task (CancelRegisteredRun (se_thread_id s))
                                (c2\<lparr>cl_runs := drop_channels run (cl_runs c2)\<rparr>))
                  | (Inr turn_id, c2) \<Rightarrow>
                      (Inr \<lparr>rh_thread_id = se_thread_id s, rh_turn_id = turn_id, rh_run = run,
                            rh_active = se_active s, rh_turn_timeout = se_turn_timeout s,
                            rh_terminal_delivered = False\<rparr>, c2))))"

text \<open>The deadline of a turn passes, unless its terminal state was seen before.\<close>

definition run_deadline :: "run_handle \<Rightarrow> client \<Rightarrow> client" where
  "run_deadline h c =
     (if ct_provider_terminal (control_of (rh_run h) c) then c
      else case fail_active (rh_thread_id h) (rh_turn_id h) (rh_run h)
                  (timeout_error ''turn.run'' (rh_turn_timeout h)) (cl_runs c) of
        (True, w) \<Rightarrow>
          spawn_task (InterruptFailedRun (rh_thread_id h) (rh_turn_id h) (rh_run h)) (c\<lparr>cl_runs := w\<rparr>)
      | (False, w) \<Rightarrow> c\<lparr>cl_runs := w\<rparr>)"

text \<open>The senders of a run live in its route.\<close>

definition run_routed :: "nat \<Rightarrow> client \<Rightarrow> bool" where
  "run_routed i c \<longleftrightarrow> list_ex (\<lambda>(_, r). ro_run r = i) (rw_routes (cl_runs c))"

text \<open>\<open>Run::next_event\<close>: an event, the end of the stream, or a wait.\<close>

datatype next_outcome = NextEvent event | NextEnd | NextWaits

definition next_event :: "run_handle \<Rightarrow> client \<Rightarrow> next_outcome \<times> run_handle \<times> client" where
  "next_event h c =
     (if rh_terminal_delivered h then (NextEnd, h, c)
      else case recv_event (rh_run h) (cl_runs c) of
        (Some ev, w) \<Rightarrow> (NextEvent ev, h, c\<lparr>cl_runs := w\<rparr>)
      | (None, _) \<Rightarrow>
          if run_routed (rh_run h) c then (NextWaits, h, c)
          else
            (NextEvent
               (case rc_terminal (rw_cells (cl_runs c) (rh_run h)) of
                  Some (Inr res) \<Rightarrow> Completed res
                | Some (Inl e) \<Rightarrow> Failed e
                | None \<Rightarrow> Failed (new_error Disconnected ''Run::next_event''
                             ''terminal state channel closed without a result'')),
             h\<lparr>rh_terminal_delivered := True\<rparr>, c))"

definition run_interrupt :: "environment \<Rightarrow> run_handle \<Rightarrow> client \<Rightarrow> unit result option \<times> client" where
  "run_interrupt env h c =
     (if \<not> rw_active (cl_runs c) (rh_active h) \<and> \<not> ct_interrupt_started (control_of (rh_run h) c)
      then (Some (Inl (new_error InvalidInput ''Run::interrupt''
                    ''turn has already reached a terminal state'')), c)
      else interrupt_run env (rh_thread_id h) (rh_turn_id h) (rh_run h) c)"

text \<open>\<open>Run::drop\<close>: an active run that was not abandoned before is abandoned, then the task runs; the
  receivers go with the handle.\<close>

definition drop_run :: "environment \<Rightarrow> run_handle \<Rightarrow> client \<Rightarrow> client" where
  "drop_run env h c =
     (if \<not> rw_active (cl_runs c) (rh_active h) \<or> rc_abandoned (rw_cells (cl_runs c) (rh_run h))
      then c\<lparr>cl_runs := drop_channels (rh_run h) (cl_runs c)\<rparr>
      else abandon_run env (rh_thread_id h) (rh_turn_id h) (rh_run h)
             (c\<lparr>cl_runs := drop_channels (rh_run h) (abandon_cell (rh_run h) (cl_runs c))\<rparr>))"

end
