(* ===== verification/ClientAccount.thy ===== *)
theory ClientAccount
  imports ClientSessions
begin

text \<open>
  The account side of a client, its model catalogue, the one-shot run, its start and its end
  (\<open>src/src/client.rs\<close>, \<open>src/src/account.rs\<close>, \<open>src/src/model.rs\<close>).
\<close>

section \<open>Account\<close>

datatype account = SignedOut bool | ChatGpt "string option" string

definition parse_account_response :: "json \<Rightarrow> account result" where
  "parse_account_response response =
     result_bind (ok_or (protocol_field ''account.read'' ''requiresOpenaiAuth'')
                    (Option.bind (jget ''requiresOpenaiAuth'' response) as_bool)) (\<lambda>requires_auth.
     (case jget ''account'' response of
        None \<Rightarrow> Inr (SignedOut requires_auth)
      | Some acct \<Rightarrow>
          if is_null acct then Inr (SignedOut requires_auth)
          else (case get_str ''type'' acct of
                  None \<Rightarrow> Inl (protocol_field ''account.read'' ''account.type'')
                | Some kind \<Rightarrow>
                    if kind = ''chatgpt''
                    then result_bind
                           (case jget ''email'' acct of
                              Some JNull \<Rightarrow> Inr None
                            | Some (JString email) \<Rightarrow> Inr (Some email)
                            | _ \<Rightarrow> Inl (protocol_field ''account.read'' ''account.email'')) (\<lambda>email.
                         result_bind (required_string acct ''planType'' ''account.read'') (\<lambda>plan.
                         Inr (ChatGpt email plan)))
                    else Inl (new_error Authentication ''account.read''
                           (''the standard Codex account uses unsupported account type '' @ quoted kind)))))"

definition read_account :: "environment \<Rightarrow> client \<Rightarrow> account result \<times> client" where
  "read_account env c =
     (case client_request env ''account/read'' (jobj [(''refreshToken'', JBool False)]) False
             ''account.read'' c of
        (Inl e, c1) \<Rightarrow> (Inl e, c1)
      | (Inr response, c1) \<Rightarrow> (parse_account_response response, c1))"

section \<open>Login\<close>

datatype login_method = Browser | DeviceCode
datatype login_flow = FlowBrowser string | FlowDevice string string

record login =
  li_login_id :: string
  li_flow :: login_flow

definition login_error_field :: "string \<Rightarrow> error" where
  "login_error_field field = protocol_field ''account.login.start'' field"

text \<open>What a start response says of the flow; every error is a protocol error of the connection.\<close>

definition parse_login_flow :: "json \<Rightarrow> login_flow result" where
  "parse_login_flow response =
     (case get_str ''type'' response of
        None \<Rightarrow> Inl (login_error_field ''type'')
      | Some kind \<Rightarrow>
          if kind = ''chatgpt''
          then result_bind (required_non_empty_string response ''authUrl'' ''account.login.start'') (\<lambda>url.
               Inr (FlowBrowser url))
          else if kind = ''chatgptDeviceCode''
          then result_bind (required_non_empty_string response ''verificationUrl'' ''account.login.start'') (\<lambda>url.
               result_bind (required_non_empty_string response ''userCode'' ''account.login.start'') (\<lambda>code.
               Inr (FlowDevice url code)))
          else Inl (new_error Protocol ''account.login.start''
                      (''unexpected login response type '' @ quoted kind)))"

definition client_register_login :: "environment \<Rightarrow> string \<Rightarrow> client \<Rightarrow> unit result \<times> client" where
  "client_register_login env login_id c =
     (case register_login_id login_id (cl_logins c) of
        (True, s) \<Rightarrow>
          (let c1 = c\<lparr>cl_logins := s\<rparr> in
           (Inr (),
            if cn_disconnected (cl_connection c1)
            then complete_login login_id
                   (Inl (case cn_failure (cl_connection c1) of
                           Some e \<Rightarrow> e
                         | None \<Rightarrow> new_error Disconnected ''account.login.wait''
                             ''app-server disconnected before the login handle was registered'')) c1
            else c1))
      | (False, _) \<Rightarrow>
          fail_protocol env (new_error Protocol ''account.login.start''
            ''app-server returned a login id that is already active'') c)"

definition client_login :: "environment \<Rightarrow> login_method \<Rightarrow> client \<Rightarrow> login result \<times> client" where
  "client_login env m c =
     (case client_request env ''account/login/start''
             (jobj [(''type'', JString (case m of Browser \<Rightarrow> ''chatgpt'' | DeviceCode \<Rightarrow> ''chatgptDeviceCode''))])
             True ''account.login.start'' c of
        (Inl e, c1) \<Rightarrow> (Inl e, c1)
      | (Inr response, c1) \<Rightarrow>
          (case required_non_empty_string response ''loginId'' ''account.login.start'' of
             Inl e \<Rightarrow> fail_protocol env e c1
           | Inr login_id \<Rightarrow>
               (case parse_login_flow response of
                  Inl e \<Rightarrow> fail_protocol env e c1
                | Inr flow \<Rightarrow>
                    (case client_register_login env login_id c1 of
                       (Inl e, c2) \<Rightarrow> (Inl e, c2)
                     | (Inr _, c2) \<Rightarrow> (Inr \<lparr>li_login_id = login_id, li_flow = flow\<rparr>, c2)))))"

text \<open>The wait takes the router's events of its time; its guard removes the waiter in any case.\<close>

definition client_wait_login :: "environment \<Rightarrow> string \<Rightarrow> client \<Rightarrow> unit result \<times> client" where
  "client_wait_login env login_id c =
     (case wait_login_id login_id (cl_logins c) of
        (Inl e, s) \<Rightarrow> (Inl e, c\<lparr>cl_logins := s\<rparr>)
      | (Inr (LoginCompleted res), s) \<Rightarrow> (res, c\<lparr>cl_logins := s\<rparr>)
      | (Inr (LoginPending n), s) \<Rightarrow>
          (let c1 = router_loop env (en_events env (cl_tick c)) (next_tick (c\<lparr>cl_logins := s\<rparr>));
               res = (case lg_delivered (cl_logins c1) n of
                        Some r \<Rightarrow> r
                      | None \<Rightarrow>
                          (case map_of (lg_active (cl_logins c1)) login_id of
                             None \<Rightarrow> Inl (new_error Disconnected ''account.login.wait''
                                       ''login waiter was closed'')
                           | Some _ \<Rightarrow>
                               Inl (timeout_error ''account.login.wait'' (cf_login_timeout (cl_config c1)))))
           in (res, c1\<lparr>cl_logins := remove_waiter login_id n (cl_logins c1)\<rparr>)))"

definition client_cancel_login :: "environment \<Rightarrow> string \<Rightarrow> client \<Rightarrow> unit result \<times> client" where
  "client_cancel_login env login_id c =
     (case client_request env ''account/login/cancel'' (jobj [(''loginId'', JString login_id)]) False
             ''account.login.cancel'' c of
        (Inl e, c1) \<Rightarrow> (Inl e, c1)
      | (Inr response, c1) \<Rightarrow>
          (case get_str ''status'' response of
             None \<Rightarrow> (Inl (protocol_field ''account.login.cancel'' ''status''), c1)
           | Some status \<Rightarrow>
               if status \<in> {''canceled'', ''notFound''}
               then (Inr (),
                     complete_login login_id
                       (Inl (new_error Authentication ''account.login.wait''
                          ''managed ChatGPT login was canceled or is no longer active'')) c1)
               else (Inl (new_error Protocol ''account.login.cancel''
                            (''unexpected cancel status '' @ quoted status)), c1)))"

definition client_logout :: "environment \<Rightarrow> client \<Rightarrow> unit result \<times> client" where
  "client_logout env c =
     (case client_request env ''account/logout'' (jobj []) False ''account.logout'' c of
        (Inl e, c1) \<Rightarrow> (Inl e, c1)
      | (Inr response, c1) \<Rightarrow>
          (if is_object response then Inr ()
           else Inl (new_error Protocol ''account.logout'' ''logout result must be an object''), c1))"

section \<open>Models\<close>

record model =
  mo_id :: string
  mo_model :: string
  mo_display_name :: string
  mo_description :: string
  mo_hidden :: bool
  mo_is_default :: bool

definition parse_model :: "json \<Rightarrow> model result" where
  "parse_model v =
     result_bind (required_non_empty_string v ''id'' ''model.list'') (\<lambda>i.
     result_bind (required_non_empty_string v ''model'' ''model.list'') (\<lambda>m.
     result_bind (required_non_empty_string v ''displayName'' ''model.list'') (\<lambda>name.
     result_bind (required_string v ''description'' ''model.list'') (\<lambda>desc.
     result_bind (ok_or (protocol_field ''model.list'' ''data[].hidden'')
                    (Option.bind (jget ''hidden'' v) as_bool)) (\<lambda>hid.
     result_bind (ok_or (protocol_field ''model.list'' ''data[].isDefault'')
                    (Option.bind (jget ''isDefault'' v) as_bool)) (\<lambda>def.
     Inr \<lparr>mo_id = i, mo_model = m, mo_display_name = name, mo_description = desc, mo_hidden = hid,
          mo_is_default = def\<rparr>))))))"

definition parse_cursor :: "json \<Rightarrow> string option result" where
  "parse_cursor response =
     (case jget ''nextCursor'' response of
        None \<Rightarrow> Inr None
      | Some JNull \<Rightarrow> Inr None
      | Some (JString s) \<Rightarrow>
          if s \<noteq> [] then Inr (Some s) else Inl (protocol_field ''model.list'' ''nextCursor'')
      | Some _ \<Rightarrow> Inl (protocol_field ''model.list'' ''nextCursor''))"

definition parse_model_page :: "json \<Rightarrow> (model list \<times> string option) result" where
  "parse_model_page response =
     result_bind (ok_or (protocol_field ''model.list'' ''data'')
                    (Option.bind (jget ''data'' response) as_array)) (\<lambda>vs.
     result_bind (result_map parse_model vs) (\<lambda>ms.
     result_bind (parse_cursor response) (\<lambda>cursor. Inr (ms, cursor))))"

definition model_list_params :: "string option \<Rightarrow> json" where
  "model_list_params cursor =
     jobj [(''cursor'', jopt cursor), (''limit'', JNumber (JInt 100)), (''includeHidden'', JBool False)]"

fun models_loop ::
  "environment \<Rightarrow> nat \<Rightarrow> string option \<Rightarrow> string list \<Rightarrow> model list \<Rightarrow> client
     \<Rightarrow> model list result \<times> client" where
  "models_loop env 0 cursor seen collected c =
     (Inl (new_error Protocol ''model.list'' ''model catalog exceeded 1000 pages''), c)"
| "models_loop env (Suc pages) cursor seen collected c =
     (case client_request env ''model/list'' (model_list_params cursor) False ''model.list'' c of
        (Inl e, c1) \<Rightarrow> (Inl e, c1)
      | (Inr response, c1) \<Rightarrow>
          (case parse_model_page response of
             Inl e \<Rightarrow> (Inl e, c1)
           | Inr (ms, None) \<Rightarrow> (Inr (collected @ ms), c1)
           | Inr (ms, Some next) \<Rightarrow>
               if next \<in> set seen
               then (Inl (new_error Protocol ''model.list'' ''app-server repeated a pagination cursor''), c1)
               else models_loop env pages (Some next) (next # seen) (collected @ ms) c1))"

definition models :: "environment \<Rightarrow> client \<Rightarrow> model list result \<times> client" where
  "models env c = models_loop env 1000 None [] [] c"

section \<open>The one-shot run\<close>

text \<open>\<open>Run::wait\<close> over the events the consumer meets: each round, the router works, then the next
  event is taken. An approval is denied, which sends its fail-closed answer. A denial that fails ends the
  wait, and so does the end of the rounds, which stands for a wait that has not ended yet.\<close>

datatype wait_outcome = Waited "run_result result" | StillWaiting

fun wait_run ::
  "environment \<Rightarrow> process_event list list \<Rightarrow> run_handle \<Rightarrow> client \<Rightarrow> wait_outcome \<times> run_handle \<times> client" where
  "wait_run env [] h c = (StillWaiting, h, c)"
| "wait_run env (round # rounds) h c =
     (case next_event h (router_loop env round c) of
        (NextWaits, h1, c1) \<Rightarrow> wait_run env rounds h1 c1
      | (NextEnd, h1, c1) \<Rightarrow>
          (Waited (Inl (new_error Disconnected ''Run::wait''
             ''run event stream ended without a terminal result'')), h1, c1)
      | (NextEvent ev, h1, c1) \<Rightarrow>
          (case ev of
             Completed res \<Rightarrow> (Waited (Inr res), h1, c1)
           | Failed e \<Rightarrow> (Waited (Inl e), h1, c1)
           | ApprovalRequested a \<Rightarrow>
               (case deny_response a of
                  Inl e \<Rightarrow> (Waited (Inl e), h1, drop_event ev c1)
                | Inr answer \<Rightarrow>
                    (case client_send env (success (ar_id (event_responder a)) answer) c1 of
                       (Inr _, _, c2) \<Rightarrow> wait_run env rounds h1 c2
                     | (Inl e, _, c2) \<Rightarrow> (Waited (Inl e), h1, c2)))
           | _ \<Rightarrow> wait_run env rounds h1 c1))"

section \<open>Start and end of a client\<close>

definition initialize_params :: "codex_config \<Rightarrow> json" where
  "initialize_params cfg =
     jobj [(''clientInfo'',
              jobj [(''name'', JString (cf_client_name cfg)), (''title'', JString (cf_client_title cfg)),
                    (''version'', JString ''0.2.0'')]),
           (''capabilities'',
              jobj [(''experimentalApi'', JBool False), (''requestAttestation'', JBool False)])]"

definition initialize_client :: "environment \<Rightarrow> client \<Rightarrow> unit result \<times> client" where
  "initialize_client env c =
     (case client_request env ''initialize'' (initialize_params (cl_config c)) False ''initialize'' c of
        (Inl e, c1) \<Rightarrow> (Inl e, c1)
      | (Inr response, c1) \<Rightarrow>
          if \<not> is_object response
          then (Inl (new_error Protocol ''initialize'' ''initialize result must be an object''), c1)
          else notify env ''initialized'' JNull c1)"

text \<open>One thread of the shutdown: its active turn is interrupted, then it is unsubscribed.\<close>

definition shutdown_thread :: "environment \<Rightarrow> string \<Rightarrow> string list \<times> client \<Rightarrow> string list \<times> client" where
  "shutdown_thread env thread_id fc =
     (case fc of (failures, c) \<Rightarrow>
        (case (case active_turn thread_id (cl_runs c) of
                 None \<Rightarrow> (failures, c)
               | Some (turn_id, control) \<Rightarrow>
                   (case interrupt_and_wait env thread_id turn_id control c of
                      (Inr _, c1) \<Rightarrow> (failures, c1)
                    | (Inl e, c1) \<Rightarrow> (failures @ [error_to_string e], c1))) of
           (failures1, c1) \<Rightarrow>
             (case unsubscribe env thread_id True c1 of
                (Inr _, c2) \<Rightarrow> (failures1, c2)
              | (Inl e, c2) \<Rightarrow> (failures1 @ [error_to_string e], c2))))"

definition shutdown_sessions :: "environment \<Rightarrow> client \<Rightarrow> string list \<times> client" where
  "shutdown_sessions env c =
     (if cn_disconnected (cl_connection c) \<or> operation_deadline_expired (en_remaining env (cl_tick c))
      then ([], next_tick (c\<lparr>cl_sessions := clear_sessions (cl_sessions c)\<rparr>))
      else fold (shutdown_thread env) (cl_sessions c) ([], next_tick c))"

definition join_router :: "environment \<Rightarrow> client \<Rightarrow> string list \<times> client" where
  "join_router env c =
     (let c1 = router_loop env (en_events env (cl_tick c)) (next_tick c)
      in (case en_router_join env (cl_tick c) of
            TaskDone \<Rightarrow> []
          | TaskFailed text \<Rightarrow> [''router task failed: '' @ text]
          | TaskTimedOut \<Rightarrow> [''timed out joining router task; task was aborted''],
          c1\<lparr>cl_router_running := False\<rparr>))"

definition client_shutdown :: "environment \<Rightarrow> client \<Rightarrow> unit result \<times> client" where
  "client_shutdown env c0 =
     (case begin_closing (cl_connection c0) of
        (False, _) \<Rightarrow> (Inr (), c0)
      | (True, conn) \<Rightarrow>
          (case shutdown_sessions env (c0\<lparr>cl_connection := conn\<rparr>) of (f1, c1) \<Rightarrow>
           case shutdown_process (en_shutdown env (cl_tick c1)) (cl_process c1) of (r2, process) \<Rightarrow>
           case join_router env (next_tick (c1\<lparr>cl_process := process\<rparr>)) of (f3, c2) \<Rightarrow>
             (let failures = f1 @ (case r2 of Inr _ \<Rightarrow> [] | Inl e \<Rightarrow> [error_to_string e]) @ f3
              in (if failures = [] then Inr ()
                  else Inl (with_stderr
                         (new_error Shutdown ''Codex::shutdown'' (join_with ''; '' failures))
                         (en_stderr env (cl_tick c2))), c2))))"

text \<open>The part of \<open>Codex::connect\<close> after the process was started.\<close>

definition connect_client :: "environment \<Rightarrow> codex_config \<Rightarrow> unit result \<times> client" where
  "connect_client env cfg =
     (case initialize_client env (new_client cfg) of
        (Inr _, c) \<Rightarrow> (Inr (), c)
      | (Inl e, c) \<Rightarrow>
          (case client_shutdown env c of
             (Inr _, c1) \<Rightarrow> (Inl e, c1)
           | (Inl cleanup_error, c1) \<Rightarrow>
               (Inl (with_related_error e
                       ''client cleanup after initialization failure also failed'' cleanup_error), c1)))"

text \<open>The recovery task of an abandoned one-shot session.\<close>

definition abandoned_session_error :: "string \<Rightarrow> string \<Rightarrow> error \<Rightarrow> error" where
  "abandoned_session_error msg ctx e =
     with_related_error (new_error Disconnected ''Codex::run'' msg) ctx e"

definition cleanup_unsubscribe :: "environment \<Rightarrow> string \<Rightarrow> client \<Rightarrow> client" where
  "cleanup_unsubscribe env thread_id c =
     (if cn_disconnected (cl_connection c)
      then c\<lparr>cl_sessions := remove_session thread_id (cl_sessions c)\<rparr>
      else case unsubscribe env thread_id True c of
        (Inr _, c1) \<Rightarrow> c1
      | (Inl e, c1) \<Rightarrow>
          disconnect env (abandoned_session_error
            ''failed to unsubscribe a cancelled one-shot session'' ''session cleanup also failed'' e) c1)"

definition cleanup_abandoned_session :: "environment \<Rightarrow> string \<Rightarrow> client \<Rightarrow> client" where
  "cleanup_abandoned_session env thread_id c =
     (if \<not> contains_session thread_id (cl_sessions c) then c
      else if cn_disconnected (cl_connection c)
      then c\<lparr>cl_sessions := remove_session thread_id (cl_sessions c)\<rparr>
      else case cancel_registered thread_id (cl_runs c) of
        (None, w) \<Rightarrow> cleanup_unsubscribe env thread_id (c\<lparr>cl_runs := w\<rparr>)
      | (Some (turn_id, control), w) \<Rightarrow>
          (case interrupt_and_wait env thread_id turn_id control (c\<lparr>cl_runs := w\<rparr>) of
             (Inr _, c1) \<Rightarrow> cleanup_unsubscribe env thread_id c1
           | (Inl e, c1) \<Rightarrow>
               disconnect env (abandoned_session_error
                 ''failed to terminate a cancelled one-shot run'' ''run cleanup also failed'' e) c1))"

text \<open>\<open>Codex::run\<close>: the session is closed after the run, and a failing close leaves the thread to the
  recovery task. A wait that does not end within the rounds has no result yet.\<close>

definition one_shot_result ::
  "run_result result \<Rightarrow> unit result \<Rightarrow> run_result result" where
  "one_shot_result res closed =
     (case (res, closed) of
        (Inr r, Inr _) \<Rightarrow> Inr r
      | (Inl e, Inr _) \<Rightarrow> Inl e
      | (Inl e, Inl cleanup_error) \<Rightarrow>
          Inl (with_related_error e ''ephemeral session cleanup also failed'' cleanup_error)
      | (Inr _, Inl e) \<Rightarrow> Inl e)"

definition finish_one_shot ::
  "environment \<Rightarrow> session \<Rightarrow> run_result result \<Rightarrow> client \<Rightarrow> run_result result \<times> client" where
  "finish_one_shot env s res c =
     (case session_close env s c of
        (closed, _, c1) \<Rightarrow>
          (one_shot_result res closed,
           case closed of
             Inr _ \<Rightarrow> c1
           | Inl _ \<Rightarrow> cleanup_abandoned_session env (se_thread_id s) c1))"

definition one_shot_run ::
  "environment \<Rightarrow> turn_input list \<Rightarrow> session_options \<Rightarrow> client \<Rightarrow> run_result result option \<times> client" where
  "one_shot_run env inputs opts c =
     (if so_sandbox opts \<noteq> ReadOnly
      then (Some (Inl (new_error InvalidInput ''Codex::run''
              ''one-shot run only supports read-only sandbox; use an interactive session for writes'')), c)
      else case create_session env (ephemeral_options opts) c of
        (Inl e, c1) \<Rightarrow> (Some (Inl e), c1)
      | (Inr s, c1) \<Rightarrow>
          (case session_start env s inputs c1 of
             (Inl e, c2) \<Rightarrow> apfst Some (finish_one_shot env s (Inl e) c2)
           | (Inr h, c2) \<Rightarrow>
               (case wait_run env (en_rounds env (cl_tick c2)) h (next_tick c2) of
                  (StillWaiting, h1, c3) \<Rightarrow> (None, c3)
                | (Waited res, h1, c3) \<Rightarrow>
                    apfst Some (finish_one_shot env s res (drop_run env h1 c3)))))"

end
