(* ===== verification/PngCrc.thy ===== *)
theory PngCrc
  imports Errors "HOL-Library.Word"
begin

text \<open>
  The checksum of PNG chunks (\<open>png_crc32\<close> of \<open>src/src/image.rs\<close>) on 32-bit words, big-endian
  numbers, and what the checksum is for: an error burst of up to 32 bits is always seen. One shift of
  the register is linear and injective, so that the register after some bytes determines the register
  before them, and four bytes determine the register they lead to.
\<close>

unbundle bit_operations_syntax

type_synonym byte = "8 word"

section \<open>The checksum\<close>

definition crc_shift :: "32 word \<Rightarrow> 32 word" where
  "crc_shift crc =
     (if crc AND 1 \<noteq> 0 then drop_bit 1 crc XOR 0xedb88320 else drop_bit 1 crc)"

definition crc_byte :: "32 word \<Rightarrow> byte \<Rightarrow> 32 word" where
  "crc_byte crc b = (crc_shift ^^ 8) (crc XOR ucast b)"

definition png_crc32 :: "byte list \<Rightarrow> 32 word" where
  "png_crc32 bytes = NOT (foldl crc_byte 0xffffffff bytes)"

text \<open>For evaluation: one byte is eight shifts.\<close>

lemma crc_byte_unrolled:
  "crc_byte c b =
     crc_shift (crc_shift (crc_shift (crc_shift (crc_shift (crc_shift (crc_shift (crc_shift
       (c XOR ucast b))))))))"
  by (simp add: crc_byte_def eval_nat_numeral)

lemmas crc_evals = png_crc32_def crc_byte_unrolled crc_shift_def

text \<open>\<open>u32::from_be_bytes\<close> of four bytes, and the bytes of a number.\<close>

definition byte_left :: "32 word \<Rightarrow> 32 word" where
  "byte_left w = push_bit 8 w"

definition u32_from_be :: "byte list \<Rightarrow> 32 word" where
  "u32_from_be bytes = foldl (\<lambda>w b. byte_left w OR ucast b) 0 bytes"

definition u32_to_be :: "32 word \<Rightarrow> byte list" where
  "u32_to_be w = [ucast (drop_bit 24 w), ucast (drop_bit 16 w), ucast (drop_bit 8 w), ucast w]"

lemma word_xor_eq_0: "x XOR y = 0 \<longleftrightarrow> x = y" for x y :: "'a::len word"
  by (metis xor.assoc xor.left_neutral xor.right_neutral xor_self_eq)

lemma word_xor_cancel: "x XOR z = y XOR z \<longleftrightarrow> x = y" "z XOR x = z XOR y \<longleftrightarrow> x = y"
  for x y z :: "'a::len word"
  by (metis xor.assoc xor.right_neutral xor_self_eq) (metis xor.assoc xor.left_neutral xor_self_eq)

lemma bit_beyond: "LENGTH('a) \<le> n \<Longrightarrow> \<not> bit w n" for w :: "'a::len word"
  by (auto dest: bit_imp_le_length)

lemma length_u32_to_be [simp]: "length (u32_to_be w) = 4"
  by (simp add: u32_to_be_def)

lemma bit_byte_left [bit_simps]: "bit (byte_left w) n \<longleftrightarrow> 8 \<le> n \<and> n < 32 \<and> bit w (n - 8)"
  unfolding byte_left_def bit_push_bit_iff by auto

lemma bit_u32_from_be:
  "bit (u32_from_be [a, b, c, d]) n \<longleftrightarrow>
     (if n < 8 then bit d n else if n < 16 then bit c (n - 8)
      else if n < 24 then bit b (n - 16) else n < 32 \<and> bit a (n - 24))"
proof -
  have "8 \<le> n \<Longrightarrow> \<not> bit d n" "16 \<le> n \<Longrightarrow> \<not> bit c (n - 8)" "24 \<le> n \<Longrightarrow> \<not> bit b (n - 16)"
    by (simp_all add: bit_beyond)
  then show ?thesis
    using bit_beyond [of n a] by (simp add: u32_from_be_def bit_simps) (auto simp: not_less)
qed

lemma u32_from_to_be [simp]: "u32_from_be (u32_to_be w) = w"
  by (rule bit_word_eqI) (auto simp: u32_to_be_def bit_u32_from_be bit_simps)

lemma u32_to_from_be:
  assumes "length bs = 4"
  shows "u32_to_be (u32_from_be bs) = bs"
proof -
  obtain a b c d where bs: "bs = [a, b, c, d]"
    using assms by (auto simp: length_Suc_conv eval_nat_numeral)
  show ?thesis
    unfolding bs u32_to_be_def list.inject
    by (intro conjI refl; rule bit_word_eqI) (simp_all add: bit_u32_from_be bit_simps)
qed

section \<open>The register\<close>

lemma crc_shift_alt:
  "crc_shift x = drop_bit 1 x XOR (if bit x 0 then 0xedb88320 else 0)"
  by (simp add: crc_shift_def and_one_eq odd_iff_mod_2_eq_one bit_0)

lemma crc_shift_xor: "crc_shift (x XOR y) = crc_shift x XOR crc_shift y"
  by (rule bit_word_eqI) (auto simp: crc_shift_alt bit_simps)

lemma crc_shift_0 [simp]: "crc_shift 0 = 0"
  by (simp add: crc_shift_def)

lemma crc_shift_eq_0:
  assumes "crc_shift x = 0"
  shows "x = 0"
proof -
  have top: "\<not> bit (drop_bit 1 x) 31" by (auto simp: bit_simps dest: bit_imp_le_length)
  have "bit x 0 = bit (crc_shift x) 31"
    using top by (simp add: crc_shift_alt bit_simps)
  then have "\<not> bit x 0" by (simp add: assms)
  then have "drop_bit 1 x = 0" using assms by (simp add: crc_shift_alt)
  then have "\<not> bit (drop_bit 1 x) n" for n by simp
  then have "\<not> bit x (Suc n)" for n by (simp only: bit_drop_bit_eq comp_apply plus_1_eq_Suc not_False_eq_True)
  with \<open>\<not> bit x 0\<close> have "\<not> bit x n" for n by (metis not0_implies_Suc)
  then show ?thesis by (intro bit_word_eqI) simp
qed

lemma crc_shift_inj: "crc_shift x = crc_shift y \<longleftrightarrow> x = y"
  using crc_shift_eq_0 [of "x XOR y"] by (auto simp: crc_shift_xor word_xor_eq_0)

lemma crc_shifts_xor: "(crc_shift ^^ n) (x XOR y) = (crc_shift ^^ n) x XOR (crc_shift ^^ n) y"
  by (induction n) (simp_all add: crc_shift_xor)

lemma crc_shifts_inj: "(crc_shift ^^ n) x = (crc_shift ^^ n) y \<longleftrightarrow> x = y"
  by (induction n) (simp_all add: crc_shift_inj)

lemma crc_shift_push:
  assumes "\<not> bit x 31"
  shows "crc_shift (push_bit 1 x) = x"
proof (rule bit_word_eqI)
  fix n assume n: "n < LENGTH(32)"
  have "bit x n \<Longrightarrow> n \<noteq> 31" using assms by auto
  moreover have "\<not> bit (push_bit 1 x) 0" by (simp only: bit_push_bit_iff) simp
  ultimately show "bit (crc_shift (push_bit 1 x)) n = bit x n"
    using n by (simp only: crc_shift_alt if_False bit_xor_iff bit_drop_bit_eq comp_apply bit_push_bit_iff) auto
qed

lemma crc_shifts_push:
  "(\<And>k. 32 - n \<le> k \<Longrightarrow> \<not> bit x k) \<Longrightarrow> n \<le> 32 \<Longrightarrow> (crc_shift ^^ n) (push_bit n x) = x"
proof (induction n)
  case (Suc n)
  have p: "push_bit (Suc n) x = push_bit 1 (push_bit n x)" by simp
  have b: "\<not> bit (push_bit n x) 31"
    using Suc.prems(1) [of "31 - n"] Suc.prems(2) by (auto simp: bit_simps)
  have "(crc_shift ^^ Suc n) (push_bit (Suc n) x) = (crc_shift ^^ n) (crc_shift (push_bit 1 (push_bit n x)))"
    unfolding p funpow_Suc_right by simp
  also have "\<dots> = (crc_shift ^^ n) (push_bit n x)" by (simp only: crc_shift_push [OF b])
  also have "\<dots> = x" using Suc.prems by (intro Suc.IH) auto
  finally show ?case .
qed simp

section \<open>Bursts\<close>

text \<open>Up to four bytes as the number they are added to the register as.\<close>

fun u32_from_le :: "byte list \<Rightarrow> 32 word" where
  "u32_from_le [] = 0"
| "u32_from_le (b # bs) = ucast b XOR byte_left (u32_from_le bs)"

lemma u32_from_le_high: "8 * length bs \<le> k \<Longrightarrow> \<not> bit (u32_from_le bs) k"
proof (induction bs arbitrary: k)
  case (Cons b bs)
  then have "\<not> bit (u32_from_le bs) (k - 8)" by simp
  moreover have "\<not> bit b k" using Cons.prems by (auto dest: bit_imp_le_length)
  ultimately show ?case using Cons.prems by (simp add: bit_simps)
qed simp

lemma crc_bytes_shift:
  "length bs \<le> 4 \<Longrightarrow> foldl crc_byte c bs = (crc_shift ^^ (8 * length bs)) (c XOR u32_from_le bs)"
proof (induction bs arbitrary: c)
  case (Cons b bs)
  let ?x = "u32_from_le bs"
  have push: "(crc_shift ^^ 8) (byte_left ?x) = ?x"
    unfolding byte_left_def using Cons.prems u32_from_le_high [of bs] by (intro crc_shifts_push) auto
  have "foldl crc_byte c (b # bs) = (crc_shift ^^ (8 * length bs)) (crc_byte c b XOR ?x)"
    using Cons by simp
  also have "crc_byte c b XOR ?x = (crc_shift ^^ 8) ((c XOR ucast b) XOR byte_left ?x)"
    by (simp only: crc_byte_def crc_shifts_xor push)
  also have "(crc_shift ^^ (8 * length bs)) \<dots> = (crc_shift ^^ (8 * length (b # bs))) (c XOR u32_from_le (b # bs))"
    by (simp add: funpow_add [symmetric, THEN fun_cong, unfolded comp_def] xor.assoc add.commute)
  finally show ?case .
qed simp

lemma u32_from_le_inj:
  "length bs = length cs \<Longrightarrow> length bs \<le> 4 \<Longrightarrow> u32_from_le bs = u32_from_le cs \<Longrightarrow> bs = cs"
proof (induction bs cs rule: list_induct2)
  case (Cons b bs c cs)
  have eq: "bit (u32_from_le (b # bs)) n = bit (u32_from_le (c # cs)) n" for n using Cons.prems by simp
  have "b = c"
  proof (rule bit_word_eqI)
    fix n assume "n < LENGTH(8)"
    then show "bit b n = bit c n" using eq [of n] by (simp add: bit_simps)
  qed
  moreover have "u32_from_le bs = u32_from_le cs"
  proof (rule bit_word_eqI)
    fix n assume n: "n < LENGTH(32)"
    show "bit (u32_from_le bs) n = bit (u32_from_le cs) n"
    proof (cases "n + 8 < 32")
      case True
      have "\<not> bit b (n + 8)" "\<not> bit c (n + 8)" by (auto dest: bit_imp_le_length)
      then show ?thesis using eq [of "n + 8"] True by (simp add: bit_simps)
    next
      case False
      then show ?thesis using Cons.prems Cons.hyps u32_from_le_high [of bs n] u32_from_le_high [of cs n] by auto
    qed
  qed
  ultimately show ?case using Cons by simp
qed simp

lemma crc_byte_inj: "crc_byte c b = crc_byte d b \<longleftrightarrow> c = d"
  by (simp only: crc_byte_def crc_shifts_inj word_xor_cancel)

lemma crc_bytes_inj: "foldl crc_byte c bs = foldl crc_byte d bs \<longleftrightarrow> c = d"
  by (induction bs arbitrary: c d) (simp_all add: crc_byte_inj)

lemma crc_burst:
  assumes "length ds = length es" "length ds \<le> 4" "ds \<noteq> es"
  shows "png_crc32 (xs @ ds @ ys) \<noteq> png_crc32 (xs @ es @ ys)"
proof
  let ?c = "foldl crc_byte 0xffffffff xs"
  assume "png_crc32 (xs @ ds @ ys) = png_crc32 (xs @ es @ ys)"
  then have "foldl crc_byte ?c ds = foldl crc_byte ?c es"
    by (simp only: png_crc32_def foldl_append crc_bytes_inj bit.compl_eq_compl_iff)
  then have "u32_from_le ds = u32_from_le es"
    using assms(1,2) by (simp only: crc_bytes_shift crc_shifts_inj word_xor_cancel)
  with assms show False using u32_from_le_inj by blast
qed

end
