(* ===== verification/PngFilter.thy ===== *)
theory PngFilter
  imports PngCrc
begin

text \<open>
  The rows of a PNG (\<open>paeth_predictor\<close>, \<open>png_channels\<close>, \<open>png_expected_raw_bytes\<close> and the row loop of
  \<open>validate_png\<close> in \<open>src/src/image.rs\<close>): a row is a filter number and filtered bytes; each byte is
  restored from its left, upper and upper left neighbours, in place. The reference is the encoder's
  direction: filtering any row with any filter and restoring it gives the row back.
\<close>

section \<open>Sizes\<close>

definition image_error :: "error_kind \<Rightarrow> string \<Rightarrow> error" where
  "image_error kind msg = new_error kind ''image.http'' msg"

lemma image_error_kind [simp]: "e_kind (image_error k m) = k"
  by (simp add: image_error_def)

text \<open>The bytes of a pixel. The last branch is \<open>unreachable!()\<close>: only the five color types that
  \<open>IHDR\<close> may have get here.\<close>

definition known_color_type :: "byte \<Rightarrow> bool" where
  "known_color_type t \<longleftrightarrow> t \<in> {0, 2, 3, 4, 6}"

definition png_channels :: "byte \<Rightarrow> nat" where
  "png_channels t =
     (if t = 0 \<or> t = 3 then 1 else if t = 2 then 3 else if t = 4 then 2 else if t = 6 then 4 else 0)"

definition png_expected_raw_bytes :: "32 word \<Rightarrow> 32 word \<Rightarrow> byte \<Rightarrow> nat result" where
  "png_expected_raw_bytes width height t =
     ok_or (image_error ResourceLimit ''PNG dimensions exceed decoder bounds'')
       (Option.bind (checked_mul_us (unat width) (png_channels t)) (\<lambda>row.
        Option.bind (checked_add_us row 1) (\<lambda>row1. checked_mul_us row1 (unat height))))"

lemma png_channels_known: "known_color_type t \<Longrightarrow> 1 \<le> png_channels t \<and> png_channels t \<le> 4"
  by (auto simp: known_color_type_def png_channels_def)

lemma png_expected_raw_bytes_Inr:
  "png_expected_raw_bytes w h t = Inr n \<longleftrightarrow>
     n = (unat w * png_channels t + 1) * unat h \<and> unat w * png_channels t + 1 \<le> usize_max \<and> n \<le> usize_max"
  by (auto simp: png_expected_raw_bytes_def ok_or_Inr_iff usize_simps Option.bind_eq_Some_conv)

section \<open>The predictor\<close>

definition paeth_predictor :: "byte \<Rightarrow> byte \<Rightarrow> byte \<Rightarrow> byte" where
  "paeth_predictor left up upper_left =
     (let l = uint left; u = uint up; ul = uint upper_left;
          estimate = l + u - ul;
          left_distance = abs (estimate - l);
          up_distance = abs (estimate - u);
          upper_left_distance = abs (estimate - ul)
      in if left_distance \<le> up_distance \<and> left_distance \<le> upper_left_distance then left
         else if up_distance \<le> upper_left_distance then up
         else upper_left)"

text \<open>The predictor of the PNG standard: of left, above and upper left, in this order, the first of
  those nearest to \<open>left + above - upper left\<close>.\<close>

definition nearest_first :: "int \<Rightarrow> byte list \<Rightarrow> byte" where
  "nearest_first estimate candidates =
     hd (filter (\<lambda>b. \<forall>c \<in> set candidates. abs (estimate - uint b) \<le> abs (estimate - uint c)) candidates)"

lemma paeth_nearest:
  "paeth_predictor a b c = nearest_first (uint a + uint b - uint c) [a, b, c]"
  unfolding paeth_predictor_def nearest_first_def Let_def by auto

section \<open>Restoring a row\<close>

text \<open>The predicted value of a byte from its neighbours, per filter.\<close>

definition predicted :: "byte \<Rightarrow> byte \<Rightarrow> byte \<Rightarrow> byte \<Rightarrow> byte option" where
  "predicted kind left up upper_left =
     (if kind = 0 then Some 0
      else if kind = 1 then Some left
      else if kind = 2 then Some up
      else if kind = 3 then Some (word_of_nat ((unat left + unat up) div 2))
      else if kind = 4 then Some (paeth_predictor left up upper_left)
      else None)"

definition unfilter_at :: "byte \<Rightarrow> nat \<Rightarrow> byte list \<Rightarrow> nat \<Rightarrow> byte list \<Rightarrow> byte list result" where
  "unfilter_at kind channels previous index current =
     (let left = (if channels \<le> index then current ! (index - channels) else 0);
          up = previous ! index;
          upper_left = (if channels \<le> index then previous ! (index - channels) else 0)
      in result_bind
           (ok_or (image_error Protocol ''PNG row uses an unsupported filter'')
              (predicted kind left up upper_left))
           (\<lambda>p. Inr (current[index := current ! index + p])))"

definition unfilter_row :: "byte \<Rightarrow> nat \<Rightarrow> byte list \<Rightarrow> byte list \<Rightarrow> byte list result" where
  "unfilter_row kind channels previous current =
     result_fold (unfilter_at kind channels previous) [0..<length current] current"

text \<open>The encoder's direction: every byte minus its prediction from the row as it is.\<close>

definition filter_byte :: "byte \<Rightarrow> nat \<Rightarrow> byte list \<Rightarrow> byte list \<Rightarrow> nat \<Rightarrow> byte" where
  "filter_byte kind channels previous row i =
     row ! i - the (predicted kind (if channels \<le> i then row ! (i - channels) else 0) (previous ! i)
                     (if channels \<le> i then previous ! (i - channels) else 0))"

definition filter_row :: "byte \<Rightarrow> nat \<Rightarrow> byte list \<Rightarrow> byte list \<Rightarrow> byte list" where
  "filter_row kind channels previous row =
     map (filter_byte kind channels previous row) [0..<length row]"

lemma length_filter_row [simp]: "length (filter_row k c p row) = length row"
  by (simp add: filter_row_def)

lemma predicted_Some: "kind \<le> 4 \<Longrightarrow> \<exists>p. predicted kind l u ul = Some p"
proof -
  assume "kind \<le> 4"
  then have "unat kind \<le> 4" by (simp add: word_le_nat_alt)
  then have "unat kind \<in> {0, 1, 2, 3, 4}" by auto
  then have "word_of_nat (unat kind) \<in> {0, 1, 2, 3, 4 :: byte}"
    by (elim insertE emptyE) (simp_all only: of_nat_numeral semiring_1_class.of_nat_0 semiring_1_class.of_nat_1 insert_iff simp_thms)
  then have "kind \<in> {0, 1, 2, 3, 4}" by simp
  then show ?thesis by (auto simp: predicted_def)
qed

lemma unfilter_prefix:
  assumes "kind \<le> 4" "1 \<le> channels" "n \<le> length row"
  shows "result_fold (unfilter_at kind channels previous) [0..<n] (filter_row kind channels previous row) =
     Inr (take n row @ drop n (filter_row kind channels previous row))"
  using assms(3)
proof (induction n)
  case (Suc n)
  let ?f = "filter_row kind channels previous row"
  let ?cur = "take n row @ drop n ?f"
  have len: "n < length row" "n < length ?f" using Suc.prems by simp_all
  have here: "?cur ! n = filter_byte kind channels previous row n"
    using len by (simp add: nth_append filter_row_def)
  have left: "(if channels \<le> n then ?cur ! (n - channels) else 0) = (if channels \<le> n then row ! (n - channels) else 0)"
    using len assms(2) by (simp add: nth_append)
  obtain p where p: "predicted kind (if channels \<le> n then row ! (n - channels) else 0) (previous ! n)
      (if channels \<le> n then previous ! (n - channels) else 0) = Some p"
    using predicted_Some [OF assms(1)] by blast
  have "?cur[n := row ! n] = take (Suc n) row @ drop (Suc n) ?f"
    using len by (simp add: list_update_append take_Suc_conv_app_nth Cons_nth_drop_Suc [symmetric])
  moreover have "unfilter_at kind channels previous n ?cur = Inr (?cur[n := row ! n])"
    unfolding unfilter_at_def Let_def left p here filter_byte_def by simp
  ultimately show ?case using Suc by (simp add: result_fold_append)
qed simp

lemma unfilter_filter:
  assumes "kind \<le> 4" "1 \<le> channels"
  shows "unfilter_row kind channels previous (filter_row kind channels previous row) = Inr row"
  using unfilter_prefix [OF assms, of "length row" row previous] by (simp add: unfilter_row_def)

lemma unfilter_at_length: "unfilter_at k c p i cur = Inr cur' \<Longrightarrow> length cur' = length cur"
  by (auto simp: unfilter_at_def Let_def result_simps)

lemma unfilter_row_length:
  assumes "unfilter_row k c p cur = Inr cur'"
  shows "length cur' = length cur"
proof -
  have "result_fold (unfilter_at k c p) xs cur = Inr cur' \<Longrightarrow> length cur' = length cur" for xs cur
    by (induction xs arbitrary: cur) (auto simp: result_simps dest: unfilter_at_length)
  then show ?thesis using assms unfolding unfilter_row_def .
qed

section \<open>Transparent pixels\<close>

text \<open>Whether the pixel that starts at a position of a restored row is transparent. \<open>transparency\<close> is the
  content of \<open>tRNS\<close>, \<open>palette\<close> that of \<open>PLTE\<close>.\<close>

definition pixel_transparent ::
  "byte \<Rightarrow> byte list option \<Rightarrow> byte list option \<Rightarrow> byte list \<Rightarrow> nat \<Rightarrow> bool result" where
  "pixel_transparent t palette transparency row start =
     (if t = 0 then Inr (case transparency of Some v \<Rightarrow> row ! start = v ! 1 | None \<Rightarrow> False)
      else if t = 2 then Inr (case transparency of
          Some v \<Rightarrow> take 3 (drop start row) = [v ! 1, v ! 3, v ! 5] | None \<Rightarrow> False)
      else if t = 3 then
        (let i = unat (row ! start) in
         case palette of
           None \<Rightarrow> Inl (image_error Protocol ''indexed PNG is missing PLTE'')
         | Some colors \<Rightarrow>
             if length colors div 3 \<le> i
             then Inl (image_error Protocol ''indexed PNG pixel is outside PLTE'')
             else Inr (case transparency of
                 Some alpha \<Rightarrow> (if i < length alpha then alpha ! i else 255) < 255 | None \<Rightarrow> False))
      else if t = 4 then Inr (row ! (start + 1) < 255)
      else if t = 6 then Inr (row ! (start + 3) < 255)
      else Inr False)"

definition row_transparent ::
  "byte \<Rightarrow> nat \<Rightarrow> nat \<Rightarrow> byte list option \<Rightarrow> byte list option \<Rightarrow> byte list \<Rightarrow> bool \<Rightarrow> bool result" where
  "row_transparent t channels width palette transparency row =
     result_fold (\<lambda>pixel found.
       result_bind (pixel_transparent t palette transparency row (pixel * channels)) (\<lambda>b. Inr (found \<or> b)))
       [0..<width]"

lemma row_transparent_fold:
  "result_fold (\<lambda>pixel found. result_bind (p pixel) (\<lambda>b. Inr (found \<or> b))) xs s = Inr r \<longleftrightarrow>
     (\<forall>x \<in> set xs. \<exists>b. p x = Inr b) \<and> r = (s \<or> (\<exists>x \<in> set xs. p x = Inr True))"
proof (induction xs arbitrary: s)
  case (Cons x xs)
  show ?case
  proof (cases "p x")
    case (Inr b)
    then show ?thesis by (cases b) (auto simp: Cons.IH)
  qed simp
qed auto

lemma row_transparent_Inr:
  "row_transparent t ch w pal tr row s = Inr r \<longleftrightarrow>
     (\<forall>x < w. \<exists>b. pixel_transparent t pal tr row (x * ch) = Inr b) \<and>
     r = (s \<or> (\<exists>x < w. pixel_transparent t pal tr row (x * ch) = Inr True))"
  unfolding row_transparent_def row_transparent_fold by (auto simp: atLeast0LessThan)

section \<open>All rows\<close>

text \<open>What the decompressor yields: the bytes its reads return before the data ends or turns out to be
  damaged, and whether it ended properly. \<open>read_exact\<close> takes as many as asked for or fails.\<close>

record inflated =
  inf_bytes :: "byte list"
  inf_clean :: bool

definition read_exact :: "nat \<Rightarrow> string \<Rightarrow> byte list \<Rightarrow> (byte list \<times> byte list) result" where
  "read_exact n msg stream =
     (if n \<le> length stream then Inr (take n stream, drop n stream) else Inl (image_error Protocol msg))"

text \<open>One row: the filter number, the bytes, the restored row and its transparent pixels. The state is the rest of the
  stream, the previous row and the flag.\<close>

definition png_row ::
  "byte \<Rightarrow> nat \<Rightarrow> nat \<Rightarrow> nat \<Rightarrow> byte list option \<Rightarrow> byte list option
     \<Rightarrow> byte list \<times> byte list \<times> bool \<Rightarrow> (byte list \<times> byte list \<times> bool) result" where
  "png_row t channels width row_bytes palette transparency s0 =
     (case s0 of (stream, previous, found) \<Rightarrow>
        result_bind (read_exact 1 ''PNG IDAT is not valid zlib data'' stream) (\<lambda>(kind, stream1).
        result_bind (read_exact row_bytes ''PNG decompressed data length does not match IHDR'' stream1)
          (\<lambda>(current, stream2).
        result_bind (unfilter_row (hd kind) channels previous current) (\<lambda>row.
        result_bind (row_transparent t channels width palette transparency row found) (\<lambda>found1.
        Inr (stream2, row, found1))))))"

fun png_rows ::
  "nat \<Rightarrow> byte \<Rightarrow> nat \<Rightarrow> nat \<Rightarrow> nat \<Rightarrow> byte list option \<Rightarrow> byte list option
     \<Rightarrow> byte list \<times> byte list \<times> bool \<Rightarrow> (byte list \<times> byte list \<times> bool) result" where
  "png_rows 0 t channels width row_bytes palette transparency s = Inr s"
| "png_rows (Suc height) t channels width row_bytes palette transparency s =
     result_bind (png_row t channels width row_bytes palette transparency s)
       (png_rows height t channels width row_bytes palette transparency)"

definition png_end_of_data :: "inflated \<Rightarrow> byte list \<Rightarrow> unit result" where
  "png_end_of_data z stream =
     (if stream \<noteq> [] then Inl (image_error Protocol ''PNG decompressed data contains trailing bytes'')
      else if inf_clean z then Inr ()
      else Inl (image_error Protocol ''PNG IDAT is not valid zlib data''))"

end
