(* ===== verification/Png.thy ===== *)
theory Png
  imports PngFilter
begin

text \<open>
  The check of a PNG (\<open>validate_png\<close> of \<open>src/src/image.rs\<close>): the chunk loop with its order rules, the
  header, palette and transparency, and the rows. The zlib decoder is a parameter. The chunk loop works
  on the whole byte list and an offset, as the code does.
\<close>

section \<open>Chunk types and bounds\<close>

definition PNG_SIGNATURE :: "byte list" where
  "PNG_SIGNATURE = [0x89, 0x50, 0x4E, 0x47, 0x0D, 0x0A, 0x1A, 0x0A]"

definition IHDR :: "byte list" where "IHDR = [0x49, 0x48, 0x44, 0x52]"
definition PLTE :: "byte list" where "PLTE = [0x50, 0x4C, 0x54, 0x45]"
definition tRNS :: "byte list" where "tRNS = [0x74, 0x52, 0x4E, 0x53]"
definition IDAT :: "byte list" where "IDAT = [0x49, 0x44, 0x41, 0x54]"
definition IEND :: "byte list" where "IEND = [0x49, 0x45, 0x4E, 0x44]"

lemmas chunk_types = IHDR_def PLTE_def tRNS_def IDAT_def IEND_def

lemma chunk_types_distinct [simp]:
  "IHDR \<noteq> PLTE" "IHDR \<noteq> tRNS" "IHDR \<noteq> IDAT" "IHDR \<noteq> IEND" "PLTE \<noteq> IHDR" "PLTE \<noteq> tRNS"
  "PLTE \<noteq> IDAT" "PLTE \<noteq> IEND" "tRNS \<noteq> IHDR" "tRNS \<noteq> PLTE" "tRNS \<noteq> IDAT" "tRNS \<noteq> IEND"
  "IDAT \<noteq> IHDR" "IDAT \<noteq> PLTE" "IDAT \<noteq> tRNS" "IDAT \<noteq> IEND" "IEND \<noteq> IHDR" "IEND \<noteq> PLTE"
  "IEND \<noteq> tRNS" "IEND \<noteq> IDAT"
  by (simp_all add: chunk_types)

lemma chunk_types_length [simp]:
  "length IHDR = 4" "length PLTE = 4" "length tRNS = 4" "length IDAT = 4" "length IEND = 4"
  "length PNG_SIGNATURE = 8"
  by (simp_all add: chunk_types PNG_SIGNATURE_def)

definition MAX_IMAGE_JSON_BYTES :: nat where "MAX_IMAGE_JSON_BYTES = 16777216"
definition MAX_PNG_RAW_BYTES :: nat where "MAX_PNG_RAW_BYTES = 14680064"

section \<open>One chunk\<close>

record png_state =
  ps_ihdr :: "(32 word \<times> 32 word \<times> byte) option"
  ps_idat :: "byte list"
  ps_idat_seen :: bool
  ps_idat_closed :: bool
  ps_palette :: "byte list option"
  ps_transparency :: "byte list option"
  ps_saw_iend :: bool

definition empty_png :: png_state where
  "empty_png = \<lparr>ps_ihdr = None, ps_idat = [], ps_idat_seen = False, ps_idat_closed = False,
     ps_palette = None, ps_transparency = None, ps_saw_iend = False\<rparr>"

definition png_protocol :: "string \<Rightarrow> error + 'a" where
  "png_protocol msg = Inl (image_error Protocol msg)"

definition handle_ihdr :: "byte list \<Rightarrow> nat \<Rightarrow> png_state \<Rightarrow> png_state result" where
  "handle_ihdr data offset st =
     (if ps_ihdr st \<noteq> None \<or> length data \<noteq> 13 \<or> offset \<noteq> 8
      then png_protocol ''PNG has an invalid IHDR''
      else
        let width = u32_from_be (take 4 data); height = u32_from_be (take 4 (drop 4 data)); t = data ! 9
        in if width = 0 \<or> height = 0 \<or> 8192 < width \<or> 8192 < height \<or> data ! 8 \<noteq> 8
              \<or> \<not> known_color_type t \<or> data ! 10 \<noteq> 0 \<or> data ! 11 \<noteq> 0 \<or> data ! 12 \<noteq> 0
           then png_protocol ''PNG IHDR dimensions or format are unsupported''
           else result_bind (png_expected_raw_bytes width height t) (\<lambda>expected_raw.
             if MAX_PNG_RAW_BYTES < expected_raw
             then Inl (image_error ResourceLimit
                    (''PNG decompressed data exceeds '' @ show_nat MAX_PNG_RAW_BYTES @ '' bytes''))
             else Inr (st\<lparr>ps_ihdr := Some (width, height, t)\<rparr>)))"

definition handle_plte :: "byte list \<Rightarrow> png_state \<Rightarrow> png_state result" where
  "handle_plte data st =
     (case ps_ihdr st of
        None \<Rightarrow> png_protocol ''PNG PLTE appears before IHDR''
      | Some (_, _, t) \<Rightarrow>
          if ps_idat_seen st \<or> ps_palette st \<noteq> None \<or> length data = 0 \<or> 768 < length data
             \<or> length data mod 3 \<noteq> 0 \<or> t = 0 \<or> t = 4
          then png_protocol ''PNG has an invalid or misplaced PLTE''
          else Inr (st\<lparr>ps_palette := Some data\<rparr>))"

text \<open>\<open>chunks_exact(2)\<close> of six bytes are three samples, each with a zero high byte.\<close>

definition transparency_valid :: "byte \<Rightarrow> byte list option \<Rightarrow> byte list \<Rightarrow> bool" where
  "transparency_valid t palette data =
     (if t = 0 then length data = 2 \<and> data ! 0 = 0
      else if t = 2 then length data = 6 \<and> data ! 0 = 0 \<and> data ! 2 = 0 \<and> data ! 4 = 0
      else if t = 3 then
        (case palette of Some colors \<Rightarrow> length data \<le> length colors div 3 \<and> 0 < length data | None \<Rightarrow> False)
      else False)"

definition handle_trns :: "byte list \<Rightarrow> png_state \<Rightarrow> png_state result" where
  "handle_trns data st =
     (case ps_ihdr st of
        None \<Rightarrow> png_protocol ''PNG tRNS appears before IHDR''
      | Some (_, _, t) \<Rightarrow>
          if ps_idat_seen st \<or> ps_transparency st \<noteq> None
          then png_protocol ''PNG has a duplicate or misplaced tRNS''
          else if \<not> transparency_valid t (ps_palette st) data
          then png_protocol ''PNG has invalid transparency data''
          else Inr (st\<lparr>ps_transparency := Some data\<rparr>))"

definition handle_idat :: "byte list \<Rightarrow> png_state \<Rightarrow> png_state result" where
  "handle_idat data st =
     (case ps_ihdr st of
        None \<Rightarrow> png_protocol ''PNG IDAT is missing IHDR''
      | Some (_, _, t) \<Rightarrow>
          if (t = 3 \<and> ps_palette st = None) \<or> ps_idat_closed st
          then png_protocol (if t = 3 \<and> ps_palette st = None
                 then ''indexed PNG IDAT appears before PLTE'' else ''PNG IDAT is not contiguous'')
          else if MAX_IMAGE_JSON_BYTES < length (ps_idat st @ data)
          then Inl (image_error ResourceLimit ''PNG compressed data exceeds the bound'')
          else Inr (st\<lparr>ps_idat_seen := True, ps_idat := ps_idat st @ data\<rparr>))"

definition handle_iend :: "byte list \<Rightarrow> nat \<Rightarrow> nat \<Rightarrow> png_state \<Rightarrow> png_state result" where
  "handle_iend data chunk_end whole st =
     (if length data \<noteq> 0 \<or> \<not> ps_idat_seen st then png_protocol ''PNG has an invalid IEND''
      else if chunk_end \<noteq> whole then png_protocol ''PNG contains data after IEND''
      else Inr (st\<lparr>ps_saw_iend := True\<rparr>))"

definition is_ascii_uppercase :: "byte \<Rightarrow> bool" where
  "is_ascii_uppercase b \<longleftrightarrow> 0x41 \<le> b \<and> b \<le> 0x5A"

definition close_idat :: "png_state \<Rightarrow> png_state" where
  "close_idat st = (if ps_idat_seen st then st\<lparr>ps_idat_closed := True\<rparr> else st)"

definition handle_other :: "byte list \<Rightarrow> png_state \<Rightarrow> png_state result" where
  "handle_other chunk_type st =
     (if ps_ihdr st = None then png_protocol ''PNG contains a chunk before IHDR''
      else if is_ascii_uppercase (hd chunk_type) then png_protocol ''PNG contains an unknown critical chunk''
      else Inr (close_idat st))"

definition handle_chunk ::
  "byte list \<Rightarrow> byte list \<Rightarrow> nat \<Rightarrow> nat \<Rightarrow> nat \<Rightarrow> png_state \<Rightarrow> png_state result" where
  "handle_chunk chunk_type data offset chunk_end whole st =
     result_bind
       (if chunk_type = IHDR then handle_ihdr data offset st
        else if chunk_type = PLTE then handle_plte data st
        else if chunk_type = tRNS then handle_trns data st
        else if chunk_type = IDAT then handle_idat data st
        else if chunk_type = IEND then handle_iend data chunk_end whole st
        else handle_other chunk_type st)
       (\<lambda>st1. Inr (if chunk_type \<noteq> IDAT \<and> chunk_type \<noteq> IEND then close_idat st1 else st1))"

section \<open>The chunk loop\<close>

function png_chunks :: "byte list \<Rightarrow> nat \<Rightarrow> png_state \<Rightarrow> png_state result" where
  "png_chunks bytes offset st =
     (if length bytes \<le> offset then Inr st
      else if length bytes - offset < 12 then png_protocol ''PNG chunk is truncated''
      else
        let len = unat (u32_from_be (take 4 (drop offset bytes)))
        in result_bind
             (ok_or (image_error ResourceLimit ''PNG chunk length overflow'')
                (Option.bind (checked_add_us offset 12) (\<lambda>v. checked_add_us v len)))
             (\<lambda>chunk_end.
               if length bytes < chunk_end then png_protocol ''PNG chunk exceeds response''
               else if png_crc32 (take (4 + len) (drop (offset + 4) bytes))
                       \<noteq> u32_from_be (take 4 (drop (offset + 8 + len) bytes))
               then png_protocol ''PNG chunk CRC mismatch''
               else if ps_saw_iend st then png_protocol ''PNG contains a chunk after IEND''
               else result_bind
                 (handle_chunk (take 4 (drop (offset + 4) bytes)) (take len (drop (offset + 8) bytes))
                    offset chunk_end (length bytes) st)
                 (png_chunks bytes chunk_end)))"
  by pat_completeness auto
termination
  by (relation "measure (\<lambda>(bytes, offset, st). length bytes - offset)")
     (auto simp: ok_or_Inr_iff usize_simps Option.bind_eq_Some_conv)

declare png_chunks.simps [simp del]

section \<open>The whole check\<close>

record png_info =
  pi_width :: "32 word"
  pi_height :: "32 word"
  pi_alpha_capable :: bool
  pi_has_transparent_pixels :: bool

definition check_rows ::
  "(byte list \<Rightarrow> inflated) \<Rightarrow> 32 word \<Rightarrow> 32 word \<Rightarrow> byte \<Rightarrow> png_state \<Rightarrow> png_info result" where
  "check_rows inflate width height t st =
     (let z = inflate (ps_idat st); channels = png_channels t in
      result_bind
        (ok_or (image_error ResourceLimit ''PNG row size exceeds decoder bounds'')
           (checked_mul_us (unat width) channels)) (\<lambda>row_bytes.
      result_bind
        (png_rows (unat height) t channels (unat width) row_bytes (ps_palette st) (ps_transparency st)
           (inf_bytes z, replicate row_bytes 0, False)) (\<lambda>(stream, _, found).
      result_bind (png_end_of_data z stream) (\<lambda>_.
      Inr \<lparr>pi_width = width, pi_height = height,
           pi_alpha_capable = (t = 4 \<or> t = 6 \<or> ps_transparency st \<noteq> None),
           pi_has_transparent_pixels = found\<rparr>))))"

definition validate_png :: "(byte list \<Rightarrow> inflated) \<Rightarrow> byte list \<Rightarrow> png_info result" where
  "validate_png inflate bytes =
     (if length bytes < 33 \<or> take 8 bytes \<noteq> PNG_SIGNATURE then png_protocol ''image response is not a PNG''
      else result_bind (png_chunks bytes 8 empty_png) (\<lambda>st.
        result_bind (ok_or (image_error Protocol ''PNG is missing IHDR'') (ps_ihdr st)) (\<lambda>(width, height, t).
        if \<not> ps_saw_iend st then png_protocol ''PNG is missing IEND''
        else if t = 3 \<and> ps_palette st = None then png_protocol ''indexed PNG is missing PLTE''
        else check_rows inflate width height t st)))"

definition validate_png_dimensions :: "(byte list \<Rightarrow> inflated) \<Rightarrow> byte list \<Rightarrow> (32 word \<times> 32 word) result" where
  "validate_png_dimensions inflate bytes =
     result_bind (validate_png inflate bytes) (\<lambda>info. Inr (pi_width info, pi_height info))"

end
