(* ===== verification/Image.thy ===== *)
theory Image
  imports Json Png
begin

text \<open>
  Direct image requests (\<open>src/src/image.rs\<close>): the request and its parameters, the authentication taken
  from the app-server, the state of one billed operation, the POST and what becomes of its answer. The
  crates' decoders (JSON, base64, zlib) are parameters; the operation's state is shared by the blocking worker
  that sends the request and the caller, who may go away at any time.
\<close>

section \<open>Requests and responses\<close>

datatype image_background = BackgroundAuto | BackgroundTransparent | BackgroundOpaque
datatype image_quality = QualityAuto | QualityLow | QualityMedium | QualityHigh
datatype image_dimensions = SizeAuto | SizeSquare | SizeLandscape | SizePortrait

fun background_str :: "image_background \<Rightarrow> string" where
  "background_str BackgroundAuto = ''auto''"
| "background_str BackgroundTransparent = ''transparent''"
| "background_str BackgroundOpaque = ''opaque''"

fun quality_str :: "image_quality \<Rightarrow> string" where
  "quality_str QualityAuto = ''auto''"
| "quality_str QualityLow = ''low''"
| "quality_str QualityMedium = ''medium''"
| "quality_str QualityHigh = ''high''"

fun dimensions_str :: "image_dimensions \<Rightarrow> string" where
  "dimensions_str SizeAuto = ''auto''"
| "dimensions_str SizeSquare = ''1024x1024''"
| "dimensions_str SizeLandscape = ''1536x1024''"
| "dimensions_str SizePortrait = ''1024x1536''"

record direct_image_request =
  dq_prompt :: string
  dq_background :: image_background
  dq_dimensions :: image_dimensions
  dq_quality :: image_quality

record direct_image_response =
  dr_base64 :: string
  dr_media_type :: string
  dr_byte_length :: nat
  dr_width :: "32 word"
  dr_height :: "32 word"
  dr_transparent_background :: "bool option"
  dr_alpha_capable :: bool

definition CHATGPT_IMAGE_GENERATION_ENDPOINT :: string where
  "CHATGPT_IMAGE_GENERATION_ENDPOINT = ''https://chatgpt.com/backend-api/codex/images/generations''"
definition CODEX_VERSION :: string where "CODEX_VERSION = ''0.150.1''"
definition IMAGE_MODEL :: string where "IMAGE_MODEL = ''gpt-image-2''"
definition ORIGINATOR :: string where "ORIGINATOR = ''codex_cli_rs''"
definition MAX_IMAGE_RESPONSE_BYTES :: nat where "MAX_IMAGE_RESPONSE_BYTES = 8388608"
definition MAX_JWT_BYTES :: nat where "MAX_JWT_BYTES = 262144"
definition MAX_ACCOUNT_ID_BYTES :: nat where "MAX_ACCOUNT_ID_BYTES = 256"
definition MAX_BODY_BYTES :: nat where "MAX_BODY_BYTES = 262144"

text \<open>The crates: the message of a failed decoding of the login status, the decoder of the endpoint's
  answer (the \<open>b64_json\<close> of each image), base64 in its three forms, JSON of a byte slice, zlib, and the message
  of a body over the limit.\<close>

record image_codecs =
  ic_status_error :: "json \<Rightarrow> string"
  ic_response :: "byte list \<Rightarrow> string + string list"
  ic_decode :: "string \<Rightarrow> string + byte list"
  ic_encode :: "byte list \<Rightarrow> string"
  ic_url_no_pad :: "string \<Rightarrow> byte list option"
  ic_url_pad :: "string \<Rightarrow> byte list option"
  ic_json :: "byte list \<Rightarrow> json option"
  ic_inflate :: "byte list \<Rightarrow> inflated"
  ic_over_limit :: string

section \<open>Authentication\<close>

record image_auth_data =
  ia_access_token :: string
  ia_account_id :: string

record auth_status =
  as_method :: "string option"
  as_token :: "string option"
  as_requires_openai_auth :: "bool option"

text \<open>The derived decoder of three optional fields: an object with any other keys, or an array of
  exactly the three; a missing field and \<open>null\<close> are \<open>None\<close>.\<close>

definition opt_string :: "json option \<Rightarrow> string option option" where
  "opt_string v = (case v of None \<Rightarrow> Some None | Some JNull \<Rightarrow> Some None | Some (JString s) \<Rightarrow> Some (Some s) | Some _ \<Rightarrow> None)"

definition opt_bool :: "json option \<Rightarrow> bool option option" where
  "opt_bool v = (case v of None \<Rightarrow> Some None | Some JNull \<Rightarrow> Some None | Some (JBool b) \<Rightarrow> Some (Some b) | Some _ \<Rightarrow> None)"

definition auth_status_of ::
  "string option option \<Rightarrow> string option option \<Rightarrow> bool option option \<Rightarrow> auth_status option" where
  "auth_status_of m t r =
     Option.bind m (\<lambda>m. Option.bind t (\<lambda>t. Option.bind r (\<lambda>r.
       Some \<lparr>as_method = m, as_token = t, as_requires_openai_auth = r\<rparr>)))"

fun decode_auth_status :: "json \<Rightarrow> auth_status option" where
  "decode_auth_status (JObject m) =
     auth_status_of (opt_string (map_of m ''authMethod'')) (opt_string (map_of m ''authToken''))
       (opt_bool (map_of m ''requiresOpenaiAuth''))"
| "decode_auth_status (JArray [m, t, r]) =
     auth_status_of (opt_string (Some m)) (opt_string (Some t)) (opt_bool (Some r))"
| "decode_auth_status v = None"

definition auth_failure :: "string \<Rightarrow> error + 'a" where
  "auth_failure msg = Inl (new_error Authentication ''image.auth'' msg)"

text \<open>\<open>str::split('.')\<close>.\<close>

fun split_dots :: "string \<Rightarrow> string list" where
  "split_dots [] = [[]]"
| "split_dots (c # s) =
     (if c = CHR ''.'' then [] # split_dots s
      else case split_dots s of [] \<Rightarrow> [[c]] | p # ps \<Rightarrow> (c # p) # ps)"

definition account_claim :: "json \<Rightarrow> string option" where
  "account_claim claims =
     Option.bind (Option.bind (Option.bind (Option.bind
         (jget ''https://api.openai.com/auth'' claims) as_object)
         (\<lambda>auth. map_of auth ''chatgpt_account_id'')) as_str)
         (\<lambda>v. if v \<noteq> [] \<and> length v \<le> MAX_ACCOUNT_ID_BYTES \<and> list_all is_ascii_graphic v then Some v else None)"

definition account_id_from_jwt :: "image_codecs \<Rightarrow> string \<Rightarrow> string result" where
  "account_id_from_jwt codecs token =
     (case split_dots token of
        _ # payload # rest \<Rightarrow>
          if length rest \<noteq> 1 \<or> payload = []
          then auth_failure ''official app-server access token has an invalid JWT shape''
          else (case (case ic_url_no_pad codecs payload of Some d \<Rightarrow> Some d | None \<Rightarrow> ic_url_pad codecs payload) of
                  None \<Rightarrow> auth_failure ''official app-server access token payload is not valid base64url''
                | Some decoded \<Rightarrow>
                    (case ic_json codecs decoded of
                       None \<Rightarrow> auth_failure ''official app-server access token payload is not valid JSON''
                     | Some claims \<Rightarrow>
                         (case account_claim claims of
                            None \<Rightarrow> auth_failure
                              ''official app-server access token lacks a bounded ChatGPT account claim''
                          | Some account \<Rightarrow> Inr account)))
      | _ \<Rightarrow> auth_failure ''official app-server access token is not a JWT'')"

definition from_auth_status :: "image_codecs \<Rightarrow> json \<Rightarrow> image_auth_data result" where
  "from_auth_status codecs response =
     (case decode_auth_status response of
        None \<Rightarrow> auth_failure (''official app-server auth status was invalid: '' @ ic_status_error codecs response)
      | Some parsed \<Rightarrow>
          if as_method parsed \<noteq> Some ''chatgpt''
          then auth_failure ''official app-server did not report a ChatGPT login''
          else if as_requires_openai_auth parsed = Some False
          then auth_failure ''official app-server is configured without ChatGPT authentication''
          else (case as_token parsed of
                  None \<Rightarrow> auth_failure ''official app-server did not export an access token''
                | Some token \<Rightarrow>
                    if token = [] \<or> MAX_JWT_BYTES < length token \<or> CHR 0x00 \<in> set token
                    then auth_failure ''official app-server exported an invalid bounded access token''
                    else result_bind (account_id_from_jwt codecs token) (\<lambda>account.
                      Inr \<lparr>ia_access_token = token, ia_account_id = account\<rparr>)))"

section \<open>One billed operation\<close>

datatype image_phase = PhPending | PhDispatched | PhCancelledBefore | PhCancelledAfter | PhFinished

text \<open>What is written to the endpoint: the address, the headers that vary and the body.\<close>

record http_post =
  hp_endpoint :: string
  hp_access_token :: string
  hp_account_id :: string
  hp_version :: string
  hp_originator :: string
  hp_turn_id :: string
  hp_body :: string

text \<open>The shared state, with the posts that were sent.\<close>

record image_op =
  io_phase :: image_phase
  io_sent :: "http_post list"

definition new_image_op :: image_op where
  "new_image_op = \<lparr>io_phase = PhPending, io_sent = []\<rparr>"

definition begin_dispatch :: "image_op \<Rightarrow> unit result \<times> image_op" where
  "begin_dispatch op =
     (case io_phase op of
        PhPending \<Rightarrow> (Inr (), op\<lparr>io_phase := PhDispatched\<rparr>)
      | PhCancelledBefore \<Rightarrow> (Inl (new_error Cancelled ''image.generate''
            ''cancelled image operation cannot be dispatched again''), op)
      | PhCancelledAfter \<Rightarrow> (Inl (new_error Cancelled ''image.generate''
            ''cancelled image operation cannot be dispatched again''), op)
      | _ \<Rightarrow> (Inl (new_error Protocol ''image.generate''
            ''image operation was dispatched more than once''), op))"

definition reset_after_unauthorized :: "image_op \<Rightarrow> bool \<times> image_op" where
  "reset_after_unauthorized op =
     (if io_phase op = PhDispatched then (True, op\<lparr>io_phase := PhPending\<rparr>) else (False, op))"

definition finish_op :: "image_op \<Rightarrow> image_op" where
  "finish_op op = (if io_phase op = PhDispatched then op\<lparr>io_phase := PhFinished\<rparr> else op)"

definition is_dispatched :: "image_op \<Rightarrow> bool" where
  "is_dispatched op \<longleftrightarrow> io_phase op \<in> {PhDispatched, PhCancelledAfter, PhFinished}"

definition cancel_op :: "image_op \<Rightarrow> bool \<times> image_op" where
  "cancel_op op =
     (case io_phase op of
        PhPending \<Rightarrow> (False, op\<lparr>io_phase := PhCancelledBefore\<rparr>)
      | PhDispatched \<Rightarrow> (True, op\<lparr>io_phase := PhCancelledAfter\<rparr>)
      | PhFinished \<Rightarrow> (True, op\<lparr>io_phase := PhCancelledAfter\<rparr>)
      | PhCancelledBefore \<Rightarrow> (False, op)
      | PhCancelledAfter \<Rightarrow> (True, op))"

definition cancellation_error :: "string \<Rightarrow> image_op \<Rightarrow> error" where
  "cancellation_error turn_id op =
     (if is_dispatched op
      then new_error OutcomeUnknown ''image.generate''
        (''image turn '' @ quoted turn_id @ '' was dispatched but its result was abandoned; outcome is unknown and the request was not retried'')
      else new_error Cancelled ''image.generate''
        (''image turn '' @ quoted turn_id @ '' was cancelled before dispatch''))"

definition is_cancelled :: "image_op \<Rightarrow> bool" where
  "is_cancelled op \<longleftrightarrow> io_phase op \<in> {PhCancelledBefore, PhCancelledAfter}"

section \<open>The answer of the endpoint\<close>

definition http_error :: "error_kind \<Rightarrow> string \<Rightarrow> error + 'a" where
  "http_error kind msg = Inl (image_error kind msg)"

definition parse_image_endpoint_response ::
  "image_codecs \<Rightarrow> byte list \<Rightarrow> image_background \<Rightarrow> direct_image_response result" where
  "parse_image_endpoint_response codecs bytes requested_background =
     (case ic_response codecs bytes of
        Inl e \<Rightarrow> http_error Protocol (''official image endpoint returned invalid JSON: '' @ e)
      | Inr images \<Rightarrow>
          if length images \<noteq> 1
          then http_error Protocol (''official image endpoint returned '' @ show_nat (length images)
                 @ '' images; exactly one is required'')
          else let encoded = hd images in
            if encoded = [] \<or> (MAX_IMAGE_RESPONSE_BYTES + 2) div 3 * 4 < length encoded
            then http_error ResourceLimit ''official image endpoint returned an oversized or empty image''
            else (case ic_decode codecs encoded of
                    Inl e \<Rightarrow> http_error Protocol (''official image endpoint returned invalid PNG base64: '' @ e)
                  | Inr decoded \<Rightarrow>
                      if MAX_IMAGE_RESPONSE_BYTES < length decoded
                      then http_error ResourceLimit ''official image endpoint returned an oversized PNG''
                      else result_bind (validate_png (ic_inflate codecs) decoded) (\<lambda>info.
                        Inr \<lparr>dr_base64 = ic_encode codecs decoded, dr_media_type = ''image/png'',
                             dr_byte_length = length decoded, dr_width = pi_width info, dr_height = pi_height info,
                             dr_transparent_background =
                               (case requested_background of
                                  BackgroundTransparent \<Rightarrow> Some (pi_has_transparent_pixels info) | _ \<Rightarrow> None),
                             dr_alpha_capable = pi_alpha_capable info\<rparr>)))"

section \<open>The worker\<close>

datatype image_endpoint_error = Unauthorized | Failed error

text \<open>The fate of a POST: it fails, or it is answered with a status and a body that may break off.\<close>

record http_body =
  hb_bytes :: "byte list"
  hb_failure :: "string option"

datatype http_reply = SendFailed string | Answered nat http_body

definition read_body :: "image_codecs \<Rightarrow> http_body \<Rightarrow> string + byte list" where
  "read_body codecs body =
     (if MAX_IMAGE_JSON_BYTES < length (hb_bytes body) then Inl (ic_over_limit codecs)
      else case hb_failure body of Some e \<Rightarrow> Inl e | None \<Rightarrow> Inr (hb_bytes body))"

text \<open>Between two accesses of the worker to the shared state its caller may have gone away, which cancels
  the operation. \<open>gone k\<close> says that this happens right before the \<open>k\<close>-th access.\<close>

definition caller_gone :: "bool \<Rightarrow> image_op \<Rightarrow> image_op" where
  "caller_gone g op = (if g then snd (cancel_op op) else op)"

definition image_outcome_unknown :: "string \<Rightarrow> error \<Rightarrow> error" where
  "image_outcome_unknown turn_id cause =
     new_error OutcomeUnknown ''image.generate''
       (''image turn '' @ quoted turn_id
          @ '' was dispatched but its response could not be validated; outcome is unknown: '' @ error_to_string cause)"

definition image_body :: "direct_image_request \<Rightarrow> json" where
  "image_body rq =
     jobj [(''prompt'', JString (dq_prompt rq)), (''background'', JString (background_str (dq_background rq))),
           (''model'', JString IMAGE_MODEL), (''n'', JNumber (JInt 1)),
           (''quality'', JString (quality_str (dq_quality rq))),
           (''size'', JString (dimensions_str (dq_dimensions rq)))]"

text \<open>The body of a 200 answer.\<close>

definition accept_body ::
  "image_codecs \<Rightarrow> direct_image_request \<Rightarrow> string \<Rightarrow> (nat \<Rightarrow> bool) \<Rightarrow> http_body \<Rightarrow> image_op
     \<Rightarrow> (image_endpoint_error + direct_image_response) \<times> image_op" where
  "accept_body codecs rq turn_id gone body op1 =
     (case read_body codecs body of
        Inl e \<Rightarrow> (Inl (Failed (image_outcome_unknown turn_id
                   (image_error Protocol (''official image endpoint response could not be read: '' @ e)))), op1)
      | Inr bytes \<Rightarrow>
          let op2 = caller_gone (gone 2) op1 in
          if is_cancelled op2 then (Inl (Failed (cancellation_error turn_id op2)), op2)
          else (case parse_image_endpoint_response codecs bytes (dq_background rq) of
                  Inr parsed \<Rightarrow>
                    let op3 = caller_gone (gone 3) op2 in
                    if is_cancelled op3 then (Inl (Failed (cancellation_error turn_id op3)), op3)
                    else (Inr parsed, finish_op (caller_gone (gone 4) op3))
                | Inl e \<Rightarrow> (Inl (Failed (image_outcome_unknown turn_id e)), op2)))"

definition accept_reply ::
  "image_codecs \<Rightarrow> direct_image_request \<Rightarrow> string \<Rightarrow> (nat \<Rightarrow> bool) \<Rightarrow> http_reply \<Rightarrow> image_op
     \<Rightarrow> (image_endpoint_error + direct_image_response) \<times> image_op" where
  "accept_reply codecs rq turn_id gone reply op0 =
     (let op1 = caller_gone (gone 1) op0 in
      case reply of
        SendFailed e \<Rightarrow>
          (Inl (Failed (image_error (if is_dispatched op1 then OutcomeUnknown else Disconnected)
                  (''official image endpoint request failed: '' @ e))), op1)
      | Answered status body \<Rightarrow>
          if status = 401 then (Inl Unauthorized, snd (reset_after_unauthorized op1))
          else if status \<noteq> 200
          then (Inl (Failed (image_error Rpc (''official image endpoint returned HTTP '' @ show_nat status))),
                finish_op op1)
          else accept_body codecs rq turn_id gone body op1)"

definition send_image_request ::
  "image_codecs \<Rightarrow> (json \<Rightarrow> string + string) \<Rightarrow> string \<Rightarrow> image_auth_data \<Rightarrow> direct_image_request \<Rightarrow> string
     \<Rightarrow> (nat \<Rightarrow> bool) \<Rightarrow> http_reply \<Rightarrow> image_op
     \<Rightarrow> (image_endpoint_error + direct_image_response) \<times> image_op" where
  "send_image_request codecs pj endpoint auth rq turn_id gone reply op =
     (case pj (image_body rq) of
        Inl e \<Rightarrow> (Inl (Failed (image_error Protocol (''image request could not be encoded: '' @ e))), op)
      | Inr body \<Rightarrow>
          if MAX_BODY_BYTES < length body
          then (Inl (Failed (image_error ResourceLimit ''image request body exceeds the bounded limit'')), op)
          else (case begin_dispatch (caller_gone (gone 0) op) of
                  (Inl e, op1) \<Rightarrow> (Inl (Failed e), op1)
                | (Inr _, op1) \<Rightarrow>
                    accept_reply codecs rq turn_id gone reply
                      (op1\<lparr>io_sent := io_sent op1 @
                         [\<lparr>hp_endpoint = endpoint, hp_access_token = ia_access_token auth,
                           hp_account_id = ia_account_id auth, hp_version = CODEX_VERSION, hp_originator = ORIGINATOR,
                           hp_turn_id = turn_id, hp_body = body\<rparr>]\<rparr>)))"

text \<open>The worker runs on the blocking pool; \<open>join\<close> is the message of a worker that was never run.\<close>

definition generate_via_endpoint ::
  "image_codecs \<Rightarrow> (json \<Rightarrow> string + string) \<Rightarrow> string \<Rightarrow> image_auth_data \<Rightarrow> direct_image_request \<Rightarrow> string
     \<Rightarrow> (nat \<Rightarrow> bool) \<Rightarrow> string option \<Rightarrow> http_reply \<Rightarrow> image_op
     \<Rightarrow> (image_endpoint_error + direct_image_response) \<times> image_op" where
  "generate_via_endpoint codecs pj endpoint auth rq turn_id gone join reply op =
     (case join of
        Some e \<Rightarrow> (Inl (Failed (image_error Process (''image request worker failed: '' @ e))), op)
      | None \<Rightarrow> send_image_request codecs pj endpoint auth rq turn_id gone reply op)"

section \<open>Turn identifiers\<close>

fun show_hex :: "nat \<Rightarrow> string" where
  "show_hex n =
     (let d = (\<lambda>k. char_of ((if k < 10 then 48 else 87) + k :: nat))
      in if n < 16 then [d n] else show_hex (n div 16) @ [d (n mod 16)])"

declare show_hex.simps [simp del]

definition image_turn_id :: "nat \<Rightarrow> nat \<Rightarrow> nat \<Rightarrow> string" where
  "image_turn_id process_id nanos sequence =
     ''vergerail-image-'' @ show_nat process_id @ ''-''
       @ replicate (16 - length (show_hex nanos)) (CHR ''0'') @ show_hex nanos @ ''-'' @ show_nat sequence"

section \<open>The phases under interleaving\<close>

lemma caller_gone_False [simp]: "caller_gone False op = op"
  by (simp add: caller_gone_def)

lemma caller_gone_sent [simp]: "io_sent (caller_gone g op) = io_sent op"
  by (auto simp: caller_gone_def cancel_op_def split: image_phase.split)

lemma caller_gone_cancelled: "is_cancelled (caller_gone g op) \<longleftrightarrow> g \<or> is_cancelled op"
  by (auto simp: caller_gone_def cancel_op_def is_cancelled_def split: image_phase.split)

lemma caller_gone_dispatched [simp]: "is_dispatched (caller_gone g op) = is_dispatched op"
  by (auto simp: caller_gone_def cancel_op_def is_dispatched_def split: image_phase.split)

lemma phase_ops_sent [simp]:
  "io_sent (snd (reset_after_unauthorized op)) = io_sent op" "io_sent (finish_op op) = io_sent op"
  "io_sent (snd (begin_dispatch op)) = io_sent op" "io_sent (snd (cancel_op op)) = io_sent op"
  by (auto simp: reset_after_unauthorized_def finish_op_def begin_dispatch_def cancel_op_def split: image_phase.split)

lemma phase_ops_cancelled [simp]:
  "is_cancelled (snd (reset_after_unauthorized op)) = is_cancelled op"
  "is_cancelled (finish_op op) = is_cancelled op" "is_cancelled (snd (cancel_op op))"
  by (auto simp: reset_after_unauthorized_def finish_op_def cancel_op_def is_cancelled_def split: image_phase.split)

lemma finish_op_dispatched [simp]: "is_dispatched (finish_op op) = is_dispatched op"
  by (auto simp: finish_op_def is_dispatched_def)

lemma cancellation_error_kind:
  "e_kind (cancellation_error turn_id op) = (if is_dispatched op then OutcomeUnknown else Cancelled)"
  by (simp add: cancellation_error_def)

lemma image_error_neq [simp]: "e_kind (image_outcome_unknown t e) = OutcomeUnknown"
  by (simp add: image_outcome_unknown_def)

text \<open>What the answer leads to, once the request has been dispatched: a success is a validated image of a 200
  answer; a 401 resets the operation unless its caller has gone; any other refusal is definite; and
  in all other cases the outcome is unknown. Nothing more is sent.\<close>

lemma accept_reply_cases:
  assumes "io_phase op0 = PhDispatched" "accept_reply codecs rq turn_id gone reply op0 = (res, op)"
  shows "io_sent op = io_sent op0 \<and>
     (case res of
        Inr resp \<Rightarrow> is_dispatched op \<and> (\<exists>body bytes. reply = Answered 200 body \<and> read_body codecs body = Inr bytes \<and>
          parse_image_endpoint_response codecs bytes (dq_background rq) = Inr resp)
      | Inl Unauthorized \<Rightarrow> (\<exists>body. reply = Answered 401 body) \<and>
          (if is_cancelled op then is_dispatched op else io_phase op = PhPending)
      | Inl (Failed e) \<Rightarrow> is_dispatched op \<and>
          (if e_kind e = OutcomeUnknown then (\<forall>status body. reply = Answered status body \<longrightarrow> status = 200)
           else e_kind e = Rpc \<and> (\<exists>status body. reply = Answered status body \<and> status \<notin> {200, 401})))"
proof -
  have d: "is_dispatched op0" "\<not> is_cancelled op0" using assms(1) by (simp_all add: is_dispatched_def is_cancelled_def)
  have u: "io_phase (snd (reset_after_unauthorized (caller_gone g op0))) = (if g then PhCancelledAfter else PhPending)" for g
    using assms(1) by (simp add: caller_gone_def cancel_op_def reset_after_unauthorized_def)
  show ?thesis
    using assms(2) d u [of True] u [of False]
    by (auto simp: accept_reply_def accept_body_def Let_def cancellation_error_kind caller_gone_cancelled is_cancelled_def [of "snd (reset_after_unauthorized x)" for x]
        is_dispatched_def [of "snd (reset_after_unauthorized x)" for x]
        split: http_reply.splits sum.splits if_splits image_endpoint_error.splits)
qed

text \<open>One call of the worker: unless the request was dispatched nothing is sent and the error is not that of
  an unknown outcome; otherwise one post is sent.\<close>

definition the_post ::
  "(json \<Rightarrow> string + string) \<Rightarrow> string \<Rightarrow> image_auth_data \<Rightarrow> direct_image_request \<Rightarrow> string \<Rightarrow> http_post \<Rightarrow> bool" where
  "the_post pj endpoint auth rq turn_id p \<longleftrightarrow>
     hp_endpoint p = endpoint \<and> hp_access_token p = ia_access_token auth \<and> hp_account_id p = ia_account_id auth \<and>
     hp_version p = CODEX_VERSION \<and> hp_originator p = ORIGINATOR \<and>
     hp_turn_id p = turn_id \<and> pj (image_body rq) = Inr (hp_body p) \<and> length (hp_body p) \<le> MAX_BODY_BYTES"

lemma endpoint_cases:
  assumes "generate_via_endpoint codecs pj endpoint auth rq turn_id gone join reply op = (res, op')"
  obtains
    (unsent) e where "res = Inl (Failed e)" "e_kind e \<noteq> OutcomeUnknown" "io_sent op' = io_sent op"
      "is_cancelled op \<Longrightarrow> is_cancelled op'" "io_phase op = PhPending \<Longrightarrow> \<not> is_dispatched op'"
  | (sent) p op0 where "io_phase op = PhPending" "the_post pj endpoint auth rq turn_id p"
      "io_phase op0 = PhDispatched" "io_sent op0 = io_sent op @ [p]"
      "accept_reply codecs rq turn_id gone reply op0 = (res, op')"
proof (cases "join = None \<and> (\<exists>body. pj (image_body rq) = Inr body \<and> length body \<le> MAX_BODY_BYTES)")
  case False
  then have "\<exists>e. res = Inl (Failed e) \<and> e_kind e \<noteq> OutcomeUnknown \<and> op' = op"
    using assms
    by (auto simp: generate_via_endpoint_def send_image_request_def not_le split: option.splits sum.splits if_splits)
  then show ?thesis by (elim exE conjE, intro unsent) (auto simp: is_dispatched_def)
next
  case True
  then obtain body where body: "join = None" "pj (image_body rq) = Inr body" "length body \<le> MAX_BODY_BYTES" by blast
  let ?op = "caller_gone (gone 0) op"
  show ?thesis
  proof (cases "io_phase ?op = PhPending")
    case False
    then have "\<exists>e. begin_dispatch ?op = (Inl e, ?op) \<and> e_kind e \<noteq> OutcomeUnknown"
      by (auto simp: begin_dispatch_def split: image_phase.split)
    then obtain e where e: "begin_dispatch ?op = (Inl e, ?op)" "e_kind e \<noteq> OutcomeUnknown" by blast
    then have "res = Inl (Failed e)" "op' = ?op"
      using assms body by (simp_all add: generate_via_endpoint_def send_image_request_def)
    moreover have "io_phase op = PhPending \<Longrightarrow> \<not> is_dispatched op" by (simp add: is_dispatched_def)
    ultimately show ?thesis using e(2) by (intro unsent) (simp_all add: caller_gone_cancelled)
  next
    case pend: True
    then have "\<not> gone 0" using caller_gone_cancelled [of "gone 0" op] by (auto simp: is_cancelled_def)
    then have op: "?op = op" "io_phase op = PhPending" using pend by simp_all
    let ?p = "\<lparr>hp_endpoint = endpoint, hp_access_token = ia_access_token auth, hp_account_id = ia_account_id auth,
      hp_version = CODEX_VERSION, hp_originator = ORIGINATOR, hp_turn_id = turn_id, hp_body = body\<rparr>"
    let ?op0 = "op\<lparr>io_phase := PhDispatched, io_sent := io_sent op @ [?p]\<rparr>"
    have "accept_reply codecs rq turn_id gone reply ?op0 = (res, op')"
      using assms body op by (simp add: generate_via_endpoint_def send_image_request_def begin_dispatch_def)
    then show ?thesis using op body by (intro sent [of ?p ?op0]) (simp_all add: the_post_def)
  qed
qed

end
