(* ===== verification/ClientImage.thy ===== *)
theory ClientImage
  imports ClientAccount Image
begin

text \<open>
  Image generation of a client (\<open>generate_image\<close>, \<open>image_auth\<close>, \<open>generate_image_with_retry\<close> and
  \<open>ImageOperationGuard\<close> of \<open>src/src/client.rs\<close>): authentication through the app-server, at most two posts, and the
  guard that ends the connection when a billed request is left without an answer. The caller may be
  dropped while it waits, which the guard turns into a cancellation.
\<close>

section \<open>Inputs\<close>

text \<open>Whether the monotonic clock can represent the deadline; what is left of it at each reading; the fate of
  each post, of each worker, and when the caller is dropped: before an access of the \<open>k\<close>-th worker, or at the
  end of the \<open>k\<close>-th wait for authentication; and what the turn identifier is made of.\<close>

record image_inputs =
  ii_clock :: bool
  ii_remaining :: "nat \<Rightarrow> duration"
  ii_reply :: "nat \<Rightarrow> http_reply"
  ii_join :: "nat \<Rightarrow> string option"
  ii_gone :: "nat \<Rightarrow> nat \<Rightarrow> bool"
  ii_left :: "nat \<Rightarrow> bool"
  ii_process_id :: nat
  ii_nanos :: nat
  ii_sequence :: nat

definition ii_turn_id :: "image_inputs \<Rightarrow> string" where
  "ii_turn_id ii = image_turn_id (ii_process_id ii) (ii_nanos ii) (ii_sequence ii)"

text \<open>The result, unless the caller was dropped.\<close>

datatype image_outcome = ImageReturned "direct_image_response result" | ImageAbandoned

section \<open>The operation\<close>

definition require_remaining_timeout :: "duration \<Rightarrow> duration result" where
  "require_remaining_timeout remaining =
     (if remaining = 0 then Inl (timeout_error ''image.generate'' 0) else Inr remaining)"

definition auth_params :: "bool \<Rightarrow> json" where
  "auth_params refresh = jobj [(''includeToken'', JBool True), (''refreshToken'', JBool refresh)]"

definition image_auth ::
  "image_codecs \<Rightarrow> environment \<Rightarrow> bool \<Rightarrow> duration \<Rightarrow> client \<Rightarrow> image_auth_data result \<times> client" where
  "image_auth codecs env refresh limit c =
     (case request_internal_with_timeout env ''getAuthStatus'' (auth_params refresh) False ''image.auth'' False limit c of
        (Inl e, c1) \<Rightarrow> (Inl e, c1)
      | (Inr response, c1) \<Rightarrow> (from_auth_status codecs response, c1))"

text \<open>One authentication with the check for cancellation after it, and one post.\<close>

definition acquire_auth ::
  "image_codecs \<Rightarrow> environment \<Rightarrow> image_inputs \<Rightarrow> nat \<Rightarrow> client \<Rightarrow> image_op
     \<Rightarrow> image_auth_data result \<times> client \<times> image_op" where
  "acquire_auth codecs env ii k c op =
     (case require_remaining_timeout (ii_remaining ii (2 * k)) of
        Inl e \<Rightarrow> (Inl e, c, op)
      | Inr limit \<Rightarrow>
          (case image_auth codecs env True limit c of
             (r, c1) \<Rightarrow>
               let op1 = caller_gone (ii_left ii k) op in
               case r of
                 Inl e \<Rightarrow> (Inl e, c1, op1)
               | Inr auth \<Rightarrow>
                   (if is_cancelled op1 then Inl (cancellation_error (ii_turn_id ii) op1) else Inr auth, c1, op1)))"

definition post_image ::
  "image_codecs \<Rightarrow> environment \<Rightarrow> direct_image_request \<Rightarrow> image_inputs \<Rightarrow> nat \<Rightarrow> image_auth_data \<Rightarrow> image_op
     \<Rightarrow> (image_endpoint_error + direct_image_response) \<times> image_op" where
  "post_image codecs env rq ii k auth op =
     (case require_remaining_timeout (ii_remaining ii (2 * k + 1)) of
        Inl e \<Rightarrow> (Inl (Failed e), op)
      | Inr _ \<Rightarrow>
          generate_via_endpoint codecs (en_print env) CHATGPT_IMAGE_GENERATION_ENDPOINT auth rq (ii_turn_id ii)
            (ii_gone ii k) (ii_join ii k) (ii_reply ii k) op)"

definition generate_image_with_retry ::
  "image_codecs \<Rightarrow> environment \<Rightarrow> direct_image_request \<Rightarrow> image_inputs \<Rightarrow> client \<Rightarrow> image_op
     \<Rightarrow> direct_image_response result \<times> client \<times> image_op" where
  "generate_image_with_retry codecs env rq ii c op =
     (if is_cancelled op then (Inl (cancellation_error (ii_turn_id ii) op), c, op)
      else case acquire_auth codecs env ii 0 c op of
        (Inl e, c1, op1) \<Rightarrow> (Inl e, c1, op1)
      | (Inr auth, c1, op1) \<Rightarrow>
          (case post_image codecs env rq ii 0 auth op1 of
             (Inr response, op2) \<Rightarrow> (Inr response, c1, op2)
           | (Inl (Failed e), op2) \<Rightarrow> (Inl e, c1, op2)
           | (Inl Unauthorized, op2) \<Rightarrow>
               if is_cancelled op2 then (Inl (cancellation_error (ii_turn_id ii) op2), c1, op2)
               else case acquire_auth codecs env ii 1 c1 op2 of
                 (Inl e, c2, op3) \<Rightarrow> (Inl e, c2, op3)
               | (Inr refreshed, c2, op3) \<Rightarrow>
                   (case post_image codecs env rq ii 1 refreshed op3 of
                      (Inr response, op4) \<Rightarrow> (Inr response, c2, op4)
                    | (Inl (Failed e), op4) \<Rightarrow> (Inl e, c2, op4)
                    | (Inl Unauthorized, op4) \<Rightarrow>
                        (Inl (new_error Authentication ''image.generate''
                               ''official image endpoint rejected refreshed authentication''), c2, op4))))"

text \<open>\<open>ImageOperationGuard::drop\<close>, on a task of the runtime.\<close>

definition drop_image_guard :: "bool \<Rightarrow> string \<Rightarrow> client \<Rightarrow> image_op \<Rightarrow> client \<times> image_op" where
  "drop_image_guard armed turn_id c op =
     (if \<not> armed then (c, op)
      else case cancel_op op of
        (False, op1) \<Rightarrow> (c, op1)
      | (True, op1) \<Rightarrow> (spawn_task (DisconnectWith (cancellation_error turn_id op1)) c, op1))"

definition prompt_error :: "string \<Rightarrow> error" where
  "prompt_error msg = new_error InvalidInput ''image.generate'' msg"

definition generate_image ::
  "image_codecs \<Rightarrow> environment \<Rightarrow> direct_image_request \<Rightarrow> image_inputs \<Rightarrow> client
     \<Rightarrow> image_outcome \<times> client \<times> image_op" where
  "generate_image codecs env rq ii c =
     (if is_blank (dq_prompt rq)
      then (ImageReturned (Inl (prompt_error ''image prompt must be non-empty'')), c, new_image_op)
      else if 131072 < length (dq_prompt rq) \<or> CHR 0x00 \<in> set (dq_prompt rq)
      then (ImageReturned (Inl (prompt_error ''image prompt exceeds the bounded UTF-8 limit'')), c, new_image_op)
      else if en_remaining env (cl_tick c) = None \<and> \<not> ii_clock ii
      then (ImageReturned (Inl (prompt_error
              ''image request timeout cannot be represented by the monotonic clock'')), c, new_image_op)
      else case generate_image_with_retry codecs env rq ii c new_image_op of
        (res, c1, op1) \<Rightarrow>
          let armed = is_cancelled op1 \<or> (case res of Inl e \<Rightarrow> e_kind e = OutcomeUnknown | Inr _ \<Rightarrow> False)
          in (if is_cancelled op1 then ImageAbandoned else ImageReturned res,
              drop_image_guard armed (ii_turn_id ii) c1 op1))"

section \<open>What has been sent\<close>

lemma post_image_cases:
  assumes "post_image codecs env rq ii k auth op = (res, op')"
  obtains
    (unsent) e where "res = Inl (Failed e)" "e_kind e \<noteq> OutcomeUnknown" "io_sent op' = io_sent op"
      "is_cancelled op \<Longrightarrow> is_cancelled op'" "io_phase op = PhPending \<Longrightarrow> \<not> is_dispatched op'"
  | (sent) p op0 where "io_phase op = PhPending"
      "the_post (en_print env) CHATGPT_IMAGE_GENERATION_ENDPOINT auth rq (ii_turn_id ii) p"
      "io_phase op0 = PhDispatched" "io_sent op0 = io_sent op @ [p]"
      "accept_reply codecs rq (ii_turn_id ii) (ii_gone ii k) (ii_reply ii k) op0 = (res, op')"
proof (cases "require_remaining_timeout (ii_remaining ii (2 * k + 1))")
  case (Inl e)
  then show ?thesis using assms
    by (intro unsent [of e])
       (auto simp: post_image_def require_remaining_timeout_def is_dispatched_def split: if_splits)
next
  case (Inr d)
  then have g: "generate_via_endpoint codecs (en_print env) CHATGPT_IMAGE_GENERATION_ENDPOINT auth rq (ii_turn_id ii)
      (ii_gone ii k) (ii_join ii k) (ii_reply ii k) op = (res, op')"
    using assms by (simp add: post_image_def)
  show ?thesis
  proof (cases rule: endpoint_cases [OF g])
    case (1 e)
    then show ?thesis by (intro unsent)
  next
    case (2 p op0)
    then show ?thesis by (intro sent)
  qed
qed

lemma acquire_auth_op:
  assumes "acquire_auth codecs env ii k c op = (r, c', op')"
  shows "io_sent op' = io_sent op" "is_dispatched op' = is_dispatched op"
    "\<not> is_cancelled op \<Longrightarrow> r = Inr auth \<Longrightarrow> op' = op"
  using assms
  by (auto simp: acquire_auth_def Let_def case_prod_beta caller_gone_cancelled split: sum.splits if_splits)

end
