(* ===== verification/PngRows.thy ===== *)
theory PngRows
  imports Png
begin

text \<open>
  The rows an accepted image has: \<open>encode_rows\<close> is the reference encoder of a list of rows with the
  filter of each, and the row loop accepts exactly its outputs. Restoring a row is one-to-one on the rows
  of a length, hence onto, so that everything that can be restored is the filtered form of what comes out.
\<close>

section \<open>One row\<close>

lemma predicted_None: "\<not> kind \<le> 4 \<Longrightarrow> predicted kind l u ul = None"
  by (auto simp: predicted_def)

lemma filter_row_onto:
  assumes "kind \<le> 4" "1 \<le> channels"
  shows "\<exists>row. current = filter_row kind channels previous row \<and> length row = length current"
proof -
  let ?A = "{xs :: byte list. set xs \<subseteq> UNIV \<and> length xs = length current}"
  have "finite ?A" by (rule finite_lists_length_eq) simp
  moreover have "filter_row kind channels previous ` ?A \<subseteq> ?A" by auto
  moreover have "inj_on (filter_row kind channels previous) ?A"
    by (rule inj_onI) (metis assms sum.inject(2) unfilter_filter)
  ultimately have "filter_row kind channels previous ` ?A = ?A" by (rule endo_inj_surj)
  moreover have "current \<in> ?A" by simp
  ultimately have "current \<in> filter_row kind channels previous ` ?A" by (rule ssubst)
  then show ?thesis by auto
qed

lemma unfilter_row_Inr:
  assumes "1 \<le> channels" "current \<noteq> []"
  shows "unfilter_row kind channels previous current = Inr row \<longleftrightarrow>
     kind \<le> 4 \<and> current = filter_row kind channels previous row"
proof
  assume r: "unfilter_row kind channels previous current = Inr row"
  have "kind \<le> 4"
  proof (rule ccontr)
    assume "\<not> kind \<le> 4"
    then have "unfilter_at kind channels previous 0 current = Inl (image_error Protocol ''PNG row uses an unsupported filter'')"
      by (simp add: unfilter_at_def Let_def predicted_None)
    with r assms(2) show False by (simp add: unfilter_row_def upt_rec [of 0])
  qed
  moreover from this obtain row' where "current = filter_row kind channels previous row'"
    using filter_row_onto assms(1) by blast
  ultimately show "kind \<le> 4 \<and> current = filter_row kind channels previous row"
    using r unfilter_filter [of kind channels previous row'] assms(1) by simp
qed (use assms unfilter_filter in simp)

text \<open>What a row must be: a filter of the standard, the row's length, and pixels within the palette.\<close>

definition row_ok ::
  "byte \<Rightarrow> nat \<Rightarrow> nat \<Rightarrow> byte list option \<Rightarrow> byte list option \<Rightarrow> byte \<times> byte list \<Rightarrow> bool" where
  "row_ok t channels width palette transparency r \<longleftrightarrow>
     fst r \<le> 4 \<and> length (snd r) = width * channels \<and>
     (\<forall>x < width. \<exists>b. pixel_transparent t palette transparency (snd r) (x * channels) = Inr b)"

definition row_shows ::
  "byte \<Rightarrow> nat \<Rightarrow> nat \<Rightarrow> byte list option \<Rightarrow> byte list option \<Rightarrow> byte \<times> byte list \<Rightarrow> bool" where
  "row_shows t channels width palette transparency r \<longleftrightarrow>
     (\<exists>x < width. pixel_transparent t palette transparency (snd r) (x * channels) = Inr True)"

lemma read_exact_Inr:
  "read_exact n msg stream = Inr (xs, rest) \<longleftrightarrow> stream = xs @ rest \<and> length xs = n"
  by (auto simp: read_exact_def)

lemma png_row_Inr:
  assumes "1 \<le> channels" "0 < width"
  shows "png_row t channels width (width * channels) palette transparency (stream, previous, found) =
       Inr (stream', row, found') \<longleftrightarrow>
     (\<exists>k. row_ok t channels width palette transparency (k, row) \<and>
        stream = k # filter_row k channels previous row @ stream' \<and>
        found' = (found \<or> row_shows t channels width palette transparency (k, row)))"
proof
  assume "png_row t channels width (width * channels) palette transparency (stream, previous, found) =
    Inr (stream', row, found')"
  then obtain kind current where s: "stream = kind @ current @ stream'" "length kind = 1"
      "length current = width * channels"
    and u: "unfilter_row (hd kind) channels previous current = Inr row"
    and p: "row_transparent t channels width palette transparency row found = Inr found'"
    by (auto simp: png_row_def result_simps read_exact_Inr)
  obtain k where k: "kind = [k]" using s(2) by (cases kind) auto
  have "current \<noteq> []" using s(3) assms by auto
  then have "k \<le> 4" "current = filter_row k channels previous row"
    using u unfilter_row_Inr [of channels current k previous row] assms(1) k by auto
  then show "\<exists>k. row_ok t channels width palette transparency (k, row) \<and>
      stream = k # filter_row k channels previous row @ stream' \<and>
      found' = (found \<or> row_shows t channels width palette transparency (k, row))"
    using s k p by (intro exI [of _ k]) (auto simp: row_ok_def row_shows_def row_transparent_Inr)
next
  assume "\<exists>k. row_ok t channels width palette transparency (k, row) \<and>
      stream = k # filter_row k channels previous row @ stream' \<and>
      found' = (found \<or> row_shows t channels width palette transparency (k, row))"
  then obtain k where k: "row_ok t channels width palette transparency (k, row)"
    "stream = k # filter_row k channels previous row @ stream'"
    "found' = (found \<or> row_shows t channels width palette transparency (k, row))" by blast
  have "row_transparent t channels width palette transparency row found = Inr found'"
    using k by (simp add: row_transparent_Inr row_ok_def row_shows_def)
  moreover have "unfilter_row k channels previous (filter_row k channels previous row) = Inr row"
    using k(1) assms(1) by (intro unfilter_filter) (simp_all add: row_ok_def)
  moreover have "length row = width * channels" using k(1) by (simp add: row_ok_def)
  ultimately show "png_row t channels width (width * channels) palette transparency (stream, previous, found) =
      Inr (stream', row, found')"
    unfolding k(2) by (simp add: png_row_def read_exact_def)
qed

section \<open>All rows\<close>

fun encode_rows :: "nat \<Rightarrow> byte list \<Rightarrow> (byte \<times> byte list) list \<Rightarrow> byte list" where
  "encode_rows channels previous [] = []"
| "encode_rows channels previous ((k, row) # rs) =
     k # filter_row k channels previous row @ encode_rows channels row rs"

lemma png_rows_Inr:
  assumes "1 \<le> channels" "0 < width"
  shows "(\<exists>final. png_rows h t channels width (width * channels) palette transparency (stream, previous, found) =
       Inr (stream', final, found')) \<longleftrightarrow>
     (\<exists>rs. length rs = h \<and> list_all (row_ok t channels width palette transparency) rs \<and>
        stream = encode_rows channels previous rs @ stream' \<and>
        found' = (found \<or> list_ex (row_shows t channels width palette transparency) rs))"
proof (induction h arbitrary: stream previous found)
  case 0
  then show ?case by auto
next
  case (Suc h)
  let ?ok = "row_ok t channels width palette transparency" and ?shows = "row_shows t channels width palette transparency"
  have "(\<exists>final. png_rows (Suc h) t channels width (width * channels) palette transparency (stream, previous, found) =
       Inr (stream', final, found')) \<longleftrightarrow>
     (\<exists>stream1 row found1. png_row t channels width (width * channels) palette transparency (stream, previous, found) =
         Inr (stream1, row, found1) \<and>
       (\<exists>final. png_rows h t channels width (width * channels) palette transparency (stream1, row, found1) =
         Inr (stream', final, found')))"
    by (auto simp: result_simps)
  also have "\<dots> \<longleftrightarrow> (\<exists>stream1 row found1 k rs. ?ok (k, row) \<and>
      stream = k # filter_row k channels previous row @ stream1 \<and> found1 = (found \<or> ?shows (k, row)) \<and>
      length rs = h \<and> list_all ?ok rs \<and> stream1 = encode_rows channels row rs @ stream' \<and>
      found' = (found1 \<or> list_ex ?shows rs))"
    unfolding png_row_Inr [OF assms] Suc.IH by blast
  also have "\<dots> \<longleftrightarrow> (\<exists>rs. length rs = Suc h \<and> list_all ?ok rs \<and>
      stream = encode_rows channels previous rs @ stream' \<and> found' = (found \<or> list_ex ?shows rs))"
  proof (intro iffI; elim exE conjE)
    fix stream1 row found1 k rs
    assume "?ok (k, row)" "stream = k # filter_row k channels previous row @ stream1"
      "found1 = (found \<or> ?shows (k, row))" "length rs = h" "list_all ?ok rs"
      "stream1 = encode_rows channels row rs @ stream'" "found' = (found1 \<or> list_ex ?shows rs)"
    then show "\<exists>rs. length rs = Suc h \<and> list_all ?ok rs \<and>
        stream = encode_rows channels previous rs @ stream' \<and> found' = (found \<or> list_ex ?shows rs)"
      by (intro exI [of _ "(k, row) # rs"]) auto
  next
    fix rs0 assume a: "length rs0 = Suc h" "list_all ?ok rs0"
      "stream = encode_rows channels previous rs0 @ stream'" "found' = (found \<or> list_ex ?shows rs0)"
    then obtain k row rs where "rs0 = (k, row) # rs" by (cases rs0) auto
    with a show "\<exists>stream1 row found1 k rs. ?ok (k, row) \<and>
        stream = k # filter_row k channels previous row @ stream1 \<and> found1 = (found \<or> ?shows (k, row)) \<and>
        length rs = h \<and> list_all ?ok rs \<and> stream1 = encode_rows channels row rs @ stream' \<and>
        found' = (found1 \<or> list_ex ?shows rs)" by auto
  qed
  finally show ?case .
qed

lemma length_encode_rows:
  "list_all (row_ok t channels width palette transparency) rs \<Longrightarrow>
     length (encode_rows channels previous rs) = (width * channels + 1) * length rs"
  by (induction channels previous rs rule: encode_rows.induct) (auto simp: row_ok_def algebra_simps)

lemma png_end_of_data_Inr: "png_end_of_data z stream = Inr u \<longleftrightarrow> stream = [] \<and> inf_clean z"
  by (auto simp: png_end_of_data_def)

lemma check_rows_Inr:
  assumes "known_color_type t" "0 < width" "unat width \<le> 8192"
  shows "check_rows inflate width height t st = Inr info \<longleftrightarrow>
     (\<exists>rs. length rs = unat height \<and>
        list_all (row_ok t (png_channels t) (unat width) (ps_palette st) (ps_transparency st)) rs \<and>
        inflate (ps_idat st) = \<lparr>inf_bytes =
          encode_rows (png_channels t) (replicate (unat width * png_channels t) 0) rs, inf_clean = True\<rparr> \<and>
        info = \<lparr>pi_width = width, pi_height = height,
          pi_alpha_capable = (t = 4 \<or> t = 6 \<or> ps_transparency st \<noteq> None),
          pi_has_transparent_pixels =
            list_ex (row_shows t (png_channels t) (unat width) (ps_palette st) (ps_transparency st)) rs\<rparr>)"
proof -
  let ?ch = "png_channels t" and ?z = "inflate (ps_idat st)"
  let ?rb = "unat width * ?ch"
  have ch: "1 \<le> ?ch" "?ch \<le> 4" using png_channels_known [OF assms(1)] by auto
  have w: "0 < unat width" using assms(2) by (simp add: unat_gt_0)
  have "?rb \<le> 8192 * 4" using assms(3) ch(2) by (rule mult_le_mono)
  then have rb: "checked_mul_us (unat width) ?ch = Some ?rb" by (simp add: checked_mul_us_def usize_max_def)
  have "check_rows inflate width height t st = Inr info \<longleftrightarrow>
      (\<exists>found. (\<exists>final. png_rows (unat height) t ?ch (unat width) ?rb (ps_palette st) (ps_transparency st)
            (inf_bytes ?z, replicate ?rb 0, False) = Inr ([], final, found)) \<and> inf_clean ?z \<and>
         info = \<lparr>pi_width = width, pi_height = height,
           pi_alpha_capable = (t = 4 \<or> t = 6 \<or> ps_transparency st \<noteq> None), pi_has_transparent_pixels = found\<rparr>)"
    unfolding check_rows_def Let_def rb
    by (simp add: result_bind_Inr_iff png_end_of_data_Inr split_paired_Ex case_prod_beta) blast
  also have "\<dots> \<longleftrightarrow> (\<exists>rs. length rs = unat height \<and> list_all (row_ok t ?ch (unat width) (ps_palette st) (ps_transparency st)) rs \<and>
        inf_bytes ?z = encode_rows ?ch (replicate ?rb 0) rs \<and> inf_clean ?z \<and>
        info = \<lparr>pi_width = width, pi_height = height,
          pi_alpha_capable = (t = 4 \<or> t = 6 \<or> ps_transparency st \<noteq> None),
          pi_has_transparent_pixels = list_ex (row_shows t ?ch (unat width) (ps_palette st) (ps_transparency st)) rs\<rparr>)"
    unfolding png_rows_Inr [OF ch(1) w] by auto
  finally show ?thesis by (cases ?z) auto
qed

end
