(* ===== verification/PngGrammar.thy ===== *)
theory PngGrammar
  imports PngRows
begin

text \<open>
  What the chunk loop accepts, as a grammar. The first part turns the loop over bytes and offsets into a
  run over a list of chunks (\<open>run_chunks\<close>); the second shows that a run ends well exactly for
  a header, metadata, one or more data chunks in a row, ancillary chunks and the end.
\<close>

section \<open>From bytes to chunks\<close>

type_synonym chunk = "byte list \<times> byte list"

definition png_chunk :: "chunk \<Rightarrow> byte list" where
  "png_chunk c = u32_to_be (word_of_nat (length (snd c))) @ fst c @ snd c @ u32_to_be (png_crc32 (fst c @ snd c))"

definition chunk_wf :: "chunk \<Rightarrow> bool" where
  "chunk_wf c \<longleftrightarrow> length (fst c) = 4 \<and> length (snd c) < 2 ^ 32"

lemma length_png_chunk: "chunk_wf c \<Longrightarrow> length (png_chunk c) = 12 + length (snd c)"
  by (simp add: png_chunk_def chunk_wf_def)

fun run_chunks :: "nat \<Rightarrow> nat \<Rightarrow> chunk list \<Rightarrow> png_state \<Rightarrow> png_state result" where
  "run_chunks whole offset [] st = Inr st"
| "run_chunks whole offset (c # cs) st =
     (if ps_saw_iend st then png_protocol ''PNG contains a chunk after IEND''
      else result_bind (handle_chunk (fst c) (snd c) offset (offset + 12 + length (snd c)) whole st)
             (run_chunks whole (offset + 12 + length (snd c)) cs))"

lemma checked_chunk_end:
  "ok_or e (Option.bind (checked_add_us a 12) (\<lambda>v. checked_add_us v n)) =
     (if a + 12 + n \<le> usize_max then Inr (a + 12 + n) else Inl e)"
  by (auto simp: checked_add_us_def)

text \<open>The loop at an offset where the length of a chunk and that many bytes follow.\<close>

lemma png_chunks_at:
  assumes "bytes = pre @ u32_to_be (word_of_nat n) @ ty @ data @ crc @ post" "n < 2 ^ 32"
    and "length ty = 4" "length data = n" "length crc = 4" "length bytes \<le> usize_max"
  shows "png_chunks bytes (length pre) st =
     (if png_crc32 (ty @ data) \<noteq> u32_from_be crc then png_protocol ''PNG chunk CRC mismatch''
      else if ps_saw_iend st then png_protocol ''PNG contains a chunk after IEND''
      else result_bind (handle_chunk ty data (length pre) (length pre + 12 + n) (length bytes) st)
             (png_chunks bytes (length pre + 12 + n)))"
proof -
  have len: "length bytes = length pre + 12 + n + length post" using assms by simp
  have n: "unat (u32_from_be (take 4 (drop (length pre) bytes))) = n"
    using assms(2) by (simp add: assms(1) unat_of_nat take_bit_nat_eq_self)
  have parts: "take (4 + n) (drop (length pre + 4) bytes) = ty @ data"
    "take 4 (drop (length pre + 4) bytes) = ty" "take n (drop (length pre + 8) bytes) = data"
    "take 4 (drop (length pre + 8 + n) bytes) = crc"
    using assms(3-5) by (simp_all add: assms(1))
  have "length pre + 12 + n \<le> usize_max" using assms(6) len by linarith
  then show ?thesis
    using len by (subst png_chunks.simps) (simp add: Let_def n parts checked_chunk_end)
qed

lemma png_chunks_run:
  assumes "list_all chunk_wf cs" "bytes = pre @ concat (map png_chunk cs) @ post" "length bytes \<le> usize_max"
  shows "png_chunks bytes (length pre) st =
     result_bind (run_chunks (length bytes) (length pre) cs st)
       (png_chunks bytes (length (pre @ concat (map png_chunk cs))))"
  using assms(1,2)
proof (induction cs arbitrary: pre st)
  case (Cons c cs)
  have wf: "chunk_wf c" "length (fst c) = 4" "length (snd c) < 2 ^ 32"
    using Cons.prems(1) by (simp_all add: chunk_wf_def)
  have bytes: "bytes = (pre @ png_chunk c) @ concat (map png_chunk cs) @ post" using Cons.prems by simp
  have len: "length (pre @ png_chunk c) = length pre + 12 + length (snd c)"
    using length_png_chunk [OF wf(1)] by simp
  have IH: "png_chunks bytes (length pre + 12 + length (snd c)) st1 =
      result_bind (run_chunks (length bytes) (length pre + 12 + length (snd c)) cs st1)
        (png_chunks bytes (length (pre @ concat (map png_chunk (c # cs)))))" for st1
    using Cons.IH [OF _ bytes, of st1] Cons.prems(1) unfolding len by (simp add: len add.assoc)
  have "bytes = pre @ u32_to_be (word_of_nat (length (snd c))) @ fst c @ snd c @
      u32_to_be (png_crc32 (fst c @ snd c)) @ concat (map png_chunk cs) @ post"
    using Cons.prems(2) by (simp add: png_chunk_def [of c])
  note png_chunks_at [OF this wf(3,2) refl length_u32_to_be assms(3)]
  then show ?case
    by (cases "handle_chunk (fst c) (snd c) (length pre) (length pre + 12 + length (snd c)) (length bytes) st")
       (simp_all add: IH png_protocol_def del: length_append)
qed simp

text \<open>Whatever the loop accepts is a list of chunks.\<close>

lemma drop_split: "drop a xs = take n (drop a xs) @ drop (a + n) xs"
  by (metis add.commute append_take_drop_id drop_drop)

lemma drop_fields:
  "drop a xs = take 4 (drop a xs) @ take 4 (drop (a + 4) xs) @ take n (drop (a + 8) xs) @
     take 4 (drop (a + 8 + n) xs) @ drop (a + 12 + n) xs"
proof -
  have "a + 4 + 4 = a + 8" "a + 8 + n + 4 = a + 12 + n" by simp_all
  then show ?thesis
    using drop_split [of a xs 4] drop_split [of "a + 4" xs 4] drop_split [of "a + 8" xs n]
      drop_split [of "a + 8 + n" xs 4] by metis
qed

lemma png_chunks_Inr:
  "png_chunks bytes offset st = Inr st' \<Longrightarrow> offset \<le> length bytes \<Longrightarrow> length bytes \<le> usize_max \<Longrightarrow>
   \<exists>cs. list_all chunk_wf cs \<and> drop offset bytes = concat (map png_chunk cs) \<and>
        run_chunks (length bytes) offset cs st = Inr st'"
proof (induction bytes offset st rule: png_chunks.induct)
  case (1 bytes offset st)
  show ?case
  proof (cases "length bytes \<le> offset")
    case True
    then show ?thesis using "1.prems" by (intro exI [of _ "[]"]) (simp add: png_chunks.simps)
  next
    case False
    let ?len = "unat (u32_from_be (take 4 (drop offset bytes)))"
    let ?ty = "take 4 (drop (offset + 4) bytes)" and ?data = "take ?len (drop (offset + 8) bytes)"
    let ?crc = "take 4 (drop (offset + 8 + ?len) bytes)" and ?after = "offset + 12 + ?len"
    have step: "\<not> length bytes - offset < 12" "?after \<le> usize_max" "\<not> length bytes < ?after"
      "png_crc32 (take (4 + ?len) (drop (offset + 4) bytes)) = u32_from_be ?crc" "\<not> ps_saw_iend st"
      using "1.prems"(1) False
      by (subst (asm) png_chunks.simps,
          simp add: Let_def checked_chunk_end png_protocol_def split: if_splits)+
    obtain st1 where st1: "handle_chunk ?ty ?data offset ?after (length bytes) st = Inr st1"
      "png_chunks bytes ?after st1 = Inr st'"
      using "1.prems"(1) False step
      by (subst (asm) png_chunks.simps)
         (auto simp: Let_def checked_chunk_end png_protocol_def result_bind_Inr_iff split: if_splits)
    have "ok_or (image_error ResourceLimit ''PNG chunk length overflow'')
        (Option.bind (checked_add_us offset 12) (\<lambda>v. checked_add_us v ?len)) = Inr ?after"
      using step(2) by (simp add: checked_chunk_end)
    then obtain cs where cs: "list_all chunk_wf cs" "drop ?after bytes = concat (map png_chunk cs)"
      "run_chunks (length bytes) ?after cs st1 = Inr st'"
      using "1.IH" [OF False step(1) refl _ step(3) _ step(5) st1(1)] step(3,4) st1 "1.prems"(3) by auto
    have len: "length ?ty = 4" "length ?data = ?len" "length ?crc = 4" using step(1,3) by simp_all
    have take4: "length (take 4 (drop offset bytes)) = 4" using step(1) by simp
    have "take (4 + ?len) (drop (offset + 4) bytes) = ?ty @ ?data"
      by (simp add: take_add add.commute [of _ offset] add.assoc)
    then have crc: "u32_to_be (png_crc32 (?ty @ ?data)) = ?crc"
      using step(4) u32_to_from_be [OF len(3)] by simp
    have lenbe: "u32_to_be (word_of_nat ?len) = take 4 (drop offset bytes)"
      using u32_to_from_be [OF take4] by simp
    have "?len < 2 ^ LENGTH(32)" by (rule unsigned_less)
    then have wf: "chunk_wf (?ty, ?data)" using len by (simp add: chunk_wf_def)
    have "drop offset bytes = take 4 (drop offset bytes) @ ?ty @ ?data @ ?crc @ drop ?after bytes"
      by (rule drop_fields)
    also have "\<dots> = png_chunk (?ty, ?data) @ concat (map png_chunk cs)"
      unfolding png_chunk_def fst_conv snd_conv len(2) lenbe crc cs(2) by simp
    finally have "drop offset bytes = concat (map png_chunk ((?ty, ?data) # cs))" by simp
    moreover have "run_chunks (length bytes) offset ((?ty, ?data) # cs) st = Inr st'"
      using step(5) st1(1) cs(3) len(2) by simp
    ultimately show ?thesis using wf cs(1) by (intro exI [of _ "(?ty, ?data) # cs"]) simp
  qed
qed

end
