(* ===== verification/PngRules.thy ===== *)
theory PngRules
  imports PngGrammar
begin

text \<open>
  The order rules of an accepted image, as a description of its list of chunks: a header, metadata, one
  or more data chunks in a row, ancillary chunks, the end. \<open>run_chunks_rules\<close> shows that the state machine of
  the chunk loop accepts exactly these lists.
\<close>

section \<open>The rules\<close>

definition ihdr_data :: "32 word \<Rightarrow> 32 word \<Rightarrow> byte \<Rightarrow> byte list" where
  "ihdr_data width height t = u32_to_be width @ u32_to_be height @ [8, t, 0, 0, 0]"

definition ihdr_ok :: "32 word \<Rightarrow> 32 word \<Rightarrow> byte \<Rightarrow> bool" where
  "ihdr_ok width height t \<longleftrightarrow>
     0 < width \<and> width \<le> 8192 \<and> 0 < height \<and> height \<le> 8192 \<and> known_color_type t \<and>
     (unat width * png_channels t + 1) * unat height \<le> MAX_PNG_RAW_BYTES"

definition ancillary :: "byte list \<Rightarrow> bool" where
  "ancillary ty \<longleftrightarrow> ty \<notin> {IHDR, PLTE, tRNS, IDAT, IEND} \<and> \<not> is_ascii_uppercase (hd ty)"

text \<open>A chunk that may follow the metadata \<open>u\<close>: the only palette, the only transparency after it, or an
  ancillary chunk.\<close>

definition metadata_chunk :: "byte \<Rightarrow> chunk list \<Rightarrow> chunk \<Rightarrow> bool" where
  "metadata_chunk t u c \<longleftrightarrow>
     (if fst c = PLTE then map_of u PLTE = None \<and> 0 < length (snd c) \<and> length (snd c) \<le> 768
        \<and> length (snd c) mod 3 = 0 \<and> t \<noteq> 0 \<and> t \<noteq> 4
      else if fst c = tRNS then map_of u tRNS = None \<and> transparency_valid t (map_of u PLTE) (snd c)
      else ancillary (fst c))"

fun metadata_from :: "byte \<Rightarrow> chunk list \<Rightarrow> chunk list \<Rightarrow> bool" where
  "metadata_from t u [] = True"
| "metadata_from t u (c # cs) = (metadata_chunk t u c \<and> metadata_from t (u @ [c]) cs)"

definition png_rules ::
  "32 word \<Rightarrow> 32 word \<Rightarrow> byte \<Rightarrow> chunk list \<Rightarrow> byte list list \<Rightarrow> chunk list \<Rightarrow> bool" where
  "png_rules width height t before zs after \<longleftrightarrow>
     ihdr_ok width height t \<and> metadata_from t [] before \<and> zs \<noteq> [] \<and>
     (t = 3 \<longrightarrow> map_of before PLTE \<noteq> None) \<and>
     length (concat zs) \<le> MAX_IMAGE_JSON_BYTES \<and> list_all (\<lambda>c. ancillary (fst c)) after"

definition png_layout ::
  "32 word \<Rightarrow> 32 word \<Rightarrow> byte \<Rightarrow> chunk list \<Rightarrow> byte list list \<Rightarrow> chunk list \<Rightarrow> chunk list" where
  "png_layout width height t before zs after =
     (IHDR, ihdr_data width height t) # before @ map (Pair IDAT) zs @ after @ [(IEND, [])]"

section \<open>The header\<close>

lemma ihdr_data_parts [simp]:
  "length (ihdr_data w h t) = 13" "take 4 (ihdr_data w h t) = u32_to_be w"
  "take 4 (drop 4 (ihdr_data w h t)) = u32_to_be h" "ihdr_data w h t ! 8 = 8" "ihdr_data w h t ! 9 = t"
  "ihdr_data w h t ! 10 = 0" "ihdr_data w h t ! 11 = 0" "ihdr_data w h t ! 12 = 0"
  by (simp_all add: ihdr_data_def nth_append)

lemma ihdr_data_inj: "ihdr_data w h t = ihdr_data w' h' t' \<Longrightarrow> w = w' \<and> h = h' \<and> t = t'"
  by (metis ihdr_data_parts(2,3,5) u32_from_to_be)

lemma ihdr_data_of:
  assumes "length d = 13" "d ! 8 = 8" "d ! 10 = 0" "d ! 11 = 0" "d ! 12 = 0"
  shows "d = ihdr_data (u32_from_be (take 4 d)) (u32_from_be (take 4 (drop 4 d))) (d ! 9)"
proof -
  have "drop 8 d = [d ! 8, d ! 9, d ! 10, d ! 11, d ! 12]"
    using assms(1) by (intro nth_equalityI) (auto simp: less_Suc_eq numeral_eq_Suc)
  moreover have "u32_to_be (u32_from_be (take 4 d)) = take 4 d"
    "u32_to_be (u32_from_be (take 4 (drop 4 d))) = take 4 (drop 4 d)"
    by (intro u32_to_from_be; simp add: assms(1))+
  ultimately show ?thesis
    using drop_split [of 0 d 4] drop_split [of 4 d 4] assms(2-5) by (simp add: ihdr_data_def)
qed

lemma expected_raw:
  "png_expected_raw_bytes w h t = Inr n \<and> n \<le> MAX_PNG_RAW_BYTES \<longleftrightarrow>
     n = (unat w * png_channels t + 1) * unat h \<and> unat w * png_channels t + 1 \<le> usize_max \<and> n \<le> MAX_PNG_RAW_BYTES"
  by (auto simp: png_expected_raw_bytes_Inr MAX_PNG_RAW_BYTES_def usize_max_def)

lemma raw_row_bound: "unat (w :: 32 word) * png_channels t + 1 \<le> usize_max"
proof -
  have "unat w < 2 ^ LENGTH(32)" by (rule unsigned_less)
  then have "unat w \<le> 4294967295" by simp
  moreover have "png_channels t \<le> 4" by (simp add: png_channels_def)
  ultimately have "unat w * png_channels t \<le> 4294967295 * 4" by (rule mult_le_mono)
  then show ?thesis by (simp add: usize_max_def)
qed

lemma handle_ihdr_Inr:
  "handle_ihdr d offset st = Inr st' \<longleftrightarrow>
     ps_ihdr st = None \<and> offset = 8 \<and>
     (\<exists>w h t. d = ihdr_data w h t \<and> ihdr_ok w h t \<and> st' = st\<lparr>ps_ihdr := Some (w, h, t)\<rparr>)"
proof
  assume h: "handle_ihdr d offset st = Inr st'"
  let ?w = "u32_from_be (take 4 d)" and ?h = "u32_from_be (take 4 (drop 4 d))" and ?t = "d ! 9"
  have "ps_ihdr st = None \<and> length d = 13 \<and> offset = 8"
    using h by (cases "ps_ihdr st") (auto simp: handle_ihdr_def png_protocol_def split: if_splits)
  then have a: "ps_ihdr st = None" "length d = 13" "offset = 8" by simp_all
  have b: "0 < ?w" "0 < ?h" "?w \<le> 8192" "?h \<le> 8192" "d ! 8 = 8" "known_color_type ?t" "d ! 10 = 0" "d ! 11 = 0" "d ! 12 = 0"
    using h a by (auto simp: handle_ihdr_def png_protocol_def Let_def word_neq_0_conv not_less split: if_splits)
  obtain n where n: "png_expected_raw_bytes ?w ?h ?t = Inr n" "n \<le> MAX_PNG_RAW_BYTES"
    "st' = st\<lparr>ps_ihdr := Some (?w, ?h, ?t)\<rparr>"
    using h a by (auto simp: handle_ihdr_def png_protocol_def Let_def result_bind_Inr_iff split: if_splits)
  then have "(unat ?w * png_channels ?t + 1) * unat ?h \<le> MAX_PNG_RAW_BYTES"
    by (simp add: png_expected_raw_bytes_Inr)
  then have "ihdr_ok ?w ?h ?t" using b by (simp add: ihdr_ok_def)
  moreover have "d = ihdr_data ?w ?h ?t" by (rule ihdr_data_of) (use a b in simp_all)
  ultimately show "ps_ihdr st = None \<and> offset = 8 \<and>
      (\<exists>w h t. d = ihdr_data w h t \<and> ihdr_ok w h t \<and> st' = st\<lparr>ps_ihdr := Some (w, h, t)\<rparr>)"
    using a n(3) by blast
next
  assume "ps_ihdr st = None \<and> offset = 8 \<and>
      (\<exists>w h t. d = ihdr_data w h t \<and> ihdr_ok w h t \<and> st' = st\<lparr>ps_ihdr := Some (w, h, t)\<rparr>)"
  then obtain w h t where a: "ps_ihdr st = None" "offset = 8" "d = ihdr_data w h t" "ihdr_ok w h t"
    "st' = st\<lparr>ps_ihdr := Some (w, h, t)\<rparr>" by blast
  have raw: "png_expected_raw_bytes w h t = Inr ((unat w * png_channels t + 1) * unat h)"
    using a(4) expected_raw raw_row_bound unfolding ihdr_ok_def by metis
  have ok: "w \<noteq> 0" "h \<noteq> 0" "\<not> 8192 < w" "\<not> 8192 < h" "known_color_type t"
    "\<not> MAX_PNG_RAW_BYTES < (unat w * png_channels t + 1) * unat h"
    using a(4) by (auto simp: ihdr_ok_def)
  show "handle_ihdr d offset st = Inr st'"
    unfolding handle_ihdr_def a(3) Let_def ihdr_data_parts u32_from_to_be raw
    using a(1,2,5) ok by simp
qed

section \<open>The phases of the loop\<close>

definition png_before :: "32 word \<times> 32 word \<times> byte \<Rightarrow> chunk list \<Rightarrow> png_state" where
  "png_before header u = \<lparr>ps_ihdr = Some header, ps_idat = [], ps_idat_seen = False, ps_idat_closed = False,
     ps_palette = map_of u PLTE, ps_transparency = map_of u tRNS, ps_saw_iend = False\<rparr>"

definition png_data :: "32 word \<times> 32 word \<times> byte \<Rightarrow> chunk list \<Rightarrow> byte list list \<Rightarrow> bool \<Rightarrow> png_state" where
  "png_data header u zs closed = (png_before header u)
     \<lparr>ps_idat := concat zs, ps_idat_seen := True, ps_idat_closed := closed\<rparr>"

lemma header_step:
  "handle_chunk ty d offset fin whole empty_png = Inr st' \<longleftrightarrow>
     ty = IHDR \<and> offset = 8 \<and> (\<exists>w h t. d = ihdr_data w h t \<and> ihdr_ok w h t \<and> st' = png_before (w, h, t) [])"
proof (cases "ty = IHDR")
  case True
  have "close_idat (empty_png\<lparr>ps_ihdr := Some (w, h, t)\<rparr>) = png_before (w, h, t) []" for w h t
    by (simp add: close_idat_def empty_png_def png_before_def)
  moreover have "ps_ihdr empty_png = None" by (simp add: empty_png_def)
  ultimately show ?thesis using True by (simp add: handle_chunk_def handle_ihdr_Inr result_bind_Inr_iff) metis
next
  case False
  then show ?thesis
    by (auto simp: handle_chunk_def handle_plte_def handle_trns_def handle_idat_def handle_iend_def handle_other_def
        png_protocol_def empty_png_def split: if_splits)
qed

lemma metadata_step:
  assumes "ty \<noteq> IDAT" "ty \<noteq> IEND"
  shows "handle_chunk ty d offset fin whole (png_before (w, h, t) u) = Inr st' \<longleftrightarrow>
     metadata_chunk t u (ty, d) \<and> st' = png_before (w, h, t) (u @ [(ty, d)])"
proof -
  consider "ty = IHDR" | "ty = PLTE" | "ty = tRNS" | "ty \<notin> {IHDR, PLTE, tRNS}" by blast
  then show ?thesis
    using assms
    by cases
       (auto simp: handle_chunk_def handle_ihdr_Inr handle_plte_def handle_trns_def handle_other_def
          metadata_chunk_def ancillary_def png_before_def close_idat_def png_protocol_def result_bind_Inr_iff
          map_of_append map_add_def split: if_splits option.splits)
qed

lemma first_data_step:
  "handle_chunk IDAT d offset fin whole (png_before (w, h, t) u) = Inr st' \<longleftrightarrow>
     (t = 3 \<longrightarrow> map_of u PLTE \<noteq> None) \<and> length d \<le> MAX_IMAGE_JSON_BYTES \<and> st' = png_data (w, h, t) u [d] False"
  by (auto simp: handle_chunk_def handle_idat_def png_before_def png_data_def png_protocol_def)

lemma no_early_end:
  "handle_chunk IEND d offset fin whole (png_before header u) = Inr st' \<longleftrightarrow> False"
  by (auto simp: handle_chunk_def handle_iend_def png_before_def png_protocol_def)

lemma more_data_step:
  assumes "t = 3 \<longrightarrow> map_of u PLTE \<noteq> None"
  shows "handle_chunk IDAT d offset fin whole (png_data (w, h, t) u zs closed) = Inr st' \<longleftrightarrow>
     \<not> closed \<and> length (concat (zs @ [d])) \<le> MAX_IMAGE_JSON_BYTES \<and> st' = png_data (w, h, t) u (zs @ [d]) False"
  using assms by (auto simp: handle_chunk_def handle_idat_def png_before_def png_data_def png_protocol_def)

lemma end_step:
  "handle_chunk IEND d offset fin whole (png_data header u zs closed) = Inr st' \<longleftrightarrow>
     d = [] \<and> fin = whole \<and> st' = (png_data header u zs closed)\<lparr>ps_saw_iend := True\<rparr>"
  by (auto simp: handle_chunk_def handle_iend_def png_data_def png_protocol_def)

lemma after_step:
  assumes "ty \<noteq> IDAT" "ty \<noteq> IEND"
  shows "handle_chunk ty d offset fin whole (png_data (w, h, t) u zs closed) = Inr st' \<longleftrightarrow>
     ancillary ty \<and> st' = png_data (w, h, t) u zs True"
  using assms
  by (auto simp: handle_chunk_def handle_ihdr_Inr handle_plte_def handle_trns_def handle_other_def
      ancillary_def png_before_def png_data_def close_idat_def png_protocol_def result_bind_Inr_iff
      split: if_splits option.splits)

section \<open>The accepted runs\<close>

lemma closed_run:
  assumes "t = 3 \<longrightarrow> map_of u PLTE \<noteq> None"
  shows "run_chunks whole offset cs (png_data (w, h, t) u zs True) = Inr st' \<Longrightarrow> ps_saw_iend st' \<Longrightarrow>
     \<exists>after. cs = after @ [(IEND, [])] \<and> list_all (\<lambda>c. ancillary (fst c)) after \<and>
       st' = (png_data (w, h, t) u zs True)\<lparr>ps_saw_iend := True\<rparr>"
proof (induction cs arbitrary: offset)
  case Nil
  then show ?case by (auto simp: png_data_def png_before_def)
next
  case (Cons c cs)
  obtain ty d where c: "c = (ty, d)" by (cases c)
  have open_: "\<not> ps_saw_iend (png_data (w, h, t) u zs True)" by (simp add: png_data_def png_before_def)
  obtain st1 where st1: "handle_chunk ty d offset (offset + 12 + length d) whole (png_data (w, h, t) u zs True) = Inr st1"
    "run_chunks whole (offset + 12 + length d) cs st1 = Inr st'"
    using Cons.prems(1) open_ by (auto simp: c result_bind_Inr_iff png_protocol_def)
  consider "ty = IDAT" | "ty = IEND" | "ty \<noteq> IDAT" "ty \<noteq> IEND" by blast
  then show ?case
  proof cases
    case 1
    then show ?thesis using st1 more_data_step [OF assms] by simp
  next
    case 2
    then have "d = []" "st1 = (png_data (w, h, t) u zs True)\<lparr>ps_saw_iend := True\<rparr>"
      using st1(1) end_step by auto
    moreover from this have "cs = []" using st1(2) by (cases cs) (simp_all add: png_protocol_def)
    ultimately show ?thesis using 2 st1(2) c by auto
  next
    case 3
    then have "ancillary ty" "st1 = png_data (w, h, t) u zs True" using st1(1) after_step by auto
    with Cons.IH [of "offset + 12 + length d"] st1(2) Cons.prems(2) obtain after where
      "cs = after @ [(IEND, [])]" "list_all (\<lambda>c. ancillary (fst c)) after"
      "st' = (png_data (w, h, t) u zs True)\<lparr>ps_saw_iend := True\<rparr>" by blast
    with \<open>ancillary ty\<close> show ?thesis by (intro exI [of _ "(ty, d) # after"]) (simp add: c)
  qed
qed

lemma data_run:
  assumes "t = 3 \<longrightarrow> map_of u PLTE \<noteq> None"
  shows "run_chunks whole offset cs (png_data (w, h, t) u zs False) = Inr st' \<Longrightarrow> ps_saw_iend st' \<Longrightarrow>
     length (concat zs) \<le> MAX_IMAGE_JSON_BYTES \<Longrightarrow>
     \<exists>zs' after closed. cs = map (Pair IDAT) zs' @ after @ [(IEND, [])] \<and>
       length (concat (zs @ zs')) \<le> MAX_IMAGE_JSON_BYTES \<and> list_all (\<lambda>c. ancillary (fst c)) after \<and>
       st' = (png_data (w, h, t) u (zs @ zs') closed)\<lparr>ps_saw_iend := True\<rparr>"
proof (induction cs arbitrary: offset zs)
  case Nil
  then show ?case by (auto simp: png_data_def png_before_def)
next
  case (Cons c cs)
  obtain ty d where c: "c = (ty, d)" by (cases c)
  let ?fin = "offset + 12 + length d"
  have open_: "\<not> ps_saw_iend (png_data (w, h, t) u zs False)" by (simp add: png_data_def png_before_def)
  obtain st1 where st1: "handle_chunk ty d offset ?fin whole (png_data (w, h, t) u zs False) = Inr st1"
    "run_chunks whole ?fin cs st1 = Inr st'"
    using Cons.prems(1) open_ by (auto simp: c result_bind_Inr_iff png_protocol_def)
  consider "ty = IDAT" | "ty = IEND" | "ty \<noteq> IDAT" "ty \<noteq> IEND" by blast
  then show ?case
  proof cases
    case 1
    then have "length (concat (zs @ [d])) \<le> MAX_IMAGE_JSON_BYTES" "st1 = png_data (w, h, t) u (zs @ [d]) False"
      using st1(1) more_data_step [OF assms] by auto
    with Cons.IH [of ?fin "zs @ [d]"] st1(2) Cons.prems(2) obtain zs' after closed where
      "cs = map (Pair IDAT) zs' @ after @ [(IEND, [])]" "length (concat ((zs @ [d]) @ zs')) \<le> MAX_IMAGE_JSON_BYTES"
      "list_all (\<lambda>c. ancillary (fst c)) after"
      "st' = (png_data (w, h, t) u ((zs @ [d]) @ zs') closed)\<lparr>ps_saw_iend := True\<rparr>" by blast
    with 1 show ?thesis
      by (intro exI [of _ "d # zs'"] exI [of _ after] exI [of _ closed]) (simp add: c)
  next
    case 2
    then have "d = []" "st1 = (png_data (w, h, t) u zs False)\<lparr>ps_saw_iend := True\<rparr>"
      using st1(1) end_step by auto
    moreover from this have "cs = []" using st1(2) by (cases cs) (simp_all add: png_protocol_def)
    ultimately show ?thesis using 2 st1(2) c Cons.prems(3)
      by (intro exI [of _ "[]"] exI [of _ False]) auto
  next
    case 3
    then have anc: "ancillary ty" and "st1 = png_data (w, h, t) u zs True" using st1(1) after_step by auto
    then have "run_chunks whole ?fin cs (png_data (w, h, t) u zs True) = Inr st'" using st1(2) by simp
    from closed_run [OF assms this Cons.prems(2)] obtain after where
      "cs = after @ [(IEND, [])]" "list_all (\<lambda>c. ancillary (fst c)) after"
      "st' = (png_data (w, h, t) u zs True)\<lparr>ps_saw_iend := True\<rparr>" by blast
    with anc Cons.prems(3) show ?thesis
      by (intro exI [of _ "[]"] exI [of _ "(ty, d) # after"] exI [of _ True]) (simp add: c)
  qed
qed

lemma metadata_run:
  "run_chunks whole offset cs (png_before (w, h, t) u) = Inr st' \<Longrightarrow> ps_saw_iend st' \<Longrightarrow>
   \<exists>before zs after closed. cs = before @ map (Pair IDAT) zs @ after @ [(IEND, [])] \<and>
     metadata_from t u before \<and> zs \<noteq> [] \<and> (t = 3 \<longrightarrow> map_of (u @ before) PLTE \<noteq> None) \<and>
     length (concat zs) \<le> MAX_IMAGE_JSON_BYTES \<and> list_all (\<lambda>c. ancillary (fst c)) after \<and>
     st' = (png_data (w, h, t) (u @ before) zs closed)\<lparr>ps_saw_iend := True\<rparr>"
proof (induction cs arbitrary: offset u)
  case Nil
  then show ?case by (auto simp: png_before_def)
next
  case (Cons c cs)
  obtain ty d where c: "c = (ty, d)" by (cases c)
  let ?fin = "offset + 12 + length d"
  have open_: "\<not> ps_saw_iend (png_before (w, h, t) u)" by (simp add: png_before_def)
  obtain st1 where st1: "handle_chunk ty d offset ?fin whole (png_before (w, h, t) u) = Inr st1"
    "run_chunks whole ?fin cs st1 = Inr st'"
    using Cons.prems(1) open_ by (auto simp: c result_bind_Inr_iff png_protocol_def)
  consider "ty = IDAT" | "ty = IEND" | "ty \<noteq> IDAT" "ty \<noteq> IEND" by blast
  then show ?case
  proof cases
    case 1
    then have pal: "t = 3 \<longrightarrow> map_of u PLTE \<noteq> None" and len: "length (concat [d]) \<le> MAX_IMAGE_JSON_BYTES"
      and "st1 = png_data (w, h, t) u [d] False"
      using st1(1) first_data_step by auto
    then have "run_chunks whole ?fin cs (png_data (w, h, t) u [d] False) = Inr st'" using st1(2) by simp
    from data_run [OF pal this Cons.prems(2) len] obtain zs after closed where
      "cs = map (Pair IDAT) zs @ after @ [(IEND, [])]" "length (concat ([d] @ zs)) \<le> MAX_IMAGE_JSON_BYTES"
      "list_all (\<lambda>c. ancillary (fst c)) after"
      "st' = (png_data (w, h, t) u ([d] @ zs) closed)\<lparr>ps_saw_iend := True\<rparr>" by blast
    with 1 pal show ?thesis
      by (intro exI [of _ "[]"] exI [of _ "d # zs"] exI [of _ after] exI [of _ closed]) (simp add: c)
  next
    case 2
    then show ?thesis using st1(1) no_early_end by simp
  next
    case 3
    then have m: "metadata_chunk t u c" and "st1 = png_before (w, h, t) (u @ [c])"
      using st1(1) metadata_step by (auto simp: c)
    with Cons.IH [of ?fin "u @ [c]"] st1(2) Cons.prems(2) obtain before zs after closed where
      b: "cs = before @ map (Pair IDAT) zs @ after @ [(IEND, [])]" "metadata_from t (u @ [c]) before" "zs \<noteq> []"
      "t = 3 \<longrightarrow> map_of ((u @ [c]) @ before) PLTE \<noteq> None" "length (concat zs) \<le> MAX_IMAGE_JSON_BYTES"
      "list_all (\<lambda>c. ancillary (fst c)) after"
      "st' = (png_data (w, h, t) ((u @ [c]) @ before) zs closed)\<lparr>ps_saw_iend := True\<rparr>" by blast
    have u: "(u @ [c]) @ before = u @ c # before" by simp
    show ?thesis using m b unfolding u
      by (intro exI [of _ "c # before"] exI [of _ zs] exI [of _ after] exI [of _ closed]) simp
  qed
qed

section \<open>Every such list is accepted\<close>

definition chunks_span :: "chunk list \<Rightarrow> nat" where
  "chunks_span cs = sum_list (map (\<lambda>c. 12 + length (snd c)) cs)"

lemma chunks_span_simps [simp]:
  "chunks_span [] = 0" "chunks_span (c # cs) = 12 + length (snd c) + chunks_span cs"
  "chunks_span (cs @ ds) = chunks_span cs + chunks_span ds"
  by (simp_all add: chunks_span_def)

lemma length_chunks: "list_all chunk_wf cs \<Longrightarrow> length (concat (map png_chunk cs)) = chunks_span cs"
  by (induction cs) (simp_all add: length_png_chunk)

lemma run_chunks_append:
  "run_chunks whole offset (cs @ ds) st =
     result_bind (run_chunks whole offset cs st) (run_chunks whole (offset + chunks_span cs) ds)"
proof (induction cs arbitrary: offset st)
  case (Cons c cs)
  then show ?case
    by (cases "handle_chunk (fst c) (snd c) offset (offset + 12 + length (snd c)) whole st")
       (simp_all add: png_protocol_def add.assoc)
qed simp

lemma metadata_chunk_type: "metadata_chunk t u c \<Longrightarrow> fst c \<noteq> IDAT \<and> fst c \<noteq> IEND"
  by (auto simp: metadata_chunk_def ancillary_def split: if_splits)

lemma run_metadata:
  "metadata_from t u before \<Longrightarrow>
   run_chunks whole offset before (png_before (w, h, t) u) = Inr (png_before (w, h, t) (u @ before))"
proof (induction before arbitrary: offset u)
  case (Cons c cs)
  have "handle_chunk (fst c) (snd c) offset (offset + 12 + length (snd c)) whole (png_before (w, h, t) u) =
      Inr (png_before (w, h, t) (u @ [c]))"
    using Cons.prems metadata_step [of "fst c" "snd c"] metadata_chunk_type [of t u c] by simp
  moreover have "\<not> ps_saw_iend (png_before (w, h, t) u)" by (simp add: png_before_def)
  moreover have "metadata_from t (u @ [c]) cs" using Cons.prems by simp
  ultimately show ?case using Cons.IH [of "u @ [c]"] by simp
qed simp

lemma run_more_data:
  assumes "t = 3 \<longrightarrow> map_of u PLTE \<noteq> None"
  shows "length (concat (zs @ zs')) \<le> MAX_IMAGE_JSON_BYTES \<Longrightarrow>
    run_chunks whole offset (map (Pair IDAT) zs') (png_data (w, h, t) u zs False) =
      Inr (png_data (w, h, t) u (zs @ zs') False)"
proof (induction zs' arbitrary: offset zs)
  case (Cons d ds)
  have "handle_chunk IDAT d offset (offset + 12 + length d) whole (png_data (w, h, t) u zs False) =
      Inr (png_data (w, h, t) u (zs @ [d]) False)"
    using Cons.prems more_data_step [OF assms] by simp
  moreover have "\<not> ps_saw_iend (png_data (w, h, t) u zs False)" by (simp add: png_data_def png_before_def)
  ultimately show ?case using Cons.IH [of "zs @ [d]"] Cons.prems by simp
qed simp

lemma run_data:
  assumes "t = 3 \<longrightarrow> map_of u PLTE \<noteq> None" "length (concat zs) \<le> MAX_IMAGE_JSON_BYTES" "zs \<noteq> []"
  shows "run_chunks whole offset (map (Pair IDAT) zs) (png_before (w, h, t) u) = Inr (png_data (w, h, t) u zs False)"
proof -
  obtain d ds where zs: "zs = d # ds" using assms(3) by (cases zs) auto
  have "handle_chunk IDAT d offset (offset + 12 + length d) whole (png_before (w, h, t) u) =
      Inr (png_data (w, h, t) u [d] False)"
    using assms zs first_data_step by simp
  moreover have "\<not> ps_saw_iend (png_before (w, h, t) u)" by (simp add: png_before_def)
  ultimately show ?thesis using run_more_data [OF assms(1), of "[d]" ds] assms(2) zs by simp
qed

lemma run_after:
  "list_all (\<lambda>c. ancillary (fst c)) after \<Longrightarrow>
   run_chunks whole offset after (png_data (w, h, t) u zs closed) =
     Inr (png_data (w, h, t) u zs (closed \<or> after \<noteq> []))"
proof (induction after arbitrary: offset closed)
  case (Cons c cs)
  have "fst c \<noteq> IDAT" "fst c \<noteq> IEND" using Cons.prems by (auto simp: ancillary_def)
  then have "handle_chunk (fst c) (snd c) offset (offset + 12 + length (snd c)) whole (png_data (w, h, t) u zs closed) =
      Inr (png_data (w, h, t) u zs True)"
    using Cons.prems after_step [of "fst c" "snd c"] by simp
  moreover have "\<not> ps_saw_iend (png_data (w, h, t) u zs closed)" by (simp add: png_data_def png_before_def)
  ultimately show ?case using Cons by simp
qed simp

lemma run_layout:
  assumes "png_rules w h t before zs after" "whole = 8 + chunks_span (png_layout w h t before zs after)"
  shows "run_chunks whole 8 (png_layout w h t before zs after) empty_png =
    Inr ((png_data (w, h, t) before zs (after \<noteq> []))\<lparr>ps_saw_iend := True\<rparr>)"
proof -
  note r = assms(1) [unfolded png_rules_def]
  have "\<not> ps_saw_iend empty_png" by (simp add: empty_png_def)
  moreover have "handle_chunk IHDR (ihdr_data w h t) 8 (8 + 12 + length (ihdr_data w h t)) whole empty_png =
      Inr (png_before (w, h, t) [])"
    using header_step r by auto
  moreover have "run_chunks whole offset (before @ map (Pair IDAT) zs @ after @ [(IEND, [])]) (png_before (w, h, t) []) =
      Inr ((png_data (w, h, t) before zs (after \<noteq> []))\<lparr>ps_saw_iend := True\<rparr>)"
    if "offset + chunks_span (before @ map (Pair IDAT) zs @ after @ [(IEND, [])]) = whole" for offset
  proof -
    let ?o1 = "offset + chunks_span before" and ?o2 = "offset + chunks_span before + chunks_span (map (Pair IDAT) zs)"
    let ?o3 = "?o2 + chunks_span after"
    have "handle_chunk IEND [] ?o3 (?o3 + 12) whole (png_data (w, h, t) before zs (after \<noteq> [])) =
        Inr ((png_data (w, h, t) before zs (after \<noteq> []))\<lparr>ps_saw_iend := True\<rparr>)"
      using that end_step by simp
    moreover have "\<not> ps_saw_iend (png_data (w, h, t) before zs (after \<noteq> []))" by (simp add: png_data_def png_before_def)
    ultimately have fin: "run_chunks whole ?o3 [(IEND, [])] (png_data (w, h, t) before zs (after \<noteq> [])) =
        Inr ((png_data (w, h, t) before zs (after \<noteq> []))\<lparr>ps_saw_iend := True\<rparr>)" by simp
    have 1: "run_chunks whole offset before (png_before (w, h, t) []) = Inr (png_before (w, h, t) before)"
      using run_metadata [of t "[]" before] r by simp
    have 2: "run_chunks whole ?o1 (map (Pair IDAT) zs) (png_before (w, h, t) before) = Inr (png_data (w, h, t) before zs False)"
      using r by (intro run_data) auto
    have 3: "run_chunks whole ?o2 after (png_data (w, h, t) before zs False) = Inr (png_data (w, h, t) before zs (after \<noteq> []))"
      using run_after [of after whole ?o2 w h t before zs False] r by simp
    show ?thesis
      by (simp only: run_chunks_append 1 2 3 fin result_bind_simps add.assoc [symmetric])
  qed
  ultimately show ?thesis using assms(2) by (simp add: png_layout_def)
qed

lemma run_chunks_rules:
  assumes "run_chunks whole 8 cs empty_png = Inr st" "ps_saw_iend st"
  shows "\<exists>w h t before zs after closed. cs = png_layout w h t before zs after \<and> png_rules w h t before zs after \<and>
     st = (png_data (w, h, t) before zs closed)\<lparr>ps_saw_iend := True\<rparr>"
proof (cases cs)
  case Nil
  then show ?thesis using assms by (auto simp: empty_png_def)
next
  case (Cons c cs')
  obtain ty d where c: "c = (ty, d)" by (cases c)
  obtain st1 where st1: "handle_chunk ty d 8 (8 + 12 + length d) whole empty_png = Inr st1"
    "run_chunks whole (8 + 12 + length d) cs' st1 = Inr st"
    using assms(1) by (auto simp: Cons c result_bind_Inr_iff png_protocol_def split: if_splits)
  then obtain w h t where h: "ty = IHDR" "d = ihdr_data w h t" "ihdr_ok w h t" "st1 = png_before (w, h, t) []"
    using header_step by auto
  then have "run_chunks whole (8 + 12 + length d) cs' (png_before (w, h, t) []) = Inr st" using st1(2) by simp
  from metadata_run [OF this assms(2)] obtain before zs after closed where
    "cs' = before @ map (Pair IDAT) zs @ after @ [(IEND, [])]" "metadata_from t [] before" "zs \<noteq> []"
    "t = 3 \<longrightarrow> map_of ([] @ before) PLTE \<noteq> None" "length (concat zs) \<le> MAX_IMAGE_JSON_BYTES"
    "list_all (\<lambda>c. ancillary (fst c)) after" "st = (png_data (w, h, t) ([] @ before) zs closed)\<lparr>ps_saw_iend := True\<rparr>"
    by blast
  with h show ?thesis
    by (intro exI [of _ w] exI [of _ h] exI [of _ t] exI [of _ before] exI [of _ zs] exI [of _ after] exI [of _ closed])
       (simp add: png_layout_def png_rules_def Cons c)
qed

end
