(* ===== verification/PngTheorems.thy ===== *)
theory PngTheorems
  imports PngRules
begin

text \<open>
  What the check of a PNG promises: it accepts exactly the well-formed images of the supported formats,
  it notices every short error burst in a chunk, and its row filters undo the encoder's.
\<close>

section \<open>The accepted files\<close>

definition png_file :: "chunk list \<Rightarrow> byte list" where
  "png_file cs = PNG_SIGNATURE @ concat (map png_chunk cs)"

text \<open>The raster of a file: its rows with their filters are what the data decompresses to, nothing is
  left over, and the report is that of the rows.\<close>

definition png_raster ::
  "(byte list \<Rightarrow> inflated) \<Rightarrow> 32 word \<Rightarrow> 32 word \<Rightarrow> byte \<Rightarrow> chunk list \<Rightarrow> byte list list \<Rightarrow> (byte \<times> byte list) list
     \<Rightarrow> png_info \<Rightarrow> bool" where
  "png_raster inflate width height t before zs rs info \<longleftrightarrow>
     (let channels = png_channels t; palette = map_of before PLTE; transparency = map_of before tRNS in
      length rs = unat height \<and> list_all (row_ok t channels (unat width) palette transparency) rs \<and>
      inflate (concat zs) = \<lparr>inf_bytes = encode_rows channels (replicate (unat width * channels) 0) rs, inf_clean = True\<rparr> \<and>
      info = \<lparr>pi_width = width, pi_height = height, pi_alpha_capable = (t = 4 \<or> t = 6 \<or> transparency \<noteq> None),
              pi_has_transparent_pixels = list_ex (row_shows t channels (unat width) palette transparency) rs\<rparr>)"

lemma length_png_file: "list_all chunk_wf cs \<Longrightarrow> length (png_file cs) = 8 + chunks_span cs"
  by (simp add: png_file_def length_chunks)

lemma chunk_wf_IEND: "chunk_wf (IEND, [])" by (simp add: chunk_wf_def)

lemma check_rows_raster:
  assumes "ihdr_ok w h t"
  shows "check_rows inflate w h t ((png_data (w, h, t) before zs closed)\<lparr>ps_saw_iend := True\<rparr>) = Inr info \<longleftrightarrow>
     (\<exists>rs. png_raster inflate w h t before zs rs info)"
proof -
  have "known_color_type t" "0 < w" "unat w \<le> 8192"
    using assms by (auto simp: ihdr_ok_def word_le_nat_alt)
  from check_rows_Inr [OF this] show ?thesis
    by (simp add: png_raster_def Let_def png_data_def png_before_def)
qed

lemma png_chunks_of_file:
  assumes "list_all chunk_wf cs" "length (png_file cs) \<le> usize_max"
  shows "png_chunks (png_file cs) 8 st = run_chunks (length (png_file cs)) 8 cs st"
proof -
  have bytes: "png_file cs = PNG_SIGNATURE @ concat (map png_chunk cs) @ []" by (simp add: png_file_def)
  have "png_chunks (png_file cs) (length (png_file cs)) = Inr" by (rule ext) (simp add: png_chunks.simps)
  moreover have "result_bind m Inr = m" for m :: "png_state result" by (cases m) simp_all
  ultimately show ?thesis
    using png_chunks_run [OF assms(1) bytes assms(2), of st] by (simp add: png_file_def)
qed

lemma validate_png_iff:
  assumes "length bytes \<le> usize_max"
  shows "validate_png inflate bytes = Inr info \<longleftrightarrow>
     (\<exists>w h t before zs after rs.
        bytes = png_file (png_layout w h t before zs after) \<and>
        list_all chunk_wf (png_layout w h t before zs after) \<and> png_rules w h t before zs after \<and>
        png_raster inflate w h t before zs rs info)"
proof
  assume v: "validate_png inflate bytes = Inr info"
  then have sig: "\<not> length bytes < 33" "take 8 bytes = PNG_SIGNATURE"
    by (auto simp: validate_png_def png_protocol_def split: if_splits)
  obtain st w h t where st: "png_chunks bytes 8 empty_png = Inr st" "ps_ihdr st = Some (w, h, t)" "ps_saw_iend st"
    "check_rows inflate w h t st = Inr info"
    using v sig
    by (auto simp: validate_png_def png_protocol_def result_bind_Inr_iff ok_or_Inr_iff split: if_splits)
  obtain cs where cs: "list_all chunk_wf cs" "drop 8 bytes = concat (map png_chunk cs)"
    "run_chunks (length bytes) 8 cs empty_png = Inr st"
    using png_chunks_Inr [OF st(1) _ assms] sig(1) by auto
  from run_chunks_rules [OF cs(3) st(3)] obtain w' h' t' before zs after closed where
    l: "cs = png_layout w' h' t' before zs after" "png_rules w' h' t' before zs after"
    "st = (png_data (w', h', t') before zs closed)\<lparr>ps_saw_iend := True\<rparr>" by blast
  have same: "w' = w" "h' = h" "t' = t" using st(2) l(3) by (simp_all add: png_data_def png_before_def)
  have "ihdr_ok w h t" using l(2) same by (simp add: png_rules_def)
  then obtain rs where "png_raster inflate w h t before zs rs info"
    using st(4) check_rows_raster l(3) same by blast
  moreover have "bytes = png_file cs"
    using cs(2) sig(2) append_take_drop_id [of 8 bytes] by (simp add: png_file_def)
  ultimately show "\<exists>w h t before zs after rs.
        bytes = png_file (png_layout w h t before zs after) \<and>
        list_all chunk_wf (png_layout w h t before zs after) \<and> png_rules w h t before zs after \<and>
        png_raster inflate w h t before zs rs info"
    using l(1,2) cs(1) same by blast
next
  assume "\<exists>w h t before zs after rs.
        bytes = png_file (png_layout w h t before zs after) \<and>
        list_all chunk_wf (png_layout w h t before zs after) \<and> png_rules w h t before zs after \<and>
        png_raster inflate w h t before zs rs info"
  then obtain w h t before zs after rs where a: "bytes = png_file (png_layout w h t before zs after)"
    "list_all chunk_wf (png_layout w h t before zs after)" "png_rules w h t before zs after"
    "png_raster inflate w h t before zs rs info" by blast
  let ?st = "(png_data (w, h, t) before zs (after \<noteq> []))\<lparr>ps_saw_iend := True\<rparr>"
  have len: "length bytes = 8 + chunks_span (png_layout w h t before zs after)"
    using a(1,2) by (simp add: length_png_file)
  have "png_chunks bytes 8 empty_png = Inr ?st"
    using png_chunks_of_file [OF a(2)] assms a(1) run_layout [OF a(3) len] by simp
  moreover have "\<not> length bytes < 33" using len by (simp add: png_layout_def)
  moreover have "take 8 bytes = PNG_SIGNATURE" by (simp add: a(1) png_file_def)
  moreover have "check_rows inflate w h t ?st = Inr info"
    using a(3,4) check_rows_raster by (auto simp: png_rules_def)
  moreover have "ps_ihdr ?st = Some (w, h, t)" "ps_saw_iend ?st" "ps_palette ?st = map_of before PLTE"
    by (simp_all add: png_data_def png_before_def)
  moreover have "t = 3 \<longrightarrow> map_of before PLTE \<noteq> None" using a(3) by (simp add: png_rules_def)
  ultimately show "validate_png inflate bytes = Inr info"
    unfolding validate_png_def by (auto simp: png_protocol_def)
qed

text \<open>C6: The check of a PNG accepts exactly the well-formed images of the supported formats. A byte list
  is accepted with a report if and only if it is the signature followed by whole chunks with right
  checksums, namely a header with both sides from 1 to 8192, eight bits per sample, no interlacing, a known color type
  and at most 14 MiB of rows; metadata with at most one palette and one transparency chunk that fit the
  color type; one or more data chunks in a row of at most 16 MiB together; ancillary chunks; the end. The data must
  decompress to precisely the rows of the image, each with a filter of the standard and all pixels
  in the palette, and the report says what these rows show.\<close>

theorem png_accepts_exactly:
  assumes "length bytes \<le> usize_max"
  shows "validate_png inflate bytes = Inr info \<longleftrightarrow>
     (\<exists>width height t before zs after rs.
        bytes = png_file (png_layout width height t before zs after) \<and>
        list_all chunk_wf (png_layout width height t before zs after) \<and>
        png_rules width height t before zs after \<and> png_raster inflate width height t before zs rs info)"
  using assms by (rule validate_png_iff)

text \<open>A file with a single pixel that is half transparent.\<close>

definition pixel_zlib :: "byte list \<Rightarrow> inflated" where
  "pixel_zlib z = \<lparr>inf_bytes = (if z = [1] then [4, 10, 20, 30, 127] else []), inf_clean = True\<rparr>"

definition pixel_file :: "byte list" where
  "pixel_file = png_file (png_layout 1 1 6 [] [[1]] [])"

lemma pixel_file_ok:
  "list_all chunk_wf (png_layout 1 1 6 [] [[1]] [])" "png_rules 1 1 6 [] [[1]] []"
  "png_raster pixel_zlib 1 1 6 [] [[1]] [(4, [10, 20, 30, 127])]
     \<lparr>pi_width = 1, pi_height = 1, pi_alpha_capable = True, pi_has_transparent_pixels = True\<rparr>"
  "length pixel_file \<le> usize_max"
proof -
  show wf: "list_all chunk_wf (png_layout 1 1 6 [] [[1]] [])"
    by (simp add: png_layout_def chunk_wf_def)
  show "png_rules 1 1 6 [] [[1]] []"
    by (simp add: png_rules_def ihdr_ok_def known_color_type_def png_channels_def MAX_PNG_RAW_BYTES_def
        MAX_IMAGE_JSON_BYTES_def)
  show "png_raster pixel_zlib 1 1 6 [] [[1]] [(4, [10, 20, 30, 127])]
     \<lparr>pi_width = 1, pi_height = 1, pi_alpha_capable = True, pi_has_transparent_pixels = True\<rparr>"
    by (simp add: png_raster_def png_channels_def row_ok_def row_shows_def pixel_transparent_def
        pixel_zlib_def filter_row_def filter_byte_def predicted_def paeth_predictor_def upt_rec) blast
  show "length pixel_file \<le> usize_max"
    using length_png_file [OF wf] by (simp add: pixel_file_def png_layout_def usize_max_def)
qed

theorem png_accepts_exactly_witness:
  "validate_png pixel_zlib pixel_file =
     Inr \<lparr>pi_width = 1, pi_height = 1, pi_alpha_capable = True, pi_has_transparent_pixels = True\<rparr>"
proof (rule png_accepts_exactly [THEN iffD2])
  show "length pixel_file \<le> usize_max" by (rule pixel_file_ok)
qed (use pixel_file_ok(1-3) in \<open>unfold pixel_file_def, blast\<close>)

lemma pixel_file_accepted:
  "validate_png pixel_zlib pixel_file =
     Inr \<lparr>pi_width = 1, pi_height = 1, pi_alpha_capable = True, pi_has_transparent_pixels = True\<rparr>"
proof (rule validate_png_iff [THEN iffD2])
  show "length pixel_file \<le> usize_max" by (rule pixel_file_ok)
qed (use pixel_file_ok(1-3) in \<open>unfold pixel_file_def, blast\<close>)

section \<open>Damaged files\<close>

lemma protected_rejected:
  assumes "list_all chunk_wf cs" "n < 2 ^ 32" "length body = 4 + n" "length crc = 4"
    and "length (PNG_SIGNATURE @ concat (map png_chunk cs) @ u32_to_be (word_of_nat n) @ body @ crc @ rest) \<le> usize_max"
  shows "validate_png inflate
      (PNG_SIGNATURE @ concat (map png_chunk cs) @ u32_to_be (word_of_nat n) @ body @ crc @ rest) = Inr info \<Longrightarrow>
    png_crc32 body = u32_from_be crc"
proof -
  let ?bytes = "PNG_SIGNATURE @ concat (map png_chunk cs) @ u32_to_be (word_of_nat n) @ body @ crc @ rest"
  let ?pre = "PNG_SIGNATURE @ concat (map png_chunk cs)"
  assume "validate_png inflate ?bytes = Inr info"
  then obtain st where st: "png_chunks ?bytes 8 empty_png = Inr st"
    by (auto simp: validate_png_def png_protocol_def result_bind_Inr_iff split: if_splits)
  have run: "png_chunks ?bytes 8 empty_png = result_bind (run_chunks (length ?bytes) 8 cs empty_png)
      (png_chunks ?bytes (length ?pre))"
    using png_chunks_run [OF assms(1) _ assms(5), of PNG_SIGNATURE _ empty_png] by simp
  have "result_bind (run_chunks (length ?bytes) 8 cs empty_png) (png_chunks ?bytes (length ?pre)) = Inr st"
    by (rule trans [OF run [symmetric] st])
  then obtain st1 where st1: "png_chunks ?bytes (length ?pre) st1 = Inr st"
    unfolding result_bind_Inr_iff by blast
  have "?bytes = ?pre @ u32_to_be (word_of_nat n) @ take 4 body @ drop 4 body @ crc @ rest" by simp
  note at = png_chunks_at [OF this assms(2) _ _ assms(4) assms(5)]
  have "png_crc32 (take 4 body @ drop 4 body) = u32_from_be crc"
    using st1 at assms(3) by (auto simp: png_protocol_def split: if_splits)
  then show "png_crc32 body = u32_from_be crc" by simp
qed

text \<open>C34: Damage to a chunk is noticed. If an accepted image is changed within at most four neighbouring bytes of
  the type and the data of one chunk, the result is refused, whatever the changed bytes and whatever
  the decompressor makes of them.\<close>

theorem damaged_chunk_refused:
  assumes "list_all chunk_wf cs" "n < 2 ^ 32" "length (a @ ds @ b) = 4 + n" "length crc = 4"
    and "length (png_file cs @ u32_to_be (word_of_nat n) @ a @ ds @ b @ crc @ rest) \<le> usize_max"
    and "validate_png inflate (png_file cs @ u32_to_be (word_of_nat n) @ a @ ds @ b @ crc @ rest) = Inr info"
    and "length ds \<le> 4" "length es = length ds" "es \<noteq> ds"
  shows "\<exists>e. validate_png inflate' (png_file cs @ u32_to_be (word_of_nat n) @ a @ es @ b @ crc @ rest) = Inl e"
proof -
  have crc: "png_crc32 (a @ ds @ b) = u32_from_be crc"
    using protected_rejected [of cs n "a @ ds @ b" crc rest inflate info] assms(1-6) by (simp add: png_file_def)
  have "validate_png inflate' (png_file cs @ u32_to_be (word_of_nat n) @ a @ es @ b @ crc @ rest) \<noteq> Inr info'" for info'
  proof
    assume "validate_png inflate' (png_file cs @ u32_to_be (word_of_nat n) @ a @ es @ b @ crc @ rest) = Inr info'"
    then have "png_crc32 (a @ es @ b) = u32_from_be crc"
      using protected_rejected [of cs n "a @ es @ b" crc rest inflate' info'] assms(1-5,8) by (simp add: png_file_def)
    with crc crc_burst [of es ds a b] assms(7-9) show False by simp
  qed
  then show ?thesis
    by (cases "validate_png inflate' (png_file cs @ u32_to_be (word_of_nat n) @ a @ es @ b @ crc @ rest)") auto
qed

text \<open>The image above with another width written into its header.\<close>

theorem damaged_chunk_refused_witness:
  "\<exists>e. validate_png pixel_zlib (png_file [] @ u32_to_be (word_of_nat 13) @ IHDR @ u32_to_be 2 @
      (u32_to_be 1 @ [8, 6, 0, 0, 0]) @ u32_to_be (png_crc32 (IHDR @ ihdr_data 1 1 6)) @
      concat (map png_chunk [(IDAT, [1]), (IEND, [])])) = Inl e"
proof -
  have whole: "png_file [] @ u32_to_be (word_of_nat 13) @ IHDR @ u32_to_be 1 @
      (u32_to_be 1 @ [8, 6, 0, 0, 0]) @ u32_to_be (png_crc32 (IHDR @ ihdr_data 1 1 6)) @
      concat (map png_chunk [(IDAT, [1]), (IEND, [])]) = pixel_file"
    by (simp add: pixel_file_def png_file_def png_layout_def png_chunk_def [of "(IHDR, ihdr_data 1 1 6)"])
       (simp add: ihdr_data_def)
  show ?thesis
  proof (rule damaged_chunk_refused [where ds = "u32_to_be 1" and inflate = pixel_zlib])
    have "u32_from_be (u32_to_be 2) \<noteq> u32_from_be (u32_to_be 1)" by simp
    then show "u32_to_be 2 \<noteq> u32_to_be 1" by metis
  qed (use pixel_file_ok(4) pixel_file_accepted whole in \<open>simp_all only: list.pred_inject(1), simp_all\<close>)
qed

section \<open>Rows\<close>

text \<open>Restoring a row undoes every filter of the standard: whatever the row, the row above, the filter
  and the number of bytes per pixel, filtering the row and restoring it gives the row back; and a row that
  can be restored at all is the filtered form of what it is restored to, with one of the five filters.\<close>

theorem filtered_row_restored:
  assumes "1 \<le> channels" "row \<noteq> []"
  shows "(kind \<le> 4 \<longrightarrow> unfilter_row kind channels previous (filter_row kind channels previous row) = Inr row) \<and>
     (unfilter_row kind channels previous row = Inr row' \<longrightarrow>
        kind \<le> 4 \<and> row = filter_row kind channels previous row')"
  using assms unfilter_filter unfilter_row_Inr by blast

theorem filtered_row_restored_witness:
  "unfilter_row 4 3 [1, 2, 3, 4, 5, 6] (filter_row 4 3 [1, 2, 3, 4, 5, 6] [9, 200, 7, 0, 255, 3]) =
     Inr [9, 200, 7, 0, 255, 3]"
  using filtered_row_restored [of 3 "[9, 200, 7, 0, 255, 3]" 4 "[1, 2, 3, 4, 5, 6]" "[]"] by simp

end
