(* ===== verification/ImageTheorems.thy ===== *)
theory ImageTheorems
  imports ClientImage PngTheorems Contracts
begin

text \<open>
  What image generation promises: a billed request is posted again only after an authoritative 401, never after a
  cancellation; its caller gets a validated image, a definite error, or the news that the outcome is
  unknown, and in the last case the connection is ended.
\<close>

section \<open>The shared state of one operation\<close>

text \<open>The atomic accesses of the worker and of the guard, in any order.\<close>

datatype image_access = AccDispatch http_post | AccReset | AccFinish | AccCancel

definition image_step :: "image_access \<Rightarrow> image_op \<Rightarrow> image_op" where
  "image_step acc op =
     (case acc of
        AccDispatch p \<Rightarrow>
          (case begin_dispatch op of
             (Inl _, op1) \<Rightarrow> op1
           | (Inr _, op1) \<Rightarrow> op1\<lparr>io_sent := io_sent op1 @ [p]\<rparr>)
      | AccReset \<Rightarrow> snd (reset_after_unauthorized op)
      | AccFinish \<Rightarrow> finish_op op
      | AccCancel \<Rightarrow> snd (cancel_op op))"

definition image_op_ok :: "image_op \<Rightarrow> bool" where
  "image_op_ok op \<longleftrightarrow> (is_dispatched op \<longrightarrow> io_sent op \<noteq> [])"

definition final_posts :: "unit \<Rightarrow> image_op \<Rightarrow> (bool \<times> http_post list) option" where
  "final_posts u op = (if is_cancelled op then Some (is_dispatched op, io_sent op) else None)"

lemmas image_step_defs = image_step_def begin_dispatch_def reset_after_unauthorized_def finish_op_def cancel_op_def
  is_cancelled_def is_dispatched_def

interpretation image_op: settling_machine new_image_op image_step image_op_ok final_posts
proof unfold_locales
  show "image_op_ok new_image_op" by (simp add: image_op_ok_def new_image_op_def is_dispatched_def)
next
  fix op acc assume "image_op_ok op"
  then show "image_op_ok (image_step acc op)"
    by (cases acc; cases "io_phase op") (auto simp: image_op_ok_def image_step_defs)
next
  fix op k v acc assume "final_posts k op = Some v"
  then show "final_posts k (image_step acc op) = Some v"
    by (cases acc; cases "io_phase op") (auto simp: final_posts_def image_step_defs split: if_splits)
qed

lemma one_dispatch_per_reset:
  "length (io_sent (fold image_step accs op)) + (if io_phase (fold image_step accs op) = PhPending then 1 else 0)
     \<le> length (io_sent op) + (if io_phase op = PhPending then 1 else 0) + length (filter ((=) AccReset) accs)"
proof (induction accs arbitrary: op)
  case (Cons acc accs)
  have "length (io_sent (image_step acc op)) + (if io_phase (image_step acc op) = PhPending then 1 else 0)
      \<le> length (io_sent op) + (if io_phase op = PhPending then 1 else 0) + (if acc = AccReset then 1 else 0)"
    by (cases acc; cases "io_phase op") (simp_all add: image_step_defs)
  with Cons.IH [of "image_step acc op"] show ?case by (auto split: if_splits)
qed simp

text \<open>C19: A billed operation is dispatched once, and once more for each time the endpoint refused it with a 401,
  whatever the order in which worker and caller reach the shared state. Once its caller has cancelled it
  nothing is sent any more, and whether something had been sent is settled for good.\<close>

theorem billed_operation_dispatches:
  fixes accs later
  defines "op \<equiv> fold image_step accs new_image_op" and "op' \<equiv> fold image_step (accs @ later) new_image_op"
  shows "length (io_sent op) \<le> 1 + length (filter ((=) AccReset) accs) \<and>
     (is_dispatched op \<longrightarrow> io_sent op \<noteq> []) \<and>
     (is_cancelled op \<longrightarrow> is_cancelled op' \<and> io_sent op' = io_sent op \<and> is_dispatched op' = is_dispatched op)"
proof -
  have "length (io_sent op) \<le> 1 + length (filter ((=) AccReset) accs)"
    using one_dispatch_per_reset [of accs new_image_op] by (simp add: op_def new_image_op_def)
  moreover have "image_op_ok op" unfolding op_def by (rule image_op.invar_run)
  moreover have "final_posts () op' = Some (is_dispatched op, io_sent op)" if "is_cancelled op"
    using image_op.settled_stable [of "()" accs "(is_dispatched op, io_sent op)" later] that
    by (simp add: op_def op'_def final_posts_def)
  ultimately show ?thesis by (auto simp: image_op_ok_def final_posts_def split: if_splits)
qed

theorem billed_operation_dispatches_witness:
  fixes p :: http_post
  defines "p \<equiv> \<lparr>hp_endpoint = ''e'', hp_access_token = ''t'', hp_account_id = ''a'', hp_version = ''v'', hp_originator = ''o'',
    hp_turn_id = ''i'', hp_body = ''b''\<rparr>"
  shows "io_sent (fold image_step ([AccDispatch p, AccCancel] @ [AccReset, AccDispatch p]) new_image_op) = [p]"
  using billed_operation_dispatches [of "[AccDispatch p, AccCancel]" "[AccReset, AccDispatch p]"]
  by (simp add: image_step_defs new_image_op_def)

section \<open>The worker and its caller take these steps\<close>

definition image_steps :: "image_op \<Rightarrow> image_op \<Rightarrow> bool" where
  "image_steps op op' \<longleftrightarrow> (\<exists>accs. op' = fold image_step accs op)"

lemma image_steps_refl [intro]: "image_steps op op"
  by (auto simp: image_steps_def intro: exI [of _ "[]"])

lemma image_steps_step: "image_steps op op' \<Longrightarrow> image_steps op (image_step acc op')"
  unfolding image_steps_def by (elim exE) (rule_tac x = "accs @ [acc]" in exI, simp)

lemma image_steps_intros [intro]:
  "image_steps op op' \<Longrightarrow> image_steps op (caller_gone g op')"
  "image_steps op op' \<Longrightarrow> image_steps op (snd (reset_after_unauthorized op'))"
  "image_steps op op' \<Longrightarrow> image_steps op (finish_op op')"
  "image_steps op op' \<Longrightarrow> image_steps op (snd (cancel_op op'))"
  using image_steps_step [of op op' AccCancel] image_steps_step [of op op' AccReset]
    image_steps_step [of op op' AccFinish]
  by (auto simp: image_step_def caller_gone_def)

lemma image_steps_dispatch:
  "image_steps op op' \<Longrightarrow> begin_dispatch op' = (Inr u, op1) \<Longrightarrow>
     image_steps op (op1\<lparr>io_sent := io_sent op1 @ [p]\<rparr>)"
  "image_steps op op' \<Longrightarrow> begin_dispatch op' = (Inl e, op1) \<Longrightarrow> image_steps op op1"
  using image_steps_step [of op op' "AccDispatch p"] by (auto simp: image_step_def)

lemma accept_reply_steps: "image_steps op op' \<Longrightarrow> image_steps op (snd (accept_reply codecs rq t gone reply op'))"
  by (auto simp: accept_reply_def accept_body_def Let_def intro!: image_steps_intros
      split: http_reply.split sum.split)

lemma post_image_steps: "image_steps op op' \<Longrightarrow> image_steps op (snd (post_image codecs env rq ii k auth op'))"
  by (auto simp: post_image_def generate_via_endpoint_def send_image_request_def
      intro!: accept_reply_steps
      intro: image_steps_dispatch [where op' = "caller_gone g op'" for g]
      split: sum.split option.split prod.split)

lemma acquire_auth_steps: "image_steps op op' \<Longrightarrow> image_steps op (snd (snd (acquire_auth codecs env ii k c op')))"
  by (auto simp: acquire_auth_def Let_def split: sum.split prod.split)

lemma generate_image_steps:
  "image_steps op (snd (snd (generate_image_with_retry codecs env rq ii c op)))"
proof -
  have ret: "image_steps op (snd (post_image codecs env rq ii k auth op'))" 
    "image_steps op (snd (snd (acquire_auth codecs env ii k c1 op')))"
    if "image_steps op op'" for k auth op' c1
    using that by (rule post_image_steps acquire_auth_steps)+
  show ?thesis
    by (simp add: generate_image_with_retry_def case_prod_beta split: sum.split image_endpoint_error.split)
       (auto intro!: ret)
qed

section \<open>What was posted\<close>

definition refused :: "http_reply \<Rightarrow> bool" where
  "refused reply \<longleftrightarrow> (case reply of SendFailed _ \<Rightarrow> False | Answered status _ \<Rightarrow> status \<noteq> 200)"

definition validated_by :: "image_codecs \<Rightarrow> direct_image_request \<Rightarrow> http_reply \<Rightarrow> direct_image_response \<Rightarrow> bool" where
  "validated_by codecs rq reply response \<longleftrightarrow>
     (\<exists>body bytes. reply = Answered 200 body \<and> read_body codecs body = Inr bytes \<and>
        parse_image_endpoint_response codecs bytes (dq_background rq) = Inr response)"

definition image_post :: "environment \<Rightarrow> direct_image_request \<Rightarrow> image_inputs \<Rightarrow> http_post \<Rightarrow> bool" where
  "image_post env rq ii p \<longleftrightarrow>
     hp_endpoint p = CHATGPT_IMAGE_GENERATION_ENDPOINT \<and> hp_version p = CODEX_VERSION \<and> hp_originator p = ORIGINATOR \<and>
     hp_turn_id p = ii_turn_id ii \<and>
     en_print env (image_body rq) = Inr (hp_body p) \<and> length (hp_body p) \<le> MAX_BODY_BYTES"

text \<open>One post of a pending operation.\<close>

lemma post_image_outcome:
  assumes "post_image codecs env rq ii k auth op = (res, op')" "io_phase op = PhPending"
  shows "(io_sent op' = io_sent op \<and> \<not> is_dispatched op' \<and> (\<exists>e. res = Inl (Failed e))) \<or>
     (\<exists>p. io_sent op' = io_sent op @ [p] \<and> image_post env rq ii p \<and>
        (case res of
           Inr response \<Rightarrow> is_dispatched op' \<and> validated_by codecs rq (ii_reply ii k) response
         | Inl Unauthorized \<Rightarrow> (\<exists>body. ii_reply ii k = Answered 401 body) \<and>
             (if is_cancelled op' then is_dispatched op' else io_phase op' = PhPending)
         | Inl (Failed e) \<Rightarrow> is_dispatched op' \<and> (refused (ii_reply ii k) \<or> e_kind e = OutcomeUnknown)))"
proof (cases rule: post_image_cases [OF assms(1)])
  case (1 e)
  then show ?thesis using assms(2) by blast
next
  case (2 p op0)
  from accept_reply_cases [OF 2(3) 2(5)] show ?thesis
    using 2(2,4)
    by (intro disjI2 exI [of _ p])
       (auto simp: the_post_def image_post_def validated_by_def refused_def
          split: sum.splits image_endpoint_error.splits if_splits)
qed

lemma retry_outcome:
  assumes "generate_image_with_retry codecs env rq ii c new_image_op = (res, c', op)"
  shows "length (io_sent op) \<le> 2 \<and> list_all (image_post env rq ii) (io_sent op) \<and>
     (length (io_sent op) = 2 \<longrightarrow> (\<exists>body. ii_reply ii 0 = Answered 401 body)) \<and>
     (if io_sent op = [] then \<not> is_dispatched op \<and> isl res
      else case res of
        Inr response \<Rightarrow> is_dispatched op \<and> validated_by codecs rq (ii_reply ii (length (io_sent op) - 1)) response
      | Inl e \<Rightarrow> refused (ii_reply ii (length (io_sent op) - 1)) \<or> e_kind e = OutcomeUnknown \<and> is_dispatched op)"
proof -
  let ?t = "ii_turn_id ii"
  have new: "io_phase new_image_op = PhPending" "io_sent new_image_op = []" "\<not> is_cancelled new_image_op"
    "\<not> is_dispatched new_image_op"
    by (simp_all add: new_image_op_def is_cancelled_def is_dispatched_def)
  obtain r1 c1 op1 where a1: "acquire_auth codecs env ii 0 c new_image_op = (r1, c1, op1)"
    by (cases "acquire_auth codecs env ii 0 c new_image_op")
  note o1 = acquire_auth_op [OF a1]
  show ?thesis
  proof (cases r1)
    case (Inl e)
    then have "res = Inl e" "op = op1" using assms a1 new by (simp_all add: generate_image_with_retry_def)
    then show ?thesis using o1 new by simp
  next
    case auth1: (Inr auth)
    then have op1: "op1 = new_image_op" using o1(3) new(3) by simp
    obtain res2 op2 where p1: "post_image codecs env rq ii 0 auth new_image_op = (res2, op2)"
      by (cases "post_image codecs env rq ii 0 auth new_image_op")
    note first = post_image_outcome [OF p1 new(1)]
    have gen: "(res, c', op) = (case res2 of
         Inr response \<Rightarrow> (Inr response, c1, op2)
       | Inl (Failed e) \<Rightarrow> (Inl e, c1, op2)
       | Inl Unauthorized \<Rightarrow>
           if is_cancelled op2 then (Inl (cancellation_error ?t op2), c1, op2)
           else case acquire_auth codecs env ii 1 c1 op2 of
             (Inl e, c2, op3) \<Rightarrow> (Inl e, c2, op3)
           | (Inr refreshed, c2, op3) \<Rightarrow>
               (case post_image codecs env rq ii 1 refreshed op3 of
                  (Inr response, op4) \<Rightarrow> (Inr response, c2, op4)
                | (Inl (Failed e), op4) \<Rightarrow> (Inl e, c2, op4)
                | (Inl Unauthorized, op4) \<Rightarrow>
                    (Inl (new_error Authentication ''image.generate''
                       ''official image endpoint rejected refreshed authentication''), c2, op4)))"
      using assms a1 auth1 op1 p1 new(3)
      by (simp add: generate_image_with_retry_def split: sum.splits image_endpoint_error.splits)
    show ?thesis
    proof (cases "res2 = Inl Unauthorized")
      case False
      then show ?thesis using gen first new(2)
        by (auto split: sum.splits image_endpoint_error.splits)
    next
      case unauth: True
      then obtain p body where p: "io_sent op2 = [p]" "image_post env rq ii p" "ii_reply ii 0 = Answered 401 body"
        "if is_cancelled op2 then is_dispatched op2 else io_phase op2 = PhPending"
        using first new(2) by auto
      have refused0: "refused (ii_reply ii 0)" using p(3) by (simp add: refused_def)
      show ?thesis
      proof (cases "is_cancelled op2")
        case True
        then have "op = op2" "isl res" using gen unauth by simp_all
        then show ?thesis using p refused0 by (auto simp: isl_def)
      next
        case False
        then have pend: "io_phase op2 = PhPending" using p(4) by simp
        obtain r3 c2 op3 where a3: "acquire_auth codecs env ii 1 c1 op2 = (r3, c2, op3)"
          by (cases "acquire_auth codecs env ii 1 c1 op2")
        note o3 = acquire_auth_op [OF a3]
        show ?thesis
        proof (cases r3)
          case (Inl e)
          then have "op = op3" "res = Inl e" using gen unauth False a3 by simp_all
          then show ?thesis using p refused0 o3(1) by simp
        next
          case (Inr refreshed)
          then have "op3 = op2" using o3(3) False by simp
          obtain res4 op4 where p4: "post_image codecs env rq ii 1 refreshed op2 = (res4, op4)"
            by (cases "post_image codecs env rq ii 1 refreshed op2")
          have "op = op4" "res = (case res4 of Inr response \<Rightarrow> Inr response | Inl (Failed e) \<Rightarrow> Inl e
              | Inl Unauthorized \<Rightarrow> Inl (new_error Authentication ''image.generate''
                  ''official image endpoint rejected refreshed authentication''))"
            using gen unauth False a3 Inr \<open>op3 = op2\<close> p4
            by (auto split: sum.splits image_endpoint_error.splits)
          then show ?thesis using post_image_outcome [OF p4 pend] p refused0
            by (auto simp: refused_def split: sum.splits image_endpoint_error.splits)
        qed
      qed
    qed
  qed
qed

section \<open>What a client's image request leads to\<close>

lemma drop_image_guard_op:
  "drop_image_guard armed t c op = (c', op') \<Longrightarrow> io_sent op' = io_sent op \<and> is_dispatched op' = is_dispatched op"
  by (cases "io_phase op") (auto simp: drop_image_guard_def cancel_op_def is_dispatched_def split: if_splits)

lemma drop_image_guard_fences:
  "is_dispatched op \<Longrightarrow> \<exists>e ts. cl_spawned (fst (drop_image_guard True t c op)) = ts @ [DisconnectWith e] \<and>
     e_kind e = OutcomeUnknown \<and> (\<exists>msg. e_message e = ''image turn '' @ quoted t @ msg)"
  by (cases "io_phase op")
     (auto simp: drop_image_guard_def cancel_op_def is_dispatched_def cancellation_error_def spawn_task_def)

lemma generate_image_cases:
  assumes "generate_image codecs env rq ii c = (out, c', op)"
  obtains (early) e where "out = ImageReturned (Inl e)" "c' = c" "op = new_image_op"
  | (ran) res c1 op1 where "generate_image_with_retry codecs env rq ii c new_image_op = (res, c1, op1)"
      "out = (if is_cancelled op1 then ImageAbandoned else ImageReturned res)"
      "drop_image_guard (is_cancelled op1 \<or> (case res of Inl e \<Rightarrow> e_kind e = OutcomeUnknown | Inr _ \<Rightarrow> False))
         (ii_turn_id ii) c1 op1 = (c', op)"
  using assms
  by (cases "generate_image_with_retry codecs env rq ii c new_image_op")
     (auto simp: generate_image_def Let_def split: if_splits)

text \<open>C10: An image request is posted at most twice, and a second time only if the endpoint refused the
  first post with a 401. Every post goes to the fixed endpoint with the body of this request, within the
  body limit and under the same turn identifier; without a post there is no image and nothing is ended.\<close>

theorem image_request_posts:
  assumes "generate_image codecs env rq ii c = (out, c', op)"
  shows "length (io_sent op) \<le> 2 \<and>
     (length (io_sent op) = 2 \<longrightarrow> (\<exists>body. ii_reply ii 0 = Answered 401 body)) \<and>
     list_all (image_post env rq ii) (io_sent op) \<and>
     (io_sent op = [] \<longrightarrow> \<not> is_dispatched op \<and> (\<forall>response. out \<noteq> ImageReturned (Inr response)))"
proof (cases rule: generate_image_cases [OF assms])
  case (1 e)
  then show ?thesis by (simp add: new_image_op_def is_dispatched_def)
next
  case (2 res c1 op1)
  have "io_sent op = io_sent op1" "is_dispatched op = is_dispatched op1"
    using drop_image_guard_op [OF 2(3)] by simp_all
  then show ?thesis using retry_outcome [OF 2(1)] 2(2)
    by (auto split: sum.splits if_splits)
qed

text \<open>C7: A billed request whose answer is in doubt is never passed off as a plain failure. If something was
  posted and the last post was not refused by the endpoint, then the caller has the validated image of its answer; or
  it is told that the outcome is unknown, or has gone away, and then the client ends its connection with an error of
  unknown outcome that names the image turn.\<close>

theorem image_outcome_fenced:
  assumes "generate_image codecs env rq ii c = (out, c', op)" "io_sent op \<noteq> []"
    and "\<not> refused (ii_reply ii (length (io_sent op) - 1))"
  shows "(\<exists>response. out = ImageReturned (Inr response) \<and>
       validated_by codecs rq (ii_reply ii (length (io_sent op) - 1)) response) \<or>
     (out = ImageAbandoned \<or> (\<exists>e. out = ImageReturned (Inl e) \<and> e_kind e = OutcomeUnknown)) \<and>
     (\<exists>e ts. cl_spawned c' = ts @ [DisconnectWith e] \<and> e_kind e = OutcomeUnknown \<and>
        (\<exists>msg. e_message e = ''image turn '' @ quoted (ii_turn_id ii) @ msg))"
proof (cases rule: generate_image_cases [OF assms(1)])
  case (1 e)
  then show ?thesis using assms(2) by (simp add: new_image_op_def)
next
  case (2 res c1 op1)
  have op: "io_sent op = io_sent op1" "is_dispatched op = is_dispatched op1"
    using drop_image_guard_op [OF 2(3)] by simp_all
  note out = retry_outcome [OF 2(1)]
  have d: "is_dispatched op1" using out assms(2,3) op by (auto split: sum.splits if_splits)
  show ?thesis
  proof (cases "is_cancelled op1 \<or> (case res of Inl e \<Rightarrow> e_kind e = OutcomeUnknown | Inr _ \<Rightarrow> False)")
    case True
    then have "c' = fst (drop_image_guard True (ii_turn_id ii) c1 op1)" using 2(3) by simp
    then show ?thesis using drop_image_guard_fences [OF d] True 2(2) by (auto split: sum.splits)
  next
    case False
    then obtain response where r: "res = Inr response"
      using out assms(2,3) op by (auto split: sum.splits if_splits)
    then have "out = ImageReturned (Inr response)" using False 2(2) by simp
    moreover have "validated_by codecs rq (ii_reply ii (length (io_sent op) - 1)) response"
      using out assms(2) r op by simp
    ultimately show ?thesis by blast
  qed
qed

text \<open>An image that is returned is one well-formed PNG within the bounds. The answer held exactly one image
  of at most 8 MiB, which decodes to a file that the check of PNGs accepts, and length, sides, alpha
  capability and base64 are those of this file; transparency is reported exactly when it was asked for.\<close>

theorem returned_image_validated:
  assumes "parse_image_endpoint_response codecs bytes background = Inr response"
  shows "\<exists>encoded png info. ic_response codecs bytes = Inr [encoded] \<and> encoded \<noteq> [] \<and>
     ic_decode codecs encoded = Inr png \<and> length png \<le> MAX_IMAGE_RESPONSE_BYTES \<and>
     validate_png (ic_inflate codecs) png = Inr info \<and>
     dr_base64 response = ic_encode codecs png \<and> dr_byte_length response = length png \<and>
     dr_width response = pi_width info \<and> dr_height response = pi_height info \<and>
     1 \<le> unat (dr_width response) \<and> unat (dr_width response) \<le> 8192 \<and>
     1 \<le> unat (dr_height response) \<and> unat (dr_height response) \<le> 8192 \<and>
     dr_alpha_capable response = pi_alpha_capable info \<and>
     dr_transparent_background response =
       (if background = BackgroundTransparent then Some (pi_has_transparent_pixels info) else None)"
proof -
  obtain encoded png info where r: "ic_response codecs bytes = Inr [encoded]" "encoded \<noteq> []"
    "ic_decode codecs encoded = Inr png" "length png \<le> MAX_IMAGE_RESPONSE_BYTES"
    "validate_png (ic_inflate codecs) png = Inr info"
    "response = \<lparr>dr_base64 = ic_encode codecs png, dr_media_type = ''image/png'', dr_byte_length = length png,
       dr_width = pi_width info, dr_height = pi_height info,
       dr_transparent_background = (case background of BackgroundTransparent \<Rightarrow> Some (pi_has_transparent_pixels info) | _ \<Rightarrow> None),
       dr_alpha_capable = pi_alpha_capable info\<rparr>"
    using assms
    by (auto simp: parse_image_endpoint_response_def http_error_def Let_def result_bind_Inr_iff length_Suc_conv
        split: sum.splits if_splits)
  have "length png \<le> usize_max" using r(4) by (simp add: MAX_IMAGE_RESPONSE_BYTES_def usize_max_def)
  then obtain w h t before zs after rs where "png_rules w h t before zs after"
    "png_raster (ic_inflate codecs) w h t before zs rs info"
    using r(5) validate_png_iff by blast
  then have "ihdr_ok (pi_width info) (pi_height info) t" by (auto simp: png_rules_def png_raster_def Let_def)
  then have "1 \<le> unat (pi_width info) \<and> unat (pi_width info) \<le> 8192 \<and> 1 \<le> unat (pi_height info) \<and> unat (pi_height info) \<le> 8192"
    by (auto simp: ihdr_ok_def word_le_nat_alt unat_gt_0 Suc_le_eq)
  then show ?thesis using r
    by (intro exI [of _ encoded] exI [of _ png] exI [of _ info]) (auto split: image_background.split)
qed

end
