(* ===== verification/ClientSteps.thy ===== *)
theory ClientSteps
  imports ClientImage
begin

text \<open>
  What every operation of a client is made of. The locale \<open>client_core\<close>, extended by
  \<open>client_closure\<close> with what adds threads, is the contract of a
  relation between the client before and after: it is closed under the atomic steps of the components
  (and, for frames, under those it allows), and then it contains every operation of the client.
  It is interpreted on the reflexive and transitive closure of the atomic steps, which makes every
  operation a sequence of steps, and on the relation that bounds the frames an operation sends.
\<close>

named_theorems closure_intros \<open>the operations a closed relation contains\<close>

definition step_requests :: "request_op \<Rightarrow> request_registry \<Rightarrow> request_registry" where
  "step_requests op g = rm_registry (request_step op \<lparr>rm_registry = g, rm_taken = []\<rparr>)"

text \<open>A response is taken and handed over in one go by the router.\<close>

definition simple_request_op :: "request_op \<Rightarrow> bool" where
  "simple_request_op op \<longleftrightarrow> (case op of RqTake _ _ \<Rightarrow> False | RqHandOver \<Rightarrow> False | _ \<Rightarrow> True)"

locale client_core =
  fixes env :: environment
    and allowed :: "json \<Rightarrow> bool"
    and R :: "client \<Rightarrow> client \<Rightarrow> bool"
  assumes refl: "R c c"
    and trans: "R a b \<Longrightarrow> R b c \<Longrightarrow> R a c"
    and tick: "R c (c\<lparr>cl_tick := t\<rparr>)"
    and spawned: "R c (c\<lparr>cl_spawned := ts\<rparr>)"
    and dropped: "R c (c\<lparr>cl_dropped := cl_dropped c @ rs\<rparr>)"
    and router: "R c (c\<lparr>cl_router_running := False\<rparr>)"
    and remove_id: "R c (c\<lparr>cl_sessions := remove_session i (cl_sessions c)\<rparr>)"
    and clear_ids: "R c (c\<lparr>cl_sessions := clear_sessions (cl_sessions c)\<rparr>)"
    and requests: "simple_request_op rop \<Longrightarrow> R c (c\<lparr>cl_requests := step_requests rop (cl_requests c)\<rparr>)"
    and completed: "R c (c\<lparr>cl_requests := snd (complete_request ri res (cl_requests c))\<rparr>)"
    and runs: "R c (c\<lparr>cl_runs := run_step (cf_event_capacity (cl_config c)) op (cl_runs c)\<rparr>)"
    and logins: "R c (c\<lparr>cl_logins := login_step lop (cl_logins c)\<rparr>)"
    and diagnostics: "R c (c\<lparr>cl_diagnostics := diagnostic_step dop (cl_diagnostics c)\<rparr>)"
    and send: "allowed v \<Longrightarrow> R c (snd (snd (client_send env v c)))"
    and disconnects: "R c (disconnect env e c)"
    and closing: "R c (c\<lparr>cl_connection := snd (begin_closing (cl_connection c))\<rparr>)"
    and reply: "allowed (failure ri code msg)"
begin

section \<open>Steps in continuation form\<close>

lemma local_steps [closure_intros]:
  "R a c \<Longrightarrow> R a (c\<lparr>cl_tick := t\<rparr>)"
  "R a c \<Longrightarrow> R a (next_tick c)"
  "R a c \<Longrightarrow> R a (spawn_task task c)"
  "R a c \<Longrightarrow> R a (drop_event ev c)"
  "R a c \<Longrightarrow> R a (c\<lparr>cl_router_running := False\<rparr>)"
  "R a c \<Longrightarrow> R a (c\<lparr>cl_sessions := remove_session i (cl_sessions c)\<rparr>)"
  "R a c \<Longrightarrow> R a (c\<lparr>cl_sessions := clear_sessions (cl_sessions c)\<rparr>)"
  "R a c \<Longrightarrow> R a (disconnect env e c)"
  "R a c \<Longrightarrow> R a (snd (fail_protocol env e c))"
  "R a c \<Longrightarrow> R a (c\<lparr>cl_connection := snd (begin_closing (cl_connection c))\<rparr>)"
  "R a c \<Longrightarrow> R a (push_client_diagnostic meth msg c)"
  "R a c \<Longrightarrow> R a (complete_login login_id lres c)"
  "R a c \<Longrightarrow> allowed v \<Longrightarrow> R a (snd (snd (client_send env v c)))"
  using trans [of a c] tick [of c] spawned [of c "cl_spawned c @ [task]"]
    dropped [of c "dropped_responder ev"] router [of c] remove_id [of c] clear_ids [of c]
    disconnects [of c] closing [of c]
    diagnostics [of c "PushDiagnostic \<lparr>dg_method = meth, dg_message = redact_line msg\<rparr>"]
    logins [of c "LgComplete login_id lres"] send [of v c]
  by (simp_all add: next_tick_def spawn_task_def drop_event_def fail_protocol_def
      push_client_diagnostic_def complete_login_def diagnostic_step_def login_step_def)

lemma request_steps [closure_intros]:
  "R a c \<Longrightarrow> R a (c\<lparr>cl_requests := snd (complete_request ri jres (cl_requests c))\<rparr>)"
  "R a c \<Longrightarrow> R a (c\<lparr>cl_requests := snd (register_request op ni (cl_requests c))\<rparr>)"
  "R a c \<Longrightarrow> R a (c\<lparr>cl_requests := snd (cancel_request n (cl_requests c))\<rparr>)"
  "R a c \<Longrightarrow> R a (c\<lparr>cl_requests := snd (timeout_request n (cl_requests c))\<rparr>)"
  "R a c \<Longrightarrow> R a (on_requests (remove_request ri) c)"
  "R a c \<Longrightarrow> R a (on_requests (mark_cancelled n) c)"
  "R a c \<Longrightarrow> R a (on_requests (mark_dispatched n) c)"
  "R a c \<Longrightarrow> R a (on_requests (drop_receiver n) c)"
  using trans [of a c] completed [of c ri jres] requests [of "RqRegister op ni" c]
    requests [of "RqCancel n" c] requests [of "RqTimeout n" c] requests [of "RqRemove ri" c]
    requests [of "RqMarkCancelled n" c] requests [of "RqMarkDispatched n" c]
    requests [of "RqDropReceiver n" c]
  by (simp_all add: simple_request_op_def step_requests_def request_step_def on_registry_def
      on_requests_def)

lemma run_steps [closure_intros]:
  "R a c \<Longrightarrow> R a (c\<lparr>cl_runs := snd (registry_route_event t u m ev d (cf_event_capacity (cl_config c)) (cl_runs c))\<rparr>)"
  "R a c \<Longrightarrow> R a (c\<lparr>cl_runs := snd (route_terminal t tc p d (cf_event_capacity (cl_config c)) (cl_runs c))\<rparr>)"
  "R a c \<Longrightarrow> R a (c\<lparr>cl_runs := snd (start_interrupt i (cl_runs c))\<rparr>)"
  "R a c \<Longrightarrow> R a (c\<lparr>cl_runs := finish_interrupt i ures (cl_runs c)\<rparr>)"
  "R a c \<Longrightarrow> R a (c\<lparr>cl_runs := snd (cancel_registered t (cl_runs c))\<rparr>)"
  "R a c \<Longrightarrow> R a (c\<lparr>cl_runs := snd (replay_transition t turn (cl_runs c))\<rparr>)"
  "R a c \<Longrightarrow> R a (c\<lparr>cl_runs := snd (fail_before_start t e (cl_runs c))\<rparr>)"
  "R a c \<Longrightarrow> R a (c\<lparr>cl_runs := snd (acknowledge_start t turn (cl_runs c))\<rparr>)"
  "R a c \<Longrightarrow> R a (c\<lparr>cl_runs := set_active i v (cl_runs c)\<rparr>)"
  "R a c \<Longrightarrow> R a (c\<lparr>cl_runs := drop_channels i (cl_runs c)\<rparr>)"
  "R a c \<Longrightarrow> R a (c\<lparr>cl_runs := abandon_cell i (cl_runs c)\<rparr>)"
  "R a c \<Longrightarrow> R a (c\<lparr>cl_runs := snd (fail_active t turn i e (cl_runs c))\<rparr>)"
  "R a c \<Longrightarrow> R a (c\<lparr>cl_runs := snd (recv_event i (cl_runs c))\<rparr>)"
  using trans [of a c] runs [of c "OpEvent t u m ev d"] runs [of c "OpTerminal t tc p d"]
    runs [of c "OpStartInterrupt i"] runs [of c "OpFinishInterrupt i ures"]
    runs [of c "OpCancelRegistered t"] runs [of c "OpReplay t turn"] runs [of c "OpFailBeforeStart t e"]
    runs [of c "OpAcknowledge t turn"] runs [of c "OpSetActive i v"] runs [of c "OpDropChannels i"]
    runs [of c "OpAbandon i"] runs [of c "OpFailActive t turn i e"] runs [of c "OpRecv i"]
  by (simp_all add: run_step_def)

lemma login_steps [closure_intros]:
  "R a c \<Longrightarrow> R a (c\<lparr>cl_logins := snd (register_login_id i (cl_logins c))\<rparr>)"
  "R a c \<Longrightarrow> R a (c\<lparr>cl_logins := snd (wait_login_id i (cl_logins c))\<rparr>)"
  "R a c \<Longrightarrow> R a (c\<lparr>cl_logins := remove_waiter i n (cl_logins c)\<rparr>)"
  using trans [of a c] logins [of c "LgRegister i"] logins [of c "LgWait i"]
    logins [of c "LgRemoveWaiter i n"]
  by (simp_all add: login_step_def)

section \<open>The router\<close>

lemma complete_pending_closed [closure_intros]:
  "R a c \<Longrightarrow> R a (complete_pending env i res c)"
  by (simp add: complete_pending_def case_prod_beta split: response_completion.split)
     (intro conjI impI allI closure_intros)

lemma route_run_event_closed [closure_intros]:
  "R a c \<Longrightarrow> R a (route_run_event t u m ev d c)"
  by (simp add: route_run_event_def case_prod_beta Let_def split: run_event_outcome.split)
     (intro conjI impI allI closure_intros)

lemma send_run_event_closed [closure_intros]:
  "R a c \<Longrightarrow> R a (send_run_event t u m ev c)"
  unfolding send_run_event_def by (intro closure_intros)

lemma route_terminal_notification_closed [closure_intros]:
  "R a c \<Longrightarrow> R a (route_terminal_notification env params d c)"
  by (simp add: route_terminal_notification_def case_prod_beta Let_def
      split: option.split sum.split terminal_route_outcome.split)
     (intro conjI impI allI closure_intros)

lemma handle_login_completed_closed [closure_intros]:
  "R a c \<Longrightarrow> R a (handle_login_completed env params c)"
  by (simp add: handle_login_completed_def split: option.split)
     (intro conjI impI allI closure_intros)

lemma handle_notification_closed [closure_intros]:
  "R a c \<Longrightarrow> R a (handle_notification env meth params c)"
  by (simp add: handle_notification_def handle_warning_def handle_config_warning_def
      split: option.split sum.split)
     (intro conjI impI allI closure_intros)

lemma send_reverse_response_closed [closure_intros]:
  "R a c \<Longrightarrow> allowed v \<Longrightarrow> R a (snd (send_reverse_response env v op c))"
  by (simp add: send_reverse_response_def case_prod_beta split: sum.split)
     (intro conjI impI allI closure_intros)

lemma handle_server_request_closed [closure_intros]:
  "R a c \<Longrightarrow> R a (handle_server_request env i meth params c)"
  by (simp add: handle_server_request_def case_prod_beta split: option.split sum.split bool.split)
     (intro conjI impI allI closure_intros reply)

lemma route_process_event_closed [closure_intros]:
  "R a c \<Longrightarrow> R a (route_process_event env ev c)"
  by (simp add: route_process_event_def split: process_event.split incoming.split)
     (intro conjI impI allI closure_intros)

lemma router_loop_closed [closure_intros]: "R a c \<Longrightarrow> R a (router_loop env evs c)"
  unfolding router_loop_def
  by (induction evs arbitrary: c) (auto intro: route_process_event_closed)

section \<open>Requests\<close>

definition may_request :: "string \<Rightarrow> json \<Rightarrow> bool" where
  "may_request meth params \<longleftrightarrow> (\<forall>n. allowed (request n meth params))"

lemma drop_pending_guard_closed [closure_intros]:
  "R a c \<Longrightarrow> R a (drop_pending_guard armed n c)"
  by (simp add: drop_pending_guard_def) (intro conjI impI closure_intros)

lemma send_failed_closed [closure_intros]:
  "R a c \<Longrightarrow> R a (snd (send_failed env op n e dispatched c))"
  by (simp add: send_failed_def Let_def) (intro conjI impI closure_intros)

lemma no_response_closed [closure_intros]:
  "R a c \<Longrightarrow> R a (snd (no_response env op n limit c))"
  by (simp add: no_response_def case_prod_beta split: timeout_disposition.split)
     (intro conjI impI closure_intros)

lemma await_response_closed [closure_intros]:
  "R a c \<Longrightarrow> R a (snd (await_response env op n limit c))"
  by (simp add: await_response_def case_prod_beta Let_def split: option.split)
     (intro conjI impI allI closure_intros)

lemma request_with_timeout_closed [closure_intros]:
  assumes "R a c" "may_request meth params"
  shows "R a (snd (request_internal_with_timeout env meth params ni op closing_ok d c))"
  using assms(1) assms(2) [unfolded may_request_def, rule_format]
  by (simp add: request_internal_with_timeout_def case_prod_beta Let_def apsnd_def map_prod_def
      split: sum.split)
     (intro conjI impI allI closure_intros)

lemma request_internal_closed [closure_intros]:
  "R a c \<Longrightarrow> may_request meth params \<Longrightarrow> R a (snd (request_internal env meth params ni op closing_ok c))"
  unfolding request_internal_def by (intro closure_intros)

lemma client_request_closed [closure_intros]:
  "R a c \<Longrightarrow> may_request meth params \<Longrightarrow> R a (snd (client_request env meth params ni op c))"
  unfolding client_request_def by (intro closure_intros)

lemma notify_closed [closure_intros]:
  "R a c \<Longrightarrow> allowed (notification meth params) \<Longrightarrow> R a (snd (notify env meth params c))"
  by (simp add: notify_def case_prod_beta) (intro closure_intros)

section \<open>Interrupts and tasks\<close>

definition interrupt_params :: "string \<Rightarrow> string \<Rightarrow> json" where
  "interrupt_params t u = jobj [(''threadId'', JString t), (''turnId'', JString u)]"

definition may_interrupt :: "string \<Rightarrow> bool" where
  "may_interrupt t \<longleftrightarrow> (\<forall>u. may_request ''turn/interrupt'' (interrupt_params t u))"

lemma may_interruptD:
  "may_interrupt t \<Longrightarrow>
   may_request ''turn/interrupt'' (jobj [(''threadId'', JString t), (''turnId'', JString u)])"
  by (simp add: may_interrupt_def interrupt_params_def)

lemma interrupt_turn_internal_closed [closure_intros]:
  "R a c \<Longrightarrow> may_interrupt t \<Longrightarrow> R a (snd (interrupt_turn_internal env t u closing_ok c))"
  by (simp add: interrupt_turn_internal_def case_prod_beta split: sum.split)
     (intro conjI impI allI closure_intros may_interruptD)

lemma interrupt_run_closed [closure_intros]:
  "R a c \<Longrightarrow> may_interrupt t \<Longrightarrow> R a (snd (interrupt_run env t u i c))"
  by (simp add: interrupt_run_def case_prod_beta Let_def split: bool.split)
     (intro conjI impI allI closure_intros)

lemma wait_for_provider_terminal_closed [closure_intros]:
  "R a c \<Longrightarrow> R a (snd (wait_for_provider_terminal env t u i c))"
  by (simp add: wait_for_provider_terminal_def Let_def) (intro conjI impI closure_intros)

lemma interrupt_and_wait_closed [closure_intros]:
  "R a c \<Longrightarrow> may_interrupt t \<Longrightarrow> R a (snd (interrupt_and_wait env t u i c))"
  by (simp add: interrupt_and_wait_def case_prod_beta split: sum.split option.split)
     (intro conjI impI allI closure_intros)

lemma interrupt_failed_run_closed [closure_intros]:
  "R a c \<Longrightarrow> may_interrupt t \<Longrightarrow> R a (interrupt_failed_run env t u i c)"
  by (simp add: interrupt_failed_run_def case_prod_beta split: sum.split)
     (intro conjI impI allI closure_intros)

lemma abandon_run_closed [closure_intros]:
  "R a c \<Longrightarrow> may_interrupt t \<Longrightarrow> R a (abandon_run env t u i c)"
  by (simp add: abandon_run_def case_prod_beta split: sum.split)
     (intro conjI impI allI closure_intros)

lemma cancel_registered_run_closed [closure_intros]:
  "R a c \<Longrightarrow> may_interrupt t \<Longrightarrow> R a (cancel_registered_run env t c)"
  by (simp add: cancel_registered_run_def case_prod_beta split: option.split)
     (intro conjI impI allI closure_intros)

lemma cancel_aborted_request_closed [closure_intros]:
  "R a c \<Longrightarrow> R a (cancel_aborted_request env n c)"
  by (simp add: cancel_aborted_request_def case_prod_beta split: bool.split)
     (intro conjI impI allI closure_intros)

lemma run_task_closed [closure_intros]:
  "R a c \<Longrightarrow> (\<And>t. may_interrupt t) \<Longrightarrow> R a (run_task env task c)"
  by (simp add: run_task_def split: client_task.split) (intro conjI impI allI closure_intros)

lemma run_next_task_closed [closure_intros]:
  "R a c \<Longrightarrow> (\<And>t. may_interrupt t) \<Longrightarrow> R a (run_next_task env c)"
  using trans [of a c] spawned [of c]
  by (auto simp: run_next_task_def intro!: run_task_closed split: list.split)

section \<open>Leaving a thread\<close>

definition may_unsubscribe :: "string \<Rightarrow> bool" where
  "may_unsubscribe t \<longleftrightarrow> may_request ''thread/unsubscribe'' (jobj [(''threadId'', JString t)])"

lemma unsubscribe_closed [closure_intros]:
  "R a c \<Longrightarrow> may_unsubscribe t \<Longrightarrow> R a (snd (unsubscribe env t closing_ok c))"
  by (simp add: unsubscribe_def case_prod_beta may_unsubscribe_def split: sum.split)
     (intro conjI impI allI closure_intros)

lemma client_close_session_closed [closure_intros]:
  "R a c \<Longrightarrow> may_unsubscribe t \<Longrightarrow> R a (snd (client_close_session env t c))"
  by (simp add: client_close_session_def) (intro conjI impI closure_intros)

end

section \<open>Sessions and runs\<close>

text \<open>Only creating and resuming a session adds threads, only the shutdown ends the process in order.\<close>

locale client_closure = client_core env allowed R
  for env :: environment and allowed :: "json \<Rightarrow> bool" and R :: "client \<Rightarrow> client \<Rightarrow> bool" +
  assumes next_active: "R c (c\<lparr>cl_next_active := Suc (cl_next_active c)\<rparr>)"
    and insert_id: "R c (c\<lparr>cl_sessions := snd (insert_session i (cl_sessions c))\<rparr>)"
    and shutdown: "R c (c\<lparr>cl_process := snd (shutdown_process d (cl_process c))\<rparr>)"
begin

lemma new_session_closed [closure_intros]:
  assumes "R a c"
  shows "R a (snd (new_session t cwd opts c))"
proof -
  let ?c = "c\<lparr>cl_next_active := Suc (cl_next_active c)\<rparr>"
  have "R a ?c" by (rule trans [OF assms next_active])
  then have "R a (?c\<lparr>cl_runs := set_active (cl_next_active c) False (cl_runs ?c)\<rparr>)"
    by (rule run_steps)
  then show ?thesis by (simp add: new_session_def)
qed

lemma adopt_thread_closed [closure_intros]:
  assumes "R a c"
  shows "R a (snd (adopt_thread env e t cwd opts c))"
proof -
  have "R a (c\<lparr>cl_sessions := snd (insert_session t (cl_sessions c))\<rparr>)"
    using trans [OF assms insert_id] .
  then show ?thesis using assms
    by (auto simp: adopt_thread_def case_prod_beta apfst_def map_prod_def split: bool.split
        intro!: closure_intros)
qed

lemma session_close_closed [closure_intros]:
  "R a c \<Longrightarrow> may_unsubscribe (se_thread_id s) \<Longrightarrow> R a (snd (snd (session_close env s c)))"
  by (simp add: session_close_def case_prod_beta split: sum.split)
     (intro conjI impI allI closure_intros)

lemma client_audit_turn_closed [closure_intros]:
  "R a c \<Longrightarrow>
   may_request ''thread/read'' (jobj [(''threadId'', JString t), (''includeTurns'', JBool True)]) \<Longrightarrow>
   R a (snd (client_audit_turn env t u c))"
  by (simp add: client_audit_turn_def case_prod_beta split: sum.split)
     (intro conjI impI allI closure_intros)

lemma session_audit_turn_closed [closure_intros]:
  "R a c \<Longrightarrow>
   may_request ''thread/read'' (jobj [(''threadId'', JString (se_thread_id s)), (''includeTurns'', JBool True)]) \<Longrightarrow>
   R a (snd (session_audit_turn env u s c))"
  by (simp add: session_audit_turn_def) (intro conjI impI closure_intros)

lemma create_session_closed [closure_intros]:
  assumes "R a c" and start: "\<And>cwd opts. validate_options (en_print env) opts0 = Inr opts \<Longrightarrow>
    may_request ''thread/start'' (start_params cwd opts)"
  shows "R a (snd (create_session env opts0 c))"
  using assms(1)
  by (simp add: create_session_def case_prod_beta split: sum.split option.split)
     (intro conjI impI allI closure_intros start)

lemma resume_session_closed [closure_intros]:
  assumes "R a c" and resume: "\<And>cwd opts. validate_options (en_print env) opts0 = Inr opts \<Longrightarrow>
    may_request ''thread/resume'' (resume_params t cwd opts)"
  shows "R a (snd (resume_session env t opts0 c))"
  using assms(1)
  by (simp add: resume_session_def case_prod_beta split: sum.split option.split)
     (intro conjI impI allI closure_intros resume)

lemma replay_notification_closed [closure_intros]:
  "R a c \<Longrightarrow> R a (replay_notification env t n c)"
  by (simp add: replay_notification_def split: deferred_run_notification.split)
     (intro conjI impI allI closure_intros)

lemma replay_batch_closed [closure_intros]:
  "R a c \<Longrightarrow> R a (fold (replay_notification env t) ns c)"
  by (induction ns arbitrary: c) (auto intro: replay_notification_closed)

lemma replay_deferred_closed [closure_intros]:
  "R a c \<Longrightarrow> R a (replay_deferred env t u rounds ns c)"
proof (induction rounds arbitrary: ns c)
  case Nil
  then show ?case by (simp add: Let_def) (intro closure_intros)
next
  case (Cons round rounds)
  then show ?case
    by (simp add: case_prod_beta Let_def split: replay_outcome.split)
       (intro conjI impI allI closure_intros Cons.IH)
qed

lemma fail_registered_run_closed [closure_intros]:
  "R a c \<Longrightarrow> R a (fail_registered_run_before_turn env t e c)"
  by (simp add: fail_registered_run_before_turn_def case_prod_beta split: pre_start_failure_transition.split)
     (intro conjI impI allI closure_intros)

lemma commit_turn_closed [closure_intros]:
  "R a c \<Longrightarrow> R a (snd (commit_turn env t u c))"
  by (simp add: commit_turn_def case_prod_beta Let_def apsnd_def map_prod_def split: start_turn_transition.split)
     (intro conjI impI allI closure_intros)

definition may_start_turn :: "session \<Rightarrow> turn_input list \<Rightarrow> bool" where
  "may_start_turn s inputs \<longleftrightarrow> may_request ''turn/start''
     (turn_params (se_thread_id s) (se_cwd s) (se_sandbox s) (se_reasoning s) inputs (se_output_schema s))"

lemma start_turn_closed [closure_intros]:
  "R a c \<Longrightarrow> may_start_turn s inputs \<Longrightarrow> R a (snd (start_turn env s inputs c))"
  by (simp add: start_turn_def case_prod_beta may_start_turn_def split: sum.split option.split)
     (intro conjI impI allI closure_intros)

lemma register_run_closed:
  assumes "R a c"
  shows "R a (c\<lparr>cl_runs := snd (register_run t i (cf_event_capacity (cl_config c)) m (cl_runs c))\<rparr>)"
  using trans [OF assms runs [of c "OpRegister t i m"]] by (simp add: run_step_def)

lemma session_start_closed [closure_intros]:
  assumes "R a c" "may_start_turn s inputs"
  shows "R a (snd (session_start env s inputs c))"
proof -
  let ?c = "c\<lparr>cl_runs := set_active (se_active s) True (cl_runs c)\<rparr>"
  let ?r = "register_run (se_thread_id s) (se_active s) (cf_event_capacity (cl_config c))
    (se_maximum_output_bytes s) (set_active (se_active s) True (cl_runs c))"
  have "R a ?c" using assms(1) by (rule run_steps)
  from register_run_closed [OF this] have r: "R a (c\<lparr>cl_runs := snd ?r\<rparr>)" by simp
  have "R a (c\<lparr>cl_runs := set_active (se_active s) False (snd ?r)\<rparr>)"
    using run_steps(9) [OF r, of "se_active s" False] by simp
  with r show ?thesis using assms
    by (simp add: session_start_def case_prod_beta Let_def split: sum.split)
       (intro conjI impI allI closure_intros)
qed

lemma run_deadline_closed [closure_intros]:
  "R a c \<Longrightarrow> R a (run_deadline h c)"
  by (simp add: run_deadline_def case_prod_beta split: bool.split)
     (intro conjI impI allI closure_intros)

lemma next_event_closed [closure_intros]:
  "R a c \<Longrightarrow> R a (snd (snd (next_event h c)))"
  by (simp add: next_event_def case_prod_beta split: option.split)
     (intro conjI impI allI closure_intros)

lemma run_interrupt_closed [closure_intros]:
  "R a c \<Longrightarrow> may_interrupt (rh_thread_id h) \<Longrightarrow> R a (snd (run_interrupt env h c))"
  by (simp add: run_interrupt_def) (intro conjI impI closure_intros)

lemma drop_run_closed [closure_intros]:
  assumes "R a c" "may_interrupt (rh_thread_id h)"
  shows "R a (drop_run env h c)"
proof -
  have "R a (c\<lparr>cl_runs := abandon_cell (rh_run h) (cl_runs c)\<rparr>)" using assms(1) by (rule run_steps)
  from run_steps(10) [OF this, of "rh_run h"]
  have "R a (c\<lparr>cl_runs := drop_channels (rh_run h) (abandon_cell (rh_run h) (cl_runs c))\<rparr>)" by simp
  then show ?thesis using assms
    by (simp add: drop_run_def) (intro conjI impI closure_intros)
qed

end

end
