(* ===== verification/ClientMachine.thy ===== *)
theory ClientMachine
  imports ClientSteps
begin

text \<open>
  The client as a machine whose operations are the calls of its users, its router and its spawned
  tasks. The first part closes \<open>client_closure\<close> under the account and shutdown operations and under
  any call; the second interprets it: on sequences of atomic steps, on the frames that are sent, and
  on what a connection keeps.
\<close>

section \<open>Shutdown\<close>

context client_core
begin

lemma shutdown_thread_closed:
  "R a (snd fc) \<Longrightarrow> may_interrupt t \<Longrightarrow> may_unsubscribe t \<Longrightarrow> R a (snd (shutdown_thread env t fc))"
  by (simp add: shutdown_thread_def case_prod_beta split: option.split sum.split)
     (intro conjI impI allI closure_intros)

lemma shutdown_threads_closed:
  "R a (snd fc) \<Longrightarrow> (\<And>t. may_interrupt t) \<Longrightarrow> (\<And>t. may_unsubscribe t) \<Longrightarrow>
   R a (snd (fold (shutdown_thread env) ts fc))"
  by (induction ts arbitrary: fc) (simp, metis fold_simps(2) shutdown_thread_closed)

lemma shutdown_sessions_closed [closure_intros]:
  assumes "R a c" "\<And>t. may_interrupt t" "\<And>t. may_unsubscribe t"
  shows "R a (snd (shutdown_sessions env c))"
proof -
  have "R a (next_tick (c\<lparr>cl_sessions := clear_sessions (cl_sessions c)\<rparr>))"
    by (intro closure_intros assms(1))
  moreover have "R a (snd (fold (shutdown_thread env) (cl_sessions c) ([], next_tick c)))"
    by (intro shutdown_threads_closed assms(2,3)) (simp add: closure_intros assms(1))
  ultimately show ?thesis by (simp add: shutdown_sessions_def)
qed

lemma join_router_closed [closure_intros]:
  "R a c \<Longrightarrow> R a (snd (join_router env c))"
  by (simp add: join_router_def Let_def) (intro closure_intros)

end

section \<open>Account, catalogue, one-shot run and shutdown\<close>

context client_closure
begin

lemma read_account_closed [closure_intros]:
  "R a c \<Longrightarrow> may_request ''account/read'' (jobj [(''refreshToken'', JBool False)]) \<Longrightarrow>
   R a (snd (read_account env c))"
  by (simp add: read_account_def case_prod_beta split: sum.split)
     (intro conjI impI allI closure_intros)

lemma client_register_login_closed [closure_intros]:
  "R a c \<Longrightarrow> R a (snd (client_register_login env i c))"
  using login_steps(1) [of a c i]
  by (simp add: client_register_login_def case_prod_beta Let_def split: bool.split)
     (intro conjI impI allI closure_intros)

lemma client_login_closed [closure_intros]:
  "R a c \<Longrightarrow> (\<And>kind. may_request ''account/login/start'' (jobj [(''type'', JString kind)])) \<Longrightarrow>
   R a (snd (client_login env m c))"
  by (simp add: client_login_def case_prod_beta split: sum.split)
     (intro conjI impI allI closure_intros)

lemma client_wait_login_closed [closure_intros]:
  assumes "R a c"
  shows "R a (snd (client_wait_login env i c))"
proof -
  let ?w = "c\<lparr>cl_logins := snd (wait_login_id i (cl_logins c))\<rparr>"
  have "R a ?w" using assms by (rule login_steps)
  then have "R a (router_loop env (en_events env (cl_tick c)) (next_tick ?w))" by (intro closure_intros assms)
  with \<open>R a ?w\<close> show ?thesis
    by (simp add: client_wait_login_def case_prod_beta Let_def split: sum.split login_wait.split)
       (intro conjI impI allI closure_intros assms)
qed

lemma client_cancel_login_closed [closure_intros]:
  "R a c \<Longrightarrow> may_request ''account/login/cancel'' (jobj [(''loginId'', JString i)]) \<Longrightarrow>
   R a (snd (client_cancel_login env i c))"
  by (simp add: client_cancel_login_def case_prod_beta split: sum.split option.split)
     (intro conjI impI allI closure_intros)

lemma client_logout_closed [closure_intros]:
  "R a c \<Longrightarrow> may_request ''account/logout'' (jobj []) \<Longrightarrow> R a (snd (client_logout env c))"
  by (simp add: client_logout_def case_prod_beta split: sum.split)
     (intro conjI impI allI closure_intros)

lemma models_loop_closed:
  assumes "\<And>cursor. may_request ''model/list'' (model_list_params cursor)"
  shows "R a c \<Longrightarrow> R a (snd (models_loop env n cursor seen ms c))"
proof (induction n arbitrary: cursor seen ms c)
  case 0
  then show ?case by simp
next
  case (Suc n)
  have "R a (snd (client_request env ''model/list'' (model_list_params cursor) False ''model.list'' c))"
    by (intro closure_intros Suc.prems assms)
  then show ?case
    by (auto simp: case_prod_beta intro: Suc.IH split: sum.split option.split)
qed

lemma models_closed [closure_intros]:
  "R a c \<Longrightarrow> (\<And>cursor. may_request ''model/list'' (model_list_params cursor)) \<Longrightarrow>
   R a (snd (models env c))"
  unfolding models_def by (rule models_loop_closed)

text \<open>The answers of a wait: each request of the provider is denied.\<close>

definition may_deny :: "unit \<Rightarrow> bool" where
  "may_deny u \<longleftrightarrow>
     (\<forall>a v. deny_response a = Inr v \<longrightarrow> allowed (success (ar_id (event_responder a)) v))"

lemma wait_run_closed [closure_intros]:
  assumes "may_deny ()"
  shows "R a c \<Longrightarrow> R a (snd (snd (wait_run env rounds h c)))"
proof (induction rounds arbitrary: h c)
  case Nil
  then show ?case by simp
next
  case (Cons round rounds)
  have n: "R a (snd (snd (next_event h (router_loop env round c))))"
    by (intro closure_intros Cons.prems)
  have s: "R a (snd (snd (client_send env (success (ar_id (event_responder q)) v)
      (snd (snd (next_event h (router_loop env round c)))))))"
    if "deny_response q = Inr v" for q v
    by (intro closure_intros n) (use assms that in \<open>simp add: may_deny_def\<close>)
  show ?case using n s
    by (auto simp: case_prod_beta intro: Cons.IH closure_intros
        split: next_outcome.split event.split sum.split)
qed

lemma initialize_client_closed [closure_intros]:
  "R a c \<Longrightarrow> may_request ''initialize'' (initialize_params (cl_config c)) \<Longrightarrow>
   allowed (notification ''initialized'' JNull) \<Longrightarrow> R a (snd (initialize_client env c))"
  by (simp add: initialize_client_def case_prod_beta split: sum.split)
     (intro conjI impI allI closure_intros)

lemma client_shutdown_closed [closure_intros]:
  assumes "R a c" "\<And>t. may_interrupt t" "\<And>t. may_unsubscribe t"
  shows "R a (snd (client_shutdown env c))"
proof -
  let ?c = "snd (shutdown_sessions env (c\<lparr>cl_connection := snd (begin_closing (cl_connection c))\<rparr>))"
  have "R a ?c" by (intro closure_intros assms)
  then have "R a (?c\<lparr>cl_process := snd (shutdown_process (en_shutdown env (cl_tick ?c)) (cl_process ?c))\<rparr>)"
    by (rule trans [OF _ shutdown])
  then show ?thesis using assms(1)
    by (simp add: client_shutdown_def case_prod_beta Let_def split: bool.split)
       (intro conjI impI allI closure_intros assms)
qed

lemma cleanup_abandoned_session_closed [closure_intros]:
  "R a c \<Longrightarrow> may_interrupt t \<Longrightarrow> may_unsubscribe t \<Longrightarrow> R a (cleanup_abandoned_session env t c)"
  by (simp add: cleanup_abandoned_session_def cleanup_unsubscribe_def case_prod_beta
      split: option.split sum.split)
     (intro conjI impI allI closure_intros)

lemma finish_one_shot_closed [closure_intros]:
  "R a c \<Longrightarrow> may_interrupt (se_thread_id s) \<Longrightarrow> may_unsubscribe (se_thread_id s) \<Longrightarrow>
   R a (snd (finish_one_shot env s res c))"
  by (simp add: finish_one_shot_def case_prod_beta split: sum.split)
     (intro conjI impI allI closure_intros)

lemma one_shot_run_closed [closure_intros]:
  assumes "R a c"
    and start: "\<And>cwd opts'. so_sandbox opts = ReadOnly \<Longrightarrow>
      validate_options (en_print env) (ephemeral_options opts) = Inr opts' \<Longrightarrow>
      may_request ''thread/start'' (start_params cwd opts')"
    and turn: "\<And>s. so_sandbox opts = ReadOnly \<Longrightarrow> fst (create_session env (ephemeral_options opts) c) = Inr s \<Longrightarrow>
      may_start_turn s inputs"
    and other: "\<And>t. may_interrupt t" "\<And>t. may_unsubscribe t" "may_deny ()"
  shows "R a (snd (one_shot_run env inputs opts c))"
proof (cases "so_sandbox opts = ReadOnly")
  case False
  then show ?thesis using assms(1) by (simp add: one_shot_run_def)
next
  case True
  let ?c1 = "snd (create_session env (ephemeral_options opts) c)"
  have c1: "R a ?c1" by (intro closure_intros assms(1) start True)
  have "R a (snd (session_start env s inputs ?c1))"
    if "fst (create_session env (ephemeral_options opts) c) = Inr s" for s
    by (intro closure_intros c1 turn True that)
  then show ?thesis using True c1
    by (simp add: one_shot_run_def case_prod_beta apfst_def map_prod_def split: sum.split wait_outcome.split)
       (auto intro!: finish_one_shot_closed drop_run_closed wait_run_closed local_steps(2) other)
qed

text \<open>Image generation reaches the app-server only for its authentication.\<close>

lemma acquire_auth_closed:
  "R a c \<Longrightarrow> may_request ''getAuthStatus'' (auth_params True) \<Longrightarrow> R a (fst (snd (acquire_auth codecs env ii k c op)))"
  by (simp add: acquire_auth_def image_auth_def Let_def case_prod_beta split: sum.split)
     (intro conjI impI allI closure_intros)

lemma generate_image_closed [closure_intros]:
  assumes "R a c" "may_request ''getAuthStatus'' (auth_params True)"
  shows "R a (fst (snd (generate_image codecs env rq ii c)))"
proof -
  have auth: "R a (fst (snd (acquire_auth codecs env ii k c1 op)))" if "R a c1" for k c1 op
    using that assms(2) by (rule acquire_auth_closed)
  have "R a (fst (snd (generate_image_with_retry codecs env rq ii c new_image_op)))"
    by (simp add: generate_image_with_retry_def case_prod_beta split: sum.split image_endpoint_error.split)
       (intro conjI impI allI auth assms(1))
  then have "R a (fst (drop_image_guard armed t (fst (snd (generate_image_with_retry codecs env rq ii c new_image_op))) op))"
    for armed t op
    by (simp add: drop_image_guard_def case_prod_beta local_steps split: bool.split)
  then show ?thesis using assms(1) by (simp add: generate_image_def case_prod_beta Let_def)
qed

end

section \<open>Calls\<close>

datatype client_call =
    CallRoute process_event
  | CallTask
  | CallInitialize
  | CallCreate session_options
  | CallResume string session_options
  | CallAudit string session
  | CallClose session
  | CallStart session "turn_input list"
  | CallDeadline run_handle
  | CallNextEvent run_handle
  | CallInterrupt run_handle
  | CallDropRun run_handle
  | CallAccount
  | CallLogin login_method
  | CallWaitLogin string
  | CallCancelLogin string
  | CallReleaseLogin string
  | CallLogout
  | CallModels
  | CallTakeDiagnostics
  | CallOneShot "turn_input list" session_options
  | CallImage image_codecs direct_image_request image_inputs
  | CallShutdown

definition client_step :: "environment \<Rightarrow> client_call \<Rightarrow> client \<Rightarrow> client" where
  "client_step env call c =
     (case call of
        CallRoute ev \<Rightarrow> route_process_event env ev c
      | CallTask \<Rightarrow> run_next_task env c
      | CallInitialize \<Rightarrow> snd (initialize_client env c)
      | CallCreate opts \<Rightarrow> snd (create_session env opts c)
      | CallResume t opts \<Rightarrow> snd (resume_session env t opts c)
      | CallAudit u s \<Rightarrow> snd (session_audit_turn env u s c)
      | CallClose s \<Rightarrow> snd (snd (session_close env s c))
      | CallStart s inputs \<Rightarrow> snd (session_start env s inputs c)
      | CallDeadline h \<Rightarrow> run_deadline h c
      | CallNextEvent h \<Rightarrow> snd (snd (next_event h c))
      | CallInterrupt h \<Rightarrow> snd (run_interrupt env h c)
      | CallDropRun h \<Rightarrow> drop_run env h c
      | CallAccount \<Rightarrow> snd (read_account env c)
      | CallLogin m \<Rightarrow> snd (client_login env m c)
      | CallWaitLogin i \<Rightarrow> snd (client_wait_login env i c)
      | CallCancelLogin i \<Rightarrow> snd (client_cancel_login env i c)
      | CallReleaseLogin i \<Rightarrow> c\<lparr>cl_logins := release_login_id i (cl_logins c)\<rparr>
      | CallLogout \<Rightarrow> snd (client_logout env c)
      | CallModels \<Rightarrow> snd (models env c)
      | CallTakeDiagnostics \<Rightarrow> c\<lparr>cl_diagnostics := snd (take_diagnostics (cl_diagnostics c))\<rparr>
      | CallOneShot inputs opts \<Rightarrow> snd (one_shot_run env inputs opts c)
      | CallImage codecs rq ii \<Rightarrow> fst (snd (generate_image codecs env rq ii c))
      | CallShutdown \<Rightarrow> snd (client_shutdown env c))"

context client_closure
begin

lemma release_login_closed [closure_intros]:
  "R a c \<Longrightarrow> R a (c\<lparr>cl_logins := release_login_id i (cl_logins c)\<rparr>)"
  using trans [of a c] logins [of c "LgRelease i"] by (simp add: login_step_def)

lemma take_diagnostics_closed [closure_intros]:
  assumes "R a c"
  shows "R a (c\<lparr>cl_diagnostics := snd (take_diagnostics (cl_diagnostics c))\<rparr>)"
proof -
  let ?c = "c\<lparr>cl_diagnostics := diagnostic_step DrainItems (cl_diagnostics c)\<rparr>"
  have "R a (?c\<lparr>cl_diagnostics := diagnostic_step ResetBytes (cl_diagnostics ?c)\<rparr>)"
    by (rule trans [OF trans [OF assms diagnostics] diagnostics])
  then show ?thesis
    by (simp add: diagnostic_step_def take_diagnostics_def drain_diagnostics_def)
qed

lemma client_step_closed:
  assumes all: "\<And>v. allowed v" and "R a c"
  shows "R a (client_step env call c)"
proof -
  have "may_request meth params" "may_interrupt t" "may_unsubscribe t" "may_start_turn s inputs" "may_deny ()"
    for meth params t s inputs
    by (simp_all add: may_request_def may_interrupt_def may_unsubscribe_def may_start_turn_def may_deny_def all)
  note may = this all
  show ?thesis
    by (cases call; simp only: client_step_def client_call.case)
       (intro closure_intros assms(2) may | rule may)+
qed

end

end
