(* ===== verification/ClientProps.thy ===== *)
theory ClientProps
  imports ClientMachine
begin

text \<open>
  What holds of a client whatever its users, its provider and its tasks do. The closure contract is
  interpreted three times: on sequences of atomic steps of the components, which refines every history
  of a client to histories of its components; on what a connection keeps; and on the frames sent.
\<close>

section \<open>Atomic steps\<close>

inductive atomic_step :: "environment \<Rightarrow> client \<Rightarrow> client \<Rightarrow> bool" for env where
  at_tick: "atomic_step env c (c\<lparr>cl_tick := t\<rparr>)"
| at_spawned: "atomic_step env c (c\<lparr>cl_spawned := ts\<rparr>)"
| at_dropped: "atomic_step env c (c\<lparr>cl_dropped := cl_dropped c @ rs\<rparr>)"
| at_router: "atomic_step env c (c\<lparr>cl_router_running := False\<rparr>)"
| at_next_active: "atomic_step env c (c\<lparr>cl_next_active := Suc (cl_next_active c)\<rparr>)"
| at_insert: "atomic_step env c (c\<lparr>cl_sessions := snd (insert_session i (cl_sessions c))\<rparr>)"
| at_remove: "atomic_step env c (c\<lparr>cl_sessions := remove_session i (cl_sessions c)\<rparr>)"
| at_clear: "atomic_step env c (c\<lparr>cl_sessions := clear_sessions (cl_sessions c)\<rparr>)"
| at_request: "simple_request_op rop \<Longrightarrow>
    atomic_step env c (c\<lparr>cl_requests := step_requests rop (cl_requests c)\<rparr>)"
| at_complete: "atomic_step env c (c\<lparr>cl_requests := snd (complete_request ri res (cl_requests c))\<rparr>)"
| at_run: "atomic_step env c (c\<lparr>cl_runs := run_step (cf_event_capacity (cl_config c)) op (cl_runs c)\<rparr>)"
| at_login: "atomic_step env c (c\<lparr>cl_logins := login_step lop (cl_logins c)\<rparr>)"
| at_diagnostic: "atomic_step env c (c\<lparr>cl_diagnostics := diagnostic_step dop (cl_diagnostics c)\<rparr>)"
| at_send: "atomic_step env c (snd (snd (client_send env v c)))"
| at_disconnect: "atomic_step env c (disconnect env e c)"
| at_closing: "atomic_step env c (c\<lparr>cl_connection := snd (begin_closing (cl_connection c))\<rparr>)"
| at_shutdown: "atomic_step env c (c\<lparr>cl_process := snd (shutdown_process d (cl_process c))\<rparr>)"

interpretation atomic: client_closure env "\<lambda>_. True" "(atomic_step env)\<^sup>*\<^sup>*" for env
  by unfold_locales (auto intro: atomic_step.intros r_into_rtranclp)

lemma calls_are_atomic_steps: "(atomic_step env)\<^sup>*\<^sup>* c (fold (client_step env) calls c)"
  by (induction calls arbitrary: c) (auto intro: atomic.client_step_closed rtranclp_trans)

section \<open>Histories of the components\<close>

definition component_histories :: "environment \<Rightarrow> codex_config \<Rightarrow> client \<Rightarrow> bool" where
  "component_histories env cfg c \<longleftrightarrow>
     cl_config c = cfg \<and>
     (\<exists>ops. cl_runs c = fold (run_step (cf_event_capacity cfg)) ops new_world) \<and>
     (\<exists>ops. cl_logins c = fold login_step ops new_logins) \<and>
     (\<exists>ops. cl_diagnostics c = fold diagnostic_step ops new_diagnostics) \<and>
     (\<exists>ops. \<lparr>rm_registry = cl_requests c, rm_taken = []\<rparr> = fold request_step ops new_request_machine) \<and>
     (\<exists>ops. cl_connection c = fold connection_step ops new_connection) \<and>
     (\<exists>ops. cl_process c = fold (transport_step (en_print env)) ops
              (new_transport (cf_request_timeout cfg) (cf_max_frame_bytes cfg)))"

lemma history_snoc: "\<exists>ops. s = fold f ops z \<Longrightarrow> \<exists>ops. f op s = fold f ops z"
  by (metis fold_append fold_simps(1,2) o_apply)

lemma history_same: "s = t \<Longrightarrow> \<exists>ops. t = fold f ops z \<Longrightarrow> \<exists>ops. s = fold f ops z"
  by simp

lemma simple_request_step:
  "simple_request_op op \<Longrightarrow>
   \<lparr>rm_registry = step_requests op g, rm_taken = []\<rparr> = request_step op \<lparr>rm_registry = g, rm_taken = []\<rparr>"
  by (cases op) (simp_all add: simple_request_op_def step_requests_def request_step_def on_registry_def)

lemma complete_request_steps:
  "\<exists>op op'. \<lparr>rm_registry = snd (complete_request i res g), rm_taken = []\<rparr> =
     request_step op' (request_step op \<lparr>rm_registry = g, rm_taken = []\<rparr>)"
  by (rule exI [of _ "RqTake i res"], rule exI [of _ RqHandOver])
     (simp add: complete_request_def request_step_def split: prod.split option.split)

lemma fail_all_requests_step:
  "\<lparr>rm_registry = fail_all_requests e g, rm_taken = []\<rparr> =
     request_step (RqFailAll e) \<lparr>rm_registry = g, rm_taken = []\<rparr>"
  by (simp add: request_step_def on_registry_def)

lemma client_send_process:
  "\<exists>op. cl_process (snd (snd (client_send env v c))) = transport_step (en_print env) op (cl_process c)"
  by (rule exI [of _ "SendFrame (en_send env (cl_tick c)) v"])
     (simp add: client_send_def transport_step_def send_frame_def next_tick_def split: prod.split)

lemma client_send_other [simp]:
  "cl_config (snd (snd (client_send env v c))) = cl_config c"
  "cl_runs (snd (snd (client_send env v c))) = cl_runs c"
  "cl_logins (snd (snd (client_send env v c))) = cl_logins c"
  "cl_diagnostics (snd (snd (client_send env v c))) = cl_diagnostics c"
  "cl_requests (snd (snd (client_send env v c))) = cl_requests c"
  "cl_connection (snd (snd (client_send env v c))) = cl_connection c"
  "cl_sessions (snd (snd (client_send env v c))) = cl_sessions c"
  by (simp_all add: client_send_def next_tick_def split: prod.split)

lemma disconnect_cases:
  obtains (again) "disconnect env e c = c" "cn_disconnected (cl_connection c)"
  | (first) e1 where "\<not> cn_disconnected (cl_connection c)"
      "e1 = disconnect_error e (fst (force_kill (en_kill env (cl_tick c)) (cl_process c))) (en_stderr env (cl_tick c))"
      "disconnect env e c = c\<lparr>cl_tick := Suc (cl_tick c),
        cl_process := snd (force_kill (en_kill env (cl_tick c)) (cl_process c)),
        cl_connection := replace_failure e1 (snd (begin_disconnect e (cl_connection c))),
        cl_requests := fail_all_requests e1 (cl_requests c),
        cl_runs := fail_all e1 (cl_runs c),
        cl_logins := fail_active_logins e1 (cl_logins c)\<rparr>"
  by (cases "cn_disconnected (cl_connection c)")
     (simp_all add: disconnect_def begin_disconnect_def Let_def next_tick_def case_prod_beta)

lemma disconnect_connection_steps:
  "\<exists>op op'. replace_failure e1 (snd (begin_disconnect e conn)) =
     connection_step op' (connection_step op conn)"
  by (rule exI [of _ "BeginDisconnect e"], rule exI [of _ "ReplaceFailure e1"])
     (auto simp: connection_step_def begin_disconnect_def)

lemma component_histories_step:
  assumes "component_histories env cfg c" "atomic_step env c c'"
  shows "component_histories env cfg c'"
  using assms(2,1)
proof (cases rule: atomic_step.cases)
  case (at_request rop)
  then show ?thesis using assms(1) simple_request_step [OF at_request(2)]
    by (auto simp: component_histories_def intro: history_snoc)
next
  case (at_complete ri res)
  obtain op op' where "\<lparr>rm_registry = snd (complete_request ri res (cl_requests c)), rm_taken = []\<rparr> =
      request_step op' (request_step op \<lparr>rm_registry = cl_requests c, rm_taken = []\<rparr>)"
    using complete_request_steps by blast
  then show ?thesis using at_complete assms(1)
    by (auto simp: component_histories_def intro: history_snoc)
next
  case (at_send v)
  obtain op where "cl_process c' = transport_step (en_print env) op (cl_process c)"
    using client_send_process at_send by blast
  then show ?thesis using at_send assms(1)
    by (auto simp: component_histories_def intro: history_snoc)
next
  case (at_closing)
  then show ?thesis using assms(1)
    history_snoc [of "cl_connection c" connection_step new_connection BeginClosing]
    by (auto simp: component_histories_def connection_step_def)
next
  case (at_shutdown d)
  then show ?thesis using assms(1)
    history_snoc [of "cl_process c" "transport_step (en_print env)" _ "ShutdownProcess d"]
    by (auto simp: component_histories_def transport_step_def)
next
  case (at_disconnect e)
  show ?thesis
  proof (cases rule: disconnect_cases [of env e c])
    case again
    then show ?thesis using at_disconnect assms(1) by simp
  next
    case (first e1)
    obtain op op' where conn: "replace_failure e1 (snd (begin_disconnect e (cl_connection c))) =
        connection_step op' (connection_step op (cl_connection c))"
      using disconnect_connection_steps by blast
    have runs: "fail_all e1 (cl_runs c) = run_step (cf_event_capacity cfg) (OpFailAll e1) (cl_runs c)"
      and logins: "fail_active_logins e1 (cl_logins c) = login_step (LgFailActive e1) (cl_logins c)"
      and kill: "snd (force_kill (en_kill env (cl_tick c)) (cl_process c)) =
        transport_step (en_print env) (ForceKill (en_kill env (cl_tick c))) (cl_process c)"
      by (simp_all add: run_step_def login_step_def transport_step_def)
    show ?thesis using assms(1) unfolding at_disconnect(1) first(3) component_histories_def
      by (auto simp: fail_all_requests_step conn runs logins kill simp del: run_step_def
          intro: history_snoc)
  qed
qed (auto simp: component_histories_def intro: history_snoc)

lemma component_histories_new: "component_histories env cfg (new_client cfg)"
  by (auto simp: component_histories_def new_client_def new_request_machine_def intro: exI [of _ "[]"])

lemma component_histories_steps:
  "(atomic_step env)\<^sup>*\<^sup>* c c' \<Longrightarrow> component_histories env cfg c \<Longrightarrow> component_histories env cfg c'"
  by (induction rule: rtranclp_induct) (auto intro: component_histories_step)

section \<open>What a connection keeps\<close>

definition client_inv :: "client \<Rightarrow> bool" where
  "client_inv c \<longleftrightarrow>
     (cn_disconnected (cl_connection c) \<longrightarrow> tr_shutdown_started (cl_process c)) \<and>
     transport_ok (cl_process c) \<and> distinct (cl_sessions c)"

text \<open>The invariant stays, a disconnected client stays disconnected, the end of the process is final.\<close>

definition kept :: "client \<Rightarrow> client \<Rightarrow> bool" where
  "kept c c' \<longleftrightarrow>
     (client_inv c \<longrightarrow> client_inv c') \<and>
     (cn_disconnected (cl_connection c) \<longrightarrow> cn_disconnected (cl_connection c')) \<and>
     (cn_closing (cl_connection c) \<longrightarrow> cn_closing (cl_connection c')) \<and>
     (\<forall>fs. final_frames () (cl_process c) = Some fs \<longrightarrow> final_frames () (cl_process c') = Some fs)"

lemma kept_process:
  assumes "cl_connection c' = cl_connection c" "cl_sessions c' = cl_sessions c"
    and "cl_process c' = transport_step pj op (cl_process c)"
  shows "kept c c'"
  using assms transport_step_ok [of "cl_process c" pj op] transport_step_final [of "()" "cl_process c" _ pj op]
  by (auto simp: kept_def client_inv_def final_frames_def split: if_splits)

lemma kept_same:
  "cl_connection c' = cl_connection c \<Longrightarrow> cl_process c' = cl_process c \<Longrightarrow>
   (distinct (cl_sessions c) \<longrightarrow> distinct (cl_sessions c')) \<Longrightarrow> kept c c'"
  by (auto simp: kept_def client_inv_def)

lemma kept_disconnect: "kept c (disconnect env e c)"
proof (cases rule: disconnect_cases [of env e c])
  case again
  then show ?thesis by (simp add: kept_def)
next
  case (first e1)
  let ?k = "en_kill env (cl_tick c)"
  have "transport_ok (cl_process c) \<longrightarrow> transport_ok (snd (force_kill ?k (cl_process c)))"
    using transport_step_ok [of "cl_process c" "\<lambda>_. Inr []" "ForceKill ?k"] by (simp add: transport_step_def)
  then show ?thesis unfolding kept_def client_inv_def first(3)
    by (auto simp: final_frames_def force_kill_frames replace_failure_def begin_disconnect_def split: if_splits)
qed

interpretation keeps: client_closure env "\<lambda>_. True" kept for env
proof unfold_locales
  fix c v show "kept c (snd (snd (client_send env v c)))"
    using client_send_process [of env v c] by (auto intro: kept_process)
next
  fix c d show "kept c (c\<lparr>cl_process := snd (shutdown_process d (cl_process c))\<rparr>)"
    by (rule kept_process [where pj = "\<lambda>_. Inr []" and op = "ShutdownProcess d"])
       (simp_all add: transport_step_def)
next
  fix c e show "kept c (disconnect env e c)" by (rule kept_disconnect)
next
  fix c show "kept c (c\<lparr>cl_connection := snd (begin_closing (cl_connection c))\<rparr>)"
    by (auto simp: kept_def client_inv_def begin_closing_def)
qed (auto simp: kept_def client_inv_def insert_session_distinct remove_session_distinct clear_sessions_def)

lemma kept_calls: "kept c (fold (client_step env) calls c)"
proof (induction calls arbitrary: c)
  case Nil
  show ?case by (simp add: keeps.refl)
next
  case (Cons call calls)
  have "kept c (client_step env call c)" by (rule keeps.client_step_closed [OF TrueI keeps.refl])
  from keeps.trans [OF this Cons.IH] show ?case by simp
qed

lemma kept_step:
  assumes "atomic_step env c c'" shows "kept c c'"
  using assms
proof (cases rule: atomic_step.cases)
  case (at_send v)
  then show ?thesis using client_send_process [of env v c] by (auto intro: kept_process)
next
  case (at_shutdown d)
  then show ?thesis
    by (intro kept_process [where pj = "\<lambda>_. Inr []" and op = "ShutdownProcess d"]) (simp_all add: transport_step_def)
next
  case (at_disconnect e)
  then show ?thesis by (simp add: kept_disconnect)
next
  case at_closing
  then show ?thesis by (auto simp: kept_def client_inv_def begin_closing_def)
qed (auto intro: kept_same simp: insert_session_distinct remove_session_distinct clear_sessions_def)

lemma kept_steps: "(atomic_step env)\<^sup>*\<^sup>* c c' \<Longrightarrow> kept c c'"
proof (induction rule: rtranclp_induct)
  case base
  show ?case by (rule keeps.refl)
next
  case (step c' c'')
  then show ?case using keeps.trans kept_step by blast
qed

lemma client_inv_new: "client_inv (new_client cfg)"
  by (simp add: client_inv_def new_client_def new_connection_def new_transport_def new_sessions_def
      transport_ok_def)

interpretation client: machine "new_client cfg" "client_step env" client_inv for cfg env
proof unfold_locales
  fix c call assume "client_inv c"
  then show "client_inv (client_step env call c)"
    using kept_calls [of c env "[call]"] by (simp add: kept_def)
qed (rule client_inv_new)

section \<open>The frames of an operation\<close>

definition only_sends :: "(json \<Rightarrow> bool) \<Rightarrow> client \<Rightarrow> client \<Rightarrow> bool" where
  "only_sends P c c' \<longleftrightarrow>
     (\<exists>fs. tr_frames (cl_process c') = tr_frames (cl_process c) @ fs \<and> (\<forall>f \<in> set fs. P f))"

definition or_reply :: "(json \<Rightarrow> bool) \<Rightarrow> json \<Rightarrow> bool" where
  "or_reply P f \<longleftrightarrow> P f \<or> (\<exists>i code msg. f = failure i code msg)"

lemma only_sends_same: "tr_frames (cl_process c') = tr_frames (cl_process c) \<Longrightarrow> only_sends P c c'"
  by (simp add: only_sends_def)

lemma only_sends_client_send:
  assumes "P v"
  shows "only_sends P c (snd (snd (client_send env v c)))"
proof (cases rule: send_tracked_cases [of "en_print env" "en_send env (cl_tick c)" v "cl_process c"])
  case (refused e)
  then have "tr_frames (snd (snd (send_tracked (en_print env) (en_send env (cl_tick c)) v (cl_process c)))) =
      tr_frames (cl_process c)"
    by (metis snd_conv transport.ext_inject transport.surjective transport.update_convs(1))
  then show ?thesis
    by (auto simp: only_sends_def client_send_def next_tick_def split: prod.split)
next
  case sent
  then show ?thesis using assms
      await_ack_spec(1) [where i = "en_send env (cl_tick c)" and t = "cl_process c\<lparr>tr_frames := tr_frames (cl_process c) @ [v]\<rparr>"]
    by (auto simp: only_sends_def client_send_def next_tick_def case_prod_beta split: prod.split)
qed

interpretation sends: client_closure env "or_reply P" "only_sends (or_reply P)" for env P
proof unfold_locales
  fix a b c assume "only_sends (or_reply P) a b" "only_sends (or_reply P) b c"
  then show "only_sends (or_reply P) a c" by (auto simp: only_sends_def)
next
  fix v c assume "or_reply P v"
  then show "only_sends (or_reply P) c (snd (snd (client_send env v c)))" by (rule only_sends_client_send)
next
  fix ri code msg show "or_reply P (failure ri code msg)" by (auto simp: or_reply_def)
next
  fix c d show "only_sends (or_reply P) c (c\<lparr>cl_process := snd (shutdown_process d (cl_process c))\<rparr>)"
    by (rule only_sends_same) (simp add: shutdown_process_spec)
qed (rule only_sends_same; simp add: disconnect_frames)+

end
