(* ===== verification/ClientTheorems.thy ===== *)
theory ClientTheorems
  imports ClientProps RunEnds
begin

text \<open>
  The properties of a whole client: what its components promise holds of it at any moment; what a
  disconnect settles; what may still be sent.
\<close>

section \<open>A client at any moment\<close>

text \<open>A client while its calls are under way: any number of calls, the router and the spawned tasks have
  made some of their atomic steps, in any interleaving. Unlike between calls, requests may wait for their
  response, runs for their start and logins for their completion.\<close>

definition client_moment :: "environment \<Rightarrow> codex_config \<Rightarrow> client \<Rightarrow> bool" where
  "client_moment env cfg c \<longleftrightarrow> (atomic_step env)\<^sup>*\<^sup>* (new_client cfg) c"

definition client_after :: "environment \<Rightarrow> codex_config \<Rightarrow> client_call list \<Rightarrow> client" where
  "client_after env cfg calls = fold (client_step env) calls (new_client cfg)"

text \<open>Between calls is such a moment.\<close>

lemma client_after_moment: "client_moment env cfg (client_after env cfg calls)"
  unfolding client_moment_def client_after_def by (rule calls_are_atomic_steps)

lemma moment_step: "client_moment env cfg c \<Longrightarrow> atomic_step env c c' \<Longrightarrow> client_moment env cfg c'"
  unfolding client_moment_def by (rule rtranclp.rtrancl_into_rtrancl)

lemma client_after_snoc:
  "client_after env cfg (calls @ more_calls) = fold (client_step env) more_calls (client_after env cfg calls)"
  by (simp add: client_after_def)

lemma client_after_inv: "client_inv (client_after env cfg calls)"
  unfolding client_after_def by (rule client.invar_run)

text \<open>The state of every component is one that the component reaches by its own operations, so that what a
  component promises holds of it.\<close>

lemma moment_histories: "client_moment env cfg c \<Longrightarrow> component_histories env cfg c"
  unfolding client_moment_def by (rule component_histories_steps [OF _ component_histories_new])

lemma moment_inv: "client_moment env cfg c \<Longrightarrow> client_inv c"
  using kept_steps [of env "new_client cfg" c] client_inv_new by (auto simp: client_moment_def kept_def)

lemma moment_components:
  assumes "client_moment env cfg c"
  shows "world_ok (cf_event_capacity cfg) (cl_runs c)" and "logins_ok (cl_logins c)"
    and "requests_ok \<lparr>rm_registry = cl_requests c, rm_taken = []\<rparr>"
    and "diagnostics_few (cl_diagnostics c)" and "connection_ok (cl_connection c)"
  using moment_histories [OF assms] runs.invar_run logins.invar_run requests.invar_run diag_any.invar_run disc.invar_run
  by (auto simp: component_histories_def)

section \<open>The invariant\<close>

text \<open>C5: What holds of a client at any moment of its calls: a thread has at most one run and is loaded at
  most once; a run's queue and its deferred notifications stay within the event capacity and its text and
  images within the session's limit; a pending request has no answer yet; at most 32 early logins and 128
  diagnostics of together one MiB are kept; and a disconnected client knows its failure and has begun to
  end its process.\<close>

theorem client_keeps_invariant:
  assumes "client_moment env cfg c"
  shows "distinct (map fst (rw_routes (cl_runs c))) \<and> distinct (cl_sessions c) \<and>
     list_all (\<lambda>(t, r).
        length (rc_queue (rw_cells (cl_runs c) (ro_run r))) \<le> cf_event_capacity cfg \<and>
        length (phase_queue (ro_phase r)) \<le> cf_event_capacity cfg \<and>
        length (ro_text r) + sum_list (map image_size (ro_image_generations r)) \<le> ro_maximum_output_bytes r)
       (rw_routes (cl_runs c)) \<and>
     list_all (\<lambda>(i, n). i = request_id n \<and> rq_value (rg_cells (cl_requests c) n) = None)
       (rg_pending (cl_requests c)) \<and>
     length (lg_early_completed (cl_logins c)) \<le> 32 \<and>
     length (db_items (cl_diagnostics c)) \<le> 128 \<and> total_bytes (db_items (cl_diagnostics c)) \<le> 1048576 \<and>
     cn_disconnected (cl_connection c) = (cn_failure (cl_connection c) \<noteq> None) \<and>
     \<not> (cn_disconnected (cl_connection c) \<and> \<not> tr_shutdown_started (cl_process c))"
proof -
  note ok = moment_components [OF assms]
  note W = world_okD [OF ok(1)]
  note R = requests_okD [OF ok(3), simplified]
  have "length (rc_queue (rw_cells (cl_runs c) (ro_run r))) \<le> cf_event_capacity cfg \<and>
        length (phase_queue (ro_phase r)) \<le> cf_event_capacity cfg \<and>
        length (ro_text r) + sum_list (map image_size (ro_image_generations r)) \<le> ro_maximum_output_bytes r"
    if "(t, r) \<in> set (rw_routes (cl_runs c))" for t r
    using W(2) [of t r] W(1) W(5) that
    by (auto simp: entry_ok_def route_ok_def images_ok_def deferred_ok_def cell_ok_def)
  moreover have "i = request_id n \<and> rq_value (rg_cells (cl_requests c) n) = None"
    if "(i, n) \<in> set (rg_pending (cl_requests c))" for i n
    using R(2) [of i n] R(5) that by simp
  moreover have "length (lg_early_completed (cl_logins c)) \<le> 32"
    using ok(2) by (simp add: logins_ok_def early_ok_def)
  moreover note ok(4,5)
  moreover note moment_inv [OF assms]
  ultimately show ?thesis
    using W(1) total_bytes_few
    by (auto simp: list_all_iff client_inv_def connection_ok_def diagnostics_few_def)
qed

section \<open>After a disconnect\<close>

lemma fail_active_settles:
  assumes "waiters_ok s" and "(i, x) \<in> set (lg_active s)"
  shows "map_of (lg_active (fail_active_logins f s)) i = Some \<lparr>le_terminal = (if le_terminal x = None then Some (Inl f)
           else le_terminal x), le_waiters = []\<rparr>
       \<and> (\<forall>n \<in> set (le_waiters x). lg_delivered s n = None \<and> lg_delivered (fail_active_logins f s) n = Some (Inl f))"
proof -
  have entry: "map_of (lg_active s) i = Some x"
    using assms(2) waiters_okD(1) [OF assms(1)] by simp
  have "map_of (map (\<lambda>(i, entry). (i, fail_entry f entry)) (lg_active s)) i = Some (fail_entry f x)"
    using entry map_of_map [of "fail_entry f" "lg_active s"] by (simp add: fun_eq_iff)
  moreover have "lg_delivered s n = None" if "n \<in> set (le_waiters x)" for n
    using waiters_okD(3) [OF assms(1) entry that] by simp
  ultimately show ?thesis
    using assms(2) by (auto simp: fail_active_logins_def deliver_login_def fail_entry_def split: option.split)
qed


text \<open>C4: Once a client is disconnected nothing more is written to its process, whatever is called
  afterwards: no request, no answer, no interrupt and no retry.\<close>

theorem no_frame_after_disconnect:
  assumes "cn_disconnected (cl_connection (client_after env cfg calls))"
  shows "tr_frames (cl_process (client_after env cfg (calls @ more_calls))) =
         tr_frames (cl_process (client_after env cfg calls))"
proof -
  let ?c = "client_after env cfg calls"
  have "final_frames () (cl_process ?c) = Some (tr_frames (cl_process ?c))"
    using client_after_inv [of env cfg calls] assms by (simp add: client_inv_def final_frames_def)
  then have "final_frames () (cl_process (client_after env cfg (calls @ more_calls))) =
      Some (tr_frames (cl_process ?c))"
    using kept_calls [of ?c env more_calls] unfolding client_after_snoc kept_def by blast
  then show ?thesis by (simp add: final_frames_def split: if_splits)
qed

text \<open>C2: A disconnect at any moment settles everything that waits for the connection. The failure is
  recorded with the cause it was given, and with it: nothing stays pending, and every caller that waits
  for a response gets an error, of unknown outcome where a non-idempotent request was written; no run
  stays routed, every run has a result or no receiver, is marked over and frees its session; and every
  login that was not complete has ended with the failure, which all its waiters have got.\<close>

theorem disconnect_settles:
  fixes env cfg c e
  assumes "client_moment env cfg c" and "\<not> cn_disconnected (cl_connection c)"
  defines "c' \<equiv> disconnect env e c"
  shows "\<exists>f. cn_failure (cl_connection c') = Some f \<and> e_kind f = e_kind e \<and> e_operation f = e_operation e \<and>
     tr_shutdown_started (cl_process c') \<and>
     rg_pending (cl_requests c') = [] \<and>
     (\<forall>(i, n) \<in> set (rg_pending (cl_requests c)). rq_receiver_open (rg_cells (cl_requests c) n) \<longrightarrow>
        (\<exists>e'. rq_value (rg_cells (cl_requests c') n) = Some (Inl e') \<and>
           e_kind e' = (if rq_non_idempotent (rg_cells (cl_requests c) n) \<and> rq_dispatched (rg_cells (cl_requests c) n)
                        then OutcomeUnknown else Disconnected))) \<and>
     rw_routes (cl_runs c') = [] \<and>
     (\<forall>(t, r) \<in> set (rw_routes (cl_runs c)).
        cell_told (ro_run r) (cl_runs c') \<and> run_over (ro_run r) (cl_runs c') \<and>
        \<not> rw_active (cl_runs c') (ro_active r)) \<and>
     (\<forall>(i, x) \<in> set (lg_active (cl_logins c)).
        map_of (lg_active (cl_logins c')) i = Some \<lparr>le_terminal = (if le_terminal x = None then Some (Inl f)
                                                               else le_terminal x), le_waiters = []\<rparr> \<and>
        (\<forall>n \<in> set (le_waiters x). lg_delivered (cl_logins c) n = None \<and>
           lg_delivered (cl_logins c') n = Some (Inl f)))"
proof -
  obtain f where c': "c' = c\<lparr>cl_tick := Suc (cl_tick c),
      cl_process := snd (force_kill (en_kill env (cl_tick c)) (cl_process c)),
      cl_connection := replace_failure f (snd (begin_disconnect e (cl_connection c))),
      cl_requests := fail_all_requests f (cl_requests c), cl_runs := fail_all f (cl_runs c),
      cl_logins := fail_active_logins f (cl_logins c)\<rparr>"
    and f: "f = disconnect_error e (fst (force_kill (en_kill env (cl_tick c)) (cl_process c)))
               (en_stderr env (cl_tick c))"
    using assms(2) disconnect_cases [of env e c] unfolding c'_def by blast
  have kind: "e_kind f = e_kind e" "e_operation f = e_operation e"
    by (simp_all add: f disconnect_error_def split: sum.split)
  note ok = moment_components [OF assms(1)]
  note W = world_okD [OF ok(1)]
  have pend: "rq_value (rg_cells (cl_requests c') n) = Some (Inl (request_failure f (rg_cells (cl_requests c) n)))"
    if "(i, n) \<in> set (rg_pending (cl_requests c))" "rq_receiver_open (rg_cells (cl_requests c) n)" for i n
  proof -
    have "n \<in> set (map snd (rg_pending (cl_requests c)))" using that(1) by force
    then show ?thesis
      using fail_requests_member [OF pending_numbers_distinct [OF ok(3)], of n f] that(2)
      by (simp add: c' fail_all_requests_def send_response_value)
  qed
  have runs: "cell_told (ro_run r) (cl_runs c') \<and> run_over (ro_run r) (cl_runs c') \<and>
      \<not> rw_active (cl_runs c') (ro_active r)" if "(t, r) \<in> set (rw_routes (cl_runs c))" for t r
  proof -
    have "ro_run r < rw_next (cl_runs c)" using W(2) [of t r] W(1) that by (simp add: entry_ok_def)
    then show ?thesis using fail_all_settles(2-4) [OF that, of f] by (simp add: c')
  qed
  have logs: "map_of (lg_active (cl_logins c')) i = Some \<lparr>le_terminal = (if le_terminal x = None then Some (Inl f)
        else le_terminal x), le_waiters = []\<rparr> \<and>
      (\<forall>n \<in> set (le_waiters x). lg_delivered (cl_logins c) n = None \<and> lg_delivered (cl_logins c') n = Some (Inl f))"
    if "(i, x) \<in> set (lg_active (cl_logins c))" for i x
    using fail_active_settles [OF _ that, of f] ok(2) by (simp add: c' logins_ok_def)
  have "cn_failure (cl_connection c') = Some f" "tr_shutdown_started (cl_process c')"
    using assms(2) by (simp_all add: c' begin_disconnect_def replace_failure_def force_kill_frames)
  then show ?thesis using kind pend runs logs
    by (intro exI [of _ f]) (auto simp: c' fail_all_settles(1) fail_all_requests_def request_failure_def)
qed

section \<open>What a one-shot run may send\<close>

text \<open>A new thread without write access that asks for nothing and is not persisted; a turn without
  write and network access; interrupts and the end of the subscription; denials.\<close>

definition restricted_thread :: "json \<Rightarrow> bool" where
  "restricted_thread p \<longleftrightarrow>
     jget ''sandbox'' p = Some (JString ''read-only'') \<and>
     jget ''approvalPolicy'' p = Some (JString ''never'') \<and> jget ''ephemeral'' p = Some (JBool True)"

definition restricted_turn :: "json \<Rightarrow> bool" where
  "restricted_turn p \<longleftrightarrow>
     jget ''approvalPolicy'' p = Some (JString ''never'') \<and>
     jget ''sandboxPolicy'' p =
       Some (jobj [(''type'', JString ''readOnly''), (''networkAccess'', JBool False)])"

definition one_shot_frame :: "json \<Rightarrow> bool" where
  "one_shot_frame f \<longleftrightarrow>
     (\<exists>n p. f = request n ''thread/start'' p \<and> restricted_thread p) \<or>
     (\<exists>n p. f = request n ''turn/start'' p \<and> restricted_turn p) \<or>
     (\<exists>n t u. f = request n ''turn/interrupt'' (jobj [(''threadId'', JString t), (''turnId'', JString u)])) \<or>
     (\<exists>n t. f = request n ''thread/unsubscribe'' (jobj [(''threadId'', JString t)])) \<or>
     (\<exists>a v. deny_response a = Inr v \<and> f = success (ar_id (event_responder a)) v)"

lemma created_session_sandbox:
  assumes "create_session env opts c = (Inr s, c')" shows "se_sandbox s = so_sandbox opts"
  using assms
  by (auto simp: create_session_def adopt_thread_def fail_protocol_def new_session_def apfst_def map_prod_def
      split: sum.splits option.splits if_splits prod.splits bool.splits dest!: validate_options_Inr)

lemma restricted_start: "so_sandbox opts = ReadOnly \<Longrightarrow> so_ephemeral opts \<Longrightarrow> restricted_thread (start_params cwd opts)"
  by (simp add: restricted_thread_def jget_jobj start_params_def thread_params_def sandbox_mode_def approval_policy_def)

lemma restricted_turn_params: "restricted_turn (turn_params t cwd ReadOnly eff inputs schema)"
  by (simp add: restricted_turn_def jget_jobj turn_params_def sandbox_policy_def approval_policy_def
      split: option.split)

text \<open>C1: A one-shot run never gets more than read access, whatever the options ask for and the provider
  sends: every frame it writes starts an ephemeral read-only thread with approvals off, starts a
  turn without write and network access, interrupts a turn, leaves a thread, or rejects or denies a
  request of the provider.\<close>

theorem one_shot_run_is_read_only:
  "\<exists>fs. tr_frames (cl_process (snd (one_shot_run env inputs opts c))) = tr_frames (cl_process c) @ fs \<and>
        list_all (\<lambda>f. one_shot_frame f \<or> (\<exists>i code msg. f = failure i code msg)) fs"
proof -
  have "only_sends (or_reply one_shot_frame) c (snd (one_shot_run env inputs opts c))"
  proof (rule sends.one_shot_run_closed [OF sends.refl])
    fix cwd opts' assume "so_sandbox opts = ReadOnly"
      "validate_options (en_print env) (ephemeral_options opts) = Inr opts'"
    then have "restricted_thread (start_params cwd opts')"
      by (intro restricted_start) (auto dest!: validate_options_Inr simp: ephemeral_options_def)
    then show "sends.may_request one_shot_frame ''thread/start'' (start_params cwd opts')"
      by (auto simp: sends.may_request_def or_reply_def one_shot_frame_def)
  next
    fix s assume "so_sandbox opts = ReadOnly" "fst (create_session env (ephemeral_options opts) c) = Inr s"
    then have "se_sandbox s = ReadOnly"
      using created_session_sandbox [of env "ephemeral_options opts" c s]
      by (cases "create_session env (ephemeral_options opts) c") (simp add: ephemeral_options_def)
    then show "sends.may_start_turn one_shot_frame s inputs"
      using restricted_turn_params
      by (simp add: sends.may_start_turn_def sends.may_request_def or_reply_def one_shot_frame_def) blast
  next
    fix t show "sends.may_interrupt one_shot_frame t"
      by (simp add: sends.may_interrupt_def sends.may_request_def or_reply_def one_shot_frame_def
          sends.interrupt_params_def) blast
  next
    fix t show "sends.may_unsubscribe one_shot_frame t"
      by (simp add: sends.may_unsubscribe_def sends.may_request_def or_reply_def one_shot_frame_def) blast
  next
    show "sends.may_deny one_shot_frame ()"
      by (auto simp: sends.may_deny_def or_reply_def one_shot_frame_def)
  qed
  then show ?thesis by (auto simp: only_sends_def or_reply_def list_all_iff)
qed

end
