(* ===== verification/ClientFrames.thy ===== *)
theory ClientFrames
  imports ClientTheorems
begin

text \<open>
  The frames of a request: it is written at most once, and while its caller waits the client writes
  nothing but rejections of the provider's own requests. What this means for the paged model list and
  for a session that was created.
\<close>

section \<open>One request, at most one frame\<close>

definition rejections :: "client \<Rightarrow> client \<Rightarrow> bool" where
  "rejections c c' \<longleftrightarrow> only_sends (or_reply (\<lambda>_. False)) c c'"

lemma rejections_iff:
  "rejections c c' \<longleftrightarrow>
     (\<exists>fs. tr_frames (cl_process c') = tr_frames (cl_process c) @ fs \<and>
           (\<forall>f \<in> set fs. \<exists>i code msg. f = failure i code msg))"
  by (simp add: rejections_def only_sends_def or_reply_def)

lemma client_send_frames:
  "tr_frames (cl_process (snd (snd (client_send env v c)))) =
     tr_frames (cl_process c) @ (if fst (snd (client_send env v c)) then [v] else [])"
proof (cases rule: send_tracked_cases [of "en_print env" "en_send env (cl_tick c)" v "cl_process c"])
  case (refused e)
  have "fst (snd (send_tracked (en_print env) (en_send env (cl_tick c)) v (cl_process c))) = False"
    by (subst refused(1)) simp
  moreover have "tr_frames (snd (snd (send_tracked (en_print env) (en_send env (cl_tick c)) v (cl_process c)))) =
      tr_frames (cl_process c)"
    by (subst refused(1)) simp
  ultimately show ?thesis by (simp add: client_send_def next_tick_def case_prod_beta)
next
  case sent
  then show ?thesis
    using await_ack_spec(1) [where i = "en_send env (cl_tick c)" and t = "cl_process c\<lparr>tr_frames := tr_frames (cl_process c) @ [v]\<rparr>"]
    by (simp add: client_send_def next_tick_def case_prod_beta)
qed

lemma client_send_Inr: "fst (client_send env v c) = Inr () \<Longrightarrow> fst (snd (client_send env v c))"
proof (cases rule: send_tracked_cases [of "en_print env" "en_send env (cl_tick c)" v "cl_process c"])
  case (refused e)
  have "fst (client_send env v c) = Inl e"
    using refused(1) by (metis (no_types, lifting) client_send_def fst_conv split_conv)
  moreover assume "fst (client_send env v c) = Inr ()"
  ultimately show ?thesis by simp
qed (simp add: client_send_def case_prod_beta)

text \<open>What a request adds to the frames: rejections, and before them its own frame when it was written.\<close>

definition request_writes :: "string \<Rightarrow> json \<Rightarrow> bool \<Rightarrow> client \<Rightarrow> client \<Rightarrow> bool" where
  "request_writes meth params written c c' \<longleftrightarrow>
     (\<exists>own rs. tr_frames (cl_process c') = tr_frames (cl_process c) @ own @ rs \<and>
        (own = [] \<and> \<not> written \<or> (\<exists>n. own = [request n meth params])) \<and>
        (\<forall>f \<in> set rs. \<exists>i code msg. f = failure i code msg))"

lemma request_writes_nothing:
  "tr_frames (cl_process c') = tr_frames (cl_process c) \<Longrightarrow> request_writes meth params False c c'"
  by (auto simp: request_writes_def intro: exI [of _ "[]"])

lemma request_writes_own:
  assumes "tr_frames (cl_process c1) = tr_frames (cl_process c) @ (if d then [request n meth params] else [])"
    and "rejections c1 c'" and "written \<longrightarrow> d"
  shows "request_writes meth params written c c'"
proof -
  obtain rs where "tr_frames (cl_process c') = tr_frames (cl_process c1) @ rs"
    "\<forall>f \<in> set rs. \<exists>i code msg. f = failure i code msg"
    using assms(2) by (auto simp: rejections_iff)
  then show ?thesis using assms(1,3) unfolding request_writes_def
    by (intro exI [of _ "if d then [request n meth params] else []"] exI [of _ rs]) auto
qed

lemma rejections_steps:
  "rejections c (snd (send_failed env op n e d c))"
  "rejections c (snd (await_response env op n limit c))"
  "rejections c (router_loop env evs c)"
  unfolding rejections_def
  by (rule sends.send_failed_closed sends.await_response_closed sends.router_loop_closed; rule sends.refl)+

lemma on_requests_process [simp]: "cl_process (on_requests f c) = cl_process c"
  by (simp add: on_requests_def)

lemma rejections_on_requests [simp]:
  "rejections c (on_requests f c') = rejections c c'"
  "rejections (on_requests f c) c' = rejections c c'"
  by (simp_all add: rejections_iff)

lemma request_with_timeout_writes:
  "request_writes meth params
     (\<not> isl (fst (request_internal_with_timeout env meth params ni op ac limit c))) c
     (snd (request_internal_with_timeout env meth params ni op ac limit c))"
proof (cases "remaining_timeout (en_remaining env (cl_tick c)) limit op")
  case (Inl e)
  then show ?thesis
    by (simp add: request_internal_with_timeout_def Let_def request_writes_nothing next_tick_def)
next
  case d: (Inr d)
  let ?c = "next_tick c"
  show ?thesis
  proof (cases "(cn_closing (cl_connection ?c) \<and> \<not> ac) \<or> cn_disconnected (cl_connection ?c)")
    case True
    then show ?thesis using d
      by (auto simp: request_internal_with_timeout_def Let_def next_tick_def intro!: request_writes_nothing)
  next
    case free: False
    have not_closing: "(cn_closing (cl_connection ?c) \<and> \<not> ac) = False"
      and not_disconnected: "cn_disconnected (cl_connection ?c) = False" using free by blast+
    obtain reg g where reg: "register_request op ni (cl_requests ?c) = (reg, g)"
      by (cases "register_request op ni (cl_requests ?c)")
    show ?thesis
    proof (cases reg)
      case (Inl e)
      then show ?thesis using d free reg
        by (auto simp: request_internal_with_timeout_def Let_def next_tick_def intro!: request_writes_nothing)
    next
      case (Inr n)
      let ?v = "request n meth params"
      obtain r disp c1 where send: "client_send env ?v (?c\<lparr>cl_requests := g\<rparr>) = (r, disp, c1)"
        by (cases "client_send env ?v (?c\<lparr>cl_requests := g\<rparr>)") auto
      have f: "tr_frames (cl_process c1) = tr_frames (cl_process c) @ (if disp then [?v] else [])"
        using client_send_frames [of env ?v "?c\<lparr>cl_requests := g\<rparr>"] send by (simp add: next_tick_def)
      have ok: "r = Inr () \<Longrightarrow> disp"
        using client_send_Inr [of env ?v "?c\<lparr>cl_requests := g\<rparr>"] send by simp
      let ?c2 = "if disp then on_requests (mark_dispatched n) c1 else c1"
      have f2: "tr_frames (cl_process ?c2) = tr_frames (cl_process c) @ (if disp then [?v] else [])"
        using f by simp
      note own = request_writes_own [OF f2]
      have res: "request_internal_with_timeout env meth params ni op ac limit c =
          (case r of Inl e \<Rightarrow> apsnd (on_requests (drop_receiver n)) (send_failed env op n e disp ?c2)
           | Inr _ \<Rightarrow> await_response env op n d ?c2)"
        using d reg Inr send not_closing not_disconnected
        by (simp only: request_internal_with_timeout_def Let_def sum.case prod.case if_False)
      show ?thesis
      proof (cases r)
        case (Inl e)
        have "isl (fst (send_failed env op n e disp ?c2))" by (simp add: send_failed_def Let_def)
        then show ?thesis using Inl res own [OF _, of _ False]
          by (auto simp: apsnd_def map_prod_def case_prod_beta rejections_steps intro!: own)
      next
        case (Inr u)
        then show ?thesis using res ok by (auto simp: rejections_steps intro!: own)
      qed
    qed
  qed
qed

lemma client_request_writes:
  "request_writes meth params (\<not> isl (fst (client_request env meth params ni op c))) c
     (snd (client_request env meth params ni op c))"
  unfolding client_request_def request_internal_def by (rule request_with_timeout_writes)

text \<open>C3: No request is ever written twice. Whatever happens while its caller waits, a request puts its own
  frame on the wire at most once, exactly once when it returns a response, and everything else the
  client writes in that time rejects a request of the provider.\<close>

theorem request_never_retried:
  "case request_internal env meth params non_idempotent operation allow_closing c of
     (res, c') \<Rightarrow> \<exists>own rs.
        tr_frames (cl_process c') = tr_frames (cl_process c) @ own @ rs \<and>
        (if isl res then length own \<le> 1 else length own = 1) \<and>
        list_all (\<lambda>f. \<exists>n. f = request n meth params) own \<and>
        list_all (\<lambda>f. \<exists>i code msg. f = failure i code msg) rs"
proof -
  let ?r = "request_internal env meth params non_idempotent operation allow_closing c"
  obtain own rs where "tr_frames (cl_process (snd ?r)) = tr_frames (cl_process c) @ own @ rs"
    "own = [] \<and> isl (fst ?r) \<or> (\<exists>n. own = [request n meth params])"
    "\<forall>f \<in> set rs. \<exists>i code msg. f = failure i code msg"
    using request_with_timeout_writes [of meth params env non_idempotent operation allow_closing
        "cf_request_timeout (cl_config c)" c]
    unfolding request_internal_def request_writes_def by auto
  then show ?thesis unfolding case_prod_beta
    by (intro exI [of _ own] exI [of _ rs]) (auto simp: list_all_iff)
qed

section \<open>The pages of the model list\<close>

text \<open>The parameters of the requests for a page among some frames.\<close>

definition page_requests :: "json list \<Rightarrow> json option list" where
  "page_requests fs =
     map (jget ''params'') (filter (\<lambda>f. jget ''method'' f = Some (JString ''model/list'')) fs)"

lemma page_requests_simps:
  "page_requests (fs @ gs) = page_requests fs @ page_requests gs"
  "page_requests [request n ''model/list'' params] = [Some params]"
  "\<forall>f \<in> set rs. \<exists>i code msg. f = failure i code msg \<Longrightarrow> page_requests rs = []"
  by (auto simp: page_requests_def request_def failure_def filter_empty_conv Let_def)

lemma model_list_params_inj: "model_list_params q = model_list_params q' \<Longrightarrow> q = q'"
proof -
  assume "model_list_params q = model_list_params q'"
  then have "jget ''cursor'' (model_list_params q) = jget ''cursor'' (model_list_params q')" by simp
  then show ?thesis by (simp add: model_list_params_def jget_jobj jopt_def split: option.splits)
qed

lemma models_loop_pages:
  assumes "case cursor of None \<Rightarrow> True | Some u \<Rightarrow> u \<in> set seen"
  shows "\<exists>fs qs. tr_frames (cl_process (snd (models_loop env n cursor seen ms c))) = tr_frames (cl_process c) @ fs \<and>
     page_requests fs = map (\<lambda>q. Some (model_list_params q)) qs \<and> length qs \<le> n \<and> distinct qs \<and>
     (\<forall>q \<in> set qs. q = cursor \<or> (\<exists>u. q = Some u \<and> u \<notin> set seen))"
  using assms
proof (induction n arbitrary: cursor seen ms c)
  case 0
  then show ?case by (auto simp: page_requests_def)
next
  case (Suc n)
  obtain res c1 where req: "client_request env ''model/list'' (model_list_params cursor) False ''model.list'' c = (res, c1)"
    by (cases "client_request env ''model/list'' (model_list_params cursor) False ''model.list'' c")
  obtain own rs where w: "tr_frames (cl_process c1) = tr_frames (cl_process c) @ own @ rs"
    "own = [] \<or> (\<exists>n. own = [request n ''model/list'' (model_list_params cursor)])"
    "\<forall>f \<in> set rs. \<exists>i code msg. f = failure i code msg"
    using client_request_writes [of "''model/list''" "model_list_params cursor" env False "''model.list''" c] req
    by (auto simp: request_writes_def)
  define here where "here = (if own = [] then [] else [cursor])"
  have pages: "page_requests (own @ rs) = map (\<lambda>q. Some (model_list_params q)) here"
    using w(2,3) by (auto simp: here_def page_requests_simps page_requests_def [of "[]"])
  have here: "length here \<le> 1" "set here \<subseteq> {cursor}" by (auto simp: here_def)
  have "snd (models_loop env (Suc n) cursor seen ms c) = c1 \<or>
      (\<exists>u ms2. u \<notin> set seen \<and>
        models_loop env (Suc n) cursor seen ms c = models_loop env n (Some u) (u # seen) ms2 c1)"
    by (auto simp: req split: sum.split option.split prod.split)
  then consider (over) "snd (models_loop env (Suc n) cursor seen ms c) = c1"
    | (more) u ms2 where "u \<notin> set seen"
        "models_loop env (Suc n) cursor seen ms c = models_loop env n (Some u) (u # seen) ms2 c1"
    by blast
  then show ?case
  proof cases
    case over
    then show ?thesis using w(1) pages here
      by (intro exI [of _ "own @ rs"] exI [of _ here]) (auto simp: here_def)
  next
    case more
    obtain fs qs where IH: "tr_frames (cl_process (snd (models_loop env n (Some u) (u # seen) ms2 c1))) =
        tr_frames (cl_process c1) @ fs"
      "page_requests fs = map (\<lambda>q. Some (model_list_params q)) qs" "length qs \<le> n" "distinct qs"
      "\<forall>q \<in> set qs. q = Some u \<or> (\<exists>v. q = Some v \<and> v \<notin> set (u # seen))"
      using Suc.IH [where cursor = "Some u" and seen = "u # seen" and ms = ms2 and c = c1] by auto
    have new: "\<forall>q \<in> set qs. \<exists>v. q = Some v \<and> v \<notin> set seen" using IH(5) more(1) by auto
    then have "set here \<inter> set qs = {}" using here(2) Suc.prems by (auto split: option.splits)
    then have "distinct (here @ qs)" using IH(4) by (auto simp: here_def)
    moreover have "page_requests ((own @ rs) @ fs) = map (\<lambda>q. Some (model_list_params q)) (here @ qs)"
      by (simp only: page_requests_simps(1) [of "own @ rs"] pages IH(2) map_append)
    ultimately show ?thesis using more(2) w(1) IH(1,3) new here
      by (intro exI [of _ "(own @ rs) @ fs"] exI [of _ "here @ qs"]) auto
  qed
qed

text \<open>C31: Reading the model list always ends: at most a thousand pages are asked for, no page twice, whatever
  cursors the provider returns.\<close>

theorem model_pages_bounded:
  "\<exists>fs qs. tr_frames (cl_process (snd (models env c))) = tr_frames (cl_process c) @ fs \<and>
     page_requests fs = map (\<lambda>q. Some (model_list_params q)) qs \<and> distinct qs \<and> length qs \<le> 1000"
  using models_loop_pages [where cursor = None and seen = "[]" and n = 1000 and ms = "[]"]
  unfolding models_def by fastforce

section \<open>A created session\<close>

lemma apfst_Inr_eq: "apfst Inr p = (Inr x, y) \<longleftrightarrow> p = (x, y)"
  by (cases p) simp

text \<open>A session that was created is one the provider was asked for and nobody else has: its thread
  was not loaded before and is now, the thread was requested with exactly the sandbox, approvals and
  directory of the session, its limits are within the bounds, and it starts open and idle.\<close>

theorem created_session_owned:
  assumes "create_session env opts c = (Inr s, c')"
  shows "se_thread_id s \<noteq> [] \<and> se_thread_id s \<in> set (cl_sessions c') \<and>
     (\<exists>ids. se_thread_id s \<notin> set ids \<and> cl_sessions c' = ids @ [se_thread_id s]) \<and>
     (\<exists>n. request n ''thread/start'' (start_params (se_cwd s) opts) \<in> set (tr_frames (cl_process c'))) \<and>
     utf8_valid (se_cwd s) \<and> se_sandbox s = so_sandbox opts \<and> se_ephemeral s = so_ephemeral opts \<and>
     0 < se_turn_timeout s \<and> 1 \<le> se_maximum_output_bytes s \<and> se_maximum_output_bytes s \<le> MAXIMUM_OUTPUT_BYTES \<and>
     \<not> se_closed s \<and> \<not> session_active s c'"
proof -
  have v: "validate_options (en_print env) opts = Inr opts"
    using assms by (auto simp: create_session_def dest: validate_options_Inr split: sum.splits)
  obtain cwd where cwd: "canonical_project env (so_cwd opts) = Inr cwd"
    using assms v by (auto simp: create_session_def split: sum.splits if_splits)
  obtain res c1 where req: "client_request env ''thread/start'' (start_params cwd opts) True ''thread.start'' c = (res, c1)"
    by (cases "client_request env ''thread/start'' (start_params cwd opts) True ''thread.start'' c")
  obtain resp t where t: "res = Inr resp" "response_thread_id resp = Some t" "t \<notin> set (cl_sessions c1)"
    and new: "new_session t cwd opts (c1\<lparr>cl_sessions := cl_sessions c1 @ [t]\<rparr>) = (s, c')"
    using assms v cwd req
    by (auto simp: create_session_def adopt_thread_def insert_session_def fail_protocol_def apfst_Inr_eq
        split: sum.splits if_splits option.splits)
  have s: "se_thread_id s = t" "se_cwd s = cwd" "se_sandbox s = so_sandbox opts" "se_ephemeral s = so_ephemeral opts"
    "se_turn_timeout s = so_turn_timeout opts" "se_maximum_output_bytes s = so_maximum_output_bytes opts"
    "\<not> se_closed s" "\<not> session_active s c'" "cl_sessions c' = cl_sessions c1 @ [t]" "cl_process c' = cl_process c1"
    using new by (auto simp: new_session_def session_active_def set_active_def)
  have "\<exists>n. request n ''thread/start'' (start_params cwd opts) \<in> set (tr_frames (cl_process c1))"
    using client_request_writes [of "''thread/start''" "start_params cwd opts" env True "''thread.start''" c] req t(1)
    by (auto simp: request_writes_def)
  moreover have "t \<noteq> []" using t(2) by (auto simp: response_thread_id_def nonempty_Some_iff)
  moreover have "utf8_valid cwd"
    using cwd by (auto simp: canonical_project_def split: sum.splits if_splits)
  ultimately show ?thesis using s t(3) validate_options_Inr [OF v] by auto
qed

end
