(* ===== verification/ClientOutcomes.thy ===== *)
theory ClientOutcomes
  imports ClientFrames
begin

text \<open>
  What single operations of a client lead to: a request of the provider is owned by someone, a clean
  shutdown leaves nothing behind, and two behaviours that differ from what the code means to do.
\<close>

section \<open>Requests of the provider\<close>

lemma fail_route_outcome: "fst (fail_route observed e r) \<notin> {ReDelivered, ReDeferred}"
  by (auto simp: fail_route_def record_failure_def split: option.splits if_splits)

lemma record_failure_outcome: "fst (record_failure u e r) \<notin> {ReDelivered, ReDeferred}"
  by (auto simp: record_failure_def split: if_splits)

lemma after_start_not_deferred:
  "fst (route_event_after_start observed ev cap r c) \<noteq> ReDeferred"
  using fail_route_outcome
  by (auto simp: route_event_after_start_def case_prod_beta split: option.split sum.split try_send_error.split)

text \<open>A delivered event is in the run's queue, a deferred one in its phase.\<close>

lemma route_event_placed:
  assumes "route_event observed m ev d cap r c = (out, r1, c1)"
  shows "out = ReDelivered \<Longrightarrow> ev \<in> set (rc_queue c1)"
    and "out = ReDeferred \<Longrightarrow> \<exists>u. DeferredEvent u m ev \<in> set (phase_queue (ro_phase r1))"
proof -
  have after: "ev \<in> set (rc_queue c1)" if "route_event_after_start observed ev cap r c = (ReDelivered, r1, c1)"
    using delivered_accepts [OF that] by (auto simp: try_send_def split: if_splits)
  show "out = ReDelivered \<Longrightarrow> ev \<in> set (rc_queue c1)"
    using assms after record_failure_outcome
    by (auto simp: route_event_def case_prod_beta Let_def split: if_splits option.splits sum.splits)
  show "out = ReDeferred \<Longrightarrow> \<exists>u. DeferredEvent u m ev \<in> set (phase_queue (ro_phase r1))"
    using assms after_start_not_deferred [of observed ev cap r c] record_failure_outcome
    by (auto simp: route_event_def case_prod_beta Let_def reserve_frame(1) phase_queue_set
        split: if_splits option.splits sum.splits)
qed

definition request_kept :: "approval_event \<Rightarrow> string \<Rightarrow> client \<Rightarrow> bool" where
  "request_kept a meth c \<longleftrightarrow>
     (\<exists>t r. route_of (cl_runs c) t = Some r \<and>
        (ApprovalRequested a \<in> set (rc_queue (rw_cells (cl_runs c) (ro_run r))) \<or>
         (\<exists>u. DeferredEvent u meth (ApprovalRequested a) \<in> set (phase_queue (ro_phase r)))))"

lemma client_simps [simp]:
  "cl_dropped (push_client_diagnostic m msg c) = cl_dropped c"
  "cl_process (push_client_diagnostic m msg c) = cl_process c"
  "cl_connection (push_client_diagnostic m msg c) = cl_connection c"
  "cl_dropped (spawn_task k c) = cl_dropped c"
  "cl_process (spawn_task k c) = cl_process c"
  "cl_connection (spawn_task k c) = cl_connection c"
  "cl_dropped (drop_event ev c) = cl_dropped c @ dropped_responder ev"
  "cl_process (drop_event ev c) = cl_process c"
  by (simp_all add: push_client_diagnostic_def spawn_task_def drop_event_def)

lemma send_run_event_keeps_or_drops:
  "cl_process (send_run_event t u meth (ApprovalRequested a) c) = cl_process c \<and>
   (request_kept a meth (send_run_event t u meth (ApprovalRequested a) c) \<or>
    cl_dropped (send_run_event t u meth (ApprovalRequested a) c) = cl_dropped c @ [event_responder a])"
proof -
  let ?ev = "ApprovalRequested a"
  obtain out w where e: "registry_route_event t u meth ?ev True (cf_event_capacity (cl_config c)) (cl_runs c) = (out, w)"
    by (cases "registry_route_event t u meth ?ev True (cf_event_capacity (cl_config c)) (cl_runs c)")
  have kept: "request_kept a meth (c\<lparr>cl_runs := w\<rparr>)" if "out = ReDelivered \<or> out = ReDeferred"
  proof (cases "route_of (cl_runs c) t")
    case None
    then show ?thesis using e that by (auto simp: registry_route_event_def)
  next
    case (Some r)
    let ?c = "rw_cells (cl_runs c) (ro_run r)"
    obtain r1 c1 where ev: "route_event u meth ?ev True (cf_event_capacity (cl_config c)) r ?c = (out, r1, c1)"
      and w: "w = put_route t r1 (update_cell (ro_run r) (\<lambda>_. c1) (cl_runs c))"
      using e Some by (auto simp: registry_route_event_def split: prod.splits)
    have "ro_run r1 = ro_run r"
      using route_event_frame [of r ?c u meth ?ev True "cf_event_capacity (cl_config c)"] ev
      by (simp add: event_frame_def)
    then have "route_of w t = Some r1" "rw_cells w (ro_run r1) = c1" by (simp_all add: w)
    then show ?thesis using that route_event_placed [OF ev] by (auto simp: request_kept_def)
  qed
  have drop: "dropped_responder ?ev = [event_responder a]" by (simp add: dropped_responder_def)
  show ?thesis
    using kept by (cases out) (simp_all add: send_run_event_def route_run_event_def e Let_def drop)
qed

lemma send_reverse_response_cases:
  assumes "send_reverse_response env v op c = (ok, c1)"
  shows "if ok then tr_frames (cl_process c1) = tr_frames (cl_process c) @ [v]
         else cn_disconnected (cl_connection c1)"
  using assms client_send_Inr [of env v c] client_send_frames [of env v c] disconnect_disconnects
  by (auto simp: send_reverse_response_def case_prod_beta split: sum.splits)

lemma decoded_request_id:
  "parse_command_approval i params = Inr ca \<Longrightarrow> ar_id (ca_responder ca) = i"
  "parse_file_approval i params = Inr fa \<Longrightarrow> ar_id (fa_responder fa) = i"
  "parse_permission_approval i params = Inr pa \<Longrightarrow> ar_id (pa_responder pa) = i"
  "parse_user_input_request i params = Inr ui \<Longrightarrow> ar_id (ui_responder ui) = i"
  by (auto simp: parse_command_approval_def parse_file_approval_def parse_permission_approval_def
      parse_user_input_request_def result_simps split: if_splits)

lemma decode_server_request_id:
  "decode_server_request i meth params = Some (Inr a) \<Longrightarrow> ar_id (event_responder a) = i"
  by (auto simp: decode_server_request_def event_responder_def result_simps decoded_request_id split: if_splits)

text \<open>C8: A request of the provider never goes unanswered by accident. A method the client does not know
  and a request it cannot decode are rejected with a failure frame of the request's own id; every other
  request is in the queue of a run or deferred with it, where the caller will see it, or its responder
  was dropped at once, which makes its task send the fail-closed answer. Otherwise the connection is
  gone.\<close>

theorem provider_request_owned:
  fixes env i meth params c
  defines "c' \<equiv> route_process_event env (Message (Request i meth params)) c"
  assumes "cl_router_running c"
  shows "case decode_server_request i meth params of
           Some (Inr a) \<Rightarrow> ar_id (event_responder a) = i \<and> cl_process c' = cl_process c \<and>
             (request_kept a meth c' \<or> cl_dropped c' = cl_dropped c @ [event_responder a])
         | rejected \<Rightarrow> cn_disconnected (cl_connection c') \<or>
             (\<exists>code msg. tr_frames (cl_process c') = tr_frames (cl_process c) @ [failure i code msg])"
proof -
  have c': "c' = handle_server_request env i meth params c"
    using assms(2) by (simp add: c'_def route_process_event_def)
  have rejected: "cn_disconnected (cl_connection c') \<or>
      tr_frames (cl_process c') = tr_frames (cl_process c) @ [failure i code msg]"
    if "c' = (case send_reverse_response env (failure i code msg) op c of
          (False, c1) \<Rightarrow> c1 | (True, c1) \<Rightarrow> push_client_diagnostic m note_text c1)" for code msg op m note_text
  proof -
    obtain ok c1 where "send_reverse_response env (failure i code msg) op c = (ok, c1)"
      by (cases "send_reverse_response env (failure i code msg) op c")
    then show ?thesis using that send_reverse_response_cases [of env "failure i code msg" op c ok c1]
      by (cases ok) simp_all
  qed
  show ?thesis
  proof (cases "decode_server_request i meth params")
    case None
    then show ?thesis using rejected by (fastforce simp: c' handle_server_request_def)
  next
    case (Some res)
    show ?thesis
    proof (cases res)
      case (Inl e)
      then show ?thesis using rejected Some by (fastforce simp: c' handle_server_request_def)
    next
      case (Inr a)
      have "dropped_responder (ApprovalRequested a) = [event_responder a]"
        by (simp add: dropped_responder_def)
      then show ?thesis
        using Some Inr decode_server_request_id [of i meth params a]
          send_run_event_keeps_or_drops [of _ _ meth a c]
        by (auto simp: c' handle_server_request_def split: option.split)
    qed
  qed
qed

section \<open>Shutdown\<close>

text \<open>What goes stays away: threads that are not loaded, the child, the guardian's files, and the flags.\<close>

definition only_leaves :: "client \<Rightarrow> client \<Rightarrow> bool" where
  "only_leaves c c' \<longleftrightarrow>
     set (cl_sessions c') \<subseteq> set (cl_sessions c) \<and>
     (tr_child (cl_process c') \<longrightarrow> tr_child (cl_process c)) \<and>
     (tr_helper (cl_process c') \<longrightarrow> tr_helper (cl_process c)) \<and>
     tr_cleanup_finished (cl_process c') = tr_cleanup_finished (cl_process c) \<and>
     (cn_closing (cl_connection c) \<longrightarrow> cn_closing (cl_connection c'))"

lemma only_leaves_sessions: "only_leaves c c' \<Longrightarrow> set (cl_sessions c') \<subseteq> set (cl_sessions c)"
  unfolding only_leaves_def by blast

lemma next_tick_simps [simp]:
  "cl_sessions (next_tick c) = cl_sessions c"
  "cl_process (next_tick c) = cl_process c"
  "cl_connection (next_tick c) = cl_connection c"
  by (simp_all add: next_tick_def)

lemma force_kill_leaves:
  "tr_child (snd (force_kill k t)) \<Longrightarrow> tr_child t"
  "tr_helper (snd (force_kill k t)) \<Longrightarrow> tr_helper t"
  by (auto simp: force_kill_def Let_def split: option.splits child_wait.splits if_splits)

lemma await_ack_leaves:
  "tr_child (snd (await_ack i t)) \<Longrightarrow> tr_child t"
  "tr_helper (snd (await_ack i t)) \<Longrightarrow> tr_helper t"
  by (auto simp: await_ack_def outcome_unknown_after_dispatch_def apfst_def map_prod_def case_prod_beta
      dest: force_kill_leaves split: option.splits write_ack.splits sum.splits prod.splits)

lemma client_send_leaves:
  "tr_child (cl_process (snd (snd (client_send env v c)))) \<Longrightarrow> tr_child (cl_process c)"
  "tr_helper (cl_process (snd (snd (client_send env v c)))) \<Longrightarrow> tr_helper (cl_process c)"
proof -
  let ?i = "en_send env (cl_tick c)"
  have "(tr_child (snd (snd (send_tracked (en_print env) ?i v (cl_process c)))) \<longrightarrow> tr_child (cl_process c)) \<and>
        (tr_helper (snd (snd (send_tracked (en_print env) ?i v (cl_process c)))) \<longrightarrow> tr_helper (cl_process c))"
  proof (cases rule: send_tracked_cases [of "en_print env" ?i v "cl_process c"])
    case (refused e)
    then show ?thesis
      by (metis snd_conv transport.select_convs(3,4) transport.surjective transport.update_convs(1))
  next
    case sent
    then show ?thesis
      using await_ack_leaves [where i = ?i and t = "cl_process c\<lparr>tr_frames := tr_frames (cl_process c) @ [v]\<rparr>"]
      by (auto split: prod.split)
  qed
  then show "tr_child (cl_process (snd (snd (client_send env v c)))) \<Longrightarrow> tr_child (cl_process c)"
    "tr_helper (cl_process (snd (snd (client_send env v c)))) \<Longrightarrow> tr_helper (cl_process c)"
    by (simp_all add: client_send_def next_tick_def case_prod_beta)
qed

lemma client_send_cleanup:
  "tr_cleanup_finished (cl_process (snd (snd (client_send env v c)))) = tr_cleanup_finished (cl_process c)"
proof (cases rule: send_tracked_cases [of "en_print env" "en_send env (cl_tick c)" v "cl_process c"])
  case (refused e)
  then show ?thesis
    by (simp add: client_send_def next_tick_def case_prod_beta)
      (metis snd_conv transport.select_convs(2) transport.surjective transport.update_convs(1))
next
  case sent
  then show ?thesis
    using await_ack_spec(2) [where i = "en_send env (cl_tick c)" and t = "cl_process c\<lparr>tr_frames := tr_frames (cl_process c) @ [v]\<rparr>"]
    by (simp add: client_send_def next_tick_def case_prod_beta)
qed

interpretation leaves: client_core env "\<lambda>_. True" only_leaves for env
proof unfold_locales
  fix c v show "only_leaves c (snd (snd (client_send env v c)))"
    using client_send_leaves [of env v c] client_send_cleanup [of env v c]
    by (auto simp: only_leaves_def)
next
  fix c e show "only_leaves c (disconnect env e c)"
  proof (cases rule: disconnect_cases [of env e c])
    case (first e1)
    then show ?thesis
      using force_kill_leaves [of "en_kill env (cl_tick c)" "cl_process c"]
      by (auto simp: only_leaves_def replace_failure_def begin_disconnect_def force_kill_frames)
  qed (simp add: only_leaves_def)
qed (auto simp: only_leaves_def remove_session_def clear_sessions_def begin_closing_def)

lemmas leaves_may = leaves.may_interrupt_def leaves.may_unsubscribe_def leaves.may_request_def

lemma unsubscribe_leaves:
  "only_leaves c (snd (unsubscribe env t closing_ok c))"
  by (rule leaves.unsubscribe_closed [OF leaves.refl]) (simp add: leaves_may)

lemma unsubscribe_removes:
  "fst (unsubscribe env t closing_ok c) = Inr () \<Longrightarrow> t \<notin> set (cl_sessions (snd (unsubscribe env t closing_ok c)))"
  by (auto simp: unsubscribe_def remove_session_def case_prod_beta split: sum.splits)

lemma shutdown_thread_removes:
  assumes "fst (shutdown_thread env t fc) = []"
  shows "fst fc = [] \<and> t \<notin> set (cl_sessions (snd (shutdown_thread env t fc)))"
  using assms unsubscribe_removes
  by (force simp: shutdown_thread_def case_prod_beta split: option.splits sum.splits)

lemma shutdown_threads_remove:
  assumes "fst (fold (shutdown_thread env) ts fc) = []"
  shows "fst fc = [] \<and> set ts \<inter> set (cl_sessions (snd (fold (shutdown_thread env) ts fc))) = {}"
  using assms
proof (induction ts arbitrary: fc)
  case Nil
  then show ?case by simp
next
  case (Cons t ts)
  let ?fc = "shutdown_thread env t fc"
  from Cons.prems have "fst (fold (shutdown_thread env) ts ?fc) = []" by (simp only: fold_simps)
  from Cons.IH [OF this]
  have IH: "fst ?fc = []" "set ts \<inter> set (cl_sessions (snd (fold (shutdown_thread env) ts ?fc))) = {}"
    by blast+
  have "only_leaves (snd ?fc) (snd (fold (shutdown_thread env) ts ?fc))"
    by (rule leaves.shutdown_threads_closed [OF leaves.refl]) (simp_all add: leaves_may)
  then have "set (cl_sessions (snd (fold (shutdown_thread env) ts ?fc))) \<subseteq> set (cl_sessions (snd ?fc))"
    unfolding only_leaves_def by blast
  with IH(2) shutdown_thread_removes [OF IH(1)] show ?case
    unfolding fold_simps set_simps by blast
qed

lemma disjoint_part_empty: "A \<subseteq> B \<Longrightarrow> B \<inter> A = {} \<Longrightarrow> A = {}"
  by blast

lemma shutdown_sessions_clears:
  assumes "fst (shutdown_sessions env c) = []"
  shows "cl_sessions (snd (shutdown_sessions env c)) = []"
proof (cases "cn_disconnected (cl_connection c) \<or> operation_deadline_expired (en_remaining env (cl_tick c))")
  case True
  then show ?thesis by (simp add: shutdown_sessions_def next_tick_def clear_sessions_def)
next
  case False
  let ?r = "fold (shutdown_thread env) (cl_sessions c) ([], next_tick c)"
  have e: "shutdown_sessions env c = ?r" using False by (simp add: shutdown_sessions_def)
  have "only_leaves (next_tick c) (snd ?r)"
    using leaves.shutdown_threads_closed [of "next_tick c" "([], next_tick c)" env "cl_sessions c"]
    by (simp add: leaves_may leaves.refl)
  from only_leaves_sessions [OF this] have "set (cl_sessions (snd ?r)) \<subseteq> set (cl_sessions c)"
    unfolding next_tick_simps .
  then have "set (cl_sessions (snd ?r)) = {}"
    using conjunct2 [OF shutdown_threads_remove [OF assms [unfolded e]]] by (rule disjoint_part_empty)
  then show ?thesis unfolding e by (simp only: set_empty)
qed

text \<open>C9: A shutdown that reports success left nothing behind: no thread is loaded any more, the child is
  reaped, the guardian's files are removed, the client accepts no further request and its router has
  ended; and shutting down again does nothing.\<close>

theorem clean_client_shutdown:
  assumes "\<not> cn_closing (cl_connection c)" "\<not> tr_cleanup_finished (cl_process c)"
    and "client_shutdown env c = (Inr (), c')"
  shows "cl_sessions c' = [] \<and> \<not> tr_child (cl_process c') \<and> \<not> tr_helper (cl_process c') \<and>
         cn_closing (cl_connection c') \<and> \<not> cl_router_running c' \<and>
         client_shutdown env' c' = (Inr (), c')"
proof -
  let ?c0 = "c\<lparr>cl_connection := snd (begin_closing (cl_connection c))\<rparr>"
  obtain f1 c1 where s: "shutdown_sessions env ?c0 = (f1, c1)" by (cases "shutdown_sessions env ?c0")
  obtain r2 process where p: "shutdown_process (en_shutdown env (cl_tick c1)) (cl_process c1) = (r2, process)"
    by (cases "shutdown_process (en_shutdown env (cl_tick c1)) (cl_process c1)")
  let ?c2 = "next_tick (c1\<lparr>cl_process := process\<rparr>)"
  obtain f3 c3 where j: "join_router env ?c2 = (f3, c3)" by (cases "join_router env ?c2")
  have none: "f1 = []" "r2 = Inr ()" "f3 = []" and c': "c' = c3"
    using assms(1,3) s p j
    by (auto simp: client_shutdown_def begin_closing_def Let_def split: if_splits sum.splits)
  have before: "only_leaves ?c0 c1"
    using leaves.shutdown_sessions_closed [OF leaves.refl [of ?c0], of env] s by (simp add: leaves_may)
  have after: "only_leaves ?c2 c3" using leaves.join_router_closed [OF leaves.refl [of ?c2], of env] j by simp
  have "\<not> tr_cleanup_finished (cl_process c1)" using before assms(2) by (simp add: only_leaves_def)
  then have process: "\<not> tr_child process" "\<not> tr_helper process"
    using clean_shutdown_reaped [of "cl_process c1"] p none by blast+
  have "cl_sessions c1 = []" using shutdown_sessions_clears [of env ?c0] s none by simp
  moreover have "cn_closing (cl_connection c3)"
    using before after by (simp add: only_leaves_def begin_closing_def)
  moreover have "\<not> cl_router_running c3" using j by (auto simp: join_router_def Let_def)
  ultimately show ?thesis using after process
    by (auto simp: c' only_leaves_def client_shutdown_def begin_closing_def)
qed

section \<open>Two behaviours the code does not mean\<close>

text \<open>The client when the turn of a session has been registered and is about to be requested.\<close>

definition turn_registered :: "session \<Rightarrow> client \<Rightarrow> client" where
  "turn_registered s c =
     c\<lparr>cl_runs := snd (register_run (se_thread_id s) (se_active s) (cf_event_capacity (cl_config c))
                      (se_maximum_output_bytes s) (set_active (se_active s) True (cl_runs c)))\<rparr>"

text \<open>C32: When the provider refuses a turn, the session cannot be closed next: the failed start leaves its
  ended run routed until a spawned task removes it, and until that task has run closing the session is
  refused because of an active run, although the session is not active. A one-shot run closes its
  session right after the failed start and so reports a cleanup failure.\<close>

theorem failed_start_blocks_close:
  assumes "inputs \<noteq> []" "validate_inputs (en_stat env) (en_open_file env) inputs = Inr ()"
    and "\<not> se_closed s" "\<not> session_active s c" "\<not> contains (se_thread_id s) (cl_runs c)"
    and request: "client_request env ''turn/start''
         (turn_params (se_thread_id s) (se_cwd s) (se_sandbox s) (se_reasoning s) inputs (se_output_schema s))
         True ''turn.start'' (turn_registered s c) = (Inl e, c2)"
    and live: "route_of (cl_runs c2) (se_thread_id s) = Some r" "ro_phase r = Starting ds" "ro_active r = se_active s"
  shows "\<exists>c3. session_start env s inputs c = (Inl e, c3) \<and>
     session_close env s c3 =
       (Inl (new_error InvalidInput ''thread.unsubscribe'' ''cannot unsubscribe a thread with an active run''), s, c3) \<and>
     \<not> session_active s c3 \<and> cl_spawned c3 = cl_spawned c2 @ [CancelRegisteredRun (se_thread_id s)] \<and>
     \<not> contains (se_thread_id s) (cl_runs (run_task env (CancelRegisteredRun (se_thread_id s)) c3))"
proof -
  let ?t = "se_thread_id s"
  let ?w = "snd (fail_before_start ?t e (cl_runs c2))"
  let ?c3 = "spawn_task (CancelRegisteredRun ?t) (c2\<lparr>cl_runs := drop_channels (rw_next (cl_runs c)) ?w\<rparr>)"
  have run: "fst (register_run ?t (se_active s) (cf_event_capacity (cl_config c)) (se_maximum_output_bytes s)
      (set_active (se_active s) True (cl_runs c))) = Inr (rw_next (cl_runs c))"
    using assms(5) by (simp add: register_run_def Let_def contains_def set_active_def)
  have fail: "fst (fail_before_start ?t e (cl_runs c2)) = PreApplied"
    "route_of ?w ?t = Some (r\<lparr>ro_phase := TerminalBeforeStart None\<rparr>)" "\<not> rw_active ?w (se_active s)"
    using live by (simp_all add: fail_before_start_def end_run_def)
  have start: "session_start env s inputs c = (Inl e, ?c3)"
    using assms(1-4) run request fail(1)
    by (simp add: session_start_def Let_def turn_registered_def start_turn_def
        fail_registered_run_before_turn_def case_prod_beta split: sum.split prod.split)
  have routes: "route_of (cl_runs ?c3) ?t = Some (r\<lparr>ro_phase := TerminalBeforeStart None\<rparr>)"
    and idle: "\<not> session_active s ?c3"
    using fail(2,3) by (simp_all add: spawn_task_def drop_channels_def session_active_def)
  have close: "session_close env s ?c3 =
      (Inl (new_error InvalidInput ''thread.unsubscribe'' ''cannot unsubscribe a thread with an active run''), s, ?c3)"
    using idle routes assms(3) by (simp add: session_close_def client_close_session_def contains_def)
  have "\<not> contains ?t (cl_runs (run_task env (CancelRegisteredRun ?t) ?c3))"
    using routes by (simp add: run_task_def cancel_registered_run_def cancel_registered_def contains_def)
  then show ?thesis using start close idle by (intro exI [of _ ?c3]) (simp add: spawn_task_def)
qed

text \<open>C33: A request that must not be repeated can be lost silently: when the operation's deadline passes
  between the moment its frame is given to the writer and the wait for the write, the caller gets a plain
  timeout, the request is forgotten, and neither this nor the task that settles the cancellation ends the
  connection, although the frame was sent.\<close>

theorem dispatched_request_lost:
  assumes "\<not> cn_closing (cl_connection c)" "\<not> cn_disconnected (cl_connection c)"
    and "\<not> tr_shutdown_started (cl_process c)"
    and "en_remaining env (cl_tick c) = Some before" "0 < before"
    and "register_request operation True (cl_requests c) = (Inr n, g)"
    and "encode (en_print env) (request n meth params) (tr_max_frame_bytes (cl_process c)) = Inr frame"
    and "si_remaining (en_send env (Suc (cl_tick c))) = Some d" "0 < d"
    and "si_reservation (en_send env (Suc (cl_tick c))) = Reserved"
    and "\<not> si_shutdown_meanwhile (en_send env (Suc (cl_tick c)))"
    and "si_remaining_after (en_send env (Suc (cl_tick c))) = Some 0"
  shows "case request_internal_with_timeout env meth params True operation closing_ok limit c of
      (res, c') \<Rightarrow>
        (\<exists>e. res = Inl e \<and> e_kind e = Timeout) \<and>
        tr_frames (cl_process c') = tr_frames (cl_process c) @ [request n meth params] \<and>
        cl_spawned c' = cl_spawned c @ [CancelAborted n] \<and>
        map_of (rg_pending (cl_requests c')) (request_id n) = None \<and>
        \<not> cn_disconnected (cl_connection c') \<and>
        \<not> cn_disconnected (cl_connection (run_task env (CancelAborted n) c'))"
proof -
  let ?i = "en_send env (Suc (cl_tick c))" and ?v = "request n meth params"
  have sent: "send_tracked (en_print env) ?i ?v (cl_process c) =
      (Inl (timeout_error ''process.send'' (tr_send_timeout (cl_process c))), True,
       (cl_process c)\<lparr>tr_frames := tr_frames (cl_process c) @ [?v]\<rparr>)"
    using assms(3,7-12) by (simp add: send_tracked_def await_ack_def remaining_send_timeout_def)
  have fresh: "rg_cells g n = fresh_request operation True"
    using assms(6) by (auto simp: register_request_def Let_def split: if_splits)
  show ?thesis
    using assms(1,2,4,5,6) fresh
    by (simp add: request_internal_with_timeout_def remaining_timeout_def client_send_def next_tick_def sent
        send_failed_def drop_pending_guard_def spawn_task_def on_requests_def Let_def timeout_error_def
        run_task_def cancel_aborted_request_def cancel_request_def outcome_may_be_orphaned_def fresh_request_def
        mark_cancelled_def mark_dispatched_def drop_receiver_def remove_request_def put_cell_def
        apsnd_def map_prod_def with_stderr_def new_error_def)
qed

end
