(* ===== verification/ClientWitnesses.thy ===== *)
theory ClientWitnesses
  imports ClientOutcomes
begin

text \<open>
  The client at concrete inputs: an environment in which every send succeeds and every process ends
  well, and the properties of a client applied in it.
\<close>

definition demo_env :: "process_event list \<Rightarrow> duration option \<Rightarrow> environment" where
  "demo_env evs after =
     \<lparr>en_print = (\<lambda>_. Inr ''null''), en_remaining = (\<lambda>_. Some 5), en_send = (\<lambda>_. demo_send after),
      en_events = (\<lambda>_. evs), en_kill = (\<lambda>_. demo_kill), en_stderr = (\<lambda>_. None),
      en_shutdown = (\<lambda>_. demo_shutdown), en_rounds = (\<lambda>_. []), en_router_join = (\<lambda>_. TaskDone),
      en_stat = (\<lambda>_. Inr True), en_open_file = (\<lambda>_. None), en_inspect = (\<lambda>_. Inr (False, True)),
      en_canonical = (\<lambda>p. Inr p)\<rparr>"

definition demo_session :: session where
  "demo_session =
     \<lparr>se_thread_id = ''t'', se_cwd = ''/w'', se_sandbox = ReadOnly, se_reasoning = EffortMedium,
      se_ephemeral = True, se_turn_timeout = 60, se_maximum_output_bytes = 100,
      se_output_schema = None, se_active = 0, se_closed = False\<rparr>"

definition refusing_env :: environment where
  "refusing_env = demo_env [Message (Failure (IdNumber 1) (- 32000) ''no'')] (Some 3)"

lemmas request_evals = client_request_def request_internal_def request_internal_with_timeout_def
  refusing_env_def demo_env_def turn_registered_def next_tick_def remaining_timeout_def new_client_def
  new_connection_def new_config_def client_send_def send_tracked_def new_transport_def encode_def
  demo_send_def remaining_send_timeout_def await_ack_def await_response_def router_loop_def
  route_process_event_def complete_pending_def Let_def new_requests_def register_request_def
  complete_request_def take_for_completion_def hand_over_def on_requests_def mark_dispatched_def
  put_cell_def fresh_request_def u64_as_i64_def send_response_def outcome_may_be_orphaned_def
  drop_receiver_def remove_request_def

lemma no_frame_after_disconnect_witness:
  "tr_frames (cl_process (client_after (demo_env [] (Some 3)) new_config
     ([CallRoute (Closed (new_error Disconnected ''x'' ''gone''))] @ [CallAccount, CallShutdown]))) = []"
proof -
  let ?cs = "[CallRoute (Closed (new_error Disconnected ''x'' ''gone''))]"
  have c: "client_after (demo_env [] (Some 3)) new_config ?cs =
      (disconnect (demo_env [] (Some 3)) (new_error Disconnected ''x'' ''gone'') (new_client new_config))
        \<lparr>cl_router_running := False\<rparr>"
    by (simp add: client_after_def client_step_def route_process_event_def new_client_def)
  have "cn_disconnected (cl_connection (client_after (demo_env [] (Some 3)) new_config ?cs))"
    by (simp add: c disconnect_disconnects)
  from no_frame_after_disconnect [OF this, of "[CallAccount, CallShutdown]"]
  show ?thesis by (simp add: c disconnect_frames new_client_def new_transport_def)
qed

text \<open>A client in the middle of things: a written \<open>turn/start\<close> waits for its response, its run is
  registered, and a login waits for its completion.\<close>

definition busy_client :: client where
  "busy_client =
     (let c1 = new_client new_config;
          c2 = c1\<lparr>cl_requests := step_requests (RqRegister ''turn.start'' True) (cl_requests c1)\<rparr>;
          c3 = c2\<lparr>cl_requests := step_requests (RqMarkDispatched 1) (cl_requests c2)\<rparr>;
          c4 = c3\<lparr>cl_runs := run_step (cf_event_capacity (cl_config c3)) (OpRegister ''t'' 0 100) (cl_runs c3)\<rparr>;
          c5 = c4\<lparr>cl_logins := login_step (LgRegister ''l'') (cl_logins c4)\<rparr>
      in c5\<lparr>cl_logins := login_step (LgWait ''l'') (cl_logins c5)\<rparr>)"

lemma busy_moment: "client_moment env new_config busy_client"
proof -
  have new: "client_moment env new_config (new_client new_config)"
    using client_after_moment [of env new_config "[]"] by (simp add: client_after_def)
  show ?thesis
    unfolding busy_client_def Let_def
    by (intro moment_step [OF _ at_login] moment_step [OF _ at_run] moment_step [OF _ at_request] new)
      (simp_all add: simple_request_op_def)
qed

lemma busy_parts:
  "cl_requests busy_client = step_requests (RqMarkDispatched 1) (step_requests (RqRegister ''turn.start'' True) new_requests)"
  "cl_runs busy_client = run_step 256 (OpRegister ''t'' 0 100) new_world"
  "cl_logins busy_client = login_step (LgWait ''l'') (login_step (LgRegister ''l'') new_logins)"
  "cl_connection busy_client = new_connection"
  by (simp_all add: busy_client_def Let_def new_client_def new_config_def)

lemma busy_facts:
  "rg_pending (cl_requests busy_client) = [(request_id 1, 1)]"
  "rg_cells (cl_requests busy_client) 1 = (fresh_request ''turn.start'' True)\<lparr>rq_dispatched := True\<rparr>"
  "\<exists>r. rw_routes (cl_runs busy_client) = [(''t'', r)]"
  "lg_active (cl_logins busy_client) = [(''l'', \<lparr>le_terminal = None, le_waiters = [1]\<rparr>)]"
  "\<not> cn_disconnected (cl_connection busy_client)"
proof -
  show "rg_pending (cl_requests busy_client) = [(request_id 1, 1)]"
    "rg_cells (cl_requests busy_client) 1 = (fresh_request ''turn.start'' True)\<lparr>rq_dispatched := True\<rparr>"
    unfolding busy_parts
    by (simp_all add: step_requests_def request_step_def on_registry_def register_request_def new_requests_def
        mark_dispatched_def put_cell_def request_id_def)
  show "\<exists>r. rw_routes (cl_runs busy_client) = [(''t'', r)]"
    unfolding busy_parts by (simp add: run_step_def register_run_def new_world_def contains_def set_active_def)
  show "lg_active (cl_logins busy_client) = [(''l'', \<lparr>le_terminal = None, le_waiters = [1]\<rparr>)]"
    unfolding busy_parts
    by (simp add: login_step_def register_login_id_def wait_login_id_def new_logins_def)
  show "\<not> cn_disconnected (cl_connection busy_client)"
    unfolding busy_parts by (simp add: new_connection_def)
qed

lemma busy_request:
  "rq_receiver_open (rg_cells (cl_requests busy_client) 1)" "rq_non_idempotent (rg_cells (cl_requests busy_client) 1)"
  "rq_dispatched (rg_cells (cl_requests busy_client) 1)"
  unfolding busy_facts(2) by (simp_all add: fresh_request_def)

lemma disconnect_settles_witness:
  "let c = disconnect (demo_env [] (Some 3)) (new_error Disconnected ''x'' ''gone'') busy_client in
     rw_routes (cl_runs c) = [] \<and>
     (\<exists>e'. rq_value (rg_cells (cl_requests c) 1) = Some (Inl e') \<and> e_kind e' = OutcomeUnknown) \<and>
     (\<exists>f. lg_delivered (cl_logins c) 1 = Some (Inl f) \<and> e_kind f = Disconnected)"
proof -
  have waits: "(request_id 1, 1) \<in> set (rg_pending (cl_requests busy_client))"
    "(''l'', \<lparr>le_terminal = None, le_waiters = [1]\<rparr>) \<in> set (lg_active (cl_logins busy_client))"
    by (simp_all add: busy_facts(1,4))
  define c' where c': "c' = disconnect (demo_env [] (Some 3)) (new_error Disconnected ''x'' ''gone'') busy_client"
  note S = disconnect_settles [OF busy_moment busy_facts(5), of "demo_env [] (Some 3)"
      "new_error Disconnected ''x'' ''gone''", folded c']
  from S obtain f where kind: "e_kind f = e_kind (new_error Disconnected ''x'' ''gone'')"
    and requests: "\<forall>(i, n) \<in> set (rg_pending (cl_requests busy_client)). rq_receiver_open (rg_cells (cl_requests busy_client) n) \<longrightarrow>
        (\<exists>e'. rq_value (rg_cells (cl_requests c') n) = Some (Inl e') \<and>
           e_kind e' = (if rq_non_idempotent (rg_cells (cl_requests busy_client) n) \<and> rq_dispatched (rg_cells (cl_requests busy_client) n)
                        then OutcomeUnknown else Disconnected))"
    and routes: "rw_routes (cl_runs c') = []"
    and logins: "\<forall>(i, x) \<in> set (lg_active (cl_logins busy_client)).
        map_of (lg_active (cl_logins c')) i = Some \<lparr>le_terminal = (if le_terminal x = None then Some (Inl f)
                                                               else le_terminal x), le_waiters = []\<rparr> \<and>
        (\<forall>n \<in> set (le_waiters x). lg_delivered (cl_logins busy_client) n = None \<and>
           lg_delivered (cl_logins c') n = Some (Inl f))"
    by (elim exE conjE) (rule that)
  have "\<exists>e'. rq_value (rg_cells (cl_requests c') 1) = Some (Inl e') \<and> e_kind e' = OutcomeUnknown"
    using bspec [OF requests waits(1)] busy_request by simp
  moreover have "lg_delivered (cl_logins c') 1 = Some (Inl f)"
    using bspec [OF logins waits(2)] by simp
  ultimately show ?thesis using routes kind by (auto simp: Let_def c')
qed

lemma client_keeps_invariant_witness:
  "rq_value (rg_cells (cl_requests busy_client) 1) = None \<and> distinct (map fst (rw_routes (cl_runs busy_client)))"
  using client_keeps_invariant [OF busy_moment [of "demo_env [] (Some 3)"]] by (simp add: busy_facts(1))

lemma provider_request_owned_witness:
  "let c' = route_process_event (demo_env [] (Some 3)) (Message (Request (IdNumber 7) ''fs/write'' JNull))
              (new_client new_config)
   in cn_disconnected (cl_connection c') \<or>
      (\<exists>code msg. tr_frames (cl_process c') = [failure (IdNumber 7) code msg])"
  using provider_request_owned [of "new_client new_config" "demo_env [] (Some 3)" "IdNumber 7" "''fs/write''" JNull]
  by (simp add: decode_server_request_def new_client_def new_transport_def Let_def)

lemma clean_client_shutdown_witness:
  "cl_sessions (snd (client_shutdown (demo_env [] (Some 3)) (new_client new_config))) = [] \<and>
   \<not> tr_child (cl_process (snd (client_shutdown (demo_env [] (Some 3)) (new_client new_config))))"
proof -
  have "fst (client_shutdown (demo_env [] (Some 3)) (new_client new_config)) = Inr ()"
    by (simp add: client_shutdown_def begin_closing_def shutdown_sessions_def next_tick_def new_client_def
        new_sessions_def new_connection_def demo_env_def operation_deadline_expired_def shutdown_process_def
        demo_shutdown_def new_transport_def end_child_def remove_helper_def reap_child_def close_failures_def
        task_failures_def join_router_def router_loop_def Let_def)
  then have "client_shutdown (demo_env [] (Some 3)) (new_client new_config) =
      (Inr (), snd (client_shutdown (demo_env [] (Some 3)) (new_client new_config)))"
    by (metis prod.collapse)
  from clean_client_shutdown [OF _ _ this] show ?thesis
    by (simp add: new_client_def new_connection_def new_transport_def)
qed

lemma dispatched_request_lost_witness:
  "tr_frames (cl_process (snd (request_internal_with_timeout (demo_env [] (Some 0)) ''turn/start'' JNull True
      ''turn.start'' False 30 (new_client new_config)))) = [request 1 ''turn/start'' JNull]"
proof -
  let ?c = "new_client new_config"
  have reg: "register_request ''turn.start'' True (cl_requests ?c) =
      (Inr 1, snd (register_request ''turn.start'' True (cl_requests ?c)))"
    by (simp add: new_client_def new_requests_def register_request_def Let_def)
  obtain frame where enc: "encode (en_print (demo_env [] (Some 0))) (request 1 ''turn/start'' JNull)
      (tr_max_frame_bytes (cl_process ?c)) = Inr frame"
    by (simp add: demo_env_def encode_def new_client_def new_transport_def new_config_def)
  show ?thesis
    using dispatched_request_lost [of ?c "demo_env [] (Some 0)" 5 "''turn.start''" 1 _ "''turn/start''" JNull frame 5
        False 30, OF _ _ _ _ _ reg enc]
    by (simp add: demo_env_def demo_send_def new_client_def new_connection_def new_transport_def case_prod_beta)
qed

lemma failed_start_blocks_close_witness:
  "\<exists>c3. snd (session_start refusing_env demo_session [InputText ''hello''] (new_client new_config)) = c3 \<and>
     fst (session_close refusing_env demo_session c3) =
       Inl (new_error InvalidInput ''thread.unsubscribe'' ''cannot unsubscribe a thread with an active run'')"
proof -
  let ?c = "new_client new_config" and ?s = demo_session
  let ?q = "client_request refusing_env ''turn/start''
    (turn_params (se_thread_id ?s) (se_cwd ?s) (se_sandbox ?s) (se_reasoning ?s) [InputText ''hello'']
      (se_output_schema ?s)) True ''turn.start'' (turn_registered ?s ?c)"
  have "isl (fst ?q)"
    by (simp add: request_evals)
  then obtain e where q: "?q = (Inl e, snd ?q)" by (metis isl_def prod.collapse)
  have "map_option (\<lambda>r. (ro_phase r, ro_active r)) (route_of (cl_runs (snd ?q)) (se_thread_id ?s)) =
      Some (Starting [], 0)"
    by (simp add: request_evals demo_session_def register_run_def contains_def set_active_def new_world_def)
  then obtain r where r: "route_of (cl_runs (snd ?q)) (se_thread_id ?s) = Some r" "ro_phase r = Starting []"
    "ro_active r = se_active ?s" by (auto simp: demo_session_def)
  have v: "validate_inputs (en_stat refusing_env) (en_open_file refusing_env) [InputText ''hello''] = Inr ()"
    by (simp add: refusing_env_def demo_env_def validate_input_def) code_simp
  have o: "\<not> se_closed ?s" "\<not> session_active ?s ?c" "\<not> contains (se_thread_id ?s) (cl_runs ?c)"
    by (simp_all add: demo_session_def session_active_def contains_def new_client_def new_world_def)
  from failed_start_blocks_close [OF _ v o q r] show ?thesis by force
qed

definition accepting_env :: environment where
  "accepting_env =
     demo_env [Message (Success (IdNumber 1) (jobj [(''thread'', jobj [(''id'', JString ''t'')])]))] (Some 3)"

lemma created_session_owned_witness:
  "\<exists>s. fst (create_session accepting_env (read_only_options ''/w'') (new_client new_config)) = Inr s \<and>
     se_thread_id s \<in> set (cl_sessions (snd (create_session accepting_env (read_only_options ''/w'') (new_client new_config)))) \<and>
     se_sandbox s = ReadOnly"
proof -
  let ?r = "create_session accepting_env (read_only_options ''/w'') (new_client new_config)"
  have u: "utf8_valid ''/w''" by code_simp
  have r: "response_thread_id (jobj [(''thread'', jobj [(''id'', JString ''t'')])]) = Some ''t''" by code_simp
  have "\<not> isl (fst ?r)"
    by (simp add: create_session_def validate_options_def read_only_options_def validate_instructions_def
        DEFAULT_TURN_TIMEOUT_def validate_schema_def DEFAULT_MAXIMUM_OUTPUT_BYTES_def MAXIMUM_OUTPUT_BYTES_def
        canonical_project_def u accepting_env_def result_simps request_evals r adopt_thread_def insert_session_def new_sessions_def
        apfst_def map_prod_def case_prod_beta)
  then obtain s where s: "fst ?r = Inr s" by (cases "fst ?r") simp_all
  then have "?r = (Inr s, snd ?r)" by (simp only: prod_eq_iff fst_conv snd_conv)
  note owned = created_session_owned [OF this]
  have t: "se_thread_id s \<in> set (cl_sessions (snd ?r))" using owned by (elim conjE) assumption
  have "se_sandbox s = so_sandbox (read_only_options ''/w'')" using owned by (elim conjE) assumption
  also have "\<dots> = ReadOnly" by (simp add: read_only_options_def)
  finally show ?thesis using s t by (intro exI [of _ s] conjI)
qed

end
