(* ===== verification/ImageWitnesses.thy ===== *)
theory ImageWitnesses
  imports ImageTheorems ClientWitnesses
begin

text \<open>
  Image requests at concrete inputs: a login that the app-server reports, a connection that breaks while
  the answer is awaited, and an answer with the one-pixel image.
\<close>

definition login_status :: json where
  "login_status = jobj [(''authMethod'', JString ''chatgpt''), (''authToken'', JString ''h.p.s'')]"

definition image_env :: environment where
  "image_env = demo_env [Message (Success (IdNumber 1) login_status)] (Some 3)"

definition demo_codecs :: image_codecs where
  "demo_codecs =
     \<lparr>ic_status_error = (\<lambda>_. []), ic_response = (\<lambda>_. Inr [''aW1n'']), ic_decode = (\<lambda>_. Inr pixel_file),
      ic_encode = (\<lambda>_. ''aW1n''), ic_url_no_pad = (\<lambda>_. Some []), ic_url_pad = (\<lambda>_. None),
      ic_json = (\<lambda>_. Some (jobj [(''https://api.openai.com/auth'', jobj [(''chatgpt_account_id'', JString ''acct'')])])),
      ic_inflate = pixel_zlib, ic_over_limit = []\<rparr>"

definition broken_inputs :: image_inputs where
  "broken_inputs =
     \<lparr>ii_clock = True, ii_remaining = (\<lambda>_. 5), ii_reply = (\<lambda>_. SendFailed ''connection reset''), ii_join = (\<lambda>_. None),
      ii_gone = (\<lambda>_ _. False), ii_left = (\<lambda>_. False), ii_process_id = 1, ii_nanos = 2, ii_sequence = 3\<rparr>"

definition cat_request :: direct_image_request where
  "cat_request = \<lparr>dq_prompt = ''a cat'', dq_background = BackgroundAuto, dq_dimensions = SizeSquare, dq_quality = QualityLow\<rparr>"

lemma login_accepted:
  "from_auth_status demo_codecs login_status = Inr \<lparr>ia_access_token = ''h.p.s'', ia_account_id = ''acct''\<rparr>"
proof -
  have "decode_auth_status login_status =
      Some \<lparr>as_method = Some ''chatgpt'', as_token = Some ''h.p.s'', as_requires_openai_auth = None\<rparr>"
    by code_simp
  moreover have "split_dots ''h.p.s'' = [''h'', ''p'', ''s'']" by code_simp
  moreover have "account_claim (jobj [(''https://api.openai.com/auth'', jobj [(''chatgpt_account_id'', JString ''acct'')])]) = Some ''acct''"
    by code_simp
  ultimately show ?thesis
    by (simp add: from_auth_status_def account_id_from_jwt_def demo_codecs_def MAX_JWT_BYTES_def)
qed

lemma image_auth_granted:
  "\<exists>c. image_auth demo_codecs image_env True 5 (new_client new_config) =
     (Inr \<lparr>ia_access_token = ''h.p.s'', ia_account_id = ''acct''\<rparr>, c)"
proof -
  have "fst (request_internal_with_timeout image_env ''getAuthStatus'' (auth_params True) False ''image.auth'' False 5
      (new_client new_config)) = Inr login_status"
    by (simp add: image_env_def request_evals)
  then show ?thesis
    by (cases "request_internal_with_timeout image_env ''getAuthStatus'' (auth_params True) False ''image.auth'' False 5
          (new_client new_config)") (simp add: image_auth_def login_accepted)
qed

lemma broken_request:
  "\<exists>c p e. generate_image demo_codecs image_env cat_request broken_inputs (new_client new_config) =
     (ImageReturned (Inl e), c, \<lparr>io_phase = PhCancelledAfter, io_sent = [p]\<rparr>)"
proof -
  obtain c where a: "image_auth demo_codecs image_env True 5 (new_client new_config) =
      (Inr \<lparr>ia_access_token = ''h.p.s'', ia_account_id = ''acct''\<rparr>, c)"
    using image_auth_granted by blast
  have b: "\<not> is_blank ''a cat''" by code_simp
  have p: "en_print image_env v = Inr ''null''" for v by (simp add: image_env_def demo_env_def)
  show ?thesis
    by (simp add: generate_image_def cat_request_def b broken_inputs_def generate_image_with_retry_def new_image_op_def
        is_cancelled_def acquire_auth_def require_remaining_timeout_def a post_image_def generate_via_endpoint_def
        send_image_request_def p MAX_BODY_BYTES_def begin_dispatch_def accept_reply_def is_dispatched_def
        drop_image_guard_def cancel_op_def)
qed

theorem image_request_posts_witness:
  "length (io_sent (snd (snd (generate_image demo_codecs image_env cat_request broken_inputs (new_client new_config))))) \<le> 2"
  using image_request_posts [of demo_codecs image_env cat_request broken_inputs "new_client new_config"]
  by (cases "generate_image demo_codecs image_env cat_request broken_inputs (new_client new_config)") simp

theorem image_outcome_fenced_witness:
  "\<exists>e ts. cl_spawned (fst (snd (generate_image demo_codecs image_env cat_request broken_inputs (new_client new_config)))) =
     ts @ [DisconnectWith e] \<and> e_kind e = OutcomeUnknown"
proof -
  obtain c p e where g: "generate_image demo_codecs image_env cat_request broken_inputs (new_client new_config) =
     (ImageReturned (Inl e), c, \<lparr>io_phase = PhCancelledAfter, io_sent = [p]\<rparr>)"
    using broken_request by blast
  have "\<not> refused (ii_reply broken_inputs (length [p] - 1))" by (simp add: broken_inputs_def refused_def)
  then show ?thesis using image_outcome_fenced [OF g] g by auto
qed

theorem returned_image_validated_witness:
  "\<exists>response. parse_image_endpoint_response demo_codecs [] BackgroundTransparent = Inr response \<and>
     unat (dr_width response) \<le> 8192 \<and> dr_transparent_background response = Some True"
proof -
  have len: "length pixel_file \<le> MAX_IMAGE_RESPONSE_BYTES"
    using length_png_file [OF pixel_file_ok(1)]
    by (simp add: pixel_file_def png_layout_def MAX_IMAGE_RESPONSE_BYTES_def)
  obtain response where r: "parse_image_endpoint_response demo_codecs [] BackgroundTransparent = Inr response"
    using pixel_file_accepted len
    by (simp add: parse_image_endpoint_response_def demo_codecs_def MAX_IMAGE_RESPONSE_BYTES_def)
  from returned_image_validated [OF r] pixel_file_accepted show ?thesis
    using r by (auto simp: demo_codecs_def)
qed

end
