(* ===== verification/ProviderFailure.thy ===== *)
theory ProviderFailure
  imports Events Redact Trim
begin

text \<open>
  Failures of the UpAgent provider (\<open>src/src/bin/vergerail_upagent_provider.rs\<close>): their bounded and redacted
  messages, the class of a library error, and the envelope they are sent in. The \<open>serde\<close> printer of an
  envelope is a parameter.
\<close>

definition PROTOCOL_VERSION :: nat where "PROTOCOL_VERSION = 2"
definition MAX_FAILURE_MESSAGE_BYTES :: nat where "MAX_FAILURE_MESSAGE_BYTES = 4096"
definition MAX_FAILURE_RESPONSE_BYTES :: nat where "MAX_FAILURE_RESPONSE_BYTES = 16384"

record provider_failure =
  pf_code :: string
  pf_message :: string
  pf_retryable :: bool

type_synonym 'a provider_result = "provider_failure + 'a"

section \<open>Redaction\<close>

definition REDACTED_MARKERS :: "string list" where
  "REDACTED_MARKERS =
     [''bearer '', ''access_token='', ''authorization='', ''client_secret='', ''cookie='', ''id_token='',
      ''openai_api_key='', ''password='', ''refresh_token='', ''secret='', ''set-cookie='', ''token='']"

definition ends_marked :: "string \<Rightarrow> bool" where
  "ends_marked s \<longleftrightarrow>
     0 < ws_prefix s \<or> hd s \<in> {CHR '','', CHR '';'', CHR ''}'', CHR '']'', CHR 0x22}"

text \<open>The pass over what is left of the message after the cursor. No marker is empty; the guard is
  what makes the loop end for every argument.\<close>

function redact_all_after_marker :: "string \<Rightarrow> string \<Rightarrow> string" where
  "redact_all_after_marker input marker =
     (if input = [] \<or> marker = [] then input
      else case find_sub (to_ascii_lowercase input) marker of
        None \<Rightarrow> input
      | Some relative_start \<Rightarrow>
          (let rest = trim_start (drop (relative_start + length marker) input);
               value_start = length input - length rest
           in take value_start input @ REDACTED
                @ redact_all_after_marker (drop (value_end ends_marked rest) rest) marker))"
  by pat_completeness auto
termination
proof (relation "measure (\<lambda>(input, marker). length input)", goal_cases)
  case (2 input marker relative_start rest value_start)
  then have "length rest \<le> length (drop (relative_start + length marker) input)"
    using trim_start_suffix [of "drop (relative_start + length marker) input"]
    by (metis length_append le_add2)
  with 2 lower_find_bound [of input marker relative_start] show ?case by (cases marker) auto
qed simp

declare redact_all_after_marker.simps [simp del]

definition truncate_utf8 :: "string \<Rightarrow> nat \<Rightarrow> string" where
  "truncate_utf8 s maximum = (if length s \<le> maximum then s else take (floor_boundary s maximum) s)"

definition bounded_redacted_message :: "string \<Rightarrow> string" where
  "bounded_redacted_message msg =
     truncate_utf8 (fold (\<lambda>marker s. redact_all_after_marker s marker) REDACTED_MARKERS msg)
       MAX_FAILURE_MESSAGE_BYTES"

section \<open>Failures and their envelope\<close>

definition provider_error :: "string \<Rightarrow> string \<Rightarrow> provider_failure" where
  "provider_error code msg =
     \<lparr>pf_code = code, pf_message = bounded_redacted_message msg, pf_retryable = False\<rparr>"

text \<open>A check of the provider: \<open>if c { return Err(failure(code, msg, false)); }\<close>.\<close>

definition refuse :: "bool \<Rightarrow> string \<Rightarrow> string \<Rightarrow> unit provider_result" where
  "refuse c code msg = (if c then Inl (provider_error code msg) else Inr ())"

fun error_class :: "error_kind \<Rightarrow> string" where
  "error_class Timeout = ''timeout''"
| "error_class OutcomeUnknown = ''resolution_required''"
| "error_class Disconnected = ''resolution_required''"
| "error_class ConsumerLagged = ''resolution_required''"
| "error_class Authentication = ''authentication_required''"
| "error_class Cancelled = ''cancelled''"
| "error_class RuntimeVerification = ''runtime_verification''"
| "error_class InvalidInput = ''invalid_request''"
| "error_class _ = ''provider_failed''"

definition classify_vergerail_error :: "error \<Rightarrow> provider_failure" where
  "classify_vergerail_error e = provider_error (error_class (e_kind e)) (error_to_string e)"

record provider_failure_body =
  fb_code :: string
  fb_message :: string
  fb_retryable :: bool

record failure_response =
  fr_schema_version :: nat
  fr_request_id :: string
  fr_ok :: bool
  fr_error :: provider_failure_body

definition fallback_envelope :: failure_response where
  "fallback_envelope =
     \<lparr>fr_schema_version = PROTOCOL_VERSION, fr_request_id = [], fr_ok = False,
      fr_error = \<lparr>fb_code = ''provider_failed'',
                  fb_message = ''provider failure response exceeded its bounded envelope'',
                  fb_retryable = False\<rparr>\<rparr>"

definition fallback_bytes :: string where
  "fallback_bytes =
     ''{\"schemaVersion\":2,\"requestId\":\"\",\"ok\":false,\"error\":{\"code\":\"provider_failed\",\"message\":\"provider failure\",\"retryable\":false}}''"

definition failure_envelope :: "provider_failure \<Rightarrow> string \<Rightarrow> failure_response" where
  "failure_envelope e request_id =
     \<lparr>fr_schema_version = PROTOCOL_VERSION, fr_request_id = truncate_utf8 request_id 128, fr_ok = False,
      fr_error = \<lparr>fb_code = pf_code e, fb_message = bounded_redacted_message (pf_message e),
                  fb_retryable = pf_retryable e\<rparr>\<rparr>"

definition encode_failure_response ::
  "(failure_response \<Rightarrow> string + string) \<Rightarrow> provider_failure \<Rightarrow> string \<Rightarrow> string"
where
  "encode_failure_response to_vec e request_id =
     (let fallback = (case to_vec fallback_envelope of Inr bytes \<Rightarrow> bytes | Inl _ \<Rightarrow> fallback_bytes)
      in case to_vec (failure_envelope e request_id) of
           Inr bytes \<Rightarrow> if length bytes \<le> MAX_FAILURE_RESPONSE_BYTES then bytes else fallback
         | Inl _ \<Rightarrow> fallback)"

section \<open>Bounds\<close>

lemma truncate_utf8_length: "length (truncate_utf8 s n) \<le> n"
  using floor_boundary_le [of s n] by (simp add: truncate_utf8_def)

lemma provider_error_sel [simp]:
  "pf_code (provider_error code msg) = code"
  "pf_retryable (provider_error code msg) = False"
  by (simp_all add: provider_error_def)

lemma provider_error_bounded: "length (pf_message (provider_error code msg)) \<le> MAX_FAILURE_MESSAGE_BYTES"
  by (simp add: provider_error_def bounded_redacted_message_def truncate_utf8_length)

lemma refuse_Inr [result_simps]: "refuse c code msg = Inr x \<longleftrightarrow> \<not> c"
  by (simp add: refuse_def)

lemma refuse_cases: "refuse c code msg = (if c then Inl (provider_error code msg) else Inr ())"
  by (simp add: refuse_def)

end
