(* ===== verification/ProviderSchema.thy ===== *)
theory ProviderSchema
  imports ProviderFailure Json
begin

text \<open>
  The output schema of a model turn as the provider closes it for the app-server
  (\<open>close_native_object_schemas\<close> and its helpers in \<open>src/src/bin/vergerail_upagent_provider.rs\<close>): constants
  get their type, every object schema is closed and requires all its properties, and a property that
  was optional becomes nullable. \<open>number_text\<close> is the \<open>Display\<close> of a JSON number.
\<close>

definition schema_error :: "string \<Rightarrow> provider_failure" where
  "schema_error msg = provider_error ''invalid_request'' msg"

definition obj_remove :: "string \<Rightarrow> json_object \<Rightarrow> json_object" where
  "obj_remove k m = filter (\<lambda>kv. fst kv \<noteq> k) m"

definition obj_or_insert :: "string \<Rightarrow> json \<Rightarrow> json_object \<Rightarrow> json_object" where
  "obj_or_insert k v m = (case map_of m k of Some _ \<Rightarrow> m | None \<Rightarrow> obj_insert k v m)"

section \<open>Numbers\<close>

text \<open>Whether the double with these 64 bits is finite and has no fractional part.\<close>

definition float_integral :: "nat \<Rightarrow> bool" where
  "float_integral bits =
     (let e = (bits div 4503599627370496) mod 2048; m = bits mod 4503599627370496 in
      if e = 0 then m = 0
      else if e = 2047 then False
      else if 1075 \<le> e then True
      else 1075 - e \<le> 52 \<and> 2 ^ (1075 - e) dvd 4503599627370496 + m)"

fun number_is_integral :: "jnumber \<Rightarrow> bool" where
  "number_is_integral (JInt i) = True"
| "number_is_integral (JFloat bits) = float_integral bits"

fun native_json_type :: "json \<Rightarrow> string option" where
  "native_json_type JNull = Some ''null''"
| "native_json_type (JBool b) = Some ''boolean''"
| "native_json_type (JNumber n) = Some (if number_is_integral n then ''integer'' else ''number'')"
| "native_json_type (JString s) = Some ''string''"
| "native_json_type (JArray xs) = None"
| "native_json_type (JObject m) = None"

definition is_ascii_digit :: "char \<Rightarrow> bool" where
  "is_ascii_digit c \<longleftrightarrow> 48 \<le> (of_char c :: nat) \<and> (of_char c :: nat) \<le> 57"

definition digits_value :: "string \<Rightarrow> nat" where
  "digits_value s = foldl (\<lambda>n c. 10 * n + ((of_char c :: nat) - 48)) 0 s"

definition in_i32 :: "int \<Rightarrow> bool" where
  "in_i32 i \<longleftrightarrow> -2147483648 \<le> i \<and> i \<le> 2147483647"

definition checked_i32 :: "int \<Rightarrow> int option" where
  "checked_i32 i = (if in_i32 i then Some i else None)"

text \<open>\<open>str::parse::<i32>\<close>.\<close>

definition parse_i32 :: "string \<Rightarrow> int option" where
  "parse_i32 s =
     (let negative = starts_with s ''-'';
          digits = (if negative \<or> starts_with s ''+'' then tl s else s)
      in if digits = [] \<or> \<not> list_all is_ascii_digit digits then None
         else checked_i32 (if negative then - int (digits_value digits) else int (digits_value digits)))"

record canonical_decimal =
  cd_negative :: bool
  cd_digits :: string
  cd_scale :: int

text \<open>The loop that drops trailing zeros, on the digits from the last to the first.\<close>

fun strip_zeros :: "string \<Rightarrow> int \<Rightarrow> (string \<times> int) option" where
  "strip_zeros [] scale = Some ([], scale)"
| "strip_zeros (c # digits) scale =
     (if c = CHR ''0'' then Option.bind (checked_i32 (scale + 1)) (strip_zeros digits)
      else Some (rev (c # digits), scale))"

definition canonical_decimal_of :: "string \<Rightarrow> canonical_decimal option" where
  "canonical_decimal_of s =
     (let mantissa0 = takeWhile (\<lambda>c. c \<noteq> CHR ''e'' \<and> c \<noteq> CHR ''E'') s in
      Option.bind (if length mantissa0 < length s then parse_i32 (drop (Suc (length mantissa0)) s) else Some 0)
        (\<lambda>exponent.
      let negative = starts_with mantissa0 ''-'';
          mantissa = (if negative \<or> starts_with mantissa0 ''+'' then tl mantissa0 else mantissa0);
          whole = takeWhile (\<lambda>c. c \<noteq> CHR ''.'') mantissa
      in Option.bind (checked_i32 (if length whole < length mantissa
                                   then int (length mantissa - length whole - 1) else 0)) (\<lambda>fractional_digits.
      let digits = filter (\<lambda>c. c \<noteq> CHR ''.'') mantissa;
          significant = dropWhile (\<lambda>c. c = CHR ''0'') digits
      in if digits = [] \<or> \<not> list_all is_ascii_digit digits then None
         else if significant = []
         then Some \<lparr>cd_negative = False, cd_digits = ''0'', cd_scale = 0\<rparr>
         else Option.bind (checked_i32 (exponent - fractional_digits)) (\<lambda>scale.
              Option.bind (strip_zeros (rev significant) scale) (\<lambda>(digits, scale).
              Some \<lparr>cd_negative = negative, cd_digits = digits, cd_scale = scale\<rparr>)))))"

fun primitive_schema_values_equal :: "(jnumber \<Rightarrow> string) \<Rightarrow> json \<Rightarrow> json \<Rightarrow> bool" where
  "primitive_schema_values_equal number_text JNull JNull = True"
| "primitive_schema_values_equal number_text (JBool a) (JBool b) = (a = b)"
| "primitive_schema_values_equal number_text (JString a) (JString b) = (a = b)"
| "primitive_schema_values_equal number_text (JNumber a) (JNumber b) =
     (canonical_decimal_of (number_text a) = canonical_decimal_of (number_text b))"
| "primitive_schema_values_equal number_text v w = False"

section \<open>Constants and types\<close>

definition native_type_pair_is_compatible :: "string \<Rightarrow> string \<Rightarrow> bool" where
  "native_type_pair_is_compatible declared actual \<longleftrightarrow>
     declared = actual \<or> (declared = ''number'' \<and> actual = ''integer'')"

fun native_type_includes :: "json \<Rightarrow> string \<Rightarrow> bool" where
  "native_type_includes (JString kind) expected = native_type_pair_is_compatible kind expected"
| "native_type_includes (JArray types) expected =
     list_ex (\<lambda>v. case as_str v of Some kind \<Rightarrow> native_type_pair_is_compatible kind expected | None \<Rightarrow> False) types"
| "native_type_includes v expected = False"

definition validate_const_enum_membership ::
  "(jnumber \<Rightarrow> string) \<Rightarrow> json_object \<Rightarrow> json \<Rightarrow> unit provider_result"
where
  "validate_const_enum_membership number_text m constant =
     (case map_of m ''enum'' of
        None \<Rightarrow> Inr ()
      | Some enum_value \<Rightarrow>
          result_bind (ok_or (schema_error ''native strict schema enum must be an array when const is present'')
                         (as_array enum_value)) (\<lambda>vals.
          if list_ex (\<lambda>v. primitive_schema_values_equal number_text v constant) vals then Inr ()
          else Inl (schema_error ''native strict schema const value is excluded by enum'')))"

text \<open>The checks of a constant that both callers make; the result is the name of its type.\<close>

definition const_kind :: "(jnumber \<Rightarrow> string) \<Rightarrow> json_object \<Rightarrow> json \<Rightarrow> string provider_result" where
  "const_kind number_text m constant =
     result_bind (ok_or (schema_error ''native strict schemas do not support array or object const values'')
                    (native_json_type constant)) (\<lambda>kind.
     result_bind (validate_const_enum_membership number_text m constant) (\<lambda>_.
     case map_of m ''type'' of
       Some t \<Rightarrow> if \<not> native_type_includes t kind
                then Inl (schema_error ''native strict schema const value does not match its declared type'')
                else Inr kind
     | None \<Rightarrow> Inr kind))"

definition normalize_native_const_type ::
  "(jnumber \<Rightarrow> string) \<Rightarrow> json_object \<Rightarrow> json_object provider_result"
where
  "normalize_native_const_type number_text m =
     (case map_of m ''const'' of
        None \<Rightarrow> Inr m
      | Some constant \<Rightarrow>
          result_bind (const_kind number_text m constant) (\<lambda>kind.
          Inr (obj_or_insert ''type'' (JString kind) m)))"

section \<open>Nullable properties\<close>

definition nullable_const :: "(jnumber \<Rightarrow> string) \<Rightarrow> json_object \<Rightarrow> json_object provider_result" where
  "nullable_const number_text m =
     (case map_of m ''const'' of
        None \<Rightarrow> Inr m
      | Some constant \<Rightarrow>
          (let m1 = obj_remove ''const'' m in
           result_bind (const_kind number_text m1 constant) (\<lambda>kind.
           Inr (obj_insert ''enum'' (JArray (constant # (if kind \<noteq> ''null'' then [JNull] else [])))
                  (obj_remove ''enum'' (obj_or_insert ''type'' (JString kind) m1))))))"

definition declares :: "string \<Rightarrow> json \<Rightarrow> bool" where
  "declares kind t =
     (as_str t = Some kind \<or> (case as_array t of Some ts \<Rightarrow> list_ex (\<lambda>v. as_str v = Some kind) ts | None \<Rightarrow> False))"

definition push_null_enum :: "json_object \<Rightarrow> json_object" where
  "push_null_enum m =
     (case Option.bind (map_of m ''enum'') as_array of
        Some vals \<Rightarrow> if list_ex is_null vals then m else obj_insert ''enum'' (JArray (vals @ [JNull])) m
      | None \<Rightarrow> m)"

definition any_of_null :: "json_object \<Rightarrow> bool" where
  "any_of_null m =
     (case Option.bind (map_of m ''anyOf'') as_array of
        Some variants \<Rightarrow> list_ex (\<lambda>v. get_str ''type'' v = Some ''null'') variants
      | None \<Rightarrow> False)"

fun type_or_null :: "json \<Rightarrow> json" where
  "type_or_null (JString kind) = JArray [JString kind, JString ''null'']"
| "type_or_null (JArray ts) =
     (if list_ex (\<lambda>v. as_str v = Some ''null'') ts then JArray ts else JArray (ts @ [JString ''null'']))"
| "type_or_null v = v"

definition any_of_nullable :: "json \<Rightarrow> json" where
  "any_of_nullable v = JObject [(''anyOf'', JArray [v, JObject [(''type'', JString ''null'')]])]"

fun make_native_property_nullable :: "(jnumber \<Rightarrow> string) \<Rightarrow> json \<Rightarrow> json provider_result" where
  "make_native_property_nullable number_text (JObject m) =
     result_bind (nullable_const number_text m) (\<lambda>m1. Inr (
       case map_of m1 ''type'' of
         Some t \<Rightarrow>
           if declares ''null'' t then JObject (push_null_enum m1)
           else if any_of_null m1 then JObject m1
           else JObject (push_null_enum (obj_insert ''type'' (type_or_null t) m1))
       | None \<Rightarrow> if any_of_null m1 then JObject m1 else any_of_nullable (JObject m1)))"
| "make_native_property_nullable number_text v = Inr (any_of_nullable v)"

section \<open>Closing\<close>

definition has_key :: "string \<Rightarrow> json_object \<Rightarrow> bool" where
  "has_key k m \<longleftrightarrow> map_of m k \<noteq> None"

definition is_object_schema :: "json_object \<Rightarrow> bool" where
  "is_object_schema m \<longleftrightarrow>
     (case map_of m ''type'' of Some t \<Rightarrow> declares ''object'' t | None \<Rightarrow> False)
     \<or> has_key ''properties'' m \<or> has_key ''required'' m"

definition property_names :: "json_object \<Rightarrow> string list" where
  "property_names m =
     (case Option.bind (map_of m ''properties'') as_object of Some pm \<Rightarrow> map fst pm | None \<Rightarrow> [])"

definition existing_required :: "json_object \<Rightarrow> string list provider_result" where
  "existing_required m =
     (case map_of m ''required'' of
        None \<Rightarrow> Inr []
      | Some v \<Rightarrow>
          result_bind (ok_or (schema_error ''native strict object schemas require required to be an array'')
                         (as_array v)) (\<lambda>names.
          result_map (\<lambda>name. ok_or
            (schema_error ''native strict object schema required entries must be strings'') (as_str name)) names))"

definition nullable_property ::
  "(jnumber \<Rightarrow> string) \<Rightarrow> string list \<Rightarrow> string \<times> json \<Rightarrow> (string \<times> json) provider_result"
where
  "nullable_property number_text required kv =
     (if fst kv \<in> set required then Inr kv
      else result_bind (make_native_property_nullable number_text (snd kv)) (\<lambda>v. Inr (fst kv, v)))"

definition nullable_properties ::
  "(jnumber \<Rightarrow> string) \<Rightarrow> string list \<Rightarrow> json_object \<Rightarrow> json_object provider_result"
where
  "nullable_properties number_text required m =
     (case Option.bind (map_of m ''properties'') as_object of
        Some pm \<Rightarrow> result_bind (result_map (nullable_property number_text required) pm) (\<lambda>pm1.
                  Inr (obj_insert ''properties'' (JObject pm1) m))
      | None \<Rightarrow> Inr m)"

text \<open>One object, before its children.\<close>

definition close_object :: "(jnumber \<Rightarrow> string) \<Rightarrow> json_object \<Rightarrow> json_object provider_result" where
  "close_object number_text m0 =
     result_bind (normalize_native_const_type number_text m0) (\<lambda>m.
     if \<not> is_object_schema m then Inr m
     else if \<not> (case map_of m ''additionalProperties'' of None \<Rightarrow> True | Some v \<Rightarrow> v = JBool False)
     then Inl (schema_error ''native strict object schemas require additionalProperties to be false'')
     else
       let m1 = obj_insert ''additionalProperties'' (JBool False) m; names = property_names m1 in
       result_bind (existing_required m1) (\<lambda>required.
       if list_ex (\<lambda>name. name \<notin> set names) required
       then Inl (schema_error ''native strict object schema required contains a property that is not declared'')
       else result_bind (nullable_properties number_text required m1) (\<lambda>m2.
            Inr (obj_insert ''required'' (JArray (map JString names)) m2))))"

end
