(* ===== verification/ProviderClose.thy ===== *)
theory ProviderClose
  imports ProviderSchema
begin

text \<open>
  The recursion of \<open>close_native_object_schemas\<close> (\<open>src/src/bin/vergerail_upagent_provider.rs\<close>) over the
  values of an object it has just changed. It ends because a weight falls: a value below the key
  \<open>properties\<close> counts more than the nullable wrapping of its parts can add.
\<close>

section \<open>Weights\<close>

definition key_weight :: "string \<Rightarrow> nat" where
  "key_weight k = (if k = ''properties'' then 64 else 1)"

fun json_weight :: "json \<Rightarrow> nat" where
  "json_weight (JArray xs) = Suc (sum_list (map json_weight xs))"
| "json_weight (JObject m) = Suc (sum_list (map (\<lambda>kv. key_weight (fst kv) * json_weight (snd kv)) m))"
| "json_weight v = 1"

definition object_weight :: "json_object \<Rightarrow> nat" where
  "object_weight m = sum_list (map (\<lambda>kv. key_weight (fst kv) * json_weight (snd kv)) m)"

lemma json_weight_JObject: "json_weight (JObject m) = Suc (object_weight m)"
  by (simp add: object_weight_def)

declare json_weight.simps(2) [simp del]
declare json_weight_JObject [simp]

lemma json_weight_pos: "1 \<le> json_weight v"
  by (cases v) simp_all

lemma object_weight_simps [simp]:
  "object_weight [] = 0"
  "object_weight (kv # m) = key_weight (fst kv) * json_weight (snd kv) + object_weight m"
  by (simp_all add: object_weight_def)

lemma key_weight_pos: "1 \<le> key_weight k"
  by (simp add: key_weight_def)

lemma object_weight_member: "kv \<in> set m \<Longrightarrow> key_weight (fst kv) * json_weight (snd kv) \<le> object_weight m"
  by (induction m) auto

lemma object_weight_value: "kv \<in> set m \<Longrightarrow> json_weight (snd kv) \<le> object_weight m"
proof -
  have "json_weight (snd kv) \<le> key_weight (fst kv) * json_weight (snd kv)"
    by (simp add: key_weight_def)
  then show "kv \<in> set m \<Longrightarrow> json_weight (snd kv) \<le> object_weight m"
    using object_weight_member order_trans by blast
qed

lemma object_weight_map_of: "map_of m k = Some v \<Longrightarrow> json_weight v \<le> object_weight m"
  using object_weight_value [of "(k, v)" m] by (auto dest: map_of_SomeD)

lemma object_weight_length: "length m \<le> object_weight m"
proof (induction m)
  case (Cons kv m)
  have "0 < key_weight (fst kv) * json_weight (snd kv)"
    using key_weight_pos [of "fst kv"] json_weight_pos [of "snd kv"] by simp
  then obtain w where "key_weight (fst kv) * json_weight (snd kv) = Suc w" by (metis gr0_implies_Suc)
  with Cons show ?case by simp
qed simp

lemma object_weight_insert:
  "object_weight (obj_insert k v m) \<le> object_weight m + key_weight k * json_weight v"
  by (induction k v m rule: obj_insert.induct) auto

lemma object_weight_remove: "object_weight (obj_remove k m) \<le> object_weight m"
  by (induction m) (auto simp: obj_remove_def)

lemma object_weight_or_insert:
  "object_weight (obj_or_insert k v m) \<le> object_weight m + key_weight k * json_weight v"
  using object_weight_insert [of k v m] by (auto simp: obj_or_insert_def split: option.splits)

lemma set_obj_insert_subset: "set (obj_insert k v m) \<subseteq> insert (k, v) (set m)"
  by (induction k v m rule: obj_insert.induct) auto

lemma nullable_const_weight:
  assumes "nullable_const number_text m = Inr m1"
  shows "object_weight m1 \<le> 2 * object_weight m + 3"
proof (cases "map_of m ''const''")
  case None
  with assms show ?thesis by (simp add: nullable_const_def)
next
  case (Some c)
  let ?r = "obj_remove ''const'' m"
  from assms Some obtain kind where m1: "m1 = obj_insert ''enum''
      (JArray (c # (if kind \<noteq> ''null'' then [JNull] else []))) (obj_remove ''enum'' (obj_or_insert ''type'' (JString kind) ?r))"
    by (auto simp: nullable_const_def Let_def result_simps)
  have "object_weight (obj_or_insert ''type'' (JString kind) ?r) \<le> object_weight m + 1"
    using object_weight_or_insert [of "''type''" "JString kind" ?r] object_weight_remove [of "''const''" m]
    by (simp add: key_weight_def)
  then have *: "object_weight (obj_remove ''enum'' (obj_or_insert ''type'' (JString kind) ?r)) \<le> object_weight m + 1"
    using object_weight_remove [of "''enum''"] le_trans by blast
  have "json_weight c \<le> object_weight m" using Some by (rule object_weight_map_of)
  then show ?thesis
    using * object_weight_insert [of "''enum''" "JArray (c # (if kind \<noteq> ''null'' then [JNull] else []))"
        "obj_remove ''enum'' (obj_or_insert ''type'' (JString kind) ?r)"]
    unfolding m1 by (auto simp: key_weight_def split: if_splits)
qed

lemma push_null_enum_weight: "object_weight (push_null_enum m) \<le> 2 * object_weight m + 1"
proof (cases "Option.bind (map_of m ''enum'') as_array")
  case (Some vals)
  then have "map_of m ''enum'' = Some (JArray vals)"
    by (auto simp: Option.bind_eq_Some_conv as_array_Some_iff)
  then have "json_weight (JArray vals) \<le> object_weight m" by (rule object_weight_map_of)
  then show ?thesis
    using Some object_weight_insert [of "''enum''" "JArray (vals @ [JNull])" m]
    by (auto simp: push_null_enum_def key_weight_def)
qed (simp add: push_null_enum_def)

lemma type_or_null_weight: "json_weight (type_or_null t) \<le> json_weight t + 2"
  by (cases t) auto

lemma nullable_weight:
  assumes "make_native_property_nullable number_text v = Inr w"
  shows "json_weight w \<le> 8 * json_weight v + 17"
proof (cases v)
  case (JObject m)
  with assms obtain m1 where m1: "nullable_const number_text m = Inr m1" and
    w: "w = (case map_of m1 ''type'' of
         Some t \<Rightarrow>
           if declares ''null'' t then JObject (push_null_enum m1)
           else if any_of_null m1 then JObject m1
           else JObject (push_null_enum (obj_insert ''type'' (type_or_null t) m1))
       | None \<Rightarrow> if any_of_null m1 then JObject m1 else any_of_nullable (JObject m1))"
    by (auto simp: result_simps)
  note b = nullable_const_weight [OF m1]
  show ?thesis
  proof (cases "map_of m1 ''type''")
    case None
    with b w JObject show ?thesis by (auto simp: any_of_nullable_def key_weight_def)
  next
    case (Some t)
    have "json_weight t \<le> object_weight m1" using Some by (rule object_weight_map_of)
    then have "object_weight (obj_insert ''type'' (type_or_null t) m1) \<le> 2 * object_weight m1 + 2"
      using object_weight_insert [of "''type''" "type_or_null t" m1] type_or_null_weight [of t]
      by (simp add: key_weight_def)
    with b w JObject Some push_null_enum_weight [of m1]
      push_null_enum_weight [of "obj_insert ''type'' (type_or_null t) m1"]
    show ?thesis by (auto split: if_splits)
  qed
qed (use assms in \<open>auto simp: any_of_nullable_def key_weight_def\<close>)

lemma nullable_property_weight:
  assumes "nullable_property number_text required kv = Inr kv1"
  shows "fst kv1 = fst kv" and "json_weight (snd kv1) \<le> 25 * json_weight (snd kv)"
proof -
  show "fst kv1 = fst kv" using assms by (auto simp: nullable_property_def result_simps split: if_splits)
  show "json_weight (snd kv1) \<le> 25 * json_weight (snd kv)"
    using assms json_weight_pos [of "snd kv"]
    by (auto simp: nullable_property_def result_simps split: if_splits dest!: nullable_weight)
qed

lemma nullable_properties_weight:
  assumes "result_map (nullable_property number_text required) pm = Inr pm1"
  shows "object_weight pm1 \<le> 25 * object_weight pm"
  using assms
proof (induction pm arbitrary: pm1)
  case (Cons kv pm)
  then obtain kv1 pm2 where pm1: "pm1 = kv1 # pm2" "nullable_property number_text required kv = Inr kv1"
    "result_map (nullable_property number_text required) pm = Inr pm2"
    by (auto simp: result_simps)
  have "key_weight (fst kv1) * json_weight (snd kv1) \<le> key_weight (fst kv) * (25 * json_weight (snd kv))"
    using nullable_property_weight [OF pm1(2)] by simp
  with Cons.IH [OF pm1(3)] pm1(1) show ?case by simp
qed simp

section \<open>The values of a closed object\<close>

lemma normalize_cases:
  assumes "normalize_native_const_type number_text m0 = Inr m"
  shows "m = m0 \<or> (\<exists>kind. m = obj_insert ''type'' (JString kind) m0 \<and> has_key ''const'' m0)"
  using assms
  by (auto simp: normalize_native_const_type_def result_simps obj_or_insert_def has_key_def split: option.splits)

lemma close_object_values:
  assumes "close_object number_text m0 = Inr m3" and "kv \<in> set m3"
  shows "json_weight (snd kv) < Suc (object_weight m0)"
proof -
  from assms(1) obtain m where m: "normalize_native_const_type number_text m0 = Inr m"
    by (auto simp: close_object_def result_simps)
  from normalize_cases [OF m] have set_m: "\<And>kv. kv \<in> set m \<Longrightarrow> kv \<in> set m0 \<or> json_weight (snd kv) = 1 \<and> m0 \<noteq> []"
    using set_obj_insert_subset [of "''type''"] by (fastforce simp: has_key_def)
  have value_m: "json_weight (snd kv) < Suc (object_weight m0)" if "kv \<in> set m" for kv
  proof -
    have "m0 \<noteq> [] \<Longrightarrow> 1 \<le> object_weight m0" using object_weight_length [of m0] by (cases m0) simp_all
    with set_m [OF that] object_weight_value [of kv m0] show ?thesis by auto
  qed
  show ?thesis
  proof (cases "is_object_schema m")
    case False
    with assms m value_m show ?thesis by (simp add: close_object_def)
  next
    case True
    let ?m1 = "obj_insert ''additionalProperties'' (JBool False) m"
    from True have "m \<noteq> []" by (auto simp: is_object_schema_def has_key_def)
    then have nonempty: "1 \<le> object_weight m0"
      using normalize_cases [OF m] object_weight_length [of m0] by (cases m0) (auto simp: has_key_def)
    from assms(1) m True obtain required m2 where
      m2: "nullable_properties number_text required ?m1 = Inr m2" and
      m3: "m3 = obj_insert ''required'' (JArray (map JString (property_names ?m1))) m2"
      by (auto simp: close_object_def Let_def result_simps split: if_splits)
    have props: "map_of m0 ''properties'' = Some (JObject pm)"
      if "Option.bind (map_of ?m1 ''properties'') as_object = Some pm" for pm
      using that normalize_cases [OF m]
      by (auto simp: Option.bind_eq_Some_conv as_object_Some_iff)
    have value_m1: "json_weight (snd kv) < Suc (object_weight m0)" if "kv \<in> set ?m1" for kv
      using that set_obj_insert_subset [of "''additionalProperties''" "JBool False" m] value_m nonempty by fastforce
    have weight_props: "64 * Suc (object_weight pm) \<le> object_weight m0"
      if "map_of m0 ''properties'' = Some (JObject pm)" for pm
      using object_weight_member [OF map_of_SomeD [OF that]] by (simp add: key_weight_def)
    have value_m2: "json_weight (snd kv) < Suc (object_weight m0)" if "kv \<in> set m2" for kv
    proof (cases "Option.bind (map_of ?m1 ''properties'') as_object")
      case None
      with m2 that value_m1 show ?thesis by (simp add: nullable_properties_def)
    next
      case (Some pm)
      with m2 obtain pm1 where pm1: "result_map (nullable_property number_text required) pm = Inr pm1"
        "m2 = obj_insert ''properties'' (JObject pm1) ?m1"
        by (auto simp: nullable_properties_def result_simps)
      with that have "kv = (''properties'', JObject pm1) \<or> kv \<in> set ?m1"
        using set_obj_insert_subset [of "''properties''" "JObject pm1" ?m1] by auto
      then show ?thesis
      proof
        assume "kv = (''properties'', JObject pm1)"
        then show ?thesis
          using nullable_properties_weight [OF pm1(1)] weight_props [OF props [OF Some]] by simp
      qed (rule value_m1)
    qed
    have "json_weight (JArray (map JString (property_names ?m1))) < Suc (object_weight m0)"
    proof (cases "Option.bind (map_of ?m1 ''properties'') as_object")
      case None
      then show ?thesis using nonempty by (simp add: property_names_def)
    next
      case (Some pm)
      have "sum_list (map (json_weight \<circ> JString) (map fst pm)) = length pm" by (induction pm) auto
      then show ?thesis
        using Some weight_props [OF props [OF Some]] object_weight_length [of pm]
        by (simp add: property_names_def comp_def)
    qed
    moreover from assms(2) m3 have "kv = (''required'', JArray (map JString (property_names ?m1))) \<or> kv \<in> set m2"
      using set_obj_insert_subset [of "''required''" "JArray (map JString (property_names ?m1))" m2] by auto
    ultimately show ?thesis using value_m2 by (elim disjE) simp_all
  qed
qed

section \<open>The recursion\<close>

function close_native_object_schemas :: "(jnumber \<Rightarrow> string) \<Rightarrow> json \<Rightarrow> json provider_result" where
  "close_native_object_schemas number_text (JObject m) =
     result_bind (close_object number_text m) (\<lambda>m1.
     result_bind (result_map (\<lambda>kv. result_bind (close_native_object_schemas number_text (snd kv)) (\<lambda>v.
                    Inr (fst kv, v))) m1) (\<lambda>m2. Inr (JObject m2)))"
| "close_native_object_schemas number_text (JArray items) =
     result_bind (result_map (close_native_object_schemas number_text) items) (\<lambda>ys. Inr (JArray ys))"
| "close_native_object_schemas number_text JNull = Inr JNull"
| "close_native_object_schemas number_text (JBool b) = Inr (JBool b)"
| "close_native_object_schemas number_text (JNumber n) = Inr (JNumber n)"
| "close_native_object_schemas number_text (JString s) = Inr (JString s)"
  by pat_completeness auto
termination
proof (relation "measure (\<lambda>(number_text, v). json_weight v)", goal_cases)
  case (2 number_text m m1 kv)
  then show ?case using close_object_values by simp
next
  case (3 number_text items x)
  then have "json_weight x \<le> sum_list (map json_weight items)" by (intro member_le_sum_list) auto
  then show ?case by simp
qed simp

end
