(* ===== verification/ProviderRequest.thy ===== *)
theory ProviderRequest
  imports ProviderClose Image RuntimePackage Sessions
begin

text \<open>
  The request of the UpAgent provider and its validation (\<open>src/src/bin/vergerail_upagent_provider.rs\<close>). The
  \<open>serde\<close> derivations, the JSON printer, base64, SHA-256 and zlib are parameters; the one part that asks
  the operating system is the check of the staging directory.
\<close>

section \<open>Data\<close>

datatype background_option = OptBackgroundAuto | OptBackgroundTransparent | OptBackgroundOpaque
datatype quality_option = OptQualityAuto | OptQualityLow | OptQualityMedium | OptQualityHigh
datatype size_option = OptSizeAuto | OptSizeSquare | OptSizeLandscape | OptSizePortrait

record image_generation_options =
  io_background :: "background_option option"
  io_size :: "size_option option"
  io_quality :: "quality_option option"

datatype provider_operation = ModelTurn | ImageGenerate

datatype provider_reasoning =
  ReasoningOff | ReasoningLow | ReasoningMedium | ReasoningHigh | ReasoningXHigh | ReasoningMax

datatype provider_image_role = RoleFull | RoleCrop | RoleMask | RoleAlphaCheckerboard | RoleDiff

datatype provider_image_detail = ObservedLow | ObservedAuto | ObservedHigh

datatype provider_message_role = SystemRole | DeveloperRole | UserRole | AssistantRole | ToolRole

record provider_artifact_ref =
  af_id :: string
  af_sha256 :: string
  af_media_type :: string
  af_byte_length :: nat
  af_relative_path :: string

record provider_image_observation =
  im_artifact :: provider_artifact_ref
  im_role :: provider_image_role
  im_detail :: provider_image_detail
  im_caption :: "string option"

datatype provider_content_part = TextPart string | ImagePart provider_image_observation

record provider_tool_call =
  tk_id :: string
  tk_name :: string
  tk_arguments :: json

record provider_message =
  ms_role :: provider_message_role
  ms_content :: string
  ms_content_parts :: "provider_content_part list"
  ms_tool_calls :: "provider_tool_call list"
  ms_tool_call_id :: "string option"
  ms_tool_name :: "string option"
  ms_is_error :: bool

record provider_observation =
  ob_message_index :: nat
  ob_part_index :: nat
  ob_media_type :: string
  ob_sha256 :: string
  ob_width :: "32 word"
  ob_height :: "32 word"
  ob_role :: provider_image_role
  ob_base64 :: string

record provider_tool =
  tl_name :: string
  tl_description :: string
  tl_input_schema :: json
  tl_strict :: bool

record provider_request =
  pq_schema_version :: nat
  pq_request_id :: string
  pq_operation :: provider_operation
  pq_messages :: "provider_message list"
  pq_observations :: "provider_observation list"
  pq_staging_root :: "path option"
  pq_tools :: "provider_tool list"
  pq_reasoning :: provider_reasoning
  pq_timeout_ms :: nat
  pq_maximum_response_bytes :: nat
  pq_prompt :: "string option"
  pq_image_options :: "image_generation_options option"

record provider_codecs =
  pc_print :: "json \<Rightarrow> string + string"
  pc_number_text :: "jnumber \<Rightarrow> string"
  pc_decode :: "string \<Rightarrow> string + byte list"
  pc_sha256 :: "byte list \<Rightarrow> string"
  pc_inflate :: "byte list \<Rightarrow> inflated"

definition MAX_MESSAGE_BYTES :: nat where "MAX_MESSAGE_BYTES = 131072"
definition MAX_MESSAGES :: nat where "MAX_MESSAGES = 128"
definition MAX_TOOLS :: nat where "MAX_TOOLS = 64"
definition MAX_TOOL_CALLS :: nat where "MAX_TOOL_CALLS = 64"
definition MAX_TOOL_CALL_ID_BYTES :: nat where "MAX_TOOL_CALL_ID_BYTES = 192"
definition MAX_TOOL_NAME_BYTES :: nat where "MAX_TOOL_NAME_BYTES = 160"
definition MAX_TOOL_ARGUMENT_BYTES :: nat where "MAX_TOOL_ARGUMENT_BYTES = 262144"
definition MAX_IMAGE_BYTES :: nat where "MAX_IMAGE_BYTES = 8388608"
definition MAX_TEXT_BYTES :: nat where "MAX_TEXT_BYTES = 8388608"
definition MAX_IMAGE_BASE64_BYTES :: nat where "MAX_IMAGE_BASE64_BYTES = 11184812"
definition MAX_PROVIDER_TIMEOUT_MS :: nat where "MAX_PROVIDER_TIMEOUT_MS = 1800000"
definition MAX_SCHEMA_BYTES :: nat where "MAX_SCHEMA_BYTES = 65536"
definition STAGING_ROOT_PREFIX :: string where "STAGING_ROOT_PREFIX = ''vergerail-upagent-request-''"

definition invalid :: "bool \<Rightarrow> string \<Rightarrow> unit provider_result" where
  "invalid c msg = refuse c ''invalid_request'' msg"

definition exceeds :: "bool \<Rightarrow> string \<Rightarrow> unit provider_result" where
  "exceeds c msg = refuse c ''resource_limit'' msg"

section \<open>Texts and messages\<close>

definition validate_text :: "string \<Rightarrow> string \<Rightarrow> unit provider_result" where
  "validate_text s label =
     invalid (s = [] \<or> MAX_MESSAGE_BYTES < length s \<or> has_nul s)
       (label @ '' must be a bounded non-empty UTF-8 value'')"

definition validate_bounded_text :: "string \<Rightarrow> string \<Rightarrow> nat \<Rightarrow> unit provider_result" where
  "validate_bounded_text s label maximum =
     invalid (s = [] \<or> maximum < length s \<or> has_nul s)
       (label @ '' must be a bounded non-empty UTF-8 value'')"

definition validate_tool_call :: "provider_codecs \<Rightarrow> provider_tool_call \<Rightarrow> unit provider_result" where
  "validate_tool_call pc call =
     result_bind (validate_bounded_text (tk_id call) ''tool call id'' MAX_TOOL_CALL_ID_BYTES) (\<lambda>_.
     result_bind (validate_bounded_text (tk_name call) ''tool call name'' MAX_TOOL_NAME_BYTES) (\<lambda>_.
     result_bind (invalid (\<not> is_object (tk_arguments call)) ''tool call arguments must be a JSON object'') (\<lambda>_.
     result_bind (case pc_print pc (tk_arguments call) of
                    Inl t \<Rightarrow> Inl (provider_error ''invalid_request'' t) | Inr bytes \<Rightarrow> Inr bytes) (\<lambda>bytes.
     exceeds (MAX_TOOL_ARGUMENT_BYTES < length bytes)
       ''tool call arguments exceed the bounded byte limit''))))"

definition empty_option :: "string option \<Rightarrow> bool" where
  "empty_option v = (case v of None \<Rightarrow> True | Some s \<Rightarrow> s = [])"

text \<open>What the fields of a message must be for its role.\<close>

definition validate_message_role :: "provider_message \<Rightarrow> unit provider_result" where
  "validate_message_role m =
     (if ms_role m = ToolRole
      then result_bind (invalid (empty_option (ms_tool_call_id m) \<or> empty_option (ms_tool_name m))
                          ''tool messages require non-empty toolCallId and toolName'') (\<lambda>_.
           invalid (ms_tool_calls m \<noteq> []) ''tool messages cannot contain tool calls'')
      else result_bind (invalid (ms_tool_call_id m \<noteq> None \<or> ms_tool_name m \<noteq> None)
                          ''only tool messages may contain toolCallId and toolName'') (\<lambda>_.
           invalid (ms_role m \<noteq> AssistantRole \<and> ms_tool_calls m \<noteq> [])
             ''only assistant messages may contain tool calls''))"

definition check_each :: "('a \<Rightarrow> unit provider_result) \<Rightarrow> 'a list \<Rightarrow> unit provider_result" where
  "check_each f xs = result_fold (\<lambda>x _. f x) xs ()"

definition validate_message :: "provider_codecs \<Rightarrow> provider_message \<Rightarrow> unit provider_result" where
  "validate_message pc m =
     result_bind (exceeds (MAX_MESSAGE_BYTES < length (ms_content m))
                    ''message content exceeds the bounded byte limit'') (\<lambda>_.
     result_bind (if ms_role m = AssistantRole
                  then invalid (ms_content m = [] \<and> ms_tool_calls m = [])
                         ''assistant messages require content or at least one tool call''
                  else invalid (ms_content m = []) ''non-assistant messages require non-empty content'') (\<lambda>_.
     result_bind (validate_message_role m) (\<lambda>_.
     result_bind (exceeds (MAX_TOOL_CALLS < length (ms_tool_calls m))
                    ''message tool calls exceed the bounded provider limit'') (\<lambda>_.
     check_each (validate_tool_call pc) (ms_tool_calls m)))))"

section \<open>Observations\<close>

definition is_ascii_control :: "char \<Rightarrow> bool" where
  "is_ascii_control c \<longleftrightarrow> (of_char c :: nat) < 32 \<or> (of_char c :: nat) = 127"

definition validate_artifact_location :: "provider_artifact_ref \<Rightarrow> unit provider_result" where
  "validate_artifact_location a =
     result_bind (invalid (af_id a = [] \<or> 512 < length (af_id a) \<or> list_ex is_ascii_control (af_id a)
                           \<or> af_relative_path a = [] \<or> 4096 < length (af_relative_path a)
                           \<or> has_nul (af_relative_path a))
                    ''image artifact location metadata is invalid'') (\<lambda>_.
     (let p = path_of (af_relative_path a) in
      invalid (path_is_absolute p \<or> list_ex (\<lambda>c. c = ParentDir \<or> c = RootDir) p)
        ''image artifact relativePath must stay within its artifact root''))"

definition is_lower_hex_digest :: "string \<Rightarrow> bool" where
  "is_lower_hex_digest s \<longleftrightarrow> length s = 64 \<and> list_all is_lower_hex s"

definition sha256_hex :: "provider_codecs \<Rightarrow> byte list \<Rightarrow> string" where
  "sha256_hex pc bytes = format_digest (pc_sha256 pc bytes)"

text \<open>\<open>Vec::get\<close>.\<close>

definition item_at :: "'a list \<Rightarrow> nat \<Rightarrow> 'a option" where
  "item_at xs i = (if i < length xs then Some (xs ! i) else None)"

text \<open>The image content part that an observation names.\<close>

definition observed_part :: "provider_request \<Rightarrow> provider_observation \<Rightarrow> provider_image_observation provider_result" where
  "observed_part q ob =
     result_bind (ok_or (provider_error ''invalid_request'' ''image observation message index is invalid'')
                    (item_at (pq_messages q) (ob_message_index ob))) (\<lambda>m.
     result_bind (ok_or (provider_error ''invalid_request'' ''image observation part index is invalid'')
                    (item_at (ms_content_parts m) (ob_part_index ob))) (\<lambda>part.
     case part of
       ImagePart img \<Rightarrow> Inr img
     | TextPart _ \<Rightarrow> Inl (provider_error ''invalid_request''
                           ''resolved observation does not reference an image content part'')))"

definition decode_observation :: "provider_codecs \<Rightarrow> provider_observation \<Rightarrow> byte list provider_result" where
  "decode_observation pc ob =
     (case pc_decode pc (ob_base64 ob) of
        Inl t \<Rightarrow> Inl (provider_error ''invalid_request'' (''image observation base64 is invalid: '' @ t))
      | Inr bytes \<Rightarrow> Inr bytes)"

definition observation_dimensions :: "provider_codecs \<Rightarrow> byte list \<Rightarrow> (32 word \<times> 32 word) provider_result" where
  "observation_dimensions pc bytes =
     (case validate_png_dimensions (pc_inflate pc) bytes of
        Inl e \<Rightarrow> Inl (provider_error ''invalid_request''
                       (''image observation PNG validation failed: '' @ error_to_string e))
      | Inr sides \<Rightarrow> Inr sides)"

text \<open>One pass of the loop: the bytes so far and the locations seen. A \<open>u64\<close> fits a \<open>usize\<close> here.\<close>

definition check_observation ::
  "provider_codecs \<Rightarrow> provider_request \<Rightarrow> provider_observation \<Rightarrow> nat \<times> (nat \<times> nat) list \<Rightarrow>
   (nat \<times> (nat \<times> nat) list) provider_result"
where
  "check_observation pc q ob = (\<lambda>(aggregate, identities).
     let here = (ob_message_index ob, ob_part_index ob) in
     result_bind (observed_part q ob) (\<lambda>img.
     let artifact = im_artifact img in
     result_bind (invalid (here \<in> set identities) ''duplicate image observation location'') (\<lambda>_.
     result_bind (validate_artifact_location artifact) (\<lambda>_.
     result_bind (invalid (af_media_type artifact \<noteq> ''image/png'' \<or> ob_media_type ob \<noteq> af_media_type artifact
                           \<or> ob_role ob \<noteq> im_role img)
                    ''image observation metadata does not match its content part'') (\<lambda>_.
     result_bind (exceeds (af_byte_length artifact = 0 \<or> MAX_IMAGE_BYTES < af_byte_length artifact
                           \<or> MAX_IMAGE_BASE64_BYTES < length (ob_base64 ob))
                    ''image observation exceeds the bounded byte limit'') (\<lambda>_.
     result_bind (decode_observation pc ob) (\<lambda>bytes.
     result_bind (invalid (bytes = [] \<or> length bytes \<noteq> af_byte_length artifact \<or> MAX_IMAGE_BYTES < length bytes)
                    ''image observation decoded length does not match its artifact'') (\<lambda>_.
     result_bind (invalid (ob_sha256 ob \<noteq> af_sha256 artifact \<or> \<not> is_lower_hex_digest (ob_sha256 ob)
                           \<or> sha256_hex pc bytes \<noteq> ob_sha256 ob)
                    ''image observation bytes do not match their SHA-256 identity'') (\<lambda>_.
     result_bind (observation_dimensions pc bytes) (\<lambda>(width, height).
     result_bind (invalid (ob_width ob \<noteq> width \<or> ob_height ob \<noteq> height)
                    ''image observation dimensions do not match the PNG payload'') (\<lambda>_.
     result_bind (ok_or (provider_error ''resource_limit'' ''image observation aggregate byte count overflowed'')
                    (checked_add_us aggregate (length bytes))) (\<lambda>aggregate1.
     result_bind (exceeds (33554432 < aggregate1)
                    ''image observations exceed the 32 MiB aggregate byte bound'') (\<lambda>_.
     Inr (aggregate1, here # identities))))))))))))))"

definition is_image_part :: "provider_content_part \<Rightarrow> bool" where
  "is_image_part part = (case part of ImagePart _ \<Rightarrow> True | TextPart _ \<Rightarrow> False)"

definition validate_observations :: "provider_codecs \<Rightarrow> provider_request \<Rightarrow> unit provider_result" where
  "validate_observations pc q =
     (let image_parts = length (filter is_image_part (concat (map ms_content_parts (pq_messages q)))) in
      result_bind (exceeds (16 < length (pq_observations q))
                     ''model turn contains too many image observations'') (\<lambda>_.
      result_bind (invalid (image_parts \<noteq> length (pq_observations q))
                     ''every image content part must have exactly one resolved observation'') (\<lambda>_.
      result_bind (result_fold (check_observation pc q) (pq_observations q) (0, [])) (\<lambda>_. Inr ()))))"

end
