(* ===== verification/ProviderValidate.thy ===== *)
theory ProviderValidate
  imports ProviderRequest
begin

text \<open>
  The rest of the validation of a provider request (\<open>src/src/bin/vergerail_upagent_provider.rs\<close>): the
  staging directory, the tools and the output schema of a model turn; and \<open>validate_request\<close> itself. A
  provider step is a step over the calls of the operating system whose value is a provider result.
\<close>

type_synonym 'a provider = "'a provider_result os"

definition pv_result :: "'a provider_result \<Rightarrow> 'a provider" where
  "pv_result r = os_return r"

definition pv_return :: "'a \<Rightarrow> 'a provider" where
  "pv_return x = os_return (Inr x)"

definition pv_fail :: "provider_failure \<Rightarrow> 'a provider" where
  "pv_fail e = os_return (Inl e)"

definition pv_bind :: "'a provider \<Rightarrow> ('a \<Rightarrow> 'b provider) \<Rightarrow> 'b provider" where
  "pv_bind m f = os_bind m (\<lambda>r. case r of Inl e \<Rightarrow> os_return (Inl e) | Inr x \<Rightarrow> f x)"

text \<open>\<open>map_err\<close> of an \<open>io::Result\<close> with the text of its error.\<close>

definition pv_io :: "(string \<Rightarrow> provider_failure) \<Rightarrow> (io_error + 'a) os \<Rightarrow> 'a provider" where
  "pv_io f m = os_bind m (\<lambda>r. os_return (case r of Inl e \<Rightarrow> Inl (f (io_text e)) | Inr x \<Rightarrow> Inr x))"

section \<open>The staging directory\<close>

definition absolute_clean_path :: "path \<Rightarrow> bool" where
  "absolute_clean_path p \<longleftrightarrow>
     path_is_absolute p \<and> p \<noteq> [] \<and> \<not> has_nul (path_display p) \<and> ParentDir \<notin> set p"

definition staging_name :: "path \<Rightarrow> bool" where
  "staging_name p =
     (if p = [] then False
      else case last p of
        Normal s \<Rightarrow> utf8_valid s \<and> starts_with s STAGING_ROOT_PREFIX
      | _ \<Rightarrow> False)"

definition staging_error :: "string \<Rightarrow> provider_failure" where
  "staging_error msg = provider_error ''invalid_request'' msg"

definition validate_staging_root :: "path \<Rightarrow> path \<Rightarrow> unit provider" where
  "validate_staging_root temp_dir p =
     pv_bind (pv_result (invalid (\<not> absolute_clean_path p \<or> path_parent p \<noteq> Some temp_dir \<or> \<not> staging_name p)
       ''stagingRoot must be an exact UpAgent request directory under the system temporary directory'')) (\<lambda>_.
     pv_bind (pv_io (\<lambda>t. staging_error (''stagingRoot is not an accessible request directory: '' @ t))
                (os_lstat p)) (\<lambda>md.
     pv_bind (pv_result (invalid (md_kind md \<noteq> Directory) ''stagingRoot must be a non-symlink directory'')) (\<lambda>_.
     pv_bind (pv_io (\<lambda>t. staging_error (''stagingRoot cannot be inspected safely: '' @ t))
                (ask os_dir (ReadDir p))) (\<lambda>entries.
     pv_bind (case entries of
                [] \<Rightarrow> pv_return ()
              | Inl e # _ \<Rightarrow> pv_fail (staging_error (''stagingRoot cannot be inspected safely: '' @ io_text e))
              | Inr _ # _ \<Rightarrow> pv_fail (staging_error
                               ''stagingRoot must be an empty request directory owned by UpAgent'')) (\<lambda>_.
     pv_result (invalid (md_mode md AND 4095 \<noteq> 448) ''stagingRoot must have private 0700 permissions''))))))"

section \<open>Tools and the output schema\<close>

definition jint :: "nat \<Rightarrow> json" where
  "jint n = JNumber (JInt (int n))"

definition tool_property :: "provider_tool \<Rightarrow> json" where
  "tool_property t =
     jobj [(''type'', JString ''array''), (''maxItems'', jint MAX_TOOL_CALLS),
           (''items'', jobj [(''type'', JString ''object''), (''additionalProperties'', JBool False),
              (''required'', JArray [JString ''id'', JString ''arguments'']),
              (''properties'', jobj
                 [(''id'', jobj [(''type'', JString ''string''), (''maxLength'', jint MAX_TOOL_CALL_ID_BYTES)]),
                  (''arguments'', tl_input_schema t)])])]"

definition tool_calls_property :: "provider_tool list \<Rightarrow> json" where
  "tool_calls_property tools =
     jobj [(''type'', JString ''object''), (''additionalProperties'', JBool False),
           (''required'', JArray (map (\<lambda>t. JString (tl_name t)) tools)),
           (''properties'', jobj (map (\<lambda>t. (tl_name t, tool_property t)) tools))]"

definition open_output_schema :: "provider_tool list \<Rightarrow> json" where
  "open_output_schema tools =
     (let text_property = (''text'', jobj [(''type'', JString ''string''), (''maxLength'', jint MAX_TEXT_BYTES)]);
          more_properties = (if tools = [] then [] else [(''toolCalls'', tool_calls_property tools)])
      in jobj [(''type'', JString ''object''), (''additionalProperties'', JBool False),
               (''required'', JArray (JString ''text'' # (if tools = [] then [] else [JString ''toolCalls'']))),
               (''properties'', jobj (text_property # more_properties))])"

definition model_output_schema :: "(jnumber \<Rightarrow> string) \<Rightarrow> provider_request \<Rightarrow> json provider_result" where
  "model_output_schema number_text q =
     close_native_object_schemas number_text (open_output_schema (pq_tools q))"

text \<open>One pass over the tools: the names seen so far.\<close>

definition check_tool :: "provider_tool \<Rightarrow> string list \<Rightarrow> string list provider_result" where
  "check_tool t names =
     result_bind (validate_bounded_text (tl_name t) ''tool name'' MAX_TOOL_NAME_BYTES) (\<lambda>_.
     result_bind (validate_text (tl_description t) ''tool description'') (\<lambda>_.
     result_bind (invalid (\<not> tl_strict t) ''tools must use strict object schemas'') (\<lambda>_.
     result_bind (invalid (jget ''type'' (tl_input_schema t) \<noteq> Some (JString ''object'')
                           \<or> jget ''nullable'' (tl_input_schema t) = Some (JBool True))
                    ''tool inputSchema root must explicitly declare type=object'') (\<lambda>_.
     result_bind (invalid (tl_name t \<in> set names) ''tool names must be unique'') (\<lambda>_.
     Inr (tl_name t # names))))))"

definition check_output_schema :: "provider_codecs \<Rightarrow> provider_request \<Rightarrow> unit provider_result" where
  "check_output_schema pc q =
     result_bind (model_output_schema (pc_number_text pc) q) (\<lambda>schema.
     case pc_print pc schema of
       Inl t \<Rightarrow> Inl (provider_error ''invalid_request'' (''could not encode model output schema: '' @ t))
     | Inr bytes \<Rightarrow> exceeds (MAX_SCHEMA_BYTES < length bytes)
                     ''model output schema exceeds the 64 KiB native bound'')"

section \<open>The request\<close>

fun maximum_response_cap :: "provider_operation \<Rightarrow> nat" where
  "maximum_response_cap ModelTurn = MAX_TEXT_BYTES"
| "maximum_response_cap ImageGenerate = MAX_IMAGE_BYTES"

definition validate_envelope :: "provider_request \<Rightarrow> unit provider_result" where
  "validate_envelope q =
     result_bind (invalid (pq_schema_version q \<noteq> PROTOCOL_VERSION \<or> is_blank (pq_request_id q)
                           \<or> has_nul (pq_request_id q))
                    ''schemaVersion must be 2 and requestId must be non-empty'') (\<lambda>_.
     result_bind (invalid (128 < length (pq_request_id q)) ''requestId is too long'') (\<lambda>_.
     result_bind (invalid (pq_timeout_ms q = 0 \<or> MAX_PROVIDER_TIMEOUT_MS < pq_timeout_ms q)
                    ''timeoutMs is outside the bounded provider range'') (\<lambda>_.
     result_bind (invalid (pq_maximum_response_bytes q = 0
                           \<or> maximum_response_cap (pq_operation q) < pq_maximum_response_bytes q)
                    ''maximumResponseBytes is outside the bounded provider range'') (\<lambda>_.
     exceeds (MAX_MESSAGES < length (pq_messages q) \<or> MAX_TOOLS < length (pq_tools q))
       ''messages or tools exceed the bounded provider limit''))))"

definition validate_operation :: "provider_request \<Rightarrow> unit provider_result" where
  "validate_operation q =
     (if pq_operation q = ImageGenerate
      then result_bind (ok_or (provider_error ''invalid_request'' ''image_generate requires prompt'')
                          (pq_prompt q)) (\<lambda>prompt.
           result_bind (validate_text prompt ''prompt'') (\<lambda>_.
           invalid (pq_messages q \<noteq> [] \<or> pq_observations q \<noteq> [] \<or> pq_tools q \<noteq> []
                    \<or> pq_staging_root q \<noteq> None)
             ''image_generate does not accept model messages, observations, or tools''))
      else if pq_prompt q \<noteq> None
      then Inl (provider_error ''invalid_request'' ''model_turn does not accept prompt; provide messages'')
      else if pq_image_options q \<noteq> None
      then Inl (provider_error ''invalid_request'' ''imageOptions is only valid for image_generate'')
      else invalid (pq_messages q = []) ''model_turn requires at least one message'')"

definition validate_request_staging :: "path \<Rightarrow> provider_request \<Rightarrow> unit provider" where
  "validate_request_staging temp_dir q =
     (if pq_observations q = []
      then pv_result (invalid (pq_staging_root q \<noteq> None)
             ''stagingRoot is only valid when model_turn carries observations'')
      else pv_bind (pv_result (ok_or (provider_error ''invalid_request''
                       ''model_turn observations require the UpAgent-owned stagingRoot'') (pq_staging_root q)))
             (validate_staging_root temp_dir))"

definition validate_contents :: "provider_codecs \<Rightarrow> provider_request \<Rightarrow> provider_request provider_result" where
  "validate_contents pc q =
     result_bind (check_each (validate_message pc) (pq_messages q)) (\<lambda>_.
     result_bind (validate_observations pc q) (\<lambda>_.
     result_bind (result_fold check_tool (pq_tools q) []) (\<lambda>_.
     result_bind (if pq_operation q = ModelTurn then check_output_schema pc q else Inr ()) (\<lambda>_.
     Inr q))))"

definition validate_request :: "provider_codecs \<Rightarrow> path \<Rightarrow> provider_request \<Rightarrow> provider_request provider" where
  "validate_request pc temp_dir q =
     pv_bind (pv_result (validate_envelope q)) (\<lambda>_.
     pv_bind (pv_result (validate_operation q)) (\<lambda>_.
     pv_bind (validate_request_staging temp_dir q) (\<lambda>_.
     pv_result (validate_contents pc q))))"

section \<open>Inversion\<close>

lemma pv_bind_Inr [os_Inr]:
  "pv_bind m f v log = (Inr (Inr y), log2) \<longleftrightarrow>
     (\<exists>x log1. m v log = (Inr (Inr x), log1) \<and> f x v log1 = (Inr (Inr y), log2))"
  by (auto simp: pv_bind_def os_bind_def split: prod.splits sum.splits)

lemma pv_bind_apply [os_simps]:
  "pv_bind m f v log = (case m v log of
      (Inl e, log1) \<Rightarrow> (Inl e, log1)
    | (Inr (Inl e), log1) \<Rightarrow> (Inr (Inl e), log1)
    | (Inr (Inr x), log1) \<Rightarrow> f x v log1)"
  by (auto simp: pv_bind_def os_bind_def split: prod.splits sum.splits)

lemma pv_result_apply [simp, os_simps]: "pv_result r v log = (Inr r, log)"
  by (simp add: pv_result_def)

lemma pv_return_apply [simp, os_simps]: "pv_return x v log = (Inr (Inr x), log)"
  by (simp add: pv_return_def)

lemma pv_fail_apply [simp, os_simps]: "pv_fail e v log = (Inr (Inl e), log)"
  by (simp add: pv_fail_def)

lemma pv_result_Inr [os_Inr]: "pv_result r v log = (Inr x, log1) \<longleftrightarrow> r = x \<and> log1 = log"
  by auto

lemma pv_io_Inr [os_Inr]: "pv_io f m v log = (Inr (Inr y), log1) \<longleftrightarrow> m v log = (Inr (Inr y), log1)"
  by (auto simp: pv_io_def os_bind_def split: prod.splits sum.splits)

lemma pv_io_ask [os_simps]:
  "pv_io f (ask reply c) v log =
     (Inr (case reply v (c # log) of Inl e \<Rightarrow> Inl (f (io_text e)) | Inr x \<Rightarrow> Inr x), c # log)"
  by (simp add: pv_io_def os_bind_def split: sum.splits)

lemma os_keeps_pv_bind [os_keeps]:
  "os_keeps I m \<Longrightarrow> (\<And>x. os_keeps I (f x)) \<Longrightarrow> os_keeps I (pv_bind m f)"
  unfolding pv_bind_def by (intro os_keeps_bind os_keeps_sum os_keeps)

lemma os_keeps_pv_result [os_keeps]: "os_keeps I (pv_result r)"
  by (simp add: pv_result_def os_keeps)

lemma os_keeps_pv_return [os_keeps]: "os_keeps I (pv_return x)"
  by (simp add: pv_return_def os_keeps)

lemma os_keeps_pv_fail [os_keeps]: "os_keeps I (pv_fail e)"
  by (simp add: pv_fail_def os_keeps)

lemma os_keeps_pv_io [os_keeps]: "os_keeps I m \<Longrightarrow> os_keeps I (pv_io f m)"
  unfolding pv_io_def by (intro os_keeps_bind) (auto intro: os_keeps)

end
