(* ===== verification/ProviderPrompt.thy ===== *)
theory ProviderPrompt
  imports ProviderValidate "HOL-Library.Product_Lexorder"
begin

text \<open>
  What the UpAgent provider makes of a validated request (\<open>src/src/bin/vergerail_upagent_provider.rs\<close>): the
  observations with their bytes, the private files they are staged in, and the prompt.
\<close>

section \<open>Staged observations\<close>

record validated_observation =
  vo_message_index :: nat
  vo_part_index :: nat
  vo_detail :: provider_image_detail
  vo_bytes :: "byte list"

record staged_observation =
  sg_message_index :: nat
  sg_part_index :: nat
  sg_detail :: provider_image_detail
  sg_path :: path

record observation_staging =
  st_root :: "path option"
  st_entries :: "staged_observation list"
  st_cleaned :: bool

definition validated_observation_of ::
  "provider_codecs \<Rightarrow> provider_request \<Rightarrow> provider_observation \<Rightarrow> validated_observation provider_result"
where
  "validated_observation_of pc q ob =
     result_bind (observed_part q ob) (\<lambda>img.
     result_bind (decode_observation pc ob) (\<lambda>bytes.
     Inr \<lparr>vo_message_index = ob_message_index ob, vo_part_index = ob_part_index ob,
          vo_detail = im_detail img, vo_bytes = bytes\<rparr>))"

definition observation_key :: "validated_observation \<Rightarrow> nat \<times> nat" where
  "observation_key vo = (vo_message_index vo, vo_part_index vo)"

definition validated_observations ::
  "provider_codecs \<Rightarrow> provider_request \<Rightarrow> validated_observation list provider_result"
where
  "validated_observations pc q =
     result_bind (validate_observations pc q) (\<lambda>_.
     result_bind (result_map (validated_observation_of pc q) (pq_observations q)) (\<lambda>observations.
     Inr (sort_key observation_key observations)))"

text \<open>The bytes of a file as the calls take them.\<close>

definition chars_of :: "byte list \<Rightarrow> string" where
  "chars_of bytes = map (\<lambda>b. char_of (unat b)) bytes"

definition staging_failure :: "string \<Rightarrow> string \<Rightarrow> provider_failure" where
  "staging_failure what t =
     provider_error ''provider_failed'' (''could not '' @ what @ '' private image staging file: '' @ t)"

definition stage_observation :: "path \<Rightarrow> nat \<Rightarrow> validated_observation \<Rightarrow> staged_observation provider" where
  "stage_observation root index vo =
     (let p = path_join root [Normal (''observation-'' @ show_nat index @ ''.png'')] in
      pv_bind (pv_io (staging_failure ''create'') (ask os_unit (CreateNew p))) (\<lambda>_.
      pv_bind (pv_io (staging_failure ''secure'') (ask os_unit (SetMode p 384))) (\<lambda>_.
      pv_bind (pv_io (staging_failure ''write'') (ask os_unit (WriteAll p (chars_of (vo_bytes vo))))) (\<lambda>_.
      pv_bind (pv_io (staging_failure ''flush'') (ask os_unit (SyncAll p))) (\<lambda>_.
      pv_return \<lparr>sg_message_index = vo_message_index vo, sg_part_index = vo_part_index vo,
                 sg_detail = vo_detail vo, sg_path = p\<rparr>)))))"

fun stage_observations ::
  "path \<Rightarrow> nat \<Rightarrow> validated_observation list \<Rightarrow> staged_observation list provider"
where
  "stage_observations root index [] = pv_return []"
| "stage_observations root index (vo # vos) =
     pv_bind (stage_observation root index vo) (\<lambda>entry.
     pv_bind (stage_observations root (Suc index) vos) (\<lambda>entries. pv_return (entry # entries)))"

text \<open>\<open>cleanup\<close> removes the directory once.\<close>

definition staging_cleanup :: "observation_staging \<Rightarrow> (unit provider_result \<times> observation_staging) os" where
  "staging_cleanup st =
     (if st_cleaned st then os_return (Inr (), st)
      else case st_root st of
        None \<Rightarrow> os_return (Inr (), st\<lparr>st_cleaned := True\<rparr>)
      | Some root \<Rightarrow>
          os_bind (ask os_unit (RemoveDirAll root)) (\<lambda>r. os_return (case r of
            Inl e \<Rightarrow>
              if io_kind e = NotFound then (Inr (), st\<lparr>st_cleaned := True\<rparr>)
              else (Inl (provider_error ''provider_failed''
                      (''could not remove private image staging directory: '' @ io_text e)), st)
          | Inr _ \<Rightarrow> (Inr (), st\<lparr>st_cleaned := True\<rparr>))))"

definition combine_staging :: "'a provider_result \<Rightarrow> unit provider_result \<Rightarrow> 'a provider_result" where
  "combine_staging outcome cleanup =
     (case (outcome, cleanup) of
        (Inr x, Inr _) \<Rightarrow> Inr x
      | (Inl e, Inr _) \<Rightarrow> Inl e
      | (Inr _, Inl c) \<Rightarrow> Inl c
      | (Inl e, Inl c) \<Rightarrow> Inl (provider_error (pf_code e)
          (pf_message e @ ''; observation staging cleanup also failed: '' @ pf_message c)))"

definition finish_with_staging_cleanup :: "observation_staging \<Rightarrow> 'a provider_result \<Rightarrow> 'a provider" where
  "finish_with_staging_cleanup st outcome =
     os_bind (staging_cleanup st) (\<lambda>(cleanup, _). os_return (combine_staging outcome cleanup))"

definition staging_create ::
  "path \<Rightarrow> validated_observation list \<Rightarrow> path option \<Rightarrow> observation_staging provider"
where
  "staging_create temp_dir observations requested_root =
     (if observations = []
      then if requested_root \<noteq> None
           then pv_fail (provider_error ''invalid_request'' ''stagingRoot is only valid when observations are present'')
           else pv_return \<lparr>st_root = None, st_entries = [], st_cleaned = True\<rparr>
      else case requested_root of
        None \<Rightarrow> pv_fail (provider_error ''invalid_request''
                          ''observations require the UpAgent-owned stagingRoot'')
      | Some root \<Rightarrow>
          pv_bind (validate_staging_root temp_dir root) (\<lambda>_.
          os_bind (stage_observations root 0 observations) (\<lambda>staged. case staged of
            Inl e \<Rightarrow> finish_with_staging_cleanup
                       \<lparr>st_root = Some root, st_entries = [], st_cleaned = False\<rparr> (Inl e)
          | Inr entries \<Rightarrow> pv_return \<lparr>st_root = Some root, st_entries = entries, st_cleaned = False\<rparr>)))"

section \<open>The prompt\<close>

fun role_text :: "provider_message_role \<Rightarrow> string" where
  "role_text SystemRole = ''system''"
| "role_text DeveloperRole = ''developer''"
| "role_text UserRole = ''user''"
| "role_text AssistantRole = ''assistant''"
| "role_text ToolRole = ''tool''"

fun image_role_text :: "provider_image_role \<Rightarrow> string" where
  "image_role_text RoleFull = ''full''"
| "image_role_text RoleCrop = ''crop''"
| "image_role_text RoleMask = ''mask''"
| "image_role_text RoleAlphaCheckerboard = ''alpha_checkerboard''"
| "image_role_text RoleDiff = ''diff''"

fun observed_detail_text :: "provider_image_detail \<Rightarrow> string" where
  "observed_detail_text ObservedLow = ''low''"
| "observed_detail_text ObservedAuto = ''auto''"
| "observed_detail_text ObservedHigh = ''high''"

definition string_or_null :: "string option \<Rightarrow> json" where
  "string_or_null v = (case v of None \<Rightarrow> JNull | Some s \<Rightarrow> JString s)"

definition tool_call_value :: "provider_tool_call \<Rightarrow> json" where
  "tool_call_value call =
     jobj [(''id'', JString (tk_id call)), (''name'', JString (tk_name call)), (''arguments'', tk_arguments call)]"

definition tool_value :: "provider_tool \<Rightarrow> json" where
  "tool_value t =
     jobj [(''name'', JString (tl_name t)), (''description'', JString (tl_description t)),
           (''inputSchema'', tl_input_schema t), (''strict'', JBool (tl_strict t))]"

text \<open>The derived serialization of a message with empty content parts; the caller puts the parts in.\<close>

definition message_value :: "provider_message \<Rightarrow> json_object" where
  "message_value m =
     obj_of [(''role'', JString (role_text (ms_role m))), (''content'', JString (ms_content m)),
             (''contentParts'', JArray []), (''toolCalls'', JArray (map tool_call_value (ms_tool_calls m))),
             (''toolCallId'', string_or_null (ms_tool_call_id m)),
             (''toolName'', string_or_null (ms_tool_name m)), (''isError'', JBool (ms_is_error m))]"

definition render_part ::
  "staged_observation list \<Rightarrow> nat \<Rightarrow> nat \<Rightarrow> provider_content_part \<Rightarrow> json provider_result"
where
  "render_part observations message_index part_index part =
     (case part of
        TextPart s \<Rightarrow> Inr (jobj [(''type'', JString ''text''), (''text'', JString s)])
      | ImagePart img \<Rightarrow>
          result_bind (ok_or (provider_error ''invalid_request''
                                ''image prompt mapping is missing a staged observation'')
            (position (\<lambda>sg. sg_message_index sg = message_index \<and> sg_part_index sg = part_index) observations))
            (\<lambda>index. Inr (jobj [(''type'', JString ''imageObservation''), (''observationIndex'', jint index),
               (''role'', JString (image_role_text (im_role img))),
               (''detail'', JString (observed_detail_text (im_detail img))),
               (''caption'', string_or_null (im_caption img))])))"

definition render_prompt_message ::
  "staged_observation list \<Rightarrow> nat \<Rightarrow> provider_message \<Rightarrow> json provider_result"
where
  "render_prompt_message observations message_index m =
     result_bind (result_map_from 0 (render_part observations message_index) (ms_content_parts m)) (\<lambda>parts.
     Inr (JObject (if parts = [] then message_value m
                   else obj_insert ''contentParts'' (JArray parts) (message_value m))))"

record rendered_model_prompt =
  rp_prompt :: string
  rp_base_instructions :: "string option"
  rp_developer_instructions :: "string option"

definition in_transcript :: "provider_message \<Rightarrow> bool" where
  "in_transcript m \<longleftrightarrow> ms_role m \<in> {UserRole, AssistantRole, ToolRole}"

definition render_transcript_message ::
  "staged_observation list \<Rightarrow> nat \<Rightarrow> provider_message \<Rightarrow> json list provider_result"
where
  "render_transcript_message observations message_index m =
     (if in_transcript m
      then result_bind (render_prompt_message observations message_index m) (\<lambda>v. Inr [v]) else Inr [])"

definition contents_of :: "provider_message_role \<Rightarrow> provider_message list \<Rightarrow> string list" where
  "contents_of role ms = map ms_content (filter (\<lambda>m. ms_role m = role) ms)"

definition joined_instructions :: "string list \<Rightarrow> string option" where
  "joined_instructions parts = (if parts = [] then None else Some (join_with [CHR 0x0A, CHR 0x0A] parts))"

definition prompt_text :: "string \<Rightarrow> string" where
  "prompt_text encoded =
     ''Process the provider-neutral conversation below. Reply with exactly one compact JSON object matching the native output schema, with no markdown or surrounding text. When tools are advertised, toolCalls is an object containing every advertised tool name as a key; each value is an array of {id, arguments} calls, and an unused tool must use an empty array. With no tools, return only the text property. Tool arguments must match the advertised strict schemas.''
     @ CHR 0x0A # encoded"

definition render_model_prompt ::
  "provider_codecs \<Rightarrow> provider_request \<Rightarrow> staged_observation list \<Rightarrow> rendered_model_prompt provider_result"
where
  "render_model_prompt pc q observations =
     result_bind (result_map_from 0 (render_transcript_message observations) (pq_messages q)) (\<lambda>transcript.
     case pc_print pc (jobj [(''messages'', JArray (concat transcript)),
                             (''tools'', JArray (map tool_value (pq_tools q)))]) of
       Inl t \<Rightarrow> Inl (provider_error ''invalid_request'' (''could not encode provider-neutral turn: '' @ t))
     | Inr encoded \<Rightarrow>
         Inr \<lparr>rp_prompt = prompt_text encoded,
              rp_base_instructions = joined_instructions (contents_of SystemRole (pq_messages q)),
              rp_developer_instructions = joined_instructions (contents_of DeveloperRole (pq_messages q))\<rparr>)"

end
