(* ===== verification/ProviderTurn.thy ===== *)
theory ProviderTurn
  imports ProviderPrompt ClientBase
begin

text \<open>
  A model turn of the UpAgent provider (\<open>src/src/bin/vergerail_upagent_provider.rs\<close>): the session and its run,
  what may happen in it, the answer that is accepted, and the order in which session and staging are
  cleaned up. The calls of the client library are answered by \<open>provider_library\<close>, a function of the log
  as the other calls are; a call that is not over when the operation's time is up ends the turn where it
  stands, which is the failed step of the step monad.
\<close>

record native_tool_call =
  nt_id :: string
  nt_arguments :: json

record provider_usage =
  pu_input_tokens :: "nat option"
  pu_output_tokens :: "nat option"
  pu_total_tokens :: "nat option"

record model_response =
  mr_schema_version :: nat
  mr_request_id :: string
  mr_operation :: provider_operation
  mr_text :: string
  mr_tool_calls :: "provider_tool_call list"
  mr_usage :: "provider_usage option"

text \<open>The \<open>serde\<close> readers of the two bodies; a \<open>BTreeMap\<close> is its list of entries.\<close>

record body_codecs =
  bc_text :: "string \<Rightarrow> string + string"
  bc_tools :: "string \<Rightarrow> string + (string \<times> (string \<times> native_tool_call list) list)"

record provider_library =
  lb_expired :: "os_call list \<Rightarrow> bool"
  lb_session :: "session_options \<Rightarrow> os_call list \<Rightarrow> error + unit"
  lb_start :: "turn_input list \<Rightarrow> os_call list \<Rightarrow> error + unit"
  lb_events :: "os_call list \<Rightarrow> (error + event) list"
  lb_deny :: "os_call list \<Rightarrow> error + unit"
  lb_audit :: "string \<Rightarrow> os_call list \<Rightarrow> error + turn_audit"
  lb_close :: "os_call list \<Rightarrow> error + unit"

text \<open>An awaited call inside the time of the operation.\<close>

definition await :: "provider_library \<Rightarrow> string \<Rightarrow> (os_call list \<Rightarrow> error + 'a) \<Rightarrow> (error + 'a) os" where
  "await lb name reply =
     os_bind (ask (\<lambda>_. lb_expired lb) (Library name)) (\<lambda>expired v log.
       if expired then (Inl (timeout_error ''provider'' 0), log) else (Inr (reply log), log))"

definition pv_library :: "(error + 'a) os \<Rightarrow> 'a provider" where
  "pv_library m = os_bind m (\<lambda>r. os_return (case r of
     Inl e \<Rightarrow> Inl (classify_vergerail_error e) | Inr x \<Rightarrow> Inr x))"

section \<open>The run\<close>

definition is_allowed_text_only_lifecycle :: "string \<Rightarrow> bool" where
  "is_allowed_text_only_lifecycle meth \<longleftrightarrow>
     meth \<in> {''thread/status/changed'', ''item/started'', ''item/completed'', ''turn/diff/updated'',
              ''mcpServer/startupStatus/updated''}"

text \<open>The violation an event is, when it is one.\<close>

fun live_violation :: "event \<Rightarrow> string option" where
  "live_violation (ApprovalRequested a) = Some ''approval request''"
| "live_violation (Command c) = Some ''command execution''"
| "live_violation (CommandOutput s) = Some ''command execution''"
| "live_violation (FileChange f) = Some ''file change''"
| "live_violation (ImageGeneration g) = Some ''image generation''"
| "live_violation (Warning s) = Some ''runtime warning''"
| "live_violation (Unknown meth) =
     (if is_allowed_text_only_lifecycle meth then None else Some (''unsupported runtime event '' @ meth))"
| "live_violation _ = None"

definition get_or_insert :: "'a option \<Rightarrow> 'a option \<Rightarrow> 'a option" where
  "get_or_insert old new = (case old of None \<Rightarrow> new | Some x \<Rightarrow> Some x)"

text \<open>The loop over the events as they come; after the last one the run has no more. Each is awaited.\<close>

definition await_event :: "provider_library \<Rightarrow> error + 'a \<Rightarrow> 'a provider" where
  "await_event lb x = pv_library (await lb ''next_event'' (\<lambda>_. x))"

fun wait_for_text_only_run ::
  "provider_library \<Rightarrow> (error + event) list \<Rightarrow> string option \<Rightarrow> run_result provider"
where
  "wait_for_text_only_run lb [] violation =
     pv_bind (await_event lb (Inr ())) (\<lambda>_.
     pv_fail (provider_error ''resolution_required''
       ''text-only model turn disconnected before a terminal result''))"
| "wait_for_text_only_run lb (x # events) violation =
     pv_bind (await_event lb x) (\<lambda>ev. case ev of
        Completed r \<Rightarrow>
          (case violation of
             Some what \<Rightarrow> pv_fail (provider_error ''provider_failed''
                            (''text-only model turn observed forbidden live '' @ what))
           | None \<Rightarrow> pv_return r)
      | event.Failed e \<Rightarrow> pv_fail (classify_vergerail_error e)
      | ApprovalRequested a \<Rightarrow>
          pv_bind (pv_library (await lb ''deny'' (lb_deny lb))) (\<lambda>_.
          wait_for_text_only_run lb events (get_or_insert violation (live_violation ev)))
      | _ \<Rightarrow> wait_for_text_only_run lb events (get_or_insert violation (live_violation ev)))"

section \<open>The answer\<close>

text \<open>The loop over the calls of one tool, with what has been flattened so far.\<close>

definition MAX_TOOL_ARGUMENTS_BYTES :: nat where "MAX_TOOL_ARGUMENTS_BYTES = 1048576"

definition flatten_call ::
  "provider_tool \<Rightarrow> native_tool_call \<Rightarrow> provider_tool_call list \<Rightarrow> provider_tool_call list provider_result"
where
  "flatten_call t call flattened =
     (let flattened1 = flattened @ [\<lparr>tk_id = nt_id call, tk_name = tl_name t, tk_arguments = nt_arguments call\<rparr>] in
      result_bind (exceeds (MAX_TOOL_CALLS < length flattened1)
                     ''aggregate native tool calls exceed the bounded provider limit'') (\<lambda>_. Inr flattened1))"

definition flatten_tool ::
  "provider_tool \<Rightarrow> (string \<times> native_tool_call list) list \<times> provider_tool_call list \<Rightarrow>
   ((string \<times> native_tool_call list) list \<times> provider_tool_call list) provider_result"
where
  "flatten_tool t = (\<lambda>(grouped, flattened).
     result_bind (ok_or (provider_error ''invalid_provider_output''
                           ''native toolCalls omitted an advertised tool key'') (map_of grouped (tl_name t))) (\<lambda>calls.
     result_bind (result_fold (flatten_call t) calls flattened) (\<lambda>flattened1.
     Inr (filter (\<lambda>kv. fst kv \<noteq> tl_name t) grouped, flattened1))))"

definition flatten_native_tool_calls ::
  "(string \<times> native_tool_call list) list \<Rightarrow> provider_tool list \<Rightarrow> provider_tool_call list provider_result"
where
  "flatten_native_tool_calls grouped tools =
     result_bind (result_fold flatten_tool tools (grouped, [])) (\<lambda>(left_over, flattened).
     result_bind (refuse (left_over \<noteq> []) ''invalid_provider_output''
                    ''native toolCalls contained an unadvertised tool key'') (\<lambda>_. Inr flattened))"

definition check_returned_call ::
  "provider_codecs \<Rightarrow> provider_tool list \<Rightarrow> provider_tool_call \<Rightarrow> nat \<times> string list \<Rightarrow>
   (nat \<times> string list) provider_result"
where
  "check_returned_call pc tools call = (\<lambda>(aggregate, ids).
     result_bind (validate_tool_call pc call) (\<lambda>_.
     result_bind (case pc_print pc (tk_arguments call) of
                    Inl t \<Rightarrow> Inl (provider_error ''invalid_provider_output'' t) | Inr bytes \<Rightarrow> Inr bytes) (\<lambda>bytes.
     result_bind (ok_or (provider_error ''resource_limit'' ''aggregate tool-call argument size overflowed'')
                    (checked_add_us aggregate (length bytes))) (\<lambda>aggregate1.
     result_bind (exceeds (MAX_TOOL_ARGUMENTS_BYTES < aggregate1)
                    ''aggregate tool-call arguments exceed the bounded byte limit'') (\<lambda>_.
     result_bind (refuse (tk_name call \<notin> tl_name ` set tools) ''invalid_provider_output''
                    ''provider returned a tool outside the advertised set'') (\<lambda>_.
     result_bind (refuse (tk_id call \<in> set ids) ''invalid_provider_output''
                    ''provider returned duplicate tool call ids'') (\<lambda>_.
     Inr (aggregate1, tk_id call # ids))))))))"

definition validate_returned_tools ::
  "provider_codecs \<Rightarrow> provider_tool list \<Rightarrow> provider_tool_call list \<Rightarrow> unit provider_result"
where
  "validate_returned_tools pc tools calls =
     result_bind (exceeds (MAX_TOOL_CALLS < length calls) ''provider returned too many tool calls'') (\<lambda>_.
     result_bind (result_fold (check_returned_call pc tools) calls (0, [])) (\<lambda>_. Inr ()))"

text \<open>The body the model wrote: its text and its tool calls.\<close>

definition body_error :: "string \<Rightarrow> string \<Rightarrow> provider_failure" where
  "body_error kind t =
     provider_error ''invalid_provider_output''
       (''model output did not match the strict '' @ kind @ '' response schema: '' @ t)"

definition read_answer_body ::
  "body_codecs \<Rightarrow> provider_tool list \<Rightarrow> string \<Rightarrow> (string \<times> provider_tool_call list) provider_result"
where
  "read_answer_body bc tools s =
     (if tools = []
      then case bc_text bc (str_trim s) of
             Inl t \<Rightarrow> Inl (body_error ''no-tool'' t)
           | Inr body \<Rightarrow> Inr (body, [])
      else case bc_tools bc (str_trim s) of
             Inl t \<Rightarrow> Inl (body_error ''tool'' t)
           | Inr (body, grouped) \<Rightarrow>
               result_bind (flatten_native_tool_calls grouped tools) (\<lambda>calls. Inr (body, calls)))"

definition provider_usage_of :: "usage \<Rightarrow> provider_usage" where
  "provider_usage_of u =
     \<lparr>pu_input_tokens = Some (us_input_tokens u), pu_output_tokens = Some (us_output_tokens u),
      pu_total_tokens = Some (us_total_tokens u)\<rparr>"

definition accept_answer ::
  "provider_codecs \<Rightarrow> body_codecs \<Rightarrow> provider_request \<Rightarrow> run_result \<Rightarrow> model_response provider_result"
where
  "accept_answer pc bc q r =
     result_bind (read_answer_body bc (pq_tools q) (rr_text r)) (\<lambda>(body, calls).
     result_bind (exceeds (pq_maximum_response_bytes q < length body \<or> MAX_TOOL_CALLS < length calls)
                    ''structured model response exceeded the configured bound'') (\<lambda>_.
     result_bind (validate_returned_tools pc (pq_tools q) calls) (\<lambda>_.
     Inr \<lparr>mr_schema_version = PROTOCOL_VERSION, mr_request_id = pq_request_id q, mr_operation = ModelTurn,
          mr_text = body, mr_tool_calls = calls, mr_usage = map_option provider_usage_of (rr_usage r)\<rparr>)))"

text \<open>The durable record of the turn holds text items only.\<close>

definition audit_is_text_only :: "turn_audit \<Rightarrow> bool" where
  "audit_is_text_only a \<longleftrightarrow>
     \<not> (ta_commands a \<noteq> [] \<or> ta_file_changes a \<noteq> [] \<or> ta_image_generations a \<noteq> []
        \<or> list_ex (\<lambda>t. t \<notin> {''userMessage'', ''agentMessage'', ''reasoning''}) (ta_other_item_types a))"

definition model_verification ::
  "provider_codecs \<Rightarrow> body_codecs \<Rightarrow> provider_library \<Rightarrow> provider_request \<Rightarrow> turn_input list \<Rightarrow>
   model_response provider"
where
  "model_verification pc bc lb q inputs =
     pv_bind (pv_library (await lb ''start'' (lb_start lb inputs))) (\<lambda>_.
     pv_bind (\<lambda>v log. wait_for_text_only_run lb (lb_events lb log) None v log) (\<lambda>r.
     pv_bind (pv_result (refuse (rr_status r \<noteq> TsCompleted \<or> rr_image_generations r \<noteq> []) ''provider_failed''
                           ''model turn did not complete as text-only output'')) (\<lambda>_.
     pv_bind (pv_library (await lb ''audit'' (lb_audit lb (rr_turn_id r)))) (\<lambda>audit.
     pv_bind (pv_result (refuse (\<not> audit_is_text_only audit) ''provider_failed''
                           ''model turn durable audit recorded an unsupported effect item'')) (\<lambda>_.
     pv_result (accept_answer pc bc q r))))))"

section \<open>The turn\<close>

record provider_config =
  cg_runtime_package :: path
  cg_model :: string
  cg_workspace :: path

fun map_reasoning :: "provider_reasoning \<Rightarrow> reasoning_effort" where
  "map_reasoning ReasoningOff = EffortNone"
| "map_reasoning ReasoningLow = EffortLow"
| "map_reasoning ReasoningMedium = EffortMedium"
| "map_reasoning ReasoningHigh = EffortHigh"
| "map_reasoning ReasoningXHigh = EffortXHigh"
| "map_reasoning ReasoningMax = EffortMax"

fun observed_image_detail :: "provider_image_detail \<Rightarrow> image_detail" where
  "observed_image_detail ObservedLow = DetailLow"
| "observed_image_detail ObservedAuto = DetailAuto"
| "observed_image_detail ObservedHigh = DetailHigh"

definition saturating_mul :: "nat \<Rightarrow> nat \<Rightarrow> nat" where
  "saturating_mul a b = min usize_max (a * b)"

definition model_session_bytes :: "nat \<Rightarrow> nat" where
  "model_session_bytes maximum_text_bytes =
     min (sat_add_us (sat_add_us
            (saturating_mul 6 (sat_add_us (sat_add_us maximum_text_bytes MAX_TOOL_ARGUMENTS_BYTES)
               (saturating_mul MAX_TOOL_CALLS (sat_add_us MAX_TOOL_CALL_ID_BYTES MAX_TOOL_NAME_BYTES))))
            (saturating_mul MAX_TOOL_CALLS 128)) 262144) MAX_FRAME_BYTES"

definition model_session_options ::
  "provider_config \<Rightarrow> provider_request \<Rightarrow> rendered_model_prompt \<Rightarrow> json \<Rightarrow> duration \<Rightarrow> session_options"
where
  "model_session_options cg q rendered schema remaining =
     (read_only_options (path_display (cg_workspace cg)))
       \<lparr>so_model := Some (cg_model cg), so_reasoning := map_reasoning (pq_reasoning q),
        so_turn_timeout := remaining,
        so_maximum_output_bytes := model_session_bytes (pq_maximum_response_bytes q),
        so_output_schema := Some schema, so_text_only := True,
        so_base_instructions := rp_base_instructions rendered,
        so_developer_instructions := rp_developer_instructions rendered\<rparr>"

definition model_inputs :: "rendered_model_prompt \<Rightarrow> staged_observation list \<Rightarrow> turn_input list" where
  "model_inputs rendered entries =
     InputText (rp_prompt rendered)
     # map (\<lambda>sg. LocalImage (path_display (sg_path sg)) (Some (observed_image_detail (sg_detail sg)))) entries"

definition remaining_provider_timeout :: "duration provider" where
  "remaining_provider_timeout =
     os_bind (ask os_count Remaining) (\<lambda>n.
       if n = 0 then pv_fail (provider_error ''timeout'' ''provider deadline expired'') else pv_return n)"

text \<open>The outcome of the run, of closing the session and of removing the staging directory.\<close>

definition combine_turn ::
  "'a provider_result \<Rightarrow> unit provider_result \<Rightarrow> unit provider_result \<Rightarrow> 'a provider_result"
where
  "combine_turn outcome close cleanup =
     (let say = (\<lambda>code parts. Inl (provider_error code (concat parts)));
          also_close = ''; model session close also failed: '';
          also_staging = ''; observation staging cleanup also failed: '' in
      case (outcome, close, cleanup) of
        (Inr response, Inr _, Inr _) \<Rightarrow> Inr response
      | (Inl e, Inr _, Inr _) \<Rightarrow> Inl e
      | (Inr _, Inl e, Inr _) \<Rightarrow> Inl e
      | (Inl e, Inl c, Inr _) \<Rightarrow> say (pf_code e) [pf_message e, also_close, pf_message c]
      | (Inr _, Inr _, Inl s) \<Rightarrow> Inl s
      | (Inl e, Inr _, Inl s) \<Rightarrow> say (pf_code e) [pf_message e, also_staging, pf_message s]
      | (Inr _, Inl c, Inl s) \<Rightarrow>
          say (pf_code s) [''model session close failed: '', pf_message c, also_staging, pf_message s]
      | (Inl e, Inl c, Inl s) \<Rightarrow>
          say (pf_code e) [pf_message e, also_close, pf_message c, also_staging, pf_message s])"

definition run_session ::
  "provider_codecs \<Rightarrow> body_codecs \<Rightarrow> provider_library \<Rightarrow> provider_request \<Rightarrow> observation_staging \<Rightarrow>
   session_options \<Rightarrow> turn_input list \<Rightarrow> model_response provider"
where
  "run_session pc bc lb q staging opts inputs =
     os_bind (pv_library (await lb ''session'' (lb_session lb opts))) (\<lambda>opened. case opened of
       Inl e \<Rightarrow> finish_with_staging_cleanup staging (Inl e)
     | Inr _ \<Rightarrow>
         os_bind (model_verification pc bc lb q inputs) (\<lambda>outcome.
         os_bind (pv_library (await lb ''close'' (lb_close lb))) (\<lambda>close.
         os_bind (staging_cleanup staging) (\<lambda>(cleanup, _).
         os_return (combine_turn outcome close cleanup)))))"

definition run_staged_turn ::
  "provider_codecs \<Rightarrow> body_codecs \<Rightarrow> provider_library \<Rightarrow> provider_config \<Rightarrow> provider_request \<Rightarrow>
   observation_staging \<Rightarrow> model_response provider"
where
  "run_staged_turn pc bc lb cg q staging =
     (case render_model_prompt pc q (st_entries staging) of
        Inl e \<Rightarrow> finish_with_staging_cleanup staging (Inl e)
      | Inr rendered \<Rightarrow>
          (case model_output_schema (pc_number_text pc) q of
             Inl e \<Rightarrow> finish_with_staging_cleanup staging (Inl e)
           | Inr schema \<Rightarrow>
               os_bind remaining_provider_timeout (\<lambda>left_over. case left_over of
                 Inl e \<Rightarrow> finish_with_staging_cleanup staging (Inl e)
               | Inr remaining \<Rightarrow>
                   run_session pc bc lb q staging (model_session_options cg q rendered schema remaining)
                     (model_inputs rendered (st_entries staging)))))"

definition run_model_turn ::
  "provider_codecs \<Rightarrow> body_codecs \<Rightarrow> provider_library \<Rightarrow> path \<Rightarrow> provider_config \<Rightarrow> provider_request \<Rightarrow>
   model_response provider"
where
  "run_model_turn pc bc lb temp_dir cg q =
     pv_bind (pv_result (validated_observations pc q)) (\<lambda>validated.
     pv_bind (staging_create temp_dir validated (pq_staging_root q)) (\<lambda>staging.
     run_staged_turn pc bc lb cg q staging))"

end
