(* ===== verification/ProviderMain.thy ===== *)
theory ProviderMain
  imports ProviderTurn VerifyJob
begin

text \<open>
  The UpAgent provider as a process (\<open>src/src/bin/vergerail_upagent_provider.rs\<close>): reading one request, its
  configuration, one model turn or one image over a connected client, the shutdown of the client, and the
  one frame that is written.
\<close>

definition MAX_REQUEST_BYTES :: nat where "MAX_REQUEST_BYTES = 67108864"
definition MAX_IMAGE_FRAME_BYTES :: nat where "MAX_IMAGE_FRAME_BYTES = 16777216"
definition PROVIDER_TEARDOWN_BUDGET :: duration where "PROVIDER_TEARDOWN_BUDGET = 2000000000"

section \<open>Images\<close>

record provider_image =
  px_media_type :: string
  px_base64 :: string
  px_byte_length :: nat
  px_width :: "32 word"
  px_height :: "32 word"
  px_transparent_background :: "bool option"

record image_response =
  ir_schema_version :: nat
  ir_request_id :: string
  ir_operation :: provider_operation
  ir_image :: provider_image

datatype provider_response = ModelAnswer model_response | ImageAnswer image_response

text \<open>The rest of what the process asks of the client library, and the \<open>serde\<close> derivations of its frames.\<close>

record process_library =
  ps_turn :: provider_library
  ps_connect :: "codex_config \<Rightarrow> os_call list \<Rightarrow> error + unit"
  ps_generate :: "direct_image_request \<Rightarrow> os_call list \<Rightarrow> error + direct_image_response"
  ps_shutdown :: "os_call list \<Rightarrow> (error + unit) option"

record frame_codecs =
  fc_request :: "string \<Rightarrow> string + provider_request"
  fc_value :: "string \<Rightarrow> json option"
  fc_response :: "provider_response \<Rightarrow> string + string"
  fc_failure :: "failure_response \<Rightarrow> string + string"

fun direct_background :: "background_option \<Rightarrow> image_background" where
  "direct_background OptBackgroundAuto = BackgroundAuto"
| "direct_background OptBackgroundTransparent = BackgroundTransparent"
| "direct_background OptBackgroundOpaque = BackgroundOpaque"

fun direct_size :: "size_option \<Rightarrow> image_dimensions" where
  "direct_size OptSizeAuto = SizeAuto"
| "direct_size OptSizeSquare = SizeSquare"
| "direct_size OptSizeLandscape = SizeLandscape"
| "direct_size OptSizePortrait = SizePortrait"

fun direct_quality :: "quality_option \<Rightarrow> image_quality" where
  "direct_quality OptQualityAuto = QualityAuto"
| "direct_quality OptQualityLow = QualityLow"
| "direct_quality OptQualityMedium = QualityMedium"
| "direct_quality OptQualityHigh = QualityHigh"

definition chosen :: "('o \<Rightarrow> 'a option) \<Rightarrow> ('a \<Rightarrow> 'b) \<Rightarrow> 'b \<Rightarrow> 'o option \<Rightarrow> 'b" where
  "chosen field f fallback options =
     (case Option.bind options field of Some x \<Rightarrow> f x | None \<Rightarrow> fallback)"

definition direct_request :: "string \<Rightarrow> image_generation_options option \<Rightarrow> direct_image_request" where
  "direct_request prompt options =
     \<lparr>dq_prompt = prompt, dq_background = chosen io_background direct_background BackgroundAuto options,
      dq_dimensions = chosen io_size direct_size SizeAuto options,
      dq_quality = chosen io_quality direct_quality QualityAuto options\<rparr>"

definition provider_image_from_response :: "direct_image_response \<Rightarrow> nat \<Rightarrow> provider_image provider_result" where
  "provider_image_from_response r maximum =
     result_bind (exceeds (dr_base64 r = [] \<or> MAX_IMAGE_BASE64_BYTES < length (dr_base64 r))
                    ''encoded image exceeds the bounded output frame limit'') (\<lambda>_.
     result_bind (exceeds (dr_byte_length r = 0 \<or> MAX_IMAGE_BYTES < dr_byte_length r
                           \<or> maximum < dr_byte_length r)
                    ''decoded image exceeds the bounded output limit'') (\<lambda>_.
     Inr \<lparr>px_media_type = dr_media_type r, px_base64 = dr_base64 r, px_byte_length = dr_byte_length r,
          px_width = dr_width r, px_height = dr_height r,
          px_transparent_background = dr_transparent_background r\<rparr>))"

definition run_image_generation :: "process_library \<Rightarrow> provider_request \<Rightarrow> provider_response provider" where
  "run_image_generation ps q =
     pv_bind (pv_result (ok_or (provider_error ''invalid_request'' ''image_generate requires prompt'')
                (pq_prompt q))) (\<lambda>prompt.
     pv_bind (pv_library (ask (\<lambda>_. ps_generate ps (direct_request prompt (pq_image_options q)))
                (Library ''generate_image''))) (\<lambda>generated.
     pv_bind (pv_result (provider_image_from_response generated (pq_maximum_response_bytes q))) (\<lambda>img.
     pv_return (ImageAnswer \<lparr>ir_schema_version = PROTOCOL_VERSION, ir_request_id = pq_request_id q,
       ir_operation = ImageGenerate, ir_image = img\<rparr>))))"

section \<open>One operation over one client\<close>

definition connect_config :: "bool \<Rightarrow> duration \<Rightarrow> codex_config provider_result" where
  "connect_config enable_images request_timeout =
     (case with_max_frame_bytes (if enable_images then MAX_IMAGE_FRAME_BYTES else MAX_FRAME_BYTES)
             (new_config\<lparr>cf_image_generation := enable_images, cf_request_timeout := request_timeout,
                         cf_shutdown_timeout := PROVIDER_TEARDOWN_BUDGET\<rparr>) of
        Inl e \<Rightarrow> Inl (provider_error ''invalid_configuration'' (error_to_string e))
      | Inr c \<Rightarrow> Inr c)"

definition connect_provider :: "process_library \<Rightarrow> bool \<Rightarrow> duration \<Rightarrow> unit provider" where
  "connect_provider ps enable_images request_timeout =
     pv_bind (pv_result (connect_config enable_images request_timeout)) (\<lambda>config.
     pv_library (ask (\<lambda>_. ps_connect ps config) (Library ''connect'')))"

text \<open>A model turn under the time that is left; a turn that is not over by then is dropped.\<close>

definition run_operation ::
  "provider_codecs \<Rightarrow> body_codecs \<Rightarrow> process_library \<Rightarrow> path \<Rightarrow> provider_config \<Rightarrow> provider_request \<Rightarrow>
   provider_response provider"
where
  "run_operation pc bc ps temp_dir cg q =
     pv_bind remaining_provider_timeout (\<lambda>_.
     if pq_operation q = ModelTurn
     then os_bind (os_attempt (run_model_turn pc bc (ps_turn ps) temp_dir cg q)) (\<lambda>r. case r of
            Inl _ \<Rightarrow> pv_fail (provider_error ''timeout'' ''provider operation exceeded timeoutMs'')
          | Inr outcome \<Rightarrow> pv_result (case outcome of Inl e \<Rightarrow> Inl e | Inr m \<Rightarrow> Inr (ModelAnswer m)))
     else run_image_generation ps q)"

text \<open>The shutdown of the client: in the time that is left, or in the teardown budget after it.\<close>

definition shutdown_client :: "process_library \<Rightarrow> unit provider" where
  "shutdown_client ps =
     os_bind remaining_provider_timeout (\<lambda>left_over.
     os_bind (ask (\<lambda>_. ps_shutdown ps) (Library ''shutdown'')) (\<lambda>ended. pv_result (
       case left_over of
         Inr _ \<Rightarrow>
           (case ended of
              None \<Rightarrow> Inl (provider_error ''timeout'' ''provider shutdown exceeded timeoutMs'')
            | Some (Inl e) \<Rightarrow> Inl (classify_vergerail_error e)
            | Some (Inr _) \<Rightarrow> Inr ())
       | Inl e \<Rightarrow>
           (case ended of
              Some (Inr _) \<Rightarrow> Inl e
            | Some (Inl s) \<Rightarrow> Inl (provider_error ''timeout''
                (''provider deadline expired; bounded teardown failed: '' @ pf_message (classify_vergerail_error s)))
            | None \<Rightarrow> Inl (provider_error ''timeout''
                (''provider deadline expired; bounded teardown exceeded ''
                 @ show_nat (as_millis PROVIDER_TEARDOWN_BUDGET) @ '' ms''))))))"

definition combine_shutdown :: "'a provider_result \<Rightarrow> unit provider_result \<Rightarrow> 'a provider_result" where
  "combine_shutdown operation shutdown =
     (case (operation, shutdown) of
        (Inr response, Inr _) \<Rightarrow> Inr response
      | (Inl e, Inr _) \<Rightarrow> Inl e
      | (Inr _, Inl e) \<Rightarrow> Inl e
      | (Inl e, Inl s) \<Rightarrow> Inl (provider_error (pf_code e)
          (pf_message e @ ''; client shutdown also failed: '' @ pf_message s)))"

definition async_run_request ::
  "provider_codecs \<Rightarrow> body_codecs \<Rightarrow> process_library \<Rightarrow> string + runtime_metadata \<Rightarrow> path \<Rightarrow>
   provider_request \<Rightarrow> provider_config \<Rightarrow> provider_response provider"
where
  "async_run_request pc bc ps metadata temp_dir q cg =
     pv_bind (os_bind (ask os_bool (Library ''deadline'')) (\<lambda>representable. pv_result (
                invalid (\<not> representable) ''timeoutMs overflowed the monotonic clock''))) (\<lambda>_.
     pv_bind (pv_result (case pinned_runtime_load metadata of
                Inl e \<Rightarrow> Inl (provider_error ''runtime_verification''
                               (''configured runtime verification failed: '' @ error_to_string e))
              | Inr pinned \<Rightarrow> Inr pinned)) (\<lambda>_.
     pv_bind (connect_provider ps (pq_operation q = ImageGenerate) (pq_timeout_ms q * 1000000)) (\<lambda>_.
     os_bind (run_operation pc bc ps temp_dir cg q) (\<lambda>operation.
     os_bind (shutdown_client ps) (\<lambda>shutdown.
     pv_result (combine_shutdown operation shutdown))))))"

section \<open>The process\<close>

definition required_variable :: "string \<Rightarrow> string provider" where
  "required_variable name =
     os_bind (ask os_var (EnvVar name)) (\<lambda>found. pv_result (
       case found of
         None \<Rightarrow> Inl (provider_error ''invalid_configuration'' (name @ '' must be explicitly configured''))
       | Some s \<Rightarrow>
           if \<not> utf8_valid s
           then Inl (provider_error ''invalid_configuration'' (name @ '' must be explicitly configured''))
           else if is_blank s \<or> 4096 < length s \<or> has_nul s
           then Inl (provider_error ''invalid_configuration'' (name @ '' must be a bounded non-empty value''))
           else Inr s))"

definition required_path :: "string \<Rightarrow> path provider" where
  "required_path name = pv_bind (required_variable name) (\<lambda>s. pv_return (path_of s))"

definition from_environment :: "provider_config provider" where
  "from_environment =
     pv_bind (required_path ''VERGERAIL_CODEX_PACKAGE'') (\<lambda>runtime_package.
     pv_bind (required_variable ''VERGERAIL_MODEL'') (\<lambda>model.
     pv_bind (required_path ''VERGERAIL_WORKSPACE'') (\<lambda>workspace.
     pv_bind (pv_result (refuse (\<not> absolute_clean_path runtime_package \<or> \<not> absolute_clean_path workspace)
       ''invalid_configuration''
       ''runtime package and workspace must be absolute paths without parent traversal'')) (\<lambda>_.
     pv_bind (pv_result (refuse (160 < length model) ''invalid_configuration''
       ''model identifier exceeds the configured bound'')) (\<lambda>_.
     pv_return \<lparr>cg_runtime_package = runtime_package, cg_model = model, cg_workspace = workspace\<rparr>)))))"

definition valid_request_id :: "string \<Rightarrow> bool" where
  "valid_request_id s \<longleftrightarrow> \<not> is_blank s \<and> length s \<le> 128 \<and> \<not> has_nul s"

definition reflected_request_id :: "frame_codecs \<Rightarrow> string \<Rightarrow> string" where
  "reflected_request_id fc bytes =
     (case Option.bind (fc_value fc bytes) (get_str ''requestId'') of
        Some s \<Rightarrow> if valid_request_id s then s else []
      | None \<Rightarrow> [])"

text \<open>The bytes of the standard input, cut after one more than the limit.\<close>

definition read_request ::
  "frame_codecs \<Rightarrow> io_error + string \<Rightarrow> provider_request provider_result \<times> string"
where
  "read_request fc stdin =
     (case stdin of
        Inl e \<Rightarrow> (Inl (provider_error ''invalid_request'' (''cannot read request: '' @ io_text e)), [])
      | Inr all_bytes \<Rightarrow>
          (let bytes = take (MAX_REQUEST_BYTES + 1) all_bytes in
           if MAX_REQUEST_BYTES < length bytes
           then (Inl (provider_error ''resource_limit'' ''request exceeds the bounded JSONL frame limit''), [])
           else case fc_request fc bytes of
             Inr q \<Rightarrow> (Inr q, if valid_request_id (pq_request_id q) then pq_request_id q else [])
           | Inl t \<Rightarrow> (Inl (provider_error ''invalid_request'' (''request is not strict JSON: '' @ t)),
                      reflected_request_id fc bytes)))"

fun response_name :: "provider_response \<Rightarrow> string" where
  "response_name (ModelAnswer m) = ''model''"
| "response_name (ImageAnswer m) = ''image''"

fun response_frame_limit :: "provider_response \<Rightarrow> nat" where
  "response_frame_limit (ModelAnswer m) = MAX_FRAME_BYTES"
| "response_frame_limit (ImageAnswer m) = MAX_IMAGE_FRAME_BYTES"

definition encode_success_response :: "frame_codecs \<Rightarrow> provider_response \<Rightarrow> string provider_result" where
  "encode_success_response fc r =
     (case fc_response fc r of
        Inl t \<Rightarrow> Inl (provider_error ''provider_failed''
                       (response_name r @ '' response could not be encoded: '' @ t))
      | Inr bytes \<Rightarrow>
          result_bind (exceeds (response_frame_limit r < length bytes)
                         ''provider response exceeds its bounded output frame'') (\<lambda>_. Inr bytes))"

definition response_bytes ::
  "frame_codecs \<Rightarrow> string \<Rightarrow> provider_response provider_result \<Rightarrow> string"
where
  "response_bytes fc reflected_id r =
     (case result_bind r (encode_success_response fc) of
        Inr bytes \<Rightarrow> bytes
      | Inl e \<Rightarrow> encode_failure_response (fc_failure fc) e reflected_id)"

text \<open>The frame and its end of line; the exit code tells whether it could be written.\<close>

definition write_response :: "string \<Rightarrow> unit io" where
  "write_response bytes =
     io_bind (ask os_unit (WriteAll [] bytes)) (\<lambda>_.
     io_bind (ask os_unit (WriteAll [] [CHR 0x0A])) (\<lambda>_.
     ask os_unit (SyncAll [])))"

definition answer_request ::
  "provider_codecs \<Rightarrow> body_codecs \<Rightarrow> process_library \<Rightarrow> string + runtime_metadata \<Rightarrow> path \<Rightarrow>
   provider_request provider_result \<Rightarrow> provider_response provider"
where
  "answer_request pc bc ps metadata temp_dir raw =
     pv_bind (pv_bind (pv_result raw) (validate_request pc temp_dir)) (\<lambda>q.
     pv_bind from_environment (\<lambda>cg. async_run_request pc bc ps metadata temp_dir q cg))"

definition provider_main ::
  "provider_codecs \<Rightarrow> body_codecs \<Rightarrow> frame_codecs \<Rightarrow> process_library \<Rightarrow> string + runtime_metadata \<Rightarrow> path \<Rightarrow>
   nat os"
where
  "provider_main pc bc fc ps metadata temp_dir =
     os_bind (ask os_data (ReadAll [])) (\<lambda>stdin.
     let (raw, reflected_id) = read_request fc stdin in
     os_bind (answer_request pc bc ps metadata temp_dir raw) (\<lambda>r.
     os_bind (write_response (response_bytes fc reflected_id r)) (\<lambda>written.
     os_return (case written of Inl _ \<Rightarrow> 1 | Inr _ \<Rightarrow> 0))))"

text \<open>The same executable as the verification helper of a package, by its arguments after its name; the
  result is its exit code and what it writes to its standard error.\<close>

definition runtime_verification_helper ::
  "runtime_setup \<Rightarrow> string + runtime_metadata \<Rightarrow> string list \<Rightarrow> (nat \<times> string) option os"
where
  "runtime_verification_helper ru metadata arguments =
     (case arguments of
        first # rest \<Rightarrow>
          if first \<noteq> ''--vergerail-runtime-verify'' then os_return None
          else (case rest of
            [] \<Rightarrow> os_return (Some (64, ''runtime verification helper requires a package root''))
          | root # others \<Rightarrow>
              if others \<noteq> []
              then os_return (Some (64, ''runtime verification helper received unexpected arguments''))
              else os_bind (os_attempt (os_bind (os_result (pinned_runtime_load metadata)) (\<lambda>pinned.
                     package_verify_filesystem ru \<lparr>rk_root = path_of root, rk_lock = pr_lock pinned\<rparr>))) (\<lambda>r.
                   os_return (Some (case r of
                     Inr _ \<Rightarrow> (0, [])
                   | Inl e \<Rightarrow> (1, ''runtime verification helper failed: '' @ error_to_string e)))))
      | [] \<Rightarrow> os_return None)"

end
