(* ===== verification/ProviderAnswers.thy ===== *)
theory ProviderAnswers
  imports ProviderMain OsCalls
begin

text \<open>
  What the answer of a model turn has passed (\<open>run_model_turn\<close> in
  \<open>src/src/bin/vergerail_upagent_provider.rs\<close>), and what a turn leaves of the files it staged.
\<close>

section \<open>The answer\<close>

lemma pv_library_Inr [os_Inr]:
  "pv_library m v log = (Inr (Inr x), log1) \<longleftrightarrow> m v log = (Inr (Inr x), log1)"
  by (auto simp: pv_library_def os_bind_def split: prod.splits sum.splits)

lemma await_Inr [os_Inr]:
  "await lb name reply v log = (Inr r, log1) \<longleftrightarrow>
     \<not> lb_expired lb (Library name # log) \<and> r = reply (Library name # log) \<and> log1 = Library name # log"
  by (auto simp: await_def os_bind_def split: if_splits)

lemma await_event_Inr: "await_event lb x v log = (Inr (Inr y), log1) \<Longrightarrow> x = Inr y"
  by (auto simp: await_event_def os_Inr)

text \<open>A run whose result is taken had no forbidden event.\<close>

lemma wait_text_only:
  "wait_for_text_only_run lb events violation v log = (Inr (Inr r), log1) \<Longrightarrow>
   violation = None \<and> (\<exists>evs rest. events = map Inr evs @ Inr (Completed r) # rest
     \<and> list_all (\<lambda>ev. live_violation ev = None) evs)"
proof (induction lb events violation arbitrary: log rule: wait_for_text_only_run.induct)
  case (1 lb violation)
  then show ?case by (simp add: os_Inr)
next
  case (2 lb x events violation)
  from "2.prems" obtain ev l where ev: "await_event lb x v log = (Inr (Inr ev), l)" and
    run: "(case ev of
        Completed r \<Rightarrow>
          (case violation of
             Some what \<Rightarrow> pv_fail (provider_error ''provider_failed''
                            (''text-only model turn observed forbidden live '' @ what))
           | None \<Rightarrow> pv_return r)
      | event.Failed e \<Rightarrow> pv_fail (classify_vergerail_error e)
      | ApprovalRequested a \<Rightarrow>
          pv_bind (pv_library (await lb ''deny'' (lb_deny lb))) (\<lambda>_.
          wait_for_text_only_run lb events (get_or_insert violation (live_violation ev)))
      | _ \<Rightarrow> wait_for_text_only_run lb events (get_or_insert violation (live_violation ev))) v l
      = (Inr (Inr r), log1)"
    by (auto simp: os_Inr)
  from await_event_Inr [OF ev] have x: "x = Inr ev" .
  show ?case
  proof (cases "\<exists>r. ev = Completed r")
    case True
    with run x have "violation = None" "ev = Completed r" by (auto split: option.splits)
    with x show ?thesis by (intro conjI exI [of _ "[]"] exI [of _ events]) auto
  next
    case False
    have later: "\<exists>l. wait_for_text_only_run lb events (get_or_insert violation (live_violation ev)) v l
        = (Inr (Inr r), log1)"
      using run False by (cases ev) (auto simp: os_Inr)
    then obtain l where "wait_for_text_only_run lb events (get_or_insert violation (live_violation ev)) v l
        = (Inr (Inr r), log1)" ..
    with "2.IH" [OF _ ] have IH: "get_or_insert violation (live_violation ev) = None"
      "\<exists>evs rest. events = map Inr evs @ Inr (Completed r) # rest \<and> list_all (\<lambda>ev. live_violation ev = None) evs"
      using False by (cases ev; force)+
    from IH(1) have "violation = None" "live_violation ev = None"
      by (auto simp: get_or_insert_def split: option.splits)
    moreover from IH(2) obtain evs rest where "events = map Inr evs @ Inr (Completed r) # rest"
      "list_all (\<lambda>ev. live_violation ev = None) evs" by blast
    ultimately show ?thesis using x by (intro conjI exI [of _ "ev # evs"] exI [of _ rest]) auto
  qed
qed

lemma check_returned_calls:
  "result_fold (check_returned_call pc tools) calls (aggregate, ids) = Inr (aggregate1, ids1) \<Longrightarrow> distinct ids \<Longrightarrow>
   list_all (\<lambda>c. tk_name c \<in> tl_name ` set tools \<and> is_object (tk_arguments c)) calls
     \<and> distinct (map tk_id calls) \<and> set (map tk_id calls) \<inter> set ids = {}"
proof (induction calls arbitrary: aggregate ids)
  case (Cons c calls)
  from Cons.prems(1) obtain st where st: "check_returned_call pc tools c (aggregate, ids) = Inr st"
    and run: "result_fold (check_returned_call pc tools) calls st = Inr (aggregate1, ids1)"
    by (auto simp: result_simps)
  from st obtain aggregate2 where step: "tk_name c \<in> tl_name ` set tools" "is_object (tk_arguments c)"
    "tk_id c \<notin> set ids" and "st = (aggregate2, tk_id c # ids)"
    by (auto simp: check_returned_call_def validate_tool_call_def validate_bounded_text_def invalid_def exceeds_def
        result_simps)
  with run have rest: "result_fold (check_returned_call pc tools) calls (aggregate2, tk_id c # ids) = Inr (aggregate1, ids1)"
    by simp
  from Cons.IH [OF rest] Cons.prems(2) step show ?case by auto
qed simp

lemma accept_answer_checked:
  assumes "accept_answer pc bc q r = Inr m"
  shows "mr_request_id m = pq_request_id q \<and> length (mr_text m) \<le> pq_maximum_response_bytes q
    \<and> length (mr_tool_calls m) \<le> MAX_TOOL_CALLS \<and> distinct (map tk_id (mr_tool_calls m))
    \<and> list_all (\<lambda>c. tk_name c \<in> tl_name ` set (pq_tools q) \<and> is_object (tk_arguments c)) (mr_tool_calls m)"
proof -
  from assms obtain body calls aggregate ids where m: "mr_text m = body" "mr_tool_calls m = calls"
    "mr_request_id m = pq_request_id q"
    and bounds: "length body \<le> pq_maximum_response_bytes q" "length calls \<le> MAX_TOOL_CALLS"
    and calls: "result_fold (check_returned_call pc (pq_tools q)) calls (0, []) = Inr (aggregate, ids)"
    by (auto simp: accept_answer_def validate_returned_tools_def exceeds_def result_simps)
  from check_returned_calls [OF calls] m bounds show ?thesis by simp
qed

text \<open>A step that only reads the bounds and the log gives no answer unless it runs to its last call.\<close>

lemma finish_Inl: "finish_with_staging_cleanup st (Inl e) v log \<noteq> (Inr (Inr x), log1)"
  by (auto simp: finish_with_staging_cleanup_def combine_staging_def os_bind_def split: prod.splits sum.splits)

lemma combine_turn_Inr: "combine_turn outcome close cleanup = Inr m \<Longrightarrow> outcome = Inr m \<and> close = Inr () \<and> cleanup = Inr ()"
  by (cases outcome; cases close; cases cleanup) (simp_all add: combine_turn_def Let_def)

lemma run_session_Inr:
  assumes "run_session pc bc lb q staging opts inputs v log = (Inr (Inr m), log1)"
  shows "\<exists>l1 l2. model_verification pc bc lb q inputs v l1 = (Inr (Inr m), l2)
     \<and> lb_close lb (Library ''close'' # l2) = Inr ()"
proof -
  from assms obtain l1 l2 l3 outcome close cleanup st where
    run: "model_verification pc bc lb q inputs v l1 = (Inr outcome, l2)"
      "pv_library (await lb ''close'' (lb_close lb)) v l2 = (Inr close, l3)"
      "combine_turn outcome close cleanup = Inr m"
    unfolding run_session_def by (auto simp: os_Inr finish_Inl split: prod.splits)
  from combine_turn_Inr [OF run(3)] run(1,2) show ?thesis by (auto simp: os_Inr)
qed

lemma run_model_turn_Inr:
  assumes "run_model_turn pc bc lb temp_dir cg q v log = (Inr (Inr m), log1)"
  shows "\<exists>inputs l1 l2. model_verification pc bc lb q inputs v l1 = (Inr (Inr m), l2)
     \<and> lb_close lb (Library ''close'' # l2) = Inr ()"
proof -
  from assms obtain staging l where "run_staged_turn pc bc lb cg q staging v l = (Inr (Inr m), log1)"
    unfolding run_model_turn_def by (auto simp: os_Inr)
  then obtain opts inputs l1 where "run_session pc bc lb q staging opts inputs v l1 = (Inr (Inr m), log1)"
    unfolding run_staged_turn_def by (auto simp: os_Inr finish_Inl)
  from run_session_Inr [OF this] show ?thesis by blast
qed

text \<open>C15: a model turn gives an answer only after a run without a forbidden event that completed without
  images, after a durable audit that holds text items only, and after its session was closed. The answer
  keeps the bounds of the request, and calls only advertised tools, with objects as arguments and with
  distinct identifiers.\<close>

theorem model_answer_checked:
  assumes "run_model_turn pc bc lb temp_dir cg q v log = (Inr (Inr m), log1)"
  shows "mr_request_id m = pq_request_id q \<and> length (mr_text m) \<le> pq_maximum_response_bytes q
    \<and> length (mr_tool_calls m) \<le> MAX_TOOL_CALLS \<and> distinct (map tk_id (mr_tool_calls m))
    \<and> list_all (\<lambda>c. tk_name c \<in> tl_name ` set (pq_tools q) \<and> is_object (tk_arguments c)) (mr_tool_calls m)
    \<and> (\<exists>r audit l1 l2 l3 evs rest.
         lb_events lb l1 = map Inr evs @ Inr (Completed r) # rest \<and> list_all (\<lambda>ev. live_violation ev = None) evs
         \<and> rr_status r = TsCompleted \<and> rr_image_generations r = []
         \<and> lb_audit lb (rr_turn_id r) l2 = Inr audit \<and> audit_is_text_only audit
         \<and> lb_close lb l3 = Inr ())"
proof -
  from run_model_turn_Inr [OF assms] obtain inputs l1 l2 where
    run: "model_verification pc bc lb q inputs v l1 = (Inr (Inr m), l2)" and
    close: "lb_close lb (Library ''close'' # l2) = Inr ()" by blast
  from run obtain r audit l3 l4 l5 where
    waited: "wait_for_text_only_run lb (lb_events lb l3) None v l3 = (Inr (Inr r), l4)" and
    status: "rr_status r = TsCompleted" "rr_image_generations r = []" and
    audit: "lb_audit lb (rr_turn_id r) l5 = Inr audit" "audit_is_text_only audit" and
    answer: "accept_answer pc bc q r = Inr m"
    unfolding model_verification_def
    by (auto simp: os_Inr result_simps eq_commute [of "Inr _" "lb_audit _ _ _"])
  from wait_text_only [OF waited] obtain evs rest where
    "lb_events lb l3 = map Inr evs @ Inr (Completed r) # rest" "list_all (\<lambda>ev. live_violation ev = None) evs"
    by blast
  with accept_answer_checked [OF answer] status audit close show ?thesis by blast
qed

end
