(* ===== verification/ProviderStaging.thy ===== *)
theory ProviderStaging
  imports ProviderAnswers
begin

text \<open>
  Which calls a model turn can make, and that the directory of its staged files is removed at its end
  (\<open>ObservationStaging\<close> and \<open>run_model_turn\<close> in \<open>src/src/bin/vergerail_upagent_provider.rs\<close>).
\<close>

section \<open>The calls of a model turn\<close>

definition staged_file :: "path option \<Rightarrow> path \<Rightarrow> bool" where
  "staged_file root p \<longleftrightarrow>
     (\<exists>d i. root = Some d \<and> p = d @ [Normal (''observation-'' @ show_nat i @ ''.png'')])"

fun turn_call :: "path option \<Rightarrow> os_call \<Rightarrow> bool" where
  "turn_call root (CreateNew p) = staged_file root p"
| "turn_call root (SetMode p m) = staged_file root p"
| "turn_call root (WriteAll p s) = staged_file root p"
| "turn_call root (SyncAll p) = staged_file root p"
| "turn_call root (RemoveDirAll p) = (root = Some p)"
| "turn_call root (Lstat p) = (root = Some p)"
| "turn_call root (ReadDir p) = (root = Some p)"
| "turn_call root Remaining = True"
| "turn_call root (Library what) = True"
| "turn_call root c = False"

fun is_library :: "os_call \<Rightarrow> bool" where
  "is_library (Library what) = True"
| "is_library c = False"

definition staging_call :: "path option \<Rightarrow> os_call \<Rightarrow> bool" where
  "staging_call root c \<longleftrightarrow> turn_call root c \<and> \<not> is_library c"

fun quiet_call :: "os_call \<Rightarrow> bool" where
  "quiet_call (Library what) = True"
| "quiet_call Remaining = True"
| "quiet_call (Lstat p) = True"
| "quiet_call (ReadDir p) = True"
| "quiet_call c = False"

lemma os_only_pv_bind [os_only]: "os_only C m \<Longrightarrow> (\<And>x. os_only C (f x)) \<Longrightarrow> os_only C (pv_bind m f)"
  unfolding pv_bind_def by (intro os_only)

lemma os_only_pv_result [os_only]: "os_only C (pv_result r)"
  unfolding pv_result_def by (intro os_only)

lemma os_only_pv_return [os_only]: "os_only C (pv_return x)"
  unfolding pv_return_def by (intro os_only)

lemma os_only_pv_fail [os_only]: "os_only C (pv_fail e)"
  unfolding pv_fail_def by (intro os_only)

lemma os_only_pv_io [os_only]: "os_only C m \<Longrightarrow> os_only C (pv_io f m)"
  unfolding pv_io_def by (intro os_only)

lemma os_only_pv_library [os_only]: "os_only C m \<Longrightarrow> os_only C (pv_library m)"
  unfolding pv_library_def by (intro os_only)

lemma os_only_await [os_only]: "C (Library what) \<Longrightarrow> os_only C (await lb what reply)"
  by (auto simp: await_def os_only_def os_bind_def)

lemma os_only_event [os_only]:
  "(\<And>r. os_only C (f r)) \<Longrightarrow> (\<And>e. os_only C (g e)) \<Longrightarrow> (\<And>a. os_only C (h a)) \<Longrightarrow> os_only C k \<Longrightarrow>
   os_only C (case ev of Completed r \<Rightarrow> f r | event.Failed e \<Rightarrow> g e | ApprovalRequested a \<Rightarrow> h a | _ \<Rightarrow> k)"
  by (cases ev) auto

lemma os_only_wait_run [os_only]:
  assumes "C (Library ''next_event'')" and "C (Library ''deny'')"
  shows "os_only C (wait_for_text_only_run lb events violation)"
proof (induction lb events violation rule: wait_for_text_only_run.induct)
  case (1 lb violation)
  show ?case unfolding wait_for_text_only_run.simps await_event_def by (intro os_only assms)
next
  case (2 lb x events violation)
  have next_ev: "os_only C (await_event lb x)" unfolding await_event_def by (intro os_only assms)
  show ?case unfolding wait_for_text_only_run.simps
  proof (intro os_only_pv_bind next_ev)
    fix ev
    show "os_only C (case ev of
        Completed r \<Rightarrow>
          (case violation of
             Some what \<Rightarrow> pv_fail (provider_error ''provider_failed''
                            (''text-only model turn observed forbidden live '' @ what))
           | None \<Rightarrow> pv_return r)
      | event.Failed e \<Rightarrow> pv_fail (classify_vergerail_error e)
      | ApprovalRequested a \<Rightarrow>
          pv_bind (pv_library (await lb ''deny'' (lb_deny lb))) (\<lambda>_.
          wait_for_text_only_run lb events (get_or_insert violation (live_violation ev)))
      | _ \<Rightarrow> wait_for_text_only_run lb events (get_or_insert violation (live_violation ev)))"
      using "2.IH" by (cases ev) (auto intro!: os_only assms)
  qed
qed

lemma os_only_model_verification [os_only]:
  assumes "\<And>what. C (Library what)"
  shows "os_only C (model_verification pc bc lb q inputs)"
proof -
  have "os_only C (\<lambda>v log. wait_for_text_only_run lb (lb_events lb log) None v log)"
    using os_only_wait_run [of C lb] assms by (simp add: os_only_def)
  then show ?thesis unfolding model_verification_def by (intro os_only assms)
qed

lemma os_only_remaining [os_only]: "C Remaining \<Longrightarrow> os_only C remaining_provider_timeout"
  unfolding remaining_provider_timeout_def by (intro os_only)

lemma os_only_cleanup [os_only]:
  "(\<And>root. st_root st = Some root \<Longrightarrow> \<not> st_cleaned st \<Longrightarrow> C (RemoveDirAll root)) \<Longrightarrow> os_only C (staging_cleanup st)"
  unfolding staging_cleanup_def by (intro os_only) simp

lemma os_only_finish [os_only]:
  "(\<And>root. st_root st = Some root \<Longrightarrow> \<not> st_cleaned st \<Longrightarrow> C (RemoveDirAll root)) \<Longrightarrow> os_only C (finish_with_staging_cleanup st r)"
  unfolding finish_with_staging_cleanup_def by (intro os_only)

lemma turn_staged_turn:
  assumes "st_root st = None \<or> st_root st = root"
  shows "os_only (turn_call root) (run_staged_turn pc bc lb cg q st)"
  unfolding run_staged_turn_def run_session_def by (intro os_only) (use assms in auto)

lemma quiet_staged_turn: "st_cleaned st \<Longrightarrow> os_only quiet_call (run_staged_turn pc bc lb cg q st)"
  unfolding run_staged_turn_def run_session_def by (intro os_only) auto

lemma only_validate_root:
  assumes "C (Lstat root)" and "C (ReadDir root)"
  shows "os_only C (validate_staging_root temp_dir root)"
proof -
  have "os_only C (case entries of
                [] \<Rightarrow> pv_return ()
              | Inl e # _ \<Rightarrow> pv_fail (staging_error (''stagingRoot cannot be inspected safely: '' @ io_text e))
              | Inr _ # _ \<Rightarrow> pv_fail (staging_error
                               ''stagingRoot must be an empty request directory owned by UpAgent''))"
    for entries :: "(io_error + dir_entry) list"
    by (auto split: list.split sum.split intro: os_only)
  then show ?thesis unfolding validate_staging_root_def by (intro os_only) (use assms in auto)
qed

lemma turn_stage: "os_only (staging_call (Some root)) (stage_observations root i vos)"
proof (induction vos arbitrary: i)
  case (Cons vo vos)
  have "os_only (staging_call (Some root)) (stage_observation root i vo)"
    unfolding stage_observation_def Let_def by (intro os_only) (auto simp: staging_call_def staged_file_def)
  then show ?case unfolding stage_observations.simps by (intro os_only Cons.IH)
qed (simp add: os_only)

lemma staging_create_root:
  assumes "staging_create temp_dir vos root v log = (Inr (Inr st), log1)"
  shows "st_root st = None \<or> st_root st = root"
  using assms by (cases root) (auto simp: staging_create_def os_Inr finish_Inl split: if_splits)

lemma turn_create: "os_only (staging_call root) (staging_create temp_dir vos root)"
proof (cases root)
  case None
  then show ?thesis unfolding staging_create_def by (auto intro: os_only)
next
  case (Some r)
  show ?thesis unfolding staging_create_def Some option.case
    by (intro os_only only_validate_root turn_stage) (auto simp: staging_call_def)
qed

lemma os_only_pv_bind_result:
  assumes "os_only C m" "\<And>x v log log1. m v log = (Inr (Inr x), log1) \<Longrightarrow> os_only C (f x)"
  shows "os_only C (pv_bind m f)"
  unfolding pv_bind_def using assms by (intro os_only_bind_result) (auto split: sum.split intro: os_only)

lemma turn_model_turn: "os_only (turn_call (pq_staging_root q)) (run_model_turn pc bc lb temp_dir cg q)"
  unfolding run_model_turn_def
  by (intro os_only_pv_bind os_only_pv_result os_only_pv_bind_result turn_staged_turn
      os_only_mono [OF turn_create])
    (simp_all add: staging_call_def staging_create_root)

section \<open>The directory is removed\<close>

lemma staging_cleanup_log:
  "st_root st = Some root \<Longrightarrow> \<not> st_cleaned st \<Longrightarrow> snd (staging_cleanup st v log) = RemoveDirAll root # log"
  by (simp add: staging_cleanup_def os_bind_def)

lemma staging_cleanup_Inr: "\<exists>x. fst (staging_cleanup st v log) = Inr x"
  by (auto simp: staging_cleanup_def os_bind_def split: option.split sum.split)

lemma finish_log:
  "st_root st = Some root \<Longrightarrow> \<not> st_cleaned st \<Longrightarrow>
   snd (finish_with_staging_cleanup st r v log) = RemoveDirAll root # log"
  using staging_cleanup_log [of st root v log] staging_cleanup_Inr [of st v log]
  by (auto simp: finish_with_staging_cleanup_def os_bind_def split: prod.split sum.split)

lemma staged_turn_removes:
  assumes "run_staged_turn pc bc lb cg q st v log = (Inr r, log1)"
    and "st_root st = Some root" and "\<not> st_cleaned st"
  shows "hd log1 = RemoveDirAll root"
proof -
  have finish: "hd log2 = RemoveDirAll root" if "finish_with_staging_cleanup st x v l = (Inr y, log2)" for x l y log2
    using finish_log [OF assms(2,3), of x v l] that by simp
  have cleanup: "hd log2 = RemoveDirAll root" if "staging_cleanup st v l = (Inr y, log2)" for l y log2
    using staging_cleanup_log [OF assms(2,3), of v l] that by simp
  have session: "hd log2 = RemoveDirAll root"
    if "run_session pc bc lb q st opts inputs v l = (Inr y, log2)" for opts inputs l y log2
    using that unfolding run_session_def by (auto simp: os_Inr dest: finish cleanup split: prod.splits)
  show ?thesis
    using assms(1) unfolding run_staged_turn_def by (auto simp: os_Inr dest: finish session split: sum.splits)
qed

lemma validated_root:
  assumes "validate_staging_root temp_dir root v log = (Inr (Inr x), log1)"
  shows "path_parent root = Some temp_dir \<and> staging_name root"
  using assms unfolding validate_staging_root_def by (auto simp: os_Inr invalid_def result_simps)

lemma turn_call_no_create: "extends quiet_call l log \<Longrightarrow> CreateNew p \<in> set l \<Longrightarrow> CreateNew p \<in> set log"
  using extends_new [of quiet_call l log "CreateNew p"] by auto

lemma create_outcome:
  assumes "staging_create temp_dir vos root v log = (Inr x, log1)"
  shows "(extends quiet_call log1 log \<and> (\<forall>st. x = Inr st \<longrightarrow> st_cleaned st))
     \<or> (\<exists>d. root = Some d \<and> path_parent d = Some temp_dir \<and> staging_name d
          \<and> (case x of Inl e \<Rightarrow> hd log1 = RemoveDirAll d | Inr st \<Rightarrow> st_root st = Some d \<and> \<not> st_cleaned st))"
proof (cases "vos = [] \<or> root = None")
  case True
  with assms show ?thesis by (auto simp: staging_create_def split: if_splits)
next
  case False
  then obtain d where d: "root = Some d" by auto
  obtain y l where valid: "validate_staging_root temp_dir d v log = (y, l)" by fastforce
  let ?rest = "os_bind (stage_observations d 0 vos) (\<lambda>staged. case staged of
            Inl e \<Rightarrow> finish_with_staging_cleanup
                       \<lparr>st_root = Some d, st_entries = [], st_cleaned = False\<rparr> (Inl e)
          | Inr entries \<Rightarrow> pv_return \<lparr>st_root = Some d, st_entries = entries, st_cleaned = False\<rparr>)"
  from assms False d have run: "pv_bind (validate_staging_root temp_dir d) (\<lambda>_. ?rest) v log = (Inr x, log1)"
    by (simp add: staging_create_def)
  show ?thesis
  proof (cases y)
    case (Inl e)
    with run valid show ?thesis by (simp add: os_simps)
  next
    case (Inr z)
    show ?thesis
    proof (cases z)
      case (Inl e)
      with run valid Inr have "x = Inl e" "log1 = l" by (simp_all add: os_simps)
      moreover have "extends quiet_call l log"
        using os_onlyD [OF only_validate_root [of quiet_call d temp_dir] valid] by simp
      ultimately show ?thesis by simp
    next
      case (Inr u)
      note root = validated_root [OF valid [unfolded \<open>y = Inr z\<close> Inr]]
      from run valid \<open>y = Inr z\<close> Inr have "?rest v l = (Inr x, log1)" by (simp add: os_simps)
      then obtain staged l2 where "(case staged of
            Inl e \<Rightarrow> finish_with_staging_cleanup
                       \<lparr>st_root = Some d, st_entries = [], st_cleaned = False\<rparr> (Inl e)
          | Inr entries \<Rightarrow> pv_return \<lparr>st_root = Some d, st_entries = entries, st_cleaned = False\<rparr>) v l2
          = (Inr x, log1)" by (auto simp: os_Inr)
      then show ?thesis
      proof (cases staged)
        case (Inl e)
        with \<open>(case staged of Inl e \<Rightarrow> _ e | Inr en \<Rightarrow> _ en) v l2 = (Inr x, log1)\<close>
        have finish: "finish_with_staging_cleanup \<lparr>st_root = Some d, st_entries = [], st_cleaned = False\<rparr> (Inl e) v l2
            = (Inr x, log1)" by simp
        from arg_cong [OF finish, of snd] have "log1 = RemoveDirAll d # l2" by (simp add: finish_log [of _ d])
        moreover from finish obtain e1 where "x = Inl e1" by (cases x) (simp_all add: finish_Inl)
        ultimately show ?thesis using d root by simp
      qed (use d root in auto)
    qed
  qed
qed

text \<open>C16: a model turn that is not dropped creates files only in the staging directory of the request, which
  is a request directory below the temporary directory, and when it has created one, the removal of that
  directory is the last call it makes. It writes nothing else and removes nothing else.\<close>

theorem staging_removed:
  assumes "run_model_turn pc bc lb temp_dir cg q v log = (Inr r, log1)"
  shows "\<exists>calls. log1 = calls @ log \<and> list_all (turn_call (pq_staging_root q)) calls
    \<and> ((\<exists>p. CreateNew p \<in> set calls) \<longrightarrow>
         (\<exists>root. pq_staging_root q = Some root \<and> path_parent root = Some temp_dir \<and> staging_name root
            \<and> hd calls = RemoveDirAll root))"
proof -
  from os_onlyD [OF turn_model_turn assms] obtain calls where
    calls: "log1 = calls @ log" "list_all (turn_call (pq_staging_root q)) calls"
    by (auto simp: extends_def)
  have quiet: "CreateNew p \<notin> set calls" if "extends quiet_call log1 log" for p
  proof -
    from that calls(1) have "list_all quiet_call calls" by (auto simp: extends_def)
    then show ?thesis by (auto simp: list_all_iff)
  qed
  have "\<exists>root. pq_staging_root q = Some root \<and> path_parent root = Some temp_dir \<and> staging_name root
      \<and> hd log1 = RemoveDirAll root" if created: "CreateNew p \<in> set calls" for p
  proof (cases "validated_observations pc q")
    case (Inl e)
    with assms have "log1 = log" by (simp add: run_model_turn_def os_simps)
    with created calls(1) show ?thesis by simp
  next
    case (Inr vos)
    obtain y l where create: "staging_create temp_dir vos (pq_staging_root q) v log = (y, l)" by fastforce
    with assms Inr obtain x where x: "y = Inr x" by (cases y) (auto simp: run_model_turn_def os_simps)
    note outcome = create_outcome [OF create [unfolded x]]
    show ?thesis
    proof (cases x)
      case (Inl e)
      with assms \<open>validated_observations pc q = Inr vos\<close> create x have "log1 = l"
        by (simp add: run_model_turn_def os_simps)
      with outcome Inl quiet created show ?thesis by auto
    next
      case (Inr st)
      with assms \<open>validated_observations pc q = Inr vos\<close> create x
      have run: "run_staged_turn pc bc lb cg q st v l = (Inr r, log1)" by (simp add: run_model_turn_def os_simps)
      show ?thesis
      proof (cases "st_cleaned st")
        case True
        with outcome Inr have "extends quiet_call l log" by auto
        with os_onlyD [OF quiet_staged_turn [OF True] run] have "extends quiet_call log1 log" by (rule extends_trans)
        with quiet created show ?thesis by blast
      next
        case False
        with outcome Inr obtain d where "pq_staging_root q = Some d" "path_parent d = Some temp_dir" "staging_name d"
          "st_root st = Some d" by auto
        with staged_turn_removes [OF run _ False] show ?thesis by blast
      qed
    qed
  qed
  moreover have "hd log1 = hd calls" if "CreateNew p \<in> set calls" for p
    using that calls(1) by (cases calls) auto
  ultimately show ?thesis using calls by metis
qed

end
