(* ===== verification/ProviderImages.thy ===== *)
theory ProviderImages
  imports ProviderStaging
begin

text \<open>
  The images of a model turn (\<open>validate_observations\<close>, \<open>ObservationStaging::create\<close> and
  \<open>render_prompt_message\<close> in \<open>src/src/bin/vergerail_upagent_provider.rs\<close>): every image part of the
  conversation is rendered as the number of the local image that holds its bytes.
\<close>

section \<open>Observations and image parts\<close>

definition location :: "provider_observation \<Rightarrow> nat \<times> nat" where
  "location ob = (ob_message_index ob, ob_part_index ob)"

definition image_at :: "provider_message list \<Rightarrow> nat \<times> nat \<Rightarrow> provider_image_observation option" where
  "image_at ms = (\<lambda>(i, j).
     Option.bind (item_at ms i) (\<lambda>m. Option.bind (item_at (ms_content_parts m) j) (\<lambda>part.
     case part of ImagePart img \<Rightarrow> Some img | TextPart _ \<Rightarrow> None)))"

definition resolves :: "provider_codecs \<Rightarrow> provider_request \<Rightarrow> provider_observation \<Rightarrow> bool" where
  "resolves pc q ob \<longleftrightarrow>
     (\<exists>img bytes. image_at (pq_messages q) (location ob) = Some img \<and> pc_decode pc (ob_base64 ob) = Inr bytes
        \<and> length bytes = af_byte_length (im_artifact img) \<and> sha256_hex pc bytes = af_sha256 (im_artifact img))"

lemma observed_part_iff: "observed_part q ob = Inr img \<longleftrightarrow> image_at (pq_messages q) (location ob) = Some img"
  by (auto simp: observed_part_def image_at_def location_def item_at_def ok_or_def result_bind_def
      split: option.splits provider_content_part.splits if_splits)

lemma check_observation_Inr:
  assumes "check_observation pc q ob (aggregate, ids) = Inr st"
  shows "location ob \<notin> set ids \<and> resolves pc q ob \<and> (\<exists>aggregate1. st = (aggregate1, location ob # ids))"
  using assms
  by (auto simp: check_observation_def Let_def result_simps observed_part_iff invalid_def exceeds_def resolves_def
      decode_observation_def location_def split: sum.splits)

lemma check_observations:
  "result_fold (check_observation pc q) obs (aggregate, ids) = Inr (aggregate1, ids1) \<Longrightarrow> distinct ids \<Longrightarrow>
   distinct (map location obs) \<and> set (map location obs) \<inter> set ids = {} \<and> list_all (resolves pc q) obs"
proof (induction obs arbitrary: aggregate ids)
  case (Cons ob obs)
  from Cons.prems(1) obtain st where st: "check_observation pc q ob (aggregate, ids) = Inr st"
    and run: "result_fold (check_observation pc q) obs st = Inr (aggregate1, ids1)"
    by (auto simp: result_simps)
  from check_observation_Inr [OF st] obtain aggregate2 where step: "location ob \<notin> set ids" "resolves pc q ob"
    "st = (aggregate2, location ob # ids)" by blast
  from Cons.IH [OF run [unfolded step(3)]] Cons.prems(2) step(1,2) show ?case by auto
qed simp

text \<open>The places of the image parts.\<close>

fun part_places :: "nat \<Rightarrow> nat \<Rightarrow> provider_content_part list \<Rightarrow> (nat \<times> nat) list" where
  "part_places i j [] = []"
| "part_places i j (part # parts) = (if is_image_part part then [(i, j)] else []) @ part_places i (Suc j) parts"

fun image_places :: "nat \<Rightarrow> provider_message list \<Rightarrow> (nat \<times> nat) list" where
  "image_places i [] = []"
| "image_places i (m # ms) = part_places i 0 (ms_content_parts m) @ image_places (Suc i) ms"

lemma part_places_length: "length (part_places i j parts) = length (filter is_image_part parts)"
  by (induction i j parts rule: part_places.induct) auto

lemma image_places_length:
  "length (image_places i ms) = length (filter is_image_part (concat (map ms_content_parts ms)))"
  by (induction i ms rule: image_places.induct) (auto simp: part_places_length)

lemma part_places_member:
  "k < length parts \<Longrightarrow> is_image_part (parts ! k) \<Longrightarrow> (i, j + k) \<in> set (part_places i j parts)"
proof (induction i j parts arbitrary: k rule: part_places.induct)
  case (2 i j part parts)
  show ?case
  proof (cases k)
    case (Suc k')
    with "2.prems" "2.IH" [of k'] show ?thesis by simp
  qed (use "2.prems" in simp)
qed simp

lemma image_places_member:
  "n < length ms \<Longrightarrow> k < length (ms_content_parts (ms ! n)) \<Longrightarrow> is_image_part (ms_content_parts (ms ! n) ! k) \<Longrightarrow>
   (i + n, k) \<in> set (image_places i ms)"
proof (induction i ms arbitrary: n rule: image_places.induct)
  case (2 i m ms)
  show ?case
  proof (cases n)
    case 0
    with 2 part_places_member [of k "ms_content_parts m" i 0] show ?thesis by simp
  next
    case (Suc n')
    with 2 show ?thesis by fastforce
  qed
qed simp

lemma image_at_place: "image_at ms p = Some img \<Longrightarrow> p \<in> set (image_places 0 ms)"
  using image_places_member [of "fst p" ms "snd p" 0]
  by (cases p) (auto simp: image_at_def item_at_def is_image_part_def Option.bind_eq_Some_conv
      split: if_splits provider_content_part.splits)

text \<open>As many observations as image parts, at distinct places that are image parts: all of them.\<close>

lemma observations_cover:
  assumes "validate_observations pc q = Inr ()"
  shows "distinct (map location (pq_observations q))" and "list_all (resolves pc q) (pq_observations q)"
    and "image_at (pq_messages q) p = Some img \<Longrightarrow> p \<in> set (map location (pq_observations q))"
proof -
  let ?obs = "pq_observations q" and ?places = "image_places 0 (pq_messages q)"
  from assms obtain aggregate ids where
    count: "length (filter is_image_part (concat (map ms_content_parts (pq_messages q)))) = length ?obs" and
    run: "result_fold (check_observation pc q) ?obs (0, []) = Inr (aggregate, ids)"
    by (auto simp: validate_observations_def Let_def result_simps invalid_def exceeds_def)
  from check_observations [OF run] show distinct: "distinct (map location ?obs)"
    and resolved: "list_all (resolves pc q) ?obs" by auto
  have "set (map location ?obs) \<subseteq> set ?places"
  proof
    fix p
    assume "p \<in> set (map location ?obs)"
    then obtain ob where "ob \<in> set ?obs" "p = location ob" by auto
    with resolved obtain img where "image_at (pq_messages q) p = Some img"
      by (auto simp: list_all_iff resolves_def)
    then show "p \<in> set ?places" by (rule image_at_place)
  qed
  moreover have "card (set ?places) \<le> card (set (map location ?obs))"
    using distinct_card [OF distinct] card_length [of ?places] image_places_length [of 0 "pq_messages q"] count by simp
  ultimately have "set (map location ?obs) = set ?places"
    by (intro card_seteq) simp_all
  then show "image_at (pq_messages q) p = Some img \<Longrightarrow> p \<in> set (map location ?obs)"
    using image_at_place by blast
qed

section \<open>Staged files\<close>

definition staged_path :: "path \<Rightarrow> nat \<Rightarrow> path" where
  "staged_path root k = root @ [Normal (''observation-'' @ show_nat k @ ''.png'')]"

lemma staged_entries:
  "stage_observations root n vos v log = (Inr (Inr entries), log1) \<Longrightarrow>
   length entries = length vos \<and> set log \<subseteq> set log1
   \<and> (\<forall>k < length vos.
        entries ! k = \<lparr>sg_message_index = vo_message_index (vos ! k), sg_part_index = vo_part_index (vos ! k),
                      sg_detail = vo_detail (vos ! k), sg_path = staged_path root (n + k)\<rparr>
        \<and> WriteAll (staged_path root (n + k)) (chars_of (vo_bytes (vos ! k))) \<in> set log1)"
proof (induction root n vos arbitrary: log entries rule: stage_observations.induct)
  case (2 root n vo vos)
  from "2.prems" obtain entry rest l where
    entry: "stage_observation root n vo v log = (Inr (Inr entry), l)" and
    rest: "stage_observations root (Suc n) vos v l = (Inr (Inr rest), log1)" "entries = entry # rest"
    by (auto simp: os_Inr)
  from entry have entry: "entry = \<lparr>sg_message_index = vo_message_index vo, sg_part_index = vo_part_index vo,
      sg_detail = vo_detail vo, sg_path = staged_path root n\<rparr>" and
    l: "set log \<subseteq> set l" "WriteAll (staged_path root n) (chars_of (vo_bytes vo)) \<in> set l"
    by (auto simp: stage_observation_def Let_def os_Inr staged_path_def)
  from "2.IH" [OF rest(1)] have IH: "length rest = length vos" "set l \<subseteq> set log1"
    and each: "\<And>k. k < length vos \<Longrightarrow>
        rest ! k = \<lparr>sg_message_index = vo_message_index (vos ! k), sg_part_index = vo_part_index (vos ! k),
                      sg_detail = vo_detail (vos ! k), sg_path = staged_path root (Suc n + k)\<rparr>
        \<and> WriteAll (staged_path root (Suc n + k)) (chars_of (vo_bytes (vos ! k))) \<in> set log1"
    by auto
  show ?case
  proof (intro conjI allI impI)
    show "length entries = length (vo # vos)" using IH(1) rest(2) by simp
    show "set log \<subseteq> set log1" using l(1) IH(2) by blast
    fix k
    assume k: "k < length (vo # vos)"
    show "entries ! k = \<lparr>sg_message_index = vo_message_index ((vo # vos) ! k),
        sg_part_index = vo_part_index ((vo # vos) ! k), sg_detail = vo_detail ((vo # vos) ! k),
        sg_path = staged_path root (n + k)\<rparr>"
      using each k entry rest(2) by (cases k) auto
    show "WriteAll (staged_path root (n + k)) (chars_of (vo_bytes ((vo # vos) ! k))) \<in> set log1"
      using each k l(2) IH(2) by (cases k) auto
  qed
qed auto

lemma find_position_Some: "x \<in> set xs \<Longrightarrow> p x \<Longrightarrow> \<exists>k. position p xs = Some k \<and> k < length xs \<and> p (xs ! k)"
proof (induction xs)
  case (Cons y ys)
  then show ?case by (cases "p y") fastforce+
qed simp

lemma validated_location:
  assumes "validated_observation_of pc q ob = Inr vo"
  shows "observation_key vo = location ob"
    and "\<exists>img. image_at (pq_messages q) (location ob) = Some img \<and> vo_detail vo = im_detail img"
    and "pc_decode pc (ob_base64 ob) = Inr (vo_bytes vo)"
  using assms
  by (auto simp: validated_observation_of_def observation_key_def location_def result_simps observed_part_iff
      decode_observation_def split: sum.splits)

text \<open>The file of an image part, and its number among the local images.\<close>

lemma staged_image:
  assumes "validated_observations pc q = Inr vos"
    and "stage_observations root 0 vos v log = (Inr (Inr entries), log1)"
    and "image_at (pq_messages q) (i, j) = Some img"
  shows "\<exists>k bytes. k < length entries
    \<and> position (\<lambda>sg. sg_message_index sg = i \<and> sg_part_index sg = j) entries = Some k
    \<and> sg_path (entries ! k) = staged_path root k \<and> sg_detail (entries ! k) = im_detail img
    \<and> WriteAll (staged_path root k) (chars_of bytes) \<in> set log1
    \<and> length bytes = af_byte_length (im_artifact img) \<and> sha256_hex pc bytes = af_sha256 (im_artifact img)"
proof -
  from assms(1) obtain vs where valid: "validate_observations pc q = Inr ()"
    and vs: "result_map (validated_observation_of pc q) (pq_observations q) = Inr vs"
    and vos: "vos = sort_key observation_key vs"
    by (auto simp: validated_observations_def result_simps)
  note cover = observations_cover [OF valid]
  from vs have pairs: "list_all2 (\<lambda>ob vo. validated_observation_of pc q ob = Inr vo) (pq_observations q) vs"
    by (simp add: result_map_Inr_iff)
  from cover(3) [OF assms(3)] obtain n where n: "n < length (pq_observations q)"
    "location (pq_observations q ! n) = (i, j)"
    by (auto simp: in_set_conv_nth)
  with pairs have "vs ! n \<in> set vos" "observation_key (vs ! n) = (i, j)"
    using validated_location(1) by (auto simp: vos list_all2_conv_all_nth)
  then obtain m where m: "m < length vos" "observation_key (vos ! m) = (i, j)" by (metis in_set_conv_nth)
  note staged = staged_entries [OF assms(2)]
  then have "m < length entries" using m by simp
  then have "entries ! m \<in> set entries" by (rule nth_mem)
  moreover have "sg_message_index (entries ! m) = i \<and> sg_part_index (entries ! m) = j"
    using m staged by (auto simp: observation_key_def)
  ultimately obtain k where
    k: "position (\<lambda>sg. sg_message_index sg = i \<and> sg_part_index sg = j) entries = Some k" "k < length entries"
    "sg_message_index (entries ! k) = i \<and> sg_part_index (entries ! k) = j"
    using find_position_Some [of "entries ! m" entries "\<lambda>sg. sg_message_index sg = i \<and> sg_part_index sg = j"] by blast
  let ?vo = "vos ! k"
  from staged k have entry: "entries ! k = \<lparr>sg_message_index = vo_message_index ?vo,
      sg_part_index = vo_part_index ?vo, sg_detail = vo_detail ?vo, sg_path = staged_path root k\<rparr>"
    and written: "WriteAll (staged_path root k) (chars_of (vo_bytes ?vo)) \<in> set log1" by auto
  have "?vo \<in> set vs" using k(2) staged vos by (metis nth_mem set_sort)
  then obtain l where l: "l < length (pq_observations q)"
    "validated_observation_of pc q (pq_observations q ! l) = Inr ?vo"
    using pairs by (auto simp: list_all2_conv_all_nth in_set_conv_nth)
  note ob = validated_location [OF l(2)]
  have "observation_key ?vo = (i, j)" using k(3) entry by (simp add: observation_key_def)
  with ob have place: "location (pq_observations q ! l) = (i, j)" by simp
  with ob(2) assms(3) have detail: "vo_detail ?vo = im_detail img" by auto
  have "resolves pc q (pq_observations q ! l)" using cover(2) l(1) by (simp add: list_all_length)
  with place ob(3) assms(3) have "length (vo_bytes ?vo) = af_byte_length (im_artifact img)"
    "sha256_hex pc (vo_bytes ?vo) = af_sha256 (im_artifact img)"
    by (auto simp: resolves_def)
  with k entry written detail show ?thesis
    by (intro exI [of _ k] exI [of _ "vo_bytes ?vo"]) simp
qed

section \<open>The prompt\<close>

definition rendered_image :: "provider_image_observation \<Rightarrow> nat \<Rightarrow> json" where
  "rendered_image img k =
     jobj [(''type'', JString ''imageObservation''), (''observationIndex'', jint k),
           (''role'', JString (image_role_text (im_role img))),
           (''detail'', JString (observed_detail_text (im_detail img))), (''caption'', string_or_null (im_caption img))]"

lemma render_part_image:
  "position (\<lambda>sg. sg_message_index sg = i \<and> sg_part_index sg = j) entries = Some k \<Longrightarrow>
   render_part entries i j (ImagePart img) = Inr (rendered_image img k)"
  by (simp add: render_part_def rendered_image_def)

lemma result_map_from_total:
  "(\<And>k. k < length xs \<Longrightarrow> \<exists>y. f (n + k) (xs ! k) = Inr y) \<Longrightarrow> \<exists>ys. result_map_from n f xs = Inr ys"
  using Skolem_list_nth [of "length xs" "\<lambda>k y. f (n + k) (xs ! k) = Inr y"]
  by (simp add: result_map_from_Inr_iff)

lemma concat_selected:
  assumes "length ls = length ms" and "\<And>k. k < length ms \<Longrightarrow> length (ls ! k) = (if P (ms ! k) then 1 else 0)"
    and "i < length ms" "P (ms ! i)"
  shows "length (filter P (take i ms)) < length (concat ls)
         \<and> concat ls ! length (filter P (take i ms)) = hd (ls ! i)"
  using assms
proof (induction ms arbitrary: ls i)
  case (Cons m ms)
  then obtain l ls' where ls: "ls = l # ls'" "length ls' = length ms" by (cases ls) auto
  have first: "length l = (if P m then 1 else 0)" using Cons.prems(2) [of 0] ls by simp
  have rest: "k < length ms \<Longrightarrow> length (ls' ! k) = (if P (ms ! k) then 1 else 0)" for k
    using Cons.prems(2) [of "Suc k"] ls by simp
  show ?case
  proof (cases i)
    case 0
    with Cons.prems(4) first obtain x where "l = [x]" by (cases l) auto
    with 0 ls show ?thesis by simp
  next
    case (Suc i')
    from Cons.IH [OF ls(2) rest, of i'] Cons.prems(3,4) Suc first ls show ?thesis
      by (cases l) (auto simp: nth_append)
  qed
qed simp

text \<open>C17: when a model turn has staged its images, its prompt can be rendered unless its value cannot be
  printed, and each image part of a user, assistant or tool message stands in it, at its own place among
  the parts of its message, as the number \<open>k\<close> of a local image: the \<open>k\<close>-th image after the text in the input
  of the turn has the detail of the part, and its file has been written with bytes of the length and the
  SHA-256 digest of the artifact the part names.\<close>

theorem image_part_reaches_input:
  assumes "validated_observations pc q = Inr vos"
    and "stage_observations root 0 vos v log = (Inr (Inr entries), log1)"
    and "i < length (pq_messages q)" and "in_transcript (pq_messages q ! i)"
    and "j < length (ms_content_parts (pq_messages q ! i))"
    and "ms_content_parts (pq_messages q ! i) ! j = ImagePart img"
  shows "\<exists>transcript message parts k bytes.
    (case pc_print pc (jobj [(''messages'', JArray transcript), (''tools'', JArray (map tool_value (pq_tools q)))]) of
       Inl _ \<Rightarrow> isl (render_model_prompt pc q entries)
     | Inr encoded \<Rightarrow> \<exists>rendered. render_model_prompt pc q entries = Inr rendered
         \<and> model_inputs rendered entries ! 0 = InputText (prompt_text encoded)
         \<and> model_inputs rendered entries ! Suc k
             = LocalImage (path_display (staged_path root k)) (Some (observed_image_detail (im_detail img))))
    \<and> length (filter in_transcript (take i (pq_messages q))) < length transcript
    \<and> transcript ! length (filter in_transcript (take i (pq_messages q))) = JObject message
    \<and> map_of message ''contentParts'' = Some (JArray parts)
    \<and> length parts = length (ms_content_parts (pq_messages q ! i)) \<and> parts ! j = rendered_image img k
    \<and> k < length entries \<and> WriteAll (staged_path root k) (chars_of bytes) \<in> set log1
    \<and> length bytes = af_byte_length (im_artifact img) \<and> sha256_hex pc bytes = af_sha256 (im_artifact img)"
proof -
  let ?ms = "pq_messages q"
  have place: "image_at ?ms (n, l) = Some x"
    if "n < length ?ms" "l < length (ms_content_parts (?ms ! n))" "ms_content_parts (?ms ! n) ! l = ImagePart x" for n l x
    using that by (simp add: image_at_def item_at_def)
  have parts: "\<exists>parts. result_map_from 0 (render_part entries n) (ms_content_parts (?ms ! n)) = Inr parts"
    if n: "n < length ?ms" for n
  proof (rule result_map_from_total)
    fix l
    assume l: "l < length (ms_content_parts (?ms ! n))"
    show "\<exists>y. render_part entries n (0 + l) (ms_content_parts (?ms ! n) ! l) = Inr y"
    proof (cases "ms_content_parts (?ms ! n) ! l")
      case (ImagePart x)
      from staged_image [OF assms(1,2) place [OF n l this]] ImagePart render_part_image [of n l entries _ x]
      show ?thesis by fastforce
    qed (simp add: render_part_def)
  qed
  have each: "\<exists>vs. render_transcript_message entries (0 + n) (?ms ! n) = Inr vs" if "n < length ?ms" for n
    using parts [OF that] by (auto simp: render_transcript_message_def render_prompt_message_def)
  then obtain ls where ls: "result_map_from 0 (render_transcript_message entries) ?ms = Inr ls"
    using result_map_from_total [of ?ms "render_transcript_message entries" 0] by blast
  then have nth: "length ls = length ?ms" "\<And>n. n < length ?ms \<Longrightarrow> render_transcript_message entries n (?ms ! n) = Inr (ls ! n)"
    by (simp_all add: result_map_from_Inr_iff)
  have ones: "length (ls ! n) = (if in_transcript (?ms ! n) then 1 else 0)" if n: "n < length ?ms" for n
  proof (cases "in_transcript (?ms ! n)")
    case True
    then obtain x where x: "[x] = ls ! n"
      using nth(2) [OF n] by (auto simp: render_transcript_message_def result_simps)
    show ?thesis unfolding x [symmetric] using True by simp
  qed (use nth(2) [OF n] in \<open>simp add: render_transcript_message_def\<close>)
  note selected = concat_selected [OF nth(1) ones assms(3,4)]
  obtain ps where ps: "result_map_from 0 (render_part entries i) (ms_content_parts (?ms ! i)) = Inr ps"
    using parts [OF assms(3)] by blast
  then have ps_nth: "length ps = length (ms_content_parts (?ms ! i))"
    "render_part entries i j (ms_content_parts (?ms ! i) ! j) = Inr (ps ! j)"
    using assms(5) by (simp_all add: result_map_from_Inr_iff)
  let ?message = "obj_insert ''contentParts'' (JArray ps) (message_value (?ms ! i))"
  have "ps \<noteq> []" using ps_nth(1) assms(5) by auto
  then have single: "[JObject ?message] = ls ! i"
    using nth(2) [OF assms(3)] assms(4) ps by (auto simp: render_transcript_message_def render_prompt_message_def)
  have "hd (ls ! i) = JObject ?message" unfolding single [symmetric] by simp
  with selected have message: "concat ls ! length (filter in_transcript (take i ?ms)) = JObject ?message" by simp
  obtain k bytes where k: "k < length entries"
    "position (\<lambda>sg. sg_message_index sg = i \<and> sg_part_index sg = j) entries = Some k"
    "sg_path (entries ! k) = staged_path root k" "sg_detail (entries ! k) = im_detail img"
    and bytes: "WriteAll (staged_path root k) (chars_of bytes) \<in> set log1"
    "length bytes = af_byte_length (im_artifact img)" "sha256_hex pc bytes = af_sha256 (im_artifact img)"
    using staged_image [OF assms(1,2) place [OF assms(3,5,6)]] by blast
  have part: "ps ! j = rendered_image img k" using ps_nth(2) render_part_image [OF k(2)] assms(6) by simp
  have "map_of ?message ''contentParts'' = Some (JArray ps)" by simp
  moreover have "case pc_print pc (jobj [(''messages'', JArray (concat ls)), (''tools'', JArray (map tool_value (pq_tools q)))]) of
       Inl _ \<Rightarrow> isl (render_model_prompt pc q entries)
     | Inr encoded \<Rightarrow> \<exists>rendered. render_model_prompt pc q entries = Inr rendered
         \<and> model_inputs rendered entries ! 0 = InputText (prompt_text encoded)
         \<and> model_inputs rendered entries ! Suc k
             = LocalImage (path_display (staged_path root k)) (Some (observed_image_detail (im_detail img)))"
    using ls k by (simp add: render_model_prompt_def model_inputs_def split: sum.split)
  ultimately show ?thesis
    using selected message ps_nth(1) part k(1) bytes by blast
qed

end
