(* ===== verification/ProviderProcess.thy ===== *)
theory ProviderProcess
  imports ProviderStaging
begin

text \<open>
  The provider as a process (\<open>main\<close> and \<open>async_run_request\<close> in
  \<open>src/src/bin/vergerail_upagent_provider.rs\<close>): it dispatches at most one turn
  or image, leaves no client connected, whatever fails in between, and writes the one frame for the
  outcome of its request, of which a failing write leaves a part. Every step ends here because every call
  of the operating system and of the client library is answered: that a call returns is their affair.
\<close>

section \<open>Steps that always end with a value\<close>

definition os_total :: "'a os \<Rightarrow> bool" where
  "os_total m \<longleftrightarrow> (\<forall>v log. \<exists>x. fst (m v log) = Inr x)"

named_theorems os_total \<open>composition of steps that end with a value\<close>

lemma os_total_basic [os_total]:
  "os_total (os_return x)" "os_total (ask reply c)" "os_total (os_attempt m)" "os_total (pv_result r)"
  "os_total (pv_return y)" "os_total (pv_fail e)"
  by (auto simp: os_total_def os_attempt_def split: prod.splits)

lemma os_total_bind [os_total]: "os_total m \<Longrightarrow> (\<And>x. os_total (f x)) \<Longrightarrow> os_total (os_bind m f)"
  unfolding os_total_def os_bind_def by (metis (no_types, lifting) fst_conv old.sum.simps(6) prod.case_eq_if surjective_pairing)

lemma os_total_if [os_total]: "(c \<Longrightarrow> os_total m) \<Longrightarrow> (\<not> c \<Longrightarrow> os_total n) \<Longrightarrow> os_total (if c then m else n)"
  by simp

lemma os_total_sum [os_total]:
  "(\<And>e. os_total (f e)) \<Longrightarrow> (\<And>y. os_total (g y)) \<Longrightarrow> os_total (case x of Inl e \<Rightarrow> f e | Inr y \<Rightarrow> g y)"
  by (cases x) auto

lemma os_total_pv_bind [os_total]: "os_total m \<Longrightarrow> (\<And>x. os_total (f x)) \<Longrightarrow> os_total (pv_bind m f)"
  unfolding pv_bind_def by (intro os_total)

lemma os_total_pv_io [os_total]: "os_total m \<Longrightarrow> os_total (pv_io f m)"
  unfolding pv_io_def by (intro os_total)

lemma os_total_pv_library [os_total]: "os_total m \<Longrightarrow> os_total (pv_library m)"
  unfolding pv_library_def by (intro os_total)

lemma os_total_io_bind [os_total]: "os_total m \<Longrightarrow> (\<And>x. os_total (f x)) \<Longrightarrow> os_total (io_bind m f)"
  unfolding io_bind_def by (intro os_total)

lemma os_total_remaining [os_total]: "os_total remaining_provider_timeout"
  unfolding remaining_provider_timeout_def by (intro os_total)

lemma os_total_validate_root: "os_total (validate_staging_root temp_dir root)"
proof -
  have "os_total (case entries of
                [] \<Rightarrow> pv_return ()
              | Inl e # _ \<Rightarrow> pv_fail (staging_error (''stagingRoot cannot be inspected safely: '' @ io_text e))
              | Inr _ # _ \<Rightarrow> pv_fail (staging_error
                               ''stagingRoot must be an empty request directory owned by UpAgent''))"
    for entries :: "(io_error + dir_entry) list"
    by (auto split: list.split sum.split intro: os_total)
  then show ?thesis unfolding validate_staging_root_def os_lstat_def by (intro os_total)
qed

lemma os_total_validate_request: "os_total (validate_request pc temp_dir q)"
  unfolding validate_request_def validate_request_staging_def by (intro os_total os_total_validate_root)

lemma os_total_environment: "os_total from_environment"
  unfolding from_environment_def required_path_def required_variable_def by (intro os_total)

lemma os_total_image: "os_total (run_image_generation ps q)"
  unfolding run_image_generation_def by (intro os_total)

lemma os_total_operation: "os_total (run_operation pc bc ps temp_dir cg q)"
  unfolding run_operation_def by (intro os_total os_total_image)

lemma os_total_shutdown: "os_total (shutdown_client ps)"
  unfolding shutdown_client_def by (intro os_total)

lemma os_total_run: "os_total (async_run_request pc bc ps metadata temp_dir q cg)"
  unfolding async_run_request_def connect_provider_def by (intro os_total os_total_operation os_total_shutdown)

lemma os_total_answer: "os_total (answer_request pc bc ps metadata temp_dir raw)"
  unfolding answer_request_def by (intro os_total os_total_validate_request os_total_environment os_total_run)

section \<open>Dispatches\<close>

definition is_dispatch :: "os_call \<Rightarrow> bool" where
  "is_dispatch c \<longleftrightarrow> c \<in> {Library ''start'', Library ''generate_image''}"

definition dispatches :: "os_call list \<Rightarrow> nat" where
  "dispatches log = length (filter is_dispatch log)"

definition os_dispatches :: "nat \<Rightarrow> 'a os \<Rightarrow> bool" where
  "os_dispatches n m \<longleftrightarrow> (\<forall>v log. dispatches (snd (m v log)) \<le> dispatches log + n)"

abbreviation undispatched :: "'a os \<Rightarrow> bool" where
  "undispatched \<equiv> os_only (\<lambda>c. \<not> is_dispatch c)"

lemma extends_undispatched: "extends (\<lambda>c. \<not> is_dispatch c) log1 log \<Longrightarrow> dispatches log1 = dispatches log"
  by (auto simp: extends_def dispatches_def list_all_iff)

lemma os_dispatches_none: "undispatched m \<Longrightarrow> os_dispatches 0 m"
  unfolding os_only_def os_dispatches_def using extends_undispatched by (metis add_0_right order_refl)

lemma os_dispatches_mono: "os_dispatches a m \<Longrightarrow> a \<le> b \<Longrightarrow> os_dispatches b m"
  unfolding os_dispatches_def by (meson add_left_mono order_trans)

lemma os_dispatches_bind:
  assumes "os_dispatches a m" and "\<And>x. os_dispatches b (f x)"
  shows "os_dispatches (a + b) (os_bind m f)"
  unfolding os_dispatches_def
proof (intro allI)
  fix v log
  obtain r log1 where m: "m v log = (r, log1)" by fastforce
  with assms(1) have first: "dispatches log1 \<le> dispatches log + a" unfolding os_dispatches_def by (metis snd_conv)
  show "dispatches (snd (os_bind m f v log)) \<le> dispatches log + (a + b)"
  proof (cases r)
    case (Inr x)
    from assms(2) [of x] have "dispatches (snd (f x v log1)) \<le> dispatches log1 + b"
      unfolding os_dispatches_def by blast
    with first m Inr show ?thesis by (simp add: os_bind_def)
  qed (use first m in \<open>simp add: os_bind_def\<close>)
qed

lemma dispatch_after: "undispatched m \<Longrightarrow> (\<And>x. os_dispatches 1 (f x)) \<Longrightarrow> os_dispatches 1 (os_bind m f)"
  using os_dispatches_bind [OF os_dispatches_none, of m 1 f] by simp

lemma dispatch_before: "os_dispatches 1 m \<Longrightarrow> (\<And>x. undispatched (f x)) \<Longrightarrow> os_dispatches 1 (os_bind m f)"
  using os_dispatches_bind [of 1 m 0 f, OF _ os_dispatches_none] by simp

lemma dispatch_ask: "os_dispatches 1 (ask reply c)"
  by (simp add: os_dispatches_def dispatches_def)

lemma dispatch_only: "undispatched m \<Longrightarrow> os_dispatches 1 m"
  by (rule os_dispatches_mono [OF os_dispatches_none]) simp_all

lemma dispatch_if: "os_dispatches n m \<Longrightarrow> os_dispatches n m' \<Longrightarrow> os_dispatches n (if c then m else m')"
  by simp

lemma dispatch_sum:
  "(\<And>e. os_dispatches n (f e)) \<Longrightarrow> (\<And>y. os_dispatches n (g y)) \<Longrightarrow>
   os_dispatches n (case x of Inl e \<Rightarrow> f e | Inr y \<Rightarrow> g y)"
  by (cases x) auto

lemma dispatch_attempt: "os_dispatches n m \<Longrightarrow> os_dispatches n (os_attempt m)"
  unfolding os_dispatches_def os_attempt_def by (auto split: prod.split) (metis snd_conv)

lemma dispatch_pv_after: "undispatched m \<Longrightarrow> (\<And>x. os_dispatches 1 (f x)) \<Longrightarrow> os_dispatches 1 (pv_bind m f)"
  unfolding pv_bind_def
  by (rule dispatch_after, assumption, rule dispatch_sum, rule dispatch_only, rule os_only_return, simp)

lemma dispatch_pv_before: "os_dispatches 1 m \<Longrightarrow> (\<And>x. undispatched (f x)) \<Longrightarrow> os_dispatches 1 (pv_bind m f)"
  unfolding pv_bind_def by (intro dispatch_before) (auto intro: os_only)

lemma dispatch_library: "os_dispatches 1 m \<Longrightarrow> os_dispatches 1 (pv_library m)"
  unfolding pv_library_def by (intro dispatch_before) (auto intro: os_only)

lemma dispatch_await: "os_dispatches 1 (await lb what reply)"
  by (auto simp: await_def os_dispatches_def os_bind_def dispatches_def)

lemma dispatch_model_verification: "os_dispatches 1 (model_verification pc bc lb q inputs)"
proof -
  have "undispatched (\<lambda>v log. wait_for_text_only_run lb (lb_events lb log) None v log)"
    using os_only_wait_run [of "\<lambda>c. \<not> is_dispatch c" lb] by (simp add: os_only_def is_dispatch_def)
  then show ?thesis unfolding model_verification_def
    by (intro dispatch_pv_before dispatch_library dispatch_await os_only) (simp_all add: is_dispatch_def)
qed

lemma dispatch_model_turn: "os_dispatches 1 (run_model_turn pc bc lb temp_dir cg q)"
proof -
  have finish: "undispatched (finish_with_staging_cleanup st r)" for st r
    by (intro os_only) (simp add: is_dispatch_def)
  have session: "os_dispatches 1 (run_session pc bc lb q st opts inputs)" for st opts inputs
    unfolding run_session_def
    by (intro dispatch_after dispatch_sum dispatch_before dispatch_model_verification dispatch_only finish os_only)
      (simp_all add: is_dispatch_def)
  have staged: "os_dispatches 1 (run_staged_turn pc bc lb cg q st)" for st
    unfolding run_staged_turn_def
    by (intro dispatch_after dispatch_sum dispatch_only [OF finish] session os_only) (simp_all add: is_dispatch_def)
  have create: "undispatched (staging_create temp_dir vos root)" for vos root
  proof (rule os_only_mono [OF turn_create])
    show "staging_call root c \<Longrightarrow> \<not> is_dispatch c" for c
      by (cases c) (simp_all add: staging_call_def is_dispatch_def)
  qed
  show ?thesis unfolding run_model_turn_def
    by (intro dispatch_pv_after create staged os_only)
qed

lemma dispatch_operation: "os_dispatches 1 (run_operation pc bc ps temp_dir cg q)"
proof -
  have turn: "os_dispatches 1 (os_bind (os_attempt (run_model_turn pc bc (ps_turn ps) temp_dir cg q)) (\<lambda>r. case r of
            Inl _ \<Rightarrow> pv_fail (provider_error ''timeout'' ''provider operation exceeded timeoutMs'')
          | Inr outcome \<Rightarrow> pv_result (case outcome of Inl e \<Rightarrow> Inl e | Inr m \<Rightarrow> Inr (ModelAnswer m))))"
    by (intro dispatch_before dispatch_attempt dispatch_model_turn os_only)
  have img: "os_dispatches 1 (run_image_generation ps q)"
    unfolding run_image_generation_def
    by (rule dispatch_pv_after, intro os_only) (intro dispatch_pv_before dispatch_library dispatch_ask os_only)
  show ?thesis
    unfolding run_operation_def
    by (rule dispatch_pv_after, intro os_only, simp add: is_dispatch_def) (intro dispatch_if turn img)
qed

section \<open>One request\<close>

definition library_ended :: "os_call list \<Rightarrow> os_call list \<Rightarrow> bool" where
  "library_ended log log1 \<longleftrightarrow>
     dispatches log1 \<le> dispatches log + 1
     \<and> (dispatches log1 = dispatches log \<or> hd log1 = Library ''shutdown'')"

lemma shutdown_log: "shutdown_client ps v log = (y, log1) \<Longrightarrow> log1 = Library ''shutdown'' # Remaining # log"
  by (auto simp: shutdown_client_def remaining_provider_timeout_def os_bind_def split: if_splits)

lemma pv_bind_assoc: "pv_bind (pv_bind m f) g = pv_bind m (\<lambda>x. pv_bind (f x) g)"
  by (intro ext) (simp add: pv_bind_apply split: prod.split sum.split)

lemma library_ended_bind:
  assumes "undispatched m" and "\<And>x log. library_ended log (snd (f x v log))"
  shows "library_ended log (snd (pv_bind m f v log))"
proof -
  obtain y log1 where first: "m v log = (y, log1)" by fastforce
  with assms(1) have same: "dispatches log1 = dispatches log" using extends_undispatched by (metis os_onlyD)
  show ?thesis
  proof (cases "\<exists>x. y = Inr (Inr x)")
    case True
    then obtain x where "y = Inr (Inr x)" ..
    with first have "pv_bind m f v log = f x v log1" by (simp add: pv_bind_apply)
    with assms(2) [of log1 x] same show ?thesis by (simp add: library_ended_def)
  next
    case False
    with first have "snd (pv_bind m f v log) = log1" by (auto simp: pv_bind_apply split: sum.split)
    with same show ?thesis by (simp add: library_ended_def)
  qed
qed

lemma operation_ended:
  "library_ended log (snd (os_bind (run_operation pc bc ps temp_dir cg q) (\<lambda>operation.
     os_bind (shutdown_client ps) (\<lambda>shutdown. pv_result (combine_shutdown operation shutdown))) v log))"
proof -
  obtain z log1 where operation: "run_operation pc bc ps temp_dir cg q v log = (Inr z, log1)"
    using os_total_operation unfolding os_total_def by (metis prod.collapse)
  obtain w log2 where shutdown: "shutdown_client ps v log1 = (Inr w, log2)"
    using os_total_shutdown unfolding os_total_def by (metis prod.collapse)
  have "dispatches log1 \<le> dispatches log + 1"
    using dispatch_operation operation unfolding os_dispatches_def by (metis snd_conv)
  with shutdown_log [OF shutdown] operation shutdown show ?thesis
    by (simp add: os_bind_apply library_ended_def dispatches_def is_dispatch_def)
qed

lemma run_ended: "library_ended log (snd (async_run_request pc bc ps metadata temp_dir q cg v log))"
  unfolding async_run_request_def connect_provider_def
  by (intro library_ended_bind operation_ended os_only) (simp_all add: is_dispatch_def)

lemma answer_ended: "library_ended log (snd (answer_request pc bc ps metadata temp_dir raw v log))"
proof -
  have root: "undispatched (validate_staging_root temp_dir root)" for root
    by (rule only_validate_root) (simp_all add: is_dispatch_def)
  show ?thesis
    unfolding answer_request_def validate_request_def validate_request_staging_def from_environment_def
      required_path_def required_variable_def
    by (intro library_ended_bind run_ended os_only root) (simp_all add: is_dispatch_def)
qed

section \<open>The client that was connected\<close>

text \<open>The calls, the latest first, leave a client when a connect that succeeded has no shutdown after it.\<close>

fun client_left :: "process_library \<Rightarrow> codex_config \<Rightarrow> os_call list \<Rightarrow> bool" where
  "client_left ps config [] \<longleftrightarrow> False"
| "client_left ps config (c # log) \<longleftrightarrow>
     c \<noteq> Library ''shutdown''
     \<and> (c = Library ''connect'' \<and> ps_connect ps config (c # log) = Inr () \<or> client_left ps config log)"

abbreviation unconnected :: "'a os \<Rightarrow> bool" where
  "unconnected \<equiv> os_only (\<lambda>c. c \<noteq> Library ''connect'')"

lemma client_left_extends:
  "extends (\<lambda>c. c \<noteq> Library ''connect'') log1 log \<Longrightarrow> client_left ps config log1 \<Longrightarrow> client_left ps config log"
proof -
  have "list_all (\<lambda>c. c \<noteq> Library ''connect'') new \<Longrightarrow> client_left ps config (new @ log) \<Longrightarrow> client_left ps config log"
    for new
    by (induction new) auto
  then show "extends (\<lambda>c. c \<noteq> Library ''connect'') log1 log \<Longrightarrow> client_left ps config log1 \<Longrightarrow> client_left ps config log"
    by (auto simp: extends_def)
qed

lemma not_left_bind:
  assumes "unconnected m" and "\<not> client_left ps config log"
    and "\<And>x log1. m v log = (Inr (Inr x), log1) \<Longrightarrow> \<not> client_left ps config log1 \<Longrightarrow>
           \<not> client_left ps config (snd (f x v log1))"
  shows "\<not> client_left ps config (snd (pv_bind m f v log))"
proof -
  obtain y log1 where m: "m v log = (y, log1)" by fastforce
  then have "\<not> client_left ps config log1"
    using assms(1,2) client_left_extends by (metis os_onlyD)
  with assms(3) m show ?thesis by (auto simp: pv_bind_apply split: sum.split)
qed

lemma operation_not_left:
  "\<not> client_left ps config (snd (os_bind (run_operation pc bc ps temp_dir cg q) (\<lambda>operation.
     os_bind (shutdown_client ps) (\<lambda>shutdown. pv_result (combine_shutdown operation shutdown))) v log))"
proof -
  obtain z log1 where operation: "run_operation pc bc ps temp_dir cg q v log = (Inr z, log1)"
    using os_total_operation unfolding os_total_def by (metis prod.collapse)
  obtain w log2 where shutdown: "shutdown_client ps v log1 = (Inr w, log2)"
    using os_total_shutdown unfolding os_total_def by (metis prod.collapse)
  with shutdown_log [OF shutdown] operation show ?thesis
    by (simp add: os_bind_apply)
qed

lemma run_not_left:
  assumes "connect_config (pq_operation q = ImageGenerate) (pq_timeout_ms q * 1000000) = Inr config"
    and "\<not> client_left ps config log"
  shows "\<not> client_left ps config (snd (async_run_request pc bc ps metadata temp_dir q cg v log))"
proof -
  have "\<not> client_left ps config (snd (pv_bind (connect_provider ps (pq_operation q = ImageGenerate) (pq_timeout_ms q * 1000000))
      (\<lambda>_. os_bind (run_operation pc bc ps temp_dir cg q) (\<lambda>operation.
         os_bind (shutdown_client ps) (\<lambda>shutdown. pv_result (combine_shutdown operation shutdown)))) v log1))"
    if "\<not> client_left ps config log1" for log1
  proof (cases "ps_connect ps config (Library ''connect'' # log1)")
    case (Inl e)
    with that show ?thesis
      by (simp add: connect_provider_def assms(1) pv_bind_apply pv_library_def os_bind_apply)
  next
    case (Inr u)
    then show ?thesis
      using operation_not_left [of ps config pc bc temp_dir cg q v "Library ''connect'' # log1"]
      by (simp add: connect_provider_def assms(1) pv_bind_apply pv_library_def os_bind_apply)
  qed
  note connected = this
  show ?thesis
    unfolding async_run_request_def
    by (rule not_left_bind [OF _ assms(2)], intro os_only, simp, rule not_left_bind, intro os_only, assumption)
      (rule connected)
qed

lemma validated_same: "validate_request pc temp_dir q v log = (Inr (Inr q1), log1) \<Longrightarrow> q1 = q"
  by (auto simp: validate_request_def validate_contents_def pv_result_def os_Inr result_simps)

lemma answer_not_left:
  assumes "connect_config (pq_operation q = ImageGenerate) (pq_timeout_ms q * 1000000) = Inr config"
    and "\<not> client_left ps config log"
  shows "\<not> client_left ps config (snd (answer_request pc bc ps metadata temp_dir (Inr q) v log))"
proof -
  have root: "unconnected (validate_staging_root temp_dir root)" for root
    by (rule only_validate_root) simp_all
  have validate: "unconnected (validate_request pc temp_dir q)"
    unfolding validate_request_def validate_request_staging_def by (intro os_only root)
  have environment: "unconnected from_environment"
    unfolding from_environment_def required_path_def required_variable_def by (intro os_only) simp_all
  have "\<not> client_left ps config (snd (pv_bind (validate_request pc temp_dir q)
      (\<lambda>q. pv_bind from_environment (\<lambda>cg. async_run_request pc bc ps metadata temp_dir q cg)) v log))"
  proof (rule not_left_bind [OF validate assms(2)])
    fix q1 log1
    assume "validate_request pc temp_dir q v log = (Inr (Inr q1), log1)" and log1: "\<not> client_left ps config log1"
    then have q1: "q1 = q" by (simp add: validated_same)
    show "\<not> client_left ps config
        (snd (pv_bind from_environment (\<lambda>cg. async_run_request pc bc ps metadata temp_dir q1 cg) v log1))"
      unfolding q1 by (rule not_left_bind [OF environment log1]) (rule run_not_left [OF assms(1)])
  qed
  then show ?thesis by (simp add: answer_request_def pv_result_def pv_bind_apply os_simps)
qed

section \<open>The process\<close>

definition is_output :: "os_call \<Rightarrow> bool" where
  "is_output c \<longleftrightarrow> (\<exists>s. c = WriteAll [] s)"

abbreviation writes_nothing :: "'a os \<Rightarrow> bool" where
  "writes_nothing \<equiv> os_only (\<lambda>c. \<not> is_output c)"

lemma answer_writes_nothing: "writes_nothing (answer_request pc bc ps metadata temp_dir raw)"
proof -
  have root: "writes_nothing (validate_staging_root temp_dir root)" for root
    by (rule only_validate_root) (simp_all add: is_output_def)
  have turn: "writes_nothing (run_model_turn pc bc lb temp_dir cg q)" for lb cg q
  proof (rule os_only_mono [OF turn_model_turn])
    show "turn_call root c \<Longrightarrow> \<not> is_output c" for root c
      by (cases c) (auto simp: is_output_def staged_file_def)
  qed
  show ?thesis
    unfolding answer_request_def validate_request_def validate_request_staging_def from_environment_def
      required_path_def required_variable_def async_run_request_def connect_provider_def run_operation_def
      run_image_generation_def shutdown_client_def
    by (intro os_only root turn) (simp_all add: is_output_def)
qed

text \<open>What goes to the standard output: the frame, the end of the line, the flush, up to the first that
  fails; the latest call comes first.\<close>

definition output_calls :: "string \<Rightarrow> nat \<Rightarrow> os_call list" where
  "output_calls frame n = rev (take n [WriteAll [] frame, WriteAll [] [CHR 0x0A], SyncAll []])"

lemma write_response_log:
  "\<exists>written n. write_response bytes v log1 = (Inr written, output_calls bytes n @ log1)
     \<and> 1 \<le> n \<and> n \<le> 3 \<and> (written = Inr () \<longrightarrow> n = 3)"
proof (cases "os_unit v (WriteAll [] bytes # log1)")
  case (Inl e)
  then show ?thesis
    by (intro exI [of _ "Inl e"] exI [of _ 1]) (simp add: write_response_def io_bind_def os_bind_apply output_calls_def)
next
  case first: (Inr u)
  show ?thesis
  proof (cases "os_unit v (WriteAll [] [CHR 0x0A] # WriteAll [] bytes # log1)")
    case (Inl e)
    with first show ?thesis
      by (intro exI [of _ "Inl e"] exI [of _ 2])
        (simp add: write_response_def io_bind_def os_bind_apply output_calls_def)
  next
    case (Inr u)
    with first show ?thesis
      by (intro exI [of _ "os_unit v (SyncAll [] # WriteAll [] [CHR 0x0A] # WriteAll [] bytes # log1)"] exI [of _ 3])
        (simp add: write_response_def io_bind_def os_bind_apply output_calls_def)
  qed
qed

lemma output_calls_other:
  "dispatches (output_calls bytes n @ log) = dispatches log"
  "Library what \<notin> set (output_calls bytes n)"
  "client_left ps config (output_calls bytes n @ log) \<Longrightarrow> client_left ps config log"
proof -
  have only: "c \<in> set (output_calls bytes n) \<Longrightarrow> c \<in> {WriteAll [] bytes, WriteAll [] [CHR 0x0A], SyncAll []}" for c
    by (auto simp: output_calls_def dest: in_set_takeD)
  then show "dispatches (output_calls bytes n @ log) = dispatches log"
    by (auto simp: dispatches_def is_dispatch_def filter_empty_conv)
  from only show "Library what \<notin> set (output_calls bytes n)" by blast
  from only have "extends (\<lambda>c. c \<noteq> Library ''connect'') (output_calls bytes n @ log) log"
    by (auto simp: extends_def list_all_iff)
  then show "client_left ps config (output_calls bytes n @ log) \<Longrightarrow> client_left ps config log"
    by (rule client_left_extends)
qed

text \<open>C14: whatever the operating system and the client library answer, the process asks for at most one
  turn or one image and never repeats it; it leaves no client behind: after every connect that succeeded,
  and so after every dispatch, the client is shut down, also when the operation fails or its time is
  over; and it writes one frame, the one for the outcome of the request, with its end of line, cut short
  only by a failing write; nothing else goes to its standard output, and its exit code is 0 only when the
  whole frame has been written.\<close>

theorem provider_answers_once:
  fixes pc bc fc ps metadata temp_dir v
  defines "stdin \<equiv> os_data v [ReadAll []]"
  shows "\<exists>code r n log log1. provider_main pc bc fc ps metadata temp_dir v [] = (Inr code, log)
     \<and> answer_request pc bc ps metadata temp_dir (fst (read_request fc stdin)) v [ReadAll []] = (Inr r, log1)
     \<and> log = output_calls (response_bytes fc (snd (read_request fc stdin)) r) n @ log1
     \<and> list_all (\<lambda>c. \<not> is_output c) log1 \<and> 1 \<le> n \<and> n \<le> 3 \<and> (code = 0 \<longrightarrow> n = 3)
     \<and> dispatches log \<le> 1 \<and> (dispatches log = 1 \<longrightarrow> Library ''shutdown'' \<in> set log)
     \<and> (\<forall>q config. fst (read_request fc stdin) = Inr q
          \<and> connect_config (pq_operation q = ImageGenerate) (pq_timeout_ms q * 1000000) = Inr config
          \<longrightarrow> \<not> client_left ps config log)"
proof -
  let ?log = "[ReadAll []]"
  obtain raw reflected where read: "read_request fc stdin = (raw, reflected)" by fastforce
  obtain r log1 where answer: "answer_request pc bc ps metadata temp_dir raw v ?log = (Inr r, log1)"
    using os_total_answer unfolding os_total_def by (metis prod.collapse)
  let ?bytes = "response_bytes fc reflected r"
  have ended: "library_ended ?log log1" using answer_ended answer by (metis snd_conv)
  have silent: "list_all (\<lambda>c. \<not> is_output c) log1"
    using os_onlyD [OF answer_writes_nothing answer] by (auto simp: extends_def is_output_def)
  obtain written n where wrote: "write_response ?bytes v log1 = (Inr written, output_calls ?bytes n @ log1)"
    "1 \<le> n" "n \<le> 3" "written = Inr () \<longrightarrow> n = 3"
    using write_response_log by blast
  let ?code = "(case written of Inl _ \<Rightarrow> 1 | Inr _ \<Rightarrow> 0) :: nat" and ?final_log = "output_calls ?bytes n @ log1"
  have main: "provider_main pc bc fc ps metadata temp_dir v [] = (Inr ?code, ?final_log)"
    using read by (simp add: provider_main_def os_bind_apply stdin_def answer wrote(1))
  have code: "?code = 0 \<longrightarrow> n = 3" using wrote(4) by (cases written) auto
  have once: "dispatches ?final_log \<le> 1 \<and> (dispatches ?final_log = 1 \<longrightarrow> Library ''shutdown'' \<in> set ?final_log)"
    unfolding output_calls_other(1) using ended
    by (cases log1) (auto simp: library_ended_def dispatches_def is_dispatch_def)
  have ended: "\<not> client_left ps config ?final_log" if "raw = Inr q"
    and "connect_config (pq_operation q = ImageGenerate) (pq_timeout_ms q * 1000000) = Inr config" for q config
  proof -
    have "\<not> client_left ps config ?log" by simp
    from answer_not_left [OF that(2) this] answer that(1) have "\<not> client_left ps config log1" by (metis snd_conv)
    then show ?thesis using output_calls_other(3) by blast
  qed
  show ?thesis
    unfolding read fst_conv snd_conv
    by (intro exI conjI, rule main, rule answer, rule refl, rule silent, rule wrote(2), rule wrote(3), rule code,
        rule once [THEN conjunct1], rule once [THEN conjunct2], intro allI impI, elim conjE, rule ended)
qed

end
