(* ===== verification/ProviderStrict.thy ===== *)
theory ProviderStrict
  imports ProviderValidate
begin

text \<open>
  The schemas that \<open>close_native_object_schemas\<close> produces: every object schema in them is closed and
  requires exactly its properties. Names of properties that are themselves keywords of a schema are
  excluded, and a schema with such a name shows why.
\<close>

section \<open>Strict schemas\<close>

definition object_closed :: "json_object \<Rightarrow> bool" where
  "object_closed m \<longleftrightarrow>
     (is_object_schema m \<longrightarrow> map_of m ''additionalProperties'' = Some (JBool False)
        \<and> map_of m ''required'' = Some (JArray (map JString (property_names m))))"

fun strict_schema :: "json \<Rightarrow> bool" where
  "strict_schema (JArray xs) = (\<forall>x \<in> set xs. strict_schema x)"
| "strict_schema (JObject m) = (object_closed m \<and> (\<forall>kv \<in> set m. strict_schema (snd kv)))"
| "strict_schema v = True"

text \<open>The names of properties are no keywords: their map does not look like a schema.\<close>

definition keyword_free :: "json_object \<Rightarrow> bool" where
  "keyword_free pm \<longleftrightarrow> \<not> is_object_schema pm \<and> \<not> has_key ''const'' pm"

fun plain_names :: "json \<Rightarrow> bool" where
  "plain_names (JArray xs) = (\<forall>x \<in> set xs. plain_names x)"
| "plain_names (JObject m) =
     ((case map_of m ''properties'' of Some (JObject pm) \<Rightarrow> keyword_free pm | _ \<Rightarrow> True)
      \<and> (\<forall>kv \<in> set m. plain_names (snd kv)))"
| "plain_names v = True"

section \<open>What closing keeps\<close>

lemma map_of_obj_remove [simp]: "map_of (obj_remove k m) k' = (if k' = k then None else map_of m k')"
  by (induction m) (auto simp: obj_remove_def)

lemma map_of_obj_or_insert:
  "map_of (obj_or_insert k v m) k' = (if k' = k \<and> map_of m k = None then Some v else map_of m k')"
  by (auto simp: obj_or_insert_def split: option.splits)

lemma plain_names_insert:
  "(\<forall>kv \<in> set m. plain_names (snd kv)) \<Longrightarrow> plain_names v \<Longrightarrow> \<forall>kv \<in> set (obj_insert k v m). plain_names (snd kv)"
  using set_obj_insert_subset [of k v m] by force

lemma plain_names_or_insert:
  "(\<forall>kv \<in> set m. plain_names (snd kv)) \<Longrightarrow> plain_names v \<Longrightarrow> \<forall>kv \<in> set (obj_or_insert k v m). plain_names (snd kv)"
  using plain_names_insert by (auto simp: obj_or_insert_def split: option.splits)

lemma plain_names_remove:
  "(\<forall>kv \<in> set m. plain_names (snd kv)) \<Longrightarrow> \<forall>kv \<in> set (obj_remove k m). plain_names (snd kv)"
  by (auto simp: obj_remove_def)

lemma plain_names_map_of: "(\<forall>kv \<in> set m. plain_names (snd kv)) \<Longrightarrow> map_of m k = Some v \<Longrightarrow> plain_names v"
  by (force dest: map_of_SomeD)

lemma nullable_const_plain:
  assumes "nullable_const number_text m = Inr m1" and "plain_names (JObject m)"
  shows "plain_names (JObject m1) \<and> map_of m1 ''properties'' = map_of m ''properties''"
proof (cases "map_of m ''const''")
  case None
  with assms show ?thesis by (simp add: nullable_const_def)
next
  case (Some c)
  let ?r = "obj_remove ''const'' m"
  from assms(1) Some obtain kind where m1: "m1 = obj_insert ''enum''
      (JArray (c # (if kind \<noteq> ''null'' then [JNull] else []))) (obj_remove ''enum'' (obj_or_insert ''type'' (JString kind) ?r))"
    by (auto simp: nullable_const_def Let_def result_simps)
  from assms(2) have m: "\<forall>kv \<in> set m. plain_names (snd kv)" by simp
  have "\<forall>kv \<in> set m1. plain_names (snd kv)"
    unfolding m1
    by (intro plain_names_insert plain_names_remove plain_names_or_insert m) (use plain_names_map_of [OF m Some] in auto)
  moreover have "map_of m1 ''properties'' = map_of m ''properties''"
    unfolding m1 by (simp add: map_of_obj_or_insert)
  ultimately show ?thesis using assms(2) by simp
qed

lemma push_null_enum_plain:
  "plain_names (JObject m) \<Longrightarrow> plain_names (JObject (push_null_enum m))"
proof (cases "Option.bind (map_of m ''enum'') as_array")
  case (Some vals)
  assume plain: "plain_names (JObject m)"
  then have m: "\<forall>kv \<in> set m. plain_names (snd kv)" by simp
  from Some have "map_of m ''enum'' = Some (JArray vals)"
    by (auto simp: Option.bind_eq_Some_conv as_array_Some_iff)
  from plain_names_map_of [OF m this] have "\<forall>kv \<in> set (obj_insert ''enum'' (JArray (vals @ [JNull])) m). plain_names (snd kv)"
    by (intro plain_names_insert m) auto
  with plain Some show ?thesis by (simp add: push_null_enum_def)
qed (simp add: push_null_enum_def)

lemma type_or_null_plain: "plain_names t \<Longrightarrow> plain_names (type_or_null t)"
  by (cases t) auto

lemma nullable_plain:
  assumes "make_native_property_nullable number_text v = Inr w" and "plain_names v"
  shows "plain_names w"
proof (cases v)
  case (JObject m)
  with assms obtain m1 where m1: "nullable_const number_text m = Inr m1" and
    w: "w = (case map_of m1 ''type'' of
         Some t \<Rightarrow>
           if declares ''null'' t then JObject (push_null_enum m1)
           else if any_of_null m1 then JObject m1
           else JObject (push_null_enum (obj_insert ''type'' (type_or_null t) m1))
       | None \<Rightarrow> if any_of_null m1 then JObject m1 else any_of_nullable (JObject m1))"
    by (auto simp: result_simps)
  from nullable_const_plain [OF m1] assms(2) JObject have plain: "plain_names (JObject m1)" by simp
  show ?thesis
  proof (cases "map_of m1 ''type''")
    case None
    with plain w show ?thesis by (auto simp: any_of_nullable_def)
  next
    case (Some t)
    from plain have m: "\<forall>kv \<in> set m1. plain_names (snd kv)" by simp
    from plain_names_map_of [OF m Some]
    have "\<forall>kv \<in> set (obj_insert ''type'' (type_or_null t) m1). plain_names (snd kv)"
      by (intro plain_names_insert m type_or_null_plain)
    with plain have inserted: "plain_names (JObject (obj_insert ''type'' (type_or_null t) m1))" by simp
    show ?thesis
      unfolding w Some option.case
      by (simp only: push_null_enum_plain [OF plain] push_null_enum_plain [OF inserted] plain split: if_splits) simp
  qed
qed (use assms in \<open>auto simp: any_of_nullable_def\<close>)

lemma nullable_is_object: "make_native_property_nullable number_text v = Inr w \<Longrightarrow> is_object w"
  by (cases v) (auto simp: any_of_nullable_def result_simps split: option.splits if_splits)

lemma nullable_property_plain:
  "nullable_property number_text required kv = Inr kv1 \<Longrightarrow> plain_names (snd kv) \<Longrightarrow>
     plain_names (snd kv1) \<and> fst kv1 = fst kv"
  by (auto simp: nullable_property_def result_simps nullable_plain split: if_splits)

text \<open>A map over the values of an object.\<close>

lemma result_map_values:
  assumes "result_map f m = Inr m1" and "\<forall>kv kv1. f kv = Inr kv1 \<longrightarrow> fst kv1 = fst kv"
  shows "map fst m1 = map fst m"
    and "map_of m k = None \<longleftrightarrow> map_of m1 k = None"
    and "map_of m k = Some v \<Longrightarrow> \<exists>w. map_of m1 k = Some w \<and> f (k, v) = Inr (k, w)"
    and "kv1 \<in> set m1 \<Longrightarrow> \<exists>kv \<in> set m. f kv = Inr kv1"
proof -
  from assms(1) have all: "list_all2 (\<lambda>x y. f x = Inr y) m m1" by (simp add: result_map_Inr_iff)
  then show keys: "map fst m1 = map fst m"
  proof (induction rule: list_all2_induct)
    case (Cons x xs y ys)
    from assms(2) Cons.hyps(1) have "fst y = fst x" by blast
    with Cons show ?case by simp
  qed simp
  then have "fst ` set m1 = fst ` set m" by (metis set_map)
  then show "map_of m k = None \<longleftrightarrow> map_of m1 k = None" by (simp add: map_of_eq_None_iff)
  from all show "map_of m k = Some v \<Longrightarrow> \<exists>w. map_of m1 k = Some w \<and> f (k, v) = Inr (k, w)"
  proof (induction arbitrary: v rule: list_all2_induct)
    case (Cons x xs y ys)
    from assms(2) Cons.hyps(1) have "fst y = fst x" by blast
    with Cons show ?case by (cases x; cases y) (auto split: if_splits)
  qed simp
  from all show "kv1 \<in> set m1 \<Longrightarrow> \<exists>kv \<in> set m. f kv = Inr kv1"
    by (induction rule: list_all2_induct) auto
qed

lemma nullable_properties_plain:
  assumes "result_map (nullable_property number_text required) pm = Inr pm1"
    and "plain_names (JObject pm)" and "keyword_free pm"
  shows "plain_names (JObject pm1) \<and> keyword_free pm1 \<and> map fst pm1 = map fst pm"
proof -
  have keep: "\<forall>kv kv1. nullable_property number_text required kv = Inr kv1 \<longrightarrow> fst kv1 = fst kv"
    using nullable_property_weight by blast
  note vals = result_map_values [OF assms(1) keep]
  have "declares ''object'' t1 = False" if "map_of pm1 ''type'' = Some t1" for t1
  proof -
    from that vals(2) [of "''type''"] obtain t where t: "map_of pm ''type'' = Some t" by fastforce
    from vals(3) [OF t] that have "t1 = t \<or> is_object t1"
      by (auto simp: nullable_property_def result_simps dest: nullable_is_object split: if_splits)
    moreover from assms(3) t have "\<not> declares ''object'' t" by (simp add: keyword_free_def is_object_schema_def)
    moreover have "is_object t1 \<Longrightarrow> \<not> declares ''object'' t1" by (cases t1) (simp_all add: declares_def)
    ultimately show ?thesis by blast
  qed
  then have free: "keyword_free pm1"
    using assms(3) vals(2) by (auto simp: keyword_free_def is_object_schema_def has_key_def split: option.splits)
  have "\<forall>kv1 \<in> set pm1. plain_names (snd kv1)"
    using assms(2) vals(4) by (fastforce dest: nullable_property_plain)
  moreover have "map_of pm1 ''properties'' = None"
    using free by (simp add: keyword_free_def is_object_schema_def has_key_def)
  ultimately show ?thesis using free vals(1) by simp
qed

section \<open>One object\<close>

lemma close_object_closed:
  assumes "close_object number_text m0 = Inr m3" and "plain_names (JObject m0)"
  shows "plain_names (JObject m3) \<and> object_closed m3"
proof -
  from assms(1) obtain m where m: "normalize_native_const_type number_text m0 = Inr m"
    by (auto simp: close_object_def result_simps)
  from assms(2) have m0: "\<forall>kv \<in> set m0. plain_names (snd kv)" by simp
  have plain_m: "plain_names (JObject m)"
    using normalize_cases [OF m] assms(2) plain_names_insert [OF m0, of "JString kind" for kind] by auto
  show ?thesis
  proof (cases "is_object_schema m")
    case False
    with assms m plain_m show ?thesis by (simp add: close_object_def object_closed_def)
  next
    case True
    let ?m1 = "obj_insert ''additionalProperties'' (JBool False) m"
    from assms(1) m True obtain required m2 where
      m2: "nullable_properties number_text required ?m1 = Inr m2" and
      m3: "m3 = obj_insert ''required'' (JArray (map JString (property_names ?m1))) m2"
      by (auto simp: close_object_def Let_def result_simps split: if_splits)
    from plain_m have set_m1: "\<forall>kv \<in> set ?m1. plain_names (snd kv)"
      by (intro plain_names_insert) auto
    with plain_m have plain_m1: "plain_names (JObject ?m1)" by simp
    have m2_facts: "plain_names (JObject m2) \<and> property_names m2 = property_names ?m1
        \<and> map_of m2 ''additionalProperties'' = Some (JBool False)"
    proof (cases "Option.bind (map_of ?m1 ''properties'') as_object")
      case None
      with m2 have "m2 = ?m1" by (simp only: nullable_properties_def option.case sum.inject)
      with plain_m1 show ?thesis by (simp only: map_of_obj_insert) simp
    next
      case (Some pm)
      then have pm: "map_of ?m1 ''properties'' = Some (JObject pm)"
        by (auto simp: Option.bind_eq_Some_conv as_object_Some_iff)
      from Some m2 obtain pm1 where pm1: "result_map (nullable_property number_text required) pm = Inr pm1"
        "m2 = obj_insert ''properties'' (JObject pm1) ?m1"
        by (auto simp: nullable_properties_def result_simps)
      from plain_m1 pm have "keyword_free pm" by simp
      from nullable_properties_plain [OF pm1(1) plain_names_map_of [OF set_m1 pm] this]
      have pm1_facts: "plain_names (JObject pm1)" "keyword_free pm1" "map fst pm1 = map fst pm" by auto
      have "\<forall>kv \<in> set m2. plain_names (snd kv)"
        unfolding pm1(2) by (intro plain_names_insert set_m1 pm1_facts(1))
      with pm1_facts pm1(2) pm Some show ?thesis by (simp add: property_names_def)
    qed
    have "\<forall>kv \<in> set m3. plain_names (snd kv)"
      unfolding m3 by (intro plain_names_insert) (use m2_facts in auto)
    with m2_facts m3 show ?thesis by (simp add: object_closed_def property_names_def)
  qed
qed

section \<open>The recursion\<close>

lemma close_as_str: "close_native_object_schemas number_text v = Inr w \<Longrightarrow> as_str w = as_str v"
  by (cases v) (auto simp: result_simps)

lemma close_strings:
  "result_map (close_native_object_schemas number_text) (map JString names) = Inr (map JString names)"
  by (induction names) simp_all

lemma close_declares:
  assumes "close_native_object_schemas number_text t = Inr t1"
  shows "declares kind t1 = declares kind t"
proof (cases t)
  case (JArray ts)
  with assms obtain ts1 where ts1: "t1 = JArray ts1" "list_all2 (\<lambda>x y. close_native_object_schemas number_text x = Inr y) ts ts1"
    by (auto simp: result_simps result_map_Inr_iff)
  from ts1(2) have "list_ex (\<lambda>v. as_str v = Some kind) ts1 = list_ex (\<lambda>v. as_str v = Some kind) ts"
    by (induction rule: list_all2_induct) (auto dest: close_as_str)
  with JArray ts1(1) show ?thesis by (simp add: declares_def)
qed (use assms in \<open>auto simp: declares_def result_simps\<close>)

abbreviation close_entry :: "(jnumber \<Rightarrow> string) \<Rightarrow> string \<times> json \<Rightarrow> (string \<times> json) provider_result" where
  "close_entry number_text kv \<equiv>
     result_bind (close_native_object_schemas number_text (snd kv)) (\<lambda>v. Inr (fst kv, v))"

lemma close_entries:
  assumes "result_map (close_entry number_text) m = Inr m1"
  shows "map fst m1 = map fst m"
    and "map_of m k = None \<longleftrightarrow> map_of m1 k = None"
    and "map_of m k = Some v \<Longrightarrow> \<exists>w. map_of m1 k = Some w \<and> close_native_object_schemas number_text v = Inr w"
    and "kv1 \<in> set m1 \<Longrightarrow> \<exists>kv \<in> set m. close_native_object_schemas number_text (snd kv) = Inr (snd kv1)"
proof -
  have keep: "\<forall>kv kv1. close_entry number_text kv = Inr kv1 \<longrightarrow> fst kv1 = fst kv"
    by (auto simp: result_simps)
  note vals = result_map_values [OF assms keep]
  show "map fst m1 = map fst m" by (rule vals(1))
  show "map_of m k = None \<longleftrightarrow> map_of m1 k = None" by (rule vals(2))
  show "map_of m k = Some v \<Longrightarrow> \<exists>w. map_of m1 k = Some w \<and> close_native_object_schemas number_text v = Inr w"
    using vals(3) by (fastforce simp: result_simps)
  show "\<exists>kv \<in> set m. close_native_object_schemas number_text (snd kv) = Inr (snd kv1)" if "kv1 \<in> set m1"
  proof -
    from vals(4) [OF that] obtain kv where "kv \<in> set m" "close_entry number_text kv = Inr kv1" by blast
    then show ?thesis by (auto simp: result_simps intro!: bexI [of _ kv])
  qed
qed

lemma close_keyword_free:
  assumes "keyword_free pm" and "close_native_object_schemas number_text (JObject pm) = Inr w"
  shows "\<exists>pm1. w = JObject pm1 \<and> map fst pm1 = map fst pm"
proof -
  from assms(1) have "close_object number_text pm = Inr pm"
    by (simp add: close_object_def normalize_native_const_type_def keyword_free_def has_key_def)
  with assms(2) show ?thesis by (auto simp: result_simps dest: close_entries(1))
qed

lemma close_entries_closed:
  assumes "result_map (close_entry number_text) m = Inr m1" and "plain_names (JObject m)" and "object_closed m"
  shows "object_closed m1"
proof -
  note vals = close_entries [OF assms(1)]
  have type_kept: "(case map_of m1 ''type'' of Some t \<Rightarrow> declares ''object'' t | None \<Rightarrow> False)
      = (case map_of m ''type'' of Some t \<Rightarrow> declares ''object'' t | None \<Rightarrow> False)"
  proof (cases "map_of m ''type''")
    case None
    then have "map_of m1 ''type'' = None" by (simp only: vals(2) [symmetric])
    with None show ?thesis by (simp only: option.case)
  next
    case (Some t)
    from vals(3) [OF this] obtain t1 where t1: "map_of m1 ''type'' = Some t1"
      "close_native_object_schemas number_text t = Inr t1" by blast
    show ?thesis unfolding Some t1(1) option.case by (rule close_declares [OF t1(2)])
  qed
  have keys: "has_key k m1 = has_key k m" for k
    unfolding has_key_def using vals(2) [of k] by (simp only:)
  have schema: "is_object_schema m1 = is_object_schema m"
    unfolding is_object_schema_def type_kept keys ..
  show ?thesis
  proof (cases "is_object_schema m")
    case True
    with assms(3) have closed: "map_of m ''additionalProperties'' = Some (JBool False)"
      "map_of m ''required'' = Some (JArray (map JString (property_names m)))"
      by (auto simp: object_closed_def)
    have names: "property_names m1 = property_names m"
    proof (cases "map_of m ''properties''")
      case None
      then have "map_of m1 ''properties'' = None" by (simp only: vals(2) [symmetric])
      with None show ?thesis by (simp only: property_names_def Option.bind.bind_lzero)
    next
      case (Some p)
      from vals(3) [OF this] obtain w where w: "map_of m1 ''properties'' = Some w"
        "close_native_object_schemas number_text p = Inr w" by blast
      show ?thesis
      proof (cases p)
        case (JObject pm)
        with assms(2) Some have "keyword_free pm" by simp
        from close_keyword_free [OF this] w(2) JObject obtain pm1 where "w = JObject pm1" "map fst pm1 = map fst pm"
          by blast
        with Some JObject w(1) show ?thesis by (simp add: property_names_def)
      qed (use Some w in \<open>auto simp: property_names_def result_simps\<close>)
    qed
    from vals(3) [OF closed(1)] have additional: "map_of m1 ''additionalProperties'' = Some (JBool False)"
      by (auto simp: result_simps)
    from vals(3) [OF closed(2)] have "map_of m1 ''required'' = Some (JArray (map JString (property_names m)))"
      by (auto simp: close_strings result_simps)
    with additional names show ?thesis by (simp only: object_closed_def) simp
  qed (simp add: object_closed_def schema)
qed

lemma close_strict:
  "close_native_object_schemas number_text v = Inr w \<Longrightarrow> plain_names v \<Longrightarrow> strict_schema w"
proof (induction number_text v arbitrary: w rule: close_native_object_schemas.induct)
  case (1 number_text m)
  from "1.prems"(1) obtain m1 m2 where m1: "close_object number_text m = Inr m1"
    and m2: "result_map (close_entry number_text) m1 = Inr m2" and w: "w = JObject m2"
    by (auto simp: result_simps)
  from close_object_closed [OF m1 "1.prems"(2)] have m1_facts: "plain_names (JObject m1)" "object_closed m1" by auto
  have "strict_schema (snd kv2)" if "kv2 \<in> set m2" for kv2
  proof -
    from close_entries(4) [OF m2 that] obtain kv where kv: "kv \<in> set m1"
      "close_native_object_schemas number_text (snd kv) = Inr (snd kv2)" by blast
    from kv(1) m1_facts(1) have "plain_names (snd kv)" by simp
    with "1.IH" [OF m1 kv(1) kv(2)] show ?thesis by blast
  qed
  with close_entries_closed [OF m2 m1_facts] w show ?case by simp
next
  case (2 number_text items)
  from "2.prems"(1) obtain ys where ys: "w = JArray ys"
    "list_all2 (\<lambda>x y. close_native_object_schemas number_text x = Inr y) items ys"
    by (auto simp: result_simps result_map_Inr_iff)
  have "strict_schema y" if "y \<in> set ys" for y
  proof -
    from that obtain i where "i < length ys" "y = ys ! i" by (auto simp: in_set_conv_nth)
    with ys(2) have "items ! i \<in> set items" "close_native_object_schemas number_text (items ! i) = Inr y"
      by (auto simp: list_all2_conv_all_nth)
    with "2.IH" "2.prems"(2) show ?thesis by simp
  qed
  with ys(1) show ?case by simp
qed auto

end
