(* ===== verification/ProviderOutputSchema.thy ===== *)
theory ProviderOutputSchema
  imports ProviderStrict
begin

text \<open>
  The output schema of a model turn (\<open>model_output_schema\<close> in \<open>src/src/bin/vergerail_upagent_provider.rs\<close>):
  when the tools and the arguments they take have no names that are keywords of a schema, every object of
  it is closed; a tool with an argument that is named \<open>required\<close> is refused.
\<close>

definition plain_tool :: "provider_tool \<Rightarrow> bool" where
  "plain_tool t \<longleftrightarrow>
     plain_names (tl_input_schema t) \<and> tl_name t \<notin> {''properties'', ''required'', ''const''}"

section \<open>The schema before it is closed\<close>

lemma set_obj_of: "set (obj_of kvs) \<subseteq> set kvs"
proof -
  have "set (foldl (\<lambda>m (k, v). obj_insert k v m) m kvs) \<subseteq> set m \<union> set kvs" for m
  proof (induction kvs arbitrary: m)
    case (Cons kv kvs)
    obtain k v where kv: "kv = (k, v)" by fastforce
    have "set (foldl (\<lambda>m (k, v). obj_insert k v m) m (kv # kvs))
        \<subseteq> set (obj_insert k v m) \<union> set kvs"
      using Cons.IH [of "obj_insert k v m"] by (simp add: kv)
    also have "\<dots> \<subseteq> set m \<union> set (kv # kvs)" using set_obj_insert_subset [of k v m] by (auto simp: kv)
    finally show ?case .
  qed simp
  from this [of "[]"] show ?thesis by (simp add: obj_of_def)
qed

lemma plain_names_jobj:
  assumes "\<forall>kv \<in> set kvs. plain_names (snd kv)"
    and "case map_of (rev kvs) ''properties'' of Some (JObject pm) \<Rightarrow> keyword_free pm | _ \<Rightarrow> True"
  shows "plain_names (jobj kvs)"
  using assms set_obj_of [of kvs] by (auto simp: jobj_def map_of_obj_of)

lemma map_of_tools: "map_of (rev (map (\<lambda>t. (f t, g t)) ts)) k = Some v \<Longrightarrow> \<exists>t \<in> set ts. f t = k \<and> v = g t"
  by (drule map_of_SomeD) auto

lemma plain_tool_property: "plain_names (tl_input_schema t) \<Longrightarrow> plain_names (tool_property t)"
proof -
  assume plain: "plain_names (tl_input_schema t)"
  let ?id = "jobj [(''type'', JString ''string''), (''maxLength'', jint MAX_TOOL_CALL_ID_BYTES)]"
  let ?pvs = "[(''id'', ?id), (''arguments'', tl_input_schema t)]"
  have "plain_names ?id" by (rule plain_names_jobj) (simp_all add: jint_def)
  with plain have pvs: "plain_names (jobj ?pvs)" by (intro plain_names_jobj) simp_all
  have "keyword_free (obj_of ?pvs)"
    by (simp add: keyword_free_def is_object_schema_def has_key_def map_of_obj_of)
  with pvs have "plain_names (jobj [(''type'', JString ''object''), (''additionalProperties'', JBool False),
      (''required'', JArray [JString ''id'', JString ''arguments'']), (''properties'', jobj ?pvs)])"
    by (intro plain_names_jobj) (simp_all add: jobj_def)
  then show ?thesis
    unfolding tool_property_def by (intro plain_names_jobj) (simp_all add: jint_def)
qed

lemma tool_property_object: "\<exists>m. tool_property t = JObject m"
  by (simp add: tool_property_def jobj_def)

lemma declares_object: "\<not> declares kind (JObject m)"
  by (simp add: declares_def)

lemma tools_keyword_free:
  assumes "\<forall>t \<in> set tools. tl_name t \<notin> {''properties'', ''required'', ''const''}"
  shows "keyword_free (obj_of (map (\<lambda>t. (tl_name t, tool_property t)) tools))"
proof -
  let ?m = "obj_of (map (\<lambda>t. (tl_name t, tool_property t)) tools)"
  have none: "map_of ?m k = None" if "k \<in> {''properties'', ''required'', ''const''}" for k
    using that assms map_of_tools [of tl_name tool_property tools k]
    unfolding map_of_obj_of by (cases "map_of (rev (map (\<lambda>t. (tl_name t, tool_property t)) tools)) k") auto
  have "\<not> declares ''object'' v" if "map_of ?m ''type'' = Some v" for v
    using map_of_tools [OF that [unfolded map_of_obj_of]] tool_property_object declares_object by metis
  then show ?thesis
    using none by (auto simp: keyword_free_def is_object_schema_def has_key_def split: option.splits)
qed

lemma plain_tool_calls:
  assumes "\<forall>t \<in> set tools. plain_tool t"
  shows "plain_names (tool_calls_property tools)"
proof -
  let ?kvs = "map (\<lambda>t. (tl_name t, tool_property t)) tools"
  have free: "keyword_free (obj_of ?kvs)"
    using assms by (intro tools_keyword_free) (auto simp: plain_tool_def)
  then have "map_of (rev ?kvs) ''properties'' = None"
    by (simp add: keyword_free_def is_object_schema_def has_key_def map_of_obj_of)
  then have "plain_names (jobj ?kvs)"
    using assms by (intro plain_names_jobj) (auto simp: plain_tool_def intro: plain_tool_property)
  with free show ?thesis
    unfolding tool_calls_property_def by (intro plain_names_jobj) (auto simp: jobj_def)
qed

lemma plain_open_schema:
  assumes "\<forall>t \<in> set tools. plain_tool t"
  shows "plain_names (open_output_schema tools)"
proof -
  let ?body = "(''text'', jobj [(''type'', JString ''string''), (''maxLength'', jint MAX_TEXT_BYTES)])
    # (if tools = [] then [] else [(''toolCalls'', tool_calls_property tools)])"
  have "plain_names (jobj ?body)"
    using plain_tool_calls [OF assms]
    by (intro plain_names_jobj) (auto intro!: plain_names_jobj simp: jint_def)
  moreover have "keyword_free (obj_of ?body)"
    by (auto simp: keyword_free_def is_object_schema_def has_key_def map_of_obj_of)
  ultimately show ?thesis
    unfolding open_output_schema_def Let_def by (intro plain_names_jobj) (auto simp: jobj_def)
qed

text \<open>C38: in the output schema of a model turn every object schema is closed and requires exactly its
  properties, when no tool and no property of a tool's arguments has the name of a schema keyword.\<close>

theorem output_schema_strict:
  assumes "\<forall>t \<in> set (pq_tools q). plain_tool t"
    and "model_output_schema number_text q = Inr schema"
  shows "strict_schema schema"
  using close_strict [OF assms(2) [unfolded model_output_schema_def] plain_open_schema [OF assms(1)]] .

section \<open>A property that is named \<open>required\<close>\<close>

lemma close_children:
  assumes "close_native_object_schemas number_text (JObject m) = Inr w"
  shows "\<exists>m1. close_object number_text m = Inr m1
    \<and> (\<forall>k v. map_of m1 k = Some v \<longrightarrow> (\<exists>x. close_native_object_schemas number_text v = Inr x))"
proof -
  from assms obtain m1 m2 where m1: "close_object number_text m = Inr m1"
    and m2: "result_map (close_entry number_text) m1 = Inr m2"
    by (auto simp: result_simps)
  from m1 close_entries(3) [OF m2] show ?thesis by blast
qed

text \<open>The properties of an object schema stay what they are when all of them are required.\<close>

lemma close_object_properties:
  assumes "close_object number_text m = Inr m3" and "map_of m ''properties'' = Some (JObject pm)"
  shows "\<exists>required pm1. map_of m3 ''properties'' = Some (JObject pm1)
     \<and> result_map (nullable_property number_text required) pm = Inr pm1
     \<and> (\<forall>names. map_of m ''required'' = Some (JArray (map JString names)) \<longrightarrow> required = names)"
proof -
  from assms(1) obtain m1 where m1: "normalize_native_const_type number_text m = Inr m1"
    by (auto simp: close_object_def result_simps)
  have same: "map_of m1 k = map_of m k" if "k \<noteq> ''type''" for k
    using normalize_cases [OF m1] that by auto
  then have pm: "map_of m1 ''properties'' = Some (JObject pm)" by (simp add: assms(2))
  then have schema: "is_object_schema m1" by (simp add: is_object_schema_def has_key_def)
  let ?m1 = "obj_insert ''additionalProperties'' (JBool False) m1"
  from assms(1) m1 schema obtain required m2 where
    required: "existing_required ?m1 = Inr required" and
    m2: "nullable_properties number_text required ?m1 = Inr m2" and
    m3: "m3 = obj_insert ''required'' (JArray (map JString (property_names ?m1))) m2"
    by (auto simp: close_object_def Let_def result_simps split: if_splits)
  from m2 pm obtain pm1 where pm1: "result_map (nullable_property number_text required) pm = Inr pm1"
    "m2 = obj_insert ''properties'' (JObject pm1) ?m1"
    by (auto simp: nullable_properties_def result_simps)
  have "required = names" if "map_of m ''required'' = Some (JArray (map JString names))" for names
  proof -
    have "result_map (\<lambda>v. ok_or e (as_str v)) (map JString names) = Inr names" for e :: provider_failure
      by (induction names) (simp_all add: ok_or_def)
    with required that same [of "''required''"] show ?thesis
      by (simp add: existing_required_def ok_or_def)
  qed
  with pm1 m3 show ?thesis by auto
qed

lemma nullable_all_required:
  "result_map (nullable_property number_text required) pm = Inr pm1 \<Longrightarrow> fst ` set pm \<subseteq> set required \<Longrightarrow> pm1 = pm"
  by (induction pm arbitrary: pm1) (auto simp: nullable_property_def result_simps)

lemma close_required_child:
  assumes "close_native_object_schemas number_text (JObject m) = Inr w"
    and "map_of m ''properties'' = Some (JObject pm)"
    and "map_of m ''required'' = Some (JArray (map JString names))" and "fst ` set pm \<subseteq> set names"
    and "keyword_free pm" and "map_of pm k = Some v"
  shows "\<exists>x. close_native_object_schemas number_text v = Inr x"
proof -
  from close_children [OF assms(1)] obtain m3 where m3: "close_object number_text m = Inr m3"
    and children: "\<And>k v. map_of m3 k = Some v \<Longrightarrow> \<exists>x. close_native_object_schemas number_text v = Inr x" by blast
  from close_object_properties [OF m3 assms(2)] assms(3,4) nullable_all_required
  have "map_of m3 ''properties'' = Some (JObject pm)" by metis
  from children [OF this] obtain w1 where w1: "close_native_object_schemas number_text (JObject pm) = Inr w1" ..
  from assms(5) have "close_object number_text pm = Inr pm"
    by (simp add: close_object_def normalize_native_const_type_def keyword_free_def has_key_def)
  with close_children [OF w1] assms(6) show ?thesis by auto
qed

lemma close_jobj_child:
  assumes "close_native_object_schemas number_text (jobj kvs) = Inr w"
    and "map_of (rev kvs) ''properties'' = Some (jobj pvs)"
    and "map_of (rev kvs) ''required'' = Some (JArray (map JString names))" and "fst ` set pvs \<subseteq> set names"
    and "keyword_free (obj_of pvs)" and "map_of (rev pvs) k = Some v"
  shows "\<exists>x. close_native_object_schemas number_text v = Inr x"
proof (rule close_required_child [OF assms(1) [unfolded jobj_def] _ _ _ assms(5)])
  show "map_of (obj_of kvs) ''properties'' = Some (JObject (obj_of pvs))"
    using assms(2) by (simp add: map_of_obj_of jobj_def)
  show "map_of (obj_of kvs) ''required'' = Some (JArray (map JString names))"
    using assms(3) by (simp add: map_of_obj_of)
  show "fst ` set (obj_of pvs) \<subseteq> set names" using assms(4) set_obj_of [of pvs] by blast
  show "map_of (obj_of pvs) k = Some v" using assms(6) by (simp add: map_of_obj_of)
qed

lemma close_unchanged_child:
  assumes "close_native_object_schemas number_text (jobj kvs) = Inr w"
    and "close_object number_text (obj_of kvs) = Inr (obj_of kvs)" and "map_of (rev kvs) k = Some v"
  shows "\<exists>x. close_native_object_schemas number_text v = Inr x"
  using close_children [OF assms(1) [unfolded jobj_def]] assms(2,3) by (auto simp: map_of_obj_of)

text \<open>What holds of the arguments of a tool when the output schema can be closed.\<close>

lemma close_tool_schema:
  assumes "close_native_object_schemas number_text (tool_property t) = Inr w"
  shows "\<exists>x. close_native_object_schemas number_text (tl_input_schema t) = Inr x"
proof -
  let ?id = "jobj [(''type'', JString ''string''), (''maxLength'', jint MAX_TOOL_CALL_ID_BYTES)]"
  let ?pvs = "[(''id'', ?id), (''arguments'', tl_input_schema t)]"
  let ?items = "jobj [(''type'', JString ''object''), (''additionalProperties'', JBool False),
      (''required'', JArray [JString ''id'', JString ''arguments'']), (''properties'', jobj ?pvs)]"
  let ?kvs = "[(''type'', JString ''array''), (''maxItems'', jint MAX_TOOL_CALLS), (''items'', ?items)]"
  have "close_object number_text (obj_of ?kvs) = Inr (obj_of ?kvs)"
    by (simp add: close_object_def normalize_native_const_type_def is_object_schema_def has_key_def declares_def
        map_of_obj_of)
  from close_unchanged_child [OF assms [unfolded tool_property_def] this, of "''items''" ?items]
  have "\<exists>x. close_native_object_schemas number_text ?items = Inr x" by simp
  then obtain w1 where w1: "close_native_object_schemas number_text ?items = Inr w1" ..
  show ?thesis
    by (rule close_jobj_child [OF w1, where pvs = ?pvs and names = "[''id'', ''arguments'']" and k = "''arguments''"])
      (simp_all add: keyword_free_def is_object_schema_def has_key_def map_of_obj_of)
qed

lemma close_output_tool:
  assumes "close_native_object_schemas number_text (open_output_schema tools) = Inr w"
    and "\<forall>t \<in> set tools. tl_name t \<notin> {''properties'', ''required'', ''const''}"
    and "distinct (map tl_name tools)" and "t \<in> set tools"
  shows "\<exists>x. close_native_object_schemas number_text (tl_input_schema t) = Inr x"
proof -
  have tools: "tools \<noteq> []" using assms(4) by auto
  let ?body = "[(''text'', jobj [(''type'', JString ''string''), (''maxLength'', jint MAX_TEXT_BYTES)]),
     (''toolCalls'', tool_calls_property tools)]"
  have "\<exists>x. close_native_object_schemas number_text (tool_calls_property tools) = Inr x"
    by (rule close_jobj_child [OF assms(1) [unfolded open_output_schema_def Let_def], where pvs = ?body
          and names = "[''text'', ''toolCalls'']" and k = "''toolCalls''"])
      (use tools in \<open>simp_all add: keyword_free_def is_object_schema_def has_key_def map_of_obj_of\<close>)
  then obtain w1 where w1: "close_native_object_schemas number_text (tool_calls_property tools) = Inr w1" ..
  let ?kvs = "map (\<lambda>t. (tl_name t, tool_property t)) tools"
  have entry: "map_of (rev ?kvs) (tl_name t) = Some (tool_property t)"
    using assms(3,4) by (intro map_of_is_SomeI) (auto simp: comp_def rev_map [symmetric])
  have "\<exists>x. close_native_object_schemas number_text (tool_property t) = Inr x"
    by (rule close_jobj_child [OF w1 [unfolded tool_calls_property_def], where pvs = ?kvs
          and names = "map tl_name tools", OF _ _ _ tools_keyword_free [OF assms(2)] entry])
      (auto simp: comp_def)
  then show ?thesis using close_tool_schema by blast
qed

lemma close_required_property:
  assumes "map_of m ''properties'' = Some (JObject pm)" and "map_of pm ''required'' = Some (JObject p)"
  shows "\<exists>e. close_native_object_schemas number_text (JObject m) = Inl e"
proof (cases "close_native_object_schemas number_text (JObject m)")
  case (Inr w)
  from close_children [OF Inr] obtain m3 where m3: "close_object number_text m = Inr m3"
    and children: "\<And>k v. map_of m3 k = Some v \<Longrightarrow> \<exists>x. close_native_object_schemas number_text v = Inr x" by blast
  from close_object_properties [OF m3 assms(1)] obtain required pm1 where
    pm1: "map_of m3 ''properties'' = Some (JObject pm1)"
    "result_map (nullable_property number_text required) pm = Inr pm1" by blast
  have keep: "\<forall>kv kv1. nullable_property number_text required kv = Inr kv1 \<longrightarrow> fst kv1 = fst kv"
    using nullable_property_weight by blast
  from result_map_values(3) [OF pm1(2) keep assms(2)] obtain v where
    v: "map_of pm1 ''required'' = Some v"
    "nullable_property number_text required (''required'', JObject p) = Inr (''required'', v)" by blast
  then have "v = JObject p \<or> make_native_property_nullable number_text (JObject p) = Inr v"
    unfolding nullable_property_def
    by (cases "''required'' \<in> set required";
        cases "make_native_property_nullable number_text (JObject p)") (simp_all del: make_native_property_nullable.simps)
  then have "is_object v" by (auto simp del: make_native_property_nullable.simps dest: nullable_is_object)
  then obtain p1 where p1: "map_of pm1 ''required'' = Some (JObject p1)" using v by (auto simp: is_object_iff)
  from children [OF pm1(1)] obtain w1 where "close_native_object_schemas number_text (JObject pm1) = Inr w1" ..
  from close_children [OF this] obtain m4 where m4: "close_object number_text pm1 = Inr m4" by blast
  then obtain m1 where m1: "normalize_native_const_type number_text pm1 = Inr m1"
    by (auto simp: close_object_def result_simps)
  from normalize_cases [OF m1] p1 have req: "map_of m1 ''required'' = Some (JObject p1)" by auto
  then have "is_object_schema m1" by (simp add: is_object_schema_def has_key_def)
  with m4 m1 req have False
    by (auto simp: close_object_def Let_def result_simps existing_required_def ok_or_def split: if_splits)
  then show ?thesis ..
qed simp

section \<open>Schemas that can be closed\<close>

definition closes :: "(jnumber \<Rightarrow> string) \<Rightarrow> json \<Rightarrow> bool" where
  "closes number_text v \<longleftrightarrow> (\<exists>w. close_native_object_schemas number_text v = Inr w)"

lemma closes_atoms [simp]:
  "closes number_text JNull" "closes number_text (JBool b)" "closes number_text (JNumber n)"
  "closes number_text (JString s)"
  by (simp_all add: closes_def)

lemma closes_strings [simp]: "closes number_text (JArray (map JString names))"
  by (simp add: closes_def close_strings)

lemma closes_insert:
  "\<forall>kv \<in> set m. closes number_text (snd kv) \<Longrightarrow> closes number_text v \<Longrightarrow>
   \<forall>kv \<in> set (obj_insert k v m). closes number_text (snd kv)"
  using set_obj_insert_subset [of k v m] by force

lemma closes_object:
  assumes "close_object number_text m = Inr m1" and "\<forall>kv \<in> set m1. closes number_text (snd kv)"
  shows "closes number_text (JObject m)"
proof -
  from assms(2) have "\<exists>m2. result_map (close_entry number_text) m1 = Inr m2"
    by (induction m1) (auto simp: closes_def)
  with assms(1) show ?thesis by (auto simp: closes_def)
qed

lemma closes_unchanged:
  assumes "keyword_free (obj_of kvs)" and "\<forall>kv \<in> set kvs. closes number_text (snd kv)"
  shows "closes number_text (jobj kvs)"
  unfolding jobj_def
proof (rule closes_object)
  show "close_object number_text (obj_of kvs) = Inr (obj_of kvs)"
    using assms(1) by (simp add: close_object_def normalize_native_const_type_def keyword_free_def has_key_def)
  show "\<forall>kv \<in> set (obj_of kvs). closes number_text (snd kv)" using assms(2) set_obj_of [of kvs] by blast
qed

lemma closes_required_properties:
  assumes "map_of m ''const'' = None" and "map_of m ''additionalProperties'' = Some (JBool False)"
    and "map_of m ''properties'' = Some (JObject pm)"
    and "map_of m ''required'' = Some (JArray (map JString names))" and "set names = fst ` set pm"
    and "\<forall>kv \<in> set m. closes number_text (snd kv)"
  shows "closes number_text (JObject m)"
proof (rule closes_object)
  let ?m1 = "obj_insert ''additionalProperties'' (JBool False) m"
  let ?m2 = "obj_insert ''properties'' (JObject pm) ?m1"
  let ?m3 = "obj_insert ''required'' (JArray (map JString (map fst pm))) ?m2"
  have "result_map (\<lambda>v. ok_or e (as_str v)) (map JString ns) = Inr ns" for ns and e :: provider_failure
    by (induction ns) (simp_all add: ok_or_def)
  then have required: "existing_required ?m1 = Inr names"
    using assms(4) by (simp add: existing_required_def ok_or_def)
  have names: "property_names ?m1 = map fst pm" using assms(3) by (simp add: property_names_def)
  have "result_map (nullable_property number_text names) qm = Inr qm" if "fst ` set qm \<subseteq> set names" for qm
    using that by (induction qm) (auto simp: nullable_property_def)
  then have nullable: "nullable_properties number_text names ?m1 = Inr ?m2"
    using assms(3,5) by (simp add: nullable_properties_def)
  have schema: "is_object_schema m" using assms(3) by (simp add: is_object_schema_def has_key_def)
  have declared: "\<not> list_ex (\<lambda>name. name \<notin> set (map fst pm)) names"
    using assms(5) by (auto simp: list_ex_iff)
  show "close_object number_text m = Inr ?m3"
    unfolding close_object_def normalize_native_const_type_def
    by (simp only: assms(1) option.case result_bind_simps schema assms(2)
        Let_def required names nullable declared not_True_eq_False if_False if_True simp_thms)
  from assms(3) have "(''properties'', JObject pm) \<in> set m" by (rule map_of_SomeD)
  with assms(6) have "closes number_text (JObject pm)" by force
  then show "\<forall>kv \<in> set ?m3. closes number_text (snd kv)"
    by (intro closes_insert closes_strings closes_atoms assms(6))
qed

lemma closes_jobj:
  assumes "closes number_text (jobj pvs)" and "set names = fst ` set pvs"
    and "required = JArray (map JString names)"
  shows "closes number_text (jobj [(''type'', JString ''object''), (''additionalProperties'', JBool False),
      (''required'', required), (''properties'', jobj pvs)])"
  unfolding jobj_def [of "_ # _"]
proof (rule closes_required_properties [of _ "obj_of pvs" names])
  let ?kvs = "[(''type'', JString ''object''), (''additionalProperties'', JBool False), (''required'', required),
      (''properties'', jobj pvs)]"
  show "set names = fst ` set (obj_of pvs)"
    using assms(2) map_of_obj_of [of pvs] by (metis dom_map_of_conv_image_fst set_map list.set_map set_rev)
  show "\<forall>kv \<in> set (obj_of ?kvs). closes number_text (snd kv)"
    using set_obj_of [of ?kvs] assms(1,3) closes_strings [of number_text names] by (auto simp del: closes_strings)
qed (simp_all add: map_of_obj_of assms(3) jobj_def)

lemma closes_tool_property:
  assumes "closes number_text (tl_input_schema t)"
  shows "closes number_text (tool_property t)"
proof -
  let ?id = "jobj [(''type'', JString ''string''), (''maxLength'', jint MAX_TOOL_CALL_ID_BYTES)]"
  let ?pvs = "[(''id'', ?id), (''arguments'', tl_input_schema t)]"
  have "closes number_text ?id"
    by (rule closes_unchanged)
      (simp_all add: keyword_free_def is_object_schema_def has_key_def declares_def map_of_obj_of jint_def)
  with assms have "closes number_text (jobj ?pvs)"
    by (intro closes_unchanged) (simp_all add: keyword_free_def is_object_schema_def has_key_def map_of_obj_of)
  then have "closes number_text (jobj [(''type'', JString ''object''), (''additionalProperties'', JBool False),
      (''required'', JArray [JString ''id'', JString ''arguments'']), (''properties'', jobj ?pvs)])"
    by (rule closes_jobj [of _ ?pvs "[''id'', ''arguments'']"]) auto
  then show ?thesis
    unfolding tool_property_def
    by (intro closes_unchanged)
      (simp_all add: keyword_free_def is_object_schema_def has_key_def declares_def map_of_obj_of jint_def)
qed

text \<open>When no tool has the name of a keyword, the output schema of a model turn exists exactly when the
  schema of the arguments of each tool can be closed.\<close>

lemma output_schema_exists:
  assumes "distinct (map tl_name (pq_tools q))"
    and "\<forall>t \<in> set (pq_tools q). tl_name t \<notin> {''properties'', ''required'', ''const''}"
  shows "(\<exists>schema. model_output_schema number_text q = Inr schema)
     \<longleftrightarrow> (\<forall>t \<in> set (pq_tools q). \<exists>w. close_native_object_schemas number_text (tl_input_schema t) = Inr w)"
proof
  assume "\<exists>schema. model_output_schema number_text q = Inr schema"
  then show "\<forall>t \<in> set (pq_tools q). \<exists>w. close_native_object_schemas number_text (tl_input_schema t) = Inr w"
    using close_output_tool [OF _ assms(2,1)] by (auto simp: model_output_schema_def)
next
  let ?tools = "pq_tools q"
  assume "\<forall>t \<in> set ?tools. \<exists>w. close_native_object_schemas number_text (tl_input_schema t) = Inr w"
  then have args: "\<forall>t \<in> set ?tools. closes number_text (tl_input_schema t)" by (simp add: closes_def)
  let ?kvs = "map (\<lambda>t. (tl_name t, tool_property t)) ?tools"
  have "closes number_text (jobj ?kvs)"
    using args by (intro closes_unchanged tools_keyword_free [OF assms(2)]) (auto intro: closes_tool_property)
  then have calls: "closes number_text (tool_calls_property ?tools)"
    unfolding tool_calls_property_def
    by (intro closes_jobj [of _ ?kvs "map tl_name ?tools"]) (auto simp: comp_def image_image)
  let ?body = "(''text'', jobj [(''type'', JString ''string''), (''maxLength'', jint MAX_TEXT_BYTES)])
    # (if ?tools = [] then [] else [(''toolCalls'', tool_calls_property ?tools)])"
  have "closes number_text (jobj [(''type'', JString ''string''), (''maxLength'', jint MAX_TEXT_BYTES)])"
    by (rule closes_unchanged)
      (simp_all add: keyword_free_def is_object_schema_def has_key_def declares_def map_of_obj_of jint_def)
  with calls have "closes number_text (jobj ?body)"
    by (intro closes_unchanged) (auto simp: keyword_free_def is_object_schema_def has_key_def map_of_obj_of)
  then have "closes number_text (open_output_schema ?tools)"
    unfolding open_output_schema_def Let_def
    by (intro closes_jobj [of _ ?body "''text'' # (if ?tools = [] then [] else [''toolCalls''])"]) auto
  then show "\<exists>schema. model_output_schema number_text q = Inr schema"
    by (simp add: closes_def model_output_schema_def)
qed

text \<open>C39: a model turn is refused as soon as one of its tools takes an argument that is named
  \<open>required\<close>, whatever its schema says of it.\<close>

theorem required_argument_refused:
  assumes "pq_operation q = ModelTurn" and "t \<in> set (pq_tools q)"
    and "\<forall>t \<in> set (pq_tools q). tl_name t \<notin> {''properties'', ''required'', ''const''}"
    and "distinct (map tl_name (pq_tools q))"
    and "tl_input_schema t = JObject m" and "map_of m ''properties'' = Some (JObject pm)"
    and "map_of pm ''required'' = Some (JObject p)"
  shows "\<exists>e. validate_contents pc q = Inl e"
proof (rule ccontr)
  let ?num = "pc_number_text pc" and ?tools = "pq_tools q"
  assume "\<nexists>e. validate_contents pc q = Inl e"
  then obtain q1 where "validate_contents pc q = Inr q1" by (cases "validate_contents pc q") auto
  with assms(1) obtain w where w: "close_native_object_schemas ?num (open_output_schema ?tools) = Inr w"
    by (auto simp: validate_contents_def check_output_schema_def model_output_schema_def result_simps)
  from close_output_tool [OF w assms(3,4,2)] close_required_property [OF assms(6,7), of ?num] assms(5)
  show False by auto
qed

section \<open>Concrete requests\<close>

text \<open>A tool \<open>lookup\<close> with an optional argument \<open>word\<close>, and one with the argument \<open>required\<close>.\<close>

definition lookup_tool :: "string \<Rightarrow> json \<Rightarrow> provider_tool" where
  "lookup_tool argument required =
     \<lparr>tl_name = ''lookup'', tl_description = ''looks up'',
      tl_input_schema = JObject [(''properties'', JObject [(argument, JObject [(''type'', JString ''string'')])]),
        (''required'', required), (''type'', JString ''object'')],
      tl_strict = True\<rparr>"

definition lookup_request :: "provider_tool \<Rightarrow> provider_request" where
  "lookup_request t =
     \<lparr>pq_schema_version = 2, pq_request_id = ''r'', pq_operation = ModelTurn,
      pq_messages = [\<lparr>ms_role = UserRole, ms_content = ''hi'', ms_content_parts = [], ms_tool_calls = [],
                      ms_tool_call_id = None, ms_tool_name = None, ms_is_error = False\<rparr>],
      pq_observations = [], pq_staging_root = None, pq_tools = [t], pq_reasoning = ReasoningLow,
      pq_timeout_ms = 1000, pq_maximum_response_bytes = 100, pq_prompt = None, pq_image_options = None\<rparr>"

definition plain_codecs :: provider_codecs where
  "plain_codecs =
     \<lparr>pc_print = (\<lambda>_. Inr ''{}''), pc_number_text = (\<lambda>_. ''1''), pc_decode = (\<lambda>_. Inl ''base64''),
      pc_sha256 = (\<lambda>_. []), pc_inflate = (\<lambda>bytes. \<lparr>inf_bytes = bytes, inf_clean = True\<rparr>)\<rparr>"

lemma output_schema_strict_witness:
  "\<exists>schema. model_output_schema (\<lambda>_. ''1'') (lookup_request (lookup_tool ''word'' (JArray []))) = Inr schema
     \<and> strict_schema schema"
proof -
  let ?t = "lookup_tool ''word'' (JArray [])"
  let ?q = "lookup_request ?t"
  have "case close_native_object_schemas (\<lambda>_. ''1'') (tl_input_schema ?t) of Inr _ \<Rightarrow> True | Inl _ \<Rightarrow> False"
    by code_simp
  then have "\<exists>w. close_native_object_schemas (\<lambda>_. ''1'') (tl_input_schema ?t) = Inr w"
    by (auto split: sum.splits)
  then obtain schema where schema: "model_output_schema (\<lambda>_. ''1'') ?q = Inr schema"
    using output_schema_exists [of ?q "\<lambda>_. ''1''"] by (auto simp: lookup_request_def lookup_tool_def)
  have "\<forall>t \<in> set (pq_tools ?q). plain_tool t" by code_simp
  from output_schema_strict [OF this schema] schema show ?thesis by blast
qed

lemma required_argument_refused_witness:
  "check_tool (lookup_tool ''required'' (JArray [])) [] = Inr [''lookup'']
   \<and> (\<exists>e. validate_contents plain_codecs (lookup_request (lookup_tool ''required'' (JArray []))) = Inl e)"
proof
  let ?t = "lookup_tool ''required'' (JArray [])"
  show "check_tool ?t [] = Inr [''lookup'']"
    by (simp add: check_tool_def lookup_tool_def validate_bounded_text_def validate_text_def invalid_def refuse_def
        has_nul_def MAX_TOOL_NAME_BYTES_def MAX_MESSAGE_BYTES_def)
  show "\<exists>e. validate_contents plain_codecs (lookup_request ?t) = Inl e"
    by (rule required_argument_refused [of _ ?t "[(''properties'', JObject [(''required'',
            JObject [(''type'', JString ''string'')])]), (''required'', JArray []), (''type'', JString ''object'')]"
          "[(''required'', JObject [(''type'', JString ''string'')])]" "[(''type'', JString ''string'')]"])
      (simp_all add: lookup_request_def lookup_tool_def)
qed

end
