(* ===== verification/ProviderWitnesses.thy ===== *)
theory ProviderWitnesses
  imports ProviderImages ProviderProcess ProviderOutputSchema PngTheorems RuntimeLockTheorems
begin

text \<open>
  A concrete model turn with one image, over an operating system and a client that do what they are asked,
  and a process that makes one image; the properties of the provider are applied to them.
\<close>

section \<open>A world\<close>

definition easy_world :: os_env where
  "easy_world =
     \<lparr>os_bool = (\<lambda>_. True),
      os_meta = (\<lambda>_. Inr \<lparr>md_kind = Directory, md_mode = 448, md_len = 0, md_dev = 0, md_ino = 0\<rparr>),
      os_path = (\<lambda>_. Inr []), os_dir = (\<lambda>_. Inr []), os_data = (\<lambda>_. Inr ''{}''), os_unit = (\<lambda>_. Inr ()),
      os_num = (\<lambda>_. Inr 0), os_archive = (\<lambda>_. Inr []), os_var = (\<lambda>_. Some ''/w''), os_count = (\<lambda>_. 1),
      os_id = (\<lambda>_. None), os_wait = (\<lambda>_. ChildTimedOut), os_pipe = (\<lambda>_. PipeOpen)\<rparr>"

lemma easy_world_simps [simp]:
  "os_bool easy_world l = True" "os_dir easy_world l = Inr []" "os_unit easy_world l = Inr ()"
  "os_meta easy_world l = Inr \<lparr>md_kind = Directory, md_mode = 448, md_len = 0, md_dev = 0, md_ino = 0\<rparr>"
  "os_data easy_world l = Inr ''{}''" "os_var easy_world l = Some ''/w''" "os_count easy_world l = 1"
  by (simp_all add: easy_world_def)

definition easy_temp :: path where
  "easy_temp = [RootDir, Normal ''t'']"

definition easy_root :: path where
  "easy_root = easy_temp @ [Normal ''vergerail-upagent-request-1'']"

definition zero_digest :: string where
  "zero_digest = format_digest (replicate 32 CHR 0x00)"

definition pixel_artifact :: provider_artifact_ref where
  "pixel_artifact =
     \<lparr>af_id = ''a'', af_sha256 = zero_digest, af_media_type = ''image/png'', af_byte_length = length pixel_file,
      af_relative_path = ''a.png''\<rparr>"

definition pixel_part :: provider_image_observation where
  "pixel_part = \<lparr>im_artifact = pixel_artifact, im_role = RoleFull, im_detail = ObservedHigh, im_caption = None\<rparr>"

definition pixel_observation :: provider_observation where
  "pixel_observation =
     \<lparr>ob_message_index = 0, ob_part_index = 1, ob_media_type = ''image/png'', ob_sha256 = zero_digest,
      ob_width = 1, ob_height = 1, ob_role = RoleFull, ob_base64 = ''p''\<rparr>"

definition pixel_message :: provider_message where
  "pixel_message =
     \<lparr>ms_role = UserRole, ms_content = ''look'', ms_content_parts = [TextPart ''look'', ImagePart pixel_part],
      ms_tool_calls = [], ms_tool_call_id = None, ms_tool_name = None, ms_is_error = False\<rparr>"

definition pixel_request :: provider_request where
  "pixel_request =
     \<lparr>pq_schema_version = 2, pq_request_id = ''r'', pq_operation = ModelTurn, pq_messages = [pixel_message],
      pq_observations = [pixel_observation], pq_staging_root = Some easy_root, pq_tools = [],
      pq_reasoning = ReasoningLow, pq_timeout_ms = 1000, pq_maximum_response_bytes = 100, pq_prompt = None,
      pq_image_options = None\<rparr>"

definition pixel_codecs :: provider_codecs where
  "pixel_codecs =
     \<lparr>pc_print = (\<lambda>_. Inr ''{}''), pc_number_text = (\<lambda>_. ''1''), pc_decode = (\<lambda>_. Inr pixel_file),
      pc_sha256 = (\<lambda>_. replicate 32 CHR 0x00), pc_inflate = pixel_zlib\<rparr>"

lemmas pixel_defs = pixel_request_def pixel_message_def pixel_observation_def pixel_part_def pixel_artifact_def
  pixel_codecs_def

section \<open>The staged image\<close>

definition pixel_validated :: validated_observation where
  "pixel_validated =
     \<lparr>vo_message_index = 0, vo_part_index = 1, vo_detail = ObservedHigh, vo_bytes = pixel_file\<rparr>"

lemma pixel_length: "0 < length pixel_file" "length pixel_file \<le> 8388608"
  using length_png_file [OF pixel_file_ok(1)] by (simp_all add: pixel_file_def png_layout_def)

lemma zero_digest_ok: "is_lower_hex_digest zero_digest"
  by code_simp

lemma pixel_location: "validate_artifact_location pixel_artifact = Inr ()"
proof -
  have "path_of ''a.png'' = [Normal ''a.png'']" by code_simp
  then show ?thesis
    by (simp add: validate_artifact_location_def pixel_artifact_def invalid_def refuse_def Let_def has_nul_def
        is_ascii_control_def path_is_absolute_def)
qed

lemma pixel_validates: "validated_observations pixel_codecs pixel_request = Inr [pixel_validated]"
proof -
  have part: "observed_part pixel_request pixel_observation = Inr pixel_part"
    by (simp add: observed_part_def item_at_def ok_or_def pixel_defs)
  have bytes: "decode_observation pixel_codecs pixel_observation = Inr pixel_file"
    by (simp add: decode_observation_def pixel_defs)
  have sides: "observation_dimensions pixel_codecs pixel_file = Inr (1, 1)"
    by (simp add: observation_dimensions_def validate_png_dimensions_def pixel_file_accepted pixel_codecs_def)
  have digest: "sha256_hex pixel_codecs pixel_file = zero_digest"
    by (simp add: sha256_hex_def zero_digest_def pixel_codecs_def)
  have "\<exists>st. check_observation pixel_codecs pixel_request pixel_observation (0, []) = Inr st"
    using pixel_length zero_digest_ok pixel_location
    unfolding check_observation_def part bytes sides digest
    by (simp add: Let_def part bytes sides digest invalid_def exceeds_def refuse_def)
      (simp add: pixel_defs MAX_IMAGE_BYTES_def MAX_IMAGE_BASE64_BYTES_def checked_add_us_def usize_max_def ok_or_def)
  then have valid: "validate_observations pixel_codecs pixel_request = Inr ()"
    by (auto simp: validate_observations_def Let_def exceeds_def invalid_def refuse_def is_image_part_def
        pixel_request_def pixel_message_def)
  have sel: "pq_observations pixel_request = [pixel_observation]" "ob_message_index pixel_observation = 0"
    "ob_part_index pixel_observation = 1" "im_detail pixel_part = ObservedHigh"
    by (simp_all add: pixel_defs)
  show ?thesis
    by (simp add: validated_observations_def valid validated_observation_of_def part bytes sel pixel_validated_def)
qed

lemma show_nat_zero: "show_nat 0 = ''0''"
  by code_simp

definition pixel_path :: path where
  "pixel_path = easy_root @ [Normal ''observation-0.png'']"

definition pixel_staged :: staged_observation where
  "pixel_staged = \<lparr>sg_message_index = 0, sg_part_index = 1, sg_detail = ObservedHigh, sg_path = pixel_path\<rparr>"

definition staging_log :: "os_call list" where
  "staging_log =
     [SyncAll pixel_path, WriteAll pixel_path (chars_of pixel_file), SetMode pixel_path 384, CreateNew pixel_path]"

lemma pixel_stages:
  "stage_observations easy_root 0 [pixel_validated] easy_world log = (Inr (Inr [pixel_staged]), staging_log @ log)"
  by (simp add: stage_observation_def Let_def os_simps show_nat_zero pixel_validated_def pixel_staged_def
      staging_log_def pixel_path_def)

lemma image_part_reaches_input_witness:
  "\<exists>rendered k bytes. render_model_prompt pixel_codecs pixel_request [pixel_staged] = Inr rendered
     \<and> model_inputs rendered [pixel_staged] ! Suc k
        = LocalImage (path_display (staged_path easy_root k)) (Some DetailHigh)
     \<and> WriteAll (staged_path easy_root k) (chars_of bytes) \<in> set staging_log
     \<and> sha256_hex pixel_codecs bytes = zero_digest"
proof -
  have part: "0 < length (pq_messages pixel_request)" "in_transcript (pq_messages pixel_request ! 0)"
    "1 < length (ms_content_parts (pq_messages pixel_request ! 0))"
    "ms_content_parts (pq_messages pixel_request ! 0) ! 1 = ImagePart pixel_part"
    by (simp_all add: pixel_request_def pixel_message_def in_transcript_def)
  have printed: "pc_print pixel_codecs value1 = Inr ''{}''" for value1 by (simp add: pixel_codecs_def)
  from image_part_reaches_input [OF pixel_validates pixel_stages [of "[]"] part] show ?thesis
    unfolding printed sum.case
    by (elim exE conjE) (auto simp: pixel_part_def pixel_artifact_def)
qed

section \<open>The turn\<close>

definition easy_run :: run_result where
  "easy_run =
     \<lparr>rr_thread_id = ''t'', rr_turn_id = ''u'', rr_text = ''{}'', rr_status = TsCompleted, rr_usage = None,
      rr_image_generations = []\<rparr>"

definition easy_library :: provider_library where
  "easy_library =
     \<lparr>lb_expired = (\<lambda>_. False), lb_session = (\<lambda>_ _. Inr ()), lb_start = (\<lambda>_ _. Inr ()),
      lb_events = (\<lambda>_. [Inr Started, Inr (Completed easy_run)]), lb_deny = (\<lambda>_. Inr ()),
      lb_audit = (\<lambda>_ _. Inr \<lparr>ta_turn_id = ''u'', ta_commands = [], ta_file_changes = [],
                            ta_image_generations = [], ta_other_item_types = [''agentMessage'']\<rparr>),
      lb_close = (\<lambda>_. Inr ())\<rparr>"

definition easy_bodies :: body_codecs where
  "easy_bodies = \<lparr>bc_text = (\<lambda>_. Inr ''hello''), bc_tools = (\<lambda>_. Inr (''hello'', []))\<rparr>"

definition easy_config :: provider_config where
  "easy_config = \<lparr>cg_runtime_package = [RootDir], cg_model = ''m'', cg_workspace = [RootDir]\<rparr>"

definition easy_answer :: model_response where
  "easy_answer =
     \<lparr>mr_schema_version = 2, mr_request_id = ''r'', mr_operation = ModelTurn, mr_text = ''hello'',
      mr_tool_calls = [], mr_usage = None\<rparr>"

lemma easy_accepts: "accept_answer pixel_codecs easy_bodies pixel_request easy_run = Inr easy_answer"
  by (simp add: accept_answer_def read_answer_body_def easy_bodies_def pixel_request_def exceeds_def refuse_def
      validate_returned_tools_def easy_answer_def easy_run_def PROTOCOL_VERSION_def)

lemma easy_audit: "audit_is_text_only \<lparr>ta_turn_id = ''u'', ta_commands = [], ta_file_changes = [],
     ta_image_generations = [], ta_other_item_types = [''agentMessage'']\<rparr>"
  by (simp add: audit_is_text_only_def)

lemma easy_verified:
  "\<exists>log1. model_verification pixel_codecs easy_bodies easy_library pixel_request inputs easy_world log
     = (Inr (Inr easy_answer), log1)"
  by (simp add: model_verification_def os_simps pv_library_def await_def easy_library_def await_event_def
      get_or_insert_def refuse_def easy_accepts easy_audit)
    (simp add: easy_run_def easy_accepts [unfolded easy_run_def])

lemma pixel_root_valid: "validate_staging_root easy_temp easy_root easy_world log
    = (Inr (Inr ()), [ReadDir easy_root, Lstat easy_root] @ log)"
proof -
  have "absolute_clean_path easy_root" "path_parent easy_root = Some easy_temp" "staging_name easy_root" by code_simp+
  then show ?thesis
    by (simp add: validate_staging_root_def os_simps os_lstat_def invalid_def refuse_def pv_io_def)
qed

lemma pixel_prompt: "\<exists>rendered. render_model_prompt pixel_codecs pixel_request [pixel_staged] = Inr rendered"
  by (simp add: render_model_prompt_def render_transcript_message_def render_prompt_message_def render_part_def
      in_transcript_def pixel_request_def pixel_message_def pixel_codecs_def pixel_staged_def ok_or_def)

lemma pixel_schema: "\<exists>schema. model_output_schema (pc_number_text pixel_codecs) pixel_request = Inr schema"
  using output_schema_exists [of pixel_request "pc_number_text pixel_codecs"] by (simp add: pixel_request_def)

lemma easy_calls [simp]:
  "pv_library (await easy_library name (\<lambda>_. Inr x)) v log = (Inr (Inr x), Library name # log)"
  by (simp add: pv_library_def await_def easy_library_def os_bind_apply)

lemma easy_turn:
  "\<exists>calls. run_model_turn pixel_codecs easy_bodies easy_library easy_temp easy_config pixel_request easy_world []
     = (Inr (Inr easy_answer), calls)"
proof -
  let ?st = "\<lparr>st_root = Some easy_root, st_entries = [pixel_staged], st_cleaned = False\<rparr>"
  have create: "staging_create easy_temp [pixel_validated] (Some easy_root) easy_world []
      = (Inr (Inr ?st), staging_log @ [ReadDir easy_root, Lstat easy_root])"
    by (simp add: staging_create_def pv_bind_apply pixel_root_valid os_bind_apply pixel_stages
        del: stage_observations.simps)
  have cleanup: "\<exists>log1. staging_cleanup ?st easy_world log = (Inr (Inr (), ?st\<lparr>st_cleaned := True\<rparr>), log1)" for log
    by (simp add: staging_cleanup_def os_bind_apply)
  have session: "\<exists>log1. run_session pixel_codecs easy_bodies easy_library pixel_request ?st opts inputs easy_world log
      = (Inr (Inr easy_answer), log1)" for opts inputs log
  proof -
    obtain l where run: "model_verification pixel_codecs easy_bodies easy_library pixel_request inputs easy_world
        (Library ''session'' # log) = (Inr (Inr easy_answer), l)"
      using easy_verified by blast
    obtain l1 where "staging_cleanup ?st easy_world (Library ''close'' # l)
        = (Inr (Inr (), ?st\<lparr>st_cleaned := True\<rparr>), l1)"
      using cleanup by blast
    with run show ?thesis
      by (simp add: run_session_def os_bind_apply combine_turn_def easy_library_def pv_library_def await_def)
  qed
  obtain rendered where rendered: "render_model_prompt pixel_codecs pixel_request [pixel_staged] = Inr rendered"
    using pixel_prompt by blast
  obtain schema where schema: "model_output_schema (pc_number_text pixel_codecs) pixel_request = Inr schema"
    using pixel_schema by blast
  have "\<exists>log1. run_staged_turn pixel_codecs easy_bodies easy_library easy_config pixel_request ?st easy_world log
      = (Inr (Inr easy_answer), log1)" for log
    using session
    by (simp add: run_staged_turn_def rendered schema os_bind_apply remaining_provider_timeout_def)
  moreover have "pq_staging_root pixel_request = Some easy_root" by (simp add: pixel_request_def)
  ultimately show ?thesis
    by (simp add: run_model_turn_def pv_bind_apply pixel_validates create)
qed

lemma staging_removed_witness:
  "\<exists>calls. run_model_turn pixel_codecs easy_bodies easy_library easy_temp easy_config pixel_request easy_world []
       = (Inr (Inr easy_answer), calls)
     \<and> list_all (turn_call (Some easy_root)) calls"
proof -
  obtain calls where run: "run_model_turn pixel_codecs easy_bodies easy_library easy_temp easy_config pixel_request
      easy_world [] = (Inr (Inr easy_answer), calls)"
    using easy_turn by blast
  from staging_removed [OF run] run show ?thesis by (auto simp: pixel_request_def)
qed

lemma model_answer_checked_witness:
  "\<exists>calls. run_model_turn pixel_codecs easy_bodies easy_library easy_temp easy_config pixel_request easy_world []
       = (Inr (Inr easy_answer), calls)
     \<and> length (mr_text easy_answer) \<le> 100"
proof -
  obtain calls where run: "run_model_turn pixel_codecs easy_bodies easy_library easy_temp easy_config pixel_request
      easy_world [] = (Inr (Inr easy_answer), calls)"
    using easy_turn by blast
  from model_answer_checked [OF run] run show ?thesis by (auto simp: pixel_request_def)
qed

section \<open>The process\<close>

definition image_request :: provider_request where
  "image_request =
     pixel_request\<lparr>pq_operation := ImageGenerate, pq_messages := [], pq_observations := [], pq_staging_root := None,
       pq_prompt := Some ''cat''\<rparr>"

definition easy_frames :: frame_codecs where
  "easy_frames =
     \<lparr>fc_request = (\<lambda>_. Inr image_request), fc_value = (\<lambda>_. None), fc_response = (\<lambda>_. Inr ''ok''),
      fc_failure = (\<lambda>_. Inr ''bad'')\<rparr>"

definition easy_process :: process_library where
  "easy_process =
     \<lparr>ps_turn = easy_library, ps_connect = (\<lambda>_ _. Inr ()),
      ps_generate = (\<lambda>_ _. Inl (new_error Timeout ''image'' ''late'')), ps_shutdown = (\<lambda>_. Some (Inr ()))\<rparr>"

lemma image_request_valid:
  "validate_request pixel_codecs easy_temp image_request easy_world log = (Inr (Inr image_request), log)"
proof -
  have "\<not> is_blank ''r''" by code_simp
  then show ?thesis
    by (simp add: validate_request_def validate_envelope_def validate_operation_def validate_request_staging_def
        validate_contents_def validate_observations_def check_each_def validate_text_def invalid_def exceeds_def
        refuse_def image_request_def pixel_request_def pv_bind_apply PROTOCOL_VERSION_def has_nul_def
        MAX_PROVIDER_TIMEOUT_MS_def MAX_IMAGE_BYTES_def MAX_MESSAGES_def MAX_TOOLS_def MAX_MESSAGE_BYTES_def ok_or_def)
qed

lemma easy_environment:
  "\<exists>cg. from_environment easy_world log = (Inr (Inr cg), EnvVar ''VERGERAIL_WORKSPACE'' # EnvVar ''VERGERAIL_MODEL''
     # EnvVar ''VERGERAIL_CODEX_PACKAGE'' # log)"
proof -
  have "utf8_valid ''/w''" "\<not> is_blank ''/w''" "absolute_clean_path (path_of ''/w'')" by code_simp+
  then show ?thesis
    by (simp add: from_environment_def required_path_def required_variable_def pv_bind_apply os_bind_apply
        refuse_def has_nul_def)
qed

lemma easy_image:
  "\<exists>e l. async_run_request pixel_codecs easy_bodies easy_process (Inr pinned_metadata) easy_temp image_request cg
     easy_world log = (Inr (Inl e), l @ log) \<and> dispatches l = 1"
proof -
  have connect: "\<exists>c. connect_config True limit = Inr c" for limit
    by (simp add: connect_config_def with_max_frame_bytes_def MAX_IMAGE_FRAME_BYTES_def MIN_FRAME_BYTES_def
        MAX_FRAME_BYTES_def)
  then obtain c where "connect_config True (pq_timeout_ms image_request * 1000000) = Inr c" by blast
  moreover have "pq_operation image_request = ImageGenerate" "pq_prompt image_request = Some ''cat''"
    by (simp_all add: image_request_def)
  ultimately show ?thesis
    by (simp add: async_run_request_def pv_bind_apply os_bind_apply invalid_def refuse_def pinned_metadata_loads
        connect_provider_def pv_library_def easy_process_def run_operation_def remaining_provider_timeout_def
        run_image_generation_def ok_or_def shutdown_client_def combine_shutdown_def)
      (simp add: dispatches_def is_dispatch_def append_eq_Cons_conv)
qed

lemma provider_answers_once_witness:
  "\<exists>log config. connect_config True 1000000000 = Inr config
     \<and> provider_main pixel_codecs easy_bodies easy_frames easy_process (Inr pinned_metadata) easy_temp easy_world []
       = (Inr 0, log)
     \<and> dispatches log = 1 \<and> Library ''shutdown'' \<in> set log \<and> \<not> client_left easy_process config log"
proof -
  have read: "read_request easy_frames (Inr ''{}'') = (Inr image_request, ''r'')"
  proof -
    have "valid_request_id ''r''" by code_simp
    then show ?thesis
      by (simp add: read_request_def easy_frames_def MAX_REQUEST_BYTES_def Let_def image_request_def pixel_request_def)
  qed
  obtain cg where env: "from_environment easy_world [ReadAll []] = (Inr (Inr cg), EnvVar ''VERGERAIL_WORKSPACE''
      # EnvVar ''VERGERAIL_MODEL'' # EnvVar ''VERGERAIL_CODEX_PACKAGE'' # [ReadAll []])"
    using easy_environment by blast
  let ?log = "EnvVar ''VERGERAIL_WORKSPACE'' # EnvVar ''VERGERAIL_MODEL'' # EnvVar ''VERGERAIL_CODEX_PACKAGE'' # [ReadAll []]"
  obtain e l where run: "async_run_request pixel_codecs easy_bodies easy_process (Inr pinned_metadata) easy_temp
      image_request cg easy_world ?log = (Inr (Inl e), l @ ?log)" and l: "dispatches l = 1"
    using easy_image by blast
  have answer: "answer_request pixel_codecs easy_bodies easy_process (Inr pinned_metadata) easy_temp
      (Inr image_request) easy_world [ReadAll []] = (Inr (Inl e), l @ ?log)"
    by (simp add: answer_request_def pv_bind_apply image_request_valid env run)
  let ?bytes = "response_bytes easy_frames ''r'' (Inl e)"
  let ?final = "SyncAll [] # WriteAll [] [CHR 0x0A] # WriteAll [] ?bytes # l @ ?log"
  have main: "provider_main pixel_codecs easy_bodies easy_frames easy_process (Inr pinned_metadata) easy_temp
      easy_world [] = (Inr 0, ?final)"
    by (simp add: provider_main_def os_bind_apply read answer write_response_def io_bind_def)
  have "dispatches ?final = 1" using l by (simp add: dispatches_def is_dispatch_def)
  obtain config where config: "connect_config True 1000000000 = Inr config"
    by (simp add: connect_config_def with_max_frame_bytes_def MAX_IMAGE_FRAME_BYTES_def MIN_FRAME_BYTES_def
        MAX_FRAME_BYTES_def)
  have first: "fst (read_request easy_frames (os_data easy_world [ReadAll []])) = Inr image_request"
    "pq_operation image_request = ImageGenerate" "pq_timeout_ms image_request = 1000"
    using read by (simp_all add: image_request_def pixel_request_def)
  from provider_answers_once [of pixel_codecs easy_bodies easy_frames easy_process "Inr pinned_metadata"
      easy_temp easy_world]
  have "Library ''shutdown'' \<in> set ?final \<and> \<not> client_left easy_process config ?final"
    unfolding main using \<open>dispatches ?final = 1\<close> config first by auto
  with main config \<open>dispatches ?final = 1\<close> show ?thesis by blast
qed

end
