(* ===== verification/ProviderDecimal.thy ===== *)
theory ProviderDecimal
  imports ProviderSchema Complex_Main
begin

text \<open>
  The comparison of two JSON numbers by their texts (\<open>canonical_decimal\<close> in
  \<open>src/src/bin/vergerail_upagent_provider.rs\<close>): the canonical decimals of two texts are equal exactly when
  the texts denote the same number.
\<close>

section \<open>Texts of numbers and what they denote\<close>

definition decimal_text :: "bool \<Rightarrow> string \<Rightarrow> string \<Rightarrow> string option \<Rightarrow> string" where
  "decimal_text negative whole fraction exponent =
     (if negative then ''-'' else []) @ whole @ (if fraction = [] then [] else CHR ''.'' # fraction)
       @ (case exponent of None \<Rightarrow> [] | Some t \<Rightarrow> CHR ''e'' # t)"

definition sign_of :: "bool \<Rightarrow> rat" where
  "sign_of negative = (if negative then -1 else 1)"

definition decimal_value :: "bool \<Rightarrow> string \<Rightarrow> string \<Rightarrow> int \<Rightarrow> rat" where
  "decimal_value negative whole fraction exponent =
     sign_of negative * of_nat (digits_value (whole @ fraction)) * 10 powi (exponent - int (length fraction))"

definition canonical_value :: "canonical_decimal \<Rightarrow> rat" where
  "canonical_value c =
     sign_of (cd_negative c) * of_nat (digits_value (cd_digits c)) * 10 powi (cd_scale c)"

definition canonical :: "canonical_decimal \<Rightarrow> bool" where
  "canonical c \<longleftrightarrow>
     c = \<lparr>cd_negative = False, cd_digits = ''0'', cd_scale = 0\<rparr>
     \<or> (list_all is_ascii_digit (cd_digits c) \<and> cd_digits c \<noteq> [] \<and> hd (cd_digits c) \<noteq> CHR ''0''
        \<and> last (cd_digits c) \<noteq> CHR ''0'')"

section \<open>Digits\<close>

definition digit_value :: "char \<Rightarrow> nat" where
  "digit_value c = of_char c - 48"

lemma digits_value_Nil [simp]: "digits_value [] = 0"
  by (simp add: digits_value_def)

lemma digits_value_snoc: "digits_value (s @ [c]) = 10 * digits_value s + digit_value c"
  by (simp add: digits_value_def digit_value_def)

lemma digits_value_append: "digits_value (s @ t) = digits_value s * 10 ^ length t + digits_value t"
proof (induction t rule: rev_induct)
  case (snoc c t)
  then show ?case
    using digits_value_snoc [of "s @ t" c] digits_value_snoc [of t c] by (simp add: algebra_simps)
qed simp

lemma digit_bound: "is_ascii_digit c \<Longrightarrow> digit_value c < 10"
  by (auto simp: is_ascii_digit_def digit_value_def)

lemma digit_value_inj: "is_ascii_digit c \<Longrightarrow> is_ascii_digit d \<Longrightarrow> digit_value c = digit_value d \<Longrightarrow> c = d"
proof -
  assume "is_ascii_digit c" "is_ascii_digit d" "digit_value c = digit_value d"
  then have "(of_char c :: nat) = of_char d" unfolding is_ascii_digit_def digit_value_def by arith
  then show "c = d" by simp
qed

lemma digit_zero: "digit_value (CHR ''0'') = 0" "is_ascii_digit (CHR ''0'')"
  by (simp_all add: digit_value_def is_ascii_digit_def)

lemma digit_value_zero: "is_ascii_digit c \<Longrightarrow> digit_value c = 0 \<longleftrightarrow> c = CHR ''0''"
  using digit_value_inj [of c "CHR ''0''"] digit_zero by metis

lemma digits_value_zeros: "digits_value (replicate n (CHR ''0'') @ s) = digits_value s"
proof (induction n)
  case (Suc n)
  have "digits_value [CHR ''0''] = 0" using digits_value_snoc [of "[]" "CHR ''0''"] digit_zero by simp
  then have "digits_value ([CHR ''0''] @ (replicate n (CHR ''0'') @ s)) = digits_value (replicate n (CHR ''0'') @ s)"
    by (simp add: digits_value_append del: append_Cons append_Nil)
  with Suc show ?case by simp
qed simp

lemma digits_positive:
  assumes "list_all is_ascii_digit s" and "s \<noteq> []" and "hd s \<noteq> CHR ''0''"
  shows "0 < digits_value s"
proof -
  from assms(2) obtain c t where s: "s = [c] @ t" by (cases s) auto
  have "digits_value [c] = digit_value c" using digits_value_snoc [of "[]" c] by simp
  moreover have "digit_value c \<noteq> 0" using assms s digit_value_zero by auto
  ultimately show ?thesis unfolding s digits_value_append by simp
qed

lemma digits_not_ten:
  assumes "list_all is_ascii_digit s" and "s \<noteq> []" and "last s \<noteq> CHR ''0''"
  shows "\<not> 10 dvd digits_value s"
proof -
  from assms(2) obtain t c where s: "s = t @ [c]" by (meson rev_exhaust)
  with assms have c: "is_ascii_digit c" "c \<noteq> CHR ''0''" by auto
  then have "0 < digit_value c" "digit_value c < 10" using digit_value_zero digit_bound by auto
  then have "digits_value s mod 10 \<noteq> 0" unfolding s digits_value_snoc by simp
  then show ?thesis by (simp add: dvd_eq_mod_eq_0)
qed

lemma digits_value_inj:
  "list_all is_ascii_digit s \<Longrightarrow> list_all is_ascii_digit t \<Longrightarrow> (s \<noteq> [] \<Longrightarrow> hd s \<noteq> CHR ''0'') \<Longrightarrow>
   (t \<noteq> [] \<Longrightarrow> hd t \<noteq> CHR ''0'') \<Longrightarrow> digits_value s = digits_value t \<Longrightarrow> s = t"
proof (induction s arbitrary: t rule: rev_induct)
  case Nil
  then show ?case using digits_positive [of t] by fastforce
next
  case (snoc c s)
  have "t \<noteq> []" using snoc.prems digits_positive [of "s @ [c]"] by fastforce
  then obtain u d where t: "t = u @ [d]" by (meson rev_exhaust)
  from snoc.prems t have digits: "is_ascii_digit c" "is_ascii_digit d" by auto
  from snoc.prems(5) have eq: "10 * digits_value s + digit_value c = 10 * digits_value u + digit_value d"
    by (simp add: t digits_value_snoc)
  with digit_bound [OF digits(1)] digit_bound [OF digits(2)]
  have "digits_value s = digits_value u" "digit_value c = digit_value d" by presburger+
  moreover have "s \<noteq> [] \<Longrightarrow> hd s \<noteq> CHR ''0''" using snoc.prems(3) by (cases s) auto
  moreover have "u \<noteq> [] \<Longrightarrow> hd u \<noteq> CHR ''0''" using snoc.prems(4) t by (cases u) auto
  ultimately show ?case using snoc.IH [of u] snoc.prems(1,2) t digit_value_inj [OF digits] by auto
qed

section \<open>Canonical decimals\<close>

lemma ten_power_unique:
  assumes "(of_nat n :: rat) * 10 powi a = of_nat m * 10 powi b" and "\<not> 10 dvd n" and "\<not> 10 dvd m"
  shows "n = m \<and> a = b"
proof -
  have key: "a = b" if "a \<le> b" "(of_nat n :: rat) * 10 powi a = of_nat m * 10 powi b" "\<not> 10 dvd n"
    for n m :: nat and a b :: int
  proof (rule ccontr)
    assume "a \<noteq> b"
    with that(1) have k: "b = a + int (Suc (nat (b - a) - 1))" by simp
    let ?k = "nat (b - a) - 1"
    have "(10 :: rat) powi b = 10 powi a * 10 powi int (Suc ?k)"
      by (subst k, subst power_int_add) simp_all
    also have "\<dots> = 10 powi a * of_nat (10 ^ Suc ?k)" by (simp only: power_int_of_nat of_nat_power of_nat_numeral)
    finally have "(of_nat n :: rat) * 10 powi a = of_nat (m * 10 ^ Suc ?k) * 10 powi a"
      using that(2) by (simp only: of_nat_mult ac_simps)
    then have "(of_nat n :: rat) = of_nat (m * 10 ^ Suc ?k)" by (subst (asm) mult_right_cancel) simp_all
    then have "n = m * 10 ^ Suc ?k" by (simp only: of_nat_eq_iff)
    then have "10 dvd n" by simp
    with that(3) show False ..
  qed
  have "a = b" using key [of a b n m] key [of b a m n] assms by fastforce
  with assms(1) show ?thesis by simp
qed

lemma canonical_zero_or_nonzero:
  "canonical c \<Longrightarrow> canonical_value c = 0 \<longleftrightarrow> c = \<lparr>cd_negative = False, cd_digits = ''0'', cd_scale = 0\<rparr>"
  using digits_positive [of "cd_digits c"] digits_value_zeros [of 1 "[]"]
  by (auto simp: canonical_def canonical_value_def sign_of_def)

lemma canonical_unique:
  assumes "canonical c" and "canonical d" and "canonical_value c = canonical_value d"
  shows "c = d"
proof (cases "canonical_value c = 0")
  case True
  with assms canonical_zero_or_nonzero [of c] canonical_zero_or_nonzero [of d] show ?thesis by metis
next
  case False
  with assms canonical_zero_or_nonzero [of c] canonical_zero_or_nonzero [of d]
  have c: "list_all is_ascii_digit (cd_digits c)" "cd_digits c \<noteq> []" "hd (cd_digits c) \<noteq> CHR ''0''"
      "last (cd_digits c) \<noteq> CHR ''0''"
    and d: "list_all is_ascii_digit (cd_digits d)" "cd_digits d \<noteq> []" "hd (cd_digits d) \<noteq> CHR ''0''"
      "last (cd_digits d) \<noteq> CHR ''0''"
    by (auto simp: canonical_def)
  have pos: "0 < (of_nat (digits_value (cd_digits e)) :: rat) * 10 powi (cd_scale e)"
    if "0 < digits_value (cd_digits e)" for e
    using that by simp
  note pc = pos [OF digits_positive [OF c(1-3)]] and pd = pos [OF digits_positive [OF d(1-3)]]
  have sign: "cd_negative c = cd_negative d"
    using assms(3) pc pd by (cases "cd_negative c"; cases "cd_negative d") (simp_all add: canonical_value_def sign_of_def)
  with assms(3) have "(of_nat (digits_value (cd_digits c)) :: rat) * 10 powi (cd_scale c)
      = of_nat (digits_value (cd_digits d)) * 10 powi (cd_scale d)"
    by (auto simp: canonical_value_def sign_of_def)
  from ten_power_unique [OF this digits_not_ten [OF c(1,2,4)] digits_not_ten [OF d(1,2,4)]]
  have "digits_value (cd_digits c) = digits_value (cd_digits d)" "cd_scale c = cd_scale d" by auto
  with digits_value_inj [OF c(1) d(1)] c(3) d(3) sign show ?thesis by simp
qed

lemma strip_zeros_value:
  assumes "strip_zeros ds scale = Some (digits, scale1)" and "list_all is_ascii_digit ds"
  shows "(of_nat (digits_value digits) :: rat) * 10 powi scale1 = of_nat (digits_value (rev ds)) * 10 powi scale
    \<and> (\<exists>n. rev ds = digits @ replicate n (CHR ''0'')) \<and> (digits \<noteq> [] \<longrightarrow> last digits \<noteq> CHR ''0'')"
  using assms
proof (induction ds arbitrary: scale)
  case (Cons c ds)
  show ?case
  proof (cases "c = CHR ''0''")
    case True
    with Cons.prems have step: "strip_zeros ds (scale + 1) = Some (digits, scale1)"
      by (auto simp: checked_i32_def split: if_splits)
    have scaled: "of_nat (digits_value (rev (c # ds))) * 10 powi scale
        = (of_nat (digits_value (rev ds)) * 10 powi (scale + 1) :: rat)"
      using True by (simp add: digits_value_snoc digit_zero power_int_add)
    from Cons.IH [OF step] Cons.prems(2) obtain n where n: "rev ds = digits @ replicate n (CHR ''0'')"
      and rest: "(of_nat (digits_value digits) :: rat) * 10 powi scale1
          = of_nat (digits_value (rev ds)) * 10 powi (scale + 1)"
        "digits \<noteq> [] \<longrightarrow> last digits \<noteq> CHR ''0''" by auto
    have "rev (c # ds) = digits @ replicate (Suc n) (CHR ''0'')"
      using n True by (simp add: replicate_append_same)
    with rest scaled show ?thesis by (metis)
  next
    case False
    with Cons.prems have "digits = rev (c # ds)" "scale1 = scale" by auto
    moreover from this have "rev (c # ds) = digits @ replicate 0 (CHR ''0'')" by simp
    ultimately show ?thesis using False by fastforce
  qed
qed (auto simp: exI [of _ 0])

section \<open>Reading a text\<close>

lemma digits_no_special:
  "list_all is_ascii_digit s \<Longrightarrow> c \<in> set s \<Longrightarrow> c \<notin> {CHR ''e'', CHR ''E'', CHR ''.'', CHR ''-'', CHR ''+''}"
  by (auto simp: list_all_iff is_ascii_digit_def)

lemma decimal_text_read:
  assumes "list_all is_ascii_digit whole" and "whole \<noteq> []" and "list_all is_ascii_digit fraction"
    and "case exponent of None \<Rightarrow> e = 0 | Some t \<Rightarrow> parse_i32 t = Some e"
  shows "canonical_decimal_of (decimal_text negative whole fraction exponent) =
     Option.bind (checked_i32 (int (length fraction))) (\<lambda>fractional_digits.
     let significant = dropWhile (\<lambda>c. c = CHR ''0'') (whole @ fraction) in
     if significant = [] then Some \<lparr>cd_negative = False, cd_digits = ''0'', cd_scale = 0\<rparr>
     else Option.bind (checked_i32 (e - fractional_digits)) (\<lambda>scale.
          Option.bind (strip_zeros (rev significant) scale) (\<lambda>(digits, scale).
          Some \<lparr>cd_negative = negative, cd_digits = digits, cd_scale = scale\<rparr>)))"
proof -
  let ?s = "decimal_text negative whole fraction exponent"
  let ?digits = "whole @ (if fraction = [] then [] else CHR ''.'' # fraction)"
  let ?m = "(if negative then ''-'' else []) @ ?digits"
  let ?exp = "case exponent of None \<Rightarrow> [] | Some t \<Rightarrow> CHR ''e'' # t"
  note special = digits_no_special [OF assms(1)] digits_no_special [OF assms(3)]
  have s: "?s = ?m @ ?exp" by (simp add: decimal_text_def)
  have "\<forall>c \<in> set ?m. c \<noteq> CHR ''e'' \<and> c \<noteq> CHR ''E''" using special by auto
  then have mantissa0: "takeWhile (\<lambda>c. c \<noteq> CHR ''e'' \<and> c \<noteq> CHR ''E'') ?s = ?m"
    unfolding s by (subst takeWhile_append2) (auto split: option.splits)
  have exponent: "(if length ?m < length ?s then parse_i32 (drop (Suc (length ?m)) ?s) else Some 0) = Some e"
    using assms(4) unfolding s by (cases exponent) auto
  obtain d ds where whole: "whole = d # ds" using assms(2) by (cases whole) auto
  then have d: "d \<noteq> CHR ''-''" "d \<noteq> CHR ''+''" using special by auto
  have negative: "starts_with ?m ''-'' = negative" "starts_with ?m ''+'' = False"
    using whole d by auto
  have mantissa: "(if negative \<or> False then tl ?m else ?m) = ?digits" by simp
  have points: "takeWhile (\<lambda>c. c \<noteq> CHR ''.'') ?digits = whole"
    using special by (subst takeWhile_append2) auto
  have fractional: "(if length whole < length ?digits then int (length ?digits - length whole - 1) else 0) = int (length fraction)"
    by simp
  have keep: "filter (\<lambda>c. c \<noteq> CHR ''.'') ?digits = whole @ fraction"
    using special by (auto simp: filter_id_conv)
  have digits: "\<not> (whole @ fraction = [] \<or> \<not> list_all is_ascii_digit (whole @ fraction))"
    using assms(1-3) by simp
  show ?thesis
    unfolding canonical_decimal_of_def mantissa0 Let_def exponent negative mantissa points fractional keep
    using digits by (simp only: Option.bind.bind_lunit if_False)
qed

lemma canonical_decimal_value:
  assumes "list_all is_ascii_digit whole" and "whole \<noteq> []" and "list_all is_ascii_digit fraction"
    and "case exponent of None \<Rightarrow> e = 0 | Some t \<Rightarrow> parse_i32 t = Some e"
    and "canonical_decimal_of (decimal_text negative whole fraction exponent) = Some c"
  shows "canonical c \<and> canonical_value c = decimal_value negative whole fraction e"
proof -
  let ?digits = "whole @ fraction"
  let ?significant = "dropWhile (\<lambda>c. c = CHR ''0'') ?digits"
  have "?digits = takeWhile (\<lambda>c. c = CHR ''0'') ?digits @ ?significant" by simp
  moreover have "takeWhile (\<lambda>c. c = CHR ''0'') ?digits
      = replicate (length (takeWhile (\<lambda>c. c = CHR ''0'') ?digits)) (CHR ''0'')"
    by (intro replicate_eqI) (auto dest: set_takeWhileD)
  ultimately have significant: "digits_value ?digits = digits_value ?significant"
    by (metis digits_value_zeros)
  have all: "list_all is_ascii_digit ?significant"
  proof -
    have "set ?significant \<subseteq> set ?digits" by (meson set_dropWhileD subsetI)
    moreover have "list_all is_ascii_digit ?digits" using assms(1,3) by simp
    ultimately show ?thesis by (auto simp: list_all_iff)
  qed
  show ?thesis
  proof (cases "?significant = []")
    case True
    with assms(5) have "c = \<lparr>cd_negative = False, cd_digits = ''0'', cd_scale = 0\<rparr>"
      by (auto simp: decimal_text_read [OF assms(1-4)] Let_def Option.bind_eq_Some_conv)
    moreover have "digits_value ''0'' = 0" using digits_value_zeros [of 1 "[]"] by simp
    moreover from significant have "digits_value ?digits = 0" unfolding True by simp
    ultimately show ?thesis by (simp add: canonical_def canonical_value_def decimal_value_def)
  next
    case False
    with assms(5) obtain digits scale where
      strip: "strip_zeros (rev ?significant) (e - int (length fraction)) = Some (digits, scale)" and
      c: "c = \<lparr>cd_negative = negative, cd_digits = digits, cd_scale = scale\<rparr>"
      by (auto simp: decimal_text_read [OF assms(1-4)] Let_def Option.bind_eq_Some_conv checked_i32_def split: if_splits)
    from strip_zeros_value [OF strip] all obtain n where
      kept: "(of_nat (digits_value digits) :: rat) * 10 powi scale
         = of_nat (digits_value ?significant) * 10 powi (e - int (length fraction))"
      and n: "?significant = digits @ replicate n (CHR ''0'')" and last: "digits \<noteq> [] \<longrightarrow> last digits \<noteq> CHR ''0''"
      by auto
    have hd: "hd ?significant \<noteq> CHR ''0''" using hd_dropWhile [OF False] by simp
    have nonempty: "digits \<noteq> []" using n hd False by (cases n) auto
    with hd n have "hd digits \<noteq> CHR ''0''" by simp
    moreover have "list_all is_ascii_digit digits" using all unfolding n by simp
    ultimately have "canonical c" using nonempty last c by (simp add: canonical_def)
    with kept c significant show ?thesis
      by (simp add: canonical_value_def decimal_value_def mult.assoc)
  qed
qed

text \<open>C40: two numbers of a schema are equal for the provider exactly when their texts denote the same
  number, whatever zeros, points and exponents they are written with.\<close>

theorem schema_numbers_compared_by_value:
  assumes "list_all is_ascii_digit w1" and "w1 \<noteq> []" and "list_all is_ascii_digit f1"
    and "case x1 of None \<Rightarrow> e1 = 0 | Some t \<Rightarrow> parse_i32 t = Some e1"
    and "number_text a = decimal_text n1 w1 f1 x1" and "canonical_decimal_of (number_text a) \<noteq> None"
    and "list_all is_ascii_digit w2" and "w2 \<noteq> []" and "list_all is_ascii_digit f2"
    and "case x2 of None \<Rightarrow> e2 = 0 | Some t \<Rightarrow> parse_i32 t = Some e2"
    and "number_text b = decimal_text n2 w2 f2 x2" and "canonical_decimal_of (number_text b) \<noteq> None"
  shows "primitive_schema_values_equal number_text (JNumber a) (JNumber b)
     \<longleftrightarrow> decimal_value n1 w1 f1 e1 = decimal_value n2 w2 f2 e2"
proof -
  from assms(6,12) obtain c d where cd: "canonical_decimal_of (number_text a) = Some c"
    "canonical_decimal_of (number_text b) = Some d" by auto
  from canonical_decimal_value [OF assms(1-4), of n1 c] cd(1) assms(5)
  have c: "canonical c" "canonical_value c = decimal_value n1 w1 f1 e1" by simp_all
  from canonical_decimal_value [OF assms(7-10), of n2 d] cd(2) assms(11)
  have d: "canonical d" "canonical_value d = decimal_value n2 w2 f2 e2" by simp_all
  show ?thesis using canonical_unique [OF c(1) d(1)] c(2) d(2) cd by auto
qed

text \<open>100 and 1e2, which denote the same number, and 1.5 and 15, which do not.\<close>

lemma schema_numbers_compared_by_value_witness:
  "primitive_schema_values_equal (\<lambda>n. if n = JInt 100 then ''100'' else ''1e2'') (JNumber (JInt 100)) (JNumber (JFloat 0))
     = (decimal_value False ''100'' [] 0 = decimal_value False ''1'' [] 2)"
  by (rule schema_numbers_compared_by_value [where ?x1.0 = None and ?x2.0 = "Some ''2''"]) code_simp+

end
