(* ===== verification/Spec2Isabelle.thy ===== *)
theory Spec2Isabelle
  imports RuntimeWitnesses Codec Respond RunTerminal RunEnds Requests Connection Logins Redact Protocol Transport
    ImageWitnesses ProviderWitnesses ProviderDecimal
begin

text \<open>
  Vergerail: a Rust client of the Codex app-server.

  The program starts an app-server process, speaks JSON-RPC with it over its pipes, one JSON value per
  line, and gives its users sessions (threads of the app-server), runs (one turn of a thread each),
  logins, the account, the model list and diagnostics. Reverse requests of the app-server (approvals,
  user input) are answered by the user or, fail-closed, by a task of their own. All paths below are
  under \<open>src/src/\<close>.

  \<^bold>\<open>Parts and theories.\<close>

  \<^item> \<open>Prelude\<close>, \<open>Contracts\<close>: results as sums with their bind, bounded \<open>usize\<close> arithmetic, UTF-8,
    positions in lists; the locales \<open>machine\<close> (an invariant kept by every step), \<open>settling_machine\<close>
    (a first result is final) and \<open>bounded_buffer\<close>, interpreted by the components.
  \<^item> \<open>Errors\<close> (\<open>error.rs\<close>), \<open>Json\<close> (the values of \<open>serde_json\<close>: objects are key-value lists sorted by
    key, numbers keep whether they are integers).
  \<^item> \<open>Wire\<close> (\<open>private/wire.rs\<close>) and \<open>Codec\<close> (\<open>private/codec.rs\<close>): the classification of frames, the
    line reader with its buffer, the encoder and the writer. Parser and printer of JSON are parameters.
  \<^item> \<open>Transport\<close> (\<open>private/process.rs\<close>): the owned process: sending with its dispatch mark, killing,
    shutting down, and the writer, reader and stderr tasks. \<open>Redact\<close> (\<open>private/redact.rs\<close>): the passes
    over a line of stderr and the ring of captured lines.
  \<^item> \<open>Requests\<close> (\<open>private/request.rs\<close>), \<open>Connection\<close> (\<open>private/connection.rs\<close>), \<open>Logins\<close>
    (\<open>account.rs\<close>), \<open>Events\<close> (\<open>event.rs\<close>): the registries of a client, each a record with one
    definition per operation.
  \<^item> \<open>RunState\<close>, \<open>RunBounds\<close>, \<open>RunTerminal\<close>, \<open>RunEnds\<close> (\<open>session/run_state.rs\<close>): the registry of
    runs with the phases of a run, its control and the cells shared with the caller.
  \<^item> \<open>Approval\<close> (\<open>approval.rs\<close>, \<open>approval/protocol.rs\<close>), \<open>Respond\<close> (\<open>approval/respond.rs\<close>), \<open>Protocol\<close>
    (\<open>private/protocol.rs\<close>): decoding of requests, notifications and turns; the answering task.
  \<^item> \<open>Sessions\<close> (values of \<open>session.rs\<close>), \<open>ClientBase\<close> (\<open>config.rs\<close>, the state of \<open>client.rs\<close>),
    \<open>Router\<close> (\<open>client/router.rs\<close>), \<open>ClientCalls\<close>, \<open>ClientSessions\<close>, \<open>ClientAccount\<close> (the operations of
    \<open>client.rs\<close>, \<open>session.rs\<close>, \<open>account.rs\<close>, \<open>model.rs\<close>): the client composed of all of them.
  \<^item> \<open>PngCrc\<close>, \<open>PngFilter\<close>, \<open>Png\<close> (the check of a PNG in \<open>image.rs\<close>, on bytes and 32-bit words),
    \<open>PngRows\<close>, \<open>PngGrammar\<close>, \<open>PngRules\<close>, \<open>PngTheorems\<close> (the files it accepts as a grammar with a reference
    encoder of rows), \<open>Image\<close> (the request, the login, the billed operation and the worker of \<open>image.rs\<close>),
    \<open>ClientImage\<close> (\<open>generate_image\<close> of \<open>client.rs\<close>), \<open>ImageTheorems\<close>, \<open>ImageWitnesses\<close>.
  \<^item> \<open>ClientSteps\<close>, \<open>ClientMachine\<close>, \<open>ClientProps\<close>: the locales \<open>client_core\<close> and \<open>client_closure\<close>, the
    contract of a relation that contains every operation of a client as soon as it contains the atomic
    steps of its components, and its interpretations. \<open>ClientTheorems\<close>, \<open>ClientFrames\<close>,
    \<open>ClientOutcomes\<close>, \<open>ClientWitnesses\<close>: what follows for a client, and concrete inputs.
  \<^item> \<open>Paths\<close> (paths as lists of components), \<open>Os\<close> (the calls of the operating system, the HTTP client and
    the archive reader), \<open>RuntimeLock\<close> (\<open>runtime/lock.rs\<close>), \<open>RuntimePackage\<close>, \<open>CanonicalJson\<close>,
    \<open>VersionProbe\<close>, \<open>VerifyJob\<close>, with \<open>Trim\<close> (\<open>runtime.rs\<close>), \<open>Guardian\<close> (\<open>private/process_tree.rs\<close>),
    \<open>PrivateDirs\<close>, \<open>RuntimeManager\<close> (\<open>runtime/manager.rs\<close>): the pinned runtime, its verification on disk,
    its version probe under a guardian, and its discovery and installation.
  \<^item> \<open>RuntimeDisk\<close>, \<open>RuntimeTree\<close> (a disk as a map from paths, and the walk over it), \<open>OsCalls\<close> (which
    calls a step may make), \<open>RuntimeLockTheorems\<close>, \<open>RuntimePackageTheorems\<close>, \<open>VersionTheorems\<close>,
    \<open>ManagerTheorems\<close>, \<open>InstallTheorems\<close>, \<open>RuntimeWitnesses\<close>: what follows for the runtime.

  \<^item> \<open>ProviderFailure\<close>, \<open>ProviderSchema\<close>, \<open>ProviderClose\<close>, \<open>ProviderRequest\<close>, \<open>ProviderValidate\<close>,
    \<open>ProviderPrompt\<close>, \<open>ProviderTurn\<close>, \<open>ProviderMain\<close> (\<open>bin/vergerail_upagent_provider.rs\<close>): the executable that
    answers one request of UpAgent: its failures, the closing of the output schema, the validation of a
    request, the staged images and the prompt, one model turn, and the process. \<open>ProviderStrict\<close>,
    \<open>ProviderOutputSchema\<close>, \<open>ProviderDecimal\<close>, \<open>ProviderAnswers\<close>, \<open>ProviderStaging\<close>, \<open>ProviderImages\<close>,
    \<open>ProviderProcess\<close>, \<open>ProviderWitnesses\<close>: what follows for it.

  \<^bold>\<open>State and concurrency.\<close> Each registry of the code is behind one mutex; an operation that holds it
  is one definition from state to state, and the order in which tasks interleave is a list of such
  steps. The cells a caller and a registry share (channels, flags) are part of the registry's state and
  named by numbers. The client's state \<open>client\<close> holds the registries, the process, the spawned tasks
  that have not run, the responders that were dropped, and a tick. All that comes from outside is the
  \<open>environment\<close>, functions of the tick: what is left of the deadline, the fate of a send, of a kill and
  of a shutdown, the file system, and the events the router handles while an operation waits. An
  operation that waits runs \<open>router_loop\<close> over these events and then finds its response or not, so
  that everything the router may do in the meantime happens inside the operation. The steps of which
  operations, the router and the spawned tasks consist are the relation \<open>atomic_step\<close>; \<open>client_moment\<close> is
  a client at any moment of such steps of any number of operations in any interleaving, with requests,
  runs and logins that wait, and the state between calls is one of them. What holds at any moment is
  stated of it (\<open>client_keeps_invariant\<close>, \<open>disconnect_settles\<close>). The task that answers a reverse request
  is a machine of its own (\<open>Respond\<close>) over the process and what others do with it: an answer is given to
  the process once, and it is delivered or the process is ended.

  The runtime code is sequential but meets a file system that others change. There a step takes an
  environment and the log of the calls made so far; every reply is a function of the log with the call
  on top, so two equal calls may be answered differently, and a property of the order of calls speaks of
  the log. The configuration modelled is macOS on aarch64, the one the guardian exists for. A path is
  its list of components: a trailing slash and the spelling of the bytes between components are not
  kept. Digests, \<open>serde\<close> derivations and the order of a hash set are parameters. The provider is modelled
  over the same steps: a call of the client library is a call of the log, answered by a parameter, and a
  model turn that the deadline drops is a step that fails where it stands.

  \<^bold>\<open>What the lemmas show.\<close> Bounds: output, queues, diagnostics, stderr and the reader's buffer
  (\<open>RunBounds\<close>, \<open>Events\<close>, \<open>Redact\<close>, \<open>Codec\<close>). Finality and ownership: results, answers, interrupts,
  disconnects (\<open>RunTerminal\<close>, \<open>RunEnds\<close>, \<open>Respond\<close>, \<open>Requests\<close>, \<open>Logins\<close>, \<open>Connection\<close>). Independence
  of chunking (\<open>Codec\<close>, \<open>Transport\<close>), exactness of decoding (\<open>Approval\<close>, \<open>Protocol\<close>, \<open>Wire\<close>).
  For the client: at any moment the state of every component is one it reaches by its own operations, so
  that their invariants hold (the lemmas \<open>moment_histories\<close> and \<open>moment_components\<close> of \<open>ClientTheorems\<close>); which frames an operation can write (\<open>ClientTheorems\<close>, \<open>ClientFrames\<close>); what
  disconnects, shutdowns and requests of the app-server lead to (\<open>ClientOutcomes\<close>). For images: which PNGs
  are accepted and which damage is noticed (\<open>PngTheorems\<close>), how often a billed request is posted and what
  its caller learns (\<open>ImageTheorems\<close>). For the runtime: which metadata and which packages on a disk are
  accepted (\<open>RuntimeLockTheorems\<close>, \<open>RuntimePackageTheorems\<close>), what the version probe accepts and leaves
  behind (\<open>VersionTheorems\<close>), which calls a resolution, an extraction and an installation can make and
  what a resolved runtime has passed (\<open>InstallTheorems\<close>). For the provider: which output schemas exist and
  that they are closed (\<open>ProviderOutputSchema\<close>), that numbers are compared by value (\<open>ProviderDecimal\<close>), what
  an answer has passed (\<open>ProviderAnswers\<close>), where its images are written, how the prompt names them and that
  they are removed (\<open>ProviderImages\<close>, \<open>ProviderStaging\<close>), that the process leaves no client connected,
  and that it writes the one frame for its outcome after at most one dispatch (\<open>ProviderProcess\<close>).

  \<^bold>\<open>Bounds and fuel.\<close> The reader task has one unit of fuel per byte of its input and one more, since a
  frame takes at least one byte (\<open>reader_closes_once\<close>). The model list has the code's own limit of 1000
  pages. The replay of deferred notifications and the wait for a run take the rounds of events they meet
  from the environment; the replay ends with its last round because nothing arrives any more, a wait
  that has not ended yet has no result. All other loops are structural or have a termination proof.

  The walk over a package ends since a directory is pushed only below the one it was found in and only
  when it is expected (a multiset order); reads of a file and of a download are bounded by the ceiling.
  The closing of a schema ends since a weight falls in which what lies below \<open>properties\<close> counts more than
  the nullable wrapping of its parts can add (\<open>ProviderClose\<close>).

  \<^bold>\<open>Not modelled.\<close> The guardian program (\<open>native/\<close>, in C), the locks and the scheduler of the asynchronous
  runtime beyond the interleavings above, \<open>Debug\<close> output and accessors, the examples, the tests and the
  build script, and the executable \<open>bin/ifsc_text_provider.rs\<close>.
\<close>

end
